(* ===== verification/Prelude.thy ===== *)
theory Prelude
  imports Main "HOL-Library.Char_ord" "HOL-Library.List_Lexorder"
begin

text \<open>
  The base of the development: Python values and strings, instants of time, the errors the
  services raise, the state-and-exception operations the services are written in, and database
  tables. Nothing here is specific to one application of the repository.

  \<^item> Text is \<^typ>\<open>string\<close>, a list of characters; letter case is the ASCII one.
  \<^item> An instant (\<open>datetime\<close>) is the number of microseconds since an epoch, which is
    the resolution of Python's aware datetimes; a \<open>timedelta\<close> is a difference of instants.
  \<^item> A primary key (\<open>uuid\<close>) is a number drawn from a supply that never repeats one.
  \<^item> An operation maps a state to a result (an error or a value) and the state it leaves. A
    function decorated with \<^verbatim>\<open>transaction.atomic\<close> is wrapped in \<open>atomic\<close>,
    which restores the state when an error escapes.
  \<^item> A database table is the list of its rows.
\<close>

named_theorems op_simps \<open>evaluation of state-and-exception operations\<close>
named_theorems preserves_intros \<open>composition rules for preserved predicates\<close>

section \<open>Instants\<close>

type_synonym datetime = int
type_synonym uuid = nat

definition seconds :: "int \<Rightarrow> int" where
  "seconds n = n * 1000000"

definition minutes :: "int \<Rightarrow> int" where
  "minutes n = seconds (60 * n)"

definition hours :: "int \<Rightarrow> int" where
  "hours n = seconds (3600 * n)"

definition days :: "int \<Rightarrow> int" where
  "days n = seconds (86400 * n)"

definition whole_seconds :: "int \<Rightarrow> int" where
  \<comment> \<open>\<^verbatim>\<open>int(delta.total_seconds())\<close>: truncation towards zero\<close>
  "whole_seconds d = (if 0 \<le> d then d div 1000000 else - ((- d) div 1000000))"

lemmas time_defs = seconds_def minutes_def hours_def days_def

lemma seconds_le_iff [simp]: "seconds a \<le> seconds b \<longleftrightarrow> a \<le> b"
  by (simp add: seconds_def)

lemma seconds_less_iff [simp]: "seconds a < seconds b \<longleftrightarrow> a < b"
  by (simp add: seconds_def)

lemma seconds_zero [simp]: "seconds 0 = 0"
  by (simp add: seconds_def)

lemma seconds_pos_iff [simp]: "0 < seconds n \<longleftrightarrow> 0 < n"
  by (simp add: seconds_def)

lemma whole_seconds_seconds [simp]: "whole_seconds (seconds n) = n"
proof -
  have "- (n * 1000000) div 1000000 = - n"
    by (simp flip: mult_minus_left)
  then show ?thesis by (simp add: whole_seconds_def seconds_def)
qed

lemma whole_seconds_mono: "a \<le> b \<Longrightarrow> whole_seconds a \<le> whole_seconds b"
proof -
  assume "a \<le> b"
  then consider "0 \<le> a" "0 \<le> b" | "a < 0" "0 \<le> b" | "a < 0" "b < 0" by linarith
  then show ?thesis
  proof cases
    case 1
    with \<open>a \<le> b\<close> show ?thesis by (simp add: whole_seconds_def zdiv_mono1)
  next
    case 2
    then have "0 \<le> (- a) div 1000000" and "0 \<le> b div 1000000"
      by (simp_all add: pos_imp_zdiv_nonneg_iff)
    with 2 show ?thesis by (simp add: whole_seconds_def)
  next
    case 3
    with \<open>a \<le> b\<close> have "(- b) div 1000000 \<le> (- a) div 1000000" by (simp add: zdiv_mono1)
    with 3 show ?thesis by (simp add: whole_seconds_def)
  qed
qed

section \<open>Python strings\<close>

definition char_code :: "char \<Rightarrow> nat" where
  "char_code c = of_char c"

definition lower_char :: "char \<Rightarrow> char" where
  "lower_char c =
     (if 65 \<le> char_code c \<and> char_code c \<le> 90 then char_of (char_code c + 32) else c)"

definition upper_char :: "char \<Rightarrow> char" where
  "upper_char c =
     (if 97 \<le> char_code c \<and> char_code c \<le> 122 then char_of (char_code c - 32) else c)"

definition py_lower :: "string \<Rightarrow> string" where
  "py_lower s = map lower_char s"

definition py_upper :: "string \<Rightarrow> string" where
  "py_upper s = map upper_char s"

definition py_casefold :: "string \<Rightarrow> string" where
  "py_casefold s = map lower_char s"

definition is_space :: "char \<Rightarrow> bool" where
  "is_space c \<longleftrightarrow> char_code c \<in> {9, 10, 11, 12, 13, 28, 29, 30, 31, 32}"

definition py_lstrip :: "string \<Rightarrow> string" where
  "py_lstrip s = dropWhile is_space s"

definition py_strip :: "string \<Rightarrow> string" where
  "py_strip s = rev (dropWhile is_space (rev (dropWhile is_space s)))"

definition py_remove :: "char \<Rightarrow> string \<Rightarrow> string" where
  \<comment> \<open>\<^verbatim>\<open>s.replace(c, "")\<close> for a one-character \<open>c\<close>\<close>
  "py_remove c s = filter (\<lambda>d. d \<noteq> c) s"

definition startswith :: "string \<Rightarrow> string \<Rightarrow> bool" where
  "startswith p s \<longleftrightarrow> take (length p) s = p"

fun str_in :: "string \<Rightarrow> string \<Rightarrow> bool" where
  \<comment> \<open>\<^verbatim>\<open>p in s\<close>\<close>
  "str_in p [] = (p = [])"
| "str_in p (c # s) = (startswith p (c # s) \<or> str_in p s)"

definition before_char :: "char \<Rightarrow> string \<Rightarrow> string" where
  \<comment> \<open>\<^verbatim>\<open>s.split(c, 1)[0]\<close>\<close>
  "before_char c s = takeWhile (\<lambda>d. d \<noteq> c) s"

definition after_char :: "char \<Rightarrow> string \<Rightarrow> string option" where
  \<comment> \<open>\<^verbatim>\<open>s.split(c, 1)[1]\<close>; \<open>None\<close> where the index is out of range\<close>
  "after_char c s =
     (case dropWhile (\<lambda>d. d \<noteq> c) s of [] \<Rightarrow> None | _ # rest \<Rightarrow> Some rest)"

definition iexact :: "string \<Rightarrow> string \<Rightarrow> bool" where
  \<comment> \<open>the \<^verbatim>\<open>__iexact\<close> lookup, and equality under \<^verbatim>\<open>Lower(...)\<close>\<close>
  "iexact a b \<longleftrightarrow> py_lower a = py_lower b"

lemmas string_defs = py_lower_def py_upper_def py_casefold_def lower_char_def upper_char_def
  char_code_def is_space_def py_strip_def py_lstrip_def py_remove_def

lemma char_code_less [simp]: "char_code c < 256"
  by (simp add: char_code_def)

lemma char_code_char_of [simp]: "n < 256 \<Longrightarrow> char_code (char_of n) = n"
  by (simp add: char_code_def)

lemma char_code_inj [simp]: "char_code a = char_code b \<longleftrightarrow> a = b"
  by (simp add: char_code_def)

lemma char_code_lower:
  "char_code (lower_char c) =
     (if 65 \<le> char_code c \<and> char_code c \<le> 90 then char_code c + 32 else char_code c)"
  by (simp add: lower_char_def)

lemma char_code_upper:
  "char_code (upper_char c) =
     (if 97 \<le> char_code c \<and> char_code c \<le> 122 then char_code c - 32 else char_code c)"
  using char_code_less [of c] by (auto simp: upper_char_def intro!: char_code_char_of)

lemma lower_char_idem [simp]: "lower_char (lower_char c) = lower_char c"
  by (subst char_code_inj [symmetric]) (simp add: char_code_lower)

lemma upper_char_idem [simp]: "upper_char (upper_char c) = upper_char c"
  by (subst char_code_inj [symmetric]) (auto simp: char_code_upper)

lemma is_space_lower_char [simp]: "is_space (lower_char c) = is_space c"
  by (auto simp: is_space_def char_code_lower)

lemma is_space_upper_char [simp]: "is_space (upper_char c) = is_space c"
  by (auto simp: is_space_def char_code_upper)

lemma py_lower_idem [simp]: "py_lower (py_lower s) = py_lower s"
  by (simp add: py_lower_def)

lemma py_upper_idem [simp]: "py_upper (py_upper s) = py_upper s"
  by (simp add: py_upper_def)

lemma py_casefold_idem [simp]: "py_casefold (py_casefold s) = py_casefold s"
  by (simp add: py_casefold_def)

lemma py_lower_casefold [simp]: "py_lower (py_casefold s) = py_casefold s"
  by (simp add: py_casefold_def py_lower_def)

lemma dropWhile_space_map:
  assumes "\<And>c. is_space (f c) = is_space c"
  shows "dropWhile is_space (map f s) = map f (dropWhile is_space s)"
  using assms by (induction s) auto

lemma py_strip_map:
  assumes "\<And>c. is_space (f c) = is_space c"
  shows "py_strip (map f s) = map f (py_strip s)"
  by (simp add: py_strip_def dropWhile_space_map [OF assms] rev_map)

lemma py_strip_casefold: "py_strip (py_casefold s) = py_casefold (py_strip s)"
  unfolding py_casefold_def by (rule py_strip_map) simp

lemma py_strip_upper: "py_strip (py_upper s) = py_upper (py_strip s)"
  unfolding py_upper_def by (rule py_strip_map) simp

lemma dropWhile_hd: "dropWhile P s = s \<longleftrightarrow> s = [] \<or> \<not> P (hd s)"
proof (cases s)
  case (Cons c r)
  have "length (dropWhile P r) \<le> length r" by (rule length_dropWhile_le)
  then have "dropWhile P r \<noteq> c # r" by (metis Suc_n_not_le_n length_Cons)
  with Cons show ?thesis by auto
qed simp

lemma hd_rev_dropWhile_rev:
  assumes "rev (dropWhile P (rev s)) \<noteq> []"
  shows "hd (rev (dropWhile P (rev s))) = hd s"
proof -
  have "s = rev (dropWhile P (rev s)) @ rev (takeWhile P (rev s))"
    by (metis rev_append rev_rev_ident takeWhile_dropWhile_id)
  with assms show ?thesis by (metis hd_append2)
qed

lemma py_strip_idem [simp]: "py_strip (py_strip s) = py_strip s"
proof -
  let ?l = "dropWhile is_space s"
  have "dropWhile is_space ?l = ?l" by simp
  then have "?l = [] \<or> \<not> is_space (hd ?l)" by (simp only: dropWhile_hd)
  then have "dropWhile is_space (py_strip s) = py_strip s"
    unfolding py_strip_def dropWhile_hd using hd_rev_dropWhile_rev [of is_space ?l] by fastforce
  then show ?thesis by (simp add: py_strip_def)
qed

lemma iexact_refl [simp]: "iexact a a"
  by (simp add: iexact_def)

lemma iexact_sym: "iexact a b \<longleftrightarrow> iexact b a"
  by (auto simp: iexact_def)

lemma iexact_trans: "iexact a b \<Longrightarrow> iexact b c \<Longrightarrow> iexact a c"
  by (simp add: iexact_def)

lemma startswith_append [simp]: "startswith p (p @ s)"
  by (simp add: startswith_def)

lemma str_in_append_left: "str_in p s \<Longrightarrow> str_in p (t @ s)"
proof (induction t)
  case (Cons c t)
  then show ?case by (cases "t @ s") auto
qed simp

lemma str_in_prefix: "startswith p s \<Longrightarrow> str_in p s"
  by (cases s) (auto simp: startswith_def)

lemma before_char_append [simp]:
  "c \<notin> set a \<Longrightarrow> before_char c (a @ c # b) = a"
  by (induction a) (auto simp: before_char_def)

lemma after_char_append [simp]:
  "c \<notin> set a \<Longrightarrow> after_char c (a @ c # b) = Some b"
  by (induction a) (auto simp: after_char_def)

definition py_sorted_set :: "string list \<Rightarrow> string list" where
  \<comment> \<open>\<^verbatim>\<open>sorted(set(xs))\<close>\<close>
  "py_sorted_set xs = sort (remdups xs)"

lemma set_py_sorted_set [simp]: "set (py_sorted_set xs) = set xs"
  by (simp add: py_sorted_set_def)

lemma distinct_py_sorted_set [simp]: "distinct (py_sorted_set xs)"
  by (simp add: py_sorted_set_def)

lemma sorted_py_sorted_set [simp]: "sorted (py_sorted_set xs)"
  by (simp add: py_sorted_set_def)

end
