(* ===== verification/Operations.thy ===== *)
theory Operations
  imports Prelude
begin

text \<open>
  The second half of the prelude: Python values as far as the services store them, the errors
  that escape the services, operations over a state (a result and the state left behind, with
  \<open>atomic\<close> for \<^verbatim>\<open>transaction.atomic\<close>), the calculus of preserved
  predicates, and the table operations behind the query sets.
\<close>

section \<open>Python values\<close>

text \<open>
  The values that reach a JSON column or a log record. A float, a \<^verbatim>\<open>Decimal\<close> and
  any other object are represented by their text; dictionary keys are text.
\<close>

datatype pyval =
    PNone
  | PBool bool
  | PInt int
  | PFloat string
  | PStr string
  | PList "pyval list"
  | PTuple "pyval list"
  | PDict "(string \<times> pyval) list"
  | PDatetime datetime
  | PUUID uuid
  | PDecimal string
  | PObject string

fun truthy :: "pyval \<Rightarrow> bool" where
  \<comment> \<open>\<^verbatim>\<open>bool(v)\<close>\<close>
  "truthy PNone = False"
| "truthy (PBool b) = b"
| "truthy (PInt i) = (i \<noteq> 0)"
| "truthy (PFloat f) = (f \<noteq> ''0.0'' \<and> f \<noteq> ''-0.0'')"
| "truthy (PStr t) = (t \<noteq> [])"
| "truthy (PList vs) = (vs \<noteq> [])"
| "truthy (PTuple vs) = (vs \<noteq> [])"
| "truthy (PDict kvs) = (kvs \<noteq> [])"
| "truthy (PDecimal t) = list_ex (\<lambda>c. c \<in> set ''123456789NI'') (before_char (CHR ''E'') t)"
| "truthy (PDatetime d) = True"
| "truthy (PUUID u) = True"
| "truthy (PObject t) = True"

definition pair_get :: "string \<Rightarrow> (string \<times> 'v) list \<Rightarrow> 'v option" where
  "pair_get k kvs = map_of kvs k"

section \<open>Errors\<close>

text \<open>
  \<open>APIException detail code status fields\<close> is \<^verbatim>\<open>common.exceptions.APIException\<close>;
  \<open>InvalidData\<close> is REST framework's \<^verbatim>\<open>ValidationError\<close> with its detail, where
  \<open>ValidationError\<close> is Django's;
  the others are Django's, REST framework's and Python's own exceptions, by class, with the text
  or the constraint that identifies the raising place.
\<close>

datatype error =
    APIException string string int "(string \<times> pyval) list"
  | ValidationError string
  | AuthenticationFailed string
  | DoesNotExist string
  | MultipleObjectsReturned string
  | IntegrityError string
  | ValueError string
  | OverflowError string
  | KeyError string
  | TypeError string
  | RuntimeError string
  | ImproperlyConfigured string
  | CommandError string
  | ProtectedError string
  | NotAuthenticated
  | PermissionDenied string
  | NotFound
  | Throttled
  | InvalidData pyval

abbreviation api_error :: "string \<Rightarrow> string \<Rightarrow> int \<Rightarrow> error" where
  "api_error detail code status \<equiv> APIException detail code status []"

section \<open>Operations\<close>

type_synonym ('s, 'a) op = "'s \<Rightarrow> (error + 'a) \<times> 's"

definition ret :: "'a \<Rightarrow> ('s, 'a) op" where
  "ret x = (\<lambda>s. (Inr x, s))"

definition throw :: "error \<Rightarrow> ('s, 'a) op" where
  "throw e = (\<lambda>s. (Inl e, s))"

definition bind_op :: "('s, 'a) op \<Rightarrow> ('a \<Rightarrow> ('s, 'b) op) \<Rightarrow> ('s, 'b) op" where
  "bind_op m f = (\<lambda>s. case m s of (Inl e, s') \<Rightarrow> (Inl e, s') | (Inr x, s') \<Rightarrow> f x s')"

definition then_op :: "('s, 'a) op \<Rightarrow> ('s, 'b) op \<Rightarrow> ('s, 'b) op" where
  "then_op m n = bind_op m (\<lambda>_. n)"

definition reads :: "('s \<Rightarrow> 'a) \<Rightarrow> ('s, 'a) op" where
  "reads f = (\<lambda>s. (Inr (f s), s))"

definition modify :: "('s \<Rightarrow> 's) \<Rightarrow> ('s, unit) op" where
  "modify f = (\<lambda>s. (Inr (), f s))"

definition raise_if :: "bool \<Rightarrow> error \<Rightarrow> ('s, unit) op" where
  "raise_if b e = (if b then throw e else ret ())"

definition when_op :: "bool \<Rightarrow> ('s, unit) op \<Rightarrow> ('s, unit) op" where
  "when_op b m = (if b then m else ret ())"

definition of_sum :: "error + 'a \<Rightarrow> ('s, 'a) op" where
  "of_sum r = (\<lambda>s. (r, s))"

definition catch_op :: "('s, 'a) op \<Rightarrow> (error \<Rightarrow> ('s, 'a) op) \<Rightarrow> ('s, 'a) op" where
  "catch_op m h = (\<lambda>s. case m s of (Inl e, s') \<Rightarrow> h e s' | (Inr x, s') \<Rightarrow> (Inr x, s'))"

definition atomic :: "('s, 'a) op \<Rightarrow> ('s, 'a) op" where
  "atomic m = (\<lambda>s. case m s of (Inl e, _) \<Rightarrow> (Inl e, s) | (Inr x, s') \<Rightarrow> (Inr x, s'))"

fun for_each :: "('x \<Rightarrow> ('s, unit) op) \<Rightarrow> 'x list \<Rightarrow> ('s, unit) op" where
  "for_each f [] = ret ()"
| "for_each f (x # xs) = then_op (f x) (for_each f xs)"

lemma op_runs [op_simps]:
  "ret x s = (Inr x, s)"
  "throw e s = (Inl e, s)"
  "reads f s = (Inr (f s), s)"
  "modify g s = (Inr (), g s)"
  "of_sum r s = (r, s)"
  "raise_if b e s = (if b then (Inl e, s) else (Inr (), s))"
  "when_op b m' s = (if b then m' s else (Inr (), s))"
  by (simp_all add: ret_def throw_def reads_def modify_def of_sum_def raise_if_def when_op_def)

lemma bind_op_run [op_simps]:
  "bind_op m f s = (case m s of (Inl e, s') \<Rightarrow> (Inl e, s') | (Inr x, s') \<Rightarrow> f x s')"
  by (simp add: bind_op_def)

lemma then_op_run [op_simps]:
  "then_op m n s = (case m s of (Inl e, s') \<Rightarrow> (Inl e, s') | (Inr x, s') \<Rightarrow> n s')"
  by (simp add: then_op_def bind_op_def)

lemma catch_op_run [op_simps]:
  "catch_op m h s = (case m s of (Inl e, s') \<Rightarrow> h e s' | (Inr x, s') \<Rightarrow> (Inr x, s'))"
  by (simp add: catch_op_def)

lemma atomic_run [op_simps]:
  "atomic m s = (case m s of (Inl e, _) \<Rightarrow> (Inl e, s) | (Inr x, s') \<Rightarrow> (Inr x, s'))"
  by (simp add: atomic_def)

lemma bind_op_ok: "m s = (Inr x, s') \<Longrightarrow> bind_op m f s = f x s'"
  by (simp add: bind_op_def)

lemma then_op_ok: "m s = (Inr x, s') \<Longrightarrow> then_op m n s = n s'"
  by (simp add: then_op_def bind_op_def)

lemma atomic_ok: "m s = (Inr x, s') \<Longrightarrow> atomic m s = (Inr x, s')"
  by (simp add: atomic_def)

lemma bind_op_Inr_iff:
  "bind_op m f s = (Inr y, s'') \<longleftrightarrow> (\<exists>x s'. m s = (Inr x, s') \<and> f x s' = (Inr y, s''))"
  by (auto simp: bind_op_def split: prod.splits sum.splits)

lemma then_op_Inr_iff:
  "then_op m n s = (Inr y, s'') \<longleftrightarrow> (\<exists>x s'. m s = (Inr x, s') \<and> n s' = (Inr y, s''))"
  by (simp add: then_op_def bind_op_Inr_iff)

lemma atomic_Inr_iff: "atomic m s = (Inr y, s') \<longleftrightarrow> m s = (Inr y, s')"
  by (auto simp: atomic_def split: prod.splits sum.splits)

lemma atomic_Inl_iff: "atomic m s = (Inl e, s') \<longleftrightarrow> s' = s \<and> fst (m s) = Inl e"
  by (auto simp: atomic_def split: prod.splits sum.splits)

lemma raise_if_Inr_iff: "raise_if b e s = (Inr y, s') \<longleftrightarrow> \<not> b \<and> s' = s"
  by (auto simp: raise_if_def throw_def ret_def)

lemma when_op_Inr_iff:
  "when_op b m s = (Inr y, s') \<longleftrightarrow> (if b then m s = (Inr y, s') else s' = s)"
  by (auto simp: when_op_def ret_def)

lemmas op_Inr_iffs = bind_op_Inr_iff then_op_Inr_iff atomic_Inr_iff raise_if_Inr_iff
  when_op_Inr_iff

text \<open>An error that escapes an atomic operation leaves the state as it was.\<close>

lemma atomic_rollback: "fst (atomic m s) = Inl e \<Longrightarrow> snd (atomic m s) = s"
  by (auto simp: atomic_def split: prod.splits sum.splits)

lemma atomic_fst: "fst (atomic m s) = fst (m s)"
  by (auto simp: atomic_def split: prod.splits sum.splits)

lemma run_succeeds:
  assumes "\<not> isl (fst p)"
  obtains x s' where "p = (Inr x, s')"
  using assms by (cases p; cases "fst p") auto

section \<open>Preserved predicates\<close>

definition preserves :: "('s \<Rightarrow> bool) \<Rightarrow> ('s, 'a) op \<Rightarrow> bool" where
  "preserves P m \<longleftrightarrow> (\<forall>s. P s \<longrightarrow> P (snd (m s)))"

lemma preservesI: "(\<And>s. P s \<Longrightarrow> P (snd (m s))) \<Longrightarrow> preserves P m"
  by (simp add: preserves_def)

lemma preservesD: "preserves P m \<Longrightarrow> P s \<Longrightarrow> P (snd (m s))"
  by (simp add: preserves_def)

lemma preserves_run: "preserves P m \<Longrightarrow> P s \<Longrightarrow> m s = (r, s') \<Longrightarrow> P s'"
  using preservesD by fastforce

lemma preserves_ret [preserves_intros]: "preserves P (ret x)"
  by (simp add: preserves_def ret_def)

lemma preserves_throw [preserves_intros]: "preserves P (throw e)"
  by (simp add: preserves_def throw_def)

lemma preserves_reads [preserves_intros]: "preserves P (reads f)"
  by (simp add: preserves_def reads_def)

lemma preserves_of_sum [preserves_intros]: "preserves P (of_sum r)"
  by (simp add: preserves_def of_sum_def)

lemma preserves_modify [preserves_intros]:
  "(\<And>s. P s \<Longrightarrow> P (f s)) \<Longrightarrow> preserves P (modify f)"
  by (simp add: preserves_def modify_def)

lemma preserves_raise_if [preserves_intros]: "preserves P (raise_if b e)"
  by (simp add: raise_if_def preserves_ret preserves_throw)

lemma preserves_when_op [preserves_intros]: "(b \<Longrightarrow> preserves P m) \<Longrightarrow> preserves P (when_op b m)"
  by (simp add: when_op_def preserves_ret)

lemma preserves_bind_op [preserves_intros]:
  assumes "preserves P m" and "\<And>x. preserves P (f x)"
  shows "preserves P (bind_op m f)"
proof (rule preservesI)
  fix s assume P: "P s"
  obtain r s' where r: "m s = (r, s')" by fastforce
  then have "P s'" using assms(1) P by (auto intro: preserves_run)
  with r assms(2) show "P (snd (bind_op m f s))"
    by (auto simp: bind_op_def preserves_def split: sum.splits)
qed

lemma preserves_then_op [preserves_intros]:
  "preserves P m \<Longrightarrow> preserves P n \<Longrightarrow> preserves P (then_op m n)"
  by (simp add: then_op_def preserves_bind_op)

lemma preserves_catch_op [preserves_intros]:
  assumes "preserves P m" and "\<And>e. preserves P (h e)"
  shows "preserves P (catch_op m h)"
proof (rule preservesI)
  fix s assume P: "P s"
  obtain r s' where r: "m s = (r, s')" by fastforce
  then have "P s'" using assms(1) P by (auto intro: preserves_run)
  with r assms(2) show "P (snd (catch_op m h s))"
    by (auto simp: catch_op_def preserves_def split: sum.splits)
qed

lemma preserves_atomic [preserves_intros]:
  assumes "preserves P m"
  shows "preserves P (atomic m)"
proof (rule preservesI)
  fix s assume "P s"
  with assms show "P (snd (atomic m s))"
    by (auto simp: atomic_def preserves_def split: prod.splits sum.splits)
qed

lemma preserves_for_each [preserves_intros]:
  "(\<And>x. preserves P (f x)) \<Longrightarrow> preserves P (for_each f xs)"
  by (induction xs) (simp_all add: preserves_ret preserves_then_op)

lemma preserves_if [preserves_intros]:
  "(b \<Longrightarrow> preserves P m) \<Longrightarrow> (\<not> b \<Longrightarrow> preserves P n) \<Longrightarrow> preserves P (if b then m else n)"
  by simp

lemma preserves_case_option [preserves_intros]:
  "(x = None \<Longrightarrow> preserves P m) \<Longrightarrow> (\<And>y. x = Some y \<Longrightarrow> preserves P (f y)) \<Longrightarrow>
   preserves P (case x of None \<Rightarrow> m | Some y \<Rightarrow> f y)"
  by (cases x) auto

lemma preserves_case_sum [preserves_intros]:
  "(\<And>y. x = Inl y \<Longrightarrow> preserves P (g y)) \<Longrightarrow> (\<And>y. x = Inr y \<Longrightarrow> preserves P (f y)) \<Longrightarrow>
   preserves P (case x of Inl y \<Rightarrow> g y | Inr y \<Rightarrow> f y)"
  by (cases x) auto

lemma preserves_case_prod [preserves_intros]:
  "(\<And>a b. x = (a, b) \<Longrightarrow> preserves P (f a b)) \<Longrightarrow> preserves P (case x of (a, b) \<Rightarrow> f a b)"
  by (cases x) auto

lemma preserves_Let [preserves_intros]: "preserves P (f v) \<Longrightarrow> preserves P (let x = v in f x)"
  by simp

text \<open>A part of the state that an operation never changes.\<close>

definition keeps :: "('s \<Rightarrow> 'b) \<Rightarrow> ('s, 'a) op \<Rightarrow> bool" where
  "keeps f m \<longleftrightarrow> (\<forall>v. preserves (\<lambda>s. f s = v) m)"

lemma keepsI: "(\<And>v. preserves (\<lambda>s. f s = v) m) \<Longrightarrow> keeps f m"
  by (simp add: keeps_def)

lemma keepsD: "keeps f m \<Longrightarrow> f (snd (m s)) = f s"
  by (simp add: keeps_def preserves_def)

lemma keeps_run: "keeps f m \<Longrightarrow> m s = (r, s') \<Longrightarrow> f s' = f s"
  using keepsD [of f m s] by simp

lemma keeps_preserves: "keeps f m \<Longrightarrow> preserves (\<lambda>s. P (f s)) m"
  by (simp add: keeps_def preserves_def)

section \<open>Tables\<close>

definition update_where :: "('r \<Rightarrow> bool) \<Rightarrow> ('r \<Rightarrow> 'r) \<Rightarrow> 'r list \<Rightarrow> 'r list" where
  "update_where P f t = map (\<lambda>r. if P r then f r else r) t"

definition delete_where :: "('r \<Rightarrow> bool) \<Rightarrow> 'r list \<Rightarrow> 'r list" where
  "delete_where P t = filter (\<lambda>r. \<not> P r) t"

definition first_where :: "('r \<Rightarrow> bool) \<Rightarrow> 'r list \<Rightarrow> 'r option" where
  "first_where P t = List.find P t"

definition exists_where :: "('r \<Rightarrow> bool) \<Rightarrow> 'r list \<Rightarrow> bool" where
  "exists_where P t = list_ex P t"

definition count_where :: "('r \<Rightarrow> bool) \<Rightarrow> 'r list \<Rightarrow> nat" where
  "count_where P t = length (filter P t)"

definition get_where :: "string \<Rightarrow> ('r \<Rightarrow> bool) \<Rightarrow> 'r list \<Rightarrow> error + 'r" where
  "get_where name P t =
     (case filter P t of
        [] \<Rightarrow> Inl (DoesNotExist name)
      | [r] \<Rightarrow> Inr r
      | _ \<Rightarrow> Inl (MultipleObjectsReturned name))"

lemma set_update_where:
  "r \<in> set (update_where P f t) \<longleftrightarrow> (\<exists>q\<in>set t. r = (if P q then f q else q))"
  by (auto simp: update_where_def)

lemma update_whereE:
  assumes "r \<in> set (update_where P f t)"
  obtains (changed) q where "q \<in> set t" "P q" "r = f q" | (same) "r \<in> set t" "\<not> P r"
proof -
  from assms obtain q where "q \<in> set t" "r = (if P q then f q else q)"
    unfolding set_update_where by blast
  then show thesis using that by (cases "P q") auto
qed

lemma update_where_same: "r \<in> set t \<Longrightarrow> \<not> P r \<Longrightarrow> r \<in> set (update_where P f t)"
  unfolding set_update_where by (rule bexI [of _ r]) auto

lemma update_where_changed: "q \<in> set t \<Longrightarrow> P q \<Longrightarrow> f q \<in> set (update_where P f t)"
  unfolding set_update_where by (rule bexI [of _ q]) auto

lemma update_where_Nil: "update_where P f [] = []"
  by (simp add: update_where_def)

lemma update_where_Cons: "update_where P f (r # t) = (if P r then f r else r) # update_where P f t"
  by (simp add: update_where_def)

lemma set_delete_where [simp]: "set (delete_where P t) = {r \<in> set t. \<not> P r}"
  by (auto simp: delete_where_def)

lemma exists_where_iff [simp]: "exists_where P t \<longleftrightarrow> (\<exists>r\<in>set t. P r)"
  by (simp add: exists_where_def list_ex_iff)

lemma length_update_where [simp]: "length (update_where P f t) = length t"
  by (simp add: update_where_def)

lemma first_where_SomeD: "first_where P t = Some r \<Longrightarrow> r \<in> set t \<and> P r"
  by (auto simp: first_where_def find_Some_iff)

lemma first_where_None [simp]: "first_where P t = None \<longleftrightarrow> (\<forall>r\<in>set t. \<not> P r)"
  by (auto simp: first_where_def find_None_iff)

lemma first_where_unique:
  assumes "r \<in> set t" and "P r" and "\<And>q. q \<in> set t \<Longrightarrow> P q \<Longrightarrow> q = r"
  shows "first_where P t = Some r"
proof (cases "first_where P t")
  case None
  then show ?thesis using assms(1,2) unfolding first_where_None by blast
next
  case (Some x)
  then show ?thesis using first_where_SomeD [OF Some] assms(3) by blast
qed

lemma get_where_InrD: "get_where n P t = Inr r \<Longrightarrow> r \<in> set t \<and> P r \<and> (\<forall>q\<in>set t. P q \<longrightarrow> q = r)"
proof -
  assume "get_where n P t = Inr r"
  then have "filter P t = [r]" by (auto simp: get_where_def split: list.splits)
  then have "{q \<in> set t. P q} = {r}" by (metis list.set(1) list.simps(15) set_filter)
  then show ?thesis by auto
qed

lemma get_where_Inl: "get_where n P t = Inl e \<Longrightarrow> e = DoesNotExist n \<or> e = MultipleObjectsReturned n"
  by (auto simp: get_where_def split: list.splits)

lemma get_where_DoesNotExist [simp]:
  "get_where n P t = Inl (DoesNotExist n) \<longleftrightarrow> (\<forall>r\<in>set t. \<not> P r)"
proof (cases "filter P t")
  case Nil
  then show ?thesis by (simp add: get_where_def filter_empty_conv)
next
  case (Cons a xs)
  then have "\<not> (\<forall>r\<in>set t. \<not> P r)" by (metis filter_False list.discI)
  with Cons show ?thesis by (auto simp: get_where_def split: list.splits)
qed

lemma get_where_update:
  assumes "get_where n P t = Inr r" and "\<And>q. P (f q) = P q"
  shows "get_where n P (update_where P f t) = Inr (f r)"
proof -
  have "filter P (update_where P f t) = map f (filter P t)"
    by (induction t) (simp_all add: update_where_def assms(2))
  moreover have "filter P t = [r]" using assms(1) by (auto simp: get_where_def split: list.splits)
  ultimately show ?thesis by (simp add: get_where_def)
qed

lemma distinct_page: "distinct (map f t) \<Longrightarrow> distinct (take n (map f (filter P t)))"
  by (intro distinct_take distinct_map_filter)

lemma pages_disjoint:
  assumes "distinct (map f t)" and "\<And>x. P x \<Longrightarrow> \<not> Q x"
  shows "set (take n (map f (filter P t))) \<inter> set (take m (map f (filter Q t))) = {}"
proof -
  have "f ` {x \<in> set t. P x} \<inter> f ` {x \<in> set t. Q x} = {}" using assms by (auto simp: distinct_map inj_on_def)
  then show ?thesis using set_take_subset [of n "map f (filter P t)"] set_take_subset [of m "map f (filter Q t)"] by fastforce
qed

lemma update_where_map:
  assumes "\<And>r. P r \<Longrightarrow> g (f r) = g r"
  shows "map g (update_where P f t) = map g t"
  using assms by (auto simp: update_where_def)

lemma update_where_twice:
  assumes "\<And>r. Q (f r) = Q r" and "\<And>r. f (f r) = f r"
  shows "update_where Q f (update_where P f t) = update_where (\<lambda>r. P r \<or> Q r) f t"
  using assms by (auto simp: update_where_def)

lemma delete_where_distinct: "distinct (map g t) \<Longrightarrow> distinct (map g (delete_where P t))"
  by (simp add: delete_where_def distinct_map_filter)

lemma filter_update_where_other:
  assumes "\<And>r. P r \<Longrightarrow> \<not> Q r" and "\<And>r. P r \<Longrightarrow> \<not> Q (f r)"
  shows "filter Q (update_where P f t) = filter Q t"
  using assms by (induction t) (auto simp: update_where_def)

text \<open>
  Changing the row with a given primary key keeps a column unique when the row keeps its value or
  takes one that no other row has.
\<close>

lemma distinct_update:
  assumes "distinct (map i t)" and "distinct (map g t)"
    and "\<And>q r. q \<in> set t \<Longrightarrow> i q = k \<Longrightarrow> r \<in> set t \<Longrightarrow> i r \<noteq> k \<Longrightarrow> g r \<noteq> g (f q)"
  shows "distinct (map g (update_where (\<lambda>r. i r = k) f t))"
  using assms
proof (induction t)
  case (Cons a t)
  let ?u = "update_where (\<lambda>r. i r = k) f t"
  have d: "distinct (map g ?u)" using Cons by simp
  show ?case
  proof (cases "i a = k")
    case True
    have "q \<in> set t \<and> i q \<noteq> k" if "q \<in> set ?u" for q
      using that
    proof (cases rule: update_whereE)
      case (changed q')
      with True Cons.prems(1) show ?thesis by (auto simp: rev_image_eqI)
    qed auto
    then have "g q \<noteq> g (f a)" if "q \<in> set ?u" for q using that Cons.prems(3) [of a q] True by simp
    then have "g (f a) \<notin> g ` set ?u" by force
    with True d show ?thesis by (simp add: update_where_Cons)
  next
    case False
    have "g q \<noteq> g a" if "q \<in> set ?u" for q
      using that
    proof (cases rule: update_whereE)
      case (changed q')
      with False Cons.prems(3) [of q' a] show ?thesis by auto
    next
      case same
      with Cons.prems(2) show ?thesis by (auto simp: rev_image_eqI)
    qed
    then have "g a \<notin> g ` set ?u" by force
    with False d show ?thesis by (simp add: update_where_Cons)
  qed
qed (simp add: update_where_Nil)

lemma distinct_replace:
  assumes "distinct (map i t)" and "distinct (map g t)" and "i row = k"
    and "\<And>q. q \<in> set t \<Longrightarrow> i q \<noteq> k \<Longrightarrow> g q \<noteq> g row"
  shows "distinct (map g (update_where (\<lambda>r. i r = k) (\<lambda>_. row) t))"
  by (rule distinct_update [OF assms(1,2)]) (use assms(4) in blast)

text \<open>
  A table whose rows are told apart by a key: a primary key, or a column under a unique
  constraint. The provider's invariant (\<open>valid\<close>) promises that no two rows share the key;
  the lemmas hold for every such table of the schema.
\<close>

locale keyed_table =
  fixes key :: "'r \<Rightarrow> 'k"
    and valid :: "'r list \<Rightarrow> bool"
  assumes unique: "valid t \<Longrightarrow> distinct (map key t)"
begin

lemma key_determines:
  assumes "valid t" and "r \<in> set t" and "q \<in> set t" and "key r = key q"
  shows "r = q"
proof -
  have "inj_on key (set t)" using unique [OF assms(1)] by (simp add: distinct_map)
  then show ?thesis using assms(2-4) by (simp add: inj_on_def)
qed

lemma filter_key:
  assumes "valid t" and "r \<in> set t"
  shows "filter (\<lambda>q. key q = key r) t = [r]"
  using unique [OF assms(1)] assms(2)
proof (induction t)
  case (Cons a t)
  show ?case
  proof (cases "a = r")
    case True
    with Cons.prems(1) have "\<forall>q\<in>set t. key q \<noteq> key r" by auto (metis image_eqI)
    with True show ?thesis by (simp add: filter_empty_conv)
  next
    case False
    with Cons.prems have "key a \<noteq> key r" by (auto simp: image_iff)
    with False Cons show ?thesis by simp
  qed
qed simp

lemma get_by_key:
  assumes "valid t" and "r \<in> set t"
  shows "get_where name (\<lambda>q. key q = key r) t = Inr r"
  by (simp add: get_where_def filter_key [OF assms])

lemma get_by_key_and:
  assumes "valid t" and "r \<in> set t" and "Q r"
  shows "get_where name (\<lambda>q. key q = key r \<and> Q q) t = Inr r"
proof -
  have "(key q = key r \<and> Q q) = (key q = key r)" if "q \<in> set t" for q
    using key_determines [OF assms(1) that assms(2)] assms(3) by auto
  then have "filter (\<lambda>q. key q = key r \<and> Q q) t = filter (\<lambda>q. key q = key r) t"
    by (intro filter_cong) auto
  then show ?thesis by (simp add: get_where_def filter_key [OF assms(1,2)])
qed

lemma get_by_key_cases:
  assumes "valid t"
  obtains (absent) "\<forall>r\<in>set t. key r \<noteq> k"
      "get_where name (\<lambda>q. key q = k) t = Inl (DoesNotExist name)"
    | (present) r where "r \<in> set t" "key r = k" "get_where name (\<lambda>q. key q = k) t = Inr r"
proof (cases "\<exists>r\<in>set t. key r = k")
  case True
  then obtain r where r: "r \<in> set t" "key r = k" by auto
  then show thesis using present get_by_key [OF assms r(1)] by simp
next
  case False
  then show thesis using absent by simp
qed

lemma set_update_by_key:
  assumes "valid t" and "r \<in> set t"
  shows "set (update_where (\<lambda>q. key q = key r) f t) = insert (f r) (set t - {r})"
proof
  show "set (update_where (\<lambda>q. key q = key r) f t) \<subseteq> insert (f r) (set t - {r})"
  proof
    fix x assume "x \<in> set (update_where (\<lambda>q. key q = key r) f t)"
    then show "x \<in> insert (f r) (set t - {r})"
    proof (cases rule: update_whereE)
      case (changed q)
      then have "q = r" using key_determines [OF assms(1) _ assms(2)] by blast
      then show ?thesis using changed(3) by simp
    qed auto
  qed
  show "insert (f r) (set t - {r}) \<subseteq> set (update_where (\<lambda>q. key q = key r) f t)"
    using update_where_changed [OF assms(2), of "\<lambda>q. key q = key r" f] update_where_same [of _ t "\<lambda>q. key q = key r" f]
      key_determines [OF assms(1) _ assms(2)] by auto
qed

lemma update_by_key_unchanged:
  assumes "valid t" and "r \<in> set t" and "f r = r"
  shows "update_where (\<lambda>q. key q = key r) f t = t"
  unfolding update_where_def using key_determines [OF assms(1) _ assms(2)] assms(3) by (intro map_idI) auto

lemma distinct_update_by_key:
  assumes "valid t" and "r \<in> set t" and "distinct (map g t)" and "\<And>p. p \<in> set t \<Longrightarrow> key p \<noteq> key r \<Longrightarrow> g p \<noteq> g (f r)"
  shows "distinct (map g (update_where (\<lambda>q. key q = key r) f t))"
proof -
  let ?h = "\<lambda>q. if key q = key r then f q else q"
  have same: "p = r" if "p \<in> set t" "key p = key r" for p using key_determines [OF assms(1) that(1) assms(2) that(2)] .
  have "inj_on (g \<circ> ?h) (set t)"
  proof (rule inj_onI)
    fix p q assume pq: "p \<in> set t" "q \<in> set t" "(g \<circ> ?h) p = (g \<circ> ?h) q"
    have "p = q" if "key p \<noteq> key r" "key q \<noteq> key r" using assms(3) pq that by (auto simp: distinct_map inj_on_def)
    moreover have "p = q" if "key p = key r" "key q = key r" using same [OF pq(1) that(1)] same [OF pq(2) that(2)] by simp
    ultimately show "p = q" using pq same assms(4) by (cases "key p = key r"; cases "key q = key r") fastforce+
  qed
  then show ?thesis using assms(3) by (simp add: update_where_def distinct_map comp_inj_on_iff)
qed

lemma first_by_key:
  assumes "valid t" and "r \<in> set t"
  shows "first_where (\<lambda>q. key q = key r) t = Some r"
proof -
  have "first_where (\<lambda>q. key q = key r) t \<noteq> None" using assms(2) by (simp add: bexI [of _ r])
  then obtain q where q: "first_where (\<lambda>q. key q = key r) t = Some q"
    by (cases "first_where (\<lambda>q. key q = key r) t") blast+
  then have "q \<in> set t" "key q = key r" using first_where_SomeD [OF q] by simp_all
  with q key_determines [OF assms(1) _ assms(2)] show ?thesis by simp
qed

end

end
