(* ===== verification/Models.thy ===== *)
theory Models
  imports Operations
begin

text \<open>
  The database schema: one record per model class, with the columns of the class, the enumerations
  (\<^verbatim>\<open>TextChoices\<close>) as datatypes, and the properties that the classes define. The
  record \<open>db\<close> is the whole state a service call reads and writes: the instant the call
  happens at, the supply of primary keys, every table, and the mail, the events and the background
  tasks that were handed over.

  Append-only tables (security events, audit rows, mail) carry no primary key, which nothing in
  the modelled code reads. A table whose class is ordered by \<^verbatim>\<open>-created_at\<close> keeps its newest
  row first, so that \<^verbatim>\<open>first()\<close> is the head of the matching rows.
\<close>

section \<open>accounts\<close>

datatype account_status = ACTIVE | PENDING | SUSPENDED | BANNED | DEACTIVATED | DELETED

record user =
  u_id :: uuid
  u_email :: string
  u_username :: string
  u_password :: string
  u_first_name :: string
  u_last_name :: string
  u_avatar :: string
  u_phone :: string
  u_status :: account_status
  u_email_verified_at :: "datetime option"
  u_phone_verified_at :: "datetime option"
  u_is_active :: bool
  u_is_staff :: bool
  u_is_superuser :: bool
  u_date_joined :: datetime
  u_last_login :: "datetime option"
  u_last_login_ip :: "string option"
  u_created_at :: datetime
  u_updated_at :: datetime

record user_profile =
  pf_id :: uuid
  pf_user :: uuid
  pf_bio :: string
  pf_website :: string
  pf_location :: string
  pf_created_at :: datetime
  pf_updated_at :: datetime

record user_preferences =
  pr_id :: uuid
  pr_user :: uuid
  pr_language :: string
  pr_timezone :: string
  pr_email_notifications :: bool
  pr_security_emails :: bool
  pr_created_at :: datetime
  pr_updated_at :: datetime

record user_security_settings =
  ss_id :: uuid
  ss_user :: uuid
  ss_password_changed_at :: "datetime option"
  ss_locked_until :: "datetime option"
  ss_notify_new_device :: bool
  ss_updated_at :: datetime

record user_ban =
  b_id :: uuid
  b_user :: uuid
  b_reason :: string
  b_banned_by :: "uuid option"
  b_starts_at :: datetime
  b_expires_at :: "datetime option"
  b_created_at :: datetime
  b_revoked_at :: "datetime option"

definition is_email_verified :: "user \<Rightarrow> bool" where
  "is_email_verified u \<longleftrightarrow> u_email_verified_at u \<noteq> None"

definition is_phone_verified :: "user \<Rightarrow> bool" where
  "is_phone_verified u \<longleftrightarrow> u_phone_verified_at u \<noteq> None"

definition get_full_name :: "user \<Rightarrow> string" where
  "get_full_name u = py_strip (u_first_name u @ '' '' @ u_last_name u)"

definition display_name :: "user \<Rightarrow> string" where
  "display_name u = (if get_full_name u \<noteq> [] then get_full_name u else u_username u)"

definition get_short_name :: "user \<Rightarrow> string" where
  "get_short_name u = (if u_first_name u \<noteq> [] then u_first_name u else u_username u)"

definition is_locked :: "datetime \<Rightarrow> user_security_settings \<Rightarrow> bool" where
  "is_locked now s = (case ss_locked_until s of None \<Rightarrow> False | Some t \<Rightarrow> t > now)"

definition ban_is_active :: "datetime \<Rightarrow> user_ban \<Rightarrow> bool" where
  "ban_is_active now b \<longleftrightarrow>
     b_revoked_at b = None \<and> b_starts_at b \<le> now \<and>
     (case b_expires_at b of None \<Rightarrow> True | Some t \<Rightarrow> t > now)"

definition ban_constraint :: "user_ban \<Rightarrow> bool" where
  \<comment> \<open>the check constraint \<^verbatim>\<open>acct_ban_expiry_after_start\<close>\<close>
  "ban_constraint b = (case b_expires_at b of None \<Rightarrow> True | Some t \<Rightarrow> t > b_starts_at b)"

section \<open>authentication\<close>

datatype token_purpose = EMAIL_VERIFICATION | PASSWORD_RESET | EMAIL_CHANGE | ACCOUNT_DELETION

fun purpose_text :: "token_purpose \<Rightarrow> string" where
  "purpose_text EMAIL_VERIFICATION = ''email_verification''"
| "purpose_text PASSWORD_RESET = ''password_reset''"
| "purpose_text EMAIL_CHANGE = ''email_change''"
| "purpose_text ACCOUNT_DELETION = ''account_deletion''"

record one_time_token =
  ot_id :: uuid
  ot_user :: uuid
  ot_purpose :: token_purpose
  ot_token_hash :: string
  ot_metadata :: "(string \<times> string) list"
  ot_created_at :: datetime
  ot_expires_at :: datetime
  ot_used_at :: "datetime option"

definition is_usable :: "datetime \<Rightarrow> one_time_token \<Rightarrow> bool" where
  "is_usable now t \<longleftrightarrow> ot_used_at t = None \<and> ot_expires_at t > now"

record user_session =
  us_id :: uuid
  us_user :: uuid
  us_identifier :: string
  us_session_key_hash :: string
  us_encrypted_session_key :: string
  us_ip_address :: "string option"
  us_user_agent :: string
  us_browser :: string
  us_operating_system :: string
  us_device :: string
  us_location :: string
  us_created_at :: datetime
  us_last_activity_at :: datetime
  us_revoked_at :: "datetime option"

definition is_revoked :: "user_session \<Rightarrow> bool" where
  "is_revoked s \<longleftrightarrow> us_revoked_at s \<noteq> None"

record two_factor_credential =
  tf_id :: uuid
  tf_user :: uuid
  tf_encrypted_secret :: string
  tf_created_at :: datetime
  tf_confirmed_at :: "datetime option"
  tf_disabled_at :: "datetime option"

definition is_enabled :: "two_factor_credential \<Rightarrow> bool" where
  "is_enabled c \<longleftrightarrow> tf_confirmed_at c \<noteq> None \<and> tf_disabled_at c = None"

record recovery_code =
  rc_id :: uuid
  rc_credential :: uuid
  rc_code_hash :: string
  rc_created_at :: datetime
  rc_used_at :: "datetime option"

text \<open>The refresh tokens of the JWT library and Django's session table, as the services use them.\<close>

record outstanding_token =
  jt_id :: uuid
  jt_user :: uuid
  jt_expires_at :: datetime

record django_session =
  ds_session_key :: string
  ds_user :: "uuid option"
  ds_expiry :: "int option"

section \<open>security\<close>

datatype security_event_type =
    LOGIN_SUCCESS | LOGIN_FAILED | NEW_DEVICE_LOGIN | PASSWORD_CHANGED | PASSWORD_RESET_EVENT
  | EMAIL_CHANGED | TWO_FACTOR_ENABLED | TWO_FACTOR_DISABLED | RECOVERY_CODE_USED
  | SESSION_REVOKED | ACCOUNT_LOCKED | ACCOUNT_UNLOCKED | ACCOUNT_DEACTIVATED
  | ACCOUNT_DELETED | API_KEY_CREATED | API_KEY_REVOKED

record security_event =
  se_user :: "uuid option"
  se_event_type :: security_event_type
  se_ip_address :: "string option"
  se_user_agent :: string
  se_request_id :: string
  se_metadata :: "(string \<times> pyval) list"
  se_created_at :: datetime

record login_throttle_state =
  lt_dimension_hash :: string
  lt_attempt_count :: nat
  lt_locked_until :: "datetime option"
  lt_expires_at :: datetime
  lt_updated_at :: datetime

section \<open>audit\<close>

record audit_log =
  al_actor :: "uuid option"
  al_action :: string
  al_target_type :: string
  al_target_id :: string
  al_target_repr :: string
  al_before :: pyval
  al_after :: pyval
  al_metadata :: pyval
  al_request_id :: string
  al_ip_address :: "string option"
  al_user_agent :: string
  al_created_at :: datetime

section \<open>authorization\<close>

record permission =
  pm_id :: uuid
  pm_codename :: string
  pm_description :: string
  pm_is_system :: bool

record role =
  ro_id :: uuid
  ro_name :: string
  ro_slug :: string
  ro_description :: string
  ro_priority :: nat
  ro_is_system :: bool

record role_permission =
  rp_id :: uuid
  rp_role :: uuid
  rp_permission :: uuid

record user_role =
  ur_id :: uuid
  ur_user :: uuid
  ur_role :: uuid
  ur_granted_by :: "uuid option"
  ur_valid_from :: datetime
  ur_valid_until :: "datetime option"

definition user_role_is_valid :: "datetime \<Rightarrow> user_role \<Rightarrow> bool" where
  "user_role_is_valid now r \<longleftrightarrow>
     ur_valid_from r \<le> now \<and> (case ur_valid_until r of None \<Rightarrow> True | Some t \<Rightarrow> t > now)"

datatype override_effect = ALLOW | DENY

record user_permission_override =
  po_id :: uuid
  po_user :: uuid
  po_permission :: uuid
  po_effect :: override_effect
  po_reason :: string
  po_granted_by :: "uuid option"

section \<open>api keys\<close>

record api_key =
  ak_id :: uuid
  ak_owner :: uuid
  ak_name :: string
  ak_prefix :: string
  ak_key_hash :: string
  ak_scopes :: "string list"
  ak_created_at :: datetime
  ak_last_used_at :: "datetime option"
  ak_last_used_ip :: "string option"
  ak_expires_at :: "datetime option"
  ak_revoked_at :: "datetime option"

definition api_key_is_active :: "datetime \<Rightarrow> api_key \<Rightarrow> bool" where
  "api_key_is_active now k \<longleftrightarrow>
     ak_revoked_at k = None \<and> (case ak_expires_at k of None \<Rightarrow> True | Some t \<Rightarrow> t > now)"

section \<open>webhooks\<close>

record webhook_endpoint =
  we_id :: uuid
  we_owner :: "uuid option"
  we_name :: string
  we_url :: string
  we_event_types :: "string list"
  we_secret_hash :: string
  we_encrypted_secret :: string
  we_is_active :: bool
  we_created_at :: datetime

record webhook_event =
  wv_id :: uuid
  wv_event_type :: string
  wv_payload :: pyval
  wv_created_at :: datetime

datatype delivery_status = DELIVERY_PENDING | PROCESSING | SUCCEEDED | FAILED | ABANDONED

record webhook_delivery =
  wd_id :: uuid
  wd_endpoint :: uuid
  wd_event :: uuid
  wd_status :: delivery_status
  wd_attempt_count :: nat
  wd_response_code :: "int option"
  wd_response_body :: string
  wd_last_attempt_at :: "datetime option"
  wd_next_retry_at :: "datetime option"
  wd_created_at :: datetime

section \<open>core\<close>

datatype setting_value_type = STRING | INTEGER | BOOLEAN | JSON

record setting =
  sg_id :: uuid
  sg_key :: string
  sg_value :: pyval
  sg_value_type :: setting_value_type
  sg_group :: string
  sg_is_public :: bool
  sg_description :: string
  sg_created_at :: datetime
  sg_updated_at :: datetime

record feature_flag =
  ff_id :: uuid
  ff_key :: string
  ff_enabled :: bool
  ff_description :: string
  ff_created_at :: datetime
  ff_updated_at :: datetime

record idempotency_record =
  ir_id :: uuid
  ir_user :: uuid
  ir_key_hash :: string
  ir_request_method :: string
  ir_request_path :: string
  ir_request_hash :: string
  ir_response_status :: "int option"
  ir_response_body :: "pyval option"
  ir_created_at :: datetime
  ir_expires_at :: datetime

section \<open>notifications\<close>

record notification =
  nt_id :: uuid
  nt_user :: uuid
  nt_type :: string
  nt_title :: string
  nt_message :: string
  nt_data :: pyval
  nt_read_at :: "datetime option"
  nt_created_at :: datetime
  nt_expires_at :: "datetime option"

section \<open>files\<close>

datatype file_status = FILE_PENDING | READY | QUARANTINED | REJECTED

record stored_file =
  sf_id :: uuid
  sf_owner :: "uuid option"
  sf_file :: string
  sf_original_name :: string
  sf_content_type :: string
  sf_size :: nat
  sf_checksum_sha256 :: string
  sf_status :: file_status
  sf_created_at :: datetime
  sf_deleted_at :: "datetime option"

section \<open>Mail\<close>

record email_message =
  em_template :: string
  em_recipient :: string
  em_subject :: string
  em_context :: "(string \<times> pyval) list"

section \<open>Cache\<close>

record cache_entry =
  ce_key :: string
  ce_value :: pyval
  ce_expires_at :: datetime

section \<open>The state\<close>

record db =
  clock :: datetime
  next_id :: nat
  users :: "user list"
  profiles :: "user_profile list"
  preferences :: "user_preferences list"
  security_settings :: "user_security_settings list"
  bans :: "user_ban list"
  one_time_tokens :: "one_time_token list"
  user_sessions :: "user_session list"
  credentials :: "two_factor_credential list"
  recovery_codes :: "recovery_code list"
  outstanding :: "outstanding_token list"
  blacklisted :: "uuid list"
  django_sessions :: "django_session list"
  security_events :: "security_event list"
  throttle_states :: "login_throttle_state list"
  audit_logs :: "audit_log list"
  permissions :: "permission list"
  roles :: "role list"
  role_permissions :: "role_permission list"
  user_roles :: "user_role list"
  overrides :: "user_permission_override list"
  api_keys :: "api_key list"
  outbox :: "email_message list"
  published :: "string list"
  deleted_files :: "string list"
  cache :: "cache_entry list"
  webhook_endpoints :: "webhook_endpoint list"
  webhook_events :: "webhook_event list"
  webhook_deliveries :: "webhook_delivery list"
  runtime_settings :: "setting list"
  feature_flags :: "feature_flag list"
  idempotency_records :: "idempotency_record list"
  notifications :: "notification list"
  stored_files :: "stored_file list"
  queued :: "(string \<times> string) list"

definition empty_db :: db where
  "empty_db =
     \<lparr>clock = 0, next_id = 0, users = [], profiles = [], preferences = [], security_settings = [],
      bans = [], one_time_tokens = [], user_sessions = [], credentials = [], recovery_codes = [],
      outstanding = [], blacklisted = [], django_sessions = [], security_events = [],
      throttle_states = [], audit_logs = [], permissions = [], roles = [], role_permissions = [],
      user_roles = [], overrides = [], api_keys = [], outbox = [], published = [],
      deleted_files = [], cache = [], webhook_endpoints = [], webhook_events = [],
      webhook_deliveries = [], runtime_settings = [], feature_flags = [], idempotency_records = [],
      notifications = [], stored_files = [], queued = []\<rparr>"

type_synonym 'a action = "(db, 'a) op"

definition fresh_id :: "uuid action" where
  "fresh_id = (\<lambda>s. (Inr (next_id s), s\<lparr>next_id := Suc (next_id s)\<rparr>))"

definition now_op :: "datetime action" where
  \<comment> \<open>\<^verbatim>\<open>timezone.now()\<close>\<close>
  "now_op = reads clock"

definition bans_of :: "db \<Rightarrow> uuid \<Rightarrow> user_ban list" where
  \<comment> \<open>the related manager \<^verbatim>\<open>user.bans\<close>\<close>
  "bans_of s uid = filter (\<lambda>b. b_user b = uid) (bans s)"

definition has_active_ban :: "db \<Rightarrow> user \<Rightarrow> bool" where
  "has_active_ban s u =
     exists_where (\<lambda>b. case b_expires_at b of None \<Rightarrow> True | Some t \<Rightarrow> t > clock s)
       (filter (\<lambda>b. b_revoked_at b = None \<and> b_starts_at b \<le> clock s) (bans_of s (u_id u)))"

definition can_authenticate_now :: "db \<Rightarrow> user \<Rightarrow> bool" where
  "can_authenticate_now s u \<longleftrightarrow> u_is_active u \<and> u_status u = ACTIVE \<and> \<not> has_active_ban s u"

lemma fresh_id_run [op_simps]:
  "fresh_id s = (Inr (next_id s), s\<lparr>next_id := Suc (next_id s)\<rparr>)"
  by (simp add: fresh_id_def)

lemma now_op_run [op_simps]: "now_op s = (Inr (clock s), s)"
  by (simp add: now_op_def reads_def)

lemma has_active_ban_iff:
  "has_active_ban s u \<longleftrightarrow> (\<exists>b\<in>set (bans s). b_user b = u_id u \<and> ban_is_active (clock s) b)"
  by (auto simp: has_active_ban_def bans_of_def ban_is_active_def)

lemma can_authenticate_nowD:
  assumes "can_authenticate_now s u"
  shows "u_is_active u" and "u_status u = ACTIVE" and "\<not> has_active_ban s u"
  using assms by (simp_all add: can_authenticate_now_def)

end
