(* ===== verification/Logging.thy ===== *)
theory Logging
  imports Operations
begin

text \<open>
  \<^verbatim>\<open>common/logging.py\<close>: the redaction of structured values before they reach a log
  record or an audit row.

  The pattern \<^verbatim>\<open>SENSITIVE_KEY\<close> is searched, ignoring case, anywhere in a dictionary
  key. Its alternatives \<^verbatim>\<open>api[_-]?key\<close> and \<^verbatim>\<open>recovery[_-]?code\<close> are written
  out. The text of a datetime (\<^verbatim>\<open>isoformat\<close>) and of a UUID are arguments.
\<close>

definition SENSITIVE_KEY :: "string list" where
  "SENSITIVE_KEY =
     [''password'', ''authorization'', ''cookie'', ''token'', ''secret'',
      ''apikey'', ''api_key'', ''api-key'', ''key_hash'', ''session_key'', ''encrypted'',
      ''totp'', ''recoverycode'', ''recovery_code'', ''recovery-code'']"

definition sensitive_key :: "string \<Rightarrow> bool" where
  "sensitive_key k = list_ex (\<lambda>p. str_in p (py_lower k)) SENSITIVE_KEY"

fun sanitize :: "(datetime \<Rightarrow> string) \<Rightarrow> (uuid \<Rightarrow> string) \<Rightarrow> pyval \<Rightarrow> pyval" where
  "sanitize isof ustr (PDict kvs) =
     PDict (map (\<lambda>kv. (fst kv,
       if sensitive_key (fst kv) then PStr ''[REDACTED]'' else sanitize isof ustr (snd kv))) kvs)"
| "sanitize isof ustr (PList vs) = PList (map (sanitize isof ustr) vs)"
| "sanitize isof ustr (PTuple vs) = PList (map (sanitize isof ustr) vs)"
| "sanitize isof ustr PNone = PNone"
| "sanitize isof ustr (PStr t) = PStr t"
| "sanitize isof ustr (PInt i) = PInt i"
| "sanitize isof ustr (PFloat t) = PFloat t"
| "sanitize isof ustr (PBool b) = PBool b"
| "sanitize isof ustr (PDatetime d) = PStr (isof d)"
| "sanitize isof ustr (PUUID u) = PStr (ustr u)"
| "sanitize isof ustr (PDecimal t) = PStr t"
| "sanitize isof ustr (PObject t) = PStr t"

text \<open>
  What a sanitised value is: every entry under a sensitive key is the redaction mark, at every
  depth, and only the types JSON knows occur.
\<close>

fun redacted :: "pyval \<Rightarrow> bool" where
  "redacted (PDict kvs) = list_all (\<lambda>kv.
     (sensitive_key (fst kv) \<and> snd kv = PStr ''[REDACTED]'') \<or>
     (\<not> sensitive_key (fst kv) \<and> redacted (snd kv))) kvs"
| "redacted (PList vs) = list_all redacted vs"
| "redacted (PTuple vs) = list_all redacted vs"
| "redacted _ = True"

fun json_value :: "pyval \<Rightarrow> bool" where
  "json_value (PDict kvs) = list_all (\<lambda>kv. json_value (snd kv)) kvs"
| "json_value (PList vs) = list_all json_value vs"
| "json_value (PTuple vs) = False"
| "json_value (PDatetime _) = False"
| "json_value (PUUID _) = False"
| "json_value (PDecimal _) = False"
| "json_value (PObject _) = False"
| "json_value _ = True"

lemma sanitize_redacted_json: "redacted (sanitize isof ustr v) \<and> json_value (sanitize isof ustr v)"
  by (induction isof ustr v rule: sanitize.induct) (auto simp: list_all_iff)

lemma sanitize_fixpoint: "redacted v \<Longrightarrow> json_value v \<Longrightarrow> sanitize isof ustr v = v"
proof (induction isof ustr v rule: sanitize.induct)
  case (1 isof ustr kvs)
  have "(fst kv, if sensitive_key (fst kv) then PStr ''[REDACTED]'' else sanitize isof ustr (snd kv)) = kv"
    if "kv \<in> set kvs" for kv
    using 1 that by (cases kv) (auto simp: list_all_iff)
  then show ?case by (simp add: map_idI)
next
  case (2 isof ustr vs)
  then show ?case by (auto simp: list_all_iff intro: map_idI)
qed auto

text \<open>A log record is redacted by the same function.\<close>

definition process_log_record ::
    "(datetime \<Rightarrow> string) \<Rightarrow> (uuid \<Rightarrow> string) \<Rightarrow> (string \<times> pyval) list \<Rightarrow> pyval" where
  "process_log_record isof ustr log_record = sanitize isof ustr (PDict log_record)"

section \<open>Properties\<close>

text \<open>
  What leaves for a log record or an audit row carries no value under a sensitive key, at
  any depth, holds only types that JSON knows, and is left alone by a second pass.
\<close>

theorem sanitize_redacts:
  "redacted (sanitize isof ustr v) \<and> json_value (sanitize isof ustr v) \<and>
   sanitize isof ustr (sanitize isof ustr v) = sanitize isof ustr v"
  using sanitize_redacted_json [of isof ustr v] sanitize_fixpoint by blast

end
