(* ===== verification/Environment.thy ===== *)
theory Environment
  imports Models Logging
begin

text \<open>
  What the services take from outside the database: the settings of \<^verbatim>\<open>config/settings\<close>,
  the request object, and the code that is not part of the repository.

  The record \<open>platform\<close> holds the outside code as functions: the hash functions and Fernet,
  Django's password hashing and validation, the e-mail helpers, the TOTP library, the user-agent
  parser and the parser of IP addresses. Nothing is known of them except what a theorem names as
  a hypothesis; the laws they document are collected in the predicate \<open>platform_laws\<close> at the
  end, which a concrete platform is shown to satisfy.

  On top of them the theory models \<^verbatim>\<open>common/crypto.py\<close> and \<^verbatim>\<open>common/utils/network.py\<close>.
\<close>

section \<open>Settings\<close>

record settings =
  APP_ENV :: string
  DEBUG :: bool
  SECRET_KEY :: string
  APP_NAME :: string
  SITE_NAME :: string
  SITE_URL :: string
  SUPPORT_EMAIL :: string
  LANGUAGES :: "string list"
  CONTENT_SECURITY_POLICY :: string
  CELERY_ENABLED :: bool
  CELERY_TASK_ALWAYS_EAGER :: bool
  TOTP_ENCRYPTION_KEY :: string
  API_KEY_PEPPER :: string
  API_KEY_AVAILABLE_SCOPES :: "string list"
  TRUST_PROXY_HEADERS :: bool
  TRUSTED_PROXY_IPS :: "string list"
  REDIS_ENABLED :: bool
  ENABLE_NOTIFICATIONS :: bool
  ENABLE_API_KEYS :: bool
  ENABLE_TWO_FACTOR :: bool
  ENABLE_WEBHOOKS :: bool
  PASSWORD_RESET_TIMEOUT :: int
  LOGIN_MAX_ATTEMPTS :: int
  LOGIN_LOCKOUT_SECONDS :: int
  LOGIN_MAX_BACKOFF_SECONDS :: int
  MAX_UPLOAD_SIZE :: int
  MAX_IMAGE_PIXELS :: int
  SESSION_RETENTION_DAYS :: int
  TOKEN_RETENTION_DAYS :: int
  NOTIFICATION_RETENTION_DAYS :: int
  AUDIT_RETENTION_DAYS :: int
  FILE_RETENTION_DAYS :: int

text \<open>The values \<^verbatim>\<open>config/settings/base.py\<close> takes when the environment sets nothing.\<close>

definition quoted_word :: "string \<Rightarrow> string" where
  \<comment> \<open>the text between single quotes\<close>
  "quoted_word t = CHR 0x27 # t @ [CHR 0x27]"

definition default_policy :: string where
  "default_policy = ''default-src '' @ quoted_word ''self'' @ ''; img-src '' @ quoted_word ''self'' @
     '' data: https:; style-src '' @ quoted_word ''self'' @ '' '' @ quoted_word ''unsafe-inline'' @
     ''; script-src '' @ quoted_word ''self''"

definition default_settings :: settings where
  "default_settings =
     \<lparr>APP_ENV = ''development'', DEBUG = False, SECRET_KEY = ''unsafe-development-only-key'',
      APP_NAME = ''Django Foundation'', SITE_NAME = ''Django Foundation'', SITE_URL = ''http://localhost:8000'',
      SUPPORT_EMAIL = ''support@localhost'', LANGUAGES = [''en'', ''tr''],
      CONTENT_SECURITY_POLICY = default_policy,
      CELERY_ENABLED = False, CELERY_TASK_ALWAYS_EAGER = False,
      TOTP_ENCRYPTION_KEY = [], API_KEY_PEPPER = [],
      API_KEY_AVAILABLE_SCOPES =
        [''profile.read'', ''profile.write'', ''notifications.read'', ''notifications.write''],
      TRUST_PROXY_HEADERS = False, TRUSTED_PROXY_IPS = [], REDIS_ENABLED = False,
      ENABLE_NOTIFICATIONS = True, ENABLE_API_KEYS = True, ENABLE_TWO_FACTOR = True,
      ENABLE_WEBHOOKS = False, PASSWORD_RESET_TIMEOUT = 3600, LOGIN_MAX_ATTEMPTS = 5,
      LOGIN_LOCKOUT_SECONDS = 300, LOGIN_MAX_BACKOFF_SECONDS = 3600,
      MAX_UPLOAD_SIZE = 10 * 1024 * 1024, MAX_IMAGE_PIXELS = 25000000,
      SESSION_RETENTION_DAYS = 30, TOKEN_RETENTION_DAYS = 7, NOTIFICATION_RETENTION_DAYS = 90,
      AUDIT_RETENTION_DAYS = 0, FILE_RETENTION_DAYS = 7\<rparr>"

section \<open>Code outside the repository\<close>

record agent =
  ag_is_mobile :: bool
  ag_is_tablet :: bool
  ag_is_pc :: bool
  ag_browser :: "string \<times> string"
  ag_os :: "string \<times> string"

record platform =
  sha256 :: "string \<Rightarrow> string"
  sha256_hex :: "string \<Rightarrow> string"
  hmac_sha256_hex :: "string \<Rightarrow> string \<Rightarrow> string"
  fernet_encrypt :: "string \<Rightarrow> string \<Rightarrow> string \<Rightarrow> string"
  fernet_decrypt :: "string \<Rightarrow> string \<Rightarrow> string option"
  make_password :: "string \<Rightarrow> string \<Rightarrow> string"
  unusable_password :: "string \<Rightarrow> string"
  check_password :: "string \<Rightarrow> string \<Rightarrow> bool"
  password_valid :: "string \<Rightarrow> user option \<Rightarrow> bool"
  normalize_email :: "string \<Rightarrow> string"
  email_valid :: "string \<Rightarrow> bool"
  totp_verify :: "string \<Rightarrow> string \<Rightarrow> datetime \<Rightarrow> bool"
  provisioning_uri :: "string \<Rightarrow> string \<Rightarrow> string \<Rightarrow> string"
  parse_user_agent :: "string \<Rightarrow> agent"
  ip_address :: "string \<Rightarrow> string option"
  isoformat :: "datetime \<Rightarrow> string"
  uuid_str :: "uuid \<Rightarrow> string"
  uuid_hex :: "uuid \<Rightarrow> string"

record env =
  cfg :: settings
  plat :: platform

section \<open>Requests\<close>

text \<open>
  The attributes of a Django request that the services read. \<open>rq_session_key\<close> is the key of
  the request's session, absent for a session that was never saved.
\<close>

record request =
  rq_remote_addr :: "string option"
  rq_forwarded_for :: "string option"
  rq_user_agent :: "string option"
  rq_request_id :: "string option"
  rq_session_key :: "string option"

definition text_or_empty :: "string option \<Rightarrow> string" where
  "text_or_empty x = (case x of None \<Rightarrow> [] | Some t \<Rightarrow> t)"

section \<open>common/utils/network.py\<close>

definition get_client_ip :: "env \<Rightarrow> request \<Rightarrow> string option" where
  "get_client_ip e rq =
     (let remote = rq_remote_addr rq;
          trusted = (case remote of None \<Rightarrow> False | Some r \<Rightarrow> r \<in> set (TRUSTED_PROXY_IPS (cfg e)));
          candidate =
            (if TRUST_PROXY_HEADERS (cfg e) \<and> trusted
             then let forwarded = text_or_empty (rq_forwarded_for rq)
                  in if forwarded \<noteq> [] then Some (py_strip (before_char (CHR '','') forwarded))
                     else remote
             else remote)
      in case candidate of
           None \<Rightarrow> None
         | Some c \<Rightarrow> if c = [] then None else ip_address (plat e) c)"

definition request_ip :: "env \<Rightarrow> request option \<Rightarrow> string option" where
  \<comment> \<open>\<^verbatim>\<open>get_client_ip(request) if request else None\<close>\<close>
  "request_ip e rq = (case rq of None \<Rightarrow> None | Some r \<Rightarrow> get_client_ip e r)"

definition request_agent :: "request option \<Rightarrow> string" where
  \<comment> \<open>\<^verbatim>\<open>request.META.get("HTTP_USER_AGENT", "")[:2000] if request else ""\<close>\<close>
  "request_agent rq =
     (case rq of None \<Rightarrow> [] | Some r \<Rightarrow> take 2000 (text_or_empty (rq_user_agent r)))"

definition request_id_text :: "request option \<Rightarrow> string" where
  "request_id_text rq = (case rq of None \<Rightarrow> [] | Some r \<Rightarrow> text_or_empty (rq_request_id r))"

section \<open>common/crypto.py\<close>

definition key_material :: "env \<Rightarrow> string \<Rightarrow> error + string" where
  "key_material e purpose =
     (let configured = (if TOTP_ENCRYPTION_KEY (cfg e) \<noteq> [] then TOTP_ENCRYPTION_KEY (cfg e)
                        else SECRET_KEY (cfg e))
      in if APP_ENV (cfg e) = ''production'' \<and> TOTP_ENCRYPTION_KEY (cfg e) = []
         then Inl (ImproperlyConfigured ''TOTP_ENCRYPTION_KEY is required in production'')
         else Inr (sha256 (plat e) (purpose @ '':'' @ configured)))"

definition encrypt_value :: "env \<Rightarrow> string \<Rightarrow> string \<Rightarrow> string \<Rightarrow> error + string" where
  \<comment> \<open>the third argument is the random initialisation vector Fernet draws\<close>
  "encrypt_value e purpose iv value =
     (case key_material e purpose of
        Inl err \<Rightarrow> Inl err
      | Inr key \<Rightarrow> Inr (fernet_encrypt (plat e) key iv value))"

definition decrypt_value :: "env \<Rightarrow> string \<Rightarrow> string \<Rightarrow> error + string" where
  "decrypt_value e purpose value =
     (case key_material e purpose of
        Inl err \<Rightarrow> Inl err
      | Inr key \<Rightarrow>
          (case fernet_decrypt (plat e) key value of
             None \<Rightarrow> Inl (ValueError ''Encrypted value could not be decrypted'')
           | Some v \<Rightarrow> Inr v))"

definition keyed_hash_pepper :: "env \<Rightarrow> string \<Rightarrow> string option \<Rightarrow> string \<Rightarrow> string" where
  "keyed_hash_pepper e purpose pepper value =
     (let secret = (case pepper of None \<Rightarrow> SECRET_KEY (cfg e)
                    | Some p \<Rightarrow> if p \<noteq> [] then p else SECRET_KEY (cfg e))
      in hmac_sha256_hex (plat e) (sha256 (plat e) (purpose @ '':'' @ secret)) value)"

definition keyed_hash :: "env \<Rightarrow> string \<Rightarrow> string \<Rightarrow> string" where
  "keyed_hash e purpose value = keyed_hash_pepper e purpose None value"

definition secure_compare :: "string \<Rightarrow> string \<Rightarrow> bool" where
  "secure_compare left right \<longleftrightarrow> left = right"

definition encryption_configured :: "env \<Rightarrow> bool" where
  \<comment> \<open>the deployments in which \<open>key_material\<close> does not raise\<close>
  "encryption_configured e \<longleftrightarrow> \<not> (APP_ENV (cfg e) = ''production'' \<and> TOTP_ENCRYPTION_KEY (cfg e) = [])"

lemma key_material_configured: "encryption_configured e \<longleftrightarrow> (\<exists>k. key_material e purpose = Inr k)"
  by (simp add: encryption_configured_def key_material_def Let_def)

lemma decrypt_value_configured:
  "encryption_configured e \<Longrightarrow>
   decrypt_value e p c = Inl (ValueError ''Encrypted value could not be decrypted'') \<or>
   (\<exists>v. decrypt_value e p c = Inr v)"
  using key_material_configured [of e p] by (auto simp: decrypt_value_def split: option.splits)

text \<open>A request's text about its caller, cut as the columns are.\<close>

lemma length_request_agent: "length (request_agent rq) \<le> 2000"
  by (simp add: request_agent_def split: option.splits)

section \<open>Documented laws of the outside code\<close>

text \<open>
  Fernet decrypts what it encrypted under the same key; a hashed password checks against the
  text it was made from; an unusable password checks against nothing; normalising an address
  changes only the case of its domain.
\<close>

definition platform_laws :: "platform \<Rightarrow> bool" where
  "platform_laws p \<longleftrightarrow>
     (\<forall>key iv v. fernet_decrypt p key (fernet_encrypt p key iv v) = Some v) \<and>
     (\<forall>pw salt. check_password p pw (make_password p pw salt)) \<and>
     (\<forall>pw salt. \<not> check_password p pw (unusable_password p salt)) \<and>
     (\<forall>a. py_casefold (normalize_email p a) = py_casefold a)"

lemma platform_lawsD:
  assumes "platform_laws p"
  shows "fernet_decrypt p key (fernet_encrypt p key iv v) = Some v"
    and "check_password p pw (make_password p pw salt)"
    and "\<not> check_password p pw (unusable_password p salt)"
    and "py_casefold (normalize_email p a) = py_casefold a"
  using assms by (simp_all add: platform_laws_def)

lemma decrypt_encrypt:
  assumes "platform_laws (plat e)" and "encrypt_value e purpose iv v = Inr c"
  shows "decrypt_value e purpose c = Inr v"
  using assms
  by (auto simp: encrypt_value_def decrypt_value_def platform_lawsD split: sum.splits)

lemma encrypt_value_cases:
  "encrypt_value e purpose iv v = Inl (ImproperlyConfigured ''TOTP_ENCRYPTION_KEY is required in production'') \<or>
   (\<exists>c. encrypt_value e purpose iv v = Inr c)"
  by (auto simp: encrypt_value_def key_material_def Let_def)

text \<open>
  A concrete platform for evaluating the model at closed inputs. Its hash functions are tagged
  concatenations and its password hash is the tagged password: enough to tell values apart, with
  no claim to be secure.
\<close>

fun hex_digits :: "nat \<Rightarrow> nat \<Rightarrow> string" where
  "hex_digits 0 n = []"
| "hex_digits (Suc k) n = hex_digits k (n div 16) @ [''0123456789abcdef'' ! (n mod 16)]"

definition demo_platform :: platform where
  "demo_platform =
     \<lparr>sha256 = (\<lambda>x. ''D('' @ x @ '')''), sha256_hex = (\<lambda>x. ''H('' @ x @ '')''),
      hmac_sha256_hex = (\<lambda>k x. ''M('' @ k @ '','' @ x @ '')''),
      fernet_encrypt = (\<lambda>k iv v. ''E('' @ k @ '')'' @ v),
      fernet_decrypt = (\<lambda>k c. if startswith (''E('' @ k @ '')'') c
                              then Some (drop (length (''E('' @ k @ '')'')) c) else None),
      make_password = (\<lambda>pw salt. ''hash$'' @ pw), unusable_password = (\<lambda>salt. ''!'' @ salt),
      check_password = (\<lambda>pw enc. enc = ''hash$'' @ pw),
      password_valid = (\<lambda>pw u. 12 \<le> length pw),
      normalize_email = (\<lambda>a. a), email_valid = (\<lambda>a. CHR ''@'' \<in> set a),
      totp_verify = (\<lambda>secret c now. c = secret), provisioning_uri = (\<lambda>secret name issuer. secret),
      parse_user_agent = (\<lambda>t. \<lparr>ag_is_mobile = False, ag_is_tablet = False, ag_is_pc = True,
                                ag_browser = (t, []), ag_os = ([], [])\<rparr>),
      ip_address = (\<lambda>t. if list_all (\<lambda>c. c \<in> set ''0123456789.'') t then Some t else None),
      isoformat = (\<lambda>d. ''t''), uuid_str = hex_digits 32, uuid_hex = hex_digits 32\<rparr>"

definition demo_env :: env where
  "demo_env = \<lparr>cfg = default_settings, plat = demo_platform\<rparr>"

definition demo_user :: user where
  "demo_user =
     \<lparr>u_id = 7, u_email = ''bob@example.com'', u_username = ''bob'', u_password = ''hash$secret-password'',
      u_first_name = ''Bob'', u_last_name = [], u_avatar = [], u_phone = [], u_status = ACTIVE,
      u_email_verified_at = Some 0, u_phone_verified_at = None, u_is_active = True, u_is_staff = False,
      u_is_superuser = False, u_date_joined = 0, u_last_login = None, u_last_login_ip = None,
      u_created_at = 0, u_updated_at = 0\<rparr>"

definition demo_db :: db where
  "demo_db = empty_db\<lparr>next_id := 100, users := [demo_user]\<rparr>"

lemma demo_platform_laws: "platform_laws demo_platform"
  by (simp add: platform_laws_def demo_platform_def startswith_def)

end
