(* ===== verification/Events.thy ===== *)
theory Events
  imports Environment
begin

text \<open>
  The two histories every service writes: \<^verbatim>\<open>SecurityEventService.record\<close>
  (\<^verbatim>\<open>apps/security/services.py\<close>) and the audit log of \<^verbatim>\<open>apps/audit\<close>: the service
  that writes a row, the model and query set methods that refuse to change or delete one, and the
  retention task, the only way a row leaves the table. The lemmas state what each writes and that
  both leave every other table alone.
\<close>

section \<open>SecurityEventService\<close>

definition security_record ::
    "env \<Rightarrow> security_event_type \<Rightarrow> uuid option \<Rightarrow> request option \<Rightarrow> (string \<times> pyval) list \<Rightarrow> unit action"
  where
  "security_record e event_type user rq metadata =
     bind_op now_op (\<lambda>now. modify (\<lambda>s. s\<lparr>security_events :=
       \<lparr>se_user = user, se_event_type = event_type, se_ip_address = request_ip e rq,
        se_user_agent = request_agent rq, se_request_id = request_id_text rq,
        se_metadata = metadata, se_created_at = now\<rparr> # security_events s\<rparr>))"

section \<open>AuditService\<close>

text \<open>The keyword arguments of \<^verbatim>\<open>AuditService.record\<close>, with the defaults of its signature.\<close>

datatype actor = AnonymousActor | UserActor uuid

record audit_target =
  at_label :: string
  at_pk :: string
  at_repr :: string

record audit_args =
  aa_action :: string
  aa_target :: "audit_target option"
  aa_actor :: "actor option"
  aa_request :: "request option"
  aa_before :: "(string \<times> pyval) list"
  aa_after :: "(string \<times> pyval) list"
  aa_metadata :: "(string \<times> pyval) list"
  aa_target_type :: "string option"
  aa_target_id :: "string option"
  aa_target_repr :: "string option"

definition audit_call :: "string \<Rightarrow> audit_args" where
  "audit_call action =
     \<lparr>aa_action = action, aa_target = None, aa_actor = None, aa_request = None, aa_before = [],
      aa_after = [], aa_metadata = [], aa_target_type = None, aa_target_id = None,
      aa_target_repr = None\<rparr>"

definition resolved_type :: "audit_args \<Rightarrow> string" where
  "resolved_type a =
     (case aa_target_type a of
        Some t \<Rightarrow> if t \<noteq> [] then t
                  else (case aa_target a of None \<Rightarrow> ''system'' | Some tg \<Rightarrow> at_label tg)
      | None \<Rightarrow> (case aa_target a of None \<Rightarrow> ''system'' | Some tg \<Rightarrow> at_label tg))"

definition audit_row :: "env \<Rightarrow> datetime \<Rightarrow> audit_args \<Rightarrow> audit_log" where
  "audit_row e now a =
     \<lparr>al_actor = (case aa_actor a of Some (UserActor i) \<Rightarrow> Some i | _ \<Rightarrow> None),
      al_action = aa_action a,
      al_target_type = resolved_type a,
      al_target_id = (case aa_target_id a of Some i \<Rightarrow> i
                      | None \<Rightarrow> (case aa_target a of None \<Rightarrow> [] | Some tg \<Rightarrow> at_pk tg)),
      al_target_repr = take 255
        (case aa_target_repr a of Some r \<Rightarrow> r
         | None \<Rightarrow> (case aa_target a of None \<Rightarrow> [] | Some tg \<Rightarrow> at_repr tg)),
      al_before = sanitize (isoformat (plat e)) (uuid_str (plat e)) (PDict (aa_before a)),
      al_after = sanitize (isoformat (plat e)) (uuid_str (plat e)) (PDict (aa_after a)),
      al_metadata = sanitize (isoformat (plat e)) (uuid_str (plat e)) (PDict (aa_metadata a)),
      al_request_id = request_id_text (aa_request a),
      al_ip_address = request_ip e (aa_request a),
      al_user_agent = request_agent (aa_request a),
      al_created_at = now\<rparr>"

definition audit_record :: "env \<Rightarrow> audit_args \<Rightarrow> unit action" where
  "audit_record e a =
     bind_op now_op (\<lambda>now.
       modify (\<lambda>s. s\<lparr>audit_logs := audit_row e now a # audit_logs s\<rparr>))"

definition user_target :: "env \<Rightarrow> user \<Rightarrow> audit_target" where
  "user_target e u =
     \<lparr>at_label = ''accounts.user'', at_pk = uuid_str (plat e) (u_id u), at_repr = u_email u\<rparr>"

section \<open>The audit table\<close>

definition audit_save :: "bool \<Rightarrow> audit_log \<Rightarrow> unit action" where
  "audit_save adding row =
     (if \<not> adding then throw (ValidationError ''Audit logs are immutable.'')
      else modify (\<lambda>s. s\<lparr>audit_logs := row # audit_logs s\<rparr>))"

definition audit_delete :: "audit_log \<Rightarrow> unit action" where
  "audit_delete row =
     throw (ValidationError ''Audit logs cannot be deleted through the application.'')"

definition audit_qs_update :: "(audit_log \<Rightarrow> bool) \<Rightarrow> (audit_log \<Rightarrow> audit_log) \<Rightarrow> unit action" where
  "audit_qs_update P f =
     throw (ValidationError ''Audit logs cannot be updated through the application.'')"

definition audit_qs_delete :: "(audit_log \<Rightarrow> bool) \<Rightarrow> unit action" where
  "audit_qs_delete P =
     throw (ValidationError ''Use the explicit retention operation for audit deletion.'')"

definition hard_delete_for_retention :: "(audit_log \<Rightarrow> bool) \<Rightarrow> nat action" where
  "hard_delete_for_retention P =
     bind_op (reads (\<lambda>s. count_where P (audit_logs s))) (\<lambda>n.
       then_op (modify (\<lambda>s. s\<lparr>audit_logs := delete_where P (audit_logs s)\<rparr>)) (ret n))"

definition cleanup_audit_logs :: "env \<Rightarrow> nat action" where
  "cleanup_audit_logs e =
     (if AUDIT_RETENTION_DAYS (cfg e) \<le> 0 then ret 0
      else bind_op now_op (\<lambda>now.
             hard_delete_for_retention
               (\<lambda>r. al_created_at r < now - days (AUDIT_RETENTION_DAYS (cfg e)))))"

section \<open>Lemmas\<close>

lemma security_record_run [op_simps]:
  "security_record e et u rq md s =
     (Inr (), s\<lparr>security_events :=
        \<lparr>se_user = u, se_event_type = et, se_ip_address = request_ip e rq,
         se_user_agent = request_agent rq, se_request_id = request_id_text rq,
         se_metadata = md, se_created_at = clock s\<rparr> # security_events s\<rparr>)"
  by (simp add: security_record_def op_simps)

lemma audit_record_run [op_simps]:
  "audit_record e a s = (Inr (), s\<lparr>audit_logs := audit_row e (clock s) a # audit_logs s\<rparr>)"
  by (simp add: audit_record_def op_simps)

lemma preserves_security_record [preserves_intros]:
  "(\<And>s r. P s \<Longrightarrow> P (s\<lparr>security_events := r # security_events s\<rparr>)) \<Longrightarrow>
   preserves P (security_record e et u rq md)"
  by (rule preservesI) (simp add: op_simps)

lemma preserves_audit_record [preserves_intros]:
  "(\<And>s r. P s \<Longrightarrow> P (s\<lparr>audit_logs := r # audit_logs s\<rparr>)) \<Longrightarrow> preserves P (audit_record e a)"
  by (rule preservesI) (simp add: op_simps)

lemma preserves_fresh_id [preserves_intros]:
  "(\<And>s. P s \<Longrightarrow> P (s\<lparr>next_id := Suc (next_id s)\<rparr>)) \<Longrightarrow> preserves P fresh_id"
  by (rule preservesI) (simp add: op_simps)

lemma preserves_now_op [preserves_intros]: "preserves P now_op"
  by (simp add: now_op_def preserves_reads)

lemma audit_row_redacted:
  "redacted (al_before (audit_row e now a))"
  "redacted (al_after (audit_row e now a))"
  "redacted (al_metadata (audit_row e now a))"
  using sanitize_redacted_json by (simp_all add: audit_row_def del: sanitize.simps)

text \<open>
  The audit trail as a transition system: one rule per way the application reaches the table,
  failing calls included.
\<close>

inductive audit_step :: "env \<Rightarrow> db \<Rightarrow> db \<Rightarrow> bool" for e :: env where
  record_row: "audit_record e a s = (r, t) \<Longrightarrow> audit_step e s t"
| save_row: "audit_save adding row s = (r, t) \<Longrightarrow> audit_step e s t"
| delete_row: "audit_delete row s = (r, t) \<Longrightarrow> audit_step e s t"
| update_rows: "audit_qs_update P f s = (r, t) \<Longrightarrow> audit_step e s t"
| delete_rows: "audit_qs_delete P s = (r, t) \<Longrightarrow> audit_step e s t"
| retention: "cleanup_audit_logs e s = (r, t) \<Longrightarrow> audit_step e s t"

lemma audit_step_log:
  assumes "audit_step e s t"
  shows "audit_logs t = audit_logs s \<or> (\<exists>row. audit_logs t = row # audit_logs s) \<or>
         (0 < AUDIT_RETENTION_DAYS (cfg e) \<and>
          audit_logs t = filter (\<lambda>r. clock s - days (AUDIT_RETENTION_DAYS (cfg e)) \<le> al_created_at r)
                           (audit_logs s))"
  using assms
proof cases
  case (retention r)
  then show ?thesis
    by (auto simp: cleanup_audit_logs_def hard_delete_for_retention_def op_simps delete_where_def
        not_less split: if_splits)
qed (auto simp: op_simps audit_save_def audit_delete_def audit_qs_update_def audit_qs_delete_def
       split: if_splits)

text \<open>With retention off, which is the default, rows are only ever added in front.\<close>

lemma audit_run_append_only:
  assumes "(audit_step e)\<^sup>*\<^sup>* s t" and "AUDIT_RETENTION_DAYS (cfg e) \<le> 0"
  shows "\<exists>newer. audit_logs t = newer @ audit_logs s"
  using assms(1)
proof (induction rule: rtranclp_induct)
  case (step t u)
  then obtain newer where n: "audit_logs t = newer @ audit_logs s" by blast
  from audit_step_log [OF step(2)] assms(2)
  consider "audit_logs u = audit_logs t" | row where "audit_logs u = row # audit_logs t" by auto
  then show ?case
  proof cases
    case 2
    with n have "audit_logs u = (row # newer) @ audit_logs s" by simp
    then show ?thesis by blast
  qed (use n in simp)
qed simp

section \<open>Properties\<close>



text \<open>
  Property C10: recording never fails and never leaks. \<open>audit_record\<close> adds exactly one row; its before,
  after and metadata columns are redacted, its target text fits the column, and the rest of the
  database is untouched.
\<close>

theorem audit_record_redacted:
  "\<exists>row. audit_record e a s = (Inr (), s\<lparr>audit_logs := row # audit_logs s\<rparr>) \<and>
     redacted (al_before row) \<and> redacted (al_after row) \<and> redacted (al_metadata row) \<and>
     length (al_target_repr row) \<le> 255 \<and> al_created_at row = clock s"
proof -
  have "length (al_target_repr (audit_row e (clock s) a)) \<le> 255" "al_created_at (audit_row e (clock s) a) = clock s"
    by (simp_all add: audit_row_def)
  then show ?thesis using audit_row_redacted [of e "clock s" a]
    by (intro exI [of _ "audit_row e (clock s) a"]) (simp add: op_simps)
qed

end
