(* ===== verification/Stamps.thy ===== *)
theory Stamps
  imports Operations
begin

text \<open>
  The contract behind every "used at" and "revoked at" column: a row carries an optional instant
  that is set once. One-time tokens, recovery codes, sessions, API keys and bans all follow it;
  each theory that provides such a column interprets the locale for it.
\<close>

locale stamped =
  fixes key :: "'r \<Rightarrow> 'k"
    and stamp :: "'r \<Rightarrow> datetime option"
    and set_stamp :: "datetime \<Rightarrow> 'r \<Rightarrow> 'r"
  assumes stamp_set [simp]: "stamp (set_stamp now r) = Some now"
    and key_set [simp]: "key (set_stamp now r) = key r"
begin

lemma stamped_stays:
  "r \<in> set t \<Longrightarrow> stamp r \<noteq> None \<Longrightarrow>
   r \<in> set (update_where (\<lambda>q. P q \<and> stamp q = None) (set_stamp now) t)"
  by (rule update_where_same) auto

lemma unstamped_came_from:
  assumes "r \<in> set (update_where P (set_stamp now) t)" and "stamp r = None"
  shows "r \<in> set t \<and> \<not> P r"
  using assms(1) by (cases rule: update_whereE) (use assms(2) in auto)

lemma others_stay: "r \<in> set t \<Longrightarrow> \<not> P r \<Longrightarrow> r \<in> set (update_where P (set_stamp now) t)"
  by (rule update_where_same)

lemma all_stamped:
  assumes "r \<in> set (update_where (\<lambda>q. P q \<and> stamp q = None) (set_stamp now) t)" and "P r"
  shows "stamp r \<noteq> None"
  using assms(1) by (cases rule: update_whereE) (use assms(2) in auto)

lemma keys_stay [simp]: "map key (update_where P (set_stamp now) t) = map key t"
  by (rule update_where_map) simp

lemma stamp_by_key:
  assumes "r \<in> set (update_where (\<lambda>q. key q = k) (set_stamp now) t)" and "key r = k"
  shows "stamp r = Some now"
  using assms(1) by (cases rule: update_whereE) (use assms(2) in auto)

text \<open>A row once stamped is stamped, or gone, after any further stamping or deletion.\<close>

definition spent :: "'k \<Rightarrow> 'r list \<Rightarrow> bool" where
  "spent k t \<longleftrightarrow> (\<forall>r\<in>set t. key r = k \<longrightarrow> stamp r \<noteq> None)"

lemma spentI: "(\<And>r. r \<in> set t \<Longrightarrow> key r = k \<Longrightarrow> stamp r \<noteq> None) \<Longrightarrow> spent k t"
  by (simp add: spent_def)

lemma spentD: "spent k t \<Longrightarrow> r \<in> set t \<Longrightarrow> key r = k \<Longrightarrow> stamp r \<noteq> None"
  by (simp add: spent_def)

lemma spent_update:
  assumes "spent k t"
  shows "spent k (update_where P (set_stamp now) t)"
proof (rule spentI)
  fix r assume "r \<in> set (update_where P (set_stamp now) t)" and "key r = k"
  then show "stamp r \<noteq> None" using spentD [OF assms] by (cases rule: update_whereE) auto
qed

lemma spent_delete: "spent k t \<Longrightarrow> spent k (delete_where P t)"
  by (simp add: spent_def)

lemma spent_insert: "spent k t \<Longrightarrow> key r \<noteq> k \<Longrightarrow> spent k (r # t)"
  by (simp add: spent_def)

lemma spent_stamp: "spent k (update_where (\<lambda>q. key q = k) (set_stamp now) t)"
  by (rule spentI) (simp add: stamp_by_key)

end

end
