(* ===== verification/Tokens.thy ===== *)
theory Tokens
  imports Events Stamps
begin

text \<open>
  \<^verbatim>\<open>TokenService\<close> of \<^verbatim>\<open>apps/authentication/services.py\<close> and the token clean-up of
  \<^verbatim>\<open>apps/authentication/tasks.py\<close>: one-time tokens are issued (superseding the unused ones
  of the same user and purpose), consumed once, and deleted after their retention; refresh tokens
  are blacklisted. The raw token is the argument \<open>raw\<close>: it stands for the value
  \<^verbatim>\<open>generate_token()\<close> draws.
\<close>

section \<open>Operations\<close>

definition token_hash :: "env \<Rightarrow> token_purpose \<Rightarrow> string \<Rightarrow> string" where
  "token_hash e p raw = keyed_hash e (''one-time:'' @ purpose_text p) raw"

definition token_create :: "one_time_token \<Rightarrow> unit action" where
  \<comment> \<open>\<^verbatim>\<open>OneTimeToken.objects.create\<close>: the hash column is unique\<close>
  "token_create tok =
     bind_op (reads (\<lambda>s. exists_where (\<lambda>t. ot_token_hash t = ot_token_hash tok) (one_time_tokens s)))
       (\<lambda>dup. if dup then throw (IntegrityError ''token_hash'')
              else modify (\<lambda>s. s\<lparr>one_time_tokens := tok # one_time_tokens s\<rparr>))"

definition token_mark_used :: "datetime \<Rightarrow> one_time_token \<Rightarrow> one_time_token" where
  "token_mark_used now t = t\<lparr>ot_used_at := Some now\<rparr>"

definition issue ::
    "env \<Rightarrow> uuid \<Rightarrow> token_purpose \<Rightarrow> int \<Rightarrow> (string \<times> string) list \<Rightarrow> string \<Rightarrow> string action" where
  "issue e user purpose ttl metadata raw = atomic
     (bind_op now_op (\<lambda>now.
      then_op (modify (\<lambda>s. s\<lparr>one_time_tokens :=
         update_where (\<lambda>t. (ot_user t = user \<and> ot_purpose t = purpose) \<and> ot_used_at t = None)
           (token_mark_used now) (one_time_tokens s)\<rparr>))
      (bind_op fresh_id (\<lambda>i.
       then_op (token_create
         \<lparr>ot_id = i, ot_user = user, ot_purpose = purpose, ot_token_hash = token_hash e purpose raw,
          ot_metadata = metadata, ot_created_at = now, ot_expires_at = now + ttl, ot_used_at = None\<rparr>)
       (ret raw)))))"

definition invalid_token :: error where
  "invalid_token = api_error ''This token is invalid or expired.'' ''INVALID_TOKEN'' 400"

definition consume :: "env \<Rightarrow> string \<Rightarrow> token_purpose \<Rightarrow> one_time_token action" where
  "consume e raw purpose = atomic
     (bind_op (reads (\<lambda>s. get_where ''OneTimeToken''
                 (\<lambda>t. ot_token_hash t = token_hash e purpose raw \<and> ot_purpose t = purpose)
                 (one_time_tokens s))) (\<lambda>found.
      case found of
        Inl err \<Rightarrow> throw (if err = DoesNotExist ''OneTimeToken'' then invalid_token else err)
      | Inr token \<Rightarrow>
          bind_op now_op (\<lambda>now.
          then_op (raise_if (\<not> is_usable now token) invalid_token)
          (then_op (modify (\<lambda>s. s\<lparr>one_time_tokens :=
             update_where (\<lambda>t. ot_id t = ot_id token) (token_mark_used now) (one_time_tokens s)\<rparr>))
          (ret (token_mark_used now token))))))"

fun blacklist_each :: "outstanding_token list \<Rightarrow> nat \<Rightarrow> nat action" where
  "blacklist_each [] created = ret created"
| "blacklist_each (t # ts) created =
     bind_op (reads (\<lambda>s. jt_id t \<in> set (blacklisted s))) (\<lambda>present.
     then_op (when_op (\<not> present) (modify (\<lambda>s. s\<lparr>blacklisted := jt_id t # blacklisted s\<rparr>)))
     (blacklist_each ts (created + (if present then 0 else 1))))"

definition revoke_all_jwt :: "uuid \<Rightarrow> nat action" where
  "revoke_all_jwt user =
     bind_op (reads (\<lambda>s. filter (\<lambda>t. jt_user t = user) (outstanding s))) (\<lambda>ts.
     blacklist_each ts 0)"

definition cleanup_tokens :: "env \<Rightarrow> nat action" where
  "cleanup_tokens e =
     bind_op now_op (\<lambda>now.
     let cutoff = now - days (TOKEN_RETENTION_DAYS (cfg e)) in
     bind_op (reads (\<lambda>s. count_where (\<lambda>t. ot_expires_at t < cutoff) (one_time_tokens s))) (\<lambda>one_time.
     then_op (modify (\<lambda>s. s\<lparr>one_time_tokens :=
        delete_where (\<lambda>t. ot_expires_at t < cutoff) (one_time_tokens s)\<rparr>))
     (bind_op (reads (\<lambda>s. filter (\<lambda>t. jt_expires_at t < now) (outstanding s))) (\<lambda>expired.
      bind_op (reads (\<lambda>s. count_where (\<lambda>b. b \<in> jt_id ` set expired) (blacklisted s))) (\<lambda>black.
      then_op (modify (\<lambda>s. s\<lparr>blacklisted :=
         delete_where (\<lambda>b. b \<in> jt_id ` set expired) (blacklisted s)\<rparr>))
      (then_op (modify (\<lambda>s. s\<lparr>outstanding := delete_where (\<lambda>t. jt_expires_at t < now) (outstanding s)\<rparr>))
      (ret (one_time + black + length expired))))))))"

section \<open>The column contract\<close>

interpretation token_use: stamped ot_id ot_used_at token_mark_used
  by unfold_locales (simp_all add: token_mark_used_def)

lemma token_mark_used_simps [simp]:
  "ot_user (token_mark_used now t) = ot_user t"
  "ot_purpose (token_mark_used now t) = ot_purpose t"
  "ot_token_hash (token_mark_used now t) = ot_token_hash t"
  "ot_expires_at (token_mark_used now t) = ot_expires_at t"
  "ot_metadata (token_mark_used now t) = ot_metadata t"
  "is_usable now' (token_mark_used now t) = False"
  by (simp_all add: token_mark_used_def is_usable_def)

section \<open>Invariant\<close>

text \<open>
  Identifiers are unique and below the supply, hashes are unique, and no user has two unused
  tokens for one purpose.
\<close>

definition unused_unique :: "one_time_token list \<Rightarrow> bool" where
  "unused_unique ts \<longleftrightarrow> (\<forall>a\<in>set ts. \<forall>b\<in>set ts.
     ot_used_at a = None \<and> ot_used_at b = None \<and> ot_user a = ot_user b \<and> ot_purpose a = ot_purpose b
     \<longrightarrow> a = b)"

definition token_inv :: "db \<Rightarrow> bool" where
  "token_inv s \<longleftrightarrow>
     distinct (map ot_id (one_time_tokens s)) \<and>
     distinct (map ot_token_hash (one_time_tokens s)) \<and>
     (\<forall>t\<in>set (one_time_tokens s). ot_id t < next_id s) \<and>
     unused_unique (one_time_tokens s)"

definition token_table_ok :: "one_time_token list \<Rightarrow> bool" where
  "token_table_ok ts \<longleftrightarrow> distinct (map ot_id ts) \<and> distinct (map ot_token_hash ts)"

interpretation token_by_hash: keyed_table ot_token_hash token_table_ok
  by unfold_locales (simp add: token_table_ok_def)

interpretation token_by_id: keyed_table ot_id token_table_ok
  by unfold_locales (simp add: token_table_ok_def)

lemma token_inv_table: "token_inv s \<Longrightarrow> token_table_ok (one_time_tokens s)"
  by (simp add: token_inv_def token_table_ok_def)

lemma hashes_stay [simp]:
  "map ot_token_hash (update_where P (token_mark_used now) ts) = map ot_token_hash ts"
  by (rule update_where_map) simp

lemma hash_image_stays:
  "ot_token_hash ` set (update_where P (token_mark_used now) ts) = ot_token_hash ` set ts"
  by (metis hashes_stay list.set_map)

lemma unused_unique_Cons:
  assumes "unused_unique ts"
    and "\<And>t. t \<in> set ts \<Longrightarrow> ot_user t = ot_user n \<Longrightarrow> ot_purpose t = ot_purpose n \<Longrightarrow> ot_used_at t \<noteq> None"
  shows "unused_unique (n # ts)"
  unfolding unused_unique_def
proof (intro ballI impI, elim conjE)
  fix a b
  assume ab: "a \<in> set (n # ts)" "b \<in> set (n # ts)" "ot_used_at a = None" "ot_used_at b = None"
    and same: "ot_user a = ot_user b" "ot_purpose a = ot_purpose b"
  then consider "a = n" "b = n" | "a = n" "b \<in> set ts" | "a \<in> set ts" "b = n"
    | "a \<in> set ts" "b \<in> set ts" by auto
  then show "a = b"
    by cases (use ab same assms(2) [of a] assms(2) [of b] assms(1) in \<open>auto simp: unused_unique_def\<close>)
qed

lemma unused_unique_mark: "unused_unique ts \<Longrightarrow> unused_unique (update_where P (token_mark_used now) ts)"
  unfolding unused_unique_def by (blast dest: token_use.unstamped_came_from)

section \<open>What the operations do\<close>

lemma issue_run:
  "issue e u p ttl md raw s =
     (if token_hash e p raw \<in> ot_token_hash ` set (one_time_tokens s)
      then (Inl (IntegrityError ''token_hash''), s)
      else (Inr raw, s\<lparr>next_id := Suc (next_id s), one_time_tokens :=
        \<lparr>ot_id = next_id s, ot_user = u, ot_purpose = p, ot_token_hash = token_hash e p raw,
         ot_metadata = md, ot_created_at = clock s, ot_expires_at = clock s + ttl, ot_used_at = None\<rparr> #
        update_where (\<lambda>t. (ot_user t = u \<and> ot_purpose t = p) \<and> ot_used_at t = None)
          (token_mark_used (clock s)) (one_time_tokens s)\<rparr>))"
proof -
  have "(\<exists>t\<in>set (update_where P (token_mark_used n) ts). ot_token_hash t = h) \<longleftrightarrow>
        h \<in> ot_token_hash ` set ts" for P n ts h
    using hash_image_stays [of P n ts] by (metis image_iff)
  then show ?thesis by (simp add: issue_def token_create_def op_simps)
qed

lemma consume_ok_iff:
  "consume e raw p s = (Inr tok, s') \<longleftrightarrow>
     (\<exists>t. get_where ''OneTimeToken''
            (\<lambda>t. ot_token_hash t = token_hash e p raw \<and> ot_purpose t = p) (one_time_tokens s) = Inr t \<and>
          is_usable (clock s) t \<and> tok = token_mark_used (clock s) t \<and>
          s' = s\<lparr>one_time_tokens :=
            update_where (\<lambda>q. ot_id q = ot_id t) (token_mark_used (clock s)) (one_time_tokens s)\<rparr>)"
  by (auto simp: consume_def op_simps split: sum.splits if_splits)

lemma consume_error:
  "fst (consume e raw p s) = Inl err \<Longrightarrow> snd (consume e raw p s) = s"
  unfolding consume_def by (rule atomic_rollback)

lemma blacklist_each_run:
  "\<exists>n. blacklist_each ts c s =
     (Inr (c + n), s\<lparr>blacklisted := blacklisted (snd (blacklist_each ts c s))\<rparr>) \<and>
   set (blacklisted (snd (blacklist_each ts c s))) = jt_id ` set ts \<union> set (blacklisted s) \<and>
   n = card (jt_id ` set ts - set (blacklisted s))"
proof (induction ts arbitrary: c s)
  case Nil
  then show ?case by (simp add: op_simps)
next
  case (Cons t ts)
  show ?case
  proof (cases "jt_id t \<in> set (blacklisted s)")
    case True
    then have "insert (jt_id t) (jt_id ` set ts) - set (blacklisted s) =
               jt_id ` set ts - set (blacklisted s)" by auto
    with True Cons [of c s] show ?thesis by (auto simp: op_simps)
  next
    case False
    let ?s = "s\<lparr>blacklisted := jt_id t # blacklisted s\<rparr>"
    have "insert (jt_id t) (jt_id ` set ts) - set (blacklisted s) =
          insert (jt_id t) (jt_id ` set ts - set (blacklisted ?s))" using False by auto
    then have "card (insert (jt_id t) (jt_id ` set ts) - set (blacklisted s)) =
               Suc (card (jt_id ` set ts - set (blacklisted ?s)))" by simp
    with False Cons [of "c + 1" ?s] show ?thesis by (auto simp: op_simps)
  qed
qed

lemma revoke_all_jwt_run:
  obtains n bl where "revoke_all_jwt u s = (Inr n, s\<lparr>blacklisted := bl\<rparr>)"
    and "set bl = jt_id ` {t \<in> set (outstanding s). jt_user t = u} \<union> set (blacklisted s)"
    and "n = card (jt_id ` {t \<in> set (outstanding s). jt_user t = u} - set (blacklisted s))"
proof -
  let ?ts = "filter (\<lambda>t. jt_user t = u) (outstanding s)"
  have "revoke_all_jwt u s = blacklist_each ?ts 0 s" by (simp add: revoke_all_jwt_def op_simps)
  then show thesis using that blacklist_each_run [of ?ts 0 s] by auto
qed

text \<open>Operations on one-time tokens, and nothing else, change the token table.\<close>

inductive token_step :: "env \<Rightarrow> db \<Rightarrow> db \<Rightarrow> bool" for e :: env where
  issue_step: "issue e u p ttl md raw s = (r, t) \<Longrightarrow> token_step e s t"
| consume_step: "consume e raw p s = (r', t) \<Longrightarrow> token_step e s t"
| cleanup_step: "cleanup_tokens e s = (r'', t) \<Longrightarrow> token_step e s t"
| tick: "clock s \<le> now \<Longrightarrow> token_step e s (s\<lparr>clock := now\<rparr>)"

lemma cleanup_tokens_tokens:
  "cleanup_tokens e s = (r, t) \<Longrightarrow>
   next_id t = next_id s \<and> (\<exists>P. one_time_tokens t = delete_where P (one_time_tokens s))"
  by (auto simp: cleanup_tokens_def op_simps Let_def)

lemma token_inv_issue: "token_inv s \<Longrightarrow> token_inv (snd (issue e u p ttl md raw s))"
proof -
  assume inv: "token_inv s"
  let ?ts = "update_where (\<lambda>t. (ot_user t = u \<and> ot_purpose t = p) \<and> ot_used_at t = None)
               (token_mark_used (clock s)) (one_time_tokens s)"
  have ids: "ot_id ` set ?ts = ot_id ` set (one_time_tokens s)"
    by (metis list.set_map token_use.keys_stay)
  have superseded: "ot_used_at t \<noteq> None" if "t \<in> set ?ts" "ot_user t = u" "ot_purpose t = p" for t
    using that token_use.all_stamped [where P = "\<lambda>t. ot_user t = u \<and> ot_purpose t = p"] by auto
  have uu: "unused_unique ?ts" using inv by (simp add: token_inv_def unused_unique_mark)
  have bound: "\<forall>t\<in>set ?ts. ot_id t < next_id s"
    using inv ids by (metis (no_types, lifting) imageE image_eqI token_inv_def)
  have fresh: "next_id s \<notin> ot_id ` set (one_time_tokens s)" using inv by (auto simp: token_inv_def)
  show ?thesis
  proof (cases "token_hash e p raw \<in> ot_token_hash ` set (one_time_tokens s)")
    case True
    with inv show ?thesis by (simp add: issue_run)
  next
    case False
    let ?n = "\<lparr>ot_id = next_id s, ot_user = u, ot_purpose = p, ot_token_hash = token_hash e p raw,
       ot_metadata = md, ot_created_at = clock s, ot_expires_at = clock s + ttl, ot_used_at = None\<rparr>"
    have "unused_unique (?n # ?ts)" using uu superseded by (intro unused_unique_Cons) auto
    moreover have "distinct (map ot_id ?ts)" "distinct (map ot_token_hash ?ts)"
      using inv by (simp_all add: token_inv_def)
    ultimately show ?thesis using False fresh bound
      by (simp add: issue_run token_inv_def hash_image_stays less_Suc_eq)
  qed
qed

lemma token_inv_delete:
  "token_inv s \<Longrightarrow> next_id t = next_id s \<Longrightarrow>
   one_time_tokens t = delete_where P (one_time_tokens s) \<Longrightarrow> token_inv t"
  by (auto simp: token_inv_def unused_unique_def delete_where_distinct)

lemma token_inv_mark:
  assumes "token_inv s" and "next_id t = next_id s"
    and "one_time_tokens t = update_where P (token_mark_used now) (one_time_tokens s)"
  shows "token_inv t"
  using assms unused_unique_mark
  by (auto simp: token_inv_def set_update_where token_mark_used_def)

lemma token_inv_step: "token_step e s t \<Longrightarrow> token_inv s \<Longrightarrow> token_inv t"
proof (induction rule: token_step.induct)
  case (issue_step u p ttl md raw s r t)
  then show ?case using token_inv_issue by (metis snd_conv)
next
  case (consume_step raw p s r t)
  show ?case
  proof (cases r)
    case (Inl err)
    with consume_step consume_error [of e raw p s err] show ?thesis by simp
  next
    case (Inr tok)
    with consume_step show ?thesis by (auto simp: consume_ok_iff intro: token_inv_mark)
  qed
next
  case (cleanup_step s r t)
  then show ?case using cleanup_tokens_tokens token_inv_delete by blast
next
  case (tick s now)
  then show ?case by (simp add: token_inv_def)
qed

lemma token_inv_steps: "(token_step e)\<^sup>*\<^sup>* s t \<Longrightarrow> token_inv s \<Longrightarrow> token_inv t"
  by (induction rule: rtranclp_induct) (auto intro: token_inv_step)

text \<open>A token once used stays used, or is deleted, whatever token operation follows.\<close>

lemma token_next_id_step: "token_step e s t \<Longrightarrow> next_id s \<le> next_id t"
proof (induction rule: token_step.induct)
  case (consume_step raw p s r t)
  then show ?case
    using consume_error [of e raw p s] by (cases r) (auto simp: consume_ok_iff)
qed (auto simp: issue_run dest: cleanup_tokens_tokens split: if_splits)

lemma token_spent_step:
  assumes "token_step e s t" and "token_use.spent i (one_time_tokens s)" and "i < next_id s"
  shows "token_use.spent i (one_time_tokens t)"
  using assms
proof (induction rule: token_step.induct)
  case (issue_step u p ttl md raw s r t)
  then show ?case
    by (auto simp: issue_run split: if_splits intro!: token_use.spent_insert token_use.spent_update)
next
  case (consume_step raw p s r t)
  then show ?case
    using consume_error [of e raw p s]
    by (cases r) (auto simp: consume_ok_iff intro: token_use.spent_update)
next
  case (cleanup_step s r t)
  then show ?case using cleanup_tokens_tokens by (metis token_use.spent_delete)
qed simp

lemma token_spent_steps:
  assumes "(token_step e)\<^sup>*\<^sup>* s t" and "token_use.spent i (one_time_tokens s)" and "i < next_id s"
  shows "token_use.spent i (one_time_tokens t)"
proof -
  from assms(1) have "token_use.spent i (one_time_tokens t) \<and> i < next_id t"
    using assms(2,3)
    by (induction rule: rtranclp_induct)
       (auto dest: token_spent_step token_next_id_step)
  then show ?thesis ..
qed

lemma consume_not_spent:
  assumes "consume e raw p s = (Inr tok, s')"
  shows "\<not> token_use.spent (ot_id tok) (one_time_tokens s)"
  using assms get_where_InrD
  by (fastforce simp: consume_ok_iff is_usable_def token_use.spent_def token_mark_used_def)

lemma consume_spends:
  assumes "consume e raw p s = (Inr tok, s')"
  shows "token_use.spent (ot_id tok) (one_time_tokens s')"
  using assms by (auto simp: consume_ok_iff token_use.spent_stamp)

lemma consume_ids:
  assumes "consume e raw p s = (Inr tok, s')" and "token_inv s"
  shows "ot_id tok < next_id s'"
proof -
  from assms(1) obtain t where t: "get_where ''OneTimeToken''
      (\<lambda>t. ot_token_hash t = token_hash e p raw \<and> ot_purpose t = p) (one_time_tokens s) = Inr t"
    and tok: "tok = token_mark_used (clock s) t" and s': "next_id s' = next_id s"
    by (auto simp: consume_ok_iff)
  from get_where_InrD [OF t] assms(2) tok s' show ?thesis by (simp add: token_inv_def)
qed

text \<open>A token that was consumed is refused from then on.\<close>

lemma consumed_refused:
  assumes "token_inv s" and "consume e raw p s = (Inr tok, s1)" and "one_time_tokens t = one_time_tokens s1"
  shows "fst (consume e raw p t) = Inl invalid_token"
proof -
  let ?Q = "\<lambda>t. ot_token_hash t = token_hash e p raw \<and> ot_purpose t = p"
  obtain t0 where t0: "get_where ''OneTimeToken'' ?Q (one_time_tokens s) = Inr t0"
    and s1: "one_time_tokens s1 = update_where (\<lambda>q. ot_id q = ot_id t0) (token_mark_used (clock s)) (one_time_tokens s)"
    using assms(2) by (auto simp: consume_ok_iff)
  let ?n = "token_mark_used (clock s) t0"
  have m: "t0 \<in> set (one_time_tokens s)" "?Q t0" using get_where_InrD [OF t0] by auto
  have ok: "token_table_ok (one_time_tokens s1)"
    using token_inv_table [OF assms(1)] unfolding s1 by (simp add: token_table_ok_def)
  have "?n \<in> set (one_time_tokens s1)"
    unfolding s1 using update_where_changed [OF m(1), of "\<lambda>q. ot_id q = ot_id t0"] by simp
  then have "get_where ''OneTimeToken'' ?Q (one_time_tokens t) = Inr ?n"
    using token_by_hash.get_by_key_and [OF ok, of ?n "\<lambda>q. ot_purpose q = p"] m(2) assms(3) by simp
  then show ?thesis by (simp add: consume_def op_simps)
qed

text \<open>A token that was just issued is the one its raw value finds.\<close>

lemma issued_found:
  assumes "issue e u p ttl md raw s = (Inr r, s')"
  shows "get_where ''OneTimeToken'' (\<lambda>t. ot_token_hash t = token_hash e p raw \<and> ot_purpose t = p) (one_time_tokens s') =
     Inr \<lparr>ot_id = next_id s, ot_user = u, ot_purpose = p, ot_token_hash = token_hash e p raw,
       ot_metadata = md, ot_created_at = clock s, ot_expires_at = clock s + ttl, ot_used_at = None\<rparr>"
proof -
  let ?n = "\<lparr>ot_id = next_id s, ot_user = u, ot_purpose = p, ot_token_hash = token_hash e p raw,
       ot_metadata = md, ot_created_at = clock s, ot_expires_at = clock s + ttl, ot_used_at = None\<rparr>"
  let ?ts = "update_where (\<lambda>t. (ot_user t = u \<and> ot_purpose t = p) \<and> ot_used_at t = None)
               (token_mark_used (clock s)) (one_time_tokens s)"
  have "token_hash e p raw \<notin> ot_token_hash ` set (one_time_tokens s)" and t: "one_time_tokens s' = ?n # ?ts"
    using assms by (auto simp: issue_run split: if_splits)
  then have "token_hash e p raw \<notin> ot_token_hash ` set ?ts" unfolding hash_image_stays by blast
  then have "filter (\<lambda>t. ot_token_hash t = token_hash e p raw \<and> ot_purpose t = p) ?ts = []"
    unfolding filter_empty_conv by force
  then have "filter (\<lambda>t. ot_token_hash t = token_hash e p raw \<and> ot_purpose t = p) (?n # ?ts) = [?n]"
    by simp
  then show ?thesis unfolding t by (simp add: get_where_def)
qed

section \<open>Properties\<close>

definition demo_tokens :: db where
  "demo_tokens = snd (issue demo_env 7 PASSWORD_RESET (seconds 60) [(''k'', ''v'')] ''raw'' empty_db)"

text \<open>
  Property C2: a one-time token is used at most once. After a successful
  \<open>consume\<close>, no later \<open>consume\<close>, with whatever raw value and purpose and after any sequence of
  token operations and any passage of time, returns the same token row again.
\<close>

theorem token_single_use:
  assumes "token_inv s" and "consume e raw p s = (Inr tok, s')" and "(token_step e)\<^sup>*\<^sup>* s' t"
  shows "\<not> (\<exists>raw' p' tok' t'. consume e raw' p' t = (Inr tok', t') \<and> ot_id tok' = ot_id tok)"
proof -
  have "token_use.spent (ot_id tok) (one_time_tokens t)"
    using token_spent_steps [OF assms(3) consume_spends [OF assms(2)] consume_ids [OF assms(2,1)]] .
  then show ?thesis using consume_not_spent by metis
qed

theorem token_single_use_witness:
  "\<exists>tok s'. consume demo_env ''raw'' PASSWORD_RESET demo_tokens = (Inr tok, s') \<and>
     \<not> (\<exists>raw' p' tok' t'. consume demo_env raw' p' s' = (Inr tok', t') \<and> ot_id tok' = ot_id tok)"
proof -
  have "\<not> isl (fst (consume demo_env ''raw'' PASSWORD_RESET demo_tokens))" by code_simp
  then obtain tok s' where c: "consume demo_env ''raw'' PASSWORD_RESET demo_tokens = (Inr tok, s')"
    by (metis isl_def sum.exhaust surjective_pairing)
  have i: "token_inv demo_tokens" by code_simp
  show ?thesis using token_single_use [OF i c rtranclp.rtrancl_refl] c by blast
qed

text \<open>
  Issuing supersedes. In every state the token operations reach from the empty
  database, a user has at most one usable token per purpose.
\<close>

theorem token_at_most_one_usable:
  assumes "(token_step e)\<^sup>*\<^sup>* empty_db s"
  shows "count_where (\<lambda>t. ot_user t = u \<and> ot_purpose t = p \<and> is_usable (clock s) t) (one_time_tokens s) \<le> 1"
proof -
  let ?Q = "\<lambda>t. ot_user t = u \<and> ot_purpose t = p \<and> is_usable (clock s) t"
  have "token_inv empty_db" by (simp add: token_inv_def empty_db_def unused_unique_def)
  with assms have inv: "token_inv s" by (rule token_inv_steps)
  then have d: "distinct (filter ?Q (one_time_tokens s))"
    by (auto simp: token_inv_def distinct_map)
  have "\<forall>a\<in>set (filter ?Q (one_time_tokens s)). \<forall>b\<in>set (filter ?Q (one_time_tokens s)). a = b"
    using inv by (auto simp: token_inv_def unused_unique_def is_usable_def)
  then have "card (set (filter ?Q (one_time_tokens s))) \<le> Suc 0"
    by (subst card_le_Suc0_iff_eq) auto
  then show ?thesis unfolding count_where_def distinct_card [OF d] by simp
qed

theorem token_at_most_one_usable_witness:
  "count_where (\<lambda>t. ot_user t = 7 \<and> ot_purpose t = PASSWORD_RESET \<and> is_usable (clock demo_tokens) t)
     (one_time_tokens demo_tokens) \<le> 1"
proof -
  have "token_step demo_env empty_db demo_tokens"
    unfolding demo_tokens_def by (rule issue_step) (rule surjective_pairing)
  then show ?thesis by (rule token_at_most_one_usable [OF r_into_rtranclp])
qed

text \<open>
  Issue and consume are inverse. A token issued with a raw value whose hash is new is
  returned by \<open>consume\<close> for that raw value at every instant before its expiry, with the user and
  the metadata it was issued with, and is marked used at that instant.
\<close>

theorem token_roundtrip:
  assumes "token_hash e p raw \<notin> ot_token_hash ` set (one_time_tokens s)"
    and "issue e u p ttl md raw s = (r, s')"
    and "now < clock s + ttl"
  shows "r = Inr raw \<and>
         (\<exists>tok s''. consume e raw p (s'\<lparr>clock := now\<rparr>) = (Inr tok, s'') \<and> ot_user tok = u \<and>
            ot_metadata tok = md \<and> ot_used_at tok = Some now)"
proof -
  have ok: "issue e u p ttl md raw s = (Inr raw, s')" and r: "r = Inr raw"
    using assms(1,2) by (auto simp: issue_run)
  show ?thesis using issued_found [OF ok] r assms(3)
    by (auto simp: consume_ok_iff is_usable_def token_mark_used_def)
qed

theorem token_roundtrip_witness:
  "\<exists>tok s''. consume demo_env ''raw'' PASSWORD_RESET (demo_tokens\<lparr>clock := 5\<rparr>) = (Inr tok, s'') \<and>
     ot_user tok = 7 \<and> ot_metadata tok = [(''k'', ''v'')] \<and> ot_used_at tok = Some 5"
proof -
  have h: "token_hash demo_env PASSWORD_RESET ''raw'' \<notin> ot_token_hash ` set (one_time_tokens empty_db)"
    by (simp add: empty_db_def)
  have t: "(5::int) < clock empty_db + seconds 60" by (simp add: empty_db_def seconds_def)
  show ?thesis
    using token_roundtrip [OF h surjective_pairing t, of 7 "[(''k'', ''v'')]"]
    unfolding demo_tokens_def by simp
qed

text \<open>
  \<open>consume\<close> is total and uniform. It succeeds exactly when a usable row with the hash
  and the purpose exists; otherwise it raises the one \<^verbatim>\<open>INVALID_TOKEN\<close> error, whether the
  token is unknown, of another purpose, expired or used, and leaves the state unchanged.
\<close>

theorem consume_complete:
  assumes "token_inv s"
  shows "if \<exists>t\<in>set (one_time_tokens s). ot_token_hash t = token_hash e p raw \<and> ot_purpose t = p \<and>
              is_usable (clock s) t
         then \<not> isl (fst (consume e raw p s))
         else consume e raw p s = (Inl invalid_token, s)"
proof -
  let ?Q = "\<lambda>t. ot_token_hash t = token_hash e p raw \<and> ot_purpose t = p"
  show ?thesis
  proof (cases "\<exists>t\<in>set (one_time_tokens s). ?Q t")
    case True
    then obtain t where t: "t \<in> set (one_time_tokens s)" "?Q t" by blast
    have uniq: "q = t" if "q \<in> set (one_time_tokens s)" "?Q q" for q
      using token_by_hash.key_determines [OF token_inv_table [OF assms] that(1) t(1)] that(2) t(2) by simp
    have "get_where ''OneTimeToken'' ?Q (one_time_tokens s) = Inr t"
      using token_by_hash.get_by_key_and [OF token_inv_table [OF assms] t(1), of "\<lambda>q. ot_purpose q = p"] t(2)
      by simp
    then have "consume e raw p s =
        (if is_usable (clock s) t
         then (Inr (token_mark_used (clock s) t), s\<lparr>one_time_tokens :=
            update_where (\<lambda>q. ot_id q = ot_id t) (token_mark_used (clock s)) (one_time_tokens s)\<rparr>)
         else (Inl invalid_token, s))" by (simp add: consume_def op_simps)
    moreover have "(\<exists>q\<in>set (one_time_tokens s). ?Q q \<and> is_usable (clock s) q) \<longleftrightarrow> is_usable (clock s) t"
      using t uniq by blast
    ultimately show ?thesis by (simp add: isl_def)
  next
    case False
    then have "get_where ''OneTimeToken'' ?Q (one_time_tokens s) = Inl (DoesNotExist ''OneTimeToken'')"
      by simp
    then have "consume e raw p s = (Inl invalid_token, s)"
      by (simp add: consume_def op_simps del: get_where_DoesNotExist)
    moreover have "\<not> (\<exists>q\<in>set (one_time_tokens s). ?Q q \<and> is_usable (clock s) q)" using False by blast
    ultimately show ?thesis by (simp add: isl_def)
  qed
qed

theorem consume_complete_witness:
  "token_inv demo_tokens \<and>
   consume demo_env ''other'' PASSWORD_RESET demo_tokens = (Inl invalid_token, demo_tokens)"
proof -
  have i: "token_inv demo_tokens" by code_simp
  have "\<not> (\<exists>t\<in>set (one_time_tokens demo_tokens). ot_token_hash t = token_hash demo_env PASSWORD_RESET ''other'' \<and>
     ot_purpose t = PASSWORD_RESET \<and> is_usable (clock demo_tokens) t)" by code_simp
  then show ?thesis using consume_complete [OF i, of demo_env PASSWORD_RESET "''other''"] i by simp
qed

end
