(* ===== verification/TokenSpec.thy ===== *)
theory TokenSpec
  imports Tokens
begin

text \<open>
  What \<^verbatim>\<open>TokenService\<close> promises, without rows: a vault holds at most one pass for a user and a purpose.
  Issuing replaces the pass, a raw value is accepted exactly when it opens a pass that has not expired, and
  accepting takes the pass out. The table of one-time tokens refines the vault: used and superseded rows
  are history that the vault does not have.
\<close>

section \<open>The vault\<close>

record pass =
  ps_hash :: string
  ps_metadata :: "(string \<times> string) list"
  ps_expires_at :: datetime

type_synonym vault = "uuid \<times> token_purpose \<rightharpoonup> pass"

datatype token_event =
    Issued uuid token_purpose string "(string \<times> string) list" int
  | Clash
  | Accepted uuid token_purpose string "(string \<times> string) list"
  | Refused token_purpose string
  | Cleaned datetime
  | Ticked datetime

text \<open>The events carry what the caller of an operation gives and sees.\<close>

inductive vault_step :: "vault \<times> datetime \<Rightarrow> token_event \<Rightarrow> vault \<times> datetime \<Rightarrow> bool" where
  vault_issue: "vault_step (v, now) (Issued u p h md ttl)
    (v((u, p) \<mapsto> \<lparr>ps_hash = h, ps_metadata = md, ps_expires_at = now + ttl\<rparr>), now)"
| vault_clash: "vault_step (v, now) Clash (v, now)"
| vault_accept: "v (u, p) = Some x \<Longrightarrow> ps_hash x = h \<Longrightarrow> ps_metadata x = md \<Longrightarrow> now < ps_expires_at x \<Longrightarrow>
    vault_step (v, now) (Accepted u p h md) (v((u, p) := None), now)"
| vault_refuse: "(\<And>u x. v (u, p) = Some x \<Longrightarrow> ps_hash x = h \<Longrightarrow> ps_expires_at x \<le> now) \<Longrightarrow>
    vault_step (v, now) (Refused p h) (v, now)"
| vault_clean: "vault_step (v, now) (Cleaned cutoff)
    (\<lambda>k. case v k of None \<Rightarrow> None | Some x \<Rightarrow> if ps_expires_at x < cutoff then None else Some x, now)"
| vault_tick: "now \<le> later \<Longrightarrow> vault_step (v, now) (Ticked later) (v, later)"

inductive vault_run :: "vault \<times> datetime \<Rightarrow> token_event list \<Rightarrow> vault \<times> datetime \<Rightarrow> bool" where
  vault_done: "vault_run a [] a"
| vault_then: "vault_step a ev b \<Longrightarrow> vault_run b evs c \<Longrightarrow> vault_run a (ev # evs) c"

section \<open>The table\<close>

inductive table_step :: "env \<Rightarrow> db \<Rightarrow> token_event \<Rightarrow> db \<Rightarrow> bool" for e :: env where
  table_issue: "issue e u p ttl md raw s = (Inr r, t) \<Longrightarrow> table_step e s (Issued u p (token_hash e p raw) md ttl) t"
| table_clash: "issue e u p ttl md raw s = (Inl err, t) \<Longrightarrow> table_step e s Clash t"
| table_accept: "consume e raw p s = (Inr tok, t) \<Longrightarrow>
    table_step e s (Accepted (ot_user tok) p (token_hash e p raw) (ot_metadata tok)) t"
| table_refuse: "consume e raw p s = (Inl err, t) \<Longrightarrow> table_step e s (Refused p (token_hash e p raw)) t"
| table_clean: "cleanup_tokens e s = (Inr n, t) \<Longrightarrow>
    table_step e s (Cleaned (clock s - days (TOKEN_RETENTION_DAYS (cfg e)))) t"
| table_tick: "clock s \<le> now \<Longrightarrow> table_step e s (Ticked now) (s\<lparr>clock := now\<rparr>)"

inductive table_run :: "env \<Rightarrow> db \<Rightarrow> token_event list \<Rightarrow> db \<Rightarrow> bool" for e :: env where
  table_done: "table_run e s [] s"
| table_then: "table_step e s ev t \<Longrightarrow> table_run e t evs u \<Longrightarrow> table_run e s (ev # evs) u"

section \<open>The abstraction\<close>

definition pass_of :: "one_time_token \<Rightarrow> pass" where
  "pass_of t = \<lparr>ps_hash = ot_token_hash t, ps_metadata = ot_metadata t, ps_expires_at = ot_expires_at t\<rparr>"

definition open_for :: "uuid \<times> token_purpose \<Rightarrow> one_time_token \<Rightarrow> bool" where
  "open_for k t \<longleftrightarrow> (ot_user t, ot_purpose t) = k \<and> ot_used_at t = None"

definition vault_of :: "one_time_token list \<Rightarrow> vault" where
  "vault_of ts k = map_option pass_of (first_where (open_for k) ts)"

definition vault_state :: "db \<Rightarrow> vault \<times> datetime" where
  "vault_state s = (vault_of (one_time_tokens s), clock s)"

lemma vault_of_open:
  assumes "unused_unique ts" and "t \<in> set ts" and "ot_used_at t = None"
  shows "vault_of ts (ot_user t, ot_purpose t) = Some (pass_of t)"
proof -
  have "first_where (open_for (ot_user t, ot_purpose t)) ts = Some t"
  proof (cases "first_where (open_for (ot_user t, ot_purpose t)) ts")
    case None
    with assms show ?thesis by (auto simp: open_for_def)
  next
    case (Some q)
    from first_where_SomeD [OF this] assms have "q = t" by (auto simp: open_for_def unused_unique_def)
    with Some show ?thesis by simp
  qed
  then show ?thesis by (simp add: vault_of_def)
qed

lemma vault_of_SomeD:
  assumes "vault_of ts (u, p) = Some x"
  obtains t where "t \<in> set ts" "ot_used_at t = None" "ot_user t = u" "ot_purpose t = p" "x = pass_of t"
  using assms first_where_SomeD [of "open_for (u, p)" ts] by (auto simp: vault_of_def open_for_def)

text \<open>The vault of a table without repetitions is fixed by its unused rows.\<close>

lemma vault_of_Some_iff:
  assumes "unused_unique ts"
  shows "vault_of ts (u, p) = Some x \<longleftrightarrow>
    (\<exists>t\<in>set ts. ot_used_at t = None \<and> ot_user t = u \<and> ot_purpose t = p \<and> x = pass_of t)"
  by (metis assms vault_of_SomeD vault_of_open)

lemma vault_eqI:
  assumes "\<And>u p x. v (u, p) = Some x \<longleftrightarrow> w (u, p) = Some x"
  shows "v = (w :: vault)"
proof
  fix k
  show "v k = w k" using assms by (cases k) (metis not_None_eq)
qed

lemma mark_used_at [simp]: "ot_used_at (token_mark_used now t) = Some now"
  by (simp add: token_mark_used_def)

lemma unused_update_iff:
  "t \<in> set (update_where P (token_mark_used now) ts) \<and> ot_used_at t = None \<longleftrightarrow>
     t \<in> set ts \<and> \<not> P t \<and> ot_used_at t = None"
proof -
  have "token_mark_used now q \<noteq> t" if "ot_used_at t = None" for q using that by (metis mark_used_at option.distinct(1))
  then show ?thesis by (auto simp: set_update_where)
qed

text \<open>How the three ways of writing the table change the vault.\<close>

lemma vault_of_insert:
  assumes "ot_used_at n = None"
  shows "vault_of (n # ts) = (vault_of ts)((ot_user n, ot_purpose n) \<mapsto> pass_of n)"
  using assms by (auto simp: vault_of_def first_where_def open_for_def fun_eq_iff)

lemma vault_of_mark:
  assumes "unused_unique ts" and "\<And>t. t \<in> set ts \<Longrightarrow> ot_used_at t = None \<Longrightarrow> P t \<longleftrightarrow> (ot_user t, ot_purpose t) = k"
  shows "vault_of (update_where P (token_mark_used now) ts) = (vault_of ts)(k := None)"
proof (rule vault_eqI)
  fix u p x
  have "vault_of (update_where P (token_mark_used now) ts) (u, p) = Some x \<longleftrightarrow>
      (\<exists>t. (t \<in> set ts \<and> \<not> P t \<and> ot_used_at t = None) \<and> ot_user t = u \<and> ot_purpose t = p \<and> x = pass_of t)"
    unfolding vault_of_Some_iff [OF unused_unique_mark [OF assms(1)]] Bex_def using unused_update_iff by metis
  also have "\<dots> \<longleftrightarrow> ((vault_of ts)(k := None)) (u, p) = Some x"
    using assms(2) by (cases "k = (u, p)") (auto simp: vault_of_Some_iff [OF assms(1)])
  finally show "vault_of (update_where P (token_mark_used now) ts) (u, p) = Some x \<longleftrightarrow> ((vault_of ts)(k := None)) (u, p) = Some x" .
qed

lemma vault_of_delete:
  assumes "unused_unique ts"
  shows "vault_of (delete_where (\<lambda>t. ot_expires_at t < cutoff) ts) =
    (\<lambda>k. case vault_of ts k of None \<Rightarrow> None | Some x \<Rightarrow> if ps_expires_at x < cutoff then None else Some x)"
proof (rule vault_eqI)
  fix u p x
  have uu: "unused_unique (delete_where (\<lambda>t. ot_expires_at t < cutoff) ts)" using assms by (auto simp: unused_unique_def)
  have "(case vault_of ts (u, p) of None \<Rightarrow> None | Some x \<Rightarrow> if ps_expires_at x < cutoff then None else Some x) = Some x \<longleftrightarrow>
      vault_of ts (u, p) = Some x \<and> \<not> ps_expires_at x < cutoff" by (auto split: option.splits)
  then show "vault_of (delete_where (\<lambda>t. ot_expires_at t < cutoff) ts) (u, p) = Some x \<longleftrightarrow>
    (case vault_of ts (u, p) of None \<Rightarrow> None | Some x \<Rightarrow> if ps_expires_at x < cutoff then None else Some x) = Some x"
    by (auto simp: vault_of_Some_iff [OF uu] vault_of_Some_iff [OF assms] pass_of_def)
qed

section \<open>Simulation\<close>

lemma cleanup_tokens_table:
  "cleanup_tokens e s = (r, t) \<Longrightarrow> clock t = clock s \<and> one_time_tokens t =
     delete_where (\<lambda>x. ot_expires_at x < clock s - days (TOKEN_RETENTION_DAYS (cfg e))) (one_time_tokens s)"
  by (auto simp: cleanup_tokens_def op_simps Let_def)

lemma consume_refused:
  assumes "token_inv s" and "fst (consume e raw p s) = Inl err" and "t \<in> set (one_time_tokens s)"
    and "ot_token_hash t = token_hash e p raw" and "ot_purpose t = p"
  shows "\<not> is_usable (clock s) t"
  using consume_complete [OF assms(1), of e p raw] assms(2-) by (auto simp: isl_def split: if_splits)

lemma table_step_inv: "table_step e s ev t \<Longrightarrow> token_inv s \<Longrightarrow> token_inv t"
  by (induction rule: table_step.induct) (blast intro: token_inv_step token_step.intros)+

lemma table_step_simulates:
  assumes "table_step e s ev t" and "token_inv s"
  shows "vault_step (vault_state s) ev (vault_state t)"
  using assms
proof (induction rule: table_step.induct)
  case (table_issue u p ttl md raw s r t)
  let ?n = "\<lparr>ot_id = next_id s, ot_user = u, ot_purpose = p, ot_token_hash = token_hash e p raw,
       ot_metadata = md, ot_created_at = clock s, ot_expires_at = clock s + ttl, ot_used_at = None\<rparr>"
  from table_issue have t: "clock t = clock s" "one_time_tokens t = ?n #
      update_where (\<lambda>t. (ot_user t = u \<and> ot_purpose t = p) \<and> ot_used_at t = None) (token_mark_used (clock s)) (one_time_tokens s)"
    by (auto simp: issue_run split: if_splits)
  have "vault_of (one_time_tokens t) = (vault_of (one_time_tokens s))((u, p) \<mapsto> pass_of ?n)"
    unfolding t vault_of_insert [of ?n, simplified]
    by (subst vault_of_mark [where k = "(u, p)"]) (use table_issue in \<open>auto simp: token_inv_def\<close>)
  then show ?case
    using vault_issue [of "vault_of (one_time_tokens s)" "clock s" u p "token_hash e p raw" md ttl] t(1)
    by (simp add: vault_state_def pass_of_def)
next
  case (table_clash u p ttl md raw s err t)
  then have "t = s" by (auto simp: issue_run split: if_splits)
  then show ?case by (simp add: vault_state_def vault_clash)
next
  case (table_accept raw p s tok t)
  then obtain q where q: "get_where ''OneTimeToken'' (\<lambda>t. ot_token_hash t = token_hash e p raw \<and> ot_purpose t = p) (one_time_tokens s) = Inr q"
    and usable: "is_usable (clock s) q" and tok: "tok = token_mark_used (clock s) q"
    and t: "clock t = clock s" "one_time_tokens t = update_where (\<lambda>x. ot_id x = ot_id q) (token_mark_used (clock s)) (one_time_tokens s)"
    by (auto simp: consume_ok_iff)
  from get_where_InrD [OF q] have m: "q \<in> set (one_time_tokens s)" "ot_token_hash q = token_hash e p raw" "ot_purpose q = p" by auto
  have inv: "unused_unique (one_time_tokens s)" using table_accept by (simp add: token_inv_def)
  have "x = q" if "x \<in> set (one_time_tokens s)" "ot_id x = ot_id q" for x
    using token_by_id.key_determines [OF token_inv_table [OF table_accept(2)] that(1) m(1)] that(2) by simp
  then have only: "ot_id x = ot_id q \<longleftrightarrow> (ot_user x, ot_purpose x) = (ot_user q, ot_purpose q)"
    if "x \<in> set (one_time_tokens s)" "ot_used_at x = None" for x
    using that m(1) usable inv by (auto simp: is_usable_def unused_unique_def)
  have "vault_of (one_time_tokens t) = (vault_of (one_time_tokens s))((ot_user q, ot_purpose q) := None)"
    unfolding t by (rule vault_of_mark [OF inv only])
  moreover have "vault_of (one_time_tokens s) (ot_user q, ot_purpose q) = Some (pass_of q)"
    using vault_of_open [OF inv m(1)] usable by (simp add: is_usable_def)
  ultimately show ?case using t(1) m usable tok
    by (auto simp: vault_state_def pass_of_def is_usable_def intro!: vault_accept)
next
  case (table_refuse raw p s err t)
  then have t: "t = s" using consume_error [of e raw p s err] by simp
  have "ps_expires_at x \<le> clock s" if v: "vault_of (one_time_tokens s) (u, p) = Some x" and h: "ps_hash x = token_hash e p raw" for u x
  proof -
    from v obtain q where q: "q \<in> set (one_time_tokens s)" "ot_used_at q = None" "ot_purpose q = p" "x = pass_of q"
      by (rule vault_of_SomeD)
    with h consume_refused [OF table_refuse(2), of e raw p err q] table_refuse(1) show ?thesis
      by (simp add: pass_of_def is_usable_def)
  qed
  with t show ?case by (auto simp: vault_state_def intro!: vault_refuse)
next
  case (table_clean s n t)
  then show ?case using cleanup_tokens_table [OF table_clean(1)] vault_clean
    by (simp add: vault_state_def vault_of_delete token_inv_def)
next
  case (table_tick s now)
  then show ?case by (simp add: vault_state_def vault_tick)
qed

text \<open>
  Property C30: the table of one-time tokens refines the vault. Every run of issuing, consuming, clean-up and
  the passage of time, with all that its callers see (which raw value was accepted for which account with
  which metadata, which was refused), is a run of the vault between the abstractions of its two ends: at
  most one pass for a user and a purpose, accepted once and before its expiry, and refused only when no such
  pass is there.
\<close>

theorem tokens_refine_vault:
  assumes "table_run e s evs t" and "token_inv s"
  shows "vault_run (vault_state s) evs (vault_state t) \<and> token_inv t"
  using assms
  by (induction rule: table_run.induct) (blast intro: vault_run.intros table_step_simulates table_step_inv)+

text \<open>A mail asked for twice: the first link is refused, the second is accepted, and then refused too.\<close>

definition demo_events :: "token_event list" where
  "demo_events = (let h = token_hash demo_env PASSWORD_RESET in
     [Issued 7 PASSWORD_RESET (h ''first'') [] 60, Issued 7 PASSWORD_RESET (h ''second'') [] 60,
      Refused PASSWORD_RESET (h ''first''), Accepted 7 PASSWORD_RESET (h ''second'') [], Refused PASSWORD_RESET (h ''second'')])"

lemma table_refuse_same:
  assumes "isl (fst (consume e raw p s))"
  shows "table_step e s (Refused p (token_hash e p raw)) s"
proof -
  from assms obtain err where err: "fst (consume e raw p s) = Inl err" by (auto simp: isl_def)
  then have "consume e raw p s = (Inl err, s)" using consume_error [OF err] by (metis prod.collapse)
  then show ?thesis by (rule table_refuse)
qed

theorem tokens_refine_vault_witness:
  "\<exists>t. table_run demo_env empty_db demo_events t \<and> token_inv t \<and> vault_run (Map.empty, 0) demo_events (vault_state t)"
proof -
  let ?p = PASSWORD_RESET
  let ?i = "\<lambda>raw. issue demo_env 7 ?p 60 [] raw" and ?c = "\<lambda>raw. consume demo_env raw ?p"
  let ?s1 = "snd (?i ''first'' empty_db)"
  let ?s2 = "snd (?i ''second'' ?s1)"
  let ?s3 = "snd (?c ''second'' ?s2)"
  have i: "?i ''first'' empty_db = (Inr ''first'', ?s1)" "?i ''second'' ?s1 = (Inr ''second'', ?s2)" by code_simp+
  have "case fst (?c ''second'' ?s2) of Inr tok \<Rightarrow> ot_user tok = 7 \<and> ot_metadata tok = [] | Inl _ \<Rightarrow> False" by code_simp
  then obtain tok where c: "?c ''second'' ?s2 = (Inr tok, ?s3)" "ot_user tok = 7" "ot_metadata tok = []"
    by (cases "?c ''second'' ?s2") (auto split: sum.splits)
  have r: "isl (fst (?c ''first'' ?s2))" "isl (fst (?c ''second'' ?s3))" by code_simp+
  have run: "table_run demo_env empty_db demo_events ?s3"
    unfolding demo_events_def Let_def
    using table_issue [OF i(1)] table_issue [OF i(2)] table_refuse_same [OF r(1)] table_accept [OF c(1)] table_refuse_same [OF r(2)] c(2,3)
    by (auto intro!: table_run.intros)
  have inv: "token_inv empty_db" by code_simp
  have "vault_state empty_db = (Map.empty, 0)"
    by (auto simp: vault_state_def vault_of_def first_where_def empty_db_def)
  with tokens_refine_vault [OF run inv] run show ?thesis by auto
qed

end
