(* ===== verification/Mail.thy ===== *)
theory Mail
  imports Events
begin

text \<open>
  \<^verbatim>\<open>common/services/email.py\<close>. A mail is its template, recipient, subject and context; the
  rendering of templates and the transport are outside the model, so that \<open>enqueue\<close> adds the
  mail to \<open>outbox\<close>. The context is kept as \<^verbatim>\<open>_task_context\<close> makes it. A mail handed over by
  \<^verbatim>\<open>transaction.on_commit\<close> is added inside the atomic block, whose rollback takes it back.
\<close>

datatype context_value =
    Plain pyval
  | UserObject user
  | SessionObject user_session

fun task_value :: "(datetime \<Rightarrow> string) \<Rightarrow> (uuid \<Rightarrow> string) \<Rightarrow> pyval \<Rightarrow> pyval" where
  "task_value fmt us (PDatetime d) = PStr (fmt d)"
| "task_value fmt us (PUUID u) = PStr (us u)"
| "task_value fmt us (PDecimal t) = PStr t"
| "task_value fmt us (PDict kvs) = PDict (map (\<lambda>(k, v). (k, task_value fmt us v)) kvs)"
| "task_value fmt us (PList vs) = PList (map (task_value fmt us) vs)"
| "task_value fmt us (PTuple vs) = PList (map (task_value fmt us) vs)"
| "task_value fmt us (PObject t) = PStr t"
| "task_value fmt us PNone = PNone"
| "task_value fmt us (PBool b) = PBool b"
| "task_value fmt us (PInt i) = PInt i"
| "task_value fmt us (PFloat f) = PFloat f"
| "task_value fmt us (PStr t) = PStr t"

definition opt_text :: "string option \<Rightarrow> pyval" where
  "opt_text x = (case x of None \<Rightarrow> PNone | Some t \<Rightarrow> PStr t)"

fun task_context :: "env \<Rightarrow> context_value \<Rightarrow> pyval" where
  "task_context e (Plain v) = task_value (isoformat (plat e)) (uuid_str (plat e)) v"
| "task_context e (UserObject u) =
     PDict [(''id'', PStr (uuid_str (plat e) (u_id u))), (''email'', PStr (u_email u)),
            (''display_name'', PStr (display_name u))]"
| "task_context e (SessionObject x) =
     PDict [(''identifier'', PStr (us_identifier x)), (''browser'', PStr (us_browser x)),
            (''operating_system'', PStr (us_operating_system x)), (''device'', PStr (us_device x)),
            (''ip_address'', opt_text (us_ip_address x)),
            (''created_at'', PStr (isoformat (plat e) (us_created_at x)))]"

definition enqueue_email ::
    "env \<Rightarrow> string \<Rightarrow> string \<Rightarrow> string \<Rightarrow> (string \<times> context_value) list \<Rightarrow> unit action" where
  "enqueue_email e template recipient subject context =
     modify (\<lambda>s. s\<lparr>outbox :=
       \<lparr>em_template = template, em_recipient = recipient, em_subject = subject,
        em_context = map (\<lambda>(k, v). (k, task_context e v)) context\<rparr> # outbox s\<rparr>)"

text \<open>The context that reaches a task holds only values the JSON serialiser accepts.\<close>

fun task_json :: "pyval \<Rightarrow> bool" where
  "task_json (PList vs) = list_all task_json vs"
| "task_json (PDict kvs) = list_all (\<lambda>kv. task_json (snd kv)) kvs"
| "task_json (PTuple _) = False"
| "task_json (PDatetime _) = False"
| "task_json (PUUID _) = False"
| "task_json (PDecimal _) = False"
| "task_json (PObject _) = False"
| "task_json PNone = True"
| "task_json (PBool _) = True"
| "task_json (PInt _) = True"
| "task_json (PFloat _) = True"
| "task_json (PStr _) = True"

lemma task_value_json: "task_json (task_value fmt us v)"
  by (induction fmt us v rule: task_value.induct) (auto simp: list_all_iff)

lemma task_context_json: "task_json (task_context e v)"
  by (cases v) (auto simp: task_value_json opt_text_def split: option.splits)

lemma enqueue_email_run [op_simps]:
  "enqueue_email e tp rcp sj ctx s =
     (Inr (), s\<lparr>outbox := \<lparr>em_template = tp, em_recipient = rcp, em_subject = sj,
        em_context = map (\<lambda>(k, v). (k, task_context e v)) ctx\<rparr> # outbox s\<rparr>)"
  by (simp add: enqueue_email_def op_simps)

lemma preserves_enqueue_email [preserves_intros]:
  "(\<And>s m. P s \<Longrightarrow> P (s\<lparr>outbox := m # outbox s\<rparr>)) \<Longrightarrow> preserves P (enqueue_email e tp rcp sj ctx)"
  by (rule preservesI) (simp add: op_simps)

end
