(* ===== verification/UserRows.thy ===== *)
theory UserRows
  imports Mail
begin

text \<open>
  Rows that belong to one user, as the services reach them: \<^verbatim>\<open>User.objects.get(pk=...)\<close>, the
  columns written by \<^verbatim>\<open>save(update_fields=[...])\<close>, and the one-to-one rows for security settings
  and preferences, which \<^verbatim>\<open>get_or_create\<close> makes on first use with the defaults of their classes.
\<close>

definition user_get :: "uuid \<Rightarrow> user action" where
  "user_get pk = bind_op (reads (\<lambda>s. get_where ''User'' (\<lambda>u. u_id u = pk) (users s))) of_sum"

definition user_update :: "uuid \<Rightarrow> (user \<Rightarrow> user) \<Rightarrow> unit action" where
  \<comment> \<open>an \<^verbatim>\<open>UPDATE\<close> of the columns that \<open>f\<close> sets in the row with this primary key\<close>
  "user_update pk f = modify (\<lambda>s. s\<lparr>users := update_where (\<lambda>u. u_id u = pk) f (users s)\<rparr>)"

definition security_settings_default :: "uuid \<Rightarrow> uuid \<Rightarrow> datetime \<Rightarrow> user_security_settings" where
  "security_settings_default i uid now =
     \<lparr>ss_id = i, ss_user = uid, ss_password_changed_at = None, ss_locked_until = None,
      ss_notify_new_device = True, ss_updated_at = now\<rparr>"

definition preferences_default :: "uuid \<Rightarrow> uuid \<Rightarrow> datetime \<Rightarrow> user_preferences" where
  "preferences_default i uid now =
     \<lparr>pr_id = i, pr_user = uid, pr_language = ''en'', pr_timezone = ''UTC'',
      pr_email_notifications = True, pr_security_emails = True, pr_created_at = now, pr_updated_at = now\<rparr>"

definition security_settings_create :: "uuid \<Rightarrow> user_security_settings action" where
  "security_settings_create uid =
     bind_op fresh_id (\<lambda>i. bind_op now_op (\<lambda>now.
     let row = security_settings_default i uid now in
     bind_op (reads (\<lambda>s. exists_where (\<lambda>r. ss_user r = uid) (security_settings s))) (\<lambda>dup.
     then_op (raise_if dup (IntegrityError ''user_id''))
     (then_op (modify (\<lambda>s. s\<lparr>security_settings := row # security_settings s\<rparr>)) (ret row)))))"

definition preferences_create :: "uuid \<Rightarrow> user_preferences action" where
  "preferences_create uid =
     bind_op fresh_id (\<lambda>i. bind_op now_op (\<lambda>now.
     let row = preferences_default i uid now in
     bind_op (reads (\<lambda>s. exists_where (\<lambda>r. pr_user r = uid) (preferences s))) (\<lambda>dup.
     then_op (raise_if dup (IntegrityError ''user_id''))
     (then_op (modify (\<lambda>s. s\<lparr>preferences := row # preferences s\<rparr>)) (ret row)))))"

definition security_settings_of :: "uuid \<Rightarrow> user_security_settings action" where
  \<comment> \<open>\<^verbatim>\<open>UserSecuritySettings.objects.get_or_create(user=user)\<close>\<close>
  "security_settings_of uid =
     bind_op (reads (\<lambda>s. get_where ''UserSecuritySettings'' (\<lambda>r. ss_user r = uid) (security_settings s)))
     (\<lambda>found. case found of
        Inr row \<Rightarrow> ret row
      | Inl err \<Rightarrow> if err = DoesNotExist ''UserSecuritySettings'' then security_settings_create uid
                   else throw err)"

definition preferences_of :: "uuid \<Rightarrow> user_preferences action" where
  \<comment> \<open>\<^verbatim>\<open>UserPreferences.objects.get_or_create(user=user)\<close>\<close>
  "preferences_of uid =
     bind_op (reads (\<lambda>s. get_where ''UserPreferences'' (\<lambda>r. pr_user r = uid) (preferences s)))
     (\<lambda>found. case found of
        Inr row \<Rightarrow> ret row
      | Inl err \<Rightarrow> if err = DoesNotExist ''UserPreferences'' then preferences_create uid
                   else throw err)"

definition settings_row_update ::
    "user_security_settings \<Rightarrow> (user_security_settings \<Rightarrow> user_security_settings) \<Rightarrow> unit action" where
  \<comment> \<open>\<open>save(update_fields=[..., "updated_at"])\<close> of the row with this primary key\<close>
  "settings_row_update row f =
     bind_op now_op (\<lambda>now. modify (\<lambda>s. s\<lparr>security_settings :=
       update_where (\<lambda>r. ss_id r = ss_id row) (\<lambda>r. (f r)\<lparr>ss_updated_at := now\<rparr>) (security_settings s)\<rparr>))"

section \<open>Lemmas\<close>

text \<open>
  The tables are keyed: primary keys are unique, and a user has at most one row in each of the
  one-to-one tables.
\<close>

definition user_table_ok :: "user list \<Rightarrow> bool" where
  "user_table_ok us \<longleftrightarrow> distinct (map u_id us)"

definition settings_table_ok :: "user_security_settings list \<Rightarrow> bool" where
  "settings_table_ok rs \<longleftrightarrow> distinct (map ss_user rs)"

definition preferences_table_ok :: "user_preferences list \<Rightarrow> bool" where
  "preferences_table_ok rs \<longleftrightarrow> distinct (map pr_user rs)"

interpretation user_by_id: keyed_table u_id user_table_ok
  by unfold_locales (simp add: user_table_ok_def)

interpretation settings_by_user: keyed_table ss_user settings_table_ok
  by unfold_locales (simp add: settings_table_ok_def)

interpretation preferences_by_user: keyed_table pr_user preferences_table_ok
  by unfold_locales (simp add: preferences_table_ok_def)

lemma user_get_run [op_simps]: "user_get pk s = (get_where ''User'' (\<lambda>u. u_id u = pk) (users s), s)"
  by (simp add: user_get_def op_simps)

lemma user_get_ok_iff:
  "user_get pk s = (Inr u, s') \<longleftrightarrow> s' = s \<and> get_where ''User'' (\<lambda>u. u_id u = pk) (users s) = Inr u"
  by (auto simp: op_simps)

lemma user_get_member: "user_get pk s = (Inr u, s') \<Longrightarrow> u \<in> set (users s) \<and> u_id u = pk"
  using get_where_InrD unfolding user_get_ok_iff by fastforce

lemma user_get_present:
  assumes "user_table_ok (users s)" and "u \<in> set (users s)"
  shows "user_get (u_id u) s = (Inr u, s)"
  using user_by_id.get_by_key [OF assms] by (simp add: op_simps)

lemma user_update_run [op_simps]:
  "user_update pk f s = (Inr (), s\<lparr>users := update_where (\<lambda>u. u_id u = pk) f (users s)\<rparr>)"
  by (simp add: user_update_def op_simps)

lemma preserves_user_get [preserves_intros]: "preserves P (user_get pk)"
  by (simp add: preserves_def op_simps)

lemma preserves_user_update [preserves_intros]:
  "(\<And>s. P s \<Longrightarrow> P (s\<lparr>users := update_where (\<lambda>u. u_id u = pk) f (users s)\<rparr>)) \<Longrightarrow>
   preserves P (user_update pk f)"
  by (rule preservesI) (simp add: op_simps)

lemma security_settings_of_run:
  assumes "settings_table_ok (security_settings s)"
  obtains (present) row where "row \<in> set (security_settings s)" "ss_user row = uid"
      "security_settings_of uid s = (Inr row, s)"
    | (fresh) "\<forall>r\<in>set (security_settings s). ss_user r \<noteq> uid"
      "security_settings_of uid s =
         (Inr (security_settings_default (next_id s) uid (clock s)),
          s\<lparr>next_id := Suc (next_id s), security_settings :=
              security_settings_default (next_id s) uid (clock s) # security_settings s\<rparr>)"
  using assms
proof (cases rule: settings_by_user.get_by_key_cases [where k = uid and name = "''UserSecuritySettings''"])
  case absent
  then show thesis using fresh
    by (simp add: security_settings_of_def security_settings_create_def op_simps Let_def
        del: get_where_DoesNotExist)
next
  case (present r)
  then show thesis using that(1) by (simp add: security_settings_of_def op_simps)
qed

lemma preferences_of_run:
  assumes "preferences_table_ok (preferences s)"
  obtains (present) row where "row \<in> set (preferences s)" "pr_user row = uid"
      "preferences_of uid s = (Inr row, s)"
    | (fresh) "\<forall>r\<in>set (preferences s). pr_user r \<noteq> uid"
      "preferences_of uid s =
         (Inr (preferences_default (next_id s) uid (clock s)),
          s\<lparr>next_id := Suc (next_id s), preferences :=
              preferences_default (next_id s) uid (clock s) # preferences s\<rparr>)"
  using assms
proof (cases rule: preferences_by_user.get_by_key_cases [where k = uid and name = "''UserPreferences''"])
  case absent
  then show thesis using fresh
    by (simp add: preferences_of_def preferences_create_def op_simps Let_def
        del: get_where_DoesNotExist)
next
  case (present r)
  then show thesis using that(1) by (simp add: preferences_of_def op_simps)
qed

lemma preserves_security_settings_create [preserves_intros]:
  assumes "\<And>s. P s \<Longrightarrow> P (s\<lparr>next_id := Suc (next_id s)\<rparr>)"
    and "\<And>s r. P s \<Longrightarrow> P (s\<lparr>security_settings := r # security_settings s\<rparr>)"
  shows "preserves P (security_settings_create uid)"
  unfolding security_settings_create_def Let_def by (intro preserves_intros assms)

lemma preserves_security_settings_of [preserves_intros]:
  assumes "\<And>s. P s \<Longrightarrow> P (s\<lparr>next_id := Suc (next_id s)\<rparr>)"
    and "\<And>s r. P s \<Longrightarrow> P (s\<lparr>security_settings := r # security_settings s\<rparr>)"
  shows "preserves P (security_settings_of uid)"
  unfolding security_settings_of_def by (intro preserves_intros assms)

lemma preserves_preferences_create [preserves_intros]:
  assumes "\<And>s. P s \<Longrightarrow> P (s\<lparr>next_id := Suc (next_id s)\<rparr>)"
    and "\<And>s r. P s \<Longrightarrow> P (s\<lparr>preferences := r # preferences s\<rparr>)"
  shows "preserves P (preferences_create uid)"
  unfolding preferences_create_def Let_def by (intro preserves_intros assms)

lemma preserves_preferences_of [preserves_intros]:
  assumes "\<And>s. P s \<Longrightarrow> P (s\<lparr>next_id := Suc (next_id s)\<rparr>)"
    and "\<And>s r. P s \<Longrightarrow> P (s\<lparr>preferences := r # preferences s\<rparr>)"
  shows "preserves P (preferences_of uid)"
  unfolding preferences_of_def by (intro preserves_intros assms)

lemma preserves_settings_row_update [preserves_intros]:
  assumes "\<And>s g. P s \<Longrightarrow> P (s\<lparr>security_settings := g (security_settings s)\<rparr>)"
  shows "preserves P (settings_row_update row f)"
  unfolding settings_row_update_def by (intro preserves_intros assms)

end
