(* ===== verification/Sessions.thy ===== *)
theory Sessions
  imports UserRows Stamps
begin

text \<open>
  \<^verbatim>\<open>SessionService\<close> of \<^verbatim>\<open>apps/authentication/services.py\<close>, \<^verbatim>\<open>UserSessionMiddleware\<close> of
  \<^verbatim>\<open>apps/authentication/middleware.py\<close> and the session clean-up task. A row of
  \<open>user_sessions\<close> describes a session of Django's own table \<open>django_sessions\<close>, whose key it
  keeps hashed (to find it) and encrypted (to delete it on revocation).
\<close>

section \<open>Operations\<close>

definition session_hash :: "env \<Rightarrow> string \<Rightarrow> string" where
  "session_hash e session_key = keyed_hash e ''django-session'' session_key"

definition device_name :: "agent \<Rightarrow> string" where
  "device_name a =
     (if ag_is_mobile a then ''mobile'' else if ag_is_tablet a then ''tablet''
      else if ag_is_pc a then ''pc'' else ''other'')"

definition current_key :: "request \<Rightarrow> string option" where
  \<comment> \<open>the session key, \<open>None\<close> when it is missing or empty\<close>
  "current_key rq = (case rq_session_key rq of Some (c # k) \<Rightarrow> Some (c # k) | _ \<Rightarrow> None)"

definition session_save_unique :: "user_session \<Rightarrow> unit action" where
  \<comment> \<open>the unique columns \<^verbatim>\<open>identifier\<close> and \<^verbatim>\<open>session_key_hash\<close>, against every other row\<close>
  "session_save_unique row =
     bind_op (reads (\<lambda>s. exists_where (\<lambda>r. us_id r \<noteq> us_id row \<and>
        (us_identifier r = us_identifier row \<or> us_session_key_hash r = us_session_key_hash row))
        (user_sessions s)))
     (\<lambda>dup. raise_if dup (IntegrityError ''usersession''))"

definition session_update_or_create ::
    "string \<Rightarrow> (user_session \<Rightarrow> user_session) \<Rightarrow> user_session action" where
  \<comment> \<open>\<^verbatim>\<open>UserSession.objects.update_or_create(session_key_hash=h, defaults=...)\<close>; the defaults are \<open>f\<close>\<close>
  "session_update_or_create h f =
     bind_op (reads (\<lambda>s. get_where ''UserSession'' (\<lambda>r. us_session_key_hash r = h) (user_sessions s))) (\<lambda>found.
     bind_op now_op (\<lambda>now.
     case found of
       Inr old \<Rightarrow>
         let row = (f old)\<lparr>us_last_activity_at := now\<rparr> in
         then_op (session_save_unique row)
         (then_op (modify (\<lambda>s. s\<lparr>user_sessions :=
            update_where (\<lambda>r. us_id r = us_id old) (\<lambda>_. row) (user_sessions s)\<rparr>)) (ret row))
     | Inl err \<Rightarrow>
         if err = DoesNotExist ''UserSession''
         then bind_op fresh_id (\<lambda>i.
              let row = f \<lparr>us_id = i, us_user = 0, us_identifier = [], us_session_key_hash = h,
                           us_encrypted_session_key = [], us_ip_address = None, us_user_agent = [],
                           us_browser = [], us_operating_system = [], us_device = [], us_location = [],
                           us_created_at = now, us_last_activity_at = now, us_revoked_at = None\<rparr> in
              then_op (session_save_unique row)
              (then_op (modify (\<lambda>s. s\<lparr>user_sessions := row # user_sessions s\<rparr>)) (ret row)))
         else throw err))"

definition register ::
    "env \<Rightarrow> uuid \<Rightarrow> request \<Rightarrow> string \<Rightarrow> string \<Rightarrow> string \<Rightarrow> (user_session \<times> bool) action" where
  \<comment> \<open>\<open>new_key\<close>: the key a first save of the session draws; \<open>ident\<close>: \<^verbatim>\<open>secrets.token_hex(16)\<close>;
     \<open>iv\<close>: the initialisation vector Fernet draws\<close>
  "register e user rq new_key ident iv = atomic
     (then_op (when_op (current_key rq = None)
         (modify (\<lambda>s. s\<lparr>django_sessions := \<lparr>ds_session_key = new_key, ds_user = None, ds_expiry = None\<rparr> # django_sessions s\<rparr>)))
     (let session_key = (case current_key rq of None \<Rightarrow> new_key | Some k \<Rightarrow> k);
          key_hash = session_hash e session_key;
          agent_text = request_agent (Some rq);
          agent = parse_user_agent (plat e) agent_text;
          device = device_name agent in
      bind_op (reads (\<lambda>s. exists_where (\<lambda>r. us_user r = user \<and> us_user_agent r = agent_text \<and>
                 us_revoked_at r = None) (user_sessions s))) (\<lambda>existing_device.
      bind_op (of_sum (encrypt_value e ''django-session'' iv session_key)) (\<lambda>encrypted.
      bind_op (session_update_or_create key_hash (\<lambda>r. r\<lparr>
          us_user := user, us_identifier := ident, us_encrypted_session_key := encrypted,
          us_ip_address := get_client_ip e rq, us_user_agent := agent_text,
          us_browser := py_strip (fst (ag_browser agent) @ '' '' @ snd (ag_browser agent)),
          us_operating_system := py_strip (fst (ag_os agent) @ '' '' @ snd (ag_os agent)),
          us_device := device, us_revoked_at := None\<rparr>)) (\<lambda>row.
      ret (row, \<not> existing_device))))))"

definition current :: "env \<Rightarrow> request \<Rightarrow> user_session option action" where
  "current e rq =
     (case current_key rq of
        None \<Rightarrow> ret None
      | Some k \<Rightarrow> reads (\<lambda>s. first_where (\<lambda>r. us_session_key_hash r = session_hash e k) (user_sessions s)))"

definition session_mark_revoked :: "datetime \<Rightarrow> user_session \<Rightarrow> user_session" where
  "session_mark_revoked now r = r\<lparr>us_revoked_at := Some now\<rparr>"

definition session_target :: "env \<Rightarrow> user_session \<Rightarrow> audit_target" where
  "session_target e r =
     \<lparr>at_label = ''authentication.usersession'', at_pk = uuid_str (plat e) (us_id r),
      at_repr = ''UserSession object ('' @ uuid_str (plat e) (us_id r) @ '')''\<rparr>"

definition delete_django_session :: "env \<Rightarrow> user_session \<Rightarrow> unit action" where
  \<comment> \<open>the \<^verbatim>\<open>try\<close> block of \<open>revoke\<close>: a \<^verbatim>\<open>ValueError\<close> is logged and dropped\<close>
  "delete_django_session e row =
     catch_op
       (bind_op (of_sum (decrypt_value e ''django-session'' (us_encrypted_session_key row))) (\<lambda>k.
        modify (\<lambda>s. s\<lparr>django_sessions := delete_where (\<lambda>d. ds_session_key d = k) (django_sessions s)\<rparr>)))
       (\<lambda>err. case err of ValueError _ \<Rightarrow> ret () | _ \<Rightarrow> throw err)"

definition revoke :: "env \<Rightarrow> user_session \<Rightarrow> actor option \<Rightarrow> request option \<Rightarrow> unit action" where
  "revoke e session actor rq = atomic
     (bind_op (bind_op (reads (\<lambda>s. get_where ''UserSession'' (\<lambda>r. us_id r = us_id session) (user_sessions s))) of_sum)
      (\<lambda>locked.
      if is_revoked locked then ret ()
      else
      bind_op now_op (\<lambda>now.
      then_op (modify (\<lambda>s. s\<lparr>user_sessions :=
         update_where (\<lambda>r. us_id r = us_id locked) (session_mark_revoked now) (user_sessions s)\<rparr>))
      (then_op (delete_django_session e locked)
      (then_op (security_record e SESSION_REVOKED (Some (us_user locked)) rq
                  [(''session_identifier'', PStr (us_identifier locked))])
      (audit_record e ((audit_call ''session.revoked'')
         \<lparr>aa_target := Some (session_target e locked), aa_actor := actor, aa_request := rq,
          aa_after := [(''revoked_at'', PStr (isoformat (plat e) now))]\<rparr>)))))))"

definition revoke_all :: "env \<Rightarrow> uuid \<Rightarrow> actor option \<Rightarrow> request option \<Rightarrow> bool \<Rightarrow> nat action" where
  "revoke_all e user actor rq exclude_current =
     bind_op (case rq of None \<Rightarrow> ret None | Some r \<Rightarrow> current e r) (\<lambda>cur.
     bind_op (reads (\<lambda>s. filter (\<lambda>r. us_user r = user \<and> us_revoked_at r = None \<and>
                (case cur of None \<Rightarrow> True | Some c \<Rightarrow> \<not> exclude_current \<or> us_id r \<noteq> us_id c))
                (user_sessions s))) (\<lambda>session_list.
     then_op (for_each (\<lambda>r. revoke e r actor rq) session_list)
     (ret (length session_list))))"

definition cleanup_sessions :: "env \<Rightarrow> nat action" where
  "cleanup_sessions e =
     bind_op now_op (\<lambda>now.
     let cutoff = now - days (SESSION_RETENTION_DAYS (cfg e));
         old = (\<lambda>r. case us_revoked_at r of None \<Rightarrow> False | Some t \<Rightarrow> t < cutoff) in
     bind_op (reads (\<lambda>s. count_where old (user_sessions s))) (\<lambda>deleted.
     then_op (modify (\<lambda>s. s\<lparr>user_sessions := delete_where old (user_sessions s)\<rparr>)) (ret deleted)))"

definition session_flush :: "request \<Rightarrow> request action" where
  \<comment> \<open>\<^verbatim>\<open>request.session.flush()\<close>: the row of the session goes, and the request has no session key\<close>
  "session_flush rq =
     then_op (modify (\<lambda>s. s\<lparr>django_sessions :=
        delete_where (\<lambda>d. Some (ds_session_key d) = rq_session_key rq) (django_sessions s)\<rparr>))
     (ret (rq\<lparr>rq_session_key := None\<rparr>))"

definition touch_interval :: int where
  "touch_interval = minutes 5"

definition user_session_middleware ::
    "env \<Rightarrow> (user option \<Rightarrow> request \<Rightarrow> 'a action) \<Rightarrow> user option \<Rightarrow> request \<Rightarrow> 'a action" where
  \<comment> \<open>\<open>user\<close> is \<^verbatim>\<open>request.user\<close>, \<open>None\<close> for an anonymous one\<close>
  "user_session_middleware e get_response user rq =
     (case (user, current_key rq) of
        (Some u, Some k) \<Rightarrow>
          bind_op (reads (\<lambda>s. can_authenticate_now s u)) (\<lambda>available.
          if \<not> available then bind_op (session_flush rq) (\<lambda>rq'. get_response user rq')
          else
          bind_op (current e rq) (\<lambda>cur.
          bind_op now_op (\<lambda>now.
          case cur of
            None \<Rightarrow> get_response user rq
          | Some row \<Rightarrow>
              if us_revoked_at row \<noteq> None then bind_op (session_flush rq) (\<lambda>rq'. get_response user rq')
              else if us_last_activity_at row < now - touch_interval
              then then_op (modify (\<lambda>s. s\<lparr>user_sessions :=
                     update_where (\<lambda>r. us_id r = us_id row) (\<lambda>r. r\<lparr>us_last_activity_at := now\<rparr>)
                       (user_sessions s)\<rparr>)) (get_response user rq)
              else get_response user rq)))
      | _ \<Rightarrow> get_response user rq)"

section \<open>The table\<close>

definition session_table_ok :: "user_session list \<Rightarrow> bool" where
  "session_table_ok t \<longleftrightarrow> distinct (map us_id t) \<and> distinct (map us_session_key_hash t) \<and>
     distinct (map us_identifier t)"

interpretation session_by_id: keyed_table us_id session_table_ok
  by unfold_locales (simp add: session_table_ok_def)

interpretation session_by_hash: keyed_table us_session_key_hash session_table_ok
  by unfold_locales (simp add: session_table_ok_def)

interpretation session_revocation: stamped us_id us_revoked_at session_mark_revoked
  by unfold_locales (simp_all add: session_mark_revoked_def)

lemma session_mark_revoked_simps [simp]:
  "us_user (session_mark_revoked now r) = us_user r"
  "us_identifier (session_mark_revoked now r) = us_identifier r"
  "us_session_key_hash (session_mark_revoked now r) = us_session_key_hash r"
  "us_encrypted_session_key (session_mark_revoked now r) = us_encrypted_session_key r"
  "session_mark_revoked now (session_mark_revoked now' r) = session_mark_revoked now r"
  by (simp_all add: session_mark_revoked_def)

lemma session_table_ok_mark:
  assumes "session_table_ok t"
  shows "session_table_ok (update_where P (session_mark_revoked now) t)"
proof -
  have "map us_session_key_hash (update_where P (session_mark_revoked now) t) = map us_session_key_hash t"
    "map us_identifier (update_where P (session_mark_revoked now) t) = map us_identifier t"
    by (simp_all add: update_where_map)
  with assms show ?thesis by (simp add: session_table_ok_def)
qed

lemma update_where_ids:
  assumes "session_table_ok t" and "\<And>r. r \<in> set t \<Longrightarrow> P r \<longleftrightarrow> Q r"
  shows "update_where P f t = update_where Q f t"
  using assms(2) by (simp add: update_where_def)

section \<open>Revocation\<close>

definition session_key_of :: "env \<Rightarrow> user_session \<Rightarrow> string option" where
  "session_key_of e row =
     (case decrypt_value e ''django-session'' (us_encrypted_session_key row) of Inr k \<Rightarrow> Some k | Inl _ \<Rightarrow> None)"

lemma delete_django_session_run:
  assumes "encryption_configured e"
  shows "delete_django_session e row s =
           (Inr (), s\<lparr>django_sessions :=
              delete_where (\<lambda>d. session_key_of e row = Some (ds_session_key d)) (django_sessions s)\<rparr>)"
proof -
  have eq: "(\<lambda>d. k = ds_session_key d) = (\<lambda>d. ds_session_key d = k)" for k by auto
  consider "decrypt_value e ''django-session'' (us_encrypted_session_key row) =
              Inl (ValueError ''Encrypted value could not be decrypted'')"
    | k where "decrypt_value e ''django-session'' (us_encrypted_session_key row) = Inr k"
    using decrypt_value_configured [OF assms] by blast
  then show ?thesis
    by cases (simp_all add: delete_django_session_def session_key_of_def op_simps delete_where_def eq)
qed

definition revoked_event :: "env \<Rightarrow> datetime \<Rightarrow> request option \<Rightarrow> user_session \<Rightarrow> security_event" where
  "revoked_event e now rq r =
     \<lparr>se_user = Some (us_user r), se_event_type = SESSION_REVOKED, se_ip_address = request_ip e rq,
      se_user_agent = request_agent rq, se_request_id = request_id_text rq,
      se_metadata = [(''session_identifier'', PStr (us_identifier r))], se_created_at = now\<rparr>"

definition revoked_audit :: "env \<Rightarrow> datetime \<Rightarrow> actor option \<Rightarrow> request option \<Rightarrow> user_session \<Rightarrow> audit_log" where
  "revoked_audit e now actor rq r =
     audit_row e now ((audit_call ''session.revoked'')
       \<lparr>aa_target := Some (session_target e r), aa_actor := actor, aa_request := rq,
        aa_after := [(''revoked_at'', PStr (isoformat (plat e) now))]\<rparr>)"

definition revoked_state ::
    "env \<Rightarrow> actor option \<Rightarrow> request option \<Rightarrow> user_session list \<Rightarrow> db \<Rightarrow> db" where
  \<comment> \<open>what revoking the given rows leaves: one \<^verbatim>\<open>UPDATE\<close>, one \<^verbatim>\<open>DELETE\<close>, and the two histories\<close>
  "revoked_state e actor rq rows s =
     s\<lparr>user_sessions := update_where (\<lambda>r. us_id r \<in> us_id ` set rows) (session_mark_revoked (clock s)) (user_sessions s),
       django_sessions := delete_where (\<lambda>d. Some (ds_session_key d) \<in> session_key_of e ` set rows) (django_sessions s),
       security_events := rev (map (revoked_event e (clock s) rq) rows) @ security_events s,
       audit_logs := rev (map (revoked_audit e (clock s) actor rq) rows) @ audit_logs s\<rparr>"

lemma revoke_live:
  assumes "encryption_configured e" and "session_table_ok (user_sessions s)"
    and "r \<in> set (user_sessions s)" and "us_revoked_at r = None"
  shows "revoke e r actor rq s = (Inr (), revoked_state e actor rq [r] s)"
proof -
  have g: "get_where ''UserSession'' (\<lambda>q. us_id q = us_id r) (user_sessions s) = Inr r"
    using session_by_id.get_by_key [OF assms(2,3)] .
  have eq: "(\<lambda>d. session_key_of e r = Some (ds_session_key d)) =
            (\<lambda>d. Some (ds_session_key d) = session_key_of e r)" by auto
  show ?thesis
    by (simp add: revoke_def op_simps g is_revoked_def assms(4) delete_django_session_run [OF assms(1)]
        revoked_state_def revoked_event_def revoked_audit_def eq)
qed

lemma revoke_revoked:
  assumes "session_table_ok (user_sessions s)" and "q \<in> set (user_sessions s)"
    and "us_id q = us_id r" and "us_revoked_at q \<noteq> None"
  shows "revoke e r actor rq s = (Inr (), s)"
  using session_by_id.get_by_key [OF assms(1,2), of "''UserSession''"] assms(3,4)
  by (simp add: revoke_def op_simps is_revoked_def)

lemma revoked_state_Cons:
  assumes "us_id r \<notin> us_id ` set rs"
  shows "revoked_state e actor rq rs (revoked_state e actor rq [r] s) = revoked_state e actor rq (r # rs) s"
proof -
  have "update_where (\<lambda>q. us_id q \<in> us_id ` set rs) (session_mark_revoked now)
          (update_where (\<lambda>q. us_id q = us_id r) (session_mark_revoked now) t) =
        update_where (\<lambda>q. us_id q = us_id r \<or> us_id q \<in> us_id ` set rs) (session_mark_revoked now) t" for now t
    by (auto simp: update_where_def)
  moreover have "delete_where (\<lambda>d. Some (ds_session_key d) \<in> session_key_of e ` set rs)
          (delete_where (\<lambda>d. Some (ds_session_key d) = session_key_of e r) t) =
        delete_where (\<lambda>d. Some (ds_session_key d) = session_key_of e r \<or>
          Some (ds_session_key d) \<in> session_key_of e ` set rs) t" for t :: "django_session list"
    by (auto simp: delete_where_def intro: filter_cong)
  ultimately show ?thesis by (simp add: revoked_state_def)
qed

lemma revoke_each_run:
  assumes "encryption_configured e" and "session_table_ok (user_sessions s)"
    and "distinct (map us_id rs)" and "\<And>r. r \<in> set rs \<Longrightarrow> r \<in> set (user_sessions s) \<and> us_revoked_at r = None"
  shows "for_each (\<lambda>r. revoke e r actor rq) rs s = (Inr (), revoked_state e actor rq rs s)"
  using assms(2-)
proof (induction rs arbitrary: s)
  case Nil
  then show ?case by (simp add: op_simps revoked_state_def update_where_def delete_where_def)
next
  case (Cons r rs)
  let ?s = "revoked_state e actor rq [r] s"
  have "q \<in> set (user_sessions ?s) \<and> us_revoked_at q = None" if "q \<in> set rs" for q
  proof -
    have "q \<in> set (user_sessions s)" "us_revoked_at q = None" using Cons.prems(3) that by auto
    moreover have "us_id q \<noteq> us_id r" using Cons.prems(2) that by (auto simp: rev_image_eqI)
    ultimately show ?thesis by (simp add: revoked_state_def update_where_same)
  qed
  moreover have "session_table_ok (user_sessions ?s)"
    using Cons.prems(1) by (simp add: revoked_state_def session_table_ok_mark)
  ultimately have "for_each (\<lambda>r. revoke e r actor rq) rs ?s = (Inr (), revoked_state e actor rq rs ?s)"
    using Cons.IH Cons.prems(2) by simp
  moreover have "revoke e r actor rq s = (Inr (), ?s)"
    using Cons.prems by (intro revoke_live [OF assms(1)]) auto
  ultimately show ?case using Cons.prems(2) by (simp add: op_simps revoked_state_Cons)
qed

definition spared :: "env \<Rightarrow> request option \<Rightarrow> bool \<Rightarrow> db \<Rightarrow> user_session \<Rightarrow> bool" where
  \<comment> \<open>the row of the request's own session, when the caller asked to keep it\<close>
  "spared e rq exclude_current s r \<longleftrightarrow> exclude_current \<and>
     (case rq of None \<Rightarrow> False
      | Some q \<Rightarrow> (case fst (current e q s) of Inr (Some c) \<Rightarrow> us_id r = us_id c | _ \<Rightarrow> False))"

lemma current_run [op_simps]:
  "current e rq s = (Inr (case current_key rq of None \<Rightarrow> None
     | Some k \<Rightarrow> first_where (\<lambda>r. us_session_key_hash r = session_hash e k) (user_sessions s)), s)"
  by (simp add: current_def op_simps split: option.splits)

lemma revoke_all_run:
  assumes "encryption_configured e" and "session_table_ok (user_sessions s)"
  shows "revoke_all e u actor rq ex s =
    (let rows = filter (\<lambda>r. us_user r = u \<and> us_revoked_at r = None \<and> \<not> spared e rq ex s r) (user_sessions s)
     in (Inr (length rows), revoked_state e actor rq rows s))"
proof -
  let ?P = "\<lambda>r. us_user r = u \<and> us_revoked_at r = None \<and> \<not> spared e rq ex s r"
  let ?rows = "filter ?P (user_sessions s)"
  obtain c where c: "(case rq of None \<Rightarrow> ret None | Some r \<Rightarrow> current e r) s = (Inr c, s)"
    by (cases rq) (simp_all add: op_simps)
  have "(case c of None \<Rightarrow> True | Some x \<Rightarrow> \<not> ex \<or> us_id r \<noteq> us_id x) \<longleftrightarrow> \<not> spared e rq ex s r" for r
    using c by (cases rq) (auto simp: spared_def op_simps split: option.splits)
  then have "revoke_all e u actor rq ex s =
      then_op (for_each (\<lambda>r. revoke e r actor rq) ?rows) (ret (length ?rows)) s"
    by (simp add: revoke_all_def bind_op_run c op_runs)
  moreover have "for_each (\<lambda>r. revoke e r actor rq) ?rows s = (Inr (), revoked_state e actor rq ?rows s)"
    using assms(2) by (intro revoke_each_run [OF assms]) (auto simp: session_table_ok_def distinct_map_filter)
  ultimately show ?thesis by (simp add: op_simps Let_def)
qed

section \<open>Registration\<close>

definition session_inv :: "db \<Rightarrow> bool" where
  "session_inv s \<longleftrightarrow> session_table_ok (user_sessions s) \<and> (\<forall>r\<in>set (user_sessions s). us_id r < next_id s)"

text \<open>The defaults of a registration set neither the primary key nor the hash.\<close>

definition keeps_session_keys :: "(user_session \<Rightarrow> user_session) \<Rightarrow> bool" where
  "keeps_session_keys f \<longleftrightarrow> (\<forall>r. us_id (f r) = us_id r \<and> us_session_key_hash (f r) = us_session_key_hash r)"

lemma session_save_unique_iff:
  "session_save_unique row s = (r, s') \<longleftrightarrow> s' = s \<and>
     r = (if \<exists>q\<in>set (user_sessions s). us_id q \<noteq> us_id row \<and>
               (us_identifier q = us_identifier row \<or> us_session_key_hash q = us_session_key_hash row)
          then Inl (IntegrityError ''usersession'') else Inr ())"
  by (auto simp: session_save_unique_def op_simps)

lemma session_table_ok_Cons:
  assumes "session_table_ok t" and "\<forall>q\<in>set t. us_id q \<noteq> us_id r \<and> us_identifier q \<noteq> us_identifier r \<and>
      us_session_key_hash q \<noteq> us_session_key_hash r"
  shows "session_table_ok (r # t)"
  using assms by (auto simp: session_table_ok_def)

lemma session_table_ok_replace:
  assumes ok: "session_table_ok t" and old: "old \<in> set t" and "us_id row = us_id old"
    and uniq: "\<forall>q\<in>set t. us_id q \<noteq> us_id row \<longrightarrow> us_identifier q \<noteq> us_identifier row \<and>
      us_session_key_hash q \<noteq> us_session_key_hash row"
  shows "session_table_ok (update_where (\<lambda>r. us_id r = us_id old) (\<lambda>_. row) t)"
  using assms unfolding session_table_ok_def by (auto intro!: distinct_replace)

lemma session_update_or_create_ok:
  assumes inv: "session_inv s" and f: "keeps_session_keys f"
    and run: "session_update_or_create h f s = (Inr row, s')"
  shows "session_inv s' \<and> row \<in> set (user_sessions s') \<and> us_session_key_hash row = h \<and>
         (\<exists>old. row = f old \<or> row = (f old)\<lparr>us_last_activity_at := clock s\<rparr>)"
  using inv[unfolded session_inv_def, THEN conjunct1]
proof (cases rule: session_by_hash.get_by_key_cases [where k = h and name = "''UserSession''"])
  case absent
  let ?row = "f \<lparr>us_id = next_id s, us_user = 0, us_identifier = [], us_session_key_hash = h,
      us_encrypted_session_key = [], us_ip_address = None, us_user_agent = [],
      us_browser = [], us_operating_system = [], us_device = [], us_location = [],
      us_created_at = clock s, us_last_activity_at = clock s, us_revoked_at = None\<rparr>"
  have k: "us_id ?row = next_id s" "us_session_key_hash ?row = h" using f by (simp_all add: keeps_session_keys_def)
  have new: "\<forall>q\<in>set (user_sessions s). us_id q \<noteq> us_id ?row" using inv k by (auto simp: session_inv_def)
  from run absent have r: "row = ?row" "s' = s\<lparr>next_id := Suc (next_id s), user_sessions := ?row # user_sessions s\<rparr>"
    "\<forall>q\<in>set (user_sessions s). us_identifier q \<noteq> us_identifier ?row"
    using new k
    by (auto simp: session_update_or_create_def session_save_unique_def op_simps Let_def
        simp del: get_where_DoesNotExist split: if_splits)
  moreover have "session_table_ok (?row # user_sessions s)"
    using inv r(3) new absent(1) k by (intro session_table_ok_Cons) (auto simp: session_inv_def)
  ultimately show ?thesis using inv k by (auto simp: session_inv_def less_Suc_eq)
next
  case (present old)
  let ?row = "(f old)\<lparr>us_last_activity_at := clock s\<rparr>"
  let ?t = "update_where (\<lambda>r. us_id r = us_id old) (\<lambda>_. ?row) (user_sessions s)"
  have k: "us_id ?row = us_id old" "us_session_key_hash ?row = h"
    using f present(2) by (simp_all add: keeps_session_keys_def)
  from run present have r: "row = ?row" "s' = s\<lparr>user_sessions := ?t\<rparr>"
    and uniq: "\<forall>q\<in>set (user_sessions s). us_id q \<noteq> us_id ?row \<longrightarrow> us_identifier q \<noteq> us_identifier ?row \<and>
      us_session_key_hash q \<noteq> us_session_key_hash ?row"
    by (auto simp: session_update_or_create_def session_save_unique_def op_simps Let_def split: if_splits)
  have ok: "session_table_ok ?t"
    using inv uniq k present(1) by (intro session_table_ok_replace) (auto simp: session_inv_def)
  have "?row \<in> set ?t" 
    using update_where_changed [OF present(1), of "\<lambda>r. us_id r = us_id old" "\<lambda>_. ?row"] by simp
  moreover have "\<forall>q\<in>set ?t. us_id q < next_id s"
  proof
    fix q assume "q \<in> set ?t"
    then show "us_id q < next_id s"
      by (cases rule: update_whereE) (use inv k present(1) in \<open>auto simp: session_inv_def\<close>)
  qed
  ultimately show ?thesis using r k ok by (auto simp: session_inv_def)
qed

lemma register_ok:
  assumes inv: "session_inv s" and run: "register e u rq nk ident iv s = (Inr (row, new), s')"
    and key: "key = (case current_key rq of None \<Rightarrow> nk | Some k \<Rightarrow> k)"
  shows "session_inv s' \<and> row \<in> set (user_sessions s') \<and> us_session_key_hash row = session_hash e key \<and>
         us_user row = u \<and> us_revoked_at row = None \<and>
         encrypt_value e ''django-session'' iv key = Inr (us_encrypted_session_key row)"
proof -
  let ?s = "if current_key rq = None
            then s\<lparr>django_sessions := \<lparr>ds_session_key = nk, ds_user = None, ds_expiry = None\<rparr> # django_sessions s\<rparr> else s"
  have inv': "session_inv ?s" using inv by (simp add: session_inv_def)
  from run obtain c f where c: "encrypt_value e ''django-session'' iv key = Inr c"
    and up: "session_update_or_create (session_hash e key) f ?s = (Inr row, s')"
    and f: "keeps_session_keys f" "\<And>r. us_user (f r) = u" "\<And>r. us_revoked_at (f r) = None"
      "\<And>r. us_encrypted_session_key (f r) = c"
    unfolding register_def key
    by (auto simp: op_simps Let_def keeps_session_keys_def split: sum.splits prod.splits if_splits)
  from session_update_or_create_ok [OF inv' f(1) up] f c show ?thesis by auto
qed

section \<open>Properties\<close>

text \<open>
  Property C3: \<open>revoke_all\<close> is complete and precise. With encryption configured it never fails; it
  returns the number of live sessions of the user it had to revoke; afterwards every session of the
  user is revoked, except the request's own when the caller asked to keep it; the rows of Django's
  session table that belong to the revoked sessions are gone; and sessions of other users, and
  sessions revoked before, are untouched.
\<close>

theorem revoke_all_complete:
  assumes "encryption_configured e" and "session_table_ok (user_sessions s)"
    and "revoke_all e u actor rq exclude s = (r, s')"
  shows "r = Inr (count_where (\<lambda>x. us_user x = u \<and> us_revoked_at x = None \<and> \<not> spared e rq exclude s x) (user_sessions s)) \<and>
         (\<forall>x\<in>set (user_sessions s'). us_user x = u \<and> us_revoked_at x = None \<longrightarrow> spared e rq exclude s x) \<and>
         (\<forall>x\<in>set (user_sessions s). us_user x = u \<and> us_revoked_at x = None \<and> \<not> spared e rq exclude s x \<longrightarrow>
            (\<forall>d\<in>set (django_sessions s'). session_key_of e x \<noteq> Some (ds_session_key d))) \<and>
         (\<forall>x\<in>set (user_sessions s). us_user x \<noteq> u \<or> us_revoked_at x \<noteq> None \<longrightarrow> x \<in> set (user_sessions s'))"
proof -
  let ?P = "\<lambda>x. us_user x = u \<and> us_revoked_at x = None \<and> \<not> spared e rq exclude s x"
  let ?rows = "filter ?P (user_sessions s)"
  have r: "r = Inr (length ?rows)" and s': "s' = revoked_state e actor rq ?rows s"
    using revoke_all_run [OF assms(1,2)] assms(3) by (simp_all add: Let_def)
  have ids: "us_id x \<in> us_id ` set ?rows \<longleftrightarrow> ?P x" if "x \<in> set (user_sessions s)" for x
    using session_by_id.key_determines [OF assms(2) that] that by auto
  have t: "user_sessions s' = update_where ?P (session_mark_revoked (clock s)) (user_sessions s)"
    unfolding s' revoked_state_def using update_where_ids [OF assms(2) ids] by simp
  have live: "spared e rq exclude s x" if "x \<in> set (user_sessions s')" "us_user x = u" "us_revoked_at x = None" for x
    using session_revocation.unstamped_came_from [OF that(1)[unfolded t] that(3)] that(2,3) by blast
  have gone: "session_key_of e x \<noteq> Some (ds_session_key d)"
    if "x \<in> set ?rows" "d \<in> set (django_sessions s')" for x d
    using that unfolding s' revoked_state_def by (auto simp: rev_image_eqI)
  have others: "x \<in> set (user_sessions s')" if "x \<in> set (user_sessions s)" "\<not> ?P x" for x
    unfolding t using that by (rule session_revocation.others_stay)
  have "\<forall>x\<in>set (user_sessions s). ?P x \<longrightarrow>
          (\<forall>d\<in>set (django_sessions s'). session_key_of e x \<noteq> Some (ds_session_key d))"
    using gone by simp
  moreover have "\<forall>x\<in>set (user_sessions s'). us_user x = u \<and> us_revoked_at x = None \<longrightarrow> spared e rq exclude s x"
    by (intro ballI impI live) auto
  moreover have "\<forall>x\<in>set (user_sessions s). us_user x \<noteq> u \<or> us_revoked_at x \<noteq> None \<longrightarrow> x \<in> set (user_sessions s')"
    by (intro ballI impI others) auto
  ultimately show ?thesis using r unfolding count_where_def by (intro conjI) assumption+
qed

definition demo_request :: request where
  "demo_request = \<lparr>rq_remote_addr = Some ''10.0.0.1'', rq_forwarded_for = None, rq_user_agent = Some ''curl'',
     rq_request_id = Some ''r1'', rq_session_key = Some ''k1''\<rparr>"

definition demo_sessions :: db where
  "demo_sessions = snd (register demo_env 7 demo_request ''k2'' ''ident1'' ''iv''
     (empty_db\<lparr>django_sessions := [\<lparr>ds_session_key = ''k1'', ds_user = Some 7, ds_expiry = None\<rparr>]\<rparr>))"

theorem revoke_all_complete_witness:
  "fst (revoke_all demo_env 7 None None False demo_sessions) = Inr 1 \<and>
   \<not> exists_where (\<lambda>x. us_user x = 7 \<and> us_revoked_at x = None)
       (user_sessions (snd (revoke_all demo_env 7 None None False demo_sessions)))"
proof -
  have e: "encryption_configured demo_env" by code_simp
  have t: "session_table_ok (user_sessions demo_sessions)" by code_simp
  have "count_where (\<lambda>x. us_user x = 7 \<and> us_revoked_at x = None \<and> \<not> spared demo_env None False demo_sessions x)
     (user_sessions demo_sessions) = 1" by code_simp
  then show ?thesis using revoke_all_complete [OF e t surjective_pairing, of 7 None None False] by (auto simp: spared_def)
qed

text \<open>
  A registered session can be found and can be revoked. After \<open>register\<close> succeeds, the
  row belongs to the user and is live, \<open>current\<close> returns it for every request with the session's
  key, its encrypted reference decrypts to that key, and revoking the row removes the session with
  that key from Django's table.
\<close>

theorem register_then_revoke:
  assumes "platform_laws (plat e)" and "session_inv s"
    and "register e u rq new_key ident iv s = (Inr (row, new), s')"
    and "key = (case current_key rq of None \<Rightarrow> new_key | Some k \<Rightarrow> k)" and "key \<noteq> []"
  shows "us_user row = u \<and> us_revoked_at row = None \<and>
         current e (rq\<lparr>rq_session_key := Some key\<rparr>) s' = (Inr (Some row), s') \<and>
         session_key_of e row = Some key \<and>
         (\<exists>s''. revoke e row actor rq' s' = (Inr (), s'') \<and>
            (\<forall>d\<in>set (django_sessions s''). ds_session_key d \<noteq> key))"
proof -
  note ok = register_ok [OF assms(2,3,4)]
  have t: "session_table_ok (user_sessions s')" using ok by (simp add: session_inv_def)
  have ck: "current_key (rq\<lparr>rq_session_key := Some key\<rparr>) = Some key"
    using assms(5) by (cases key) (simp_all add: current_key_def)
  have cur: "current e (rq\<lparr>rq_session_key := Some key\<rparr>) s' = (Inr (Some row), s')"
    using session_by_hash.first_by_key [OF t, of row] ok ck by (simp add: op_simps)
  have k: "session_key_of e row = Some key"
    using decrypt_encrypt [OF assms(1), of "''django-session''" iv key] ok by (simp add: session_key_of_def)
  have conf: "encryption_configured e"
    using ok encrypt_value_def key_material_configured [of e "''django-session''"]
    by (auto simp: encrypt_value_def split: sum.splits)
  have "revoke e row actor rq' s' = (Inr (), revoked_state e actor rq' [row] s')"
    using ok by (intro revoke_live [OF conf t]) auto
  then show ?thesis using ok cur k by (auto simp: revoked_state_def)
qed

theorem register_then_revoke_witness:
  "\<exists>row new s'. register demo_env 7 demo_request ''k2'' ''ident1'' ''iv'' empty_db = (Inr (row, new), s') \<and>
     current demo_env demo_request s' = (Inr (Some row), s') \<and> session_key_of demo_env row = Some ''k1''"
proof -
  have "\<not> isl (fst (register demo_env 7 demo_request ''k2'' ''ident1'' ''iv'' empty_db))" by code_simp
  then obtain row new s' where r: "register demo_env 7 demo_request ''k2'' ''ident1'' ''iv'' empty_db = (Inr (row, new), s')"
    by (rule run_succeeds) (metis surj_pair)
  have l: "platform_laws (plat demo_env)" by (simp add: demo_env_def demo_platform_laws)
  have i: "session_inv empty_db" by (simp add: session_inv_def session_table_ok_def empty_db_def)
  have k: "''k1'' = (case current_key demo_request of None \<Rightarrow> ''k2'' | Some k \<Rightarrow> k)" by code_simp
  have "demo_request\<lparr>rq_session_key := Some ''k1''\<rparr> = demo_request" by (simp add: demo_request_def)
  then show ?thesis using register_then_revoke [OF l i r k] r by auto
qed

text \<open>
  Property C12: the session middleware closes stale sessions. When the signed-in user may not
  authenticate any more, or the request's session was revoked, the view runs in a state in which
  Django's table has no session with the request's key, and with a request that has no session; in
  every other case the view gets the request as it came. In all cases the view still gets the user
  that was resolved before: the middleware does not make the current request anonymous.
\<close>

theorem middleware_closes_session:
  assumes "current_key rq = Some key"
  shows "\<exists>s' rq'. user_session_middleware e get_response (Some u) rq s = get_response (Some u) rq' s' \<and>
     (if \<not> can_authenticate_now s u \<or>
         (\<exists>row. current e rq s = (Inr (Some row), s) \<and> is_revoked row)
      then rq' = rq\<lparr>rq_session_key := None\<rparr> \<and> user_sessions s' = user_sessions s \<and>
           django_sessions s' = filter (\<lambda>d. ds_session_key d \<noteq> key) (django_sessions s)
      else rq' = rq \<and> django_sessions s' = django_sessions s)"
proof -
  have k: "rq_session_key rq = Some key"
    using assms by (auto simp: current_key_def split: option.splits list.splits)
  have flush: "session_flush rq s = (Inr (rq\<lparr>rq_session_key := None\<rparr>),
      s\<lparr>django_sessions := filter (\<lambda>d. ds_session_key d \<noteq> key) (django_sessions s)\<rparr>)"
    by (simp add: session_flush_def op_simps k delete_where_def)
  show ?thesis
  proof (cases "can_authenticate_now s u")
    case False
    then show ?thesis by (auto simp: user_session_middleware_def assms op_simps flush)
  next
    case True
    show ?thesis
    proof (cases "first_where (\<lambda>r. us_session_key_hash r = session_hash e key) (user_sessions s)")
      case None
      then have c: "current e rq s = (Inr None, s)" by (simp only: current_run assms option.case)
      then have "user_session_middleware e get_response (Some u) rq s = get_response (Some u) rq s"
        using True by (simp add: user_session_middleware_def assms bind_op_run op_runs now_op_run)
      then show ?thesis using True c by auto
    next
      case (Some row)
      then have c: "current e rq s = (Inr (Some row), s)" by (simp add: op_simps assms)
      have "user_session_middleware e get_response (Some u) rq s =
         (if us_revoked_at row \<noteq> None
          then get_response (Some u) (rq\<lparr>rq_session_key := None\<rparr>)
             (s\<lparr>django_sessions := filter (\<lambda>d. ds_session_key d \<noteq> key) (django_sessions s)\<rparr>)
          else if us_last_activity_at row < clock s - touch_interval
          then get_response (Some u) rq (s\<lparr>user_sessions := update_where (\<lambda>r. us_id r = us_id row)
             (\<lambda>r. r\<lparr>us_last_activity_at := clock s\<rparr>) (user_sessions s)\<rparr>)
          else get_response (Some u) rq s)"
        using True by (simp add: user_session_middleware_def assms bind_op_run op_runs c now_op_run flush then_op_run)
      then show ?thesis using True c by (auto simp: is_revoked_def split: if_splits)
    qed
  qed
qed

theorem middleware_closes_session_witness:
  "\<exists>s' rq'. user_session_middleware demo_env (\<lambda>u rq. ret (u, rq)) (Some demo_user) demo_request demo_sessions =
      ret (Some demo_user, rq') s' \<and>
      (if \<not> can_authenticate_now demo_sessions demo_user \<or>
          (\<exists>row. current demo_env demo_request demo_sessions = (Inr (Some row), demo_sessions) \<and> is_revoked row)
       then rq' = demo_request\<lparr>rq_session_key := None\<rparr> \<and> user_sessions s' = user_sessions demo_sessions \<and>
            django_sessions s' = filter (\<lambda>d. ds_session_key d \<noteq> ''k1'') (django_sessions demo_sessions)
       else rq' = demo_request \<and> django_sessions s' = django_sessions demo_sessions)"
  by (rule middleware_closes_session) code_simp

end
