(* ===== verification/SignOut.thy ===== *)
theory SignOut
  imports Sessions Tokens
begin

text \<open>
  Signing a user out everywhere: the pair \<^verbatim>\<open>SessionService.revoke_all\<close> and
  \<^verbatim>\<open>TokenService.revoke_all_jwt\<close> that closes the account operations, the ban and the ban task. The
  locale \<open>account_closing\<close> is what those callers rely on; it is interpreted on the two services.
\<close>

definition signed_out :: "(user_session \<Rightarrow> bool) \<Rightarrow> uuid \<Rightarrow> db \<Rightarrow> bool" where
  \<comment> \<open>no live session but the spared ones, and every refresh token blacklisted\<close>
  "signed_out keep u s \<longleftrightarrow>
     (\<forall>x\<in>set (user_sessions s). us_user x = u \<and> us_revoked_at x = None \<longrightarrow> keep x) \<and>
     (\<forall>t\<in>set (outstanding s). jt_user t = u \<longrightarrow> jt_id t \<in> set (blacklisted s))"

definition jwt_blacklist :: "uuid \<Rightarrow> db \<Rightarrow> uuid list" where
  "jwt_blacklist u s = blacklisted (snd (revoke_all_jwt u s))"

lemma revoke_all_jwt_state:
  "\<exists>n. revoke_all_jwt u s = (Inr n, s\<lparr>blacklisted := jwt_blacklist u s\<rparr>)"
  by (rule revoke_all_jwt_run [of u s]) (auto simp: jwt_blacklist_def)

lemma set_jwt_blacklist:
  "set (jwt_blacklist u s) = jt_id ` {t \<in> set (outstanding s). jt_user t = u} \<union> set (blacklisted s)"
  by (rule revoke_all_jwt_run [of u s]) (auto simp: jwt_blacklist_def)

definition sign_out_rows :: "env \<Rightarrow> uuid \<Rightarrow> request option \<Rightarrow> bool \<Rightarrow> db \<Rightarrow> user_session list" where
  "sign_out_rows e u rq ex s =
     filter (\<lambda>r. us_user r = u \<and> us_revoked_at r = None \<and> \<not> spared e rq ex s r) (user_sessions s)"

definition sign_out_state :: "env \<Rightarrow> uuid \<Rightarrow> actor option \<Rightarrow> request option \<Rightarrow> bool \<Rightarrow> db \<Rightarrow> db" where
  "sign_out_state e u actor rq ex s =
     (let s1 = revoked_state e actor rq (sign_out_rows e u rq ex s) s
      in s1\<lparr>blacklisted := jwt_blacklist u s1\<rparr>)"

locale account_closing =
  fixes ready :: "db \<Rightarrow> bool"
    and close_sessions :: "uuid \<Rightarrow> actor option \<Rightarrow> request option \<Rightarrow> bool \<Rightarrow> nat action"
    and close_tokens :: "uuid \<Rightarrow> nat action"
    and after :: "uuid \<Rightarrow> actor option \<Rightarrow> request option \<Rightarrow> bool \<Rightarrow> db \<Rightarrow> db"
    and keep :: "request option \<Rightarrow> bool \<Rightarrow> db \<Rightarrow> user_session \<Rightarrow> bool"
  assumes closes: "ready s \<Longrightarrow>
      \<exists>n m. close_sessions u actor rq ex s = (Inr n, fst m) \<and> close_tokens u (fst m) = (Inr (snd m), after u actor rq ex s)"
    and closed: "ready s \<Longrightarrow> signed_out (keep rq ex s) u (after u actor rq ex s)"
    and still_ready: "ready s \<Longrightarrow> ready (after u actor rq ex s)"
begin

lemma close_both:
  "ready s \<Longrightarrow> then_op (close_sessions u actor rq ex) (then_op (close_tokens u) m) s = m (after u actor rq ex s)"
  using closes [of s u actor rq ex] by (auto simp: op_simps)

end

lemma sign_out_closed:
  assumes "session_table_ok (user_sessions s)"
  shows "signed_out (spared e rq ex s) u (sign_out_state e u actor rq ex s)"
proof -
  let ?rows = "sign_out_rows e u rq ex s"
  have "spared e rq ex s x"
    if x: "x \<in> set (update_where (\<lambda>r. us_id r \<in> us_id ` set ?rows) (session_mark_revoked (clock s)) (user_sessions s))"
      "us_user x = u" "us_revoked_at x = None" for x
  proof -
    have "x \<in> set (user_sessions s)" "us_id x \<notin> us_id ` set ?rows"
      using session_revocation.unstamped_came_from [OF x(1,3)] by simp_all
    then have "x \<notin> set ?rows" by blast
    then show ?thesis using x(2,3) \<open>x \<in> set (user_sessions s)\<close> by (simp add: sign_out_rows_def)
  qed
  then show ?thesis
    by (auto simp: signed_out_def sign_out_state_def Let_def set_jwt_blacklist revoked_state_def)
qed

lemma sign_out_state_fields [simp]:
  "clock (sign_out_state e u actor rq ex s) = clock s"
  "next_id (sign_out_state e u actor rq ex s) = next_id s"
  "users (sign_out_state e u actor rq ex s) = users s"
  "profiles (sign_out_state e u actor rq ex s) = profiles s"
  "preferences (sign_out_state e u actor rq ex s) = preferences s"
  "security_settings (sign_out_state e u actor rq ex s) = security_settings s"
  "bans (sign_out_state e u actor rq ex s) = bans s"
  "one_time_tokens (sign_out_state e u actor rq ex s) = one_time_tokens s"
  "credentials (sign_out_state e u actor rq ex s) = credentials s"
  "recovery_codes (sign_out_state e u actor rq ex s) = recovery_codes s"
  "outstanding (sign_out_state e u actor rq ex s) = outstanding s"
  "throttle_states (sign_out_state e u actor rq ex s) = throttle_states s"
  "user_roles (sign_out_state e u actor rq ex s) = user_roles s"
  "api_keys (sign_out_state e u actor rq ex s) = api_keys s"
  "outbox (sign_out_state e u actor rq ex s) = outbox s"
  by (simp_all add: sign_out_state_def revoked_state_def Let_def)

definition sign_out_ready :: "env \<Rightarrow> db \<Rightarrow> bool" where
  "sign_out_ready e s \<longleftrightarrow> encryption_configured e \<and> session_table_ok (user_sessions s)"

lemma sign_out_ready_after: "sign_out_ready e s \<Longrightarrow> sign_out_ready e (sign_out_state e u actor rq ex s)"
  by (simp add: sign_out_ready_def sign_out_state_def revoked_state_def Let_def session_table_ok_mark)

interpretation sign_out: account_closing "sign_out_ready e" "revoke_all e" revoke_all_jwt "sign_out_state e" "spared e" for e
proof unfold_locales
  fix s u actor rq ex
  assume r: "sign_out_ready e s"
  let ?s1 = "revoked_state e actor rq (sign_out_rows e u rq ex s) s"
  have "revoke_all e u actor rq ex s = (Inr (length (sign_out_rows e u rq ex s)), ?s1)"
    using r revoke_all_run [of e s] by (simp add: sign_out_ready_def sign_out_rows_def Let_def)
  moreover obtain n where "revoke_all_jwt u ?s1 = (Inr n, sign_out_state e u actor rq ex s)"
    using revoke_all_jwt_state [of u ?s1] by (auto simp: sign_out_state_def Let_def)
  ultimately show "\<exists>n m. revoke_all e u actor rq ex s = (Inr n, fst m) \<and>
      revoke_all_jwt u (fst m) = (Inr (snd m), sign_out_state e u actor rq ex s)" by fastforce
  show "signed_out (spared e rq ex s) u (sign_out_state e u actor rq ex s)"
    using r by (simp add: sign_out_ready_def sign_out_closed)
  show "sign_out_ready e (sign_out_state e u actor rq ex s)" using r by (rule sign_out_ready_after)
qed

lemma sign_out_runs:
  assumes "sign_out_ready e s"
  obtains n m s1 where "revoke_all e u actor rq ex s = (Inr n, s1)"
    and "revoke_all_jwt u s1 = (Inr m, sign_out_state e u actor rq ex s)"
  using sign_out.closes [OF assms] by (metis fst_conv snd_conv)

text \<open>The histories and the mail written afterwards leave a user signed out.\<close>

lemma signed_out_frame:
  "user_sessions t = user_sessions s \<Longrightarrow> outstanding t = outstanding s \<Longrightarrow> blacklisted t = blacklisted s \<Longrightarrow>
   signed_out keep u s \<Longrightarrow> signed_out keep u t"
  by (simp add: signed_out_def)

lemma spared_False [simp]: "spared e rq False s x \<longleftrightarrow> False"
  by (simp add: spared_def)

lemma spared_frame: "user_sessions t = user_sessions s \<Longrightarrow> spared e rq ex t = spared e rq ex s"
  by (rule ext, cases rq; cases "current_key (the rq)") (simp_all add: spared_def current_run)

end
