(* ===== verification/Bans.thy ===== *)
theory Bans
  imports SignOut
begin

text \<open>
  \<^verbatim>\<open>BanService\<close> of \<^verbatim>\<open>apps/accounts/services.py\<close> and the task \<^verbatim>\<open>expire_temporary_bans\<close> of
  \<^verbatim>\<open>apps/accounts/tasks.py\<close>. A ban is a row with a start and an optional end; the status column
  of the account follows it, at once or when the task runs.
\<close>

section \<open>Operations\<close>

definition user_actor :: "uuid option \<Rightarrow> actor option" where
  "user_actor a = map_option UserActor a"

definition set_status :: "account_status \<Rightarrow> datetime \<Rightarrow> user \<Rightarrow> user" where
  "set_status st now u = u\<lparr>u_status := st, u_updated_at := now\<rparr>"

definition ban ::
    "env \<Rightarrow> uuid \<Rightarrow> string \<Rightarrow> uuid option \<Rightarrow> datetime option \<Rightarrow> datetime option \<Rightarrow> request option \<Rightarrow> user_ban action"
  where
  "ban e user reason actor starts_at expires_at rq = atomic
     (bind_op (user_get user) (\<lambda>locked.
      bind_op fresh_id (\<lambda>i.
      bind_op now_op (\<lambda>now.
      let row = \<lparr>b_id = i, b_user = u_id locked, b_reason = reason, b_banned_by = actor,
                 b_starts_at = (case starts_at of None \<Rightarrow> now | Some t \<Rightarrow> t), b_expires_at = expires_at,
                 b_created_at = now, b_revoked_at = None\<rparr>;
          record = audit_record e ((audit_call ''account.banned'')
             \<lparr>aa_target := Some (user_target e locked), aa_actor := user_actor actor, aa_request := rq,
              aa_after := [(''reason'', PStr reason),
                (''expires_at'', case expires_at of None \<Rightarrow> PNone | Some t \<Rightarrow> PStr (isoformat (plat e) t))]\<rparr>) in
      then_op (raise_if (\<not> ban_constraint row) (IntegrityError ''acct_ban_expiry_after_start''))
      (then_op (modify (\<lambda>s. s\<lparr>bans := row # bans s\<rparr>))
      (if b_starts_at row \<le> now
       then then_op (user_update (u_id locked) (set_status BANNED now))
            (then_op (revoke_all e (u_id locked) (user_actor actor) rq False)
            (then_op (revoke_all_jwt (u_id locked))
            (then_op record (ret row))))
       else then_op record (ret row)))))))"

definition ban_mark_revoked :: "datetime \<Rightarrow> user_ban \<Rightarrow> user_ban" where
  "ban_mark_revoked now b = b\<lparr>b_revoked_at := Some now\<rparr>"

definition ban_revoke :: "env \<Rightarrow> user_ban \<Rightarrow> uuid option \<Rightarrow> request option \<Rightarrow> unit action" where
  "ban_revoke e b actor rq = atomic
     (bind_op (bind_op (reads (\<lambda>s. get_where ''UserBan'' (\<lambda>r. b_id r = b_id b) (bans s))) of_sum) (\<lambda>locked.
      if b_revoked_at locked \<noteq> None then ret ()
      else
      bind_op (user_get (b_user locked)) (\<lambda>user.
      bind_op now_op (\<lambda>now.
      then_op (modify (\<lambda>s. s\<lparr>bans := update_where (\<lambda>r. b_id r = b_id locked) (ban_mark_revoked now) (bans s)\<rparr>))
      (bind_op (reads (\<lambda>s. has_active_ban s user)) (\<lambda>still_banned.
      then_op (when_op (\<not> still_banned \<and> u_status user = BANNED)
         (user_update (u_id user) (set_status ACTIVE now)))
      (audit_record e ((audit_call ''account.ban_revoked'')
         \<lparr>aa_target := Some (user_target e user), aa_actor := user_actor actor, aa_request := rq\<rparr>))))))))"

text \<open>
  The task's first query chains two \<^verbatim>\<open>filter\<close> calls over the relation \<^verbatim>\<open>bans\<close>. Each call joins
  the relation anew, so that the two conditions may be met by two different bans of the user.
\<close>

definition ban_to_activate :: "db \<Rightarrow> user \<Rightarrow> bool" where
  "ban_to_activate s u \<longleftrightarrow>
     u_status u \<noteq> BANNED \<and>
     exists_where (\<lambda>b. b_revoked_at b = None \<and> b_starts_at b \<le> clock s) (bans_of s (u_id u)) \<and>
     exists_where (\<lambda>b. case b_expires_at b of None \<Rightarrow> True | Some t \<Rightarrow> t > clock s) (bans_of s (u_id u))"

definition activate_ban :: "env \<Rightarrow> user \<Rightarrow> unit action" where
  "activate_ban e u =
     bind_op now_op (\<lambda>now.
     then_op (user_update (u_id u) (set_status BANNED now))
     (then_op (revoke_all e (u_id u) None None False)
     (then_op (revoke_all_jwt (u_id u))
     (audit_record e ((audit_call ''account.ban_activated'')\<lparr>aa_target := Some (user_target e u)\<rparr>)))))"

definition ban_ended :: "db \<Rightarrow> user \<Rightarrow> bool" where
  "ban_ended s u \<longleftrightarrow>
     u_status u = BANNED \<and>
     exists_where (\<lambda>b. (case b_expires_at b of None \<Rightarrow> False | Some t \<Rightarrow> t \<le> clock s) \<and> b_revoked_at b = None)
       (bans_of s (u_id u))"

fun expire_each :: "user list \<Rightarrow> nat \<Rightarrow> nat action" where
  "expire_each [] updated = ret updated"
| "expire_each (u # us) updated =
     bind_op (reads (\<lambda>s. has_active_ban s u)) (\<lambda>has_active.
     bind_op now_op (\<lambda>now.
     then_op (when_op (\<not> has_active) (user_update (u_id u) (set_status ACTIVE now)))
     (expire_each us (if has_active then updated else updated + 1))))"

definition expire_temporary_bans :: "env \<Rightarrow> nat action" where
  "expire_temporary_bans e =
     bind_op (reads (\<lambda>s. filter (ban_to_activate s) (users s))) (\<lambda>users_to_activate.
     then_op (for_each (activate_ban e) users_to_activate)
     (bind_op (reads (\<lambda>s. filter (ban_ended s) (users s))) (\<lambda>ended.
     bind_op (expire_each ended 0) (\<lambda>updated.
     ret (updated + length users_to_activate)))))"

section \<open>What the operations do\<close>

interpretation ban_revocation: stamped b_id b_revoked_at ban_mark_revoked
  by unfold_locales (simp_all add: ban_mark_revoked_def)

definition ban_table_ok :: "user_ban list \<Rightarrow> bool" where
  "ban_table_ok bs \<longleftrightarrow> distinct (map b_id bs)"

interpretation ban_by_id: keyed_table b_id ban_table_ok
  by unfold_locales (simp add: ban_table_ok_def)

lemma set_status_simps [simp]:
  "u_id (set_status st now u) = u_id u"
  "u_status (set_status st now u) = st"
  "u_email_verified_at (set_status st now u) = u_email_verified_at u"
  "set_status st now (set_status st now u) = set_status st now u"
  by (simp_all add: set_status_def)

lemma ban_mark_revoked_simps [simp]:
  "b_user (ban_mark_revoked now b) = b_user b"
  "ban_is_active now' (ban_mark_revoked now b) = False"
  by (simp_all add: ban_mark_revoked_def ban_is_active_def)

lemma has_active_ban_frame:
  "bans t = bans s \<Longrightarrow> clock t = clock s \<Longrightarrow> u_id v = u_id u \<Longrightarrow> has_active_ban t v = has_active_ban s u"
  by (simp add: has_active_ban_iff)

lemma ban_ended_frame:
  "bans t = bans s \<Longrightarrow> clock t = clock s \<Longrightarrow> ban_ended t u = ban_ended s u"
  by (simp only: ban_ended_def bans_of_def)

lemma user_table_ok_update:
  "user_table_ok us \<Longrightarrow> (\<And>u. u_id (f u) = u_id u) \<Longrightarrow> user_table_ok (update_where P f us)"
  by (simp add: user_table_ok_def update_where_map)

definition ban_row ::
    "uuid \<Rightarrow> string \<Rightarrow> uuid option \<Rightarrow> datetime option \<Rightarrow> datetime option \<Rightarrow> db \<Rightarrow> user_ban" where
  "ban_row uid reason actor starts expires s =
     \<lparr>b_id = next_id s, b_user = uid, b_reason = reason, b_banned_by = actor,
      b_starts_at = (case starts of None \<Rightarrow> clock s | Some t \<Rightarrow> t), b_expires_at = expires,
      b_created_at = clock s, b_revoked_at = None\<rparr>"

definition ban_audit ::
    "env \<Rightarrow> user \<Rightarrow> string \<Rightarrow> uuid option \<Rightarrow> datetime option \<Rightarrow> request option \<Rightarrow> datetime \<Rightarrow> audit_log" where
  "ban_audit e u reason actor expires rq now =
     audit_row e now ((audit_call ''account.banned'')
       \<lparr>aa_target := Some (user_target e u), aa_actor := user_actor actor, aa_request := rq,
        aa_after := [(''reason'', PStr reason),
          (''expires_at'', case expires of None \<Rightarrow> PNone | Some t \<Rightarrow> PStr (isoformat (plat e) t))]\<rparr>)"

lemma ban_run:
  assumes "sign_out_ready e s" and "user_table_ok (users s)" and "u \<in> set (users s)"
    and row: "row = ban_row (u_id u) reason actor starts expires s"
  shows "ban e (u_id u) reason actor starts expires rq s =
    (if \<not> ban_constraint row then (Inl (IntegrityError ''acct_ban_expiry_after_start''), s)
     else let s1 = s\<lparr>next_id := Suc (next_id s), bans := row # bans s\<rparr>;
              s2 = (if b_starts_at row \<le> clock s
                    then sign_out_state e (u_id u) (user_actor actor) rq False
                           (s1\<lparr>users := update_where (\<lambda>v. u_id v = u_id u) (set_status BANNED (clock s)) (users s)\<rparr>)
                    else s1)
          in (Inr row, s2\<lparr>audit_logs := ban_audit e u reason actor expires rq (clock s) # audit_logs s2\<rparr>))"
proof -
  let ?s1 = "s\<lparr>next_id := Suc (next_id s), bans := row # bans s,
     users := update_where (\<lambda>v. u_id v = u_id u) (set_status BANNED (clock s)) (users s)\<rparr>"
  have ready: "sign_out_ready e ?s1" using assms(1) by (simp add: sign_out_ready_def)
  have g: "get_where ''User'' (\<lambda>v. u_id v = u_id u) (users s) = Inr u"
    using user_by_id.get_by_key [OF assms(2,3)] .
  obtain n m s2 where so: "revoke_all e (u_id u) (user_actor actor) rq False ?s1 = (Inr n, s2)"
    "revoke_all_jwt (u_id u) s2 = (Inr m, sign_out_state e (u_id u) (user_actor actor) rq False ?s1)"
    using sign_out_runs [OF ready] .
  show ?thesis
    using so by (cases starts) (simp_all add: ban_def Let_def op_simps g row ban_row_def ban_audit_def)
qed

lemma activate_each_run:
  assumes "sign_out_ready e s"
  shows "\<exists>t. for_each (activate_ban e) us s = (Inr (), t) \<and>
     users t = update_where (\<lambda>v. u_id v \<in> u_id ` set us) (set_status BANNED (clock s)) (users s) \<and>
     bans t = bans s \<and> clock t = clock s"
  using assms
proof (induction us arbitrary: s)
  case Nil
  then show ?case by (simp add: op_simps update_where_def)
next
  case (Cons u us)
  let ?s1 = "s\<lparr>users := update_where (\<lambda>v. u_id v = u_id u) (set_status BANNED (clock s)) (users s)\<rparr>"
  let ?s2 = "sign_out_state e (u_id u) None None False ?s1"
  have ready: "sign_out_ready e ?s1" using Cons.prems by (simp add: sign_out_ready_def)
  obtain n m s3 where so: "revoke_all e (u_id u) None None False ?s1 = (Inr n, s3)"
    "revoke_all_jwt (u_id u) s3 = (Inr m, ?s2)"
    using sign_out_runs [OF ready] .
  then obtain log where act: "activate_ban e u s = (Inr (), ?s2\<lparr>audit_logs := log # audit_logs ?s2\<rparr>)"
    by (simp add: activate_ban_def op_simps)
  have "sign_out_ready e (?s2\<lparr>audit_logs := log # audit_logs ?s2\<rparr>)"
    using sign_out_ready_after [OF ready] by (simp add: sign_out_ready_def)
  from Cons.IH [OF this] obtain t where "for_each (activate_ban e) us (?s2\<lparr>audit_logs := log # audit_logs ?s2\<rparr>) = (Inr (), t)"
    "users t = update_where (\<lambda>v. u_id v \<in> u_id ` set us) (set_status BANNED (clock s))
       (update_where (\<lambda>v. u_id v = u_id u) (set_status BANNED (clock s)) (users s))"
    "bans t = bans s" "clock t = clock s" by auto
  then show ?case by (intro exI [of _ t]) (simp add: op_simps act update_where_twice)
qed

lemma expire_each_run:
  "\<exists>n. expire_each us k s = (Inr n, s\<lparr>users :=
     update_where (\<lambda>v. u_id v \<in> u_id ` {u \<in> set us. \<not> has_active_ban s u}) (set_status ACTIVE (clock s)) (users s)\<rparr>)"
proof (induction us arbitrary: k s)
  case Nil
  then show ?case by (simp add: op_simps update_where_def)
next
  case (Cons u us)
  let ?s1 = "if has_active_ban s u then s
    else s\<lparr>users := update_where (\<lambda>v. u_id v = u_id u) (set_status ACTIVE (clock s)) (users s)\<rparr>"
  have h: "has_active_ban ?s1 v = has_active_ban s v" for v by (rule has_active_ban_frame) simp_all
  have "{x \<in> set (u # us). \<not> has_active_ban s x} =
        (if has_active_ban s u then {} else {u}) \<union> {x \<in> set us. \<not> has_active_ban s x}" by auto
  with Cons [of "if has_active_ban s u then k else k + 1" ?s1] show ?case
    unfolding h by (cases "has_active_ban s u") (auto simp: op_simps update_where_twice)
qed

lemma expire_temporary_bans_run:
  assumes "sign_out_ready e s"
  shows "\<exists>n t s1. expire_temporary_bans e s = (Inr n, t) \<and> bans t = bans s \<and> clock t = clock s \<and>
     users s1 = update_where (\<lambda>v. u_id v \<in> u_id ` set (filter (ban_to_activate s) (users s)))
       (set_status BANNED (clock s)) (users s) \<and> bans s1 = bans s \<and> clock s1 = clock s \<and>
     users t = update_where (\<lambda>v. u_id v \<in> u_id ` {u \<in> set (filter (ban_ended s1) (users s1)). \<not> has_active_ban s1 u})
       (set_status ACTIVE (clock s)) (users s1)"
proof -
  obtain s1 where s1: "for_each (activate_ban e) (filter (ban_to_activate s) (users s)) s = (Inr (), s1)"
    "users s1 = update_where (\<lambda>v. u_id v \<in> u_id ` set (filter (ban_to_activate s) (users s)))
       (set_status BANNED (clock s)) (users s)" "bans s1 = bans s" "clock s1 = clock s"
    using activate_each_run [OF assms] by blast
  obtain n where n: "expire_each (filter (ban_ended s1) (users s1)) 0 s1 = (Inr n, s1\<lparr>users :=
     update_where (\<lambda>v. u_id v \<in> u_id ` {u \<in> set (filter (ban_ended s1) (users s1)). \<not> has_active_ban s1 u})
       (set_status ACTIVE (clock s1)) (users s1)\<rparr>)"
    using expire_each_run by blast
  let ?t = "s1\<lparr>users :=
     update_where (\<lambda>v. u_id v \<in> u_id ` {u \<in> set (filter (ban_ended s1) (users s1)). \<not> has_active_ban s1 u})
       (set_status ACTIVE (clock s1)) (users s1)\<rparr>"
  have "expire_temporary_bans e s = (Inr (n + length (filter (ban_to_activate s) (users s))), ?t)"
    unfolding expire_temporary_bans_def by (simp only: bind_op_run then_op_run op_runs s1(1) n prod.case sum.case)
  moreover have "bans ?t = bans s" "clock ?t = clock s" by (simp_all add: s1(3,4))
  moreover have "users ?t = update_where (\<lambda>v. u_id v \<in> u_id ` {u \<in> set (filter (ban_ended s1) (users s1)). \<not> has_active_ban s1 u})
       (set_status ACTIVE (clock s)) (users s1)" by (simp add: s1(4))
  ultimately show ?thesis using s1(2-4) by blast
qed

lemma active_ban_row:
  assumes "b_starts_at b \<le> now" and "case b_expires_at b of None \<Rightarrow> True | Some t \<Rightarrow> now < t"
    and "b_revoked_at b = None" and "b \<in> set (bans s)" and "b_user b = u_id v"
  shows "\<not> can_authenticate_now (s\<lparr>clock := now\<rparr>) v"
proof -
  have "ban_is_active now b" using assms(1-3) by (auto simp: ban_is_active_def split: option.splits)
  then have "has_active_ban (s\<lparr>clock := now\<rparr>) v" using assms(4,5) by (auto simp: has_active_ban_iff)
  then show ?thesis by (simp add: can_authenticate_now_def)
qed

section \<open>Properties\<close>

text \<open>
  Property C4: a ban takes effect. For an existing account and an end after the start, \<open>ban\<close> succeeds,
  and at every instant from the start to the end no state of the account row may authenticate. When
  the ban starts at once, the account's status is \<^verbatim>\<open>BANNED\<close>, every session of the user is revoked and
  every refresh token is blacklisted.
\<close>

theorem ban_takes_effect:
  assumes "sign_out_ready e s" and "user_table_ok (users s)" and "u \<in> set (users s)"
    and "start = (case starts_at of None \<Rightarrow> clock s | Some t \<Rightarrow> t)"
    and "case expires_at of None \<Rightarrow> True | Some t \<Rightarrow> start < t"
    and "ban e (u_id u) reason actor starts_at expires_at rq s = (r, s')"
  shows "(\<exists>b. r = Inr b \<and> b \<in> set (bans s') \<and> b_user b = u_id u) \<and>
         (\<forall>now v. start \<le> now \<and> (case expires_at of None \<Rightarrow> True | Some t \<Rightarrow> now < t) \<and> u_id v = u_id u \<longrightarrow>
            \<not> can_authenticate_now (s'\<lparr>clock := now\<rparr>) v) \<and>
         (start \<le> clock s \<longrightarrow>
            (\<forall>v\<in>set (users s'). u_id v = u_id u \<longrightarrow> u_status v = BANNED) \<and>
            signed_out (\<lambda>_. False) (u_id u) s')"
proof -
  let ?row = "ban_row (u_id u) reason actor starts_at expires_at s"
  have row: "b_starts_at ?row = start" "b_expires_at ?row = expires_at" "b_revoked_at ?row = None" "b_user ?row = u_id u"
    using assms(4) by (simp_all add: ban_row_def)
  have c: "ban_constraint ?row" using assms(5) row by (cases expires_at) (simp_all add: ban_constraint_def)
  note run = ban_run [OF assms(1-3) refl, of reason actor starts_at expires_at rq]
  have r: "r = Inr ?row" using run c assms(6) by (simp add: Let_def)
  have bans: "?row \<in> set (bans s')" using run c assms(6) by (auto simp: Let_def)
  have stop: "\<not> can_authenticate_now (s'\<lparr>clock := now\<rparr>) v"
    if "start \<le> now" "case expires_at of None \<Rightarrow> True | Some t \<Rightarrow> now < t" "u_id v = u_id u" for now v
    using that row bans by (intro active_ban_row [where b = ?row]) simp_all
  have now: "(\<forall>v\<in>set (users s'). u_id v = u_id u \<longrightarrow> u_status v = BANNED) \<and> signed_out (\<lambda>_. False) (u_id u) s'"
    if "start \<le> clock s"
  proof -
    let ?s1 = "s\<lparr>next_id := Suc (next_id s), bans := ?row # bans s,
       users := update_where (\<lambda>v. u_id v = u_id u) (set_status BANNED (clock s)) (users s)\<rparr>"
    let ?s2 = "sign_out_state e (u_id u) (user_actor actor) rq False ?s1"
    have s': "s' = ?s2\<lparr>audit_logs := ban_audit e u reason actor expires_at rq (clock s) # audit_logs ?s2\<rparr>"
      using run c assms(6) row(1) that by (simp add: Let_def)
    have ready: "sign_out_ready e ?s1" using assms(1) by (simp add: sign_out_ready_def)
    have "signed_out (\<lambda>_. False) (u_id u) ?s2"
      using sign_out.closed [OF ready, of rq False "u_id u"] by (simp add: signed_out_def)
    moreover have us: "users s' = update_where (\<lambda>v. u_id v = u_id u) (set_status BANNED (clock s)) (users s)"
      by (simp add: s')
    have "u_status v = BANNED" if "v \<in> set (users s')" "u_id v = u_id u" for v
      using that(1) unfolding us by (cases rule: update_whereE) (use that(2) in auto)
    moreover have "signed_out (\<lambda>_. False) (u_id u) s'"
      by (rule signed_out_frame [OF _ _ _ calculation(1)]) (simp_all add: s')
    ultimately show ?thesis by blast
  qed
  show ?thesis using r bans row(4) stop now by blast
qed

theorem ban_takes_effect_witness:
  "\<exists>b s'. ban demo_env 7 ''spam'' None None (Some (seconds 60)) None demo_db = (Inr b, s') \<and>
     signed_out (\<lambda>_. False) 7 s' \<and> \<not> can_authenticate_now (s'\<lparr>clock := seconds 59\<rparr>) demo_user"
proof -
  have a: "sign_out_ready demo_env demo_db" "user_table_ok (users demo_db)" by code_simp+
  have m: "demo_user \<in> set (users demo_db)" "u_id demo_user = 7" "clock demo_db = 0"
    by (simp_all add: demo_db_def demo_user_def empty_db_def)
  obtain r s' where run: "ban demo_env (u_id demo_user) ''spam'' None None (Some (seconds 60)) None demo_db = (r, s')"
    by fastforce
  have x: "case Some (seconds 60) of None \<Rightarrow> True | Some t \<Rightarrow> clock demo_db < t" using m by (simp add: seconds_def)
  show ?thesis
    using ban_takes_effect [OF a m(1) _ x run] run m by (force simp: seconds_def)
qed

text \<open>
  The ban task makes the status column follow the bans. With encryption configured,
  \<open>expire_temporary_bans\<close> never fails; afterwards every account with an active ban has status
  \<^verbatim>\<open>BANNED\<close>, and no account keeps that status because of a ban that ended.
\<close>

theorem ban_task_enforces:
  assumes "sign_out_ready e s" and "expire_temporary_bans e s = (r, s')"
  shows "\<not> isl r \<and>
         (\<forall>u\<in>set (users s'). (has_active_ban s' u \<longrightarrow> u_status u = BANNED) \<and>
            (ban_ended s' u \<longrightarrow> has_active_ban s' u))"
proof -
  obtain n s1 where r: "r = Inr n" and b: "bans s' = bans s" "clock s' = clock s" "bans s1 = bans s" "clock s1 = clock s"
    and u1: "users s1 = update_where (\<lambda>v. u_id v \<in> u_id ` set (filter (ban_to_activate s) (users s)))
       (set_status BANNED (clock s)) (users s)"
    and u2: "users s' = update_where (\<lambda>v. u_id v \<in> u_id ` {u \<in> set (filter (ban_ended s1) (users s1)). \<not> has_active_ban s1 u})
       (set_status ACTIVE (clock s)) (users s1)"
    using expire_temporary_bans_run [OF assms(1)] assms(2) by auto
  have h: "has_active_ban s' u = has_active_ban s u" "has_active_ban s1 u = has_active_ban s u" for u
    using b by (simp_all add: has_active_ban_iff)
  have hid: "has_active_ban s u = has_active_ban s v" if "u_id u = u_id v" for u v
    using that by (simp add: has_active_ban_iff)
  have banned1: "u_status v = BANNED" if v: "v \<in> set (users s1)" "has_active_ban s v" for v
    using v(1) unfolding u1
  proof (cases rule: update_whereE)
    case same
    then have "\<not> ban_to_activate s v" by auto
    then show ?thesis using v(2)
      by (fastforce simp: ban_to_activate_def has_active_ban_iff bans_of_def ban_is_active_def)
  qed simp
  have "(has_active_ban s' v \<longrightarrow> u_status v = BANNED) \<and> (ban_ended s' v \<longrightarrow> has_active_ban s' v)"
    if "v \<in> set (users s')" for v
    using that unfolding u2
  proof (cases rule: update_whereE)
    case (changed q)
    then obtain u where u: "u_id q = u_id u" "\<not> has_active_ban s u" by (auto simp: h)
    then have "\<not> has_active_ban s v" using changed hid [of v u] by simp
    then show ?thesis using changed by (simp add: h ban_ended_def)
  next
    case same
    then have "ban_ended s1 v \<Longrightarrow> has_active_ban s1 v" by auto
    moreover have "ban_ended s1 v = ban_ended s' v" using b by (intro ban_ended_frame) simp_all
    ultimately show ?thesis using banned1 [OF same(1)] by (simp add: h)
  qed
  then show ?thesis using r by simp
qed

definition demo_banned :: db where
  "demo_banned = demo_db\<lparr>clock := seconds 61, users := [demo_user\<lparr>u_status := BANNED\<rparr>], bans :=
     [\<lparr>b_id = 1, b_user = 7, b_reason = ''spam'', b_banned_by = None, b_starts_at = 0,
       b_expires_at = Some (seconds 60), b_created_at = 0, b_revoked_at = None\<rparr>]\<rparr>"

theorem ban_task_enforces_witness:
  "\<not> isl (fst (expire_temporary_bans demo_env demo_banned)) \<and>
   map u_status (users (snd (expire_temporary_bans demo_env demo_banned))) = [ACTIVE] \<and>
   list_all (\<lambda>u. has_active_ban (snd (expire_temporary_bans demo_env demo_banned)) u \<longrightarrow> u_status u = BANNED)
     (users (snd (expire_temporary_bans demo_env demo_banned)))"
proof -
  have a: "sign_out_ready demo_env demo_banned" by code_simp
  have m: "map u_status (users (snd (expire_temporary_bans demo_env demo_banned))) = [ACTIVE]" by code_simp
  obtain r t where run: "expire_temporary_bans demo_env demo_banned = (r, t)" by fastforce
  show ?thesis using ban_task_enforces [OF a run] m unfolding run by (simp add: list_all_iff)
qed

text \<open>
  Revoking the only ban of an account makes the account \<^verbatim>\<open>ACTIVE\<close> whatever its status was
  before the ban. An account that was \<^verbatim>\<open>PENDING\<close> becomes active without its address having been
  verified; a suspended one leaves its suspension.
\<close>

theorem ban_revoke_activates:
  assumes "sign_out_ready e s" and "user_table_ok (users s)" and "u \<in> set (users s)"
    and "\<forall>b\<in>set (bans s). b_user b \<noteq> u_id u \<and> b_id b < next_id s" and "ban_table_ok (bans s)"
    and "ban e (u_id u) reason actor None None rq s = (Inr b, s')"
    and "ban_revoke e b actor' rq' s' = (r, s'')"
  shows "r = Inr () \<and> (\<forall>v\<in>set (users s''). u_id v = u_id u \<longrightarrow>
           u_status v = ACTIVE \<and> u_email_verified_at v = u_email_verified_at u)"
proof -
  let ?row = "ban_row (u_id u) reason actor None None s"
  let ?us = "update_where (\<lambda>v. u_id v = u_id u) (set_status BANNED (clock s)) (users s)"
  let ?u' = "set_status BANNED (clock s) u"
  have c: "ban_constraint ?row" "b_starts_at ?row = clock s" by (simp_all add: ban_constraint_def ban_row_def)
  have b: "b = ?row" and us: "users s' = ?us" and bs: "bans s' = ?row # bans s" and cl: "clock s' = clock s"
    using ban_run [OF assms(1-3) refl, of reason actor None None rq] c assms(6) by (auto simp: Let_def)
  have row: "b_user ?row = u_id u" "b_id ?row = next_id s" "b_revoked_at ?row = None" by (simp_all add: ban_row_def)
  have ok: "ban_table_ok (bans s')" using assms(4,5) row bs by (auto simp: ban_table_ok_def)
  have g: "get_where ''UserBan'' (\<lambda>x. b_id x = next_id s) (bans s') = Inr ?row"
    using ban_by_id.get_by_key [OF ok, of ?row "''UserBan''"] row bs by simp
  have uok: "user_table_ok ?us" using assms(2) by (simp add: user_table_ok_update)
  have mem: "?u' \<in> set ?us" using update_where_changed [OF assms(3), of "\<lambda>v. u_id v = u_id u"] by simp
  have gu: "get_where ''User'' (\<lambda>v. u_id v = u_id u) (users s') = Inr ?u'"
    using user_by_id.get_by_key [OF uok mem] us by simp
  let ?bs = "update_where (\<lambda>x. b_id x = next_id s) (ban_mark_revoked (clock s)) (bans s')"
  have quiet: "\<not> has_active_ban (s'\<lparr>bans := ?bs\<rparr>) ?u'"
  proof -
    have "\<not> ban_is_active (clock s) x" if "x \<in> set ?bs" "b_user x = u_id u" for x
      using that(1) by (cases rule: update_whereE) (use that(2) assms(4) bs row in auto)
    then show ?thesis by (auto simp: has_active_ban_iff cl)
  qed
  have "users s'' = update_where (\<lambda>v. u_id v = u_id u) (set_status ACTIVE (clock s)) (users s') \<and> r = Inr ()"
    using assms(7) quiet by (auto simp: ban_revoke_def op_simps b row g gu cl)
  then have run: "users s'' = update_where (\<lambda>v. u_id v = u_id u) (set_status ACTIVE (clock s)) ?us" "r = Inr ()"
    by (simp_all add: us)
  have "u_status v = ACTIVE \<and> u_email_verified_at v = u_email_verified_at u"
    if v: "v \<in> set (users s'')" "u_id v = u_id u" for v
    using v(1) unfolding run(1)
  proof (cases rule: update_whereE)
    case (changed q)
    then have "q = ?u'" using user_by_id.key_determines [OF uok _ mem] by simp
    then show ?thesis using changed by simp
  qed (use v in auto)
  then show ?thesis using run(2) by blast
qed

definition demo_pending :: db where
  "demo_pending = demo_db\<lparr>users := [demo_user\<lparr>u_status := PENDING, u_email_verified_at := None\<rparr>]\<rparr>"

theorem ban_revoke_activates_witness:
  "\<exists>b s' r s''. ban demo_env 7 ''spam'' None None None None demo_pending = (Inr b, s') \<and>
     ban_revoke demo_env b None None s' = (r, s'') \<and>
     (\<forall>v\<in>set (users s''). u_id v = 7 \<longrightarrow> u_status v = ACTIVE \<and> u_email_verified_at v = None)"
proof -
  let ?u = "demo_user\<lparr>u_status := PENDING, u_email_verified_at := None\<rparr>"
  have a: "sign_out_ready demo_env demo_pending" "user_table_ok (users demo_pending)" "ban_table_ok (bans demo_pending)"
    by code_simp+
  have m: "?u \<in> set (users demo_pending)" "u_id ?u = 7" "u_email_verified_at ?u = None"
    "\<forall>b\<in>set (bans demo_pending). b_user b \<noteq> u_id ?u \<and> b_id b < next_id demo_pending"
    by (simp_all add: demo_pending_def demo_db_def demo_user_def empty_db_def)
  obtain b s' where b: "ban demo_env (u_id ?u) ''spam'' None None None None demo_pending = (Inr b, s')"
    using ban_run [OF a(1,2) m(1) refl, of "''spam''" None None None None]
    by (simp add: Let_def ban_constraint_def ban_row_def)
  obtain r s'' where r: "ban_revoke demo_env b None None s' = (r, s'')" by fastforce
  have "\<forall>v\<in>set (users s''). u_id v = 7 \<longrightarrow> u_status v = ACTIVE \<and> u_email_verified_at v = None"
    using ban_revoke_activates [OF a(1,2) m(1,4) a(3) b r] unfolding m(2,3) by blast
  then show ?thesis using b r unfolding m(2) by blast
qed

text \<open>
  The ban task acts on accounts that are not banned. Its first query asks for a started,
  unrevoked ban and for an unexpired one, and accepts two different bans: for an active account with
  an expired ban and a revoked permanent one, which has no active ban, the task writes
  \<^verbatim>\<open>account.ban_activated\<close>, revokes the user's session, and sets the status back to active.
\<close>

definition demo_past_bans :: db where
  "demo_past_bans = demo_db\<lparr>clock := seconds 100, bans :=
     [\<lparr>b_id = 1, b_user = 7, b_reason = ''a'', b_banned_by = None, b_starts_at = 0,
       b_expires_at = Some (seconds 50), b_created_at = 0, b_revoked_at = None\<rparr>,
      \<lparr>b_id = 2, b_user = 7, b_reason = ''b'', b_banned_by = None, b_starts_at = 0,
       b_expires_at = None, b_created_at = 0, b_revoked_at = Some (seconds 10)\<rparr>],
     user_sessions := user_sessions demo_sessions\<rparr>"

theorem ban_task_hits_unbanned:
  "has_active_ban demo_past_bans demo_user = False \<and>
   (let t = snd (expire_temporary_bans demo_env demo_past_bans)
    in map al_action (audit_logs t) = [''account.ban_activated'', ''session.revoked''] \<and>
       map is_revoked (user_sessions demo_past_bans) = [False] \<and>
       map is_revoked (user_sessions t) = [True] \<and> map u_status (users t) = [ACTIVE])"
  by code_simp

end
