(* ===== verification/Authorization.thy ===== *)
theory Authorization
  imports Events UserRows
begin

text \<open>
  Roles, permissions and overrides: the models of \<^verbatim>\<open>apps/authorization/models.py\<close>, the
  \<^verbatim>\<open>PermissionService\<close> and the permission classes of \<^verbatim>\<open>common/permissions/rbac.py\<close>. A principal is the row of the authenticated user, or nothing for an anonymous
  request. The time stamps of the authorization rows are not kept.
\<close>

section \<open>models.py\<close>

definition py_isalnum :: "string \<Rightarrow> bool" where
  "py_isalnum t \<longleftrightarrow> t \<noteq> [] \<and> list_all (\<lambda>c. let n = char_code c in
     (48 \<le> n \<and> n \<le> 57) \<or> (65 \<le> n \<and> n \<le> 90) \<or> (97 \<le> n \<and> n \<le> 122)) t"

definition permission_clean :: "permission \<Rightarrow> error option" where
  "permission_clean p =
     (let name = pm_codename p;
          parts = [before_char (CHR ''.'') name, (case after_char (CHR ''.'') name of None \<Rightarrow> [] | Some r \<Rightarrow> r)]
      in if length (filter (\<lambda>c. c = CHR ''.'') name) \<noteq> 1 \<or>
            list_ex (\<lambda>part. \<not> py_isalnum (py_remove (CHR ''_'') part)) parts
         then Some (ValidationError ''codename'') else None)"

definition permission_delete :: "permission \<Rightarrow> unit action" where
  \<comment> \<open>links and overrides follow the permission (\<^verbatim>\<open>CASCADE\<close>)\<close>
  "permission_delete p =
     then_op (raise_if (pm_is_system p) (ValidationError ''System permissions cannot be deleted.''))
     (modify (\<lambda>s. s\<lparr>permissions := delete_where (\<lambda>q. pm_id q = pm_id p) (permissions s),
        role_permissions := delete_where (\<lambda>l. rp_permission l = pm_id p) (role_permissions s),
        overrides := delete_where (\<lambda>o'. po_permission o' = pm_id p) (overrides s)\<rparr>))"

definition role_delete :: "role \<Rightarrow> unit action" where
  \<comment> \<open>an assignment protects its role (\<^verbatim>\<open>PROTECT\<close>); links follow it\<close>
  "role_delete r =
     then_op (raise_if (ro_is_system r) (ValidationError ''System roles cannot be deleted.''))
     (bind_op (reads (\<lambda>s. exists_where (\<lambda>a. ur_role a = ro_id r) (user_roles s))) (\<lambda>assigned.
      then_op (raise_if assigned (ProtectedError ''user_assignments''))
      (modify (\<lambda>s. s\<lparr>roles := delete_where (\<lambda>q. ro_id q = ro_id r) (roles s),
         role_permissions := delete_where (\<lambda>l. rp_role l = ro_id r) (role_permissions s)\<rparr>))))"

section \<open>PermissionService\<close>

definition names_permission :: "db \<Rightarrow> string \<Rightarrow> uuid \<Rightarrow> bool" where
  \<comment> \<open>the join on \<^verbatim>\<open>permission__codename\<close>\<close>
  "names_permission s codename pid = exists_where (\<lambda>p. pm_id p = pid \<and> pm_codename p = codename) (permissions s)"

definition override_effect_of :: "db \<Rightarrow> user \<Rightarrow> string \<Rightarrow> override_effect option" where
  "override_effect_of s u codename =
     map_option po_effect (first_where (\<lambda>o'. po_user o' = u_id u \<and> names_permission s codename (po_permission o')) (overrides s))"

definition role_grants :: "db \<Rightarrow> string \<Rightarrow> uuid \<Rightarrow> bool" where
  \<comment> \<open>the join on \<^verbatim>\<open>role__permissions__codename\<close>\<close>
  "role_grants s codename rid =
     exists_where (\<lambda>l. rp_role l = rid \<and> names_permission s codename (rp_permission l)) (role_permissions s)"

definition active_assignments :: "db \<Rightarrow> user \<Rightarrow> user_role list" where
  "active_assignments s u =
     filter (\<lambda>a. ur_user a = u_id u \<and> ur_valid_from a \<le> clock s \<and>
        (case ur_valid_until a of None \<Rightarrow> True | Some t \<Rightarrow> t > clock s)) (user_roles s)"

definition has_permission :: "db \<Rightarrow> user option \<Rightarrow> string \<Rightarrow> bool" where
  "has_permission s who codename =
     (case who of
        None \<Rightarrow> False
      | Some u \<Rightarrow>
          if \<not> can_authenticate_now s u then False
          else let override = override_effect_of s u codename in
            if override = Some DENY then False
            else if override = Some ALLOW then True
            else if u_is_superuser u then True
            else exists_where (\<lambda>a. role_grants s codename (ur_role a)) (active_assignments s u))"

definition linked_codes :: "db \<Rightarrow> uuid \<Rightarrow> string list" where
  "linked_codes s rid =
     concat (map (\<lambda>l. map pm_codename (filter (\<lambda>p. pm_id p = rp_permission l) (permissions s)))
       (filter (\<lambda>l. rp_role l = rid) (role_permissions s)))"

definition role_codes :: "db \<Rightarrow> uuid \<Rightarrow> string option list" where
  \<comment> \<open>the column \<^verbatim>\<open>role__permissions__codename\<close> of an assignment: an outer join, so a role with no
     permission contributes one null\<close>
  "role_codes s rid = (if linked_codes s rid = [] then [None] else map Some (linked_codes s rid))"

definition override_codes :: "db \<Rightarrow> user \<Rightarrow> override_effect \<Rightarrow> string list" where
  \<comment> \<open>the keys of the dictionary of overrides with the given effect\<close>
  "override_codes s u effect =
     concat (map (\<lambda>o'. map pm_codename (filter (\<lambda>p. pm_id p = po_permission o') (permissions s)))
       (filter (\<lambda>o'. po_user o' = u_id u \<and> po_effect o' = effect) (overrides s)))"

definition permission_codes :: "db \<Rightarrow> user option \<Rightarrow> string option set" where
  "permission_codes s who =
     (case who of
        None \<Rightarrow> {}
      | Some u \<Rightarrow>
          if \<not> can_authenticate_now s u then {}
          else
            let from_roles = set (concat (map (\<lambda>a. role_codes s (ur_role a)) (active_assignments s u)));
                base = (if u_is_superuser u then set (map (Some \<circ> pm_codename) (permissions s)) else from_roles)
            in (base \<union> Some ` set (override_codes s u ALLOW)) - Some ` set (override_codes s u DENY))"

section \<open>common/permissions/rbac.py\<close>

definition rbac_has_permission :: "db \<Rightarrow> user option \<Rightarrow> string option \<Rightarrow> error + bool" where
  \<comment> \<open>\<^verbatim>\<open>HasPermission.has_permission\<close>; the third argument is the view's \<^verbatim>\<open>required_permission\<close>\<close>
  "rbac_has_permission s who required =
     (case required of
        None \<Rightarrow> Inl (RuntimeError ''required_permission'')
      | Some c \<Rightarrow> if c = [] then Inl (RuntimeError ''required_permission'') else Inr (has_permission s who c))"

definition is_owner_has_permission :: "user option \<Rightarrow> bool" where
  \<comment> \<open>\<^verbatim>\<open>IsOwnerOrHasPermission.has_permission\<close>\<close>
  "is_owner_has_permission who \<longleftrightarrow> who \<noteq> None"

definition rbac_has_object_permission ::
    "db \<Rightarrow> user option \<Rightarrow> string option \<Rightarrow> uuid option \<Rightarrow> bool \<Rightarrow> error + bool" where
  \<comment> \<open>\<^verbatim>\<open>IsOwnerOrHasPermission.has_object_permission\<close> on an object with the given owner; the last
     argument says that the object is the principal. An anonymous principal's key is \<^verbatim>\<open>None\<close>, which
     equals the owner of an object that has none. The call of \<^verbatim>\<open>super()\<close> is \<^verbatim>\<open>HasPermission\<close>'s.\<close>
  "rbac_has_object_permission s who required owner itself =
     (if owner = map_option u_id who \<or> itself then Inr True
      else rbac_has_permission s who required)"

section \<open>What decides a permission\<close>

text \<open>Codenames and primary keys of permissions are unique, and a user has at most one override of a permission.\<close>

definition permission_table_ok :: "permission list \<Rightarrow> bool" where
  "permission_table_ok ps \<longleftrightarrow> distinct (map pm_id ps) \<and> distinct (map pm_codename ps)"

definition override_table_ok :: "user_permission_override list \<Rightarrow> bool" where
  "override_table_ok rs \<longleftrightarrow> distinct (map (\<lambda>r. (po_user r, po_permission r)) rs)"

interpretation permission_by_id: keyed_table pm_id permission_table_ok
  by unfold_locales (simp add: permission_table_ok_def)

interpretation permission_by_code: keyed_table pm_codename permission_table_ok
  by unfold_locales (simp add: permission_table_ok_def)

interpretation override_by_pair: keyed_table "\<lambda>r. (po_user r, po_permission r)" override_table_ok
  by unfold_locales (simp add: override_table_ok_def)

definition role_table_ok :: "role list \<Rightarrow> bool" where
  "role_table_ok rs \<longleftrightarrow> distinct (map ro_id rs) \<and> distinct (map ro_slug rs)"

interpretation role_by_id: keyed_table ro_id role_table_ok
  by unfold_locales (simp add: role_table_ok_def)

interpretation role_by_slug: keyed_table ro_slug role_table_ok
  by unfold_locales (simp add: role_table_ok_def)

lemma override_codes_iff:
  "c \<in> set (override_codes s u eff) \<longleftrightarrow>
     (\<exists>r\<in>set (overrides s). po_user r = u_id u \<and> po_effect r = eff \<and> names_permission s c (po_permission r))"
  by (auto simp: override_codes_def names_permission_def)

lemma override_effect_iff:
  assumes "permission_table_ok (permissions s)" and "override_table_ok (overrides s)"
  shows "override_effect_of s u c = Some eff \<longleftrightarrow> c \<in> set (override_codes s u eff)"
proof
  assume "override_effect_of s u c = Some eff"
  then obtain r where "first_where (\<lambda>r. po_user r = u_id u \<and> names_permission s c (po_permission r)) (overrides s) = Some r"
    and "po_effect r = eff" by (auto simp: override_effect_of_def)
  then show "c \<in> set (override_codes s u eff)"
    unfolding override_codes_iff using first_where_SomeD by fastforce
next
  assume "c \<in> set (override_codes s u eff)"
  then obtain r where r: "r \<in> set (overrides s)" "po_user r = u_id u" "po_effect r = eff" "names_permission s c (po_permission r)"
    unfolding override_codes_iff by blast
  let ?P = "\<lambda>r. po_user r = u_id u \<and> names_permission s c (po_permission r)"
  obtain q where q: "first_where ?P (overrides s) = Some q"
    using r by (cases "first_where ?P (overrides s)") auto
  then have "q \<in> set (overrides s)" "po_user q = u_id u" "names_permission s c (po_permission q)"
    using first_where_SomeD [OF q] by simp_all
  moreover have "po_permission q = po_permission r"
    using permission_by_code.key_determines [OF assms(1)] r(4) calculation(3) by (force simp: names_permission_def)
  ultimately have "q = r" using override_by_pair.key_determines [OF assms(2)] r by simp
  with q r(3) show "override_effect_of s u c = Some eff" by (simp add: override_effect_of_def)
qed

lemma set_linked_codes: "c \<in> set (linked_codes s rid) \<longleftrightarrow> role_grants s c rid"
  by (auto simp: linked_codes_def role_grants_def names_permission_def)

lemma role_codes_iff: "Some c \<in> set (role_codes s rid) \<longleftrightarrow> role_grants s c rid"
  using set_linked_codes [of c s rid] by (auto simp: role_codes_def)

lemma role_codes_None: "None \<in> set (role_codes s rid) \<longleftrightarrow> (\<forall>c. \<not> role_grants s c rid)"
proof -
  have "linked_codes s rid = [] \<longleftrightarrow> (\<forall>c. c \<notin> set (linked_codes s rid))" by (cases "linked_codes s rid") auto
  then show ?thesis by (auto simp: role_codes_def set_linked_codes)
qed

definition registered :: "db \<Rightarrow> string \<Rightarrow> bool" where
  "registered s c \<longleftrightarrow> c \<in> pm_codename ` set (permissions s)"

lemma role_grants_registered: "role_grants s c rid \<Longrightarrow> registered s c"
  by (auto simp: role_grants_def names_permission_def registered_def)

lemma permission_answers_agree_iff:
  assumes "permission_table_ok (permissions s)" and "override_table_ok (overrides s)" and "registered s code"
  shows "Some code \<in> permission_codes s who \<longleftrightarrow> has_permission s who code"
proof (cases who)
  case None
  then show ?thesis by (simp add: permission_codes_def has_permission_def)
next
  case (Some u)
  note eff = override_effect_iff [OF assms(1,2), of u code]
  have "\<not> (override_effect_of s u code = Some ALLOW \<and> override_effect_of s u code = Some DENY)" by simp
  moreover have "Some code \<in> set (concat (map (\<lambda>a. role_codes s (ur_role a)) (active_assignments s u))) \<longleftrightarrow>
      exists_where (\<lambda>a. role_grants s code (ur_role a)) (active_assignments s u)"
    by (auto simp: role_codes_iff)
  moreover have "Some code \<in> set (map (Some \<circ> pm_codename) (permissions s))"
    using assms(3) by (auto simp: registered_def)
  ultimately show ?thesis using Some eff [of ALLOW] eff [of DENY]
    by (simp add: permission_codes_def has_permission_def Let_def image_iff del: set_concat set_map)
qed

section \<open>Properties of permissions\<close>

definition demo_authz :: db where
  "demo_authz = demo_db\<lparr>permissions := [\<lparr>pm_id = 1, pm_codename = ''users.view'', pm_description = [], pm_is_system = True\<rparr>],
     roles := [\<lparr>ro_id = 2, ro_name = ''User'', ro_slug = ''user'', ro_description = [], ro_priority = 100, ro_is_system = True\<rparr>],
     user_roles := [\<lparr>ur_id = 3, ur_user = 7, ur_role = 2, ur_granted_by = None, ur_valid_from = 0, ur_valid_until = None\<rparr>],
     overrides := [\<lparr>po_id = 4, po_user = 7, po_permission = 1, po_effect = ALLOW, po_reason = [], po_granted_by = None\<rparr>]\<rparr>"

text \<open>
  The two answers of the permission service agree. For every registered codename, the set
  that \<open>permission_codes\<close> computes for a principal contains the codename exactly when \<open>has_permission\<close>
  grants it: one resolves the precedence (standing, denial, allowance, superuser, roles) by early
  returns for one codename, the other by set union and difference over all of them.
\<close>

theorem permission_answers_agree:
  assumes "permission_table_ok (permissions s)" and "override_table_ok (overrides s)" and "registered s code"
  shows "Some code \<in> permission_codes s who \<longleftrightarrow> has_permission s who code"
  by (rule permission_answers_agree_iff [OF assms])

theorem permission_answers_agree_witness:
  "has_permission demo_authz (Some demo_user) ''users.view'' \<and> Some ''users.view'' \<in> permission_codes demo_authz (Some demo_user)"
proof -
  have a: "permission_table_ok (permissions demo_authz)" "override_table_ok (overrides demo_authz)"
    "registered demo_authz ''users.view''" "has_permission demo_authz (Some demo_user) ''users.view''" by code_simp+
  then show ?thesis using permission_answers_agree [OF a(1-3), of "Some demo_user"] by simp
qed



section \<open>The permissions of the current user\<close>

definition sorted_codes :: "string option set \<Rightarrow> error + string option list" where
  \<comment> \<open>\<^verbatim>\<open>sorted(...)\<close>: Python does not order \<^verbatim>\<open>None\<close> and text\<close>
  "sorted_codes codes =
     (if None \<in> codes
      then if codes = {None} then Inr [None] else Inl (TypeError ''not supported between instances'')
      else Inr (map Some (sorted_list_of_set (the ` codes))))"

definition get_permissions :: "db \<Rightarrow> user option \<Rightarrow> user \<Rightarrow> error + string option list" where
  \<comment> \<open>\<^verbatim>\<open>UserSerializer.get_permissions\<close>; the second argument is the user of the request\<close>
  "get_permissions s who obj =
     (if map_option u_id who = Some (u_id obj) then sorted_codes (permission_codes s (Some obj)) else Inr [])"

text \<open>
  An assigned role without permissions breaks the view of the own account. The outer join
  behind \<open>permission_codes\<close> yields a null for such a role, and the default role that every registered
  account gets has no permission; as soon as the account also has one real permission, sorting the
  codes raises \<^verbatim>\<open>TypeError\<close>.
\<close>

theorem empty_role_breaks_me:
  assumes "permission_table_ok (permissions s)" and "override_table_ok (overrides s)"
    and "can_authenticate_now s u" and "\<not> u_is_superuser u"
    and "a \<in> set (active_assignments s u)" and "\<And>c. \<not> role_grants s c (ur_role a)"
    and "registered s code" and "has_permission s (Some u) code"
  shows "get_permissions s (Some u) u = Inl (TypeError ''not supported between instances'')"
proof -
  have "None \<in> set (role_codes s (ur_role a))" using assms(6) by (simp add: role_codes_None)
  then have "None \<in> permission_codes s (Some u)" using assms(3-5) by (auto simp: permission_codes_def Let_def)
  moreover have "Some code \<in> permission_codes s (Some u)"
    using permission_answers_agree_iff [OF assms(1,2,7)] assms(8) by simp
  ultimately show ?thesis by (auto simp: get_permissions_def sorted_codes_def)
qed

theorem empty_role_breaks_me_witness:
  "get_permissions demo_authz (Some demo_user) demo_user = Inl (TypeError ''not supported between instances'')"
proof -
  have a: "permission_table_ok (permissions demo_authz)" "override_table_ok (overrides demo_authz)"
    "can_authenticate_now demo_authz demo_user" "\<not> u_is_superuser demo_user"
    "registered demo_authz ''users.view''" "has_permission demo_authz (Some demo_user) ''users.view''" by code_simp+
  have r: "hd (user_roles demo_authz) \<in> set (active_assignments demo_authz demo_user)" by code_simp
  have "\<not> role_grants demo_authz c (ur_role (hd (user_roles demo_authz)))" for c
    by (simp add: demo_authz_def demo_db_def empty_db_def role_grants_def)
  then show ?thesis using empty_role_breaks_me [OF a(1-4) r _ a(5,6)] by blast
qed

end
