(* ===== verification/Cache.thy ===== *)
theory Cache
  imports Models
begin

text \<open>
  The cache the services call: Redis when it is enabled, the process's own memory otherwise. An
  entry lives until the instant its timeout ends. The locale \<open>expiring_store\<close> states what a
  client may rely on; the interpretation shows that the model of the cache keeps it.
\<close>

definition cache_live :: "datetime \<Rightarrow> string \<Rightarrow> cache_entry \<Rightarrow> bool" where
  "cache_live now k c \<longleftrightarrow> ce_key c = k \<and> now < ce_expires_at c"

definition cache_get :: "datetime \<Rightarrow> string \<Rightarrow> cache_entry list \<Rightarrow> pyval option" where
  "cache_get now k m = map_option ce_value (first_where (cache_live now k) m)"

definition cache_set :: "datetime \<Rightarrow> string \<Rightarrow> pyval \<Rightarrow> int \<Rightarrow> cache_entry list \<Rightarrow> cache_entry list" where
  "cache_set now k v timeout m =
     \<lparr>ce_key = k, ce_value = v, ce_expires_at = now + seconds timeout\<rparr> #
     delete_where (\<lambda>c. ce_key c = k) m"

definition cache_ttl :: "datetime \<Rightarrow> string \<Rightarrow> cache_entry list \<Rightarrow> int" where
  \<comment> \<open>the seconds left; zero for a key that is not there\<close>
  "cache_ttl now k m =
     (case first_where (cache_live now k) m of
        None \<Rightarrow> 0 | Some c \<Rightarrow> whole_seconds (ce_expires_at c - now))"

definition cache_store_value :: "datetime \<Rightarrow> string \<Rightarrow> pyval \<Rightarrow> cache_entry list \<Rightarrow> cache_entry list" where
  \<comment> \<open>a new value under a live key, its timeout unchanged\<close>
  "cache_store_value now k v m = update_where (cache_live now k) (\<lambda>c. c\<lparr>ce_value := v\<rparr>) m"

definition cache_delete_many :: "string list \<Rightarrow> cache_entry list \<Rightarrow> cache_entry list" where
  "cache_delete_many ks m = delete_where (\<lambda>c. ce_key c \<in> set ks) m"

locale expiring_store =
  fixes lookup :: "datetime \<Rightarrow> string \<Rightarrow> 'm \<Rightarrow> pyval option"
    and store :: "datetime \<Rightarrow> string \<Rightarrow> pyval \<Rightarrow> int \<Rightarrow> 'm \<Rightarrow> 'm"
    and forget :: "string list \<Rightarrow> 'm \<Rightarrow> 'm"
  assumes lookup_store: "lookup t k (store now k v timeout m) =
                           (if t < now + seconds timeout then Some v else None)"
    and lookup_store_other: "k' \<noteq> k \<Longrightarrow> lookup t k' (store now k v timeout m) = lookup t k' m"
    and lookup_forget: "lookup t k (forget ks m) = (if k \<in> set ks then None else lookup t k m)"
begin

lemma lookup_after_store_forget:
  "k \<in> set ks \<Longrightarrow> lookup t k (forget ks (store now k v timeout m)) = None"
  by (simp add: lookup_forget)

lemma lookup_last_store:
  "lookup t k (store now k v timeout (store now' k v' timeout' m)) =
     (if t < now + seconds timeout then Some v else None)"
  by (rule lookup_store)

lemma store_survives_forget:
  "k \<notin> set ks \<Longrightarrow> t < now + seconds timeout \<Longrightarrow>
   lookup t k (forget ks (store now k v timeout m)) = Some v"
  by (simp add: lookup_forget lookup_store)

end

lemma find_delete_other:
  assumes "\<And>c. P c \<Longrightarrow> \<not> Q c"
  shows "first_where P (delete_where Q m) = first_where P m"
  using assms by (induction m) (auto simp: first_where_def delete_where_def)

lemma first_where_Cons:
  "first_where P (c # m) = (if P c then Some c else first_where P m)"
  by (simp add: first_where_def)

interpretation cached: expiring_store cache_get cache_set cache_delete_many
proof unfold_locales
  fix t k now v timeout m
  have gone: "first_where (cache_live t k) (delete_where (\<lambda>c. ce_key c = k) m) = None"
    by (simp add: cache_live_def)
  then show "cache_get t k (cache_set now k v timeout m) =
        (if t < now + seconds timeout then Some v else None)"
    by (simp add: cache_get_def cache_set_def first_where_Cons cache_live_def)
next
  fix t k k' :: string and now v timeout m
  assume other: "k' \<noteq> k"
  show "cache_get t k' (cache_set now k v timeout m) = cache_get t k' m" for t
  proof -
    have "first_where (cache_live t k') (delete_where (\<lambda>c. ce_key c = k) m) =
          first_where (cache_live t k') m"
      using other by (intro find_delete_other) (simp add: cache_live_def)
    then show ?thesis using other
      by (simp add: cache_get_def cache_set_def first_where_Cons cache_live_def)
  qed
next
  fix t k ks and m
  show "cache_get t k (cache_delete_many ks m) = (if k \<in> set ks then None else cache_get t k m)"
  proof (cases "k \<in> set ks")
    case True
    then have "first_where (cache_live t k) (delete_where (\<lambda>c. ce_key c \<in> set ks) m) = None"
      by (auto simp: cache_live_def)
    with True show ?thesis by (simp add: cache_get_def cache_delete_many_def)
  next
    case False
    then have "first_where (cache_live t k) (delete_where (\<lambda>c. ce_key c \<in> set ks) m) =
               first_where (cache_live t k) m"
      by (intro find_delete_other) (auto simp: cache_live_def)
    with False show ?thesis by (simp add: cache_get_def cache_delete_many_def)
  qed
qed

end
