(* ===== verification/Throttle.thy ===== *)
theory Throttle
  imports UserRows Cache
begin

text \<open>
  \<^verbatim>\<open>LoginProtectionService\<close> of \<^verbatim>\<open>apps/security/services.py\<close> and the clean-up task of
  \<^verbatim>\<open>apps/security/tasks.py\<close>: failed logins are counted per identifier, per address and per pair
  of both; from a number of failures on, each dimension is locked for a time that doubles up to a
  bound. The counters live in the database, or in the cache when Redis is enabled.
\<close>

section \<open>Operations\<close>

record lockout_state =
  ls_locked :: bool
  ls_retry_after :: int
  ls_account_locked :: bool

definition digest :: "env \<Rightarrow> string \<Rightarrow> string" where
  "digest e value = sha256_hex (plat e) (py_casefold (py_strip value))"

definition dimensions :: "env \<Rightarrow> string \<Rightarrow> string option \<Rightarrow> string list" where
  "dimensions e identifier ip =
     (let identifier_hash = digest e identifier;
          ip_hash = digest e (case ip of None \<Rightarrow> ''unknown''
                              | Some ip \<Rightarrow> if ip \<noteq> [] then ip else ''unknown'')
      in [''id:'' @ identifier_hash, ''ip:'' @ ip_hash,
          ''combo:'' @ identifier_hash @ '':'' @ ip_hash])"

definition state_key :: "env \<Rightarrow> string \<Rightarrow> string" where
  "state_key e dimension = sha256_hex (plat e) (''login-protection:'' @ dimension)"

definition attempts_key :: "string \<Rightarrow> string" where
  "attempts_key dimension = ''login-protection:attempts:'' @ dimension"

definition lock_key :: "string \<Rightarrow> string" where
  "lock_key dimension = ''login-protection:lock:'' @ dimension"

definition lock_seconds :: "env \<Rightarrow> int \<Rightarrow> int" where
  "lock_seconds e attempts =
     (if attempts < LOGIN_MAX_ATTEMPTS (cfg e) then 0
      else let exponent = min (attempts - LOGIN_MAX_ATTEMPTS (cfg e)) 6
           in min (LOGIN_LOCKOUT_SECONDS (cfg e) * 2 ^ nat exponent) (LOGIN_MAX_BACKOFF_SECONDS (cfg e)))"

fun check_cache_from :: "env \<Rightarrow> db \<Rightarrow> string list \<Rightarrow> int \<Rightarrow> int" where
  "check_cache_from e s [] retry_after = retry_after"
| "check_cache_from e s (d # ds) retry_after =
     (let ttl = cache_ttl (clock s) (lock_key d) (cache s);
          locked = (case cache_get (clock s) (lock_key d) (cache s) of
                      None \<Rightarrow> False | Some v \<Rightarrow> truthy v)
      in check_cache_from e s ds
           (if locked then max retry_after (if ttl \<noteq> 0 then ttl else LOGIN_LOCKOUT_SECONDS (cfg e))
            else retry_after))"

definition check_cache :: "env \<Rightarrow> db \<Rightarrow> string list \<Rightarrow> lockout_state" where
  "check_cache e s ds =
     (let retry_after = check_cache_from e s ds 0
      in \<lparr>ls_locked = retry_after \<noteq> 0, ls_retry_after = retry_after, ls_account_locked = False\<rparr>)"

definition locked_until_values :: "env \<Rightarrow> db \<Rightarrow> string list \<Rightarrow> datetime list" where
  "locked_until_values e s ds =
     (let hashes = map (state_key e) ds
      in List.map_filter lt_locked_until
           (filter (\<lambda>r. lt_dimension_hash r \<in> set hashes \<and>
                        (case lt_locked_until r of None \<Rightarrow> False | Some t \<Rightarrow> t > clock s))
              (throttle_states s)))"

definition check_database :: "env \<Rightarrow> db \<Rightarrow> string list \<Rightarrow> lockout_state" where
  "check_database e s ds =
     (let retry_after = fold (\<lambda>t m. max m (max 1 (whole_seconds (t - clock s)))) (locked_until_values e s ds) 0
      in \<lparr>ls_locked = retry_after \<noteq> 0, ls_retry_after = retry_after, ls_account_locked = False\<rparr>)"

definition check :: "env \<Rightarrow> string \<Rightarrow> string option \<Rightarrow> lockout_state action" where
  "check e identifier ip =
     (let ds = dimensions e identifier ip
      in reads (\<lambda>s. if REDIS_ENABLED (cfg e) then check_cache e s ds else check_database e s ds))"

definition cache_attempt :: "env \<Rightarrow> string \<Rightarrow> int action" where
  \<comment> \<open>\<^verbatim>\<open>cache.add\<close>, else \<^verbatim>\<open>cache.incr\<close>, else \<^verbatim>\<open>cache.set\<close> to one\<close>
  "cache_attempt e d =
     bind_op (reads (\<lambda>s. cache_get (clock s) (attempts_key d) (cache s))) (\<lambda>found.
     case found of
       Some (PInt n) \<Rightarrow>
         then_op (modify (\<lambda>s. s\<lparr>cache := cache_store_value (clock s) (attempts_key d) (PInt (n + 1)) (cache s)\<rparr>))
                 (ret (n + 1))
     | _ \<Rightarrow>
         then_op (modify (\<lambda>s. s\<lparr>cache := cache_set (clock s) (attempts_key d) (PInt 1)
                                   (LOGIN_MAX_BACKOFF_SECONDS (cfg e)) (cache s)\<rparr>))
                 (ret 1))"

fun register_cache_failure :: "env \<Rightarrow> string list \<Rightarrow> int \<Rightarrow> int \<Rightarrow> lockout_state action" where
  "register_cache_failure e [] longest account_longest =
     ret \<lparr>ls_locked = longest \<noteq> 0, ls_retry_after = longest, ls_account_locked = account_longest \<noteq> 0\<rparr>"
| "register_cache_failure e (d # ds) longest account_longest =
     bind_op (cache_attempt e d) (\<lambda>attempts.
     let ls = lock_seconds e attempts in
     then_op (when_op (ls \<noteq> 0)
        (modify (\<lambda>s. s\<lparr>cache := cache_set (clock s) (lock_key d) (PBool True) ls (cache s)\<rparr>)))
     (register_cache_failure e ds
        (if ls \<noteq> 0 then max longest ls else longest)
        (if ls \<noteq> 0 \<and> startswith ''id:'' d then max account_longest ls else account_longest)))"

definition throttle_new :: "env \<Rightarrow> datetime \<Rightarrow> string \<Rightarrow> login_throttle_state" where
  "throttle_new e now k =
     \<lparr>lt_dimension_hash = k, lt_attempt_count = 0, lt_locked_until = None,
      lt_expires_at = now + seconds (LOGIN_MAX_BACKOFF_SECONDS (cfg e)), lt_updated_at = now\<rparr>"

definition throttle_get_or_create :: "env \<Rightarrow> string \<Rightarrow> login_throttle_state action" where
  "throttle_get_or_create e k =
     bind_op (reads (\<lambda>s. get_where ''LoginThrottleState'' (\<lambda>r. lt_dimension_hash r = k) (throttle_states s)))
     (\<lambda>found. case found of
        Inr r \<Rightarrow> ret r
      | Inl err \<Rightarrow>
          if err = DoesNotExist ''LoginThrottleState''
          then bind_op now_op (\<lambda>now.
               then_op (modify (\<lambda>s. s\<lparr>throttle_states := throttle_new e now k # throttle_states s\<rparr>))
                       (ret (throttle_new e now k)))
          else throw err)"

definition throttle_bump :: "env \<Rightarrow> datetime \<Rightarrow> login_throttle_state \<Rightarrow> login_throttle_state" where
  "throttle_bump e now st =
     (let st0 = (if lt_expires_at st \<le> now then st\<lparr>lt_attempt_count := 0, lt_locked_until := None\<rparr> else st);
          st1 = st0\<lparr>lt_attempt_count := lt_attempt_count st0 + 1\<rparr>;
          ls = lock_seconds e (int (lt_attempt_count st1))
      in st1\<lparr>lt_locked_until := (if ls \<noteq> 0 then Some (now + seconds ls) else None),
             lt_expires_at := now + seconds (LOGIN_MAX_BACKOFF_SECONDS (cfg e)),
             lt_updated_at := now\<rparr>)"

definition throttle_hit :: "env \<Rightarrow> string \<Rightarrow> int action" where
  \<comment> \<open>one iteration's transaction; the result is \<^verbatim>\<open>lock_seconds\<close>\<close>
  "throttle_hit e d = atomic
     (bind_op now_op (\<lambda>now.
      bind_op (throttle_get_or_create e (state_key e d)) (\<lambda>st.
      let st' = throttle_bump e now st in
      then_op (modify (\<lambda>s. s\<lparr>throttle_states :=
         update_where (\<lambda>r. lt_dimension_hash r = lt_dimension_hash st) (\<lambda>_. st') (throttle_states s)\<rparr>))
      (ret (lock_seconds e (int (lt_attempt_count st')))))))"

fun register_database_failure :: "env \<Rightarrow> string list \<Rightarrow> int \<Rightarrow> int \<Rightarrow> lockout_state action" where
  "register_database_failure e [] longest account_longest =
     ret \<lparr>ls_locked = longest \<noteq> 0, ls_retry_after = longest, ls_account_locked = account_longest \<noteq> 0\<rparr>"
| "register_database_failure e (d # ds) longest account_longest =
     bind_op (throttle_hit e d) (\<lambda>ls.
     register_database_failure e ds
        (if ls \<noteq> 0 then max longest ls else longest)
        (if ls \<noteq> 0 \<and> startswith ''id:'' d then max account_longest ls else account_longest))"

definition register_failure :: "env \<Rightarrow> string \<Rightarrow> string option \<Rightarrow> lockout_state action" where
  "register_failure e identifier ip =
     (let ds = dimensions e identifier ip
      in if REDIS_ENABLED (cfg e) then register_cache_failure e ds 0 0
         else register_database_failure e ds 0 0)"

definition reset :: "env \<Rightarrow> string \<Rightarrow> string option \<Rightarrow> unit action" where
  "reset e identifier ip =
     (let ds = dimensions e identifier ip
      in if \<not> REDIS_ENABLED (cfg e)
         then modify (\<lambda>s. s\<lparr>throttle_states :=
                delete_where (\<lambda>r. lt_dimension_hash r \<in> set (map (state_key e) ds)) (throttle_states s)\<rparr>)
         else modify (\<lambda>s. s\<lparr>cache :=
                cache_delete_many (concat (map (\<lambda>d. [attempts_key d, lock_key d]) ds)) (cache s)\<rparr>))"

definition identifies :: "string \<Rightarrow> user \<Rightarrow> bool" where
  \<comment> \<open>\<^verbatim>\<open>Q(email__iexact=identifier.strip()) | Q(username__iexact=identifier.strip())\<close>\<close>
  "identifies identifier u \<longleftrightarrow>
     iexact (u_email u) (py_strip identifier) \<or> iexact (u_username u) (py_strip identifier)"

definition lock_known_account :: "env \<Rightarrow> string \<Rightarrow> int \<Rightarrow> request option \<Rightarrow> unit action" where
  "lock_known_account e identifier retry_after rq =
     bind_op (reads (\<lambda>s. first_where (identifies identifier) (users s))) (\<lambda>found.
     case found of
       None \<Rightarrow> ret ()
     | Some user \<Rightarrow>
         bind_op (security_settings_of (u_id user)) (\<lambda>row.
         bind_op now_op (\<lambda>now.
         then_op (settings_row_update row (\<lambda>r. r\<lparr>ss_locked_until := Some (now + seconds retry_after)\<rparr>))
         (if is_locked now row then ret ()
          else
          then_op (security_record e ACCOUNT_LOCKED (Some (u_id user)) rq [])
          (bind_op (preferences_of (u_id user)) (\<lambda>prefs.
           when_op (pr_security_emails prefs)
             (enqueue_email e ''account_locked'' (u_email user) ''Your account was temporarily locked''
                [(''user'', UserObject user), (''retry_after'', Plain (PInt retry_after))])))))))"

definition cleanup_login_attempts :: "nat action" where
  "cleanup_login_attempts =
     bind_op now_op (\<lambda>now.
     bind_op (reads (\<lambda>s. count_where (\<lambda>r. lt_expires_at r < now) (throttle_states s))) (\<lambda>deleted.
     then_op (modify (\<lambda>s. s\<lparr>throttle_states := delete_where (\<lambda>r. lt_expires_at r < now) (throttle_states s)\<rparr>))
     (ret deleted)))"

section \<open>Lock time\<close>

lemma lock_seconds_mono:
  assumes "0 \<le> LOGIN_LOCKOUT_SECONDS (cfg e)" and "0 \<le> LOGIN_MAX_BACKOFF_SECONDS (cfg e)" and "a \<le> b"
  shows "lock_seconds e a \<le> lock_seconds e b"
proof -
  have "(2::int) ^ nat (min (a - m) 6) \<le> 2 ^ nat (min (b - m) 6)" for m
    using assms(3) by (intro power_increasing) auto
  then have "LOGIN_LOCKOUT_SECONDS (cfg e) * 2 ^ nat (min (a - m) 6) \<le>
             LOGIN_LOCKOUT_SECONDS (cfg e) * 2 ^ nat (min (b - m) 6)" for m
    using assms(1) by (intro mult_left_mono) auto
  then show ?thesis using assms unfolding lock_seconds_def Let_def min_le_iff_disj
    by (simp add: min_le_iff_disj)
qed

lemma lock_seconds_nonneg:
  assumes "0 \<le> LOGIN_LOCKOUT_SECONDS (cfg e)" and "0 \<le> LOGIN_MAX_BACKOFF_SECONDS (cfg e)"
  shows "0 \<le> lock_seconds e a"
  using assms by (simp add: lock_seconds_def Let_def)

lemma lock_seconds_zero_iff:
  assumes "0 < LOGIN_LOCKOUT_SECONDS (cfg e)" and "0 < LOGIN_MAX_BACKOFF_SECONDS (cfg e)"
  shows "lock_seconds e a = 0 \<longleftrightarrow> a < LOGIN_MAX_ATTEMPTS (cfg e)"
proof -
  have "0 < LOGIN_LOCKOUT_SECONDS (cfg e) * 2 ^ n" for n using assms(1) by simp
  then show ?thesis using assms(2) by (auto simp: lock_seconds_def Let_def min_def)
qed

section \<open>Counters in the database\<close>

definition throttle_table_ok :: "login_throttle_state list \<Rightarrow> bool" where
  "throttle_table_ok t \<longleftrightarrow> distinct (map lt_dimension_hash t)"

interpretation throttle_by_hash: keyed_table lt_dimension_hash throttle_table_ok
  by unfold_locales (simp add: throttle_table_ok_def)

definition throttle_row :: "string \<Rightarrow> login_throttle_state list \<Rightarrow> login_throttle_state option" where
  "throttle_row k t = first_where (\<lambda>r. lt_dimension_hash r = k) t"

definition throttle_next :: "env \<Rightarrow> datetime \<Rightarrow> string \<Rightarrow> login_throttle_state option \<Rightarrow> login_throttle_state" where
  "throttle_next e now k old =
     throttle_bump e now (case old of None \<Rightarrow> throttle_new e now k | Some r \<Rightarrow> r)"

lemma throttle_bump_hash [simp]: "lt_dimension_hash (throttle_bump e now st) = lt_dimension_hash st"
  by (simp add: throttle_bump_def Let_def)

lemma throttle_row_member:
  "throttle_table_ok t \<Longrightarrow> throttle_row k t = Some r \<longleftrightarrow> r \<in> set t \<and> lt_dimension_hash r = k"
  using throttle_by_hash.first_by_key [of t r] first_where_SomeD [of _ t r]
  by (auto simp: throttle_row_def)

lemma throttle_row_None: "throttle_row k t = None \<longleftrightarrow> (\<forall>r\<in>set t. lt_dimension_hash r \<noteq> k)"
  by (simp add: throttle_row_def)

lemma throttle_row_update:
  assumes "lt_dimension_hash st = k"
  shows "throttle_row q (update_where (\<lambda>r. lt_dimension_hash r = k) (\<lambda>_. st) t) =
           (if q = k \<and> throttle_row k t \<noteq> None then Some st else throttle_row q t)"
  using assms by (induction t) (auto simp: throttle_row_def update_where_def first_where_def)

lemma throttle_table_ok_update:
  assumes "lt_dimension_hash st = k" and "throttle_table_ok t"
  shows "throttle_table_ok (update_where (\<lambda>r. lt_dimension_hash r = k) (\<lambda>_. st) t)"
proof -
  have "map lt_dimension_hash (update_where (\<lambda>r. lt_dimension_hash r = k) (\<lambda>_. st) t) = map lt_dimension_hash t"
    using assms(1) by (intro update_where_map) simp
  with assms(2) show ?thesis by (simp add: throttle_table_ok_def)
qed

text \<open>One hit replaces the row of its dimension and touches no other.\<close>

lemma throttle_hit_run:
  assumes ok: "throttle_table_ok (throttle_states s)"
  obtains t where "throttle_hit e d s =
      (Inr (lock_seconds e (int (lt_attempt_count
         (throttle_next e (clock s) (state_key e d) (throttle_row (state_key e d) (throttle_states s)))))),
       s\<lparr>throttle_states := t\<rparr>)"
    and "throttle_table_ok t"
    and "\<And>q. throttle_row q t =
      (if q = state_key e d
       then Some (throttle_next e (clock s) (state_key e d) (throttle_row (state_key e d) (throttle_states s)))
       else throttle_row q (throttle_states s))"
  using ok
proof (cases rule: throttle_by_hash.get_by_key_cases
         [where k = "state_key e d" and name = "''LoginThrottleState''"])
  case absent
  let ?n = "throttle_new e (clock s) (state_key e d)"
  let ?t = "update_where (\<lambda>r. lt_dimension_hash r = state_key e d) (\<lambda>_. throttle_bump e (clock s) ?n)
              (?n # throttle_states s)"
  have hash: "lt_dimension_hash ?n = state_key e d" by (simp add: throttle_new_def)
  have row: "throttle_row (state_key e d) (throttle_states s) = None"
    using absent(1) by (simp add: throttle_row_None)
  have ok': "throttle_table_ok (?n # throttle_states s)"
    using ok absent(1) hash by (auto simp: throttle_table_ok_def)
  have "throttle_hit e d s =
      (Inr (lock_seconds e (int (lt_attempt_count (throttle_bump e (clock s) ?n)))), s\<lparr>throttle_states := ?t\<rparr>)"
    using absent(2)
    by (simp add: throttle_hit_def throttle_get_or_create_def op_simps Let_def hash
        del: get_where_DoesNotExist)
  moreover have "throttle_table_ok ?t" using ok' hash by (intro throttle_table_ok_update) simp_all
  moreover have "throttle_row q ?t = (if q = state_key e d then Some (throttle_bump e (clock s) ?n)
       else throttle_row q (throttle_states s))" for q
    using hash by (subst throttle_row_update) (auto simp: throttle_row_def first_where_def)
  ultimately show thesis using that row by (simp add: throttle_next_def)
next
  case (present r)
  let ?t = "update_where (\<lambda>q. lt_dimension_hash q = state_key e d) (\<lambda>_. throttle_bump e (clock s) r)
              (throttle_states s)"
  have row: "throttle_row (state_key e d) (throttle_states s) = Some r"
    using present(1,2) ok by (simp add: throttle_row_member)
  have "throttle_hit e d s =
      (Inr (lock_seconds e (int (lt_attempt_count (throttle_bump e (clock s) r)))), s\<lparr>throttle_states := ?t\<rparr>)"
    using present by (simp add: throttle_hit_def throttle_get_or_create_def op_simps Let_def)
  moreover have "throttle_table_ok ?t" using ok present by (intro throttle_table_ok_update) simp_all
  moreover have "throttle_row q ?t = (if q = state_key e d then Some (throttle_bump e (clock s) r)
       else throttle_row q (throttle_states s))" for q
    using present row by (subst throttle_row_update) auto
  ultimately show thesis using that row by (simp add: throttle_next_def)
qed

text \<open>A registered failure hits each dimension once.\<close>

lemma register_database_failure_run:
  assumes "throttle_table_ok (throttle_states s)" and "distinct (map (state_key e) ds)"
  obtains t ls where "register_database_failure e ds a b s = (Inr ls, s\<lparr>throttle_states := t\<rparr>)"
    and "throttle_table_ok t"
    and "\<And>q. throttle_row q t =
      (if q \<in> set (map (state_key e) ds)
       then Some (throttle_next e (clock s) q (throttle_row q (throttle_states s)))
       else throttle_row q (throttle_states s))"
  using assms
proof (induction ds arbitrary: a b s thesis)
  case Nil
  from Nil(1) [of _ "throttle_states s"] Nil(2) show ?case by (simp add: op_simps)
next
  case (Cons d ds)
  obtain t where hit: "throttle_hit e d s =
      (Inr (lock_seconds e (int (lt_attempt_count
         (throttle_next e (clock s) (state_key e d) (throttle_row (state_key e d) (throttle_states s)))))),
       s\<lparr>throttle_states := t\<rparr>)" and t: "throttle_table_ok t"
    and rows: "\<And>q. throttle_row q t =
      (if q = state_key e d
       then Some (throttle_next e (clock s) (state_key e d) (throttle_row (state_key e d) (throttle_states s)))
       else throttle_row q (throttle_states s))"
    using throttle_hit_run [OF Cons.prems(2)] by blast
  have d: "distinct (map (state_key e) ds)" and nd: "state_key e d \<notin> set (map (state_key e) ds)"
    using Cons.prems(3) by simp_all
  let ?ls = "lock_seconds e (int (lt_attempt_count
         (throttle_next e (clock s) (state_key e d) (throttle_row (state_key e d) (throttle_states s)))))"
  obtain t' ls where rest: "register_database_failure e ds (if ?ls \<noteq> 0 then max a ?ls else a)
        (if ?ls \<noteq> 0 \<and> startswith ''id:'' d then max b ?ls else b) (s\<lparr>throttle_states := t\<rparr>) =
        (Inr ls, s\<lparr>throttle_states := t\<rparr>\<lparr>throttle_states := t'\<rparr>)"
    and t': "throttle_table_ok t'"
    and rows': "\<And>q. throttle_row q t' =
      (if q \<in> set (map (state_key e) ds)
       then Some (throttle_next e (clock s) q (throttle_row q t)) else throttle_row q t)"
    by (rule Cons.IH [where s = "s\<lparr>throttle_states := t\<rparr>" and a = "if ?ls \<noteq> 0 then max a ?ls else a"
          and b = "if ?ls \<noteq> 0 \<and> startswith ''id:'' d then max b ?ls else b"])
       (use t d in auto)
  show ?case
  proof (rule Cons.prems(1))
    show "register_database_failure e (d # ds) a b s = (Inr ls, s\<lparr>throttle_states := t'\<rparr>)"
      using rest by (simp add: op_simps hit)
    show "throttle_table_ok t'" by (rule t')
    show "throttle_row q t' =
      (if q \<in> set (map (state_key e) (d # ds))
       then Some (throttle_next e (clock s) q (throttle_row q (throttle_states s)))
       else throttle_row q (throttle_states s))" for q
      using rows' [of q] rows [of q] nd by auto
  qed
qed

section \<open>Checking\<close>

lemma fold_max_ge: "(m::int) \<le> fold (\<lambda>t m. max m (f t)) ts m"
proof (induction ts arbitrary: m)
  case (Cons t ts)
  then have "max m (f t) \<le> fold (\<lambda>t m. max m (f t)) ts (max m (f t))" .
  then show ?case by simp
qed simp

lemma fold_max_member: "t \<in> set ts \<Longrightarrow> f t \<le> fold (\<lambda>t m. max m (f t)) ts (m::int)"
proof (induction ts arbitrary: m)
  case (Cons a ts)
  then show ?case using fold_max_ge [of "max m (f a)" f ts] by auto
qed simp

lemma locked_until_values_iff:
  "u \<in> set (locked_until_values e s ds) \<longleftrightarrow>
     u > clock s \<and> (\<exists>r\<in>set (throttle_states s). lt_dimension_hash r \<in> state_key e ` set ds \<and>
        lt_locked_until r = Some u)"
  by (force simp: locked_until_values_def Let_def List.map_filter_def split: option.splits)

lemma check_database_locked_iff:
  "ls_locked (check_database e s ds) \<longleftrightarrow>
     (\<exists>r\<in>set (throttle_states s). lt_dimension_hash r \<in> state_key e ` set ds \<and>
        (\<exists>u. lt_locked_until r = Some u \<and> u > clock s))"
proof -
  let ?f = "\<lambda>t. max 1 (whole_seconds (t - clock s))"
  let ?vs = "locked_until_values e s ds"
  have "fold (\<lambda>t m. max m (?f t)) ?vs 0 \<noteq> 0 \<longleftrightarrow> ?vs \<noteq> []"
  proof (cases ?vs)
    case (Cons t ts)
    then have "?f t \<le> fold (\<lambda>t m. max m (?f t)) ?vs 0" by (intro fold_max_member) simp
    with Cons show ?thesis by auto
  qed simp
  moreover have "?vs \<noteq> [] \<longleftrightarrow> (\<exists>u. u \<in> set ?vs)" by (cases ?vs) auto
  ultimately show ?thesis unfolding locked_until_values_iff by (auto simp: check_database_def Let_def)
qed

lemma check_database_retry: "ls_locked (check_database e s ds) \<Longrightarrow> 1 \<le> ls_retry_after (check_database e s ds)"
proof -
  let ?f = "\<lambda>t. max 1 (whole_seconds (t - clock s))"
  let ?vs = "locked_until_values e s ds"
  assume "ls_locked (check_database e s ds)"
  then obtain t ts where "?vs = t # ts" by (cases ?vs) (auto simp: check_database_def Let_def)
  then have "?f t \<le> fold (\<lambda>t m. max m (?f t)) ?vs 0" by (intro fold_max_member) simp
  then show ?thesis by (simp add: check_database_def Let_def)
qed

lemma check_cache_from_unlocked:
  "(\<And>d. d \<in> set ds \<Longrightarrow> cache_get (clock s) (lock_key d) (cache s) = None) \<Longrightarrow>
   check_cache_from e s ds m = m"
  by (induction ds) (simp_all add: Let_def)

lemma check_database_run:
  "\<not> REDIS_ENABLED (cfg e) \<Longrightarrow>
   check e ident ip s = (Inr (check_database e s (dimensions e ident ip)), s)"
  by (simp add: check_def op_simps Let_def)

section \<open>Repeated failures\<close>

definition id_key :: "env \<Rightarrow> string \<Rightarrow> string" where
  "id_key e identifier = state_key e (''id:'' @ digest e identifier)"

lemma id_key_dimension: "id_key e ident \<in> state_key e ` set (dimensions e ident ip)"
  by (simp add: id_key_def dimensions_def Let_def)

text \<open>Failed logins for one identifier at the given instants, each from its own address.\<close>

fun failures :: "env \<Rightarrow> string \<Rightarrow> (datetime \<times> string option) list \<Rightarrow> db \<Rightarrow> db" where
  "failures e ident [] s = s"
| "failures e ident ((t, ip) # fs) s = failures e ident fs (snd (register_failure e ident ip (s\<lparr>clock := t\<rparr>)))"

fun within :: "int \<Rightarrow> datetime \<Rightarrow> (datetime \<times> 'a) list \<Rightarrow> bool" where
  "within w t [] = True"
| "within w t ((t', a) # fs) = (t \<le> t' \<and> t' < t + w \<and> within w t' fs)"

fun last_instant :: "datetime \<Rightarrow> (datetime \<times> 'a) list \<Rightarrow> datetime" where
  "last_instant t [] = t"
| "last_instant t ((t', a) # fs) = last_instant t' fs"

definition lock_instant :: "env \<Rightarrow> datetime \<Rightarrow> nat \<Rightarrow> datetime option" where
  "lock_instant e t n =
     (if lock_seconds e (int n) \<noteq> 0 then Some (t + seconds (lock_seconds e (int n))) else None)"

definition counted :: "env \<Rightarrow> string \<Rightarrow> nat \<Rightarrow> datetime \<Rightarrow> db \<Rightarrow> bool" where
  "counted e k n t s \<longleftrightarrow> throttle_table_ok (throttle_states s) \<and>
     (\<exists>r. throttle_row k (throttle_states s) = Some r \<and> lt_attempt_count r = n \<and>
          lt_expires_at r = t + seconds (LOGIN_MAX_BACKOFF_SECONDS (cfg e)) \<and>
          lt_locked_until r = lock_instant e t n)"

lemma register_failure_row:
  assumes "\<not> REDIS_ENABLED (cfg e)" and "throttle_table_ok (throttle_states s)"
    and "distinct (map (state_key e) (dimensions e ident ip))"
  shows "throttle_table_ok (throttle_states (snd (register_failure e ident ip s))) \<and>
         throttle_row (id_key e ident) (throttle_states (snd (register_failure e ident ip s))) =
           Some (throttle_next e (clock s) (id_key e ident) (throttle_row (id_key e ident) (throttle_states s)))"
proof -
  obtain t ls where "register_database_failure e (dimensions e ident ip) 0 0 s = (Inr ls, s\<lparr>throttle_states := t\<rparr>)"
    and "throttle_table_ok t"
    and "\<And>q. throttle_row q t =
      (if q \<in> set (map (state_key e) (dimensions e ident ip))
       then Some (throttle_next e (clock s) q (throttle_row q (throttle_states s)))
       else throttle_row q (throttle_states s))"
    using register_database_failure_run [OF assms(2,3)] by blast
  then show ?thesis using id_key_dimension [of e ident ip] assms(1)
    by (simp add: register_failure_def Let_def)
qed

lemma throttle_next_fields:
  "lt_expires_at (throttle_next e now k old) = now + seconds (LOGIN_MAX_BACKOFF_SECONDS (cfg e))"
  "lt_locked_until (throttle_next e now k old) = lock_instant e now (lt_attempt_count (throttle_next e now k old))"
  "old = Some r \<Longrightarrow> lt_expires_at r > now \<Longrightarrow> lt_attempt_count (throttle_next e now k old) = Suc (lt_attempt_count r)"
  "old = Some r \<Longrightarrow> lt_expires_at r \<le> now \<Longrightarrow> lt_attempt_count (throttle_next e now k old) = 1"
  "old = None \<Longrightarrow> lt_attempt_count (throttle_next e now k old) = 1"
  by (simp_all add: throttle_next_def throttle_bump_def throttle_new_def lock_instant_def Let_def)

lemma counted_step:
  assumes "\<not> REDIS_ENABLED (cfg e)" and "distinct (map (state_key e) (dimensions e ident ip))"
    and "counted e (id_key e ident) n t s" and "t' < t + seconds (LOGIN_MAX_BACKOFF_SECONDS (cfg e))"
  shows "counted e (id_key e ident) (Suc n) t' (snd (register_failure e ident ip (s\<lparr>clock := t'\<rparr>)))"
  using assms(3,4) register_failure_row [OF assms(1) _ assms(2), of "s\<lparr>clock := t'\<rparr>"]
  by (auto simp: counted_def throttle_next_fields)

lemma counted_first:
  assumes "\<not> REDIS_ENABLED (cfg e)" and "distinct (map (state_key e) (dimensions e ident ip))"
    and "throttle_table_ok (throttle_states s)"
    and "\<And>r. throttle_row (id_key e ident) (throttle_states s) = Some r \<Longrightarrow> lt_expires_at r \<le> t"
  shows "counted e (id_key e ident) 1 t (snd (register_failure e ident ip (s\<lparr>clock := t\<rparr>)))"
proof (cases "throttle_row (id_key e ident) (throttle_states s)")
  case None
  then show ?thesis using register_failure_row [OF assms(1) _ assms(2), of "s\<lparr>clock := t\<rparr>"] assms(3)
    by (simp add: counted_def throttle_next_fields)
next
  case (Some r)
  then show ?thesis using register_failure_row [OF assms(1) _ assms(2), of "s\<lparr>clock := t\<rparr>"] assms(3,4)
    by (simp add: counted_def throttle_next_fields)
qed

lemma counted_failures:
  assumes "\<not> REDIS_ENABLED (cfg e)"
    and "\<And>t ip. (t, ip) \<in> set fs \<Longrightarrow> distinct (map (state_key e) (dimensions e ident ip))"
    and "counted e (id_key e ident) n t s" and "within (seconds (LOGIN_MAX_BACKOFF_SECONDS (cfg e))) t fs"
  shows "counted e (id_key e ident) (n + length fs) (last_instant t fs) (failures e ident fs s)"
  using assms(2-)
proof (induction fs arbitrary: n t s)
  case (Cons f fs)
  obtain t' ip where f: "f = (t', ip)" by (cases f)
  have "counted e (id_key e ident) (Suc n) t' (snd (register_failure e ident ip (s\<lparr>clock := t'\<rparr>)))"
    using Cons.prems f by (intro counted_step [OF assms(1)]) auto
  moreover have "distinct (map (state_key e) (dimensions e ident ip))" if "(t, ip) \<in> set fs" for t ip
    using Cons.prems(1) that by (meson list.set_intros(2))
  ultimately show ?case using Cons.IH [of "Suc n" t'] Cons.prems(3) f by simp
qed simp

lemma counted_locked:
  assumes "\<not> REDIS_ENABLED (cfg e)" and "counted e (id_key e ident) n t s"
    and "now < t + seconds (lock_seconds e (int n))" and "t \<le> now"
  shows "ls_locked (check_database e (s\<lparr>clock := now\<rparr>) (dimensions e ident ip))"
proof -
  obtain r where r: "throttle_row (id_key e ident) (throttle_states s) = Some r"
    "lt_locked_until r = lock_instant e t n" "throttle_table_ok (throttle_states s)"
    using assms(2) by (auto simp: counted_def)
  then have "r \<in> set (throttle_states s)" "lt_dimension_hash r = id_key e ident"
    by (simp_all add: throttle_row_member)
  moreover have "lt_locked_until r = Some (t + seconds (lock_seconds e (int n)))"
    using r(2) assms(3,4) by (auto simp: lock_instant_def)
  ultimately show ?thesis unfolding check_database_locked_iff
    using assms(3) id_key_dimension [of e ident ip] by (intro bexI [of _ r]) auto
qed

section \<open>Locking a known account\<close>

lemma lock_known_account_total:
  assumes "settings_table_ok (security_settings s)" and "preferences_table_ok (preferences s)"
  shows "\<exists>s'. lock_known_account e ident n rq s = (Inr (), s')"
proof (cases "first_where (identifies ident) (users s)")
  case None
  then show ?thesis unfolding lock_known_account_def
    by (simp only: bind_op_run op_runs prod.case sum.case option.case) simp
next
  case (Some u)
  obtain row s1 where r: "security_settings_of (u_id u) s = (Inr row, s1)" "preferences s1 = preferences s"
    by (rule security_settings_of_run [OF assms(1), of "u_id u"]) auto
  let ?s2 = "snd (security_record e ACCOUNT_LOCKED (Some (u_id u)) rq []
     (snd (settings_row_update row (\<lambda>r. r\<lparr>ss_locked_until := Some (clock s1 + seconds n)\<rparr>) s1)))"
  have ok: "preferences_table_ok (preferences ?s2)"
    using assms(2) r(2) by (simp add: op_simps settings_row_update_def)
  obtain p s3 where "preferences_of (u_id u) ?s2 = (Inr p, s3)"
    by (rule preferences_of_run [OF ok, of "u_id u"]) auto
  then show ?thesis using r(1) Some
    by (auto simp: lock_known_account_def op_simps settings_row_update_def)
qed

section \<open>Properties\<close>



text \<open>
  Brute force is stopped whatever addresses it comes from. Let \<open>n\<close> failed logins for
  one identifier be registered in the database, each less than the backoff time after the one
  before, starting from no live counter. Then the identifier's counter is \<open>n\<close>, and when \<open>n\<close>
  reaches the allowed number, \<open>check\<close> reports the identifier locked from every address, with a
  positive retry time, at every instant of the lock time after the last failure. The hypothesis on
  \<open>state_key\<close> is that the hash tells the three dimensions of an attempt apart.
\<close>

theorem repeated_failures_lock:
  assumes "\<not> REDIS_ENABLED (cfg e)"
    and "throttle_table_ok (throttle_states s)"
    and "\<forall>r\<in>set (throttle_states s). lt_dimension_hash r = id_key e ident \<longrightarrow> lt_expires_at r \<le> t"
    and "\<forall>(t', ip')\<in>set ((t, ip) # fs). distinct (map (state_key e) (dimensions e ident ip'))"
    and "within (seconds (LOGIN_MAX_BACKOFF_SECONDS (cfg e))) t fs"
    and "n = Suc (length fs)" and "s' = failures e ident ((t, ip) # fs) s"
  shows "(\<exists>r\<in>set (throttle_states s'). lt_dimension_hash r = id_key e ident \<and> lt_attempt_count r = n) \<and>
         (\<forall>now any_ip. last_instant t fs \<le> now \<and>
            now < last_instant t fs + seconds (lock_seconds e (int n)) \<longrightarrow>
            (\<exists>ls. check e ident any_ip (s'\<lparr>clock := now\<rparr>) = (Inr ls, s'\<lparr>clock := now\<rparr>) \<and>
                  ls_locked ls \<and> 1 \<le> ls_retry_after ls))"
proof -
  have first: "counted e (id_key e ident) 1 t (snd (register_failure e ident ip (s\<lparr>clock := t\<rparr>)))"
    using assms(2-4) by (intro counted_first [OF assms(1)]) (auto simp: throttle_row_member)
  have c: "counted e (id_key e ident) n (last_instant t fs) s'"
    using counted_failures [OF assms(1) _ first assms(5)] assms(4,6,7) by fastforce
  then have "\<exists>r\<in>set (throttle_states s'). lt_dimension_hash r = id_key e ident \<and> lt_attempt_count r = n"
    by (auto simp: counted_def throttle_row_member)
  then show ?thesis
    using counted_locked [OF assms(1) c] check_database_retry check_database_run [OF assms(1)] by blast
qed

theorem repeated_failures_lock_witness:
  "\<exists>ls. check demo_env ''bob'' (Some ''10.0.0.9'')
       (failures demo_env ''bob'' (map (\<lambda>i. (seconds i, Some ''1.2.3.4'')) [0, 1, 2, 3, 4]) empty_db\<lparr>clock := seconds 5\<rparr>) =
     (Inr ls, failures demo_env ''bob'' (map (\<lambda>i. (seconds i, Some ''1.2.3.4'')) [0, 1, 2, 3, 4]) empty_db\<lparr>clock := seconds 5\<rparr>) \<and>
     ls_locked ls \<and> 1 \<le> ls_retry_after ls"
proof -
  let ?fs = "map (\<lambda>i. (seconds i, Some ''1.2.3.4'')) [1, 2, 3, 4]"
  have a: "\<not> REDIS_ENABLED (cfg demo_env)" "throttle_table_ok (throttle_states empty_db)"
    "\<forall>r\<in>set (throttle_states empty_db). lt_dimension_hash r = id_key demo_env ''bob'' \<longrightarrow> lt_expires_at r \<le> seconds 0"
    by (simp_all add: demo_env_def default_settings_def empty_db_def throttle_table_ok_def)
  have d: "\<forall>(t', ip')\<in>set ((seconds 0, Some ''1.2.3.4'') # ?fs).
      distinct (map (state_key demo_env) (dimensions demo_env ''bob'' ip'))" by code_simp
  have w: "within (seconds (LOGIN_MAX_BACKOFF_SECONDS (cfg demo_env))) (seconds 0) ?fs" by code_simp
  have l: "last_instant (seconds 0) ?fs \<le> seconds 5"
    "seconds 5 < last_instant (seconds 0) ?fs + seconds (lock_seconds demo_env (int (Suc (length ?fs))))"
    by code_simp+
  show ?thesis
    using repeated_failures_lock [OF a d w refl refl] l by simp
qed

text \<open>
  A reset unlocks. After \<open>reset\<close> for an identifier and an address, \<open>check\<close> for the same
  two reports no lock, with the counters in the database and with the counters in the cache.
\<close>

theorem reset_unlocks:
  assumes "reset e ident ip s = (r, s')"
  shows "r = Inr () \<and> (\<exists>ls. check e ident ip s' = (Inr ls, s') \<and> \<not> ls_locked ls \<and> ls_retry_after ls = 0)"
proof (cases "REDIS_ENABLED (cfg e)")
  case True
  let ?ds = "dimensions e ident ip"
  have s': "s' = s\<lparr>cache := cache_delete_many (concat (map (\<lambda>d. [attempts_key d, lock_key d]) ?ds)) (cache s)\<rparr>"
    and r: "r = Inr ()" using assms True by (simp_all add: reset_def op_simps Let_def)
  have "cache_get (clock s') (lock_key d) (cache s') = None" if "d \<in> set ?ds" for d
    using that unfolding s' by (simp add: cached.lookup_forget) blast
  then have "check_cache_from e s' ?ds 0 = 0" by (simp add: check_cache_from_unlocked)
  with True r show ?thesis by (simp add: check_def op_simps Let_def check_cache_def)
next
  case False
  let ?ds = "dimensions e ident ip"
  have s': "s' = s\<lparr>throttle_states := delete_where (\<lambda>r. lt_dimension_hash r \<in> set (map (state_key e) ?ds))
                     (throttle_states s)\<rparr>" and r: "r = Inr ()"
    using assms False by (auto simp: reset_def op_simps Let_def)
  have "\<not> ls_locked (check_database e s' ?ds)" unfolding check_database_locked_iff s' by auto
  then show ?thesis using check_database_run [OF False] r
    by (auto simp: check_database_def Let_def)
qed

theorem reset_unlocks_witness:
  "\<exists>ls. check demo_env ''bob'' None (snd (reset demo_env ''bob'' None
          (failures demo_env ''bob'' [(0, None), (0, None), (0, None), (0, None), (0, None)] empty_db))) =
       (Inr ls, snd (reset demo_env ''bob'' None
          (failures demo_env ''bob'' [(0, None), (0, None), (0, None), (0, None), (0, None)] empty_db))) \<and>
     \<not> ls_locked ls \<and> ls_retry_after ls = 0"
  using reset_unlocks [OF surjective_pairing] by blast

end
