(* ===== verification/TwoFactor.thy ===== *)
theory TwoFactor
  imports UserRows Stamps
begin

text \<open>
  \<^verbatim>\<open>TwoFactorService\<close> of \<^verbatim>\<open>apps/authentication/services.py\<close>. A user has at most one credential
  (a one-to-one column): it is pending until confirmed by a first code, enabled from then on, and
  disabled in place. Ten recovery codes, kept hashed, belong to a credential; each is accepted once.
  The values the service draws at random are arguments: the secret, the initialisation vector, and
  \<open>draw\<close>, which gives the hexadecimal text of each recovery code.
\<close>

section \<open>Operations\<close>

definition authentication_failed :: error where
  "authentication_failed = api_error ''Authentication failed.'' ''AUTHENTICATION_FAILED'' 401"

definition invalid_code :: error where
  "invalid_code = api_error ''The authentication code is invalid.'' ''AUTHENTICATION_FAILED'' 401"

definition recovery_code_count :: nat where
  "recovery_code_count = 10"

definition recovery_hash :: "env \<Rightarrow> string \<Rightarrow> string" where
  "recovery_hash e code = keyed_hash e ''recovery-code'' (py_upper (py_strip code))"

definition delete_credentials :: "(two_factor_credential \<Rightarrow> bool) \<Rightarrow> unit action" where
  \<comment> \<open>the recovery codes of a deleted credential go with it\<close>
  "delete_credentials P = modify (\<lambda>s.
     let gone = tf_id ` set (filter P (credentials s))
     in s\<lparr>credentials := delete_where P (credentials s),
          recovery_codes := delete_where (\<lambda>c. rc_credential c \<in> gone) (recovery_codes s)\<rparr>)"

definition credential_create :: "uuid \<Rightarrow> string \<Rightarrow> unit action" where
  "credential_create uid encrypted =
     bind_op fresh_id (\<lambda>i. bind_op now_op (\<lambda>now.
     bind_op (reads (\<lambda>s. exists_where (\<lambda>c. tf_user c = uid) (credentials s))) (\<lambda>dup.
     then_op (raise_if dup (IntegrityError ''user_id''))
     (modify (\<lambda>s. s\<lparr>credentials := \<lparr>tf_id = i, tf_user = uid, tf_encrypted_secret = encrypted,
        tf_created_at = now, tf_confirmed_at = None, tf_disabled_at = None\<rparr> # credentials s\<rparr>)))))"

definition begin_setup :: "env \<Rightarrow> user \<Rightarrow> string \<Rightarrow> string \<Rightarrow> string \<Rightarrow> (string \<times> string) action" where
  "begin_setup e user password secret iv = atomic
     (then_op (raise_if (\<not> check_password (plat e) password (u_password user)) authentication_failed)
     (then_op (delete_credentials (\<lambda>c. tf_user c = u_id user \<and> tf_confirmed_at c = None))
     (bind_op (reads (\<lambda>s. exists_where (\<lambda>c. tf_user c = u_id user \<and> tf_confirmed_at c \<noteq> None \<and>
                 tf_disabled_at c = None) (credentials s))) (\<lambda>enabled.
      then_op (raise_if enabled
         (api_error ''Two-factor authentication is already enabled.'' ''CONFLICT'' 409))
      (bind_op (of_sum (encrypt_value e ''totp-secret'' iv secret)) (\<lambda>encrypted.
       then_op (credential_create (u_id user) encrypted)
       (ret (secret, provisioning_uri (plat e) secret (u_email user) (SITE_NAME (cfg e))))))))))"

fun create_codes :: "env \<Rightarrow> uuid \<Rightarrow> string list \<Rightarrow> unit action" where
  "create_codes e cred [] = ret ()"
| "create_codes e cred (c # cs) =
     bind_op fresh_id (\<lambda>i. bind_op now_op (\<lambda>now.
     bind_op (reads (\<lambda>s. exists_where (\<lambda>r. rc_credential r = cred \<and> rc_code_hash r = recovery_hash e c)
                (recovery_codes s))) (\<lambda>dup.
     then_op (raise_if dup (IntegrityError ''auth_recovery_code_unique''))
     (then_op (modify (\<lambda>s. s\<lparr>recovery_codes := \<lparr>rc_id = i, rc_credential = cred,
        rc_code_hash = recovery_hash e c, rc_created_at = now, rc_used_at = None\<rparr> # recovery_codes s\<rparr>))
     (create_codes e cred cs)))))"

definition replace_recovery_codes :: "env \<Rightarrow> uuid \<Rightarrow> (nat \<Rightarrow> string) \<Rightarrow> string list action" where
  "replace_recovery_codes e cred draw =
     then_op (modify (\<lambda>s. s\<lparr>recovery_codes := delete_where (\<lambda>r. rc_credential r = cred) (recovery_codes s)\<rparr>))
     (let codes = map (\<lambda>i. py_upper (draw i)) [0..<recovery_code_count] in
      then_op (create_codes e cred codes) (ret codes))"

definition credential_update :: "uuid \<Rightarrow> (two_factor_credential \<Rightarrow> two_factor_credential) \<Rightarrow> unit action" where
  "credential_update pk f =
     modify (\<lambda>s. s\<lparr>credentials := update_where (\<lambda>c. tf_id c = pk) f (credentials s)\<rparr>)"

definition confirm_setup ::
    "env \<Rightarrow> user \<Rightarrow> string \<Rightarrow> request option \<Rightarrow> (nat \<Rightarrow> string) \<Rightarrow> string list action" where
  "confirm_setup e user code rq draw = atomic
     (bind_op (reads (\<lambda>s. get_where ''TwoFactorCredential''
                 (\<lambda>c. tf_user c = u_id user \<and> tf_confirmed_at c = None) (credentials s))) (\<lambda>found.
      case found of
        Inl err \<Rightarrow> throw (if err = DoesNotExist ''TwoFactorCredential''
                          then api_error ''No pending two-factor setup exists.'' ''RESOURCE_NOT_FOUND'' 404
                          else err)
      | Inr credential \<Rightarrow>
          bind_op (of_sum (decrypt_value e ''totp-secret'' (tf_encrypted_secret credential))) (\<lambda>secret.
          bind_op now_op (\<lambda>now.
          then_op (raise_if (\<not> totp_verify (plat e) secret code now) invalid_code)
          (then_op (credential_update (tf_id credential)
             (\<lambda>c. c\<lparr>tf_confirmed_at := Some now, tf_disabled_at := None\<rparr>))
          (bind_op (replace_recovery_codes e (tf_id credential) draw) (\<lambda>codes.
          then_op (security_record e TWO_FACTOR_ENABLED (Some (u_id user)) rq [])
          (then_op (audit_record e ((audit_call ''two_factor.enabled'')
             \<lparr>aa_target := Some (user_target e user), aa_actor := Some (UserActor (u_id user)), aa_request := rq\<rparr>))
          (then_op (enqueue_email e ''two_factor_enabled'' (u_email user)
             (''Two-factor authentication enabled on '' @ SITE_NAME (cfg e)) [(''user'', UserObject user)])
          (ret codes))))))))))"

definition code_mark_used :: "datetime \<Rightarrow> recovery_code \<Rightarrow> recovery_code" where
  "code_mark_used now r = r\<lparr>rc_used_at := Some now\<rparr>"

definition consume_recovery_code :: "env \<Rightarrow> two_factor_credential \<Rightarrow> string \<Rightarrow> bool action" where
  "consume_recovery_code e credential code = atomic
     (bind_op (reads (\<lambda>s. first_where (\<lambda>r. rc_credential r = tf_id credential \<and>
                 rc_code_hash r = recovery_hash e code \<and> rc_used_at r = None) (recovery_codes s))) (\<lambda>found.
      case found of
        None \<Rightarrow> ret False
      | Some recovery \<Rightarrow>
          bind_op now_op (\<lambda>now.
          then_op (modify (\<lambda>s. s\<lparr>recovery_codes :=
             update_where (\<lambda>r. rc_id r = rc_id recovery) (code_mark_used now) (recovery_codes s)\<rparr>))
          (then_op (security_record e RECOVERY_CODE_USED (Some (tf_user credential)) None [])
          (ret True)))))"

definition normalize_code :: "string \<Rightarrow> string" where
  "normalize_code code = py_upper (py_remove (CHR ''-'') (py_strip code))"

definition two_factor_verify :: "env \<Rightarrow> uuid \<Rightarrow> string \<Rightarrow> (bool \<times> bool) action" where
  "two_factor_verify e user code =
     bind_op (reads (\<lambda>s. first_where (\<lambda>c. tf_user c = user) (credentials s))) (\<lambda>found.
     case found of
       None \<Rightarrow> ret (False, False)
     | Some credential \<Rightarrow>
         if \<not> is_enabled credential then ret (False, False)
         else
         bind_op (of_sum (decrypt_value e ''totp-secret'' (tf_encrypted_secret credential))) (\<lambda>secret.
         bind_op now_op (\<lambda>now.
         if totp_verify (plat e) secret (normalize_code code) now then ret (True, False)
         else bind_op (consume_recovery_code e credential (normalize_code code)) (\<lambda>ok.
              ret (ok, True)))))"

definition regenerate_codes ::
    "env \<Rightarrow> user \<Rightarrow> string \<Rightarrow> request option \<Rightarrow> (nat \<Rightarrow> string) \<Rightarrow> string list action" where
  "regenerate_codes e user code rq draw = atomic
     (bind_op (two_factor_verify e (u_id user) code) (\<lambda>(valid, _).
      then_op (raise_if (\<not> valid) invalid_code)
      (bind_op (bind_op (reads (\<lambda>s. get_where ''TwoFactorCredential''
                 (\<lambda>c. tf_user c = u_id user \<and> tf_disabled_at c = None) (credentials s))) of_sum) (\<lambda>credential.
       bind_op (replace_recovery_codes e (tf_id credential) draw) (\<lambda>codes.
       then_op (audit_record e ((audit_call ''two_factor.recovery_codes_regenerated'')
          \<lparr>aa_target := Some (user_target e user), aa_actor := Some (UserActor (u_id user)), aa_request := rq\<rparr>))
       (ret codes))))))"

definition disable :: "env \<Rightarrow> user \<Rightarrow> string \<Rightarrow> string \<Rightarrow> request option \<Rightarrow> unit action" where
  "disable e user password code rq = atomic
     (then_op (raise_if (\<not> check_password (plat e) password (u_password user)) authentication_failed)
     (bind_op (two_factor_verify e (u_id user) code) (\<lambda>(valid, _).
      then_op (raise_if (\<not> valid) invalid_code)
      (bind_op (bind_op (reads (\<lambda>s. get_where ''TwoFactorCredential''
                 (\<lambda>c. tf_user c = u_id user) (credentials s))) of_sum) (\<lambda>credential.
       bind_op now_op (\<lambda>now.
       then_op (credential_update (tf_id credential) (\<lambda>c. c\<lparr>tf_disabled_at := Some now\<rparr>))
       (then_op (modify (\<lambda>s. s\<lparr>recovery_codes :=
          update_where (\<lambda>r. rc_credential r = tf_id credential \<and> rc_used_at r = None) (code_mark_used now)
            (recovery_codes s)\<rparr>))
       (then_op (security_record e TWO_FACTOR_DISABLED (Some (u_id user)) rq [])
       (then_op (audit_record e ((audit_call ''two_factor.disabled'')
          \<lparr>aa_target := Some (user_target e user), aa_actor := Some (UserActor (u_id user)), aa_request := rq\<rparr>))
       (enqueue_email e ''two_factor_disabled'' (u_email user)
          (''Two-factor authentication disabled on '' @ SITE_NAME (cfg e)) [(''user'', UserObject user)]))))))))))"

section \<open>Tables\<close>

interpretation code_use: stamped rc_id rc_used_at code_mark_used
  by unfold_locales (simp_all add: code_mark_used_def)

lemma code_mark_used_simps [simp]:
  "rc_credential (code_mark_used now r) = rc_credential r"
  "rc_code_hash (code_mark_used now r) = rc_code_hash r"
  by (simp_all add: code_mark_used_def)

definition credential_table_ok :: "two_factor_credential list \<Rightarrow> bool" where
  "credential_table_ok cs \<longleftrightarrow> distinct (map tf_user cs) \<and> distinct (map tf_id cs)"

interpretation credential_by_user: keyed_table tf_user credential_table_ok
  by unfold_locales (simp add: credential_table_ok_def)

definition code_table_ok :: "recovery_code list \<Rightarrow> bool" where
  "code_table_ok rs \<longleftrightarrow> distinct (map (\<lambda>r. (rc_credential r, rc_code_hash r)) rs)"

interpretation code_by_hash: keyed_table "\<lambda>r. (rc_credential r, rc_code_hash r)" code_table_ok
  by unfold_locales (simp add: code_table_ok_def)

section \<open>Recovery codes\<close>

definition code_spent :: "uuid \<Rightarrow> string \<Rightarrow> recovery_code list \<Rightarrow> bool" where
  "code_spent cred h rs \<longleftrightarrow> (\<forall>r\<in>set rs. rc_credential r = cred \<and> rc_code_hash r = h \<longrightarrow> rc_used_at r \<noteq> None)"

lemma code_spent_mark: "code_spent cred h rs \<Longrightarrow> code_spent cred h (update_where P (code_mark_used now) rs)"
  unfolding code_spent_def by (auto elim!: update_whereE)

lemma consume_recovery_code_run:
  obtains (missing) "code_spent (tf_id c) (recovery_hash e code) (recovery_codes s)"
      "consume_recovery_code e c code s = (Inr False, s)"
    | (used) r ev where "r \<in> set (recovery_codes s)" "rc_credential r = tf_id c"
      "rc_code_hash r = recovery_hash e code" "rc_used_at r = None"
      "consume_recovery_code e c code s = (Inr True, s\<lparr>recovery_codes :=
         update_where (\<lambda>q. rc_id q = rc_id r) (code_mark_used (clock s)) (recovery_codes s),
         security_events := ev # security_events s\<rparr>)"
proof (cases "first_where (\<lambda>r. rc_credential r = tf_id c \<and> rc_code_hash r = recovery_hash e code \<and>
          rc_used_at r = None) (recovery_codes s)")
  case None
  then have "code_spent (tf_id c) (recovery_hash e code) (recovery_codes s)" by (auto simp: code_spent_def)
  moreover have "consume_recovery_code e c code s = (Inr False, s)"
    unfolding consume_recovery_code_def by (simp only: atomic_run bind_op_run op_runs None prod.case sum.case option.case)
  ultimately show thesis by (rule missing)
next
  case (Some r)
  from first_where_SomeD [OF Some] have "r \<in> set (recovery_codes s)" "rc_credential r = tf_id c"
      "rc_code_hash r = recovery_hash e code" "rc_used_at r = None" by auto
  then show thesis using used Some by (simp add: consume_recovery_code_def op_simps)
qed

text \<open>A verification either leaves the tables alone or marks one matching code used.\<close>

lemma verify_cases:
  obtains (failed) err where "two_factor_verify e u code s = (Inl err, s)"
    | (no_code) b b' where "two_factor_verify e u code s = (Inr (b, b'), s)" "\<not> (b \<and> b')"
    | (used) c r ev where "c \<in> set (credentials s)" "tf_user c = u" "r \<in> set (recovery_codes s)"
      "rc_credential r = tf_id c" "rc_code_hash r = recovery_hash e (normalize_code code)" "rc_used_at r = None"
      "two_factor_verify e u code s = (Inr (True, True), s\<lparr>recovery_codes :=
         update_where (\<lambda>q. rc_id q = rc_id r) (code_mark_used (clock s)) (recovery_codes s),
         security_events := ev # security_events s\<rparr>)"
proof (cases "first_where (\<lambda>c. tf_user c = u) (credentials s)")
  case None
  then have "two_factor_verify e u code s = (Inr (False, False), s)"
    unfolding two_factor_verify_def by (simp only: bind_op_run op_runs prod.case sum.case option.case)
  then show thesis using no_code by blast
next
  case (Some c)
  note c = first_where_SomeD [OF Some]
  show thesis
  proof (cases "is_enabled c")
    case False
    then have "two_factor_verify e u code s = (Inr (False, False), s)"
      using Some by (simp add: two_factor_verify_def op_simps)
    then show thesis using no_code by blast
  next
    case True
    show thesis
    proof (cases "decrypt_value e ''totp-secret'' (tf_encrypted_secret c)")
      case (Inl err)
      then show thesis using failed Some True by (simp add: two_factor_verify_def op_simps)
    next
      case (Inr secret)
      show thesis
      proof (cases "totp_verify (plat e) secret (normalize_code code) (clock s)")
        case totp: True
        then have "two_factor_verify e u code s = (Inr (True, False), s)"
          using Some True Inr by (simp add: two_factor_verify_def op_simps)
        then show thesis using no_code by blast
      next
        case totp: False
        show thesis
        proof (cases rule: consume_recovery_code_run [of c e "normalize_code code" s])
          case missing
          then have "two_factor_verify e u code s = (Inr (False, True), s)"
            using Some True Inr totp by (simp add: two_factor_verify_def op_simps)
          then show thesis using no_code by blast
        next
          case (used r ev)
          then have "two_factor_verify e u code s = (Inr (True, True), s\<lparr>recovery_codes :=
              update_where (\<lambda>q. rc_id q = rc_id r) (code_mark_used (clock s)) (recovery_codes s),
              security_events := ev # security_events s\<rparr>)"
            using Some True Inr totp by (simp add: two_factor_verify_def op_simps)
          then show thesis using that(3) used c by blast
        qed
      qed
    qed
  qed
qed

definition code_spent_for :: "uuid \<Rightarrow> string \<Rightarrow> db \<Rightarrow> bool" where
  "code_spent_for u h s \<longleftrightarrow> (\<forall>c\<in>set (credentials s). tf_user c = u \<longrightarrow> code_spent (tf_id c) h (recovery_codes s))"

text \<open>The operations a signed-in or signing-in user performs on an existing credential.\<close>

inductive code_step :: "env \<Rightarrow> db \<Rightarrow> db \<Rightarrow> bool" for e :: env where
  verify_step: "two_factor_verify e u code s = (r, t) \<Longrightarrow> code_step e s t"
| disable_step: "disable e user password code rq s = (r', t) \<Longrightarrow> code_step e s t"
| tick: "clock s \<le> now \<Longrightarrow> code_step e s (s\<lparr>clock := now\<rparr>)"

lemma verify_tables:
  assumes "two_factor_verify e u code s = (r, t)"
  shows "credentials t = credentials s \<and>
         (\<exists>P. recovery_codes t = update_where P (code_mark_used (clock s)) (recovery_codes s))"
proof -
  have same: "\<exists>P. rs = update_where P (code_mark_used now) rs" for rs now
    by (rule exI [of _ "\<lambda>_. False"]) (simp add: update_where_def)
  show ?thesis
    by (cases rule: verify_cases [of e u code s]) (use assms same in auto)
qed

lemma disable_tables:
  assumes "disable e user password code rq s = (r, t)"
  shows "map (\<lambda>c. (tf_user c, tf_id c)) (credentials t) = map (\<lambda>c. (tf_user c, tf_id c)) (credentials s) \<and>
         (\<exists>P Q now. recovery_codes t = update_where P (code_mark_used now) (update_where Q (code_mark_used now) (recovery_codes s)))"
proof (cases r)
  case (Inl err)
  then have "t = s" using assms unfolding disable_def by (simp only: atomic_Inl_iff)
  moreover have "rs = update_where (\<lambda>_. False) (code_mark_used 0) (update_where (\<lambda>_. False) (code_mark_used 0) rs)" for rs
    by (simp add: update_where_def)
  ultimately show ?thesis by blast
next
  case (Inr x)
  obtain rv s1 where v: "two_factor_verify e (u_id user) code s = (rv, s1)" by fastforce
  let ?g = "get_where ''TwoFactorCredential'' (\<lambda>c. tf_user c = u_id user) (credentials s1)"
  have ok: "check_password (plat e) password (u_password user)" "\<exists>x. rv = Inr (True, x)" "\<exists>cred. ?g = Inr cred"
    using assms Inr by (cases rv; cases ?g; auto simp: disable_def op_simps v split: if_splits)+
  then obtain x cred where rv: "rv = Inr (True, x)" and g: "?g = Inr cred" by blast
  have t: "credentials t = update_where (\<lambda>c. tf_id c = tf_id cred) (\<lambda>c. c\<lparr>tf_disabled_at := Some (clock s1)\<rparr>) (credentials s1)"
      "recovery_codes t = update_where (\<lambda>r. rc_credential r = tf_id cred \<and> rc_used_at r = None) (code_mark_used (clock s1)) (recovery_codes s1)"
    using assms Inr by (auto simp: disable_def op_simps v rv g ok(1) credential_update_def)
  have cl: "clock s1 = clock s" by (cases rule: verify_cases [of e "u_id user" code s]) (use v in auto)
  from verify_tables [OF v] obtain Q where "credentials s1 = credentials s"
    "recovery_codes s1 = update_where Q (code_mark_used (clock s)) (recovery_codes s)" by blast
  then show ?thesis unfolding t cl by (auto simp: update_where_map)
qed

lemma code_spent_for_step:
  assumes "code_step e s t" and "code_spent_for u h s"
  shows "code_spent_for u h t"
  using assms(1)
proof cases
  case (verify_step u' code r)
  then show ?thesis using verify_tables [OF verify_step] assms(2)
    by (auto simp: code_spent_for_def code_spent_mark)
next
  case (disable_step user password code rq r)
  note d = disable_tables [OF disable_step]
  have "(\<lambda>c. (tf_user c, tf_id c)) ` set (credentials t) = (\<lambda>c. (tf_user c, tf_id c)) ` set (credentials s)"
    using d by (metis list.set_map)
  then have "\<exists>c'\<in>set (credentials s). tf_user c' = tf_user c \<and> tf_id c' = tf_id c" if "c \<in> set (credentials t)" for c
    using that by (metis (mono_tags, lifting) Pair_inject imageE image_eqI)
  then have "code_spent (tf_id c) h (recovery_codes s)" if "c \<in> set (credentials t)" "tf_user c = u" for c
    using that assms(2) unfolding code_spent_for_def by metis
  then show ?thesis using d unfolding code_spent_for_def by (auto simp: code_spent_mark)
next
  case (tick now)
  then show ?thesis using assms(2) by (simp add: code_spent_for_def)
qed

lemma code_spent_for_steps: "(code_step e)\<^sup>*\<^sup>* s t \<Longrightarrow> code_spent_for u h s \<Longrightarrow> code_spent_for u h t"
  by (induction rule: rtranclp_induct) (auto intro: code_spent_for_step)

lemma spent_not_accepted:
  assumes "code_spent_for u (recovery_hash e (normalize_code code)) s"
  shows "fst (two_factor_verify e u code s) \<noteq> Inr (True, True)"
proof (cases rule: verify_cases [of e u code s])
  case (used c r ev)
  then show ?thesis using assms unfolding code_spent_for_def code_spent_def by blast
qed auto

lemma verify_spends:
  assumes "credential_table_ok (credentials s)" and "code_table_ok (recovery_codes s)"
    and "two_factor_verify e u code s = (Inr (True, True), t)"
  shows "code_spent_for u (recovery_hash e (normalize_code code)) t"
proof (cases rule: verify_cases [of e u code s])
  case (used c r ev)
  have t: "credentials t = credentials s" "recovery_codes t =
      update_where (\<lambda>q. rc_id q = rc_id r) (code_mark_used (clock s)) (recovery_codes s)"
    using used assms(3) by auto
  have "rc_used_at q \<noteq> None"
    if q: "q \<in> set (recovery_codes t)" "rc_credential q = tf_id c"
      "rc_code_hash q = recovery_hash e (normalize_code code)" for q
    using q(1) unfolding t
  proof (cases rule: update_whereE)
    case same
    then have "q = r" using code_by_hash.key_determines [OF assms(2) same(1) used(3)] q used by simp
    then show ?thesis using same by simp
  qed simp
  moreover have "c' = c" if "c' \<in> set (credentials t)" "tf_user c' = u" for c'
    using credential_by_user.key_determines [OF assms(1) _ used(1)] that used(2) t by simp
  ultimately show ?thesis by (auto simp: code_spent_for_def code_spent_def)
qed (use assms(3) in auto)

lemma create_codes_ok:
  assumes "distinct (map (recovery_hash e) cs)"
    and "\<And>r. r \<in> set (recovery_codes s) \<Longrightarrow> rc_credential r = cred \<Longrightarrow> rc_code_hash r \<notin> recovery_hash e ` set cs"
  obtains t where "create_codes e cred cs s =
      (Inr (), s\<lparr>next_id := next_id s + length cs, recovery_codes := t @ recovery_codes s\<rparr>)"
    and "map rc_code_hash t = rev (map (recovery_hash e) cs)"
    and "\<And>r. r \<in> set t \<Longrightarrow> rc_credential r = cred \<and> rc_used_at r = None \<and> next_id s \<le> rc_id r"
    and "distinct (map rc_id t)" and "\<And>r. r \<in> set t \<Longrightarrow> rc_id r < next_id s + length cs"
  using assms
proof (induction cs arbitrary: s thesis)
  case Nil
  from Nil(1) [of "[]"] show ?case by (simp add: op_simps)
next
  case (Cons c cs)
  let ?row = "\<lparr>rc_id = next_id s, rc_credential = cred, rc_code_hash = recovery_hash e c,
     rc_created_at = clock s, rc_used_at = None\<rparr>"
  let ?s = "s\<lparr>next_id := Suc (next_id s), recovery_codes := ?row # recovery_codes s\<rparr>"
  have step: "create_codes e cred (c # cs) s = create_codes e cred cs ?s"
    using Cons.prems(3) by (auto simp: op_simps)
  have d: "distinct (map (recovery_hash e) cs)" using Cons.prems(2) by simp
  have new: "rc_code_hash r \<notin> recovery_hash e ` set cs"
    if "r \<in> set (recovery_codes ?s)" "rc_credential r = cred" for r
  proof (cases "r \<in> set (recovery_codes s)")
    case True
    then show ?thesis using Cons.prems(3) [OF True that(2)] by simp
  next
    case False
    then have "r = ?row" using that(1) by simp
    then have "rc_code_hash r = recovery_hash e c" by simp
    then show ?thesis using Cons.prems(2) by simp
  qed
  obtain t where t: "create_codes e cred cs ?s =
      (Inr (), ?s\<lparr>next_id := next_id ?s + length cs, recovery_codes := t @ recovery_codes ?s\<rparr>)"
    "map rc_code_hash t = rev (map (recovery_hash e) cs)"
    "\<And>r. r \<in> set t \<Longrightarrow> rc_credential r = cred \<and> rc_used_at r = None \<and> next_id ?s \<le> rc_id r"
    "distinct (map rc_id t)" "\<And>r. r \<in> set t \<Longrightarrow> rc_id r < next_id ?s + length cs"
    using Cons.IH [OF _ d new] by blast
  show ?case
  proof (rule Cons.prems(1) [of "t @ [?row]"])
    show "create_codes e cred (c # cs) s =
        (Inr (), s\<lparr>next_id := next_id s + length (c # cs), recovery_codes := (t @ [?row]) @ recovery_codes s\<rparr>)"
      using step t(1) by simp
  qed (use t(2-5) in \<open>force+\<close>)
qed

lemma replace_recovery_codes_ok:
  assumes "codes = map (\<lambda>i. py_upper (draw i)) [0..<recovery_code_count]"
    and "distinct (map (recovery_hash e) codes)"
  obtains t where "replace_recovery_codes e cred draw s =
      (Inr codes, s\<lparr>next_id := next_id s + recovery_code_count,
         recovery_codes := t @ delete_where (\<lambda>r. rc_credential r = cred) (recovery_codes s)\<rparr>)"
    and "map rc_code_hash t = rev (map (recovery_hash e) codes)"
    and "\<And>r. r \<in> set t \<Longrightarrow> rc_credential r = cred \<and> rc_used_at r = None"
proof -
  let ?s = "s\<lparr>recovery_codes := delete_where (\<lambda>r. rc_credential r = cred) (recovery_codes s)\<rparr>"
  obtain t where "create_codes e cred codes ?s =
      (Inr (), ?s\<lparr>next_id := next_id ?s + length codes, recovery_codes := t @ recovery_codes ?s\<rparr>)"
    "map rc_code_hash t = rev (map (recovery_hash e) codes)"
    "\<And>r. r \<in> set t \<Longrightarrow> rc_credential r = cred \<and> rc_used_at r = None \<and> next_id ?s \<le> rc_id r"
    by (rule create_codes_ok [OF assms(2), of ?s cred]) auto
  then show thesis using that assms(1) by (simp add: replace_recovery_codes_def op_simps Let_def)
qed

section \<open>Properties\<close>

text \<open>
  Property C13: a recovery code is accepted at most once. After a verification accepted a recovery
  code, no later verification of the same user accepts that code again as a recovery code, in any
  spelling, after any sequence of verifications, disabling and passage of time.
\<close>

theorem recovery_code_single_use:
  assumes "credential_table_ok (credentials s)" and "code_table_ok (recovery_codes s)"
    and "two_factor_verify e u code s = (Inr (True, True), s')"
    and "(code_step e)\<^sup>*\<^sup>* s' t" and "normalize_code code' = normalize_code code"
  shows "fst (two_factor_verify e u code' t) \<noteq> Inr (True, True)"
  using spent_not_accepted [of u e code' t] code_spent_for_steps [OF assms(4)] verify_spends [OF assms(1-3)] assms(5)
  by simp

definition demo_two_factor :: db where
  "demo_two_factor = demo_db\<lparr>
     credentials := [\<lparr>tf_id = 1, tf_user = 7, tf_encrypted_secret = ''E(D(totp-secret:unsafe-development-only-key))S'',
       tf_created_at = 0, tf_confirmed_at = Some 0, tf_disabled_at = None\<rparr>],
     recovery_codes := [\<lparr>rc_id = 2, rc_credential = 1, rc_code_hash = recovery_hash demo_env ''ABCDE'',
       rc_created_at = 0, rc_used_at = None\<rparr>]\<rparr>"

theorem recovery_code_single_use_witness:
  "\<exists>s'. two_factor_verify demo_env 7 ''ab-cde'' demo_two_factor = (Inr (True, True), s') \<and>
     fst (two_factor_verify demo_env 7 '' ABCDE'' s') \<noteq> Inr (True, True)"
proof -
  have a: "credential_table_ok (credentials demo_two_factor)" "code_table_ok (recovery_codes demo_two_factor)"
    "normalize_code '' ABCDE'' = normalize_code ''ab-cde''" by code_simp+
  have "fst (two_factor_verify demo_env 7 ''ab-cde'' demo_two_factor) = Inr (True, True)" by code_simp
  then obtain s' where v: "two_factor_verify demo_env 7 ''ab-cde'' demo_two_factor = (Inr (True, True), s')"
    by (metis prod.collapse)
  show ?thesis using recovery_code_single_use [OF a(1,2) v rtranclp.rtrancl_refl a(3)] v by blast
qed

text \<open>
  Property C14: confirming a set-up enables the credential and hands out ten working codes. For a
  pending credential whose secret decrypts and a code the TOTP algorithm accepts, \<open>confirm_setup\<close>
  succeeds and returns ten codes; at any later instant each of them, in any spelling, is accepted by
  \<open>two_factor_verify\<close> as a recovery code (unless the TOTP algorithm happens to accept it). The
  hypothesis on hashes is that the ten drawn codes have different hashes.
\<close>

theorem confirm_setup_codes_work:
  assumes "credential_table_ok (credentials s)" and "c \<in> set (credentials s)" and "tf_user c = u_id user"
    and "tf_confirmed_at c = None"
    and "decrypt_value e ''totp-secret'' (tf_encrypted_secret c) = Inr secret"
    and "totp_verify (plat e) secret code (clock s)"
    and "codes = map (\<lambda>i. py_upper (draw i)) [0..<recovery_code_count]"
    and "distinct (map (recovery_hash e) codes)"
  shows "\<exists>s'. confirm_setup e user code rq draw s = (Inr codes, s') \<and> length codes = 10 \<and>
     (\<forall>code' now. normalize_code code' \<in> set codes \<and> \<not> totp_verify (plat e) secret (normalize_code code') now \<longrightarrow>
        fst (two_factor_verify e (u_id user) code' (s'\<lparr>clock := now\<rparr>)) = Inr (True, True))"
proof -
  let ?f = "\<lambda>c. c\<lparr>tf_confirmed_at := Some (clock s), tf_disabled_at := None\<rparr>"
  let ?cs = "update_where (\<lambda>q. tf_id q = tf_id c) ?f (credentials s)"
  have g: "get_where ''TwoFactorCredential'' (\<lambda>q. tf_user q = u_id user \<and> tf_confirmed_at q = None) (credentials s) = Inr c"
    using credential_by_user.get_by_key_and [OF assms(1,2), of "\<lambda>q. tf_confirmed_at q = None"] assms(3,4) by simp
  obtain t where t: "replace_recovery_codes e (tf_id c) draw (s\<lparr>credentials := ?cs\<rparr>) =
      (Inr codes, (s\<lparr>credentials := ?cs\<rparr>)\<lparr>next_id := next_id (s\<lparr>credentials := ?cs\<rparr>) + recovery_code_count,
         recovery_codes := t @ delete_where (\<lambda>r. rc_credential r = tf_id c) (recovery_codes (s\<lparr>credentials := ?cs\<rparr>))\<rparr>)"
    "map rc_code_hash t = rev (map (recovery_hash e) codes)"
    "\<And>r. r \<in> set t \<Longrightarrow> rc_credential r = tf_id c \<and> rc_used_at r = None"
    using replace_recovery_codes_ok [OF assms(7,8)] by blast
  obtain s' where run: "confirm_setup e user code rq draw s = (Inr codes, s')"
    and cs: "credentials s' = ?cs" and rs: "set t \<subseteq> set (recovery_codes s')"
    using t(1) by (simp add: confirm_setup_def op_simps g assms(5,6) credential_update_def)
  have "credential_table_ok ?cs" using assms(1) by (simp add: credential_table_ok_def update_where_map)
  moreover have "?f c \<in> set ?cs" using update_where_changed [OF assms(2), of "\<lambda>q. tf_id q = tf_id c" ?f] by simp
  ultimately have fc: "first_where (\<lambda>q. tf_user q = u_id user) ?cs = Some (?f c)"
    using credential_by_user.first_by_key [of ?cs "?f c"] assms(3) by simp
  have "fst (two_factor_verify e (u_id user) code' (s'\<lparr>clock := now\<rparr>)) = Inr (True, True)"
    if n: "normalize_code code' \<in> set codes" "\<not> totp_verify (plat e) secret (normalize_code code') now" for code' now
  proof -
    have "recovery_hash e (normalize_code code') \<in> rc_code_hash ` set t"
      using n(1) t(2) by (metis image_eqI list.set_map set_rev)
    then have "\<not> code_spent (tf_id (?f c)) (recovery_hash e (normalize_code code')) (recovery_codes (s'\<lparr>clock := now\<rparr>))"
      using rs t(3) unfolding code_spent_def by fastforce
    then have "fst (consume_recovery_code e (?f c) (normalize_code code') (s'\<lparr>clock := now\<rparr>)) = Inr True"
      by (cases rule: consume_recovery_code_run [of "?f c" e "normalize_code code'" "s'\<lparr>clock := now\<rparr>"]) simp_all
    then show ?thesis
      using fc cs n(2) assms(5)
      by (cases "consume_recovery_code e (?f c) (normalize_code code') (s'\<lparr>clock := now\<rparr>)")
         (simp add: two_factor_verify_def op_simps is_enabled_def)
  qed
  moreover have "length codes = 10" using assms(7) by (simp add: recovery_code_count_def)
  ultimately show ?thesis using run by blast
qed

definition demo_setup :: db where
  "demo_setup = demo_db\<lparr>
     credentials := [\<lparr>tf_id = 1, tf_user = 7, tf_encrypted_secret = ''E(D(totp-secret:unsafe-development-only-key))S'',
       tf_created_at = 0, tf_confirmed_at = None, tf_disabled_at = None\<rparr>]\<rparr>"

definition demo_draw :: "nat \<Rightarrow> string" where
  "demo_draw i = [''abcdefghij'' ! i, CHR ''0'']"

theorem confirm_setup_codes_work_witness:
  "\<exists>s'. confirm_setup demo_env demo_user ''S'' None demo_draw demo_setup =
       (Inr (map (\<lambda>i. py_upper (demo_draw i)) [0..<recovery_code_count]), s') \<and>
     fst (two_factor_verify demo_env 7 ''c-0'' (s'\<lparr>clock := 5\<rparr>)) = Inr (True, True)"
proof -
  let ?c = "\<lparr>tf_id = 1, tf_user = 7, tf_encrypted_secret = ''E(D(totp-secret:unsafe-development-only-key))S'',
       tf_created_at = 0, tf_confirmed_at = None, tf_disabled_at = None\<rparr>"
  have a: "credential_table_ok (credentials demo_setup)" by code_simp
  have m: "?c \<in> set (credentials demo_setup)" "tf_user ?c = u_id demo_user" "tf_confirmed_at ?c = None" "u_id demo_user = 7"
    by (simp_all add: demo_setup_def demo_user_def)
  have d: "decrypt_value demo_env ''totp-secret'' (tf_encrypted_secret ?c) = Inr ''S''"
    "totp_verify (plat demo_env) ''S'' ''S'' (clock demo_setup)" by code_simp+
  have h: "distinct (map (recovery_hash demo_env) (map (\<lambda>i. py_upper (demo_draw i)) [0..<recovery_code_count]))"
    by code_simp
  have n: "normalize_code ''c-0'' \<in> set (map (\<lambda>i. py_upper (demo_draw i)) [0..<recovery_code_count])"
    "\<not> totp_verify (plat demo_env) ''S'' (normalize_code ''c-0'') 5" by code_simp+
  show ?thesis using confirm_setup_codes_work [OF a m(1-3) d refl h, of None] n unfolding m(4) by blast
qed

text \<open>
  Two-factor authentication cannot be enabled again once it was disabled. The disabled
  credential stays in its one-to-one table, so that \<open>begin_setup\<close>, which only removes an unconfirmed
  one, always ends in the database's integrity error, although no credential is enabled.
\<close>

theorem reenable_fails:
  assumes "encryption_configured e" and "check_password (plat e) password (u_password user)"
    and "c \<in> set (credentials s)" and "tf_user c = u_id user" and "tf_confirmed_at c \<noteq> None"
    and "\<forall>q\<in>set (credentials s). tf_user q = u_id user \<longrightarrow> tf_disabled_at q \<noteq> None"
  shows "begin_setup e user password secret iv s = (Inl (IntegrityError ''user_id''), s)"
proof -
  obtain enc where "encrypt_value e ''totp-secret'' iv secret = Inr enc"
    using key_material_configured [of e "''totp-secret''"] assms(1) by (auto simp: encrypt_value_def)
  then show ?thesis using assms(2-)
    by (auto simp: begin_setup_def delete_credentials_def credential_create_def op_simps Let_def)
qed

theorem reenable_fails_witness:
  "begin_setup demo_env demo_user ''secret-password'' ''T'' ''iv''
     (demo_two_factor\<lparr>credentials := map (\<lambda>c. c\<lparr>tf_disabled_at := Some 1\<rparr>) (credentials demo_two_factor)\<rparr>) =
   (Inl (IntegrityError ''user_id''),
     demo_two_factor\<lparr>credentials := map (\<lambda>c. c\<lparr>tf_disabled_at := Some 1\<rparr>) (credentials demo_two_factor)\<rparr>)"
proof -
  have a: "encryption_configured demo_env" "check_password (plat demo_env) ''secret-password'' (u_password demo_user)"
    by code_simp+
  show ?thesis
    by (rule reenable_fails [OF a, where c = "(hd (credentials demo_two_factor))\<lparr>tf_disabled_at := Some 1\<rparr>"])
       (simp_all add: demo_two_factor_def demo_user_def)
qed

end
