(* ===== verification/Login.thy ===== *)
theory Login
  imports Throttle Sessions TwoFactor
begin

text \<open>
  Signing in: the backend of \<^verbatim>\<open>apps/authentication/backends.py\<close>, \<^verbatim>\<open>AuthenticationService.login\<close> of
  \<^verbatim>\<open>apps/authentication/services.py\<close>, and the JWT checks of \<^verbatim>\<open>apps/authentication/jwt.py\<close>. The
  function \<open>login\<close> is split where the source has its stages: the throttle, the credentials, the
  account lock, the account's standing, the second factor, and the session. It is not atomic: what
  a stage wrote stays when a later one raises. The token library's own lookups are arguments of the
  JWT definitions.

  The locale \<open>account_gate\<close> is the promise every way of presenting a credential makes: the account it
  yields may authenticate at that instant. It is interpreted for each of them.
\<close>

section \<open>Backend\<close>

definition user_can_authenticate :: "user \<Rightarrow> bool" where
  "user_can_authenticate u \<longleftrightarrow> u_is_active u"

definition backend_authenticate :: "env \<Rightarrow> db \<Rightarrow> string \<Rightarrow> string \<Rightarrow> user option" where
  "backend_authenticate e s username password =
     (if username = [] \<or> password = [] then None
      else case get_where ''User'' (identifies username) (users s) of
             Inl _ \<Rightarrow> None
           | Inr user \<Rightarrow>
               if check_password (plat e) password (u_password user) \<and> user_can_authenticate user
               then Some user else None)"

definition backend_get_user :: "db \<Rightarrow> uuid \<Rightarrow> user option" where
  "backend_get_user s user_id =
     (case get_where ''User'' (\<lambda>u. u_id u = user_id) (users s) of
        Inl _ \<Rightarrow> None
      | Inr user \<Rightarrow> if user_can_authenticate user then Some user else None)"

section \<open>AuthenticationService.login\<close>

definition too_many_attempts :: "int \<Rightarrow> error" where
  "too_many_attempts retry_after =
     APIException ''Too many attempts. Try again later.'' ''ACCOUNT_LOCKED'' 429 [(''retry_after'', PInt retry_after)]"

definition invalid_credentials :: "bool \<Rightarrow> error" where
  "invalid_credentials locked =
     api_error ''Invalid credentials.'' (if locked then ''ACCOUNT_LOCKED'' else ''AUTHENTICATION_FAILED'')
       (if locked then 429 else 401)"

definition login_rejected :: "env \<Rightarrow> request \<Rightarrow> string \<Rightarrow> string option \<Rightarrow> 'a action" where
  "login_rejected e rq identifier ip =
     bind_op (register_failure e identifier ip) (\<lambda>new_state.
     then_op (security_record e LOGIN_FAILED None (Some rq) [(''identifier_hash'', PStr (digest e identifier))])
     (then_op (when_op (ls_account_locked new_state)
        (lock_known_account e identifier (ls_retry_after new_state) (Some rq)))
     (throw (invalid_credentials (ls_locked new_state)))))"

definition check_account_lock :: "env \<Rightarrow> user \<Rightarrow> request \<Rightarrow> unit action" where
  "check_account_lock e user rq =
     bind_op (security_settings_of (u_id user)) (\<lambda>row.
     bind_op now_op (\<lambda>now.
     case ss_locked_until row of
       None \<Rightarrow> ret ()
     | Some until \<Rightarrow>
         if is_locked now row then throw (too_many_attempts (max 1 (whole_seconds (until - now))))
         else then_op (settings_row_update row (\<lambda>r. r\<lparr>ss_locked_until := None\<rparr>))
              (security_record e ACCOUNT_UNLOCKED (Some (u_id user)) (Some rq) [])))"

definition check_standing :: "user \<Rightarrow> unit action" where
  "check_standing user =
     bind_op (reads (\<lambda>s. has_active_ban s user)) (\<lambda>banned.
     then_op (raise_if (u_status user = BANNED \<or> banned)
        (api_error ''This account is unavailable.'' ''ACCOUNT_BANNED'' 403))
     (raise_if (u_status user \<noteq> ACTIVE)
        (api_error ''This account is unavailable.'' ''AUTHENTICATION_FAILED'' 403)))"

definition two_factor_enabled :: "env \<Rightarrow> db \<Rightarrow> user \<Rightarrow> bool" where
  "two_factor_enabled e s user \<longleftrightarrow> ENABLE_TWO_FACTOR (cfg e) \<and>
     (case first_where (\<lambda>c. tf_user c = u_id user) (credentials s) of
        None \<Rightarrow> False | Some c \<Rightarrow> is_enabled c)"

definition check_second_factor :: "env \<Rightarrow> user \<Rightarrow> string \<Rightarrow> string \<Rightarrow> string option \<Rightarrow> unit action" where
  "check_second_factor e user code identifier ip =
     bind_op (reads (\<lambda>s. two_factor_enabled e s user)) (\<lambda>enabled.
     when_op enabled
       (then_op (raise_if (code = [])
          (api_error ''A two-factor code is required.'' ''TWO_FACTOR_REQUIRED'' 401))
       (bind_op (two_factor_verify e (u_id user) code) (\<lambda>(valid, _).
        when_op (\<not> valid)
          (then_op (register_failure e identifier ip) (throw (invalid_credentials False)))))))"

definition django_login :: "user \<Rightarrow> request \<Rightarrow> string \<Rightarrow> request action" where
  \<comment> \<open>Django's \<^verbatim>\<open>login()\<close>: the session key is rotated to \<open>new_key\<close> and the session belongs to the user\<close>
  "django_login user rq new_key =
     then_op (modify (\<lambda>s. s\<lparr>django_sessions :=
        \<lparr>ds_session_key = new_key, ds_user = Some (u_id user), ds_expiry = None\<rparr> #
        delete_where (\<lambda>d. Some (ds_session_key d) = rq_session_key rq) (django_sessions s)\<rparr>))
     (ret (rq\<lparr>rq_session_key := Some new_key\<rparr>))"

definition set_expiry :: "request \<Rightarrow> int \<Rightarrow> unit action" where
  "set_expiry rq value = modify (\<lambda>s. s\<lparr>django_sessions :=
     update_where (\<lambda>d. Some (ds_session_key d) = rq_session_key rq) (\<lambda>d. d\<lparr>ds_expiry := Some value\<rparr>)
       (django_sessions s)\<rparr>)"

definition notify_new_device :: "env \<Rightarrow> user \<Rightarrow> user_session \<Rightarrow> request \<Rightarrow> unit action" where
  "notify_new_device e user session rq =
     then_op (security_record e NEW_DEVICE_LOGIN (Some (u_id user)) (Some rq) [])
     (bind_op (preferences_of (u_id user)) (\<lambda>prefs.
      bind_op (security_settings_of (u_id user)) (\<lambda>row.
      when_op (pr_security_emails prefs \<and> ss_notify_new_device row)
        (enqueue_email e ''new_device_login'' (u_email user) (''New sign-in to '' @ SITE_NAME (cfg e))
           [(''user'', UserObject user), (''session'', SessionObject session)]))))"

definition start_session ::
    "env \<Rightarrow> user \<Rightarrow> request \<Rightarrow> bool \<Rightarrow> string option \<Rightarrow> string \<Rightarrow> string \<Rightarrow> string \<Rightarrow> (user \<times> user_session) action" where
  "start_session e user rq remember_me ip new_key ident iv =
     bind_op (django_login user rq new_key) (\<lambda>rq'.
     then_op (set_expiry rq' (if remember_me then 60 * 60 * 24 * 30 else 0))
     (bind_op (register e (u_id user) rq' new_key ident iv) (\<lambda>(session, is_new_device).
     bind_op now_op (\<lambda>now.
     let record = (\<lambda>u. u\<lparr>u_last_login_ip := ip, u_last_login := Some now, u_updated_at := now\<rparr>) in
     then_op (user_update (u_id user) record)
     (then_op (security_record e LOGIN_SUCCESS (Some (u_id user)) (Some rq') [])
     (then_op (when_op is_new_device (notify_new_device e (record user) session rq'))
     (ret (record user, session))))))))"

definition login ::
    "env \<Rightarrow> request \<Rightarrow> string \<Rightarrow> string \<Rightarrow> string \<Rightarrow> bool \<Rightarrow> string \<Rightarrow> string \<Rightarrow> string \<Rightarrow> (user \<times> user_session) action" where
  "login e rq identifier password code remember_me new_key ident iv =
     (let ip = get_client_ip e rq in
      bind_op (check e identifier ip) (\<lambda>lock_state.
      then_op (raise_if (ls_locked lock_state) (too_many_attempts (ls_retry_after lock_state)))
      (bind_op (reads (\<lambda>s. backend_authenticate e s identifier password)) (\<lambda>found.
       case found of
         None \<Rightarrow> login_rejected e rq identifier ip
       | Some user \<Rightarrow>
           then_op (check_account_lock e user rq)
           (then_op (check_standing user)
           (then_op (check_second_factor e user code identifier ip)
           (then_op (reset e identifier ip)
           (start_session e user rq remember_me ip new_key ident iv))))))))"

section \<open>JWT\<close>

definition ensure_account_available :: "user \<Rightarrow> unit action" where
  "ensure_account_available user =
     bind_op (reads (\<lambda>s. can_authenticate_now s user)) (\<lambda>ok.
     raise_if (\<not> ok) (AuthenticationFailed ''User account is unavailable.''))"

definition jwt_get_user :: "('tok \<Rightarrow> user action) \<Rightarrow> 'tok \<Rightarrow> user action" where
  \<comment> \<open>\<open>super_get_user\<close>: the library's \<^verbatim>\<open>JWTAuthentication.get_user\<close>\<close>
  "jwt_get_user super_get_user token =
     bind_op (super_get_user token) (\<lambda>user.
     then_op (ensure_account_available user) (ret user))"

definition refresh_validate :: "('attrs \<Rightarrow> 'data action) \<Rightarrow> ('data \<Rightarrow> uuid) \<Rightarrow> 'attrs \<Rightarrow> 'data action" where
  \<comment> \<open>\<open>super_validate\<close>: the library's \<^verbatim>\<open>TokenRefreshSerializer.validate\<close>; \<open>access_user\<close>: the user id in
     the access token of its result\<close>
  "refresh_validate super_validate access_user attrs =
     bind_op (super_validate attrs) (\<lambda>data.
     bind_op (reads (\<lambda>s. get_where ''User'' (\<lambda>u. u_id u = access_user data) (users s))) (\<lambda>found.
     case found of
       Inl err \<Rightarrow> throw (if err = DoesNotExist ''User'' then AuthenticationFailed ''User account is unavailable.''
                         else err)
     | Inr user \<Rightarrow> then_op (ensure_account_available user) (ret data)))"

section \<open>What the stages keep\<close>

definition standing :: "db \<Rightarrow> _" where
  \<comment> \<open>what decides whether an account may authenticate, and its second factor\<close>
  "standing s = (clock s, users s, bans s, credentials s, recovery_codes s)"

lemma check_account_lock_keeps: "keeps (\<lambda>s. (standing s, user_sessions s, django_sessions s)) (check_account_lock e u rq)"
  unfolding keeps_def check_account_lock_def standing_def by (intro allI preserves_intros) auto

lemma preserves_register_cache: 
  assumes "\<And>s c. P s \<Longrightarrow> P (s\<lparr>cache := c\<rparr>)"
  shows "preserves P (register_cache_failure e ds a b)"
proof (induction ds arbitrary: a b)
  case (Cons d ds)
  have "preserves P (cache_attempt e d)" unfolding cache_attempt_def
    by (intro preserves_intros assms) (auto split: pyval.splits intro!: preserves_intros assms)
  then show ?case using Cons unfolding register_cache_failure.simps Let_def
    by (intro preserves_bind_op preserves_then_op preserves_when_op preserves_modify assms)
qed (simp add: preserves_ret)

lemma preserves_register_database:
  assumes "\<And>s t. P s \<Longrightarrow> P (s\<lparr>throttle_states := t\<rparr>)"
  shows "preserves P (register_database_failure e ds a b)"
proof (induction ds arbitrary: a b)
  case (Cons d ds)
  have "preserves P (throttle_hit e d)" unfolding throttle_hit_def throttle_get_or_create_def Let_def
    by (intro preserves_intros assms)
  then show ?case using Cons unfolding register_database_failure.simps by (intro preserves_bind_op)
qed (simp add: preserves_ret)

lemma preserves_register_failure [preserves_intros]:
  assumes "\<And>s c. P s \<Longrightarrow> P (s\<lparr>cache := c\<rparr>)" and "\<And>s t. P s \<Longrightarrow> P (s\<lparr>throttle_states := t\<rparr>)"
  shows "preserves P (register_failure e ident ip)"
  unfolding register_failure_def Let_def
  by (intro preserves_if preserves_register_cache preserves_register_database assms)

lemma preserves_reset [preserves_intros]:
  assumes "\<And>s c. P s \<Longrightarrow> P (s\<lparr>cache := c\<rparr>)" and "\<And>s t. P s \<Longrightarrow> P (s\<lparr>throttle_states := t\<rparr>)"
  shows "preserves P (reset e ident ip)"
  unfolding reset_def Let_def by (intro preserves_intros assms)

lemma preserves_two_factor_verify [preserves_intros]:
  assumes "\<And>s c. P s \<Longrightarrow> P (s\<lparr>recovery_codes := c\<rparr>)" and "\<And>s t. P s \<Longrightarrow> P (s\<lparr>security_events := t\<rparr>)"
  shows "preserves P (two_factor_verify e u code)"
  unfolding two_factor_verify_def consume_recovery_code_def by (intro preserves_intros assms)

lemma check_second_factor_keeps:
  "keeps (\<lambda>s. (clock s, users s, bans s, credentials s, user_sessions s, django_sessions s))
     (check_second_factor e u code ident ip)"
  unfolding keeps_def check_second_factor_def by (intro allI preserves_intros) auto

lemma check_standing_ok_iff:
  "check_standing u s = (Inr x, s') \<longleftrightarrow>
     s' = s \<and> u_status u = ACTIVE \<and> \<not> has_active_ban s u"
  by (auto simp: check_standing_def op_simps)

lemma check_standing_state: "snd (check_standing u s) = s"
  by (simp add: check_standing_def op_simps)

lemma reset_keeps:
  "keeps (\<lambda>s. (clock s, users s, bans s, credentials s, user_sessions s, django_sessions s)) (reset e ident ip)"
  unfolding keeps_def by (intro allI preserves_intros) auto

lemma session_inv_next: "session_inv s \<Longrightarrow> session_inv (s\<lparr>next_id := Suc (next_id s)\<rparr>)"
  by (auto simp: session_inv_def)

lemma session_inv_stages:
  "preserves session_inv (check_account_lock e u rq)"
  "preserves session_inv (check_second_factor e u code ident ip)"
  "preserves session_inv (reset e ident ip)"
  unfolding check_account_lock_def check_second_factor_def
  by (intro preserves_intros session_inv_next; simp add: session_inv_def)+

lemma two_factor_verify_frame:
  assumes "clock t = clock s" and "credentials t = credentials s" and "recovery_codes t = recovery_codes s"
  shows "fst (two_factor_verify e u code t) = fst (two_factor_verify e u code s)"
  using assms
  by (auto simp: two_factor_verify_def consume_recovery_code_def op_simps split: option.splits sum.splits)

lemma check_second_factor_ok:
  assumes "check_second_factor e u code ident ip s = (Inr x, s')" and "two_factor_enabled e s u"
  shows "code \<noteq> [] \<and> (\<exists>b. fst (two_factor_verify e (u_id u) code s) = Inr (True, b))"
proof -
  obtain r t where v: "two_factor_verify e (u_id u) code s = (r, t)" by fastforce
  have "code \<noteq> []" using assms by (auto simp: check_second_factor_def op_simps)
  moreover obtain p where "r = Inr p"
    using assms \<open>code \<noteq> []\<close> v by (cases r) (auto simp: check_second_factor_def op_simps)
  moreover have "fst p"
    using assms \<open>code \<noteq> []\<close> v \<open>r = Inr p\<close>
    by (cases p; cases "register_failure e ident ip t"; cases "fst (register_failure e ident ip t)")
       (auto simp: check_second_factor_def op_simps split: if_splits)
  ultimately show ?thesis using v by (metis fst_conv prod.collapse)
qed

lemma check_account_lock_ok:
  assumes "settings_table_ok (security_settings s)" and "check_account_lock e u rq s = (Inr x, s')"
    and "r \<in> set (security_settings s)" and "ss_user r = u_id u"
  shows "\<not> is_locked (clock s) r"
proof -
  have "security_settings_of (u_id u) s = (Inr r, s)"
    using settings_by_user.get_by_key [OF assms(1,3)] assms(4) by (simp add: security_settings_of_def op_simps)
  then show ?thesis using assms(2)
    by (auto simp: check_account_lock_def op_simps is_locked_def split: option.splits if_splits)
qed

section \<open>Starting the session\<close>

lemma register_error: "register e u rq nk ident iv s = (Inl err, s') \<Longrightarrow> s' = s"
  unfolding register_def by (simp only: atomic_Inl_iff)

lemma notify_keeps: "keeps (\<lambda>s. (user_sessions s, django_sessions s)) (notify_new_device e u x rq)"
  unfolding keeps_def notify_new_device_def by (intro allI preserves_intros) auto

lemma notify_total:
  assumes "settings_table_ok (security_settings s)" and "preferences_table_ok (preferences s)"
  shows "\<exists>s'. notify_new_device e u x rq s = (Inr (), s')"
proof -
  let ?s = "snd (security_record e NEW_DEVICE_LOGIN (Some (u_id u)) (Some rq) [] s)"
  have ok: "settings_table_ok (security_settings ?s)" "preferences_table_ok (preferences ?s)"
    using assms by (simp_all add: op_simps)
  obtain p s1 where p: "preferences_of (u_id u) ?s = (Inr p, s1)" "security_settings s1 = security_settings ?s"
    by (rule preferences_of_run [OF ok(2), of "u_id u"]) auto
  obtain r s2 where "security_settings_of (u_id u) s1 = (Inr r, s2)"
    by (rule security_settings_of_run [of s1 "u_id u"]) (use ok p in auto)
  then show ?thesis using p by (simp add: notify_new_device_def op_simps)
qed

lemma start_session_ok:
  assumes "session_inv s" and "start_session e u rq rm ip nk ident iv s = (Inr (u', x), s')" and "nk \<noteq> []"
  shows "u_id u' = u_id u \<and> us_user x = u_id u \<and> us_revoked_at x = None \<and> x \<in> set (user_sessions s') \<and>
         us_session_key_hash x = session_hash e nk"
proof -
  let ?rq = "rq\<lparr>rq_session_key := Some nk\<rparr>"
  let ?s1 = "snd (set_expiry ?rq (if rm then 60 * 60 * 24 * 30 else 0) (snd (django_login u rq nk s)))"
  have inv: "session_inv ?s1" using assms(1) by (simp add: set_expiry_def django_login_def op_simps session_inv_def)
  have key: "current_key ?rq = Some nk" using assms(3) by (cases nk) (simp_all add: current_key_def)
  obtain p s2 where r: "register e (u_id u) ?rq nk ident iv ?s1 = (p, s2)" by fastforce
  obtain new where p: "p = Inr (x, new)" and u': "u_id u' = u_id u"
    using assms(2) r
    by (cases p) (auto simp: start_session_def set_expiry_def django_login_def op_simps Let_def
        split: if_splits sum.splits prod.splits)
  obtain g t where n: "t = s2\<lparr>users := g\<rparr>" and s': "user_sessions s' = user_sessions t"
  proof -
    let ?rec = "\<lambda>u. u\<lparr>u_last_login_ip := ip, u_last_login := Some (clock s2), u_updated_at := clock s2\<rparr>"
    let ?t = "snd (security_record e LOGIN_SUCCESS (Some (u_id u)) (Some ?rq) [] (s2\<lparr>users := update_where (\<lambda>v. u_id v = u_id u) ?rec (users s2)\<rparr>))"
    have "s' = snd (when_op new (notify_new_device e (?rec u) x ?rq) ?t)"
      using assms(2) r p
      by (cases "notify_new_device e (?rec u) x ?rq ?t")
         (auto simp: start_session_def set_expiry_def django_login_def op_simps Let_def split: if_splits sum.splits)
    then have "user_sessions s' = user_sessions s2"
      using keepsD [OF notify_keeps, of e "?rec u" x ?rq ?t] by (auto simp: op_simps)
    then show thesis using that [of "s2\<lparr>users := users s2\<rparr>" "users s2"] by simp
  qed
  from register_ok [OF inv r [unfolded p], of nk] key u' n s' show ?thesis by auto
qed

section \<open>The whole login\<close>

definition throttled :: "env \<Rightarrow> string \<Rightarrow> request \<Rightarrow> db \<Rightarrow> bool" where
  "throttled e identifier rq s \<longleftrightarrow>
     (case fst (check e identifier (get_client_ip e rq) s) of Inr ls \<Rightarrow> ls_locked ls | Inl _ \<Rightarrow> True)"

lemma check_run: "\<exists>ls. check e ident ip s = (Inr ls, s)"
  by (simp add: check_def op_simps Let_def)

lemma login_unthrottled:
  assumes "\<not> throttled e ident rq s"
  shows "login e rq ident pw code rm nk idt iv s =
    (case backend_authenticate e s ident pw of
       None \<Rightarrow> login_rejected e rq ident (get_client_ip e rq)
     | Some user \<Rightarrow>
         then_op (check_account_lock e user rq)
         (then_op (check_standing user)
         (then_op (check_second_factor e user code ident (get_client_ip e rq))
         (then_op (reset e ident (get_client_ip e rq))
         (start_session e user rq rm (get_client_ip e rq) nk idt iv))))) s"
  using check_run [of e ident "get_client_ip e rq" s] assms
  by (auto simp: login_def throttled_def op_simps Let_def)

lemma login_throttled:
  assumes "throttled e ident rq s"
  shows "\<exists>n. login e rq ident pw code rm nk idt iv s = (Inl (too_many_attempts n), s)"
  using check_run [of e ident "get_client_ip e rq" s] assms
  by (auto simp: login_def throttled_def op_simps Let_def)

lemma login_rejected_error: "\<exists>err s'. login_rejected e rq ident ip s = (Inl err, s')"
proof -
  have "\<exists>err s'. login_rejected e rq ident ip s = (err, s') \<and> isl err"
    unfolding login_rejected_def
    by (auto simp: op_simps split: prod.splits sum.splits)
  then show ?thesis by (auto simp: isl_def)
qed

lemma login_ok:
  assumes "login e rq ident pw code rm nk idt iv s = (Inr (u', x), s')"
  obtains user s1 s2 s3 where "\<not> throttled e ident rq s" and "backend_authenticate e s ident pw = Some user"
    and "check_account_lock e user rq s = (Inr (), s1)" and "check_standing user s1 = (Inr (), s1)"
    and "check_second_factor e user code ident (get_client_ip e rq) s1 = (Inr (), s2)"
    and "reset e ident (get_client_ip e rq) s2 = (Inr (), s3)"
    and "start_session e user rq rm (get_client_ip e rq) nk idt iv s3 = (Inr (u', x), s')"
proof -
  have nt: "\<not> throttled e ident rq s" 
    using login_throttled [of e ident rq s pw code rm nk idt iv] assms by auto
  have rej: "\<exists>err t. (login_rejected e rq ident (get_client_ip e rq) :: (user \<times> user_session) action) s = (Inl err, t)"
    by (rule login_rejected_error)
  obtain user where user: "backend_authenticate e s ident pw = Some user"
    using login_unthrottled [OF nt, of pw code rm nk idt iv] rej assms
    by (cases "backend_authenticate e s ident pw") auto
  have run: "then_op (check_account_lock e user rq)
         (then_op (check_standing user)
         (then_op (check_second_factor e user code ident (get_client_ip e rq))
         (then_op (reset e ident (get_client_ip e rq))
         (start_session e user rq rm (get_client_ip e rq) nk idt iv)))) s = (Inr (u', x), s')"
    using login_unthrottled [OF nt, of pw code rm nk idt iv] assms user by simp
  then obtain s1 s1' s2 s3 where st: "check_account_lock e user rq s = (Inr (), s1)" "check_standing user s1 = (Inr (), s1')"
    "check_second_factor e user code ident (get_client_ip e rq) s1' = (Inr (), s2)"
    "reset e ident (get_client_ip e rq) s2 = (Inr (), s3)"
    "start_session e user rq rm (get_client_ip e rq) nk idt iv s3 = (Inr (u', x), s')"
    by (auto simp: then_op_Inr_iff)
  moreover have "s1' = s1" using st(2) check_standing_state [of user s1] by simp
  ultimately show thesis using that nt user by blast
qed

lemma backend_authenticate_Some:
  "backend_authenticate e s ident pw = Some u \<Longrightarrow>
   u \<in> set (users s) \<and> identifies ident u \<and> check_password (plat e) pw (u_password u) \<and> u_is_active u"
proof -
  assume a: "backend_authenticate e s ident pw = Some u"
  then have "get_where ''User'' (identifies ident) (users s) = Inr u"
    and "check_password (plat e) pw (u_password u)" "u_is_active u"
    by (auto simp: backend_authenticate_def user_can_authenticate_def split: if_splits sum.splits)
  then show ?thesis using get_where_InrD by metis
qed

text \<open>What every way of presenting a credential promises.\<close>

locale account_gate =
  fixes admit :: "'c \<Rightarrow> 'r action"
    and account :: "'r \<Rightarrow> db \<Rightarrow> user \<Rightarrow> bool"
  assumes admits_available: "admit c s = (Inr r, s') \<Longrightarrow> \<exists>u. account r s u \<and> can_authenticate_now s u"
begin

lemma banned_not_admitted:
  assumes "admit c s = (Inr r, s')" and "\<And>u. account r s u \<Longrightarrow> has_active_ban s u"
  shows False
  using admits_available [OF assms(1)] assms(2) by (auto simp: can_authenticate_now_def)

lemma status_not_admitted:
  assumes "admit c s = (Inr r, s')" and "\<And>u. account r s u \<Longrightarrow> u_status u \<noteq> ACTIVE \<or> \<not> u_is_active u"
  shows False
  using admits_available [OF assms(1)] assms(2) by (auto simp: can_authenticate_now_def)

end

lemma login_admits:
  assumes "login e rq ident pw code rm nk idt iv s = (Inr (u', x), s')"
  shows "\<exists>user. user \<in> set (users s) \<and> u_id user = u_id u' \<and> backend_authenticate e s ident pw = Some user \<and>
     can_authenticate_now s user"
  using assms
proof (rule login_ok)
  fix user s1 s2 s3
  assume st: "backend_authenticate e s ident pw = Some user" "check_account_lock e user rq s = (Inr (), s1)"
    "check_standing user s1 = (Inr (), s1)"
    "start_session e user rq rm (get_client_ip e rq) nk idt iv s3 = (Inr (u', x), s')"
  have "standing s1 = standing s" using keeps_run [OF check_account_lock_keeps st(2)] by simp
  then have "has_active_ban s1 user = has_active_ban s user" by (simp add: standing_def has_active_ban_iff)
  then have "can_authenticate_now s user"
    using st(1,3) backend_authenticate_Some [OF st(1)] by (auto simp: check_standing_ok_iff can_authenticate_now_def)
  moreover have "u_id u' = u_id user"
    using st(4) by (auto simp: start_session_def op_Inr_iffs op_runs Let_def split: prod.splits)
  ultimately show ?thesis using st(1) backend_authenticate_Some [OF st(1)] by metis
qed

interpretation login_gate: account_gate
  "\<lambda>(rq, ident, pw, code, rm, nk, idt, iv). login e rq ident pw code rm nk idt iv"
  "\<lambda>r s u. u \<in> set (users s) \<and> u_id u = u_id (fst r)" for e
proof unfold_locales
  fix c s r s'
  assume "(case c of (rq, ident, pw, code, rm, nk, idt, iv) \<Rightarrow> login e rq ident pw code rm nk idt iv) s = (Inr r, s')"
  then show "\<exists>u. (u \<in> set (users s) \<and> u_id u = u_id (fst r)) \<and> can_authenticate_now s u"
    using login_admits by (cases c; cases r) fastforce
qed

lemma ensure_account_available_ok_iff:
  "ensure_account_available u s = (Inr x, s') \<longleftrightarrow> s' = s \<and> can_authenticate_now s u"
  by (auto simp: ensure_account_available_def op_simps)

text \<open>A lookup that does not write: what the token library documents for \<^verbatim>\<open>get_user\<close>.\<close>

definition read_only :: "('c \<Rightarrow> 'r action) \<Rightarrow> bool" where
  "read_only m \<longleftrightarrow> (\<forall>c s. snd (m c s) = s)"

lemma jwt_admits:
  assumes "read_only super_get_user" and "jwt_get_user super_get_user tok s = (Inr u, s')"
  shows "can_authenticate_now s u \<and> super_get_user tok s = (Inr u, s)"
proof -
  from assms(2) obtain s1 where g: "super_get_user tok s = (Inr u, s1)" "can_authenticate_now s1 u"
    by (auto simp: jwt_get_user_def op_Inr_iffs ensure_account_available_ok_iff op_runs)
  then show ?thesis using assms(1) by (metis read_only_def snd_conv)
qed

interpretation jwt_gate: account_gate
  "jwt_get_user (\<lambda>tok. bind_op (reads (lookup tok)) of_sum)" "\<lambda>r s u. u = r" for lookup :: "'c \<Rightarrow> db \<Rightarrow> error + user"
proof unfold_locales
  fix tok s r s'
  assume a: "jwt_get_user (\<lambda>tok. bind_op (reads (lookup tok)) of_sum) tok s = (Inr r, s')"
  have "read_only (\<lambda>tok. bind_op (reads (lookup tok)) of_sum)" by (simp add: read_only_def op_simps)
  from jwt_admits [OF this a] show "\<exists>u. u = r \<and> can_authenticate_now s u" by blast
qed

text \<open>A state in which a login succeeds.\<close>

definition demo_login :: db where
  "demo_login = demo_db\<lparr>security_settings := [security_settings_default 1 7 0], preferences := [preferences_default 2 7 0]\<rparr>"

lemma demo_login_stages:
  "check_account_lock demo_env demo_user demo_request demo_login = (Inr (), demo_login)"
  "check_standing demo_user demo_login = (Inr (), demo_login)"
  "check_second_factor demo_env demo_user [] ''bob'' ip demo_login = (Inr (), demo_login)"
  "reset demo_env ''bob'' ip demo_login = (Inr (), demo_login)"
  by (simp_all add: check_account_lock_def security_settings_of_def get_where_def op_simps demo_login_def
      demo_user_def security_settings_default_def check_standing_def demo_db_def empty_db_def has_active_ban_iff
      check_second_factor_def two_factor_enabled_def first_where_def reset_def delete_where_def demo_env_def
      default_settings_def Let_def)

lemma demo_login_succeeds:
  "\<not> isl (fst (login demo_env demo_request ''bob'' ''secret-password'' [] False ''k9'' ''ident1'' ''iv'' demo_login))"
proof -
  have nt: "\<not> throttled demo_env ''bob'' demo_request demo_login" by code_simp
  have au: "backend_authenticate demo_env demo_login ''bob'' ''secret-password'' = Some demo_user" by code_simp
  have "\<not> isl (fst (start_session demo_env demo_user demo_request False (get_client_ip demo_env demo_request)
     ''k9'' ''ident1'' ''iv'' demo_login))" by code_simp
  then show ?thesis by (simp add: login_unthrottled [OF nt] au then_op_run demo_login_stages)
qed

section \<open>Properties\<close>

text \<open>
  Property C1: a login succeeds only through every gate. If \<open>login\<close> returns a user and a session, then
  the attempt was not throttled, the identifier and the password are those of exactly one account,
  which is active, not banned and not locked; the second factor was verified when it is enabled; and
  the session is live, belongs to that account and carries the hash of the rotated session key.
\<close>

theorem login_success_gates:
  assumes "session_inv s" and "settings_table_ok (security_settings s)" and "new_key \<noteq> []"
    and "login e rq identifier password code remember new_key ident iv s = (Inr (u, x), s')"
  shows "\<not> throttled e identifier rq s \<and>
     (\<exists>user. backend_authenticate e s identifier password = Some user \<and> u_id user = u_id u \<and>
        can_authenticate_now s user \<and>
        (\<forall>r\<in>set (security_settings s). ss_user r = u_id user \<longrightarrow> \<not> is_locked (clock s) r) \<and>
        (two_factor_enabled e s user \<longrightarrow>
           code \<noteq> [] \<and> (\<exists>b. fst (two_factor_verify e (u_id user) code s) = Inr (True, b))) \<and>
        us_user x = u_id user \<and> us_revoked_at x = None \<and> x \<in> set (user_sessions s') \<and>
        us_session_key_hash x = session_hash e new_key)"
  using assms(4)
proof (rule login_ok)
  fix user s1 s2 s3
  assume st: "\<not> throttled e identifier rq s" "backend_authenticate e s identifier password = Some user"
    "check_account_lock e user rq s = (Inr (), s1)" "check_standing user s1 = (Inr (), s1)"
    "check_second_factor e user code identifier (get_client_ip e rq) s1 = (Inr (), s2)"
    "reset e identifier (get_client_ip e rq) s2 = (Inr (), s3)"
    "start_session e user rq remember (get_client_ip e rq) new_key ident iv s3 = (Inr (u, x), s')"
  have same: "clock s1 = clock s" "credentials s1 = credentials s" "recovery_codes s1 = recovery_codes s"
    using keeps_run [OF check_account_lock_keeps st(3)] by (simp_all add: standing_def)
  have inv: "session_inv s3"
    using preserves_run [OF session_inv_stages(1) assms(1) st(3)]
      preserves_run [OF session_inv_stages(2) _ st(5)] preserves_run [OF session_inv_stages(3) _ st(6)] by blast
  have fa: "code \<noteq> [] \<and> (\<exists>b. fst (two_factor_verify e (u_id user) code s) = Inr (True, b))"
    if "two_factor_enabled e s user"
    using check_second_factor_ok [OF st(5)] that same two_factor_verify_frame [of s1 s e "u_id user" code]
    by (simp add: two_factor_enabled_def)
  have "can_authenticate_now s user" using login_admits [OF assms(4)] st(2) by auto
  then show ?thesis
    using st(1,2) start_session_ok [OF inv st(7) assms(3)] check_account_lock_ok [OF assms(2) st(3)] fa by auto
qed

theorem login_success_gates_witness:
  "\<exists>u x s'. login demo_env demo_request ''bob'' ''secret-password'' [] False ''k9'' ''ident1'' ''iv'' demo_login =
       (Inr (u, x), s') \<and> us_user x = u_id u \<and> us_revoked_at x = None"
proof -
  have a: "session_inv demo_login" "settings_table_ok (security_settings demo_login)" by code_simp+
  obtain p s' where "login demo_env demo_request ''bob'' ''secret-password'' [] False ''k9'' ''ident1'' ''iv'' demo_login = (Inr p, s')"
    using demo_login_succeeds by (rule run_succeeds)
  then obtain u x where r: "login demo_env demo_request ''bob'' ''secret-password'' [] False ''k9'' ''ident1'' ''iv'' demo_login = (Inr (u, x), s')"
    by (cases p) auto
  show ?thesis using login_success_gates [OF a _ r] r by auto
qed

text \<open>
  A rejected login does not tell whether the account exists. When the backend finds no
  account for the identifier and the password, for whatever reason, an attempt that is not throttled
  ends in the error that the failure counter alone decides: the same text, with the code and status of
  a locked dimension or of a failed authentication. It also creates no session.
\<close>

theorem login_rejection_uniform:
  assumes "settings_table_ok (security_settings s)" and "preferences_table_ok (preferences s)"
    and "\<not> throttled e identifier rq s" and "backend_authenticate e s identifier password = None"
    and "register_failure e identifier (get_client_ip e rq) s = (Inr ls, t)"
  shows "\<exists>s'. login e rq identifier password code remember new_key ident iv s =
           (Inl (invalid_credentials (ls_locked ls)), s') \<and>
         user_sessions s' = user_sessions s \<and> django_sessions s' = django_sessions s"
proof -
  let ?m = "login_rejected e rq identifier (get_client_ip e rq) :: (user \<times> user_session) action"
  let ?P = "\<lambda>w s. (settings_table_ok (security_settings s) \<and> preferences_table_ok (preferences s)) \<and>
              user_sessions s = fst w \<and> django_sessions s = snd w"
  have t: "settings_table_ok (security_settings t)" "preferences_table_ok (preferences t)"
    using preserves_run [of "?P (user_sessions s, django_sessions s)", OF preserves_register_failure _ assms(5)] assms(1,2)
    by simp_all
  have "keeps (\<lambda>s. (user_sessions s, django_sessions s)) ?m"
    unfolding keeps_def login_rejected_def lock_known_account_def by (intro allI preserves_intros) auto
  then have k: "user_sessions (snd (?m s)) = user_sessions s" "django_sessions (snd (?m s)) = django_sessions s"
    using keepsD by fastforce+
  let ?t = "snd (security_record e LOGIN_FAILED None (Some rq) [(''identifier_hash'', PStr (digest e identifier))] t)"
  obtain t' where "lock_known_account e identifier (ls_retry_after ls) (Some rq) ?t = (Inr (), t')"
    by (rule exE [OF lock_known_account_total [of ?t]]) (use t in \<open>simp_all add: op_simps\<close>)
  then have "fst (?m s) = Inl (invalid_credentials (ls_locked ls))"
    by (simp add: login_rejected_def op_simps assms(5))
  moreover have "login e rq identifier password code remember new_key ident iv s = ?m s"
    using login_unthrottled [OF assms(3)] assms(4) by simp
  ultimately show ?thesis using k by (intro exI [of _ "snd (?m s)"]) (simp add: prod_eq_iff)
qed

theorem login_rejection_uniform_witness:
  "\<exists>s' b. login demo_env demo_request ''nobody'' ''secret-password'' [] False ''k9'' ''ident1'' ''iv'' demo_login =
     (Inl (invalid_credentials b), s') \<and> user_sessions s' = user_sessions demo_login"
proof -
  have a: "settings_table_ok (security_settings demo_login)" "preferences_table_ok (preferences demo_login)"
    "\<not> throttled demo_env ''nobody'' demo_request demo_login"
    "backend_authenticate demo_env demo_login ''nobody'' ''secret-password'' = None" by code_simp+
  have "\<not> isl (fst (register_failure demo_env ''nobody'' (get_client_ip demo_env demo_request) demo_login))" by code_simp
  then obtain ls t where r: "register_failure demo_env ''nobody'' (get_client_ip demo_env demo_request) demo_login = (Inr ls, t)"
    by (rule run_succeeds)
  show ?thesis using login_rejection_uniform [OF a r] by blast
qed





end
