(* ===== verification/Accounts.thy ===== *)
theory Accounts
  imports Login SignOut
begin

text \<open>
  \<^verbatim>\<open>UserManager\<close> of \<^verbatim>\<open>apps/accounts/models.py\<close> and \<^verbatim>\<open>AccountService\<close> of
  \<^verbatim>\<open>apps/authentication/services.py\<close>: registration, e-mail verification, password reset and change,
  change of address and of user name, deactivation and deletion. Random values (the raw token, the
  salt of a password hash) are arguments.
\<close>

section \<open>UserManager\<close>

definition normalize_email_address :: "env \<Rightarrow> string \<Rightarrow> string" where
  "normalize_email_address e email = py_casefold (normalize_email (plat e) (py_strip email))"

definition user_clash :: "db \<Rightarrow> user \<Rightarrow> bool" where
  \<comment> \<open>another row has the address or the user name, ignoring case: what the unique columns and the two
     constraints on \<^verbatim>\<open>Lower(email)\<close> and \<^verbatim>\<open>Lower(username)\<close> forbid\<close>
  "user_clash s u = exists_where (\<lambda>v. u_id v \<noteq> u_id u \<and>
     (iexact (u_email v) (u_email u) \<or> iexact (u_username v) (u_username u))) (users s)"

definition user_unique :: "user \<Rightarrow> unit action" where
  "user_unique u = bind_op (reads (\<lambda>s. user_clash s u)) (\<lambda>dup. raise_if dup (IntegrityError ''accounts_user''))"

definition user_save_all :: "env \<Rightarrow> user \<Rightarrow> user action" where
  \<comment> \<open>\<^verbatim>\<open>User.save()\<close> of an existing row: normalises, then writes every column\<close>
  "user_save_all e u =
     bind_op now_op (\<lambda>now.
     let row = u\<lparr>u_email := normalize_email_address e (u_email u), u_username := py_strip (u_username u),
                 u_updated_at := now\<rparr> in
     then_op (user_unique row)
     (then_op (user_update (u_id row) (\<lambda>_. row)) (ret row)))"

definition username_char :: "char \<Rightarrow> bool" where
  \<comment> \<open>the class \<^verbatim>\<open>[\w.@+-]\<close> over ASCII\<close>
  "username_char c \<longleftrightarrow>
     (let n = char_code c in (48 \<le> n \<and> n \<le> 57) \<or> (65 \<le> n \<and> n \<le> 90) \<or> (97 \<le> n \<and> n \<le> 122) \<or>
        c \<in> set ''_.@+-'')"

definition username_valid :: "string \<Rightarrow> bool" where
  \<comment> \<open>the pattern \<^verbatim>\<open>^[\w.@+-]+$\<close>, whose end also matches before a final newline, and the length\<close>
  "username_valid name \<longleftrightarrow>
     length name \<le> 150 \<and>
     (let body = (if name \<noteq> [] \<and> char_code (last name) = 10 then butlast name else name)
      in body \<noteq> [] \<and> list_all username_char body)"

definition user_clean :: "env \<Rightarrow> user \<Rightarrow> error option" where
  \<comment> \<open>\<^verbatim>\<open>full_clean(exclude={"password"}, validate_unique=False, validate_constraints=False)\<close>\<close>
  "user_clean e u =
     (if \<not> email_valid (plat e) (u_email u) \<or> 254 < length (u_email u) then Some (ValidationError ''email'')
      else if \<not> username_valid (u_username u) then Some (ValidationError ''username'')
      else if 150 < length (u_first_name u) then Some (ValidationError ''first_name'')
      else if 150 < length (u_last_name u) then Some (ValidationError ''last_name'')
      else if 32 < length (u_phone u) then Some (ValidationError ''phone'')
      else None)"

record extra_fields =
  x_first_name :: "string option"
  x_last_name :: "string option"
  x_is_staff :: "bool option"
  x_is_superuser :: "bool option"
  x_is_active :: "bool option"
  x_status :: "account_status option"
  x_email_verified_at :: "datetime option option"

definition no_extra :: extra_fields where
  "no_extra = \<lparr>x_first_name = None, x_last_name = None, x_is_staff = None, x_is_superuser = None,
     x_is_active = None, x_status = None, x_email_verified_at = None\<rparr>"

definition setdefault :: "'a option \<Rightarrow> 'a \<Rightarrow> 'a option" where
  "setdefault x v = (case x of None \<Rightarrow> Some v | Some w \<Rightarrow> Some w)"

definition given :: "'a option \<Rightarrow> 'a \<Rightarrow> 'a" where
  "given x v = (case x of None \<Rightarrow> v | Some w \<Rightarrow> w)"

definition new_user ::
    "env \<Rightarrow> string \<Rightarrow> string \<Rightarrow> string option \<Rightarrow> string \<Rightarrow> extra_fields \<Rightarrow> uuid \<Rightarrow> datetime \<Rightarrow> user" where
  \<comment> \<open>\<^verbatim>\<open>self.model(...)\<close> and \<^verbatim>\<open>set_password\<close>; columns that no extra field names take their defaults\<close>
  "new_user e email username password salt extra i now =
     \<lparr>u_id = i, u_email = normalize_email_address e email, u_username = py_strip username,
      u_password = (case password of None \<Rightarrow> unusable_password (plat e) salt
                    | Some p \<Rightarrow> make_password (plat e) p salt),
      u_first_name = given (x_first_name extra) [], u_last_name = given (x_last_name extra) [],
      u_avatar = [], u_phone = [], u_status = given (x_status extra) PENDING,
      u_email_verified_at = given (x_email_verified_at extra) None, u_phone_verified_at = None,
      u_is_active = given (x_is_active extra) True, u_is_staff = given (x_is_staff extra) False,
      u_is_superuser = given (x_is_superuser extra) False, u_date_joined = now, u_last_login = None,
      u_last_login_ip = None, u_created_at = now, u_updated_at = now\<rparr>"

definition user_insert :: "env \<Rightarrow> user \<Rightarrow> user action" where
  \<comment> \<open>\<^verbatim>\<open>User.save()\<close> of a new row\<close>
  "user_insert e user =
     (let row = user\<lparr>u_email := normalize_email_address e (u_email user), u_username := py_strip (u_username user)\<rparr> in
      then_op (user_unique row)
      (then_op (modify (\<lambda>s. s\<lparr>users := row # users s\<rparr>)) (ret row)))"

definition create_user_row ::
    "env \<Rightarrow> string \<Rightarrow> string \<Rightarrow> string option \<Rightarrow> string \<Rightarrow> extra_fields \<Rightarrow> user action" where
  \<comment> \<open>\<^verbatim>\<open>UserManager._create_user\<close>\<close>
  "create_user_row e email username password salt extra =
     then_op (raise_if (email = []) (ValueError ''Email is required''))
     (then_op (raise_if (username = []) (ValueError ''Username is required''))
     (bind_op fresh_id (\<lambda>i. bind_op now_op (\<lambda>now.
      let user = new_user e email username password salt extra i now in
      case user_clean e user of
        Some err \<Rightarrow> throw err
      | None \<Rightarrow> user_insert e user))))"

definition create_user ::
    "env \<Rightarrow> string \<Rightarrow> string \<Rightarrow> string option \<Rightarrow> string \<Rightarrow> extra_fields \<Rightarrow> user action" where
  "create_user e email username password salt extra =
     create_user_row e email username password salt
       (extra\<lparr>x_is_staff := setdefault (x_is_staff extra) False,
              x_is_superuser := setdefault (x_is_superuser extra) False,
              x_status := setdefault (x_status extra) PENDING\<rparr>)"

definition create_superuser ::
    "env \<Rightarrow> string \<Rightarrow> string \<Rightarrow> string option \<Rightarrow> string \<Rightarrow> extra_fields \<Rightarrow> user action" where
  "create_superuser e email username password salt extra =
     bind_op now_op (\<lambda>now.
     let extra' = extra\<lparr>x_is_staff := setdefault (x_is_staff extra) True,
              x_is_superuser := setdefault (x_is_superuser extra) True,
              x_is_active := setdefault (x_is_active extra) True,
              x_status := setdefault (x_status extra) ACTIVE,
              x_email_verified_at := setdefault (x_email_verified_at extra) (Some now)\<rparr> in
     then_op (raise_if (x_is_staff extra' \<noteq> Some True \<or> x_is_superuser extra' \<noteq> Some True)
        (ValueError ''Superusers must have is_staff=True and is_superuser=True''))
     (create_user_row e email username password salt extra'))"

section \<open>AccountService\<close>

definition conflict :: "string \<Rightarrow> error" where
  "conflict detail = api_error detail ''CONFLICT'' 409"

definition validate_password :: "env \<Rightarrow> string \<Rightarrow> user option \<Rightarrow> unit action" where
  \<comment> \<open>Django's validators, as the platform's predicate\<close>
  "validate_password e password user =
     raise_if (\<not> password_valid (plat e) password user) (ValidationError ''password'')"

definition audit_user :: "env \<Rightarrow> string \<Rightarrow> user \<Rightarrow> request option \<Rightarrow> unit action" where
  \<comment> \<open>\<^verbatim>\<open>AuditService.record(action=..., target=user, actor=user, request=request)\<close>\<close>
  "audit_user e action user rq =
     audit_record e ((audit_call action)
       \<lparr>aa_target := Some (user_target e user), aa_actor := Some (UserActor (u_id user)), aa_request := rq\<rparr>)"

definition profile_create :: "uuid \<Rightarrow> unit action" where
  "profile_create uid =
     bind_op fresh_id (\<lambda>i. bind_op now_op (\<lambda>now.
     bind_op (reads (\<lambda>s. exists_where (\<lambda>p. pf_user p = uid) (profiles s))) (\<lambda>dup.
     then_op (raise_if dup (IntegrityError ''user_id''))
     (modify (\<lambda>s. s\<lparr>profiles := \<lparr>pf_id = i, pf_user = uid, pf_bio = [], pf_website = [], pf_location = [],
        pf_created_at = now, pf_updated_at = now\<rparr> # profiles s\<rparr>)))))"

definition assign_default_role :: "uuid \<Rightarrow> unit action" where
  "assign_default_role uid =
     bind_op (reads (\<lambda>s. first_where (\<lambda>r. ro_slug r = ''user'') (roles s))) (\<lambda>found.
     case found of
       None \<Rightarrow> ret ()
     | Some role \<Rightarrow>
         bind_op (reads (\<lambda>s. exists_where (\<lambda>r. ur_user r = uid \<and> ur_role r = ro_id role) (user_roles s))) (\<lambda>present.
         bind_op now_op (\<lambda>now.
         when_op (\<not> present) (bind_op fresh_id (\<lambda>i. modify (\<lambda>s. s\<lparr>user_roles :=
           \<lparr>ur_id = i, ur_user = uid, ur_role = ro_id role, ur_granted_by = None, ur_valid_from = now, ur_valid_until = None\<rparr> #
           user_roles s\<rparr>))))))"

definition status_text :: "account_status \<Rightarrow> string" where
  "status_text st =
     (case st of ACTIVE \<Rightarrow> ''active'' | PENDING \<Rightarrow> ''pending'' | SUSPENDED \<Rightarrow> ''suspended''
      | BANNED \<Rightarrow> ''banned'' | DEACTIVATED \<Rightarrow> ''deactivated'' | DELETED \<Rightarrow> ''deleted'')"

definition verification_mail :: "env \<Rightarrow> user \<Rightarrow> string \<Rightarrow> unit action" where
  "verification_mail e user raw =
     enqueue_email e ''email_verification'' (u_email user) (''Verify your '' @ SITE_NAME (cfg e) @ '' email'')
       [(''user'', UserObject user),
        (''verification_url'', Plain (PStr (SITE_URL (cfg e) @ ''/verify-email?token='' @ raw)))]"

definition register_user ::
    "env \<Rightarrow> string \<Rightarrow> string \<Rightarrow> string \<Rightarrow> string \<Rightarrow> string \<Rightarrow> request option \<Rightarrow> string \<Rightarrow> string \<Rightarrow> user action" where
  "register_user e email username password first_name last_name rq salt raw = atomic
     (then_op (validate_password e password None)
     (bind_op (catch_op
        (create_user e email username (Some password) salt
           (no_extra\<lparr>x_first_name := Some first_name, x_last_name := Some last_name\<rparr>))
        (\<lambda>err. case err of
           IntegrityError _ \<Rightarrow> throw (conflict ''An account with those details already exists.'')
         | _ \<Rightarrow> throw err)) (\<lambda>user.
      then_op (profile_create (u_id user))
      (then_op (preferences_create (u_id user))
      (then_op (security_settings_create (u_id user))
      (then_op (assign_default_role (u_id user))
      (bind_op (issue e (u_id user) EMAIL_VERIFICATION (hours 24) [] raw) (\<lambda>raw_token.
       then_op (audit_record e ((audit_call ''user.created'')
          \<lparr>aa_target := Some (user_target e user), aa_actor := Some (UserActor (u_id user)), aa_request := rq,
           aa_after := [(''status'', PStr (status_text (u_status user)))]\<rparr>))
       (then_op (verification_mail e user raw_token)
       (ret user))))))))))"

definition verify_email :: "env \<Rightarrow> string \<Rightarrow> request option \<Rightarrow> user action" where
  "verify_email e raw rq = atomic
     (bind_op (consume e raw EMAIL_VERIFICATION) (\<lambda>token.
      bind_op (user_get (ot_user token)) (\<lambda>user.
      bind_op now_op (\<lambda>now.
      if u_email_verified_at user = None
      then
        let set_verified = (\<lambda>u. u\<lparr>u_email_verified_at := Some now,
              u_status := (if u_status user = PENDING then ACTIVE else u_status user), u_updated_at := now\<rparr>);
            user' = set_verified user in
        then_op (user_update (u_id user) set_verified)
        (then_op (audit_user e ''email.verified'' user' rq)
        (then_op (enqueue_email e ''welcome'' (u_email user') (''Welcome to '' @ SITE_NAME (cfg e)) [(''user'', UserObject user')])
        (ret user')))
      else ret user))))"

definition resend_verification :: "env \<Rightarrow> string \<Rightarrow> string \<Rightarrow> unit action" where
  "resend_verification e email raw =
     bind_op (reads (\<lambda>s. first_where (\<lambda>u. iexact (u_email u) (py_strip email) \<and> u_email_verified_at u = None \<and>
                u_is_active u) (users s))) (\<lambda>found.
     case found of
       None \<Rightarrow> ret ()
     | Some user \<Rightarrow>
         bind_op (issue e (u_id user) EMAIL_VERIFICATION (hours 24) [] raw) (\<lambda>raw'.
         verification_mail e user raw'))"

definition request_password_reset :: "env \<Rightarrow> string \<Rightarrow> string \<Rightarrow> unit action" where
  "request_password_reset e email raw =
     bind_op (reads (\<lambda>s. first_where (\<lambda>u. iexact (u_email u) (py_strip email) \<and> u_is_active u) (users s))) (\<lambda>found.
     case found of
       None \<Rightarrow> ret ()
     | Some user \<Rightarrow>
         bind_op (issue e (u_id user) PASSWORD_RESET (seconds (PASSWORD_RESET_TIMEOUT (cfg e))) [] raw) (\<lambda>raw'.
         enqueue_email e ''password_reset'' (u_email user) (''Reset your '' @ SITE_NAME (cfg e) @ '' password'')
           [(''user'', UserObject user),
            (''reset_url'', Plain (PStr (SITE_URL (cfg e) @ ''/reset-password?token='' @ raw')))]))"

definition password_changed_mail :: "env \<Rightarrow> user \<Rightarrow> unit action" where
  "password_changed_mail e user =
     enqueue_email e ''password_changed'' (u_email user)
       (''Your '' @ SITE_NAME (cfg e) @ '' password was changed'') [(''user'', UserObject user)]"

definition store_password :: "env \<Rightarrow> user \<Rightarrow> string \<Rightarrow> string \<Rightarrow> user action" where
  \<comment> \<open>\<^verbatim>\<open>set_password\<close>, saved with \<^verbatim>\<open>updated_at\<close>, and the time of the change in the security settings\<close>
  "store_password e user password salt =
     bind_op now_op (\<lambda>now.
     let f = (\<lambda>u. u\<lparr>u_password := make_password (plat e) password salt, u_updated_at := now\<rparr>) in
     then_op (user_update (u_id user) f)
     (bind_op (security_settings_of (u_id user)) (\<lambda>row.
      then_op (settings_row_update row (\<lambda>r. r\<lparr>ss_password_changed_at := Some now\<rparr>))
      (ret (f user)))))"

definition reset_password :: "env \<Rightarrow> string \<Rightarrow> string \<Rightarrow> request option \<Rightarrow> string \<Rightarrow> user action" where
  "reset_password e raw new_password rq salt = atomic
     (bind_op (consume e raw PASSWORD_RESET) (\<lambda>token.
      bind_op (user_get (ot_user token)) (\<lambda>user.
      then_op (validate_password e new_password (Some user))
      (bind_op (store_password e user new_password salt) (\<lambda>user'.
      then_op (revoke_all e (u_id user) (Some (UserActor (u_id user))) rq False)
      (then_op (revoke_all_jwt (u_id user))
      (then_op (security_record e PASSWORD_RESET_EVENT (Some (u_id user)) rq [])
      (then_op (audit_user e ''password.reset'' user' rq)
      (then_op (password_changed_mail e user')
      (ret user'))))))))))"

definition change_password :: "env \<Rightarrow> uuid \<Rightarrow> string \<Rightarrow> string \<Rightarrow> request option \<Rightarrow> string \<Rightarrow> unit action" where
  "change_password e user old_password new_password rq salt = atomic
     (bind_op (user_get user) (\<lambda>locked.
      then_op (raise_if (\<not> check_password (plat e) old_password (u_password locked)) authentication_failed)
      (then_op (validate_password e new_password (Some locked))
      (bind_op (store_password e locked new_password salt) (\<lambda>locked'.
      then_op (revoke_all e (u_id locked) (Some (UserActor (u_id locked))) rq True)
      (then_op (revoke_all_jwt (u_id locked))
      (then_op (security_record e PASSWORD_CHANGED (Some (u_id locked)) rq [])
      (then_op (audit_user e ''password.changed'' locked' rq)
      (password_changed_mail e locked')))))))))"

definition email_unavailable :: error where
  "email_unavailable = conflict ''That email address is unavailable.''"

definition email_taken :: "string \<Rightarrow> uuid \<Rightarrow> db \<Rightarrow> bool" where
  \<comment> \<open>\<^verbatim>\<open>User.objects.filter(email__iexact=...).exclude(pk=...).exists()\<close>\<close>
  "email_taken email pk s = exists_where (\<lambda>u. iexact (u_email u) email \<and> u_id u \<noteq> pk) (users s)"

definition request_email_change :: "env \<Rightarrow> user \<Rightarrow> string \<Rightarrow> string \<Rightarrow> string \<Rightarrow> unit action" where
  "request_email_change e user password new_email raw =
     (let normalized = normalize_email_address e new_email in
      then_op (raise_if (\<not> check_password (plat e) password (u_password user)) authentication_failed)
      (bind_op (reads (email_taken normalized (u_id user))) (\<lambda>taken.
       then_op (raise_if taken email_unavailable)
       (bind_op (issue e (u_id user) EMAIL_CHANGE (hours 1) [(''new_email'', normalized)] raw) (\<lambda>raw'.
        enqueue_email e ''email_verification'' normalized (''Confirm your new '' @ SITE_NAME (cfg e) @ '' email'')
          [(''user'', UserObject user),
           (''verification_url'', Plain (PStr (SITE_URL (cfg e) @ ''/confirm-email-change?token='' @ raw')))])))))"

definition confirm_email_change :: "env \<Rightarrow> string \<Rightarrow> request option \<Rightarrow> user action" where
  "confirm_email_change e raw rq = atomic
     (bind_op (consume e raw EMAIL_CHANGE) (\<lambda>token.
      bind_op (user_get (ot_user token)) (\<lambda>user.
      bind_op (case pair_get ''new_email'' (ot_metadata token) of
                 None \<Rightarrow> throw (KeyError ''new_email'') | Some m \<Rightarrow> ret m) (\<lambda>new_email.
      bind_op (reads (email_taken new_email (u_id user))) (\<lambda>taken.
      then_op (raise_if taken email_unavailable)
      (bind_op now_op (\<lambda>now.
      let f = (\<lambda>u. u\<lparr>u_email := normalize_email_address e new_email, u_email_verified_at := Some now, u_updated_at := now\<rparr>);
          user' = f user in
      then_op (user_unique user')
      (then_op (user_update (u_id user) f)
      (then_op (revoke_all e (u_id user) (Some (UserActor (u_id user))) rq True)
      (then_op (revoke_all_jwt (u_id user))
      (then_op (security_record e EMAIL_CHANGED (Some (u_id user)) rq [])
      (then_op (audit_record e ((audit_call ''email.changed'')
         \<lparr>aa_target := Some (user_target e user'), aa_actor := Some (UserActor (u_id user)), aa_request := rq,
          aa_before := [(''email'', PStr (u_email user))], aa_after := [(''email'', PStr new_email)]\<rparr>))
      (then_op (enqueue_email e ''email_changed'' (u_email user)
         (''Your '' @ SITE_NAME (cfg e) @ '' email was changed'')
         [(''user'', UserObject user'), (''new_email'', Plain (PStr new_email))])
      (ret user'))))))))))))))"

definition user_constraints_hold :: "db \<Rightarrow> user \<Rightarrow> bool" where
  \<comment> \<open>\<^verbatim>\<open>validate_constraints\<close>, which looks for the same clash\<close>
  "user_constraints_hold s u \<longleftrightarrow> \<not> user_clash s u"

definition change_username :: "env \<Rightarrow> uuid \<Rightarrow> string \<Rightarrow> request option \<Rightarrow> user action" where
  "change_username e user username rq = atomic
     (bind_op (user_get user) (\<lambda>locked.
      bind_op now_op (\<lambda>now.
      let new = locked\<lparr>u_username := py_strip username\<rparr>;
          f = (\<lambda>u. u\<lparr>u_username := py_strip username, u_updated_at := now\<rparr>) in
      then_op (catch_op
        (bind_op (reads (\<lambda>s. user_constraints_hold s new)) (\<lambda>unique.
         case user_clean e new of
           Some err \<Rightarrow> throw err
         | None \<Rightarrow>
             then_op (raise_if (\<not> unique) (ValidationError ''accounts_user_username_ci_unique''))
             (then_op (user_unique new) (user_update (u_id locked) f))))
        (\<lambda>err. case err of
           IntegrityError _ \<Rightarrow> throw (conflict ''That username is unavailable.'')
         | _ \<Rightarrow> throw err))
      (then_op (audit_record e ((audit_call ''username.changed'')
         \<lparr>aa_target := Some (user_target e new), aa_actor := Some (UserActor (u_id locked)), aa_request := rq,
          aa_before := [(''username'', PStr (u_username locked))], aa_after := [(''username'', PStr (u_username new))]\<rparr>))
      (ret (f locked))))))"

definition deactivate :: "env \<Rightarrow> uuid \<Rightarrow> string \<Rightarrow> request option \<Rightarrow> unit action" where
  "deactivate e user password rq = atomic
     (bind_op (user_get user) (\<lambda>locked.
      then_op (raise_if (\<not> check_password (plat e) password (u_password locked)) authentication_failed)
      (bind_op now_op (\<lambda>now.
      then_op (user_update (u_id locked)
         (\<lambda>u. u\<lparr>u_status := DEACTIVATED, u_is_active := False, u_updated_at := now\<rparr>))
      (then_op (revoke_all e (u_id locked) (Some (UserActor (u_id locked))) rq False)
      (then_op (revoke_all_jwt (u_id locked))
      (then_op (security_record e ACCOUNT_DEACTIVATED (Some (u_id locked)) rq [])
      (audit_user e ''account.deactivated'' locked rq))))))))"

definition request_deletion :: "env \<Rightarrow> user \<Rightarrow> string \<Rightarrow> string \<Rightarrow> unit action" where
  "request_deletion e user password raw =
     then_op (raise_if (\<not> check_password (plat e) password (u_password user)) authentication_failed)
     (bind_op (issue e (u_id user) ACCOUNT_DELETION (hours 1) [] raw) (\<lambda>raw'.
      enqueue_email e ''account_security_warning'' (u_email user)
        (''Confirm deletion of your '' @ SITE_NAME (cfg e) @ '' account'')
        [(''user'', UserObject user),
         (''action_url'', Plain (PStr (SITE_URL (cfg e) @ ''/delete-account?token='' @ raw')))]))"

definition anonymised :: "env \<Rightarrow> string \<Rightarrow> user \<Rightarrow> user" where
  "anonymised e salt u =
     u\<lparr>u_email := ''deleted-'' @ uuid_hex (plat e) (u_id u) @ ''@invalid.local'',
       u_username := ''deleted-'' @ uuid_hex (plat e) (u_id u),
       u_first_name := [], u_last_name := [], u_phone := [], u_avatar := [], u_status := DELETED,
       u_is_active := False, u_email_verified_at := None, u_phone_verified_at := None,
       u_password := unusable_password (plat e) salt\<rparr>"

definition confirm_deletion :: "env \<Rightarrow> string \<Rightarrow> request option \<Rightarrow> string \<Rightarrow> unit action" where
  "confirm_deletion e raw rq salt = atomic
     (bind_op (consume e raw ACCOUNT_DELETION) (\<lambda>token.
      bind_op (user_get (ot_user token)) (\<lambda>user.
      bind_op (user_save_all e (anonymised e salt user)) (\<lambda>user'.
      then_op (modify (\<lambda>s. s\<lparr>profiles := update_where (\<lambda>p. pf_user p = u_id user)
         (\<lambda>p. p\<lparr>pf_bio := [], pf_website := [], pf_location := []\<rparr>) (profiles s)\<rparr>))
      (then_op (revoke_all e (u_id user) (Some (UserActor (u_id user))) rq False)
      (then_op (revoke_all_jwt (u_id user))
      (then_op (security_record e ACCOUNT_DELETED (Some (u_id user)) rq [])
      (then_op (audit_record e ((audit_call ''account.deleted'')
         \<lparr>aa_target := Some (user_target e user'), aa_actor := Some (UserActor (u_id user)), aa_request := rq,
          aa_before := [(''email'', PStr (u_email user)), (''username'', PStr (u_username user))],
          aa_after := [(''status'', PStr (status_text DELETED))],
          aa_target_repr := Some (''Deleted user '' @ uuid_hex (plat e) (u_id user))\<rparr>))
      (then_op (when_op (u_avatar user \<noteq> []) (modify (\<lambda>s. s\<lparr>deleted_files := u_avatar user # deleted_files s\<rparr>)))
      (modify (\<lambda>s. s\<lparr>published := ''account.deleted'' # published s\<rparr>)))))))))))"

section \<open>What the operations keep\<close>

lemma preserves_issue [preserves_intros]:
  assumes "\<And>s. P s \<Longrightarrow> P (s\<lparr>next_id := Suc (next_id s)\<rparr>)" and "\<And>s x. P s \<Longrightarrow> P (s\<lparr>one_time_tokens := x\<rparr>)"
  shows "preserves P (issue e u p ttl md raw)"
  unfolding issue_def token_create_def by (intro preserves_intros assms)

lemma preserves_consume [preserves_intros]:
  assumes "\<And>s x. P s \<Longrightarrow> P (s\<lparr>one_time_tokens := x\<rparr>)"
  shows "preserves P (consume e raw p)"
  unfolding consume_def by (intro preserves_intros assms)

lemma preserves_revoke_all [preserves_intros]:
  assumes "\<And>s x. P s \<Longrightarrow> P (s\<lparr>user_sessions := x\<rparr>)" and "\<And>s x. P s \<Longrightarrow> P (s\<lparr>django_sessions := x\<rparr>)"
    and "\<And>s x. P s \<Longrightarrow> P (s\<lparr>security_events := x\<rparr>)" and "\<And>s x. P s \<Longrightarrow> P (s\<lparr>audit_logs := x\<rparr>)"
  shows "preserves P (revoke_all e u actor rq ex)"
proof -
  have "preserves P (delete_django_session e r)" for r
    unfolding delete_django_session_def by (intro preserves_intros assms) (auto split: error.splits intro: preserves_intros)
  then have "preserves P (revoke e r actor rq)" for r
    unfolding revoke_def by (intro preserves_intros assms)
  then show ?thesis unfolding revoke_all_def current_def by (intro preserves_intros)
qed

lemma preserves_blacklist_each:
  assumes "\<And>s x. P s \<Longrightarrow> P (s\<lparr>blacklisted := x\<rparr>)"
  shows "preserves P (blacklist_each ts n)"
  by (induction ts arbitrary: n) (auto intro!: preserves_intros assms)

lemma preserves_revoke_all_jwt [preserves_intros]:
  assumes "\<And>s x. P s \<Longrightarrow> P (s\<lparr>blacklisted := x\<rparr>)"
  shows "preserves P (revoke_all_jwt u)"
  unfolding revoke_all_jwt_def by (intro preserves_intros preserves_blacklist_each assms)

lemma preserves_user_unique [preserves_intros]: "preserves P (user_unique u)"
  unfolding user_unique_def by (intro preserves_intros)

lemma preserves_validate_password [preserves_intros]: "preserves P (validate_password e pw u)"
  unfolding validate_password_def by (rule preserves_raise_if)

lemma preserves_audit_user [preserves_intros]:
  "(\<And>s r. P s \<Longrightarrow> P (s\<lparr>audit_logs := r # audit_logs s\<rparr>)) \<Longrightarrow> preserves P (audit_user e a u rq)"
  unfolding audit_user_def by (rule preserves_audit_record)

lemma preserves_password_changed_mail [preserves_intros]:
  "(\<And>s m. P s \<Longrightarrow> P (s\<lparr>outbox := m # outbox s\<rparr>)) \<Longrightarrow> preserves P (password_changed_mail e u)"
  unfolding password_changed_mail_def by (rule preserves_enqueue_email)

lemma preserves_verification_mail [preserves_intros]:
  "(\<And>s m. P s \<Longrightarrow> P (s\<lparr>outbox := m # outbox s\<rparr>)) \<Longrightarrow> preserves P (verification_mail e u raw)"
  unfolding verification_mail_def by (rule preserves_enqueue_email)

section \<open>Account invariant\<close>

text \<open>
  Primary keys are unique and drawn from the supply; no two accounts have the same address or the
  same user name, ignoring case.
\<close>

definition account_inv :: "db \<Rightarrow> bool" where
  "account_inv s \<longleftrightarrow>
     distinct (map u_id (users s)) \<and> (\<forall>u\<in>set (users s). u_id u < next_id s) \<and>
     distinct (map (\<lambda>u. py_lower (u_email u)) (users s)) \<and>
     distinct (map (\<lambda>u. py_lower (u_username u)) (users s))"

lemma account_inv_users: "users t = users s \<Longrightarrow> next_id s \<le> next_id t \<Longrightarrow> account_inv s \<Longrightarrow> account_inv t"
  by (auto simp: account_inv_def)

lemma account_inv_update:
  assumes "account_inv s" and "\<And>u. u_id (f u) = u_id u"
    and "\<And>u v. u \<in> set (users s) \<Longrightarrow> u_id u = pk \<Longrightarrow> v \<in> set (users s) \<Longrightarrow> u_id v \<noteq> pk \<Longrightarrow>
           py_lower (u_email v) \<noteq> py_lower (u_email (f u)) \<and> py_lower (u_username v) \<noteq> py_lower (u_username (f u))"
  shows "account_inv (s\<lparr>users := update_where (\<lambda>u. u_id u = pk) f (users s)\<rparr>)"
proof -
  let ?t = "update_where (\<lambda>u. u_id u = pk) f (users s)"
  have d: "distinct (map u_id (users s))" using assms(1) by (simp add: account_inv_def)
  have "distinct (map (\<lambda>u. py_lower (u_email u)) ?t)"
    using assms by (intro distinct_update [OF d]) (auto simp: account_inv_def)
  moreover have "distinct (map (\<lambda>u. py_lower (u_username u)) ?t)"
    using assms by (intro distinct_update [OF d]) (auto simp: account_inv_def)
  moreover have "u_id u < next_id s" if "u \<in> set ?t" for u
    using that by (cases rule: update_whereE) (use assms(1,2) in \<open>auto simp: account_inv_def\<close>)
  ultimately show ?thesis using d assms(2) by (simp add: account_inv_def update_where_map)
qed

lemma account_inv_other:
  "account_inv s \<Longrightarrow> u \<in> set (users s) \<Longrightarrow> v \<in> set (users s) \<Longrightarrow> u_id v \<noteq> u_id u \<Longrightarrow>
   py_lower (u_email v) \<noteq> py_lower (u_email u) \<and> py_lower (u_username v) \<noteq> py_lower (u_username u)"
  by (auto simp: account_inv_def distinct_map inj_on_def)

lemma account_inv_update_same:
  assumes "account_inv s" and "\<And>u. u_id (f u) = u_id u" and "\<And>u. u_email (f u) = u_email u"
    and "\<And>u. u_username (f u) = u_username u"
  shows "account_inv (s\<lparr>users := update_where (\<lambda>u. u_id u = pk) f (users s)\<rparr>)"
  using assms account_inv_other [OF assms(1)] by (intro account_inv_update) auto

text \<open>A save after the uniqueness check keeps the invariant.\<close>

lemma user_unique_run [op_simps]:
  "user_unique u s = (if user_clash s u then (Inl (IntegrityError ''accounts_user''), s) else (Inr (), s))"
  by (simp add: user_unique_def op_simps)

lemma user_clashD:
  "\<not> user_clash s row \<Longrightarrow> v \<in> set (users s) \<Longrightarrow> u_id v \<noteq> u_id row \<Longrightarrow>
   py_lower (u_email v) \<noteq> py_lower (u_email row) \<and> py_lower (u_username v) \<noteq> py_lower (u_username row)"
  by (auto simp: user_clash_def iexact_def)

lemma preserves_checked_update:
  assumes "\<And>u. u_id (f u) = u_id u" and "\<And>u. u_email (f u) = u_email u \<or> u_email (f u) = u_email row"
    and "\<And>u. u_username (f u) = u_username u \<or> u_username (f u) = u_username row"
    and "preserves account_inv m" and "u_id row = pk"
  shows "preserves account_inv (then_op (user_unique row) (then_op (user_update pk f) m))"
proof (rule preservesI)
  fix s assume inv: "account_inv s"
  let ?s = "s\<lparr>users := update_where (\<lambda>u. u_id u = pk) f (users s)\<rparr>"
  show "account_inv (snd (then_op (user_unique row) (then_op (user_update pk f) m) s))"
  proof (cases "user_clash s row")
    case True
    then show ?thesis using inv by (simp add: op_simps)
  next
    case False
    have "account_inv ?s"
    proof (rule account_inv_update [OF inv assms(1)])
      fix u v
      assume "u \<in> set (users s)" "u_id u = pk" "v \<in> set (users s)" "u_id v \<noteq> pk"
      then show "py_lower (u_email v) \<noteq> py_lower (u_email (f u)) \<and> py_lower (u_username v) \<noteq> py_lower (u_username (f u))"
        using account_inv_other [OF inv, of u v] user_clashD [OF False, of v] assms(2) [of u] assms(3) [of u] assms(5)
        by auto
    qed
    then have "account_inv (snd (m ?s))" using preservesD [OF assms(4)] by blast
    then show ?thesis using False by (simp add: op_simps)
  qed
qed

lemma preserves_checked_save:
  assumes "\<And>u. u_id (f u) = u_id u" and "\<And>u. u_email (f u) = u_email u \<or> u_email (f u) = u_email row"
    and "\<And>u. u_username (f u) = u_username u \<or> u_username (f u) = u_username row" and "u_id row = pk"
  shows "preserves account_inv (then_op (user_unique row) (user_update pk f))"
proof -
  have "user_update pk f = then_op (user_update pk f) (ret ())" by (rule ext) (simp add: op_simps)
  then show ?thesis using preserves_checked_update [OF assms(1-3) preserves_ret assms(4), where x1 = "()"] by simp
qed

lemma new_user_id [simp]: "u_id (new_user e email name pw salt x i now) = i"
  by (simp add: new_user_def)

lemma user_insert_run:
  "user_insert e u s =
     (let row = u\<lparr>u_email := normalize_email_address e (u_email u), u_username := py_strip (u_username u)\<rparr>
      in if user_clash s row then (Inl (IntegrityError ''accounts_user''), s)
         else (Inr row, s\<lparr>users := row # users s\<rparr>))"
  by (simp add: user_insert_def op_simps Let_def)

lemma account_inv_insert:
  assumes "account_inv s" and "u_id row = next_id s" and "\<not> user_clash s row"
  shows "account_inv (s\<lparr>next_id := Suc (next_id s), users := row # users s\<rparr>)"
proof -
  have id: "u_id v \<noteq> u_id row" if "v \<in> set (users s)" for v using assms(1,2) that by (auto simp: account_inv_def)
  have "u_id row \<notin> u_id ` set (users s)" using id by force
  moreover have "py_lower (u_email row) \<notin> (\<lambda>u. py_lower (u_email u)) ` set (users s)"
    "py_lower (u_username row) \<notin> (\<lambda>u. py_lower (u_username u)) ` set (users s)"
    using id user_clashD [OF assms(3)] by force+
  ultimately show ?thesis using assms(1,2) by (simp add: account_inv_def less_Suc_eq)
qed

lemma account_inv_next: "account_inv s \<Longrightarrow> account_inv (s\<lparr>next_id := Suc (next_id s)\<rparr>)"
  by (auto simp: account_inv_def)

lemma create_user_row_inv: "preserves account_inv (create_user_row e email name pw salt x)"
proof (rule preservesI)
  fix s assume inv: "account_inv s"
  let ?u = "new_user e email name pw salt x (next_id s) (clock s)"
  let ?row = "?u\<lparr>u_email := normalize_email_address e (u_email ?u), u_username := py_strip (u_username ?u)\<rparr>"
  have "user_clash (s\<lparr>next_id := n\<rparr>) ?row = user_clash s ?row" for n by (simp add: user_clash_def)
  then show "account_inv (snd (create_user_row e email name pw salt x s))"
    using inv account_inv_next [OF inv] account_inv_insert [OF inv, of ?row]
    by (auto simp: create_user_row_def user_insert_run op_simps Let_def split: option.splits)
qed

lemmas account_inv_frames = account_inv_users [rotated 2]

lemma preserves_preserved_create:
  "preserves account_inv (profile_create u)"
  "preserves account_inv (assign_default_role u)"
  "preserves account_inv (store_password e v pw salt)"
  "preserves account_inv (user_save_all e v)"
proof -
  show "preserves account_inv (profile_create u)" unfolding profile_create_def
    by (intro preserves_intros account_inv_next) (auto simp: account_inv_def)
  show "preserves account_inv (assign_default_role u)" unfolding assign_default_role_def
    by (intro preserves_intros account_inv_next) (auto simp: account_inv_def)
  show "preserves account_inv (store_password e v pw salt)" unfolding store_password_def Let_def
    by (intro preserves_intros account_inv_next account_inv_update_same) (auto simp: account_inv_def)
  have "preserves account_inv (then_op (user_unique r) (then_op (user_update (u_id r) (\<lambda>_. r)) (ret r)))" for r
  proof (rule preservesI)
    fix s assume inv: "account_inv s"
    show "account_inv (snd (then_op (user_unique r) (then_op (user_update (u_id r) (\<lambda>_. r)) (ret r)) s))"
    proof (cases "user_clash s r")
      case False
      have i: "distinct (map u_id (users s))" using inv by (simp add: account_inv_def)
      let ?t = "update_where (\<lambda>u. u_id u = u_id r) (\<lambda>_. r) (users s)"
      have "distinct (map u_id ?t)" "distinct (map (\<lambda>u. py_lower (u_email u)) ?t)" "distinct (map (\<lambda>u. py_lower (u_username u)) ?t)"
        using inv user_clashD [OF False] by (auto simp: account_inv_def intro!: distinct_replace)
      moreover have "u_id u < next_id s" if "u \<in> set ?t" for u
        using that by (cases rule: update_whereE) (use inv in \<open>auto simp: account_inv_def\<close>)
      ultimately show ?thesis using False by (simp add: op_simps account_inv_def)
    qed (use inv in \<open>simp add: op_simps\<close>)
  qed
  then show "preserves account_inv (user_save_all e v)" unfolding user_save_all_def Let_def
    by (intro preserves_bind_op preserves_now_op)
qed

text \<open>The operations that create or change account rows.\<close>

inductive account_step :: "env \<Rightarrow> db \<Rightarrow> db \<Rightarrow> bool" for e :: env where
  register: "register_user e email name pw fn ln rq salt raw s = (r, t) \<Longrightarrow> account_step e s t"
| superuser: "create_superuser e email name pw' salt x s = (r', t) \<Longrightarrow> account_step e s t"
| verify: "verify_email e raw rq s = (r', t) \<Longrightarrow> account_step e s t"
| reset: "reset_password e raw pw rq salt s = (r', t) \<Longrightarrow> account_step e s t"
| change_pw: "change_password e uid old pw rq salt s = (r'', t) \<Longrightarrow> account_step e s t"
| change_email: "confirm_email_change e raw rq s = (r', t) \<Longrightarrow> account_step e s t"
| change_name: "change_username e uid name rq s = (r', t) \<Longrightarrow> account_step e s t"
| deactivation: "deactivate e uid pw rq s = (r'', t) \<Longrightarrow> account_step e s t"
| deletion: "confirm_deletion e raw rq salt s = (r'', t) \<Longrightarrow> account_step e s t"

lemma account_ops_preserve:
  "preserves account_inv (create_superuser e email name pw' salt x)"
  "preserves account_inv (register_user e email name pw fn ln rq salt raw)"
  "preserves account_inv (verify_email e raw rq)"
  "preserves account_inv (reset_password e raw pw rq salt)"
  "preserves account_inv (change_password e uid old pw rq salt)"
  "preserves account_inv (confirm_email_change e raw rq)"
  "preserves account_inv (change_username e uid name rq)"
  "preserves account_inv (deactivate e uid pw rq)"
  "preserves account_inv (confirm_deletion e raw rq salt)"
proof -
  note frame = account_inv_next account_inv_update_same
  show "preserves account_inv (create_superuser e email name pw' salt x)"
    unfolding create_superuser_def Let_def by (intro preserves_intros create_user_row_inv)
  have cu: "preserves account_inv (catch_op (create_user e email name pw'' salt x)
     (\<lambda>err. case err of IntegrityError _ \<Rightarrow> throw c | _ \<Rightarrow> throw err))" for pw'' c x
    unfolding create_user_def
    by (intro preserves_catch_op create_user_row_inv) (auto split: error.splits intro: preserves_throw)
  show "preserves account_inv (register_user e email name pw fn ln rq salt raw)"
    unfolding register_user_def
    by (intro preserves_atomic preserves_bind_op preserves_then_op preserves_validate_password cu
        preserves_preserved_create preserves_preferences_create preserves_security_settings_create preserves_issue
        preserves_audit_record preserves_verification_mail preserves_ret frame) (auto simp: account_inv_def)
  show "preserves account_inv (verify_email e raw rq)"
    unfolding verify_email_def Let_def by (intro preserves_intros frame) (auto simp: account_inv_def)
  show "preserves account_inv (reset_password e raw pw rq salt)"
    unfolding reset_password_def by (intro preserves_intros preserves_preserved_create frame) (auto simp: account_inv_def)
  show "preserves account_inv (change_password e uid old pw rq salt)"
    unfolding change_password_def by (intro preserves_intros preserves_preserved_create frame) (auto simp: account_inv_def)
  show "preserves account_inv (confirm_email_change e raw rq)"
    unfolding confirm_email_change_def Let_def
    by (intro preserves_atomic preserves_consume preserves_user_get preserves_reads preserves_raise_if preserves_now_op
        preserves_case_option preserves_throw preserves_ret preserves_bind_op preserves_checked_update preserves_then_op
        preserves_revoke_all preserves_revoke_all_jwt preserves_security_record preserves_audit_record preserves_enqueue_email)
       (auto simp: account_inv_def)
  show "preserves account_inv (change_username e uid name rq)"
    unfolding change_username_def Let_def
    by (intro preserves_atomic preserves_bind_op preserves_user_get preserves_now_op preserves_then_op preserves_catch_op
        preserves_reads preserves_case_option preserves_throw preserves_raise_if preserves_checked_save
        preserves_audit_record preserves_ret)
       (auto simp: account_inv_def split: error.splits intro: preserves_throw)
  show "preserves account_inv (deactivate e uid pw rq)"
    unfolding deactivate_def by (intro preserves_intros frame) (auto simp: account_inv_def)
  show "preserves account_inv (confirm_deletion e raw rq salt)"
    unfolding confirm_deletion_def by (intro preserves_intros preserves_preserved_create frame) (auto simp: account_inv_def)
qed

lemma account_step_inv: "account_step e s t \<Longrightarrow> account_inv s \<Longrightarrow> account_inv t"
  by (induction rule: account_step.induct) (rule account_ops_preserve [THEN preserves_run], assumption, assumption)+

section \<open>What the operations do\<close>

definition with_password :: "env \<Rightarrow> string \<Rightarrow> string \<Rightarrow> datetime \<Rightarrow> user \<Rightarrow> user" where
  "with_password e pw salt now u = u\<lparr>u_password := make_password (plat e) pw salt, u_updated_at := now\<rparr>"

lemma with_password_simps [simp]:
  "u_id (with_password e pw salt now u) = u_id u"
  "u_password (with_password e pw salt now u) = make_password (plat e) pw salt"
  by (simp_all add: with_password_def)

lemma store_password_run:
  assumes "settings_table_ok (security_settings s)"
  obtains n ss where "store_password e u pw salt s =
      (Inr (with_password e pw salt (clock s) u), s\<lparr>users :=
         update_where (\<lambda>v. u_id v = u_id u) (with_password e pw salt (clock s)) (users s),
         next_id := n, security_settings := ss\<rparr>)"
proof -
  let ?f = "with_password e pw salt (clock s)"
  let ?s = "s\<lparr>users := update_where (\<lambda>v. u_id v = u_id u) ?f (users s)\<rparr>"
  have f: "?f = (\<lambda>u. u\<lparr>u_password := make_password (plat e) pw salt, u_updated_at := clock s\<rparr>)"
    by (rule ext) (simp add: with_password_def)
  have "settings_table_ok (security_settings ?s)" using assms by simp
  then show thesis
  proof (cases rule: security_settings_of_run [where uid = "u_id u"])
    case (present row)
    then show thesis using that [of _ "next_id s"]
      by (simp add: store_password_def op_simps Let_def settings_row_update_def f)
  next
    case fresh
    then show thesis using that [of _ "Suc (next_id s)"]
      by (simp add: store_password_def op_simps Let_def settings_row_update_def f)
  qed
qed

lemma consume_state:
  assumes "consume e raw p s = (Inr tok, s1)"
  shows "s1 = s\<lparr>one_time_tokens := one_time_tokens s1\<rparr>"
  using assms by (auto simp: consume_ok_iff)

lemma updated_rows:
  assumes "v \<in> set (update_where (\<lambda>v. u_id v = k) f us)" and "u_id v = k" and "\<And>u. u_id (f u) = u_id u"
  shows "\<exists>u\<in>set us. u_id u = k \<and> v = f u"
  using assms(1) by (cases rule: update_whereE) (use assms(2,3) in auto)

lemma reset_password_run:
  assumes ready: "sign_out_ready e s" and st: "settings_table_ok (security_settings s)"
    and uok: "user_table_ok (users s)" and c: "consume e raw PASSWORD_RESET s = (Inr tok, s1)"
    and u: "u \<in> set (users s)" "u_id u = ot_user tok" and v: "password_valid (plat e) pw (Some u)"
  obtains s' where "reset_password e raw pw rq salt s = (Inr (with_password e pw salt (clock s) u), s')"
    and "users s' = update_where (\<lambda>v. u_id v = u_id u) (with_password e pw salt (clock s)) (users s)"
    and "signed_out (\<lambda>_. False) (u_id u) s'" and "one_time_tokens s' = one_time_tokens s1"
proof -
  have s1: "users s1 = users s" "security_settings s1 = security_settings s" "user_sessions s1 = user_sessions s" "clock s1 = clock s"
    by (subst consume_state [OF c]; simp)+
  have g: "get_where ''User'' (\<lambda>v. u_id v = ot_user tok) (users s1) = Inr u"
    using user_by_id.get_by_key [OF uok u(1)] u(2) s1(1) by simp
  obtain n ss where sp: "store_password e u pw salt s1 =
      (Inr (with_password e pw salt (clock s1) u), s1\<lparr>users :=
         update_where (\<lambda>v. u_id v = u_id u) (with_password e pw salt (clock s1)) (users s1),
         next_id := n, security_settings := ss\<rparr>)" (is "_ = (_, ?s2)")
    using store_password_run st s1(2) by metis
  have ready2: "sign_out_ready e ?s2" using ready s1(3) by (simp add: sign_out_ready_def)
  let ?a = "Some (UserActor (u_id u))"
  obtain n' m s3 where so: "revoke_all e (u_id u) ?a rq False ?s2 = (Inr n', s3)"
    "revoke_all_jwt (u_id u) s3 = (Inr m, sign_out_state e (u_id u) ?a rq False ?s2)"
    using sign_out_runs [OF ready2] .
  let ?s4 = "sign_out_state e (u_id u) ?a rq False ?s2"
  have out: "signed_out (\<lambda>_. False) (u_id u) ?s4"
    using sign_out.closed [OF ready2, of rq False "u_id u"] by (simp add: signed_out_def)
  obtain ev al ob where run: "reset_password e raw pw rq salt s =
      (Inr (with_password e pw salt (clock s1) u), ?s4\<lparr>security_events := ev, audit_logs := al, outbox := ob\<rparr>)"
    by (simp add: reset_password_def op_simps c g v validate_password_def sp so audit_user_def password_changed_mail_def)
  show thesis
    by (rule that [OF run [unfolded s1(4)]]) (use out s1 in \<open>auto intro: signed_out_frame\<close>)
qed

lemma deactivate_run:
  assumes ready: "sign_out_ready e s" and uok: "user_table_ok (users s)" and u: "u \<in> set (users s)"
    and pw: "check_password (plat e) pw (u_password u)"
  obtains s' where "deactivate e (u_id u) pw rq s = (Inr (), s')"
    and "users s' = update_where (\<lambda>v. u_id v = u_id u)
           (\<lambda>u. u\<lparr>u_status := DEACTIVATED, u_is_active := False, u_updated_at := clock s\<rparr>) (users s)"
    and "signed_out (\<lambda>_. False) (u_id u) s'"
proof -
  let ?s1 = "s\<lparr>users := update_where (\<lambda>v. u_id v = u_id u)
           (\<lambda>u. u\<lparr>u_status := DEACTIVATED, u_is_active := False, u_updated_at := clock s\<rparr>) (users s)\<rparr>"
  let ?a = "Some (UserActor (u_id u))"
  have ready1: "sign_out_ready e ?s1" using ready by (simp add: sign_out_ready_def)
  have g: "get_where ''User'' (\<lambda>v. u_id v = u_id u) (users s) = Inr u"
    using user_by_id.get_by_key [OF uok u] .
  obtain n m s2 where so: "revoke_all e (u_id u) ?a rq False ?s1 = (Inr n, s2)"
    "revoke_all_jwt (u_id u) s2 = (Inr m, sign_out_state e (u_id u) ?a rq False ?s1)"
    using sign_out_runs [OF ready1] .
  let ?s3 = "sign_out_state e (u_id u) ?a rq False ?s1"
  have out: "signed_out (\<lambda>_. False) (u_id u) ?s3"
    using sign_out.closed [OF ready1, of rq False "u_id u"] by (simp add: signed_out_def)
  obtain ev al where run: "deactivate e (u_id u) pw rq s = (Inr (), ?s3\<lparr>security_events := ev, audit_logs := al\<rparr>)"
    by (simp add: deactivate_def op_simps g pw so audit_user_def)
  show thesis by (rule that [OF run]) (use out in \<open>auto intro: signed_out_frame\<close>)
qed

definition deleted_row :: "env \<Rightarrow> string \<Rightarrow> datetime \<Rightarrow> user \<Rightarrow> user" where
  "deleted_row e salt now u =
     (let a = anonymised e salt u
      in a\<lparr>u_email := normalize_email_address e (u_email a), u_username := py_strip (u_username a), u_updated_at := now\<rparr>)"

lemma confirm_deletion_run:
  assumes ready: "sign_out_ready e s" and uok: "user_table_ok (users s)"
    and c: "consume e raw ACCOUNT_DELETION s = (Inr tok, s1)"
    and u: "u \<in> set (users s)" "u_id u = ot_user tok" and free: "\<not> user_clash s (deleted_row e salt (clock s) u)"
  obtains s' where "confirm_deletion e raw rq salt s = (Inr (), s')"
    and "users s' = update_where (\<lambda>v. u_id v = u_id u) (\<lambda>_. deleted_row e salt (clock s) u) (users s)"
    and "profiles s' = update_where (\<lambda>p. pf_user p = u_id u) (\<lambda>p. p\<lparr>pf_bio := [], pf_website := [], pf_location := []\<rparr>) (profiles s)"
    and "signed_out (\<lambda>_. False) (u_id u) s'" and "published s' = ''account.deleted'' # published s"
proof -
  have s1: "users s1 = users s" "profiles s1 = profiles s" "user_sessions s1 = user_sessions s" "clock s1 = clock s" "published s1 = published s"
    by (subst consume_state [OF c]; simp)+
  let ?row = "deleted_row e salt (clock s) u"
  have row: "u_id ?row = u_id u" by (simp add: deleted_row_def anonymised_def Let_def)
  have g: "get_where ''User'' (\<lambda>v. u_id v = ot_user tok) (users s1) = Inr u"
    using user_by_id.get_by_key [OF uok u(1)] u(2) s1(1) by simp
  have "\<not> user_clash s1 ?row" using free s1(1) by (simp add: user_clash_def)
  then have sv: "user_save_all e (anonymised e salt u) s1 =
      (Inr ?row, s1\<lparr>users := update_where (\<lambda>v. u_id v = u_id u) (\<lambda>_. ?row) (users s1)\<rparr>)"
    using row s1(4) by (simp add: user_save_all_def op_simps Let_def deleted_row_def anonymised_def)
  let ?s2 = "s1\<lparr>users := update_where (\<lambda>v. u_id v = u_id u) (\<lambda>_. ?row) (users s1),
     profiles := update_where (\<lambda>p. pf_user p = u_id u) (\<lambda>p. p\<lparr>pf_bio := [], pf_website := [], pf_location := []\<rparr>) (profiles s1)\<rparr>"
  have ready2: "sign_out_ready e ?s2" using ready s1(3) by (simp add: sign_out_ready_def)
  let ?a = "Some (UserActor (u_id u))"
  obtain n m s3 where so: "revoke_all e (u_id u) ?a rq False ?s2 = (Inr n, s3)"
    "revoke_all_jwt (u_id u) s3 = (Inr m, sign_out_state e (u_id u) ?a rq False ?s2)"
    using sign_out_runs [OF ready2] .
  let ?s4 = "sign_out_state e (u_id u) ?a rq False ?s2"
  have out: "signed_out (\<lambda>_. False) (u_id u) ?s4"
    using sign_out.closed [OF ready2, of rq False "u_id u"] by (simp add: signed_out_def)
  have pub: "published ?s4 = published s" using s1(5) by (simp add: sign_out_state_def revoked_state_def Let_def)
  let ?r = "confirm_deletion e raw rq salt s"
  have run: "fst ?r = Inr ()" "users (snd ?r) = users ?s4" "profiles (snd ?r) = profiles ?s4"
    "user_sessions (snd ?r) = user_sessions ?s4" "outstanding (snd ?r) = outstanding ?s4"
    "blacklisted (snd ?r) = blacklisted ?s4" "published (snd ?r) = ''account.deleted'' # published ?s4"
    by (simp_all add: confirm_deletion_def op_simps c g sv so row)
  show thesis
  proof (rule that)
    show "confirm_deletion e raw rq salt s = (Inr (), snd ?r)" using run(1) by (simp add: prod_eq_iff)
    show "signed_out (\<lambda>_. False) (u_id u) (snd ?r)" by (rule signed_out_frame [OF run(4-6) out])
  qed (use run s1 pub in simp_all)
qed

section \<open>Registration\<close>

lemma catch_integrity_Inr:
  "catch_op m (\<lambda>err. case err of IntegrityError _ \<Rightarrow> throw c | _ \<Rightarrow> throw err) s = (Inr x, t) \<longleftrightarrow> m s = (Inr x, t)"
  by (cases "m s"; cases "fst (m s)") (auto simp: catch_op_run throw_def split: error.splits)

lemma create_user_row_ok:
  assumes "create_user_row e email name pw salt x s = (Inr u, s')"
  shows "\<exists>em nm. u = (new_user e email name pw salt x (next_id s) (clock s))\<lparr>u_email := em, u_username := nm\<rparr>"
    and "s' = s\<lparr>next_id := Suc (next_id s), users := u # users s\<rparr>"
  using assms
  by (auto simp: create_user_row_def user_insert_run op_simps Let_def split: option.splits if_splits)

lemma create_user_ok:
  assumes "create_user e email name pw salt x s = (Inr u, s')"
    and "x_status x = None" and "x_email_verified_at x = None" and "x_is_active x = None"
  shows "u_id u = next_id s \<and> u_status u = PENDING \<and> u_email_verified_at u = None \<and> u_is_active u"
    and "s' = s\<lparr>next_id := Suc (next_id s), users := u # users s\<rparr>"
proof -
  note row = create_user_row_ok [OF assms(1) [unfolded create_user_def]]
  show "s' = s\<lparr>next_id := Suc (next_id s), users := u # users s\<rparr>" by (rule row(2))
  from row(1) obtain em nm where "u = (new_user e email name pw salt
      (x\<lparr>x_is_staff := setdefault (x_is_staff x) False, x_is_superuser := setdefault (x_is_superuser x) False,
         x_status := setdefault (x_status x) PENDING\<rparr>) (next_id s) (clock s))\<lparr>u_email := em, u_username := nm\<rparr>"
    by blast
  then show "u_id u = next_id s \<and> u_status u = PENDING \<and> u_email_verified_at u = None \<and> u_is_active u"
    using assms(2-4) by (simp add: new_user_def given_def setdefault_def)
qed

lemma profile_rows_keep:
  "keeps (\<lambda>s. (users s, one_time_tokens s, clock s)) (profile_create u)"
  "keeps (\<lambda>s. (users s, one_time_tokens s, clock s)) (preferences_create u)"
  "keeps (\<lambda>s. (users s, one_time_tokens s, clock s)) (security_settings_create u)"
  "keeps (\<lambda>s. (users s, one_time_tokens s, clock s)) (assign_default_role u)"
  unfolding keeps_def profile_create_def assign_default_role_def
  by (intro allI preserves_intros; simp)+

lemma register_user_ok:
  assumes "register_user e email name pw fn ln rq salt raw s = (Inr u, s')"
  obtains s1 s2 where "u_id u = next_id s" and "u_status u = PENDING" and "u_email_verified_at u = None" and "u_is_active u"
    and "users s' = u # users s" and "clock s1 = clock s"
    and "issue e (u_id u) EMAIL_VERIFICATION (hours 24) [] raw s1 = (Inr raw, s2)"
    and "one_time_tokens s' = one_time_tokens s2"
proof -
  let ?x = "no_extra\<lparr>x_first_name := Some fn, x_last_name := Some ln\<rparr>"
  obtain v0 s0 u' sa v1 sb v2 sc v3 sd v4 se raw' sf v5 sg v6 sh where st0: "validate_password e pw None s = (Inr v0, s0)"
    and st: "create_user e email name (Some pw) salt ?x s0 = (Inr u', sa)"
    "profile_create (u_id u') sa = (Inr v1, sb)" "preferences_create (u_id u') sb = (Inr v2, sc)"
    "security_settings_create (u_id u') sc = (Inr v3, sd)" "assign_default_role (u_id u') sd = (Inr v4, se)"
    "issue e (u_id u') EMAIL_VERIFICATION (hours 24) [] raw se = (Inr raw', sf)"
    and tl: "audit_record e ((audit_call ''user.created'')
          \<lparr>aa_target := Some (user_target e u'), aa_actor := Some (UserActor (u_id u')), aa_request := rq,
           aa_after := [(''status'', PStr (status_text (u_status u')))]\<rparr>) sf = (Inr v5, sg)"
    "verification_mail e u' raw' sg = (Inr v6, sh)" "ret u' sh = (Inr u, s')"
    using assms unfolding register_user_def atomic_Inr_iff then_op_Inr_iff bind_op_Inr_iff catch_integrity_Inr by blast
  have s0: "s0 = s" using st0 by (simp add: validate_password_def op_simps split: if_splits)
  have u': "u' = u" using tl(3) by (simp add: op_simps)
  have c: "u_id u = next_id s" "u_status u = PENDING" "u_email_verified_at u = None" "u_is_active u"
    "sa = s\<lparr>next_id := Suc (next_id s), users := u # users s\<rparr>"
    using create_user_ok [OF st(1)] u' s0 by (simp_all add: no_extra_def)
  have k: "users se = users sa" "clock se = clock sa"
    using keeps_run [OF profile_rows_keep(1) st(2)] keeps_run [OF profile_rows_keep(2) st(3)]
      keeps_run [OF profile_rows_keep(3) st(4)] keeps_run [OF profile_rows_keep(4) st(5)] by simp_all
  have i: "raw' = raw" "users sf = users se" using st(6) by (auto simp: issue_run split: if_splits)
  have t: "users s' = users sf" "one_time_tokens s' = one_time_tokens sf"
    using tl by (auto simp: op_simps verification_mail_def)
  show thesis
  proof (rule that [OF c(1-4)])
    show "users s' = u # users s" using t(1) i(2) k(1) c(5) by simp
    show "clock se = clock s" using k(2) c(5) by simp
    show "issue e (u_id u) EMAIL_VERIFICATION (hours 24) [] raw se = (Inr raw, sf)" using st(6) i(1) u' by simp
    show "one_time_tokens s' = one_time_tokens sf" by (rule t(2))
  qed
qed

section \<open>Properties\<close>

text \<open>
  Property C8: registration leads to a pending account that its e-mail link activates. If
  \<open>register_user\<close> returns an account, the account is pending and may not authenticate; and at every
  instant of the next 24 hours \<open>verify_email\<close> with the token that was sent succeeds and makes that
  account active and its address verified.
\<close>

theorem register_then_verify:
  assumes "account_inv s" and "register_user e email username password fn ln rq salt raw s = (Inr u, s')"
    and "now < clock s + hours 24"
  shows "u_status u = PENDING \<and> \<not> can_authenticate_now s' u \<and>
     (\<exists>v s''. verify_email e raw rq' (s'\<lparr>clock := now\<rparr>) = (Inr v, s'') \<and> u_id v = u_id u \<and>
        u_status v = ACTIVE \<and> u_email_verified_at v = Some now \<and> v \<in> set (users s''))"
  using assms(2)
proof (rule register_user_ok)
  fix s1 s2
  assume u: "u_id u = next_id s" "u_status u = PENDING" "u_email_verified_at u = None" "u_is_active u"
    and us: "users s' = u # users s" and cl: "clock s1 = clock s"
    and iss: "issue e (u_id u) EMAIL_VERIFICATION (hours 24) [] raw s1 = (Inr raw, s2)"
    and tk: "one_time_tokens s' = one_time_tokens s2"
  let ?s = "s'\<lparr>clock := now\<rparr>"
  obtain tok sc where c: "consume e raw EMAIL_VERIFICATION ?s = (Inr tok, sc)" "ot_user tok = u_id u" "users sc = users s'" "clock sc = now"
    using issued_found [OF iss] assms(3) cl by (auto simp: consume_ok_iff tk is_usable_def)
  have "user_table_ok (users s')" using assms(1) u(1) us by (auto simp: user_table_ok_def account_inv_def)
  then have g: "get_where ''User'' (\<lambda>v. u_id v = u_id u) (u # users s) = Inr u"
    using user_by_id.get_by_key [of "users s'" u] us by simp
  let ?f = "\<lambda>v. v\<lparr>u_email_verified_at := Some now, u_status := ACTIVE, u_updated_at := now\<rparr>"
  obtain s'' where "verify_email e raw rq' ?s = (Inr (?f u), s'')" "users s'' = update_where (\<lambda>v. u_id v = u_id u) ?f (u # users s)"
    by (simp add: verify_email_def op_simps c us g u(2-4) Let_def audit_user_def)
  then show ?thesis using u by (auto simp: can_authenticate_now_def update_where_Cons)
qed

lemma demo_db_account_inv: "account_inv demo_db"
  by (simp add: account_inv_def demo_db_def empty_db_def demo_user_def)

definition demo_registered :: "(error + user) \<times> db" where
  "demo_registered = register_user demo_env ''eve@example.com'' ''eve'' ''a-long-password'' [] [] None ''salt'' ''raw'' demo_db"

lemma demo_registered_ok:
  obtains u s' where "demo_registered = (Inr u, s')"
proof -
  let ?x = "no_extra\<lparr>x_first_name := Some [], x_last_name := Some []\<rparr>"
  have "\<not> isl (fst (create_user demo_env ''eve@example.com'' ''eve'' (Some ''a-long-password'') ''salt'' ?x demo_db))"
    by code_simp
  then obtain u s' where c: "create_user demo_env ''eve@example.com'' ''eve'' (Some ''a-long-password'') ''salt'' ?x demo_db = (Inr u, s')"
    by (rule run_succeeds)
  have st: "s' = demo_db\<lparr>next_id := Suc 100, users := [u, demo_user]\<rparr>"
    using create_user_ok(2) [OF c] by (simp add: no_extra_def demo_db_def)
  have v: "password_valid (plat demo_env) ''a-long-password'' None" by (simp add: demo_env_def demo_platform_def)
  have f: "profiles demo_db = []" "preferences demo_db = []" "security_settings demo_db = []" "roles demo_db = []"
    "one_time_tokens demo_db = []" by (simp_all add: demo_db_def empty_db_def)
  have "\<not> isl (fst demo_registered)"
    by (simp add: demo_registered_def register_user_def op_simps validate_password_def v c st profile_create_def
        preferences_create_def security_settings_create_def assign_default_role_def issue_run verification_mail_def
        f first_where_def Let_def)
  then show thesis using that by (rule run_succeeds)
qed

theorem register_then_verify_witness:
  "\<exists>u s'. demo_registered = (Inr u, s') \<and> u_status u = PENDING \<and>
     (\<exists>v s''. verify_email demo_env ''raw'' None (s'\<lparr>clock := hours 23\<rparr>) = (Inr v, s'') \<and> u_status v = ACTIVE)"
proof -
  obtain u s' where r: "demo_registered = (Inr u, s')" by (rule demo_registered_ok)
  have t: "hours 23 < clock demo_db + hours 24" by (simp add: demo_db_def empty_db_def hours_def seconds_def)
  show ?thesis using register_then_verify [OF demo_db_account_inv r [unfolded demo_registered_def] t, of None] r by blast
qed

text \<open>
  Property C5: accounts stay distinguishable. Whatever sequence of account operations runs, failing
  ones included, no two accounts ever have the same e-mail address or the same user name, ignoring
  case, and primary keys stay unique.
\<close>

theorem accounts_stay_unique:
  assumes "(account_step e)\<^sup>*\<^sup>* s t" and "account_inv s"
  shows "account_inv t"
  using assms
proof (induction rule: rtranclp_induct)
  case (step t t')
  from step(2) step.IH [OF step.prems] show ?case by (rule account_step_inv)
qed simp

theorem accounts_stay_unique_witness: "account_inv (snd demo_registered)"
proof -
  have "account_step demo_env demo_db (snd demo_registered)"
    by (rule account_step.register) (simp add: demo_registered_def prod_eq_iff)
  then show ?thesis by (rule accounts_stay_unique [OF r_into_rtranclp demo_db_account_inv])
qed

text \<open>
  Property C6: a password reset takes over the account completely. With a usable reset token of an
  existing account and an acceptable new password, \<open>reset_password\<close> succeeds; afterwards the account
  accepts the new password, every session of the user is revoked and every refresh token blacklisted,
  and the token is used up: presenting it again at any instant is refused.
\<close>

theorem reset_password_effect:
  assumes "sign_out_ready e s" and "settings_table_ok (security_settings s)" and "account_inv s" and "token_inv s"
    and "platform_laws (plat e)"
    and "consume e raw PASSWORD_RESET s = (Inr tok, s1)" and "u \<in> set (users s)" and "u_id u = ot_user tok"
    and "password_valid (plat e) password (Some u)"
  shows "\<exists>u' s'. reset_password e raw password rq salt s = (Inr u', s') \<and> u_id u' = u_id u \<and>
     (\<forall>v\<in>set (users s'). u_id v = u_id u \<longrightarrow> check_password (plat e) password (u_password v)) \<and>
     signed_out (\<lambda>_. False) (u_id u) s' \<and>
     (\<forall>now. fst (reset_password e raw password rq salt (s'\<lparr>clock := now\<rparr>)) = Inl invalid_token)"
proof -
  have uok: "user_table_ok (users s)" using assms(3) by (simp add: account_inv_def user_table_ok_def)
  obtain s' where run: "reset_password e raw password rq salt s = (Inr (with_password e password salt (clock s) u), s')"
    and us: "users s' = update_where (\<lambda>v. u_id v = u_id u) (with_password e password salt (clock s)) (users s)"
    and out: "signed_out (\<lambda>_. False) (u_id u) s'" and tk: "one_time_tokens s' = one_time_tokens s1"
    using reset_password_run [OF assms(1,2) uok assms(6-9)] .
  have "check_password (plat e) password (u_password v)" if v: "v \<in> set (users s')" "u_id v = u_id u" for v
    using updated_rows [OF v(1)[unfolded us] v(2)] platform_lawsD(2) [OF assms(5)] by auto
  moreover have "fst (reset_password e raw password rq salt (s'\<lparr>clock := now\<rparr>)) = Inl invalid_token" for now
  proof -
    have "fst (consume e raw PASSWORD_RESET (s'\<lparr>clock := now\<rparr>)) = Inl invalid_token"
      using consumed_refused [OF assms(4,6), of "s'\<lparr>clock := now\<rparr>"] tk by simp
    then show ?thesis
      by (cases "consume e raw PASSWORD_RESET (s'\<lparr>clock := now\<rparr>)") (simp add: reset_password_def atomic_fst bind_op_run)
  qed
  ultimately show ?thesis using run out by (intro exI [of _ s'] exI) auto
qed

definition demo_reset :: db where
  "demo_reset = snd (issue demo_env 7 PASSWORD_RESET (seconds 60) [] ''raw'' demo_login)"

theorem reset_password_effect_witness:
  "\<exists>u' s'. reset_password demo_env ''raw'' ''another-password'' None ''salt'' demo_reset = (Inr u', s') \<and>
     signed_out (\<lambda>_. False) 7 s'"
proof -
  have a: "sign_out_ready demo_env demo_reset" "settings_table_ok (security_settings demo_reset)" "account_inv demo_reset" "token_inv demo_reset"
    by code_simp+
  have l: "platform_laws (plat demo_env)" by (simp add: demo_env_def demo_platform_laws)
  have "case fst (consume demo_env ''raw'' PASSWORD_RESET demo_reset) of Inr t \<Rightarrow> ot_user t = 7 | Inl _ \<Rightarrow> False" by code_simp
  then obtain tok s1 where c: "consume demo_env ''raw'' PASSWORD_RESET demo_reset = (Inr tok, s1)" "ot_user tok = 7"
    by (cases "consume demo_env ''raw'' PASSWORD_RESET demo_reset") (auto split: sum.splits)
  have m: "demo_user \<in> set (users demo_reset)" "u_id demo_user = ot_user tok"
    using c(2) by (simp_all add: demo_reset_def demo_login_def demo_db_def issue_run demo_user_def)
  have v: "password_valid (plat demo_env) ''another-password'' (Some demo_user)" by code_simp
  show ?thesis using reset_password_effect [OF a l c(1) m v, of None "''salt''"] m(2) c(2) by auto
qed

text \<open>
  A deactivated account is closed. With the right password \<open>deactivate\<close> succeeds, no row
  of the account may authenticate afterwards, and its sessions and refresh tokens are revoked; with a
  wrong password nothing changes.
\<close>

theorem deactivate_closes:
  assumes "sign_out_ready e s" and "account_inv s" and "u \<in> set (users s)"
  shows "if check_password (plat e) password (u_password u)
         then \<exists>s'. deactivate e (u_id u) password rq s = (Inr (), s') \<and> signed_out (\<lambda>_. False) (u_id u) s' \<and>
                (\<forall>v\<in>set (users s'). \<forall>t. u_id v = u_id u \<longrightarrow> \<not> can_authenticate_now t v \<and> u_status v = DEACTIVATED)
         else deactivate e (u_id u) password rq s = (Inl authentication_failed, s)"
proof -
  have uok: "user_table_ok (users s)" using assms(2) by (simp add: account_inv_def user_table_ok_def)
  show ?thesis
  proof (cases "check_password (plat e) password (u_password u)")
    case True
    let ?f = "\<lambda>u. u\<lparr>u_status := DEACTIVATED, u_is_active := False, u_updated_at := clock s\<rparr>"
    obtain s' where run: "deactivate e (u_id u) password rq s = (Inr (), s')"
      and us: "users s' = update_where (\<lambda>v. u_id v = u_id u) ?f (users s)" and out: "signed_out (\<lambda>_. False) (u_id u) s'"
      using deactivate_run [OF assms(1) uok assms(3) True] .
    have "\<not> can_authenticate_now t v \<and> u_status v = DEACTIVATED" if v: "v \<in> set (users s')" "u_id v = u_id u" for v t
      using updated_rows [OF v(1)[unfolded us] v(2)] by (auto simp: can_authenticate_now_def)
    then show ?thesis using True run out by auto
  next
    case False
    then show ?thesis using user_by_id.get_by_key [OF uok assms(3)] by (simp add: deactivate_def op_simps)
  qed
qed

theorem deactivate_closes_witness:
  "\<exists>s'. deactivate demo_env 7 ''secret-password'' None demo_db = (Inr (), s') \<and> signed_out (\<lambda>_. False) 7 s'"
proof -
  have a: "sign_out_ready demo_env demo_db" "account_inv demo_db" by code_simp+
  have c: "check_password (plat demo_env) ''secret-password'' (u_password demo_user)"
    by (simp add: demo_env_def demo_platform_def demo_user_def)
  have m: "demo_user \<in> set (users demo_db)" "u_id demo_user = 7" by (simp_all add: demo_db_def demo_user_def)
  show ?thesis using deactivate_closes [OF a(1,2) m(1), of "''secret-password''" None] c m(2) by auto
qed


definition demo_deletion :: db where
  "demo_deletion = snd (issue demo_env 7 ACCOUNT_DELETION (seconds 60) [] ''raw'' demo_login)"


text \<open>
  A taken user name is not reported as a conflict. Changing to a name that another account
  has ends in Django's validation error, raised by the constraint validation that runs before the save;
  the integrity error that the service turns into the conflict answer is never reached.
\<close>

theorem change_username_conflict:
  assumes "account_inv s" and "u \<in> set (users s)" and "v \<in> set (users s)" and "u_id v \<noteq> u_id u"
    and "iexact (u_username v) (py_strip name)" and "user_clean e (u\<lparr>u_username := py_strip name\<rparr>) = None"
  shows "change_username e (u_id u) name rq s = (Inl (ValidationError ''accounts_user_username_ci_unique''), s)"
proof -
  have uok: "user_table_ok (users s)" using assms(1) by (simp add: account_inv_def user_table_ok_def)
  have "user_clash s (u\<lparr>u_username := py_strip name\<rparr>)" using assms(3-5) by (auto simp: user_clash_def)
  then show ?thesis using user_by_id.get_by_key [OF uok assms(2)] assms(6)
    by (simp add: change_username_def op_simps Let_def user_constraints_hold_def)
qed

theorem change_username_conflict_witness:
  "change_username demo_env 7 ''Eve'' None
     (demo_db\<lparr>users := [demo_user\<lparr>u_id := 8, u_email := ''eve@example.com'', u_username := ''eve''\<rparr>, demo_user]\<rparr>) =
   (Inl (ValidationError ''accounts_user_username_ci_unique''),
    demo_db\<lparr>users := [demo_user\<lparr>u_id := 8, u_email := ''eve@example.com'', u_username := ''eve''\<rparr>, demo_user]\<rparr>)"
proof -
  let ?eve = "demo_user\<lparr>u_id := 8, u_email := ''eve@example.com'', u_username := ''eve''\<rparr>"
  have a: "account_inv (demo_db\<lparr>users := [?eve, demo_user]\<rparr>)" "iexact (u_username ?eve) (py_strip ''Eve'')"
    "user_clean demo_env (demo_user\<lparr>u_username := py_strip ''Eve''\<rparr>) = None" by code_simp+
  have i: "u_id ?eve \<noteq> u_id demo_user" "u_id demo_user = 7" by (simp_all add: demo_user_def)
  show ?thesis
    using change_username_conflict [OF a(1) _ _ i(1) a(2,3), of None] i(2) by simp
qed

end
