(* ===== verification/Bootstrap.thy ===== *)
theory Bootstrap
  imports Authorization Accounts
begin

text \<open>
  The registry of permission codenames (\<^verbatim>\<open>apps/authorization/registry.py\<close>) and the two commands that fill the tables
  of a deployment: \<^verbatim>\<open>bootstrap\<close>, which brings permissions, roles, the setting and the flag in line with the
  registry, and \<^verbatim>\<open>seed\<close>, which adds a demonstration administrator to a development installation.
\<close>

section \<open>registry.py\<close>

type_synonym registry = "(string \<times> string) list"

definition BASE_PERMISSIONS :: registry where
  "BASE_PERMISSIONS =
     [(''users.view'', ''View users''), (''users.create'', ''Create users''), (''users.update'', ''Update users''),
      (''users.delete'', ''Delete users''), (''users.ban'', ''Ban and unban users''),
      (''roles.view'', ''View roles and permissions''),
      (''roles.manage'', ''Manage roles and permission assignments''),
      (''settings.view'', ''View runtime settings''), (''settings.update'', ''Update runtime settings''),
      (''audit.view'', ''View audit logs''), (''security_events.view'', ''View security events''),
      (''notifications.manage'', ''Manage notifications''),
      (''api_keys.manage'', ''Manage API keys for other users''),
      (''feature_flags.view'', ''View feature flags''), (''feature_flags.update'', ''Update feature flags''),
      (''webhooks.manage'', ''Manage webhook endpoints''), (''files.manage'', ''Manage uploaded files'')]"

fun register_permissions :: "(string \<times> string) list \<Rightarrow> (registry, unit) op" where
  \<comment> \<open>the items of \<^verbatim>\<open>dict(permissions)\<close>; a conflict stops the loop and leaves what was registered before it\<close>
  "register_permissions [] reg = (Inr (), reg)"
| "register_permissions ((codename, description) # items) reg =
     (case map_of reg codename of
        None \<Rightarrow> register_permissions items (reg @ [(codename, description)])
      | Some d \<Rightarrow> if d \<noteq> description then (Inl (ValueError codename), reg) else register_permissions items reg)"

definition get_registered_permissions :: "registry \<Rightarrow> (string \<times> string) list" where
  "get_registered_permissions reg = map (\<lambda>c. (c, the (map_of reg c))) (sort (remdups (map fst reg)))"

section \<open>The bootstrap command\<close>

datatype desired_permissions = Every | Only "string list"

record role_definition =
  rd_slug :: string
  rd_name :: string
  rd_description :: string
  rd_priority :: nat
  rd_permissions :: desired_permissions

definition ROLE_DEFINITIONS :: "role_definition list" where
  "ROLE_DEFINITIONS =
     [\<lparr>rd_slug = ''super-admin'', rd_name = ''Super Admin'',
       rd_description = ''Full registered application access.'', rd_priority = 1000, rd_permissions = Every\<rparr>,
      \<lparr>rd_slug = ''admin'', rd_name = ''Admin'',
       rd_description = ''Administrative access except system role management.'', rd_priority = 800,
       rd_permissions = Every\<rparr>,
      \<lparr>rd_slug = ''moderator'', rd_name = ''Moderator'', rd_description = ''User safety and audit visibility.'',
       rd_priority = 500, rd_permissions =
         Only [''users.view'', ''users.update'', ''users.ban'', ''audit.view'', ''security_events.view'']\<rparr>,
      \<lparr>rd_slug = ''user'', rd_name = ''User'', rd_description = ''Default authenticated account role.'',
       rd_priority = 100, rd_permissions = Only []\<rparr>]"

definition permission_set :: "string \<Rightarrow> permission \<Rightarrow> permission" where
  "permission_set description p = p\<lparr>pm_description := description, pm_is_system := True\<rparr>"

definition permission_update_or_create :: "string \<Rightarrow> string \<Rightarrow> uuid action" where
  "permission_update_or_create codename description =
     bind_op (reads (\<lambda>s. get_where ''Permission'' (\<lambda>p. pm_codename p = codename) (permissions s))) (\<lambda>found.
     case found of
       Inr p \<Rightarrow>
         then_op (modify (\<lambda>s. s\<lparr>permissions :=
           update_where (\<lambda>q. pm_id q = pm_id p) (permission_set description) (permissions s)\<rparr>)) (ret (pm_id p))
     | Inl err \<Rightarrow>
         if err = DoesNotExist ''Permission''
         then bind_op fresh_id (\<lambda>i.
           then_op (modify (\<lambda>s. s\<lparr>permissions :=
             \<lparr>pm_id = i, pm_codename = codename, pm_description = description, pm_is_system = True\<rparr> # permissions s\<rparr>))
           (ret i))
         else throw err)"

fun sync_permissions :: "(string \<times> string) list \<Rightarrow> (string \<times> uuid) list action" where
  "sync_permissions [] = ret []"
| "sync_permissions ((codename, description) # items) =
     bind_op (permission_update_or_create codename description) (\<lambda>i.
     bind_op (sync_permissions items) (\<lambda>rows. ret ((codename, i) # rows)))"

definition role_set :: "role_definition \<Rightarrow> role \<Rightarrow> role" where
  "role_set d r = r\<lparr>ro_name := rd_name d, ro_description := rd_description d, ro_priority := rd_priority d,
     ro_is_system := True\<rparr>"

definition role_update_or_create :: "role_definition \<Rightarrow> uuid action" where
  "role_update_or_create d =
     bind_op (reads (\<lambda>s. get_where ''Role'' (\<lambda>r. ro_slug r = rd_slug d) (roles s))) (\<lambda>found.
     case found of
       Inr r \<Rightarrow>
         then_op (modify (\<lambda>s. s\<lparr>roles := update_where (\<lambda>q. ro_id q = ro_id r) (role_set d) (roles s)\<rparr>))
         (ret (ro_id r))
     | Inl err \<Rightarrow>
         if err = DoesNotExist ''Role''
         then bind_op fresh_id (\<lambda>i.
           then_op (modify (\<lambda>s. s\<lparr>roles :=
             \<lparr>ro_id = i, ro_name = rd_name d, ro_slug = rd_slug d, ro_description = rd_description d,
              ro_priority = rd_priority d, ro_is_system = True\<rparr> # roles s\<rparr>))
           (ret i))
         else throw err)"

definition link_get_or_create :: "uuid \<Rightarrow> uuid \<Rightarrow> unit action" where
  \<comment> \<open>\<^verbatim>\<open>RolePermission.objects.get_or_create(role=..., permission=...)\<close>\<close>
  "link_get_or_create rid pid =
     bind_op (reads (\<lambda>s. exists_where (\<lambda>l. rp_role l = rid \<and> rp_permission l = pid) (role_permissions s))) (\<lambda>present.
     when_op (\<not> present) (bind_op fresh_id (\<lambda>i. modify (\<lambda>s. s\<lparr>role_permissions :=
       \<lparr>rp_id = i, rp_role = rid, rp_permission = pid\<rparr> # role_permissions s\<rparr>))))"

definition link_named :: "(string \<times> uuid) list \<Rightarrow> uuid \<Rightarrow> string \<Rightarrow> unit action" where
  "link_named rows rid codename =
     (case pair_get codename rows of None \<Rightarrow> throw (KeyError codename) | Some pid \<Rightarrow> link_get_or_create rid pid)"

definition desired_codes :: "(string \<times> uuid) list \<Rightarrow> role_definition \<Rightarrow> string list" where
  "desired_codes rows d = (case rd_permissions d of Every \<Rightarrow> map fst rows | Only cs \<Rightarrow> remdups cs)"

definition sync_role :: "(string \<times> uuid) list \<Rightarrow> role_definition \<Rightarrow> unit action" where
  "sync_role rows d =
     bind_op (role_update_or_create d) (\<lambda>rid. for_each (link_named rows rid) (desired_codes rows d))"

definition setting_get_or_create :: "unit action" where
  "setting_get_or_create =
     bind_op (reads (\<lambda>s. exists_where (\<lambda>r. sg_key r = ''site.registration_enabled'') (runtime_settings s))) (\<lambda>present.
     when_op (\<not> present) (bind_op fresh_id (\<lambda>i. bind_op now_op (\<lambda>now. modify (\<lambda>s. s\<lparr>runtime_settings :=
       \<lparr>sg_id = i, sg_key = ''site.registration_enabled'', sg_value = PBool True, sg_value_type = BOOLEAN,
        sg_group = ''site'', sg_is_public = True, sg_description = ''Allow public user registration.'',
        sg_created_at = now, sg_updated_at = now\<rparr> # runtime_settings s\<rparr>)))))"

definition flag_get_or_create :: "unit action" where
  "flag_get_or_create =
     bind_op (reads (\<lambda>s. exists_where (\<lambda>f. ff_key f = ''registration.enabled'') (feature_flags s))) (\<lambda>present.
     when_op (\<not> present) (bind_op fresh_id (\<lambda>i. bind_op now_op (\<lambda>now. modify (\<lambda>s. s\<lparr>feature_flags :=
       \<lparr>ff_id = i, ff_key = ''registration.enabled'', ff_enabled = True,
        ff_description = ''Registration feature switch.'', ff_created_at = now, ff_updated_at = now\<rparr> # feature_flags s\<rparr>)))))"

definition bootstrap :: "registry \<Rightarrow> unit action" where
  "bootstrap reg = atomic
     (bind_op (sync_permissions (get_registered_permissions reg)) (\<lambda>rows.
      then_op (for_each (sync_role rows) ROLE_DEFINITIONS)
      (then_op setting_get_or_create flag_get_or_create)))"

section \<open>seed\<close>

definition seed :: "env \<Rightarrow> registry \<Rightarrow> bool \<Rightarrow> string \<Rightarrow> string \<Rightarrow> unit action" where
  \<comment> \<open>the third argument is the option \<^verbatim>\<open>--demo-admin\<close>, the password and the salt of its hash are random\<close>
  "seed e reg demo_admin password salt =
     then_op (bootstrap reg)
     (if \<not> demo_admin then ret ()
      else if \<not> DEBUG (cfg e) \<or> APP_ENV (cfg e) = ''production''
      then throw (CommandError ''Demo users can only be created in a debug, non-production environment.'')
      else bind_op (reads (\<lambda>s. first_where (\<lambda>u. u_email u = ''admin@example.test'') (users s))) (\<lambda>user.
           if user \<noteq> None then ret ()
           else bind_op (create_superuser e ''admin@example.test'' ''demo-admin'' (Some password) salt no_extra) (\<lambda>_. ret ())))"

section \<open>What bootstrap leaves\<close>

definition authz_inv :: "db \<Rightarrow> bool" where
  "authz_inv s \<longleftrightarrow> permission_table_ok (permissions s) \<and> role_table_ok (roles s) \<and>
     (\<forall>p\<in>set (permissions s). pm_id p < next_id s) \<and> (\<forall>r\<in>set (roles s). ro_id r < next_id s)"

definition permission_synced :: "permission list \<Rightarrow> string \<Rightarrow> string \<Rightarrow> bool" where
  "permission_synced ps c d \<longleftrightarrow> (\<exists>p\<in>set ps. pm_codename p = c \<and> pm_description p = d \<and> pm_is_system p)"

lemma permission_set_simps [simp]:
  "pm_id (permission_set d p) = pm_id p" "pm_codename (permission_set d p) = pm_codename p"
  "pm_description (permission_set d p) = d" "pm_is_system (permission_set d p)"
  by (simp_all add: permission_set_def)

lemma role_set_simps [simp]:
  "ro_id (role_set d r) = ro_id r" "ro_slug (role_set d r) = ro_slug r"
  "ro_name (role_set d r) = rd_name d" "ro_description (role_set d r) = rd_description d"
  "ro_priority (role_set d r) = rd_priority d" "ro_is_system (role_set d r)"
  by (simp_all add: role_set_def)

lemma permission_run:
  assumes "authz_inv s"
  obtains i n ps where "permission_update_or_create c d s = (Inr i, s\<lparr>next_id := n, permissions := ps\<rparr>)"
    and "authz_inv (s\<lparr>next_id := n, permissions := ps\<rparr>)" and "permission_synced ps c d"
    and "\<exists>p\<in>set ps. pm_codename p = c \<and> pm_id p = i"
    and "\<And>p. p \<in> set (permissions s) \<Longrightarrow> pm_codename p \<noteq> c \<Longrightarrow> p \<in> set ps"
proof -
  have ok: "permission_table_ok (permissions s)" using assms by (simp add: authz_inv_def)
  from ok show thesis
  proof (cases rule: permission_by_code.get_by_key_cases [where k = c and name = "''Permission''"])
    case absent
    let ?p = "\<lparr>pm_id = next_id s, pm_codename = c, pm_description = d, pm_is_system = True\<rparr>"
    have run: "permission_update_or_create c d s = (Inr (next_id s), s\<lparr>next_id := Suc (next_id s), permissions := ?p # permissions s\<rparr>)"
      using absent(2) by (simp add: permission_update_or_create_def op_simps del: get_where_DoesNotExist)
    have "authz_inv (s\<lparr>next_id := Suc (next_id s), permissions := ?p # permissions s\<rparr>)"
      using assms absent(1) by (auto simp: authz_inv_def permission_table_ok_def less_Suc_eq)
    then show thesis using that [OF run] by (simp add: permission_synced_def)
  next
    case (present p)
    let ?ps = "update_where (\<lambda>q. pm_id q = pm_id p) (permission_set d) (permissions s)"
    note set = permission_by_id.set_update_by_key [OF ok present(1), of "permission_set d"]
    have run: "permission_update_or_create c d s = (Inr (pm_id p), s\<lparr>next_id := next_id s, permissions := ?ps\<rparr>)"
      using present(3) by (simp add: permission_update_or_create_def op_simps)
    have "authz_inv (s\<lparr>next_id := next_id s, permissions := ?ps\<rparr>)"
      using assms present(1) by (auto simp: authz_inv_def permission_table_ok_def update_where_map set)
    then show thesis using that [OF run] present(2) by (auto simp: set permission_synced_def)
  qed
qed

lemma permission_unchanged:
  assumes "authz_inv s" and "permission_synced (permissions s) c d"
  obtains i where "permission_update_or_create c d s = (Inr i, s)" and "\<exists>p\<in>set (permissions s). pm_codename p = c \<and> pm_id p = i"
proof -
  have ok: "permission_table_ok (permissions s)" using assms(1) by (simp add: authz_inv_def)
  obtain p where p: "p \<in> set (permissions s)" "pm_codename p = c" "pm_description p = d" "pm_is_system p"
    using assms(2) by (auto simp: permission_synced_def)
  have "get_where ''Permission'' (\<lambda>q. pm_codename q = c) (permissions s) = Inr p"
    using permission_by_code.get_by_key [OF ok p(1)] p(2) by simp
  moreover have "update_where (\<lambda>q. pm_id q = pm_id p) (permission_set d) (permissions s) = permissions s"
    using p by (intro permission_by_id.update_by_key_unchanged [OF ok p(1)]) (simp add: permission_set_def)
  ultimately have "permission_update_or_create c d s = (Inr (pm_id p), s)"
    by (simp add: permission_update_or_create_def op_simps)
  then show thesis using that p by blast
qed

definition rows_ok :: "permission list \<Rightarrow> (string \<times> uuid) list \<Rightarrow> bool" where
  "rows_ok ps rows \<longleftrightarrow> (\<forall>(c, i)\<in>set rows. \<exists>p\<in>set ps. pm_codename p = c \<and> pm_id p = i)"

lemma rows_determined:
  assumes "authz_inv s" and "rows_ok (permissions s) xs" and "rows_ok (permissions s) ys" and "map fst xs = map fst ys"
  shows "xs = ys"
proof -
  have ok: "permission_table_ok (permissions s)" using assms(1) by (simp add: authz_inv_def)
  have "length xs = length ys" using arg_cong [OF assms(4), of length] by simp
  then show ?thesis using assms(2-4)
  proof (induction rule: list_induct2)
    case (Cons x xs y ys)
    obtain p q where "p \<in> set (permissions s)" "pm_codename p = fst x" "pm_id p = snd x"
      "q \<in> set (permissions s)" "pm_codename q = fst y" "pm_id q = snd y"
      using Cons.prems(1,2) by (auto simp: rows_ok_def split: prod.splits)
    then have "x = y" using permission_by_code.key_determines [OF ok, of p q] Cons.prems(3) by (auto simp: prod_eq_iff)
    then show ?case using Cons by (simp add: rows_ok_def)
  qed simp
qed

lemma sync_permissions_run:
  assumes "authz_inv s" and "distinct (map fst reg)"
  shows "\<exists>rows n ps. sync_permissions reg s = (Inr rows, s\<lparr>next_id := n, permissions := ps\<rparr>) \<and>
     authz_inv (s\<lparr>next_id := n, permissions := ps\<rparr>) \<and> map fst rows = map fst reg \<and> rows_ok ps rows \<and>
     (\<forall>(c, d)\<in>set reg. permission_synced ps c d) \<and>
     (\<forall>p\<in>set (permissions s). pm_codename p \<notin> fst ` set reg \<longrightarrow> p \<in> set ps)"
  using assms
proof (induction reg arbitrary: s)
  case Nil
  have eq: "s\<lparr>next_id := next_id s, permissions := permissions s\<rparr> = s" by (cases s) simp
  have run: "sync_permissions [] s = (Inr [], s\<lparr>next_id := next_id s, permissions := permissions s\<rparr>)"
    unfolding eq by (simp add: ret_def)
  have inv: "authz_inv (s\<lparr>next_id := next_id s, permissions := permissions s\<rparr>)" unfolding eq by (rule Nil.prems(1))
  show ?case by (intro exI conjI, rule run, rule inv) (simp_all add: rows_ok_def)
next
  case (Cons cd reg)
  obtain c d where cd: "cd = (c, d)" by fastforce
  obtain i n1 ps1 where r1: "permission_update_or_create c d s = (Inr i, s\<lparr>next_id := n1, permissions := ps1\<rparr>)"
    and inv1: "authz_inv (s\<lparr>next_id := n1, permissions := ps1\<rparr>)" and sy1: "permission_synced ps1 c d"
    and i: "\<exists>p\<in>set ps1. pm_codename p = c \<and> pm_id p = i"
    and keep1: "\<And>p. p \<in> set (permissions s) \<Longrightarrow> pm_codename p \<noteq> c \<Longrightarrow> p \<in> set ps1"
    by (rule permission_run [OF Cons.prems(1), where c = c and d = d]) (rule that)
  let ?s1 = "s\<lparr>next_id := n1, permissions := ps1\<rparr>"
  have "distinct (map fst reg)" and c: "c \<notin> fst ` set reg" using Cons.prems(2) cd by auto
  then obtain rows n ps where r2: "sync_permissions reg ?s1 = (Inr rows, ?s1\<lparr>next_id := n, permissions := ps\<rparr>)"
    and inv2: "authz_inv (?s1\<lparr>next_id := n, permissions := ps\<rparr>)" and rows: "map fst rows = map fst reg" "rows_ok ps rows"
    and sy2: "\<forall>(c, d)\<in>set reg. permission_synced ps c d"
    and keep2: "\<forall>p\<in>set ps1. pm_codename p \<notin> fst ` set reg \<longrightarrow> p \<in> set ps"
    using Cons.IH [OF inv1] by auto
  have "sync_permissions (cd # reg) s = (Inr ((c, i) # rows), s\<lparr>next_id := n, permissions := ps\<rparr>)"
    using r1 r2 cd by (simp add: op_simps)
  moreover have "rows_ok ps ((c, i) # rows)" using i keep2 c rows(2) by (auto simp: rows_ok_def)
  moreover have "permission_synced ps c d" using sy1 keep2 c by (auto simp: permission_synced_def)
  ultimately show ?case using inv2 rows(1) sy2 keep1 keep2 cd
    by (intro exI [of _ "(c, i) # rows"] exI [of _ n] exI [of _ ps]) auto
qed

lemma sync_permissions_unchanged:
  assumes "authz_inv s" and "\<forall>(c, d)\<in>set reg. permission_synced (permissions s) c d"
  shows "\<exists>rows. sync_permissions reg s = (Inr rows, s) \<and> map fst rows = map fst reg \<and> rows_ok (permissions s) rows"
  using assms(2)
proof (induction reg)
  case (Cons cd reg)
  obtain c d where cd: "cd = (c, d)" by fastforce
  obtain i where i: "permission_update_or_create c d s = (Inr i, s)" "\<exists>p\<in>set (permissions s). pm_codename p = c \<and> pm_id p = i"
    using permission_unchanged [OF assms(1), of c d] Cons.prems cd by auto
  obtain rows where "sync_permissions reg s = (Inr rows, s)" "map fst rows = map fst reg" "rows_ok (permissions s) rows"
    using Cons by auto
  then show ?case using i cd by (auto simp: op_simps rows_ok_def)
qed (simp add: ret_def rows_ok_def)

definition role_matches :: "role_definition \<Rightarrow> role \<Rightarrow> bool" where
  "role_matches d r \<longleftrightarrow> ro_slug r = rd_slug d \<and> ro_name r = rd_name d \<and> ro_description r = rd_description d \<and>
     ro_priority r = rd_priority d \<and> ro_is_system r"

lemma role_run:
  assumes "authz_inv s"
  obtains i n rs where "role_update_or_create d s = (Inr i, s\<lparr>next_id := n, roles := rs\<rparr>)"
    and "authz_inv (s\<lparr>next_id := n, roles := rs\<rparr>)" and "\<exists>r\<in>set rs. role_matches d r \<and> ro_id r = i"
    and "\<And>r. r \<in> set (roles s) \<Longrightarrow> ro_slug r \<noteq> rd_slug d \<Longrightarrow> r \<in> set rs"
proof -
  have ok: "role_table_ok (roles s)" using assms by (simp add: authz_inv_def)
  from ok show thesis
  proof (cases rule: role_by_slug.get_by_key_cases [where k = "rd_slug d" and name = "''Role''"])
    case absent
    let ?r = "\<lparr>ro_id = next_id s, ro_name = rd_name d, ro_slug = rd_slug d, ro_description = rd_description d,
              ro_priority = rd_priority d, ro_is_system = True\<rparr>"
    have run: "role_update_or_create d s = (Inr (next_id s), s\<lparr>next_id := Suc (next_id s), roles := ?r # roles s\<rparr>)"
      using absent(2) by (simp add: role_update_or_create_def op_simps del: get_where_DoesNotExist)
    have "authz_inv (s\<lparr>next_id := Suc (next_id s), roles := ?r # roles s\<rparr>)"
      using assms absent(1) by (auto simp: authz_inv_def role_table_ok_def less_Suc_eq)
    then show thesis using that [OF run] by (simp add: role_matches_def)
  next
    case (present r)
    let ?rs = "update_where (\<lambda>q. ro_id q = ro_id r) (role_set d) (roles s)"
    note set = role_by_id.set_update_by_key [OF ok present(1), of "role_set d"]
    have run: "role_update_or_create d s = (Inr (ro_id r), s\<lparr>next_id := next_id s, roles := ?rs\<rparr>)"
      using present(3) by (simp add: role_update_or_create_def op_simps)
    have "authz_inv (s\<lparr>next_id := next_id s, roles := ?rs\<rparr>)"
      using assms present(1) by (auto simp: authz_inv_def role_table_ok_def update_where_map set)
    then show thesis using that [OF run] present(2) by (auto simp: set role_matches_def)
  qed
qed

lemma role_unchanged:
  assumes "authz_inv s" and "r \<in> set (roles s)" and "role_matches d r"
  shows "role_update_or_create d s = (Inr (ro_id r), s)"
proof -
  have ok: "role_table_ok (roles s)" using assms(1) by (simp add: authz_inv_def)
  have "get_where ''Role'' (\<lambda>q. ro_slug q = rd_slug d) (roles s) = Inr r"
    using role_by_slug.get_by_key [OF ok assms(2)] assms(3) by (simp add: role_matches_def)
  moreover have "update_where (\<lambda>q. ro_id q = ro_id r) (role_set d) (roles s) = roles s"
    using assms(3) by (intro role_by_id.update_by_key_unchanged [OF ok assms(2)]) (simp add: role_set_def role_matches_def)
  ultimately show ?thesis by (simp add: role_update_or_create_def op_simps)
qed

definition linked :: "db \<Rightarrow> uuid \<Rightarrow> uuid \<Rightarrow> bool" where
  "linked s rid pid \<longleftrightarrow> (\<exists>l\<in>set (role_permissions s). rp_role l = rid \<and> rp_permission l = pid)"

lemma link_run:
  "\<exists>n ls. link_get_or_create rid pid s = (Inr (), s\<lparr>next_id := n, role_permissions := ls\<rparr>) \<and> next_id s \<le> n \<and>
        set (role_permissions s) \<subseteq> set ls \<and> linked (s\<lparr>next_id := n, role_permissions := ls\<rparr>) rid pid"
proof (cases "linked s rid pid")
  case True
  then have "link_get_or_create rid pid s = (Inr (), s\<lparr>next_id := next_id s, role_permissions := role_permissions s\<rparr>)"
    by (simp add: link_get_or_create_def op_simps linked_def)
  then show ?thesis using True by (intro exI [of _ "next_id s"] exI [of _ "role_permissions s"]) (simp add: linked_def)
next
  case False
  let ?ls = "\<lparr>rp_id = next_id s, rp_role = rid, rp_permission = pid\<rparr> # role_permissions s"
  have "link_get_or_create rid pid s = (Inr (), s\<lparr>next_id := Suc (next_id s), role_permissions := ?ls\<rparr>)"
    using False by (simp add: link_get_or_create_def op_simps linked_def)
  then show ?thesis by (intro exI [of _ "Suc (next_id s)"] exI [of _ ?ls]) (auto simp: linked_def)
qed

lemma link_unchanged: "linked s rid pid \<Longrightarrow> link_get_or_create rid pid s = (Inr (), s)"
  by (simp add: link_get_or_create_def op_simps linked_def)

lemma link_named_Some: "pair_get c rows = Some pid \<Longrightarrow> link_named rows rid c = link_get_or_create rid pid"
  by (simp add: link_named_def)

lemma link_each_run:
  assumes "\<forall>c\<in>set cs. \<exists>pid. pair_get c rows = Some pid"
  shows "\<exists>n ls. for_each (link_named rows rid) cs s = (Inr (), s\<lparr>next_id := n, role_permissions := ls\<rparr>) \<and> next_id s \<le> n \<and>
     set (role_permissions s) \<subseteq> set ls \<and> (\<forall>c\<in>set cs. linked (s\<lparr>role_permissions := ls\<rparr>) rid (the (pair_get c rows)))"
  using assms
proof (induction cs arbitrary: s)
  case Nil
  then show ?case by (intro exI [of _ "next_id s"] exI [of _ "role_permissions s"]) (simp add: ret_def)
next
  case (Cons c cs)
  then obtain pid where pid: "pair_get c rows = Some pid" by auto
  obtain n ls where l: "link_get_or_create rid pid s = (Inr (), s\<lparr>next_id := n, role_permissions := ls\<rparr>)" "next_id s \<le> n"
    "set (role_permissions s) \<subseteq> set ls" "linked (s\<lparr>next_id := n, role_permissions := ls\<rparr>) rid pid" using link_run by blast
  let ?s = "s\<lparr>next_id := n, role_permissions := ls\<rparr>"
  obtain n' ls' where l': "for_each (link_named rows rid) cs ?s = (Inr (), s\<lparr>next_id := n', role_permissions := ls'\<rparr>)" "n \<le> n'"
    "set ls \<subseteq> set ls'" "\<forall>c\<in>set cs. linked (?s\<lparr>role_permissions := ls'\<rparr>) rid (the (pair_get c rows))"
    using Cons.IH [of ?s] Cons.prems by auto
  have "linked (s\<lparr>role_permissions := ls'\<rparr>) rid pid" using l(4) l'(3) by (auto simp: linked_def)
  then show ?case using l l' pid by (intro exI [of _ n'] exI [of _ ls']) (auto simp: op_simps link_named_Some linked_def)
qed

lemma link_each_unchanged:
  assumes "\<forall>c\<in>set cs. \<exists>pid. pair_get c rows = Some pid \<and> linked s rid pid"
  shows "for_each (link_named rows rid) cs s = (Inr (), s)"
  using assms by (induction cs) (auto simp: op_simps link_named_Some link_unchanged)

text \<open>The tables agree with the registry and the role definitions.\<close>

definition role_synced :: "db \<Rightarrow> (string \<times> uuid) list \<Rightarrow> role_definition \<Rightarrow> bool" where
  "role_synced s rows d \<longleftrightarrow> (\<exists>r\<in>set (roles s). role_matches d r \<and>
     (\<forall>c\<in>set (desired_codes rows d). \<exists>pid. pair_get c rows = Some pid \<and> linked s (ro_id r) pid))"

definition names_known :: "string list \<Rightarrow> role_definition \<Rightarrow> bool" where
  "names_known codes d = (case rd_permissions d of Every \<Rightarrow> True | Only cs \<Rightarrow> set cs \<subseteq> set codes)"

lemma desired_found:
  assumes "names_known (map fst rows) d" and "c \<in> set (desired_codes rows d)"
  shows "\<exists>pid. pair_get c rows = Some pid"
proof -
  have "c \<in> fst ` set rows" using assms by (auto simp: names_known_def desired_codes_def split: desired_permissions.splits)
  then show ?thesis by (cases "map_of rows c") (auto simp: pair_get_def map_of_eq_None_iff)
qed

lemma sync_role_run:
  assumes "authz_inv s" and "names_known (map fst rows) d"
  shows "\<exists>n rs ls. sync_role rows d s = (Inr (), s\<lparr>next_id := n, roles := rs, role_permissions := ls\<rparr>) \<and>
     authz_inv (s\<lparr>next_id := n, roles := rs, role_permissions := ls\<rparr>) \<and>
     role_synced (s\<lparr>next_id := n, roles := rs, role_permissions := ls\<rparr>) rows d \<and>
     (\<forall>r\<in>set (roles s). ro_slug r \<noteq> rd_slug d \<longrightarrow> r \<in> set rs) \<and> set (role_permissions s) \<subseteq> set ls"
proof -
  obtain i n rs where r: "role_update_or_create d s = (Inr i, s\<lparr>next_id := n, roles := rs\<rparr>)"
    and inv: "authz_inv (s\<lparr>next_id := n, roles := rs\<rparr>)" and i: "\<exists>r\<in>set rs. role_matches d r \<and> ro_id r = i"
    and keep: "\<And>r. r \<in> set (roles s) \<Longrightarrow> ro_slug r \<noteq> rd_slug d \<Longrightarrow> r \<in> set rs"
    by (rule role_run [OF assms(1), where d = d]) (rule that)
  let ?s = "s\<lparr>next_id := n, roles := rs\<rparr>"
  obtain m ls where l: "for_each (link_named rows i) (desired_codes rows d) ?s = (Inr (), ?s\<lparr>next_id := m, role_permissions := ls\<rparr>)" "n \<le> m"
    "set (role_permissions ?s) \<subseteq> set ls"
    "\<forall>c\<in>set (desired_codes rows d). linked (?s\<lparr>role_permissions := ls\<rparr>) i (the (pair_get c rows))"
    using link_each_run [of "desired_codes rows d" rows i ?s] desired_found [OF assms(2)] by auto
  let ?t = "s\<lparr>next_id := m, roles := rs, role_permissions := ls\<rparr>"
  have t: "?s\<lparr>next_id := m, role_permissions := ls\<rparr> = ?t" by (cases s) simp
  have "sync_role rows d s = (Inr (), ?t)" using r l(1) unfolding t by (simp add: sync_role_def op_simps)
  moreover have "authz_inv ?t" using inv l(2) by (auto simp: authz_inv_def)
  moreover have "role_synced ?t rows d"
    using i l(4) desired_found [OF assms(2)] unfolding role_synced_def linked_def by fastforce
  ultimately show ?thesis using keep l(3) by (intro exI [of _ m] exI [of _ rs] exI [of _ ls]) simp
qed

lemma role_synced_mono:
  assumes "role_synced s rows d" and "\<And>r. r \<in> set (roles s) \<Longrightarrow> ro_slug r = rd_slug d \<Longrightarrow> r \<in> set (roles t)"
    and "set (role_permissions s) \<subseteq> set (role_permissions t)"
  shows "role_synced t rows d"
proof -
  obtain r where r: "r \<in> set (roles s)" "role_matches d r"
    "\<forall>c\<in>set (desired_codes rows d). \<exists>pid. pair_get c rows = Some pid \<and> linked s (ro_id r) pid"
    using assms(1) by (auto simp: role_synced_def)
  moreover have "r \<in> set (roles t)" using assms(2) r(1,2) by (simp add: role_matches_def)
  moreover have "linked t i pid" if "linked s i pid" for i pid using that assms(3) by (auto simp: linked_def)
  ultimately show ?thesis unfolding role_synced_def by blast
qed

lemma sync_roles_run:
  assumes "authz_inv s" and "\<forall>d\<in>set ds. names_known (map fst rows) d" and "distinct (map rd_slug ds)"
  shows "\<exists>n rs ls. for_each (sync_role rows) ds s = (Inr (), s\<lparr>next_id := n, roles := rs, role_permissions := ls\<rparr>) \<and>
     authz_inv (s\<lparr>next_id := n, roles := rs, role_permissions := ls\<rparr>) \<and>
     (\<forall>d\<in>set ds. role_synced (s\<lparr>next_id := n, roles := rs, role_permissions := ls\<rparr>) rows d) \<and>
     (\<forall>r\<in>set (roles s). ro_slug r \<notin> rd_slug ` set ds \<longrightarrow> r \<in> set rs) \<and> set (role_permissions s) \<subseteq> set ls"
  using assms
proof (induction ds arbitrary: s)
  case Nil
  have eq: "s\<lparr>next_id := next_id s, roles := roles s, role_permissions := role_permissions s\<rparr> = s" by (cases s) simp
  have run: "for_each (sync_role rows) [] s = (Inr (), s\<lparr>next_id := next_id s, roles := roles s, role_permissions := role_permissions s\<rparr>)"
    unfolding eq by (simp add: ret_def)
  have inv: "authz_inv (s\<lparr>next_id := next_id s, roles := roles s, role_permissions := role_permissions s\<rparr>)"
    unfolding eq by (rule Nil.prems(1))
  show ?case by (intro exI conjI, rule run, rule inv) simp_all
next
  case (Cons d ds)
  obtain n rs ls where r: "sync_role rows d s = (Inr (), s\<lparr>next_id := n, roles := rs, role_permissions := ls\<rparr>)"
    "authz_inv (s\<lparr>next_id := n, roles := rs, role_permissions := ls\<rparr>)"
    "role_synced (s\<lparr>next_id := n, roles := rs, role_permissions := ls\<rparr>) rows d"
    "\<forall>r\<in>set (roles s). ro_slug r \<noteq> rd_slug d \<longrightarrow> r \<in> set rs" "set (role_permissions s) \<subseteq> set ls"
    using sync_role_run [OF Cons.prems(1), of rows d] Cons.prems(2) by auto
  let ?s = "s\<lparr>next_id := n, roles := rs, role_permissions := ls\<rparr>"
  obtain n' rs' ls' where r': "for_each (sync_role rows) ds ?s = (Inr (), s\<lparr>next_id := n', roles := rs', role_permissions := ls'\<rparr>)"
    "authz_inv (s\<lparr>next_id := n', roles := rs', role_permissions := ls'\<rparr>)"
    "\<forall>d\<in>set ds. role_synced (s\<lparr>next_id := n', roles := rs', role_permissions := ls'\<rparr>) rows d"
    "\<forall>r\<in>set rs. ro_slug r \<notin> rd_slug ` set ds \<longrightarrow> r \<in> set rs'" "set ls \<subseteq> set ls'"
    using Cons.IH [OF r(2)] Cons.prems(2,3) by auto
  have "role_synced (s\<lparr>next_id := n', roles := rs', role_permissions := ls'\<rparr>) rows d"
    using Cons.prems(3) r'(4,5) by (intro role_synced_mono [OF r(3)]) auto
  then show ?case using r r' by (intro exI [of _ n'] exI [of _ rs'] exI [of _ ls']) (auto simp: op_simps)
qed

lemma sync_roles_unchanged:
  assumes "authz_inv s" and "\<forall>d\<in>set ds. role_synced s rows d"
  shows "for_each (sync_role rows) ds s = (Inr (), s)"
  using assms(2)
proof (induction ds)
  case (Cons d ds)
  then obtain r where r: "r \<in> set (roles s)" "role_matches d r"
    "\<forall>c\<in>set (desired_codes rows d). \<exists>pid. pair_get c rows = Some pid \<and> linked s (ro_id r) pid"
    by (auto simp: role_synced_def)
  have "sync_role rows d s = (Inr (), s)"
    using role_unchanged [OF assms(1) r(1,2)] link_each_unchanged [OF r(3)] by (simp add: sync_role_def op_simps)
  then show ?case using Cons by (simp add: op_simps)
qed (simp add: ret_def)

lemma registered_keys:
  "distinct (map fst (get_registered_permissions reg))" "set (map fst (get_registered_permissions reg)) = fst ` set reg"
  by (simp_all add: get_registered_permissions_def comp_def)

definition knows_roles :: "registry \<Rightarrow> bool" where
  \<comment> \<open>every codename that a role definition names is registered\<close>
  "knows_roles reg \<longleftrightarrow> list_all (names_known (map fst reg)) ROLE_DEFINITIONS"

definition has_setting :: "db \<Rightarrow> bool" where
  "has_setting s \<longleftrightarrow> (\<exists>r\<in>set (runtime_settings s). sg_key r = ''site.registration_enabled'')"

definition has_flag :: "db \<Rightarrow> bool" where
  "has_flag s \<longleftrightarrow> (\<exists>f\<in>set (feature_flags s). ff_key f = ''registration.enabled'')"

lemma setting_unchanged: "has_setting s \<Longrightarrow> setting_get_or_create s = (Inr (), s)"
  by (simp add: setting_get_or_create_def op_simps has_setting_def)

lemma flag_unchanged: "has_flag s \<Longrightarrow> flag_get_or_create s = (Inr (), s)"
  by (simp add: flag_get_or_create_def op_simps has_flag_def)

lemma defaults_run:
  obtains s' where "then_op setting_get_or_create flag_get_or_create s = (Inr (), s')" and "has_setting s'" and "has_flag s'"
    and "permissions s' = permissions s" and "roles s' = roles s" and "role_permissions s' = role_permissions s"
    and "next_id s \<le> next_id s'"
proof -
  obtain s1 where s1: "setting_get_or_create s = (Inr (), s1)" "has_setting s1" "permissions s1 = permissions s"
    "roles s1 = roles s" "role_permissions s1 = role_permissions s" "next_id s \<le> next_id s1"
    by (cases "has_setting s") (simp_all add: setting_unchanged, simp add: setting_get_or_create_def op_simps has_setting_def)
  obtain s2 where s2: "flag_get_or_create s1 = (Inr (), s2)" "has_flag s2" "has_setting s2" "permissions s2 = permissions s1"
    "roles s2 = roles s1" "role_permissions s2 = role_permissions s1" "next_id s1 \<le> next_id s2"
    using s1(2) by (cases "has_flag s1") (simp_all add: flag_unchanged, simp add: flag_get_or_create_def op_simps has_flag_def has_setting_def)
  have "then_op setting_get_or_create flag_get_or_create s = (Inr (), s2)" using s1(1) s2(1) by (simp add: op_simps)
  then show thesis using s1 s2 by (intro that [of s2]) simp_all
qed

lemma authz_inv_next: "authz_inv s \<Longrightarrow> permissions t = permissions s \<Longrightarrow> roles t = roles s \<Longrightarrow> next_id s \<le> next_id t \<Longrightarrow> authz_inv t"
  by (auto simp: authz_inv_def)

text \<open>
  What one run establishes: the rows that the permission loop looked up, the synchronised roles, the
  setting and the flag.
\<close>

definition synced :: "registry \<Rightarrow> (string \<times> uuid) list \<Rightarrow> db \<Rightarrow> bool" where
  "synced reg rows s \<longleftrightarrow> authz_inv s \<and> map fst rows = map fst (get_registered_permissions reg) \<and>
     rows_ok (permissions s) rows \<and>
     (\<forall>(c, d)\<in>set (get_registered_permissions reg). permission_synced (permissions s) c d) \<and>
     (\<forall>d\<in>set ROLE_DEFINITIONS. role_synced s rows d) \<and> has_setting s \<and> has_flag s"

lemma role_slugs_distinct: "distinct (map rd_slug ROLE_DEFINITIONS)"
  by (simp add: ROLE_DEFINITIONS_def)

lemma bootstrap_run:
  assumes "authz_inv s" and "knows_roles reg"
  shows "\<exists>rows s'. bootstrap reg s = (Inr (), s') \<and> synced reg rows s'"
proof -
  obtain rows n ps where p: "sync_permissions (get_registered_permissions reg) s = (Inr rows, s\<lparr>next_id := n, permissions := ps\<rparr>)"
    "authz_inv (s\<lparr>next_id := n, permissions := ps\<rparr>)" "map fst rows = map fst (get_registered_permissions reg)" "rows_ok ps rows"
    "\<forall>(c, d)\<in>set (get_registered_permissions reg). permission_synced ps c d"
    using sync_permissions_run [OF assms(1) registered_keys(1)] by blast
  let ?s1 = "s\<lparr>next_id := n, permissions := ps\<rparr>"
  have "set (map fst rows) = set (map fst reg)" using p(3) registered_keys(2) [of reg] by (metis set_map)
  then have "\<forall>d\<in>set ROLE_DEFINITIONS. names_known (map fst rows) d"
    using assms(2) by (auto simp: knows_roles_def list_all_iff names_known_def split: desired_permissions.splits)
  then obtain m rs ls where r: "for_each (sync_role rows) ROLE_DEFINITIONS ?s1 = (Inr (), ?s1\<lparr>next_id := m, roles := rs, role_permissions := ls\<rparr>)"
    "authz_inv (?s1\<lparr>next_id := m, roles := rs, role_permissions := ls\<rparr>)"
    "\<forall>d\<in>set ROLE_DEFINITIONS. role_synced (?s1\<lparr>next_id := m, roles := rs, role_permissions := ls\<rparr>) rows d"
    using sync_roles_run [OF p(2) _ role_slugs_distinct] by blast
  let ?s2 = "?s1\<lparr>next_id := m, roles := rs, role_permissions := ls\<rparr>"
  obtain s3 where d: "then_op setting_get_or_create flag_get_or_create ?s2 = (Inr (), s3)" "has_setting s3" "has_flag s3"
    "permissions s3 = ps" "roles s3 = rs" "role_permissions s3 = ls" "m \<le> next_id s3"
    by (rule defaults_run [of ?s2]) (simp add: that)
  have "bootstrap reg s = (Inr (), s3)"
    unfolding bootstrap_def by (rule atomic_ok, subst bind_op_ok, rule p(1), subst then_op_ok, rule r(1), rule d(1))
  moreover have "authz_inv s3" using r(2) d by (intro authz_inv_next [OF r(2)]) simp_all
  moreover have "role_synced s3 rows d'" if "d' \<in> set ROLE_DEFINITIONS" for d'
    by (rule role_synced_mono [OF bspec [OF r(3) that]]) (simp_all add: d(5,6))
  ultimately have "bootstrap reg s = (Inr (), s3) \<and> synced reg rows s3" unfolding synced_def d(4) using p(3-5) d(2,3) by simp
  then show ?thesis by blast
qed

lemma bootstrap_unchanged:
  assumes "synced reg rows s"
  shows "bootstrap reg s = (Inr (), s)"
proof -
  have inv: "authz_inv s" and rows: "map fst rows = map fst (get_registered_permissions reg)" "rows_ok (permissions s) rows"
    using assms by (simp_all add: synced_def)
  obtain rows' where p: "sync_permissions (get_registered_permissions reg) s = (Inr rows', s)"
    "map fst rows' = map fst (get_registered_permissions reg)" "rows_ok (permissions s) rows'"
    using sync_permissions_unchanged [OF inv, of "get_registered_permissions reg"] assms by (auto simp: synced_def)
  have "rows' = rows" using rows_determined [OF inv rows(2) p(3)] rows(1) p(2) by simp
  then have r: "for_each (sync_role rows') ROLE_DEFINITIONS s = (Inr (), s)"
    using assms by (intro sync_roles_unchanged [OF inv]) (simp add: synced_def)
  have d: "then_op setting_get_or_create flag_get_or_create s = (Inr (), s)"
    using assms by (simp add: synced_def then_op_run setting_unchanged flag_unchanged)
  show ?thesis unfolding bootstrap_def by (rule atomic_ok, subst bind_op_ok, rule p(1), subst then_op_ok, rule r, rule d)
qed

section \<open>Properties of bootstrap\<close>



section \<open>What seed may do\<close>

lemma preserves_users_sync:
  "preserves (\<lambda>s. users s = us) (permission_update_or_create c d)"
  "preserves (\<lambda>s. users s = us) (role_update_or_create rd)"
  "preserves (\<lambda>s. users s = us) (link_named rows rid c)"
  "preserves (\<lambda>s. users s = us) setting_get_or_create"
  "preserves (\<lambda>s. users s = us) flag_get_or_create"
  unfolding permission_update_or_create_def role_update_or_create_def link_named_def link_get_or_create_def
    setting_get_or_create_def flag_get_or_create_def
  by (intro preserves_intros; simp)+

lemma preserves_users_permissions: "preserves (\<lambda>s. users s = us) (sync_permissions items)"
proof (induction items)
  case (Cons x items)
  then show ?case by (cases x) (auto intro!: preserves_intros preserves_users_sync)
qed (simp add: preserves_ret)

lemma bootstrap_keeps_users: "preserves (\<lambda>s. users s = us) (bootstrap reg)"
  unfolding bootstrap_def sync_role_def
  by (intro preserves_intros preserves_users_permissions preserves_users_sync)

lemma create_user_row_users:
  assumes "create_user_row e email name pw salt x s = (r, t)"
  shows "users t = users s \<or> (\<exists>u. r = Inr u \<and> users t = u # users s \<and> u_is_superuser u = given (x_is_superuser x) False \<and>
    u_is_staff u = given (x_is_staff x) False \<and> u_status u = given (x_status x) PENDING)"
  using assms by (auto simp: create_user_row_def user_insert_run op_simps Let_def new_user_def split: option.splits if_splits)

text \<open>
  The command adds an account only when it is asked for one, in debug mode, outside production, and when no account has the
  address; whatever it answers, it adds one account at most.
\<close>

theorem seed_adds_admin:
  assumes "seed e reg demo_admin password salt s = (r, t)" and "users t \<noteq> users s"
  shows "r = Inr () \<and> demo_admin \<and> DEBUG (cfg e) \<and> APP_ENV (cfg e) \<noteq> ''production'' \<and>
    (\<forall>u\<in>set (users s). u_email u \<noteq> ''admin@example.test'') \<and>
    (\<exists>u. users t = u # users s \<and> u_is_superuser u \<and> u_is_staff u \<and> u_status u = ACTIVE)"
proof -
  obtain r1 s1 where b: "bootstrap reg s = (r1, s1)" by fastforce
  have us: "users s1 = users s" using preserves_run [OF bootstrap_keeps_users _ b] by blast
  have ok: "r1 = Inr ()" using assms us by (cases r1) (auto simp: seed_def then_op_run b)
  have cond: "demo_admin" "DEBUG (cfg e)" "APP_ENV (cfg e) \<noteq> ''production''" "\<forall>u\<in>set (users s). u_email u \<noteq> ''admin@example.test''"
    using assms us ok by (auto simp: seed_def then_op_run b op_simps split: if_splits)
  have none: "first_where (\<lambda>u. u_email u = ''admin@example.test'') (users s) = None" using cond(4) by simp
  let ?x = "no_extra\<lparr>x_is_staff := Some True, x_is_superuser := Some True, x_is_active := Some True, x_status := Some ACTIVE,
     x_email_verified_at := Some (Some (clock s1))\<rparr>"
  obtain r2 where c: "create_user_row e ''admin@example.test'' ''demo-admin'' (Some password) salt ?x s1 = (r2, t)"
    and r: "r = (case r2 of Inl x \<Rightarrow> Inl x | Inr _ \<Rightarrow> Inr ())"
    using assms(1) us ok cond by (auto simp: seed_def then_op_run b op_simps create_superuser_def no_extra_def setdefault_def none
        split: if_splits prod.splits sum.splits)
  from create_user_row_users [OF c] assms(2) us cond r show ?thesis by (auto simp: given_def)
qed

end
