(* ===== verification/ApiKeys.thy ===== *)
theory ApiKeys
  imports Login
begin

text \<open>
  API keys: \<^verbatim>\<open>APIKeyService\<close>, the REST framework authentication class and the scope permission of
  \<^verbatim>\<open>apps/api_keys\<close>. The random prefix and secret of a new key are arguments. A key is revoked by
  stamping its row, so the \<open>stamped\<close> contract carries the proof that a revoked key stays dead, and
  the authentication class is one more \<open>account_gate\<close>.
\<close>

section \<open>APIKeyService\<close>

definition marker :: string where
  "marker = ''dk''"

definition api_key_hash :: "env \<Rightarrow> string \<Rightarrow> string" where
  "api_key_hash e raw_key = keyed_hash_pepper e ''api-key''
     (Some (if API_KEY_PEPPER (cfg e) \<noteq> [] then API_KEY_PEPPER (cfg e) else SECRET_KEY (cfg e))) raw_key"

definition raw_api_key :: "string \<Rightarrow> string \<Rightarrow> string" where
  "raw_api_key prefix secret = marker @ ''_'' @ prefix @ ''.'' @ secret"

definition api_key_target :: "env \<Rightarrow> api_key \<Rightarrow> audit_target" where
  "api_key_target e k =
     \<lparr>at_label = ''api_keys.apikey'', at_pk = uuid_str (plat e) (ak_id k),
      at_repr = ak_name k @ '' ('' @ ak_prefix k @ '')''\<rparr>"

definition api_key_insert :: "api_key \<Rightarrow> unit action" where
  \<comment> \<open>the insert of \<^verbatim>\<open>APIKey.objects.create\<close>: the prefix is a unique column\<close>
  "api_key_insert k =
     bind_op (reads (\<lambda>s. exists_where (\<lambda>q. ak_prefix q = ak_prefix k) (api_keys s))) (\<lambda>dup.
     then_op (raise_if dup (IntegrityError ''prefix''))
     (modify (\<lambda>s. s\<lparr>api_keys := k # api_keys s\<rparr>)))"

definition api_key_create ::
    "env \<Rightarrow> uuid \<Rightarrow> string \<Rightarrow> string list \<Rightarrow> datetime option \<Rightarrow> uuid option \<Rightarrow> request option \<Rightarrow> string \<Rightarrow> string \<Rightarrow>
     (api_key \<times> string) action" where
  "api_key_create e owner name scopes expires_at actor rq prefix secret = atomic
     (let raw = raw_api_key prefix secret in
      bind_op fresh_id (\<lambda>i. bind_op now_op (\<lambda>now.
      let k = \<lparr>ak_id = i, ak_owner = owner, ak_name = name, ak_prefix = prefix, ak_key_hash = api_key_hash e raw,
               ak_scopes = py_sorted_set scopes, ak_created_at = now, ak_last_used_at = None, ak_last_used_ip = None,
               ak_expires_at = expires_at, ak_revoked_at = None\<rparr> in
      then_op (api_key_insert k)
      (then_op (security_record e API_KEY_CREATED (Some owner) rq [(''prefix'', PStr prefix)])
      (then_op (audit_record e ((audit_call ''api_key.created'')
         \<lparr>aa_target := Some (api_key_target e k),
          aa_actor := Some (UserActor (case actor of None \<Rightarrow> owner | Some a \<Rightarrow> a)), aa_request := rq,
          aa_after := [(''name'', PStr name), (''scopes'', PList (map PStr (ak_scopes k))), (''prefix'', PStr prefix)]\<rparr>))
      (ret (k, raw)))))))"

definition key_with_owner :: "db \<Rightarrow> string \<Rightarrow> (api_key \<times> user) option" where
  \<comment> \<open>\<^verbatim>\<open>APIKey.objects.select_related("owner").filter(prefix=prefix).first()\<close>\<close>
  "key_with_owner s prefix =
     (case first_where (\<lambda>k. ak_prefix k = prefix \<and> exists_where (\<lambda>u. u_id u = ak_owner k) (users s)) (api_keys s) of
        None \<Rightarrow> None
      | Some k \<Rightarrow> map_option (\<lambda>u. (k, u)) (first_where (\<lambda>u. u_id u = ak_owner k) (users s)))"

definition key_prefix :: "string \<Rightarrow> string" where
  \<comment> \<open>\<^verbatim>\<open>raw_key.split("_", 1)[1].split(".", 1)[0]\<close>, of a key that contains the separator\<close>
  "key_prefix raw = before_char (CHR ''.'') (case after_char (CHR ''_'') raw of None \<Rightarrow> [] | Some r \<Rightarrow> r)"

definition api_key_authenticate :: "env \<Rightarrow> string \<Rightarrow> string option \<Rightarrow> (api_key \<times> user) option action" where
  \<comment> \<open>the key with its owner, which the caller reads from it\<close>
  "api_key_authenticate e raw_key ip =
     (if \<not> startswith (marker @ ''_'') raw_key \<or> CHR ''.'' \<notin> set raw_key then ret None
      else bind_op (reads (\<lambda>s. key_with_owner s (key_prefix raw_key))) (\<lambda>found.
        case found of
          None \<Rightarrow> ret None
        | Some (k, owner) \<Rightarrow>
            bind_op (reads (\<lambda>s. api_key_is_active (clock s) k \<and> can_authenticate_now s owner \<and>
                       secure_compare (ak_key_hash k) (api_key_hash e raw_key))) (\<lambda>valid.
            bind_op now_op (\<lambda>now.
            if \<not> valid then ret None
            else then_op (modify (\<lambda>s. s\<lparr>api_keys := update_where (\<lambda>q. ak_id q = ak_id k)
                   (\<lambda>q. q\<lparr>ak_last_used_at := Some now, ak_last_used_ip := ip\<rparr>) (api_keys s)\<rparr>))
                 (ret (Some (k, owner)))))))"

definition key_mark_revoked :: "datetime \<Rightarrow> api_key \<Rightarrow> api_key" where
  "key_mark_revoked now k = k\<lparr>ak_revoked_at := Some now\<rparr>"

definition api_key_revoke :: "env \<Rightarrow> api_key \<Rightarrow> uuid option \<Rightarrow> request option \<Rightarrow> unit action" where
  "api_key_revoke e api_key actor rq = atomic
     (bind_op (reads (\<lambda>s. get_where ''APIKey'' (\<lambda>k. ak_id k = ak_id api_key) (api_keys s))) (\<lambda>found.
      bind_op (of_sum found) (\<lambda>locked.
      if ak_revoked_at locked \<noteq> None then ret ()
      else bind_op now_op (\<lambda>now.
        then_op (modify (\<lambda>s. s\<lparr>api_keys := update_where (\<lambda>k. ak_id k = ak_id locked) (key_mark_revoked now) (api_keys s)\<rparr>))
        (then_op (security_record e API_KEY_REVOKED (Some (ak_owner locked)) rq [(''prefix'', PStr (ak_prefix locked))])
        (audit_record e ((audit_call ''api_key.revoked'')
           \<lparr>aa_target := Some (api_key_target e locked),
            aa_actor := Some (UserActor (case actor of None \<Rightarrow> ak_owner locked | Some a \<Rightarrow> a)), aa_request := rq,
            aa_after := [(''revoked_at'', PStr (isoformat (plat e) now))]\<rparr>)))))))"

section \<open>Authentication class and scopes\<close>

definition invalid_api_key :: error where
  "invalid_api_key = AuthenticationFailed ''Invalid API key.''"

definition api_key_authentication :: "env \<Rightarrow> request \<Rightarrow> string option \<Rightarrow> (user \<times> api_key) option action" where
  \<comment> \<open>\<^verbatim>\<open>APIKeyAuthentication.authenticate\<close>; the last argument is the \<^verbatim>\<open>X-API-Key\<close> header\<close>
  "api_key_authentication e rq header =
     (if \<not> ENABLE_API_KEYS (cfg e) then ret None
      else case header of
        None \<Rightarrow> ret None
      | Some raw \<Rightarrow>
          if raw = [] then ret None
          else bind_op (api_key_authenticate e raw (get_client_ip e rq)) (\<lambda>found.
            case found of
              None \<Rightarrow> throw invalid_api_key
            | Some (k, owner) \<Rightarrow>
                bind_op (reads (\<lambda>s. can_authenticate_now s owner)) (\<lambda>available.
                then_op (raise_if (\<not> available) invalid_api_key) (ret (Some (owner, k))))))"

record view_scopes =
  required_api_key_scopes :: "string list option"
  required_api_key_scopes_by_method :: "(string \<times> string list) list option"

definition has_api_key_scope :: "api_key option \<Rightarrow> view_scopes \<Rightarrow> string \<Rightarrow> bool" where
  \<comment> \<open>\<^verbatim>\<open>HasAPIKeyScope.has_permission\<close> for the key of the request, the view and the method\<close>
  "has_api_key_scope auth_api_key view method' =
     (case auth_api_key of
        None \<Rightarrow> True
      | Some k \<Rightarrow>
          let by_method = required_api_key_scopes_by_method view;
              declared = (required_api_key_scopes view \<noteq> None \<or> by_method \<noteq> None);
              required = (case by_method of
                  Some m \<Rightarrow> (case pair_get method' m of None \<Rightarrow> [] | Some r \<Rightarrow> r)
                | None \<Rightarrow> (case required_api_key_scopes view of None \<Rightarrow> [] | Some r \<Rightarrow> r))
          in declared \<and> set required \<subseteq> set (ak_scopes k))"

section \<open>Serializer\<close>

definition validate_scopes :: "env \<Rightarrow> string list \<Rightarrow> error + string list" where
  "validate_scopes e value =
     (if set value - set (API_KEY_AVAILABLE_SCOPES (cfg e)) \<noteq> {}
      then Inl (InvalidData (PStr ''Unknown scopes'')) else Inr (py_sorted_set value))"

definition validate_expires_at :: "datetime \<Rightarrow> datetime option \<Rightarrow> error + datetime option" where
  "validate_expires_at now value =
     (case value of
        Some t \<Rightarrow> if t \<le> now then Inl (InvalidData (PStr ''Expiry must be in the future.'')) else Inr value
      | None \<Rightarrow> Inr value)"

section \<open>Invariant\<close>

definition key_table_ok :: "api_key list \<Rightarrow> bool" where
  "key_table_ok ks \<longleftrightarrow> distinct (map ak_id ks) \<and> distinct (map ak_prefix ks)"

interpretation key_by_id: keyed_table ak_id key_table_ok
  by unfold_locales (simp add: key_table_ok_def)

interpretation key_by_prefix: keyed_table ak_prefix key_table_ok
  by unfold_locales (simp add: key_table_ok_def)

interpretation key_revocation: stamped ak_id ak_revoked_at key_mark_revoked
  by unfold_locales (simp_all add: key_mark_revoked_def)

definition key_inv :: "db \<Rightarrow> bool" where
  "key_inv s \<longleftrightarrow> key_table_ok (api_keys s) \<and> (\<forall>k\<in>set (api_keys s). ak_id k < next_id s)"

text \<open>The operations that change the table.\<close>

inductive key_step :: "env \<Rightarrow> db \<Rightarrow> db \<Rightarrow> bool" for e :: env where
  create: "api_key_create e owner name scopes exp actor rq prefix secret s = (r, t) \<Longrightarrow> key_step e s t"
| authenticate: "api_key_authenticate e raw ip s = (r', t) \<Longrightarrow> key_step e s t"
| revoke: "api_key_revoke e k actor rq s = (r'', t) \<Longrightarrow> key_step e s t"
| tick: "key_step e s (s\<lparr>clock := now\<rparr>)"

section \<open>What the operations do\<close>

lemma key_prefix_raw:
  assumes "CHR ''.'' \<notin> set prefix"
  shows "key_prefix (raw_api_key prefix secret) = prefix"
proof -
  have "after_char (CHR ''_'') (''dk'' @ CHR ''_'' # prefix @ CHR ''.'' # secret) = Some (prefix @ CHR ''.'' # secret)"
    by (rule after_char_append) simp
  then show ?thesis using assms by (simp add: key_prefix_def raw_api_key_def marker_def)
qed

definition new_key :: "env \<Rightarrow> uuid \<Rightarrow> string \<Rightarrow> string list \<Rightarrow> datetime option \<Rightarrow> string \<Rightarrow> string \<Rightarrow> db \<Rightarrow> api_key" where
  "new_key e owner name scopes exp prefix secret s =
     \<lparr>ak_id = next_id s, ak_owner = owner, ak_name = name, ak_prefix = prefix,
      ak_key_hash = api_key_hash e (raw_api_key prefix secret), ak_scopes = py_sorted_set scopes,
      ak_created_at = clock s, ak_last_used_at = None, ak_last_used_ip = None, ak_expires_at = exp, ak_revoked_at = None\<rparr>"

lemma new_key_simps [simp]:
  "ak_id (new_key e owner name scopes exp prefix secret s) = next_id s"
  "ak_owner (new_key e owner name scopes exp prefix secret s) = owner"
  "ak_prefix (new_key e owner name scopes exp prefix secret s) = prefix"
  "ak_key_hash (new_key e owner name scopes exp prefix secret s) = api_key_hash e (raw_api_key prefix secret)"
  "ak_scopes (new_key e owner name scopes exp prefix secret s) = py_sorted_set scopes"
  "ak_expires_at (new_key e owner name scopes exp prefix secret s) = exp"
  "ak_revoked_at (new_key e owner name scopes exp prefix secret s) = None"
  by (simp_all add: new_key_def)

lemma api_key_create_run:
  obtains (taken) "prefix \<in> ak_prefix ` set (api_keys s)"
      "api_key_create e owner name scopes exp actor rq prefix secret s = (Inl (IntegrityError ''prefix''), s)"
    | (created) ev al where "prefix \<notin> ak_prefix ` set (api_keys s)"
      "api_key_create e owner name scopes exp actor rq prefix secret s =
         (Inr (new_key e owner name scopes exp prefix secret s, raw_api_key prefix secret),
          s\<lparr>next_id := Suc (next_id s), api_keys := new_key e owner name scopes exp prefix secret s # api_keys s,
            security_events := ev, audit_logs := al\<rparr>)"
proof (cases "prefix \<in> ak_prefix ` set (api_keys s)")
  case True
  then have "\<exists>q\<in>set (api_keys s). ak_prefix q = prefix" by auto
  then have "api_key_create e owner name scopes exp actor rq prefix secret s = (Inl (IntegrityError ''prefix''), s)"
    by (simp add: api_key_create_def api_key_insert_def op_simps Let_def)
  then show thesis using taken True by blast
next
  case False
  then have "\<not> (\<exists>q\<in>set (api_keys s). ak_prefix q = prefix)" by auto
  then show thesis by (intro created [OF False]) (simp add: api_key_create_def api_key_insert_def op_simps Let_def new_key_def)
qed

lemma key_with_ownerD:
  assumes "key_with_owner s prefix = Some (k, u)"
  shows "k \<in> set (api_keys s)" and "ak_prefix k = prefix" and "u \<in> set (users s)" and "u_id u = ak_owner k"
  using assms first_where_SomeD by (fastforce simp: key_with_owner_def split: option.splits)+

lemma api_key_authenticate_cases:
  obtains (refused) "api_key_authenticate e raw ip s = (Inr None, s)"
    | (accepted) k u where "api_key_authenticate e raw ip s = (Inr (Some (k, u)),
          s\<lparr>api_keys := update_where (\<lambda>q. ak_id q = ak_id k)
             (\<lambda>q. q\<lparr>ak_last_used_at := Some (clock s), ak_last_used_ip := ip\<rparr>) (api_keys s)\<rparr>)"
      and "key_with_owner s (key_prefix raw) = Some (k, u)" and "api_key_is_active (clock s) k"
      and "can_authenticate_now s u" and "ak_key_hash k = api_key_hash e raw"
proof (cases "\<not> startswith (marker @ ''_'') raw \<or> CHR ''.'' \<notin> set raw")
  case True
  then show thesis using refused by (auto simp: api_key_authenticate_def op_simps)
next
  case shape: False
  show thesis
  proof (cases "key_with_owner s (key_prefix raw)")
    case None
    then show thesis using refused shape by (simp add: api_key_authenticate_def op_simps)
  next
    case (Some ku)
    obtain k u where ku: "ku = (k, u)" by fastforce
    show thesis
    proof (cases "api_key_is_active (clock s) k \<and> can_authenticate_now s u \<and> ak_key_hash k = api_key_hash e raw")
      case True
      then show thesis using accepted [of k u] Some ku shape by (simp add: api_key_authenticate_def op_simps secure_compare_def)
    next
      case False
      then show thesis using refused Some ku shape by (auto simp: api_key_authenticate_def op_simps secure_compare_def)
    qed
  qed
qed

lemma api_key_revoke_cases:
  obtains (missing) err where "api_key_revoke e k actor rq s = (Inl err, s)" "get_where ''APIKey'' (\<lambda>q. ak_id q = ak_id k) (api_keys s) = Inl err"
    | (already) q where "api_key_revoke e k actor rq s = (Inr (), s)" "get_where ''APIKey'' (\<lambda>q. ak_id q = ak_id k) (api_keys s) = Inr q"
        "ak_revoked_at q \<noteq> None"
    | (revoked) q ev al where "api_key_revoke e k actor rq s = (Inr (), s\<lparr>api_keys :=
           update_where (\<lambda>q. ak_id q = ak_id k) (key_mark_revoked (clock s)) (api_keys s), security_events := ev, audit_logs := al\<rparr>)"
        "get_where ''APIKey'' (\<lambda>q. ak_id q = ak_id k) (api_keys s) = Inr q" "ak_revoked_at q = None"
proof (cases "get_where ''APIKey'' (\<lambda>q. ak_id q = ak_id k) (api_keys s)")
  case (Inl err)
  then show thesis using missing by (simp add: api_key_revoke_def op_simps)
next
  case (Inr q)
  then have "ak_id q = ak_id k" using get_where_InrD by fastforce
  then show thesis
  proof (cases "ak_revoked_at q")
    case None
    show thesis by (rule revoked [OF _ Inr None]) (simp add: api_key_revoke_def op_simps Inr None \<open>ak_id q = ak_id k\<close>)
  next
    case (Some t)
    show thesis by (rule already [OF _ Inr]) (simp_all add: api_key_revoke_def op_simps Inr Some)
  qed
qed

section \<open>A revoked key\<close>

definition key_dead :: "uuid \<Rightarrow> db \<Rightarrow> bool" where
  "key_dead i s \<longleftrightarrow> i < next_id s \<and> (\<forall>q\<in>set (api_keys s). ak_id q = i \<longrightarrow> ak_revoked_at q \<noteq> None)"

lemma key_dead_update:
  assumes "key_dead i s" and "\<And>q. ak_id (f q) = ak_id q" and "\<And>q. ak_revoked_at q \<noteq> None \<Longrightarrow> ak_revoked_at (f q) \<noteq> None"
    and "api_keys t = update_where P f (api_keys s)" and "next_id t = next_id s"
  shows "key_dead i t"
  unfolding key_dead_def
proof (intro conjI ballI impI)
  show "i < next_id t" using assms(1,5) by (simp add: key_dead_def)
  fix q assume "q \<in> set (api_keys t)" "ak_id q = i"
  then show "ak_revoked_at q \<noteq> None"
    unfolding assms(4) by (cases rule: update_whereE) (use assms(1-3) in \<open>auto simp: key_dead_def\<close>)
qed

lemma key_dead_step: "key_step e s t \<Longrightarrow> key_dead i s \<Longrightarrow> key_dead i t"
proof (induction rule: key_step.induct)
  case (create owner name scopes exp actor rq prefix secret s r t)
  then show ?case by (cases rule: api_key_create_run [of prefix s e owner name scopes exp actor rq secret]) (auto simp: key_dead_def)
next
  case (authenticate raw ip s r' t)
  show ?case
  proof (cases rule: api_key_authenticate_cases [of e raw ip s])
    case (accepted k u)
    then show ?thesis using authenticate.hyps by (intro key_dead_update [OF authenticate.prems]) auto
  qed (use authenticate in simp)
next
  case (revoke k actor rq s r'' t)
  show ?case
  proof (cases rule: api_key_revoke_cases [of e k actor rq s])
    case (revoked q ev al)
    then show ?thesis using revoke.hyps by (intro key_dead_update [OF revoke.prems]) (auto simp: key_mark_revoked_def)
  qed (use revoke in simp_all)
qed (simp add: key_dead_def)

lemma key_dead_steps: "(key_step e)\<^sup>*\<^sup>* s t \<Longrightarrow> key_dead i s \<Longrightarrow> key_dead i t"
  by (induction rule: rtranclp_induct) (auto intro: key_dead_step)

lemma found_key:
  assumes "key_inv s" and "get_where ''APIKey'' (\<lambda>q. ak_id q = i) (api_keys s) = Inr q"
  shows "i < next_id s"
proof -
  have "q \<in> set (api_keys s)" "ak_id q = i" using get_where_InrD [OF assms(2)] by blast+
  then show ?thesis using assms(1) by (auto simp: key_inv_def)
qed

lemma api_key_revoke_dead:
  assumes "key_inv s" and "api_key_revoke e k actor rq s = (Inr (), s')"
  shows "key_dead (ak_id k) s'"
proof (cases rule: api_key_revoke_cases [of e k actor rq s])
  case (already q)
  have "s' = s" using assms(2) already(1) by simp
  moreover have "ak_id k < next_id s" by (rule found_key [OF assms(1) already(2)])
  ultimately show ?thesis using get_where_InrD [OF already(2)] already(3) unfolding key_dead_def by blast
next
  case (revoked q ev al)
  have "ak_id k < next_id s" by (rule found_key [OF assms(1) revoked(2)])
  moreover have "next_id s' = next_id s"
    "api_keys s' = update_where (\<lambda>q. ak_id q = ak_id k) (key_mark_revoked (clock s)) (api_keys s)"
    using assms(2) revoked(1) by auto
  ultimately show ?thesis unfolding key_dead_def using key_revocation.stamp_by_key by fastforce
qed (use assms in simp)

lemma api_key_admission_spec:
  "case api_key_authentication e rq header s of
     (Inl err, s') \<Rightarrow> err = invalid_api_key \<and> s' = s
   | (Inr None, s') \<Rightarrow> s' = s \<and> (ENABLE_API_KEYS (cfg e) = False \<or> header = None \<or> header = Some [])
   | (Inr (Some (u, k)), s') \<Rightarrow> u \<in> set (users s) \<and> u_id u = ak_owner k \<and> k \<in> set (api_keys s) \<and>
        can_authenticate_now s u \<and> api_key_is_active (clock s) k \<and> Some (ak_key_hash k) = map_option (api_key_hash e) header"
proof (cases header)
  case None
  then show ?thesis by (simp add: api_key_authentication_def op_simps)
next
  case (Some raw)
  show ?thesis
  proof (cases "\<not> ENABLE_API_KEYS (cfg e) \<or> raw = []")
    case True
    then show ?thesis using Some by (auto simp: api_key_authentication_def op_simps)
  next
    case False
    show ?thesis
    proof (cases rule: api_key_authenticate_cases [of e raw "get_client_ip e rq" s])
      case refused
      then show ?thesis using Some False by (simp add: api_key_authentication_def op_simps)
    next
      case (accepted k u)
      have "can_authenticate_now (s\<lparr>api_keys := ks\<rparr>) u = can_authenticate_now s u" for ks
        by (simp add: can_authenticate_now_def has_active_ban_iff)
      then show ?thesis using Some False accepted key_with_ownerD [OF accepted(2)]
        by (simp add: api_key_authentication_def op_simps)
    qed
  qed
qed

section \<open>Properties\<close>

text \<open>
  A created key opens its owner's account until it expires. If \<open>api_key_create\<close> succeeds,
  then at every later instant before the expiry, while the owner may authenticate, presenting the
  returned text authenticates as the owner with the key's row, whose scopes are the requested ones
  sorted and without repetition.
\<close>

theorem api_key_roundtrip:
  assumes "key_inv s" and "user_table_ok (users s)" and "u \<in> set (users s)" and "CHR ''.'' \<notin> set prefix"
    and "api_key_create e (u_id u) name scopes exp actor rq prefix secret s = (Inr (k, raw), s')"
    and "\<forall>t. exp = Some t \<longrightarrow> now < t" and "can_authenticate_now (s'\<lparr>clock := now\<rparr>) u"
  shows "\<exists>s''. api_key_authenticate e raw ip (s'\<lparr>clock := now\<rparr>) = (Inr (Some (k, u)), s'') \<and>
           set (ak_scopes k) = set scopes \<and> sorted (ak_scopes k) \<and> distinct (ak_scopes k)"
proof (cases rule: api_key_create_run [of prefix s e "u_id u" name scopes exp actor rq secret])
  case taken
  then show ?thesis using assms(5) by simp
next
  case (created ev al)
  let ?k = "new_key e (u_id u) name scopes exp prefix secret s" and ?s = "s'\<lparr>clock := now\<rparr>"
  have k: "k = ?k" "raw = raw_api_key prefix secret" and s': "api_keys s' = ?k # api_keys s" "users s' = users s"
    using assms(5) created(2) by auto
  have fu: "first_where (\<lambda>v. u_id v = u_id u) (users s) = Some u" using user_by_id.first_by_key [OF assms(2,3)] .
  have "key_with_owner ?s prefix = Some (?k, u)"
    using assms(3) fu by (simp add: key_with_owner_def s' first_where_def) (metis find_Some_iff)
  moreover have "startswith (marker @ ''_'') raw" "CHR ''.'' \<in> set raw"
    unfolding k(2) raw_api_key_def by (simp_all add: marker_def startswith_def)
  ultimately show ?thesis
    using assms(6,7) key_prefix_raw [OF assms(4), of secret] k
    by (simp add: api_key_authenticate_def op_simps api_key_is_active_def secure_compare_def split: option.splits)
qed

theorem api_key_roundtrip_witness:
  "\<exists>k raw s' s''. api_key_create demo_env 7 ''ci'' [''profile.read''] (Some (hours 2)) None None ''abc'' ''xyz'' demo_db = (Inr (k, raw), s') \<and>
     api_key_authenticate demo_env raw None (s'\<lparr>clock := hours 1\<rparr>) = (Inr (Some (k, demo_user)), s'') \<and> set (ak_scopes k) = {''profile.read''}"
proof -
  have m: "demo_user \<in> set (users demo_db)" "u_id demo_user = 7" "api_keys demo_db = []"
    by (simp_all add: demo_db_def empty_db_def demo_user_def)
  have a: "key_inv demo_db" "user_table_ok (users demo_db)" using m
    by (simp_all add: key_inv_def key_table_ok_def user_table_ok_def demo_db_def)
  have p: "CHR ''.'' \<notin> set ''abc''" by simp
  show ?thesis
  proof (cases rule: api_key_create_run [of "''abc''" demo_db demo_env 7 "''ci''" "[''profile.read'']" "Some (hours 2)" None None "''xyz''"])
    case (created ev al)
    let ?k = "new_key demo_env 7 ''ci'' [''profile.read''] (Some (hours 2)) ''abc'' ''xyz'' demo_db"
    let ?s = "demo_db\<lparr>next_id := Suc (next_id demo_db), api_keys := ?k # api_keys demo_db, security_events := ev, audit_logs := al\<rparr>"
    have c: "can_authenticate_now (?s\<lparr>clock := hours 1\<rparr>) demo_user"
      by (simp add: can_authenticate_now_def has_active_ban_iff demo_db_def empty_db_def demo_user_def)
    have t: "\<forall>t. Some (hours 2) = Some t \<longrightarrow> hours 1 < t" by (simp add: hours_def)
    note cr = created(2) [folded m(2)]
    show ?thesis using api_key_roundtrip [OF a m(1) p cr t c [folded m(2)], of None] cr m(2) by auto
  qed (use m(3) in simp)
qed

text \<open>
  Property C19: a revoked key is dead for good. After \<open>api_key_revoke\<close> has returned, no sequence of key
  operations and no passing of time makes \<open>api_key_authenticate\<close> answer with that key again.
\<close>

theorem revoked_key_stays_dead:
  assumes "key_inv s" and "api_key_revoke e k actor rq s = (Inr (), s')" and "(key_step e)\<^sup>*\<^sup>* s' t"
    and "api_key_authenticate e raw ip t = (Inr (Some (q, u)), t')"
  shows "ak_id q \<noteq> ak_id k"
proof
  assume same: "ak_id q = ak_id k"
  have dead: "key_dead (ak_id k) t" using key_dead_steps [OF assms(3) api_key_revoke_dead [OF assms(1,2)]] .
  show False
  proof (cases rule: api_key_authenticate_cases [of e raw ip t])
    case (accepted k' u')
    then have "q \<in> set (api_keys t)" "ak_revoked_at q = None"
      using assms(4) key_with_ownerD(1) by (auto simp: api_key_is_active_def)
    then show False using dead same unfolding key_dead_def by fastforce
  qed (use assms(4) in simp)
qed

lemma key_step_tick: "(key_step e)\<^sup>*\<^sup>* s (s\<lparr>clock := now\<rparr>)"
  by (rule r_into_rtranclp) (rule key_step.tick)

definition demo_key :: api_key where
  "demo_key = new_key demo_env 7 ''ci'' [] None ''abc'' ''xyz'' demo_db"

theorem revoked_key_stays_dead_witness:
  "\<exists>s'. api_key_revoke demo_env demo_key None None (demo_db\<lparr>next_id := 101, api_keys := [demo_key]\<rparr>) = (Inr (), s') \<and>
     (\<nexists>u t'. api_key_authenticate demo_env (raw_api_key ''abc'' ''xyz'') None (s'\<lparr>clock := hours 1\<rparr>) = (Inr (Some (demo_key, u)), t'))"
proof -
  let ?s = "demo_db\<lparr>next_id := 101, api_keys := [demo_key]\<rparr>"
  have inv: "key_inv ?s" by (simp add: key_inv_def key_table_ok_def demo_key_def demo_db_def)
  show ?thesis
  proof (cases rule: api_key_revoke_cases [of demo_env demo_key None None ?s])
    case (missing err)
    then show ?thesis by (simp add: get_where_def)
  next
    case (already q)
    then show ?thesis
      using revoked_key_stays_dead [OF inv already(1) key_step_tick] by blast
  next
    case (revoked q ev al)
    then show ?thesis
      using revoked_key_stays_dead [OF inv revoked(1) key_step_tick] by blast
  qed
qed

text \<open>
  The API key class admits only accounts in good standing. Whatever header is presented,
  the class answers with nothing (keys disabled, or no header), raises the one error that does not say
  what was wrong, or returns a live key together with its owner, who may authenticate now and whose
  stored hash is the hash of the presented text; on the error the tables are unchanged.
\<close>

theorem api_key_admission:
  "case api_key_authentication e rq header s of
     (Inl err, s') \<Rightarrow> err = invalid_api_key \<and> s' = s
   | (Inr None, s') \<Rightarrow> s' = s \<and> (ENABLE_API_KEYS (cfg e) = False \<or> header = None \<or> header = Some [])
   | (Inr (Some (u, k)), s') \<Rightarrow> u \<in> set (users s) \<and> u_id u = ak_owner k \<and> k \<in> set (api_keys s) \<and>
        can_authenticate_now s u \<and> api_key_is_active (clock s) k \<and> Some (ak_key_hash k) = map_option (api_key_hash e) header"
  by (rule api_key_admission_spec)

definition required :: "'r option action \<Rightarrow> 'r action" where
  \<comment> \<open>\<^verbatim>\<open>IsAuthenticated\<close> on the answer of an authentication class\<close>
  "required m = bind_op m (\<lambda>r. case r of None \<Rightarrow> throw NotAuthenticated | Some x \<Rightarrow> ret x)"

interpretation api_key_gate: account_gate
  "\<lambda>(rq, header). required (api_key_authentication e rq header)" "\<lambda>r s u. u \<in> set (users s) \<and> u_id u = u_id (fst r)" for e
proof unfold_locales
  fix c s r s'
  assume a: "(case c of (rq, header) \<Rightarrow> required (api_key_authentication e rq header)) s = (Inr r, s')"
  obtain rq header where c: "c = (rq, header)" by fastforce
  from a obtain s1 where "api_key_authentication e rq header s = (Inr (Some r), s1)"
    unfolding c required_def prod.case bind_op_Inr_iff by (auto simp: op_simps split: option.splits)
  then show "\<exists>u. (u \<in> set (users s) \<and> u_id u = u_id (fst r)) \<and> can_authenticate_now s u"
    using api_key_admission_spec [where e = e and rq = rq and header = header and s = s] by (cases r) auto
qed

end
