(* ===== verification/Administration.thy ===== *)
theory Administration
  imports Bans Bootstrap ApiKeys
begin

text \<open>
  What the administration site adds to Django's own: the mixin of \<^verbatim>\<open>common/admin.py\<close> that records direct writes, and
  the overridden methods of \<^verbatim>\<open>apps/accounts/admin.py\<close>, \<^verbatim>\<open>apps/authorization/admin.py\<close>, \<^verbatim>\<open>apps/api_keys/admin.py\<close>,
  \<^verbatim>\<open>apps/audit/admin.py\<close> and the other \<^verbatim>\<open>admin.py\<close> files. Django's \<^verbatim>\<open>ModelAdmin\<close> is not part of the repository: the form has been
  checked, \<open>changed_data\<close> names the fields that it changed, and the methods of the library that are called through
  \<^verbatim>\<open>super()\<close> save or delete the row. The library runs the change form and the delete view in one transaction each.
\<close>

section \<open>AuditAdminMixin\<close>

record 'r audited_admin =
  label_lower :: string
  admin_target :: "env \<Rightarrow> db \<Rightarrow> 'r \<Rightarrow> audit_target"

record 'r model_admin = "'r audited_admin" +
  model_fields :: "string list"
  row_of :: "'r \<Rightarrow> db \<Rightarrow> 'r option"
  row_values :: "'r \<Rightarrow> (string \<times> pyval) list"
  row_attr :: "db \<Rightarrow> 'r \<Rightarrow> string \<Rightarrow> pyval"
  save_row :: "env \<Rightarrow> 'r \<Rightarrow> 'r action"

text \<open>
  \<open>row_of\<close> is \<^verbatim>\<open>filter(pk=obj.pk).first()\<close>, \<open>row_values\<close> its \<^verbatim>\<open>values()\<close>, whose keys are the names of the columns, and
  \<open>row_attr\<close> is \<^verbatim>\<open>getattr(obj, field, None)\<close>.
\<close>

record admin_request =
  adm_request :: request
  adm_user :: uuid

definition admin_audit ::
    "('r, 'z) audited_admin_scheme \<Rightarrow> env \<Rightarrow> admin_request \<Rightarrow> string \<Rightarrow> 'r \<Rightarrow> db \<Rightarrow> audit_args" where
  "admin_audit m e q verb obj s = (audit_call (''admin.'' @ label_lower m @ ''.'' @ verb))
     \<lparr>aa_target := Some (admin_target m e s obj), aa_actor := Some (UserActor (adm_user q)), aa_request := Some (adm_request q)\<rparr>"

definition record_admin :: "env \<Rightarrow> (db \<Rightarrow> audit_args) \<Rightarrow> unit action" where
  "record_admin e args = bind_op (reads args) (audit_record e)"

definition value_or_none :: "string \<Rightarrow> (string \<times> pyval) list \<Rightarrow> pyval" where
  "value_or_none field kvs = (case pair_get field kvs of None \<Rightarrow> PNone | Some v \<Rightarrow> v)"

definition save_model :: "'r model_admin \<Rightarrow> env \<Rightarrow> admin_request \<Rightarrow> 'r \<Rightarrow> string list \<Rightarrow> bool \<Rightarrow> 'r action" where
  "save_model m e q obj changed_data change =
     bind_op (reads (\<lambda>s. if change then (case row_of m obj s of None \<Rightarrow> [] | Some r \<Rightarrow> row_values m r) else [])) (\<lambda>before.
     bind_op (save_row m e obj) (\<lambda>saved.
     let changed = (if changed_data \<noteq> [] then changed_data else model_fields m) in
     then_op (record_admin e (\<lambda>s. (admin_audit m e q (if change then ''updated'' else ''created'') saved s)
        \<lparr>aa_before := map (\<lambda>f. (f, value_or_none f before)) changed, aa_after := map (\<lambda>f. (f, row_attr m s saved f)) changed\<rparr>))
     (ret saved)))"

definition delete_model :: "('r, 'z) audited_admin_scheme \<Rightarrow> env \<Rightarrow> admin_request \<Rightarrow> ('r \<Rightarrow> unit action) \<Rightarrow> 'r \<Rightarrow> unit action" where
  \<comment> \<open>the fourth argument is the library's method, which deletes the object\<close>
  "delete_model m e q delete obj = then_op (record_admin e (admin_audit m e q ''deleted'' obj)) (delete obj)"

definition delete_queryset ::
    "('r, 'z) audited_admin_scheme \<Rightarrow> env \<Rightarrow> admin_request \<Rightarrow> ('r list \<Rightarrow> unit action) \<Rightarrow> 'r list \<Rightarrow> unit action" where
  \<comment> \<open>the fourth argument is the library's method, which deletes the rows of the query set at once\<close>
  "delete_queryset m e q delete queryset =
     then_op (for_each (\<lambda>obj. record_admin e (admin_audit m e q ''deleted'' obj)) queryset) (delete queryset)"

section \<open>UserBanAdmin\<close>

definition user_attr_object :: "db \<Rightarrow> uuid \<Rightarrow> pyval" where
  \<comment> \<open>the related user, whose text is the address\<close>
  "user_attr_object s i = (case first_where (\<lambda>u. u_id u = i) (users s) of None \<Rightarrow> PNone | Some u \<Rightarrow> PObject (u_email u))"

definition time_value :: "datetime option \<Rightarrow> pyval" where
  "time_value x = (case x of None \<Rightarrow> PNone | Some t \<Rightarrow> PDatetime t)"

definition id_value :: "uuid option \<Rightarrow> pyval" where
  "id_value x = (case x of None \<Rightarrow> PNone | Some i \<Rightarrow> PUUID i)"

definition ban_values :: "user_ban \<Rightarrow> (string \<times> pyval) list" where
  "ban_values b = [(''id'', PUUID (b_id b)), (''user_id'', PUUID (b_user b)), (''reason'', PStr (b_reason b)),
     (''banned_by_id'', id_value (b_banned_by b)), (''starts_at'', PDatetime (b_starts_at b)), (''expires_at'', time_value (b_expires_at b)),
     (''created_at'', PDatetime (b_created_at b)), (''revoked_at'', time_value (b_revoked_at b))]"

definition ban_attr :: "db \<Rightarrow> user_ban \<Rightarrow> string \<Rightarrow> pyval" where
  "ban_attr s b field = value_or_none field (
     [(''user'', user_attr_object s (b_user b)),
      (''banned_by'', case b_banned_by b of None \<Rightarrow> PNone | Some i \<Rightarrow> user_attr_object s i)] @ ban_values b)"

definition ban_save :: "env \<Rightarrow> user_ban \<Rightarrow> user_ban action" where
  "ban_save e b = then_op (raise_if (\<not> ban_constraint b) (IntegrityError ''acct_ban_expiry_after_start''))
     (then_op (modify (\<lambda>s. s\<lparr>bans := update_where (\<lambda>x. b_id x = b_id b) (\<lambda>_. b) (bans s)\<rparr>)) (ret b))"

definition ban_target :: "env \<Rightarrow> db \<Rightarrow> user_ban \<Rightarrow> audit_target" where
  "ban_target e s b = \<lparr>at_label = ''accounts.userban'', at_pk = uuid_str (plat e) (b_id b),
     at_repr = ''Ban for '' @ (case first_where (\<lambda>u. u_id u = b_user b) (users s) of None \<Rightarrow> ''None'' | Some u \<Rightarrow> u_email u)\<rparr>"

definition ban_admin :: "user_ban model_admin" where
  "ban_admin =
     \<lparr>label_lower = ''accounts.userban'', admin_target = ban_target,
      model_fields = [''id'', ''user'', ''reason'', ''banned_by'', ''starts_at'', ''expires_at'', ''created_at'', ''revoked_at''],
      row_of = (\<lambda>b s. first_where (\<lambda>x. b_id x = b_id b) (bans s)), row_values = ban_values, row_attr = ban_attr, save_row = ban_save\<rparr>"

definition ban_delete :: "user_ban \<Rightarrow> unit action" where
  "ban_delete b = modify (\<lambda>s. s\<lparr>bans := delete_where (\<lambda>x. b_id x = b_id b) (bans s)\<rparr>)"

definition ban_save_model :: "env \<Rightarrow> admin_request \<Rightarrow> user_ban \<Rightarrow> string list \<Rightarrow> bool \<Rightarrow> user_ban action" where
  "ban_save_model e q obj changed_data change =
     (if change then save_model ban_admin e q obj changed_data change
      else ban e (b_user obj) (b_reason obj) (Some (adm_user q)) (Some (b_starts_at obj)) (b_expires_at obj) (Some (adm_request q)))"

definition revoke_selected_bans :: "env \<Rightarrow> admin_request \<Rightarrow> user_ban list \<Rightarrow> unit action" where
  "revoke_selected_bans e q queryset =
     for_each (\<lambda>b. ban_revoke e b (Some (adm_user q)) (Some (adm_request q))) (filter (\<lambda>b. b_revoked_at b = None) queryset)"

section \<open>UserAdmin\<close>

definition clean_status :: "account_status \<Rightarrow> error + account_status" where
  "clean_status status = (if status \<in> {BANNED, DELETED}
     then Inl (ValidationError ''Use the ban or account-deletion lifecycle service.'') else Inr status)"

definition user_values :: "user \<Rightarrow> (string \<times> pyval) list" where
  "user_values u = [(''password'', PStr (u_password u)), (''last_login'', time_value (u_last_login u)), (''is_superuser'', PBool (u_is_superuser u)),
     (''id'', PUUID (u_id u)), (''email'', PStr (u_email u)), (''username'', PStr (u_username u)), (''first_name'', PStr (u_first_name u)),
     (''last_name'', PStr (u_last_name u)), (''avatar'', PStr (u_avatar u)), (''phone'', PStr (u_phone u)), (''status'', PStr (status_text (u_status u))),
     (''email_verified_at'', time_value (u_email_verified_at u)), (''phone_verified_at'', time_value (u_phone_verified_at u)),
     (''is_active'', PBool (u_is_active u)), (''is_staff'', PBool (u_is_staff u)), (''date_joined'', PDatetime (u_date_joined u)),
     (''last_login_ip'', case u_last_login_ip u of None \<Rightarrow> PNone | Some t \<Rightarrow> PStr t), (''created_at'', PDatetime (u_created_at u)),
     (''updated_at'', PDatetime (u_updated_at u))]"

definition user_save :: "env \<Rightarrow> user \<Rightarrow> user action" where
  \<comment> \<open>\<^verbatim>\<open>User.save()\<close>: an update when the row exists, else an insertion\<close>
  "user_save e u =
     bind_op (reads (\<lambda>s. exists_where (\<lambda>v. u_id v = u_id u) (users s))) (\<lambda>exists.
     if exists then user_save_all e u
     else bind_op now_op (\<lambda>now. user_insert e (u\<lparr>u_created_at := now, u_updated_at := now\<rparr>)))"

definition user_attr_value :: "user \<Rightarrow> string \<Rightarrow> pyval" where
  \<comment> \<open>the picture is a file object whose text is its name, the many-to-many fields are managers\<close>
  "user_attr_value u f =
     (if f = ''avatar'' then PObject (u_avatar u)
      else if f = ''groups'' then PObject ''auth.Group.None''
      else if f = ''user_permissions'' then PObject ''auth.Permission.None''
      else value_or_none f (user_values u))"

definition user_admin :: "user model_admin" where
  "user_admin =
     \<lparr>label_lower = ''accounts.user'', admin_target = (\<lambda>e s. user_target e),
      model_fields = [''password'', ''last_login'', ''is_superuser'', ''id'', ''email'', ''username'', ''first_name'', ''last_name'', ''avatar'',
        ''phone'', ''status'', ''email_verified_at'', ''phone_verified_at'', ''is_active'', ''is_staff'', ''date_joined'', ''last_login_ip'',
        ''created_at'', ''updated_at''],
      row_of = (\<lambda>u s. first_where (\<lambda>v. u_id v = u_id u) (users s)), row_values = user_values,
      row_attr = (\<lambda>s. user_attr_value), save_row = user_save\<rparr>"

definition user_save_model :: "env \<Rightarrow> admin_request \<Rightarrow> user \<Rightarrow> string list \<Rightarrow> bool \<Rightarrow> user action" where
  "user_save_model e q obj changed_data change =
     bind_op (reads (\<lambda>s. first_where (\<lambda>u. u_id u = u_id obj) (users s))) (\<lambda>before.
     bind_op (save_model user_admin e q obj changed_data change) (\<lambda>saved.
     then_op (when_op (case before of None \<Rightarrow> False
                | Some b \<Rightarrow> u_email b \<noteq> u_email saved \<or> u_status b \<noteq> u_status saved \<or> u_is_active b \<noteq> u_is_active saved)
        (bind_op (revoke_all e (u_id saved) (Some (UserActor (adm_user q))) (Some (adm_request q)) False) (\<lambda>_.
         bind_op (revoke_all_jwt (u_id saved)) (\<lambda>_. ret ()))))
     (ret saved)))"

definition user_change_password :: "env \<Rightarrow> admin_request \<Rightarrow> string \<Rightarrow> int action \<Rightarrow> uuid \<Rightarrow> int action" where
  \<comment> \<open>the third argument is the method of the request, the fourth the library's view, which answers with a status\<close>
  "user_change_password e q http_method library_view user_id =
     bind_op library_view (\<lambda>status.
     then_op (when_op (http_method = ''POST'' \<and> 300 \<le> status \<and> status < 400)
        (bind_op (user_get user_id) (\<lambda>user.
         bind_op (revoke_all e (u_id user) (Some (UserActor (adm_user q))) (Some (adm_request q)) False) (\<lambda>_.
         bind_op (revoke_all_jwt (u_id user)) (\<lambda>_.
         then_op (security_record e PASSWORD_CHANGED (Some (u_id user)) (Some (adm_request q)) [(''changed_by_admin'', PBool True)])
         (audit_record e ((audit_call ''admin.password.changed'')
            \<lparr>aa_target := Some (user_target e user), aa_actor := Some (UserActor (adm_user q)), aa_request := Some (adm_request q)\<rparr>)))))))
     (ret status))"

section \<open>RoleAdmin, PermissionAdmin and APIKeyAdmin\<close>

definition role_admin :: "role audited_admin" where
  "role_admin = \<lparr>label_lower = ''authorization.role'',
     admin_target = (\<lambda>e s r. \<lparr>at_label = ''authorization.role'', at_pk = uuid_str (plat e) (ro_id r), at_repr = ro_name r\<rparr>)\<rparr>"

definition role_has_delete_permission :: "bool \<Rightarrow> role option \<Rightarrow> bool" where
  \<comment> \<open>the first argument is the library's answer\<close>
  "role_has_delete_permission allowed obj \<longleftrightarrow> allowed \<and> (case obj of None \<Rightarrow> True | Some r \<Rightarrow> \<not> ro_is_system r)"

definition roles_bulk_delete :: "role list \<Rightarrow> unit action" where
  \<comment> \<open>\<^verbatim>\<open>queryset.delete()\<close>: the model's \<^verbatim>\<open>delete\<close> method is not called, the foreign keys are followed\<close>
  "roles_bulk_delete rs =
     bind_op (reads (\<lambda>s. exists_where (\<lambda>a. ur_role a \<in> ro_id ` set rs) (user_roles s))) (\<lambda>assigned.
     then_op (raise_if assigned (ProtectedError ''user_assignments''))
     (modify (\<lambda>s. s\<lparr>roles := delete_where (\<lambda>r. ro_id r \<in> ro_id ` set rs) (roles s),
        role_permissions := delete_where (\<lambda>l. rp_role l \<in> ro_id ` set rs) (role_permissions s)\<rparr>)))"

definition role_delete_queryset :: "env \<Rightarrow> admin_request \<Rightarrow> role list \<Rightarrow> unit action" where
  "role_delete_queryset e q queryset = delete_queryset role_admin e q roles_bulk_delete (filter (\<lambda>r. \<not> ro_is_system r) queryset)"

definition permission_admin :: "permission audited_admin" where
  "permission_admin = \<lparr>label_lower = ''authorization.permission'',
     admin_target = (\<lambda>e s p. \<lparr>at_label = ''authorization.permission'', at_pk = uuid_str (plat e) (pm_id p), at_repr = pm_codename p\<rparr>)\<rparr>"

definition permission_has_delete_permission :: "bool \<Rightarrow> permission option \<Rightarrow> bool" where
  "permission_has_delete_permission allowed obj \<longleftrightarrow> allowed \<and> (case obj of None \<Rightarrow> True | Some p \<Rightarrow> \<not> pm_is_system p)"

definition permissions_bulk_delete :: "permission list \<Rightarrow> unit action" where
  "permissions_bulk_delete ps =
     modify (\<lambda>s. s\<lparr>permissions := delete_where (\<lambda>p. pm_id p \<in> pm_id ` set ps) (permissions s),
       role_permissions := delete_where (\<lambda>l. rp_permission l \<in> pm_id ` set ps) (role_permissions s),
       overrides := delete_where (\<lambda>x. po_permission x \<in> pm_id ` set ps) (overrides s)\<rparr>)"

definition permission_delete_queryset :: "env \<Rightarrow> admin_request \<Rightarrow> permission list \<Rightarrow> unit action" where
  "permission_delete_queryset e q queryset =
     delete_queryset permission_admin e q permissions_bulk_delete (filter (\<lambda>p. \<not> pm_is_system p) queryset)"

definition revoke_selected_keys :: "env \<Rightarrow> admin_request \<Rightarrow> api_key list \<Rightarrow> unit action" where
  "revoke_selected_keys e q queryset =
     for_each (\<lambda>k. api_key_revoke e k (Some (adm_user q)) (Some (adm_request q))) (filter (\<lambda>k. ak_revoked_at k = None) queryset)"

section \<open>The histories\<close>

text \<open>
  The overridden \<^verbatim>\<open>has_add_permission\<close>, \<^verbatim>\<open>has_change_permission\<close> and \<^verbatim>\<open>has_delete_permission\<close> of each class, which
  return \<^verbatim>\<open>False\<close>: the operations that the class refuses to everybody.
\<close>

datatype admin_operation = AdminAdd | AdminChange | AdminDelete

definition AuditLogAdmin_refuses :: "admin_operation \<Rightarrow> bool" where
  "AuditLogAdmin_refuses op \<longleftrightarrow> op \<in> {AdminAdd, AdminChange, AdminDelete}"

definition SecurityEventAdmin_refuses :: "admin_operation \<Rightarrow> bool" where
  "SecurityEventAdmin_refuses op \<longleftrightarrow> op \<in> {AdminAdd, AdminDelete}"

definition LoginThrottleStateAdmin_refuses :: "admin_operation \<Rightarrow> bool" where
  "LoginThrottleStateAdmin_refuses op \<longleftrightarrow> op \<in> {AdminAdd, AdminChange, AdminDelete}"

definition UserSessionAdmin_refuses :: "admin_operation \<Rightarrow> bool" where
  "UserSessionAdmin_refuses op \<longleftrightarrow> op = AdminAdd"

definition OneTimeTokenAdmin_refuses :: "admin_operation \<Rightarrow> bool" where
  "OneTimeTokenAdmin_refuses op \<longleftrightarrow> op = AdminAdd"

definition TwoFactorCredentialAdmin_refuses :: "admin_operation \<Rightarrow> bool" where
  "TwoFactorCredentialAdmin_refuses op \<longleftrightarrow> op = AdminAdd"

definition RecoveryCodeAdmin_refuses :: "admin_operation \<Rightarrow> bool" where
  "RecoveryCodeAdmin_refuses op \<longleftrightarrow> op = AdminAdd"

definition IdempotencyRecordAdmin_refuses :: "admin_operation \<Rightarrow> bool" where
  "IdempotencyRecordAdmin_refuses op \<longleftrightarrow> op = AdminAdd"

definition WebhookEventAdmin_refuses :: "admin_operation \<Rightarrow> bool" where
  "WebhookEventAdmin_refuses op \<longleftrightarrow> op = AdminAdd"

definition WebhookDeliveryAdmin_refuses :: "admin_operation \<Rightarrow> bool" where
  "WebhookDeliveryAdmin_refuses op \<longleftrightarrow> op = AdminAdd"

section \<open>What the methods do\<close>

lemmas admin_simps = admin_audit_def record_admin_def op_simps

lemma record_admin_run [op_simps]:
  "record_admin e args s = (Inr (), s\<lparr>audit_logs := audit_row e (clock s) (args s) # audit_logs s\<rparr>)"
  by (simp add: record_admin_def op_simps)

lemma record_each_run:
  "\<exists>rows. for_each (\<lambda>x. record_admin e (args x)) xs s = (Inr (), s\<lparr>audit_logs := rows @ audit_logs s\<rparr>) \<and> length rows = length xs"
proof (induction xs arbitrary: s)
  case (Cons x xs)
  obtain rows where "for_each (\<lambda>x. record_admin e (args x)) xs (s\<lparr>audit_logs := audit_row e (clock s) (args x s) # audit_logs s\<rparr>) =
      (Inr (), s\<lparr>audit_logs := rows @ audit_row e (clock s) (args x s) # audit_logs s\<rparr>)" "length rows = length xs"
    using Cons.IH [of "s\<lparr>audit_logs := audit_row e (clock s) (args x s) # audit_logs s\<rparr>"] by auto
  moreover have "for_each (\<lambda>x. record_admin e (args x)) (x # xs) s =
      for_each (\<lambda>x. record_admin e (args x)) xs (s\<lparr>audit_logs := audit_row e (clock s) (args x s) # audit_logs s\<rparr>)"
    unfolding for_each.simps by (rule then_op_ok [OF record_admin_run])
  ultimately show ?case by (intro exI [of _ "rows @ [audit_row e (clock s) (args x s)]"]) simp
qed (simp add: op_simps)

lemma ban_now_run:
  assumes ready: "sign_out_ready e s" and u: "user_table_ok (users s)" "u \<in> set (users s)"
    and run: "ban e (u_id u) reason actor None expires rq s = (Inr b, t)"
  shows "b = ban_row (u_id u) reason actor None expires s" and "bans t = b # bans s" and "sign_out_ready e t"
    and "users t = update_where (\<lambda>v. u_id v = u_id u) (set_status BANNED (clock s)) (users s)"
proof -
  let ?row = "ban_row (u_id u) reason actor None expires s"
  let ?s1 = "s\<lparr>next_id := Suc (next_id s), bans := ?row # bans s,
     users := update_where (\<lambda>v. u_id v = u_id u) (set_status BANNED (clock s)) (users s)\<rparr>"
  have row: "b_starts_at ?row = clock s" by (simp add: ban_row_def)
  note r = ban_run [OF ready u refl, of reason actor None expires rq]
  show "b = ?row" "bans t = b # bans s" "users t = update_where (\<lambda>v. u_id v = u_id u) (set_status BANNED (clock s)) (users s)"
    using r row run by (auto simp: Let_def split: if_splits)
  have "sign_out_ready e ?s1" using ready by (simp add: sign_out_ready_def)
  from sign_out_ready_after [OF this, of "u_id u" "user_actor actor" rq False] show "sign_out_ready e t"
    using r row run by (auto simp: Let_def sign_out_ready_def split: if_splits)
qed

text \<open>The task leaves an account without bans in the status \<^verbatim>\<open>BANNED\<close> that it has.\<close>

lemma task_leaves_banned:
  assumes "sign_out_ready e s" and "expire_temporary_bans e s = (r, t)" and "\<forall>b\<in>set (bans s). b_user b \<noteq> i"
    and "\<forall>v\<in>set (users s). u_id v = i \<longrightarrow> u_status v = BANNED"
  shows "bans t = bans s" and "v \<in> set (users t) \<Longrightarrow> u_id v = i \<Longrightarrow> u_status v = BANNED"
proof -
  obtain s1 where t: "bans t = bans s" "bans s1 = bans s"
    "users s1 = update_where (\<lambda>v. u_id v \<in> u_id ` set (filter (ban_to_activate s) (users s))) (set_status BANNED (clock s)) (users s)"
    "users t = update_where (\<lambda>v. u_id v \<in> u_id ` {u \<in> set (filter (ban_ended s1) (users s1)). \<not> has_active_ban s1 u})
       (set_status ACTIVE (clock s)) (users s1)"
    using expire_temporary_bans_run [OF assms(1)] assms(2) by auto
  have none: "\<not> ban_ended s1 w" if "u_id w = i" for w
    using assms(3) that by (auto simp: ban_ended_def bans_of_def t(2))
  have banned: "u_status w = BANNED" if "w \<in> set (users s1)" "u_id w = i" for w
    using that(1) unfolding t(3) by (cases rule: update_whereE) (use that(2) assms(4) in \<open>auto elim!: update_whereE\<close>)
  show "bans t = bans s" by (rule t(1))
  assume v: "v \<in> set (users t)" "u_id v = i"
  from v(1) show "u_status v = BANNED"
    unfolding t(4) by (cases rule: update_whereE) (use none banned v(2) in auto)
qed


definition demo_admin_call :: admin_request where
  "demo_admin_call = \<lparr>adm_request = demo_request, adm_user = 1\<rparr>"


lemma save_model_change_run:
  assumes "row_of m obj s = Some old" and "save_row m e obj s = (Inr saved, s1)"
  shows "\<exists>row. save_model m e q obj changed True s = (Inr saved, s1\<lparr>audit_logs := row # audit_logs s1\<rparr>) \<and>
    al_action row = ''admin.'' @ label_lower m @ ''.updated''"
  using assms by (auto simp: save_model_def admin_simps Let_def audit_row_def audit_call_def)

definition saved_user :: "env \<Rightarrow> datetime \<Rightarrow> user \<Rightarrow> user" where
  "saved_user e now u = u\<lparr>u_email := normalize_email_address e (u_email u), u_username := py_strip (u_username u), u_updated_at := now\<rparr>"

lemma saved_user_simps [simp]: "u_id (saved_user e now u) = u_id u" "u_status (saved_user e now u) = u_status u"
  by (simp_all add: saved_user_def)

lemma user_save_run:
  assumes "u \<in> set (users s)" and "u_id u = u_id obj"
  shows "save_row user_admin e obj s = (if user_clash s (saved_user e (clock s) obj) then (Inl (IntegrityError ''accounts_user''), s)
    else (Inr (saved_user e (clock s) obj),
      s\<lparr>users := update_where (\<lambda>v. u_id v = u_id obj) (\<lambda>_. saved_user e (clock s) obj) (users s)\<rparr>))"
proof -
  have "\<exists>r\<in>set (users s). u_id r = u_id obj" using assms by blast
  then show ?thesis by (simp add: user_admin_def user_save_def user_save_all_def user_unique_def saved_user_def op_simps Let_def)
qed

definition closing_columns :: "user \<Rightarrow> user \<Rightarrow> bool" where
  \<comment> \<open>the columns whose change signs the user out\<close>
  "closing_columns old new \<longleftrightarrow> u_email old \<noteq> u_email new \<or> u_status old \<noteq> u_status new \<or> u_is_active old \<noteq> u_is_active new"

lemma user_save_model_run:
  assumes ready: "sign_out_ready e s" and old: "first_where (\<lambda>u. u_id u = u_id obj) (users s) = Some old"
    and free: "\<not> user_clash s (saved_user e (clock s) obj)"
  obtains log s1 where "al_action log = ''admin.accounts.user.updated''"
    and "s1 = s\<lparr>users := update_where (\<lambda>v. u_id v = u_id obj) (\<lambda>_. saved_user e (clock s) obj) (users s), audit_logs := log # audit_logs s\<rparr>"
    and "sign_out_ready e s1"
    and "user_save_model e q obj changed True s = (Inr (saved_user e (clock s) obj),
      if closing_columns old (saved_user e (clock s) obj)
      then sign_out_state e (u_id obj) (Some (UserActor (adm_user q))) (Some (adm_request q)) False s1 else s1)"
proof -
  let ?saved = "saved_user e (clock s) obj"
  let ?us = "update_where (\<lambda>v. u_id v = u_id obj) (\<lambda>_. ?saved) (users s)"
  have mem: "old \<in> set (users s)" "u_id old = u_id obj" using first_where_SomeD [OF old] by blast+
  have row: "row_of user_admin obj s = Some old" using old by (simp add: user_admin_def)
  obtain log where log: "save_model user_admin e q obj changed True s = (Inr ?saved, s\<lparr>users := ?us, audit_logs := log # audit_logs s\<rparr>)"
    "al_action log = ''admin.accounts.user.updated''"
    using save_model_change_run [OF row, of e ?saved "s\<lparr>users := ?us\<rparr>" q changed] user_save_run [OF mem, of e] free
    by (auto simp: user_admin_def)
  let ?s1 = "s\<lparr>users := ?us, audit_logs := log # audit_logs s\<rparr>"
  have ready1: "sign_out_ready e ?s1" using ready by (simp add: sign_out_ready_def)
  obtain n k s' where so: "revoke_all e (u_id obj) (Some (UserActor (adm_user q))) (Some (adm_request q)) False ?s1 = (Inr n, s')"
    "revoke_all_jwt (u_id obj) s' = (Inr k, sign_out_state e (u_id obj) (Some (UserActor (adm_user q))) (Some (adm_request q)) False ?s1)"
    by (rule sign_out_runs [OF ready1])
  have "user_save_model e q obj changed True s = (Inr ?saved, if closing_columns old ?saved
      then sign_out_state e (u_id obj) (Some (UserActor (adm_user q))) (Some (adm_request q)) False ?s1 else ?s1)"
    using old log(1) so by (auto simp: user_save_model_def closing_columns_def op_simps)
  from that [OF log(2) refl ready1 this] show thesis .
qed

lemma user_save_model_clash:
  assumes "first_where (\<lambda>u. u_id u = u_id obj) (users s) = Some old" and "user_clash s (saved_user e (clock s) obj)"
  shows "user_save_model e q obj changed True s = (Inl (IntegrityError ''accounts_user''), s)"
  using assms(2) user_save_run [of old s obj e] first_where_SomeD [OF assms(1)]
  by (simp add: user_save_model_def save_model_def op_simps)

text \<open>
  Property C38: saving an account in the administration site closes what depends on the changed columns. When the
  saved row differs from the stored one in its address, its status or its active flag, every session of the user is revoked and every
  refresh token is blacklisted; when it differs in none of them, sessions and tokens stay as they are. The row that is stored
  is the saved one, and one audit row says that it was updated.
\<close>

theorem admin_account_change_signs_out:
  assumes "sign_out_ready e s" and "first_where (\<lambda>u. u_id u = u_id obj) (users s) = Some old"
    and "user_save_model e q obj changed True s = (Inr saved, t)"
  shows "(\<forall>v\<in>set (users t). u_id v = u_id obj \<longrightarrow> v = saved) \<and>
    (\<exists>row\<in>set (audit_logs t). al_action row = ''admin.accounts.user.updated'') \<and>
    (if u_email old \<noteq> u_email saved \<or> u_status old \<noteq> u_status saved \<or> u_is_active old \<noteq> u_is_active saved
     then signed_out (\<lambda>_. False) (u_id obj) t
     else user_sessions t = user_sessions s \<and> blacklisted t = blacklisted s)"
proof -
  let ?saved = "saved_user e (clock s) obj"
  have free: "\<not> user_clash s ?saved" using user_save_model_clash [OF assms(2), of e q changed] assms(3) by auto
  obtain log s1 where r: "al_action log = ''admin.accounts.user.updated''"
    "s1 = s\<lparr>users := update_where (\<lambda>v. u_id v = u_id obj) (\<lambda>_. ?saved) (users s), audit_logs := log # audit_logs s\<rparr>"
    "sign_out_ready e s1"
    "user_save_model e q obj changed True s = (Inr ?saved, if closing_columns old ?saved
      then sign_out_state e (u_id obj) (Some (UserActor (adm_user q))) (Some (adm_request q)) False s1 else s1)"
    by (rule user_save_model_run [OF assms(1,2) free])
  have out: "signed_out (\<lambda>_. False) (u_id obj) (sign_out_state e (u_id obj) (Some (UserActor (adm_user q))) (Some (adm_request q)) False s1)"
    using sign_out.closed [OF r(3), of "Some (adm_request q)" False "u_id obj"] by (simp add: signed_out_def)
  have "log \<in> set (audit_logs t)" "users t = users s1"
    using r(4) assms(3) by (auto simp: r(2) sign_out_state_def revoked_state_def Let_def)
  moreover have "v = ?saved" if "v \<in> set (users s1)" "u_id v = u_id obj" for v
    using that(1) unfolding r(2) by (auto elim!: update_whereE simp: that(2))
  ultimately show ?thesis
    using assms(3) r(1) out by (auto simp: r(2,4) closing_columns_def)
qed

definition demo_live :: db where
  "demo_live = demo_sessions\<lparr>users := [demo_user]\<rparr>"

theorem admin_account_change_signs_out_witness:
  "\<exists>saved t. user_save_model demo_env demo_admin_call (demo_user\<lparr>u_status := SUSPENDED\<rparr>) [''status''] True demo_live = (Inr saved, t) \<and>
     u_status saved = SUSPENDED \<and> signed_out (\<lambda>_. False) 7 t"
proof -
  let ?obj = "demo_user\<lparr>u_status := SUSPENDED\<rparr>"
  have a: "sign_out_ready demo_env demo_live" by code_simp
  have old: "first_where (\<lambda>u. u_id u = u_id ?obj) (users demo_live) = Some demo_user" by code_simp
  have "user_clash demo_live (saved_user demo_env (clock demo_live) ?obj) = False" by code_simp
  then have "\<not> user_clash demo_live (saved_user demo_env (clock demo_live) ?obj)" by simp
  then obtain t where t: "user_save_model demo_env demo_admin_call ?obj [''status''] True demo_live =
      (Inr (saved_user demo_env (clock demo_live) ?obj), t)"
    by (metis user_save_model_run [OF a old])
  have id: "u_id ?obj = 7" "u_status demo_user = ACTIVE" by (simp_all add: demo_user_def)
  from admin_account_change_signs_out [OF a old t] have "signed_out (\<lambda>_. False) 7 t" unfolding id by (simp add: id)
  then show ?thesis using t by auto
qed

text \<open>
  The audit row of a changed ban never shows which account the ban named before. The mixin reads the
  old row with \<^verbatim>\<open>values()\<close>, whose keys are column names, and looks the form's field names up in it; the account of a ban is
  under \<^verbatim>\<open>user_id\<close>, not \<^verbatim>\<open>user\<close>, so \<open>before\<close> is null for it while \<open>after\<close> names the new account. For
  a column under its own name, as the reason, both are right.
\<close>

theorem admin_audit_forgets_account:
  assumes "first_where (\<lambda>x. b_id x = b_id b) (bans s) = Some old" and "ban_constraint b"
    and "ban_save_model e q b [''user'', ''reason''] True s = (r, t)"
  shows "r = Inr b \<and> (\<exists>row after_user. audit_logs t = row # audit_logs s \<and> al_action row = ''admin.accounts.userban.updated'' \<and>
      al_before row = PDict [(''user'', PNone), (''reason'', PStr (b_reason old))] \<and>
      al_after row = PDict [(''user'', after_user), (''reason'', PStr (b_reason b))] \<and>
      after_user = (case first_where (\<lambda>u. u_id u = b_user b) (users s) of None \<Rightarrow> PNone | Some u \<Rightarrow> PStr (u_email u)))"
proof -
  have keys: "\<not> sensitive_key ''user''" "\<not> sensitive_key ''reason''" by code_simp+
  obtain who where who: "first_where (\<lambda>u. u_id u = b_user b) (users s) = who" by blast
  have "row_of ban_admin b s = Some old" using assms(1) by (simp add: ban_admin_def)
  then show ?thesis
    using assms(2,3) by (cases who) (auto simp: ban_save_model_def save_model_def ban_admin_def ban_save_def admin_simps Let_def audit_row_def
        audit_call_def ban_values_def ban_attr_def value_or_none_def pair_get_def user_attr_object_def keys who)
qed

definition demo_banned :: db where
  "demo_banned = demo_db\<lparr>bans := [\<lparr>b_id = 1, b_user = 9, b_reason = ''a'', b_banned_by = None, b_starts_at = 0,
     b_expires_at = None, b_created_at = 0, b_revoked_at = None\<rparr>]\<rparr>"

theorem admin_audit_forgets_account_witness:
  "\<exists>t row. ban_save_model demo_env demo_admin_call (hd (bans demo_banned)\<lparr>b_user := 7, b_reason := ''b''\<rparr>) [''user'', ''reason''] True
       demo_banned = (Inr (hd (bans demo_banned)\<lparr>b_user := 7, b_reason := ''b''\<rparr>), t) \<and> audit_logs t = row # audit_logs demo_banned \<and>
     al_before row = PDict [(''user'', PNone), (''reason'', PStr ''a'')]"
proof -
  let ?b = "hd (bans demo_banned)\<lparr>b_user := 7, b_reason := ''b''\<rparr>"
  have a: "first_where (\<lambda>x. b_id x = b_id ?b) (bans demo_banned) = Some (hd (bans demo_banned))" "ban_constraint ?b"
    "b_reason (hd (bans demo_banned)) = ''a''" by code_simp+
  obtain r t where t: "ban_save_model demo_env demo_admin_call ?b [''user'', ''reason''] True demo_banned = (r, t)" by fastforce
  from admin_audit_forgets_account [OF a(1,2) t] t show ?thesis unfolding a(3) by blast
qed

text \<open>
  The bulk deletion of roles leaves the system roles and whatever is not selected, writes one audit row for each role it was
  asked to delete, and refuses to delete a role that is assigned to somebody.
\<close>

theorem admin_keeps_system_roles:
  "\<exists>rows. length rows = length (filter (\<lambda>r. \<not> ro_is_system r) queryset) \<and>
     (if \<exists>a\<in>set (user_roles s). ur_role a \<in> ro_id ` {r \<in> set queryset. \<not> ro_is_system r}
      then role_delete_queryset e q queryset s = (Inl (ProtectedError ''user_assignments''), s\<lparr>audit_logs := rows @ audit_logs s\<rparr>)
      else role_delete_queryset e q queryset s = (Inr (), s\<lparr>audit_logs := rows @ audit_logs s,
        roles := delete_where (\<lambda>r. ro_id r \<in> ro_id ` {r \<in> set queryset. \<not> ro_is_system r}) (roles s),
        role_permissions := delete_where (\<lambda>l. rp_role l \<in> ro_id ` {r \<in> set queryset. \<not> ro_is_system r}) (role_permissions s)\<rparr>))"
proof -
  let ?sel = "filter (\<lambda>r. \<not> ro_is_system r) queryset"
  obtain rows where rows: "for_each (\<lambda>x. record_admin e (admin_audit role_admin e q ''deleted'' x)) ?sel s =
      (Inr (), s\<lparr>audit_logs := rows @ audit_logs s\<rparr>)" "length rows = length ?sel"
    using record_each_run [of e "admin_audit role_admin e q ''deleted''" ?sel s] by blast
  have "role_delete_queryset e q queryset s = roles_bulk_delete ?sel (s\<lparr>audit_logs := rows @ audit_logs s\<rparr>)"
    by (simp only: role_delete_queryset_def delete_queryset_def then_op_run rows(1) prod.case sum.case)
  then show ?thesis
    using rows(2) by (intro exI [of _ rows]) (auto simp: roles_bulk_delete_def op_simps)
qed

end
