(* ===== verification/Http.thy ===== *)
theory Http
  imports Environment "HOL-Library.AList"
begin

text \<open>
  The HTTP layer of \<^verbatim>\<open>common/\<close>: the response envelope, the exception handler that turns every error
  into it, the three middlewares with the context variables they bind, the in-process event bus, and the
  helpers beside them. REST framework's own \<^verbatim>\<open>exception_handler\<close> is the record \<open>rest_framework\<close>; what its
  documentation says of it is the predicate \<open>rest_framework_laws\<close>.
\<close>

section \<open>Responses\<close>

record response =
  rs_status :: int
  rs_data :: pyval
  rs_headers :: "(string \<times> string) list"

definition set_header :: "string \<Rightarrow> string \<Rightarrow> response \<Rightarrow> response" where
  \<comment> \<open>\<^verbatim>\<open>response[name] = value\<close>\<close>
  "set_header k v r = r\<lparr>rs_headers := (k, v) # filter (\<lambda>h. fst h \<noteq> k) (rs_headers r)\<rparr>"

definition setdefault_header :: "string \<Rightarrow> string \<Rightarrow> response \<Rightarrow> response" where
  "setdefault_header k v r = (if pair_get k (rs_headers r) = None then set_header k v r else r)"

definition success_response_with :: "pyval \<Rightarrow> pyval \<Rightarrow> int \<Rightarrow> (string \<times> string) list \<Rightarrow> response" where
  "success_response_with v meta status headers =
     \<lparr>rs_status = status,
      rs_data = PDict [(''success'', PBool True), (''data'', v), (''meta'', if truthy meta then meta else PDict []),
                       (''error'', PNone)],
      rs_headers = headers\<rparr>"

definition success_response :: "pyval \<Rightarrow> response" where
  \<comment> \<open>the call with the data only\<close>
  "success_response v = success_response_with v PNone 200 []"

record page =
  pg_number :: int
  pg_size :: int
  pg_pages :: int
  pg_count :: int
  pg_next :: "string option"
  pg_previous :: "string option"

definition pagination_page_size :: int where
  "pagination_page_size = 25"

definition pagination_max_page_size :: int where
  "pagination_max_page_size = 100"

definition text_or_none :: "string option \<Rightarrow> pyval" where
  "text_or_none x = (case x of None \<Rightarrow> PNone | Some t \<Rightarrow> PStr t)"

definition get_paginated_response :: "page \<Rightarrow> pyval \<Rightarrow> response" where
  \<comment> \<open>the page is the library's, which also works out the links\<close>
  "get_paginated_response pg v =
     \<lparr>rs_status = 200,
      rs_data = PDict [(''success'', PBool True), (''data'', v),
        (''meta'', PDict [(''pagination'', PDict [(''page'', PInt (pg_number pg)), (''page_size'', PInt (pg_size pg)),
           (''pages'', PInt (pg_pages pg)), (''count'', PInt (pg_count pg)), (''next'', text_or_none (pg_next pg)),
           (''previous'', text_or_none (pg_previous pg))])]),
        (''error'', PNone)],
      rs_headers = []\<rparr>"

section \<open>common/exceptions/handler.py\<close>

record rest_framework =
  exception_handler :: "error \<Rightarrow> response option"
  str_of :: "pyval \<Rightarrow> string"

fun handled_by_framework :: "error \<Rightarrow> bool" where
  \<comment> \<open>REST framework's own exceptions and the two of Django's that it translates\<close>
  "handled_by_framework (APIException d c st fs) = True"
| "handled_by_framework (AuthenticationFailed d) = True"
| "handled_by_framework NotAuthenticated = True"
| "handled_by_framework (PermissionDenied d) = True"
| "handled_by_framework NotFound = True"
| "handled_by_framework Throttled = True"
| "handled_by_framework (InvalidData v) = True"
| "handled_by_framework err = False"

definition rest_framework_laws :: "rest_framework \<Rightarrow> bool" where
  \<comment> \<open>\<^verbatim>\<open>exception_handler\<close> answers its own exceptions, with their status and detail, and no other\<close>
  "rest_framework_laws rf \<longleftrightarrow>
     (\<forall>err. exception_handler rf err \<noteq> None \<longleftrightarrow> handled_by_framework err) \<and>
     (\<forall>d c st fs r. exception_handler rf (APIException d c st fs) = Some r \<longrightarrow>
        rs_status r = st \<and> rs_data r = PDict [(''detail'', PStr d)]) \<and>
     (\<forall>v r. exception_handler rf (InvalidData v) = Some r \<longrightarrow> rs_status r = 400 \<and> rs_data r = v)"

definition error_code :: "error \<Rightarrow> response \<Rightarrow> string" where
  "error_code err r =
     (case err of
        APIException d c st fs \<Rightarrow> c
      | InvalidData v \<Rightarrow> ''VALIDATION_ERROR''
      | NotAuthenticated \<Rightarrow> ''AUTHENTICATION_REQUIRED''
      | AuthenticationFailed d \<Rightarrow> ''AUTHENTICATION_FAILED''
      | PermissionDenied d \<Rightarrow> ''PERMISSION_DENIED''
      | NotFound \<Rightarrow> ''RESOURCE_NOT_FOUND''
      | Throttled \<Rightarrow> ''RATE_LIMITED''
      | _ \<Rightarrow> if rs_status r \<ge> 500 then ''INTERNAL_ERROR'' else ''BAD_REQUEST'')"

definition error_body :: "string \<Rightarrow> string \<Rightarrow> pyval \<Rightarrow> string option \<Rightarrow> pyval" where
  "error_body code message errors rid =
     PDict [(''success'', PBool False), (''data'', PNone),
       (''error'', PDict [(''code'', PStr code), (''message'', PStr message), (''fields'', errors),
          (''request_id'', text_or_none rid)])]"

definition detail_text :: "rest_framework \<Rightarrow> pyval \<Rightarrow> string" where
  \<comment> \<open>\<^verbatim>\<open>str(v)\<close>\<close>
  "detail_text rf v = (case v of PStr t \<Rightarrow> t | _ \<Rightarrow> str_of rf v)"

definition message_and_fields :: "rest_framework \<Rightarrow> error \<Rightarrow> pyval \<Rightarrow> string \<times> pyval" where
  \<comment> \<open>the branches before the override for the project's own exception\<close>
  "message_and_fields rf err v =
     (let message = ''The request could not be processed.'' in
      case err of
        InvalidData _ \<Rightarrow> (''Validation failed.'', v)
      | _ \<Rightarrow>
          (case v of
             PDict kvs \<Rightarrow>
               (case pair_get ''detail'' kvs of Some d \<Rightarrow> (detail_text rf d, PDict []) | None \<Rightarrow> (message, v))
           | PList vs \<Rightarrow> (message, PDict [(''non_field_errors'', v)])
           | _ \<Rightarrow> (message, PDict [])))"

definition api_exception_handler :: "rest_framework \<Rightarrow> error \<Rightarrow> string option \<Rightarrow> response" where
  \<comment> \<open>the last argument is the request's id\<close>
  "api_exception_handler rf err rid =
     (case exception_handler rf err of
        None \<Rightarrow> \<lparr>rs_status = 500, rs_data = error_body ''INTERNAL_ERROR'' ''An unexpected error occurred.'' (PDict []) rid,
                 rs_headers = []\<rparr>
      | Some r \<Rightarrow>
          (case message_and_fields rf err (rs_data r) of (message, errors) \<Rightarrow>
           case err of
             APIException d c st fs \<Rightarrow>
               r\<lparr>rs_data := error_body (error_code err r) d (if fs \<noteq> [] then PDict fs else errors) rid\<rparr>
           | _ \<Rightarrow> r\<lparr>rs_data := error_body (error_code err r) message errors rid\<rparr>))"

definition run_view :: "rest_framework \<Rightarrow> string option \<Rightarrow> response action \<Rightarrow> db \<Rightarrow> response \<times> db" where
  \<comment> \<open>what \<^verbatim>\<open>dispatch\<close> makes of a view method: an escaping error goes to the handler\<close>
  "run_view rf rid view s = (case view s of (Inl err, t) \<Rightarrow> (api_exception_handler rf err rid, t) | (Inr r, t) \<Rightarrow> (r, t))"

section \<open>Middleware\<close>

record request_context =
  request_id_context :: string
  user_id_context :: string
  request_log :: "(string \<times> pyval) list list"

definition id_char :: "char \<Rightarrow> bool" where
  "id_char c \<longleftrightarrow> (let n = char_code c in
     (48 \<le> n \<and> n \<le> 57) \<or> (65 \<le> n \<and> n \<le> 90) \<or> (97 \<le> n \<and> n \<le> 122))"

definition valid_request_id :: "string \<Rightarrow> bool" where
  "valid_request_id t =
     (case t of [] \<Rightarrow> False
      | c # r \<Rightarrow> id_char c \<and> length r \<le> 63 \<and> list_all (\<lambda>d. id_char d \<or> d \<in> set ''._:-'') r)"

type_synonym handler = "request \<Rightarrow> (request_context, response) op"

definition request_id_middleware :: "string option \<Rightarrow> string \<Rightarrow> handler \<Rightarrow> handler" where
  \<comment> \<open>the arguments are the incoming header, a fresh UUID's text and \<^verbatim>\<open>get_response\<close>\<close>
  "request_id_middleware incoming fresh get_response rq c =
     (let text = text_or_empty incoming;
          request_id = (if valid_request_id text then text else fresh);
          before = request_id_context c
      in case get_response (rq\<lparr>rq_request_id := Some request_id\<rparr>) (c\<lparr>request_id_context := request_id\<rparr>) of
           (Inl err, c') \<Rightarrow> (Inl err, c'\<lparr>request_id_context := before\<rparr>)
         | (Inr r, c') \<Rightarrow> (Inr (set_header ''X-Request-ID'' request_id r), c'\<lparr>request_id_context := before\<rparr>))"

definition request_logging_middleware ::
    "env \<Rightarrow> uuid option \<Rightarrow> string \<Rightarrow> string \<Rightarrow> string \<Rightarrow> handler \<Rightarrow> handler" where
  \<comment> \<open>the signed-in user, the method, the path and the measured duration are arguments\<close>
  "request_logging_middleware e user http_method path duration get_response rq c =
     (let user_id = (case user of None \<Rightarrow> ''-'' | Some u \<Rightarrow> uuid_str (plat e) u);
          before = user_id_context c
      in case get_response rq (c\<lparr>user_id_context := user_id\<rparr>) of
           (Inl err, c') \<Rightarrow> (Inl err, c'\<lparr>user_id_context := before\<rparr>)
         | (Inr r, c') \<Rightarrow>
             (Inr r, c'\<lparr>request_log := request_log c' @
                [[(''method'', PStr http_method), (''path'', PStr path), (''status_code'', PInt (rs_status r)),
                  (''duration_ms'', PFloat duration), (''ip_address'', text_or_none (get_client_ip e rq))]],
                user_id_context := before\<rparr>))"

definition content_security_policy_middleware :: "env \<Rightarrow> handler \<Rightarrow> handler" where
  "content_security_policy_middleware e get_response rq c =
     (case get_response rq c of
        (Inl err, c') \<Rightarrow> (Inl err, c')
      | (Inr r, c') \<Rightarrow>
          (let r' = (if CONTENT_SECURITY_POLICY (cfg e) \<noteq> []
                     then setdefault_header ''Content-Security-Policy'' (CONTENT_SECURITY_POLICY (cfg e)) r else r)
           in (Inr (setdefault_header ''Permissions-Policy'' ''camera=(), microphone=(), geolocation=()'' r'), c')))"

definition branding :: "env \<Rightarrow> (string \<times> string) list" where
  "branding e = [(''APP_NAME'', APP_NAME (cfg e)), (''SITE_NAME'', SITE_NAME (cfg e)), (''SITE_URL'', SITE_URL (cfg e)),
     (''SUPPORT_EMAIL'', SUPPORT_EMAIL (cfg e))]"

section \<open>common/events.py\<close>

record application_event =
  ev_name :: string
  ev_actor_id :: "string option"
  ev_target_type :: string
  ev_target_id :: string
  ev_data :: "(string \<times> pyval) list"

type_synonym 'h bus = "(string \<times> 'h list) list"

definition handlers_of :: "string \<Rightarrow> 'h bus \<Rightarrow> 'h list" where
  "handlers_of name b = (case pair_get name b of None \<Rightarrow> [] | Some hs \<Rightarrow> hs)"

definition bus_subscribe :: "string \<Rightarrow> 'h \<Rightarrow> 'h bus \<Rightarrow> 'h bus" where
  \<comment> \<open>the default dictionary gets an entry by being looked at\<close>
  "bus_subscribe name h b =
     (let hs = handlers_of name b
      in AList.update name (if h \<in> set hs then hs else hs @ [h]) b)"

definition publish :: "('h \<Rightarrow> application_event \<Rightarrow> ('s, unit) op) \<Rightarrow> application_event \<Rightarrow> 'h bus \<Rightarrow> ('s, unit) op" where
  \<comment> \<open>\<open>call\<close> runs a handler; what it raises is logged and dropped\<close>
  "publish call event b = for_each (\<lambda>h. catch_op (call h event) (\<lambda>_. ret ())) (handlers_of (ev_name event) b)"

section \<open>common/tasks.py and common/models.py\<close>

datatype 'f task = CeleryTask 'f | SynchronousTask 'f

definition shared_task :: "settings \<Rightarrow> bool \<Rightarrow> 'f \<Rightarrow> error + 'f task" where
  \<comment> \<open>the second argument: Celery can be imported\<close>
  "shared_task st importable f =
     (if CELERY_ENABLED st
      then if importable then Inr (CeleryTask f)
           else Inl (ImproperlyConfigured ''CELERY_ENABLED=true requires the optional .[celery] dependency.'')
      else Inr (SynchronousTask f))"

definition synchronous_delay :: "('a \<Rightarrow> ('s, 'b) op) \<Rightarrow> 'a \<Rightarrow> ('s, 'b) op" where
  \<comment> \<open>\<^verbatim>\<open>delay\<close> and \<^verbatim>\<open>apply_async\<close> of a synchronous task run the function in place\<close>
  "synchronous_delay f args = f args"

record soft_delete_model =
  sd_id :: uuid
  sd_deleted_at :: "datetime option"
  sd_deleted_by :: "uuid option"

definition soft_active :: "soft_delete_model list \<Rightarrow> soft_delete_model list" where
  "soft_active t = filter (\<lambda>r. sd_deleted_at r = None) t"

definition soft_deleted :: "soft_delete_model list \<Rightarrow> soft_delete_model list" where
  "soft_deleted t = filter (\<lambda>r. sd_deleted_at r \<noteq> None) t"

definition soft_delete :: "datetime \<Rightarrow> uuid option \<Rightarrow> uuid \<Rightarrow> soft_delete_model list \<Rightarrow> soft_delete_model list" where
  "soft_delete now actor i t = update_where (\<lambda>r. sd_id r = i) (\<lambda>r. r\<lparr>sd_deleted_at := Some now, sd_deleted_by := actor\<rparr>) t"

section \<open>Properties\<close>

lemma run_view_error:
  assumes "view s = (Inl err, t)"
  shows "run_view rf rid view s = (api_exception_handler rf err rid, t)"
  using assms by (simp add: run_view_def)

lemma api_exception_handler_body:
  "\<exists>code message errors. rs_data (api_exception_handler rf err rid) = error_body code message errors rid"
  unfolding api_exception_handler_def by (auto split: option.splits prod.splits error.splits)

lemma api_exception_handler_unknown:
  assumes "rest_framework_laws rf" and "\<not> handled_by_framework err"
  shows "api_exception_handler rf err rid =
    \<lparr>rs_status = 500, rs_data = error_body ''INTERNAL_ERROR'' ''An unexpected error occurred.'' (PDict []) rid, rs_headers = []\<rparr>"
proof -
  have "exception_handler rf err = None" using assms unfolding rest_framework_laws_def by blast
  then show ?thesis by (simp add: api_exception_handler_def)
qed

lemma api_exception_handler_own:
  assumes "rest_framework_laws rf"
  shows "\<exists>r errors. api_exception_handler rf (APIException d c st fs) rid = r \<and> rs_status r = st \<and>
    rs_data r = error_body c d errors rid \<and> errors = (if fs \<noteq> [] then PDict fs else PDict [])"
proof -
  have "exception_handler rf (APIException d c st fs) \<noteq> None" using assms unfolding rest_framework_laws_def by simp
  then obtain r where r: "exception_handler rf (APIException d c st fs) = Some r" by blast
  then have "rs_status r = st" "rs_data r = PDict [(''detail'', PStr d)]" using assms unfolding rest_framework_laws_def by blast+
  with r show ?thesis by (simp add: api_exception_handler_def error_code_def message_and_fields_def pair_get_def)
qed

text \<open>
  Every error reaches the client in one envelope, and an unexpected one tells nothing. When
  a view raises, the body is the error envelope with the request's id; the project's own exception keeps
  its status, code and message; and an error that REST framework does not know, whatever text it carries,
  is answered with the same status 500 and the same words.
\<close>

theorem errors_have_one_shape:
  assumes "rest_framework_laws rf" and "view s = (Inl err, t)"
  shows "\<exists>r code message errors. run_view rf rid view s = (r, t) \<and> rs_data r = error_body code message errors rid \<and>
     (\<not> handled_by_framework err \<longrightarrow>
        rs_status r = 500 \<and> rs_data r = error_body ''INTERNAL_ERROR'' ''An unexpected error occurred.'' (PDict []) rid) \<and>
     (\<forall>d c st fs. err = APIException d c st fs \<longrightarrow> rs_status r = st \<and> code = c \<and> message = d)"
proof -
  have run: "run_view rf rid view s = (api_exception_handler rf err rid, t)" by (rule run_view_error, rule assms(2))
  show ?thesis
  proof (cases err)
    case (APIException d c st fs)
    then show ?thesis using api_exception_handler_own [OF assms(1), of d c st fs rid] run by auto
  qed (use api_exception_handler_body [of rf err rid] api_exception_handler_unknown [OF assms(1), of err rid] run in auto)
qed

definition demo_framework :: rest_framework where
  "demo_framework =
     \<lparr>exception_handler = (\<lambda>err.
        case err of
          APIException d c st fs \<Rightarrow> Some \<lparr>rs_status = st, rs_data = PDict [(''detail'', PStr d)], rs_headers = []\<rparr>
        | InvalidData v \<Rightarrow> Some \<lparr>rs_status = 400, rs_data = v, rs_headers = []\<rparr>
        | _ \<Rightarrow> if handled_by_framework err then Some \<lparr>rs_status = 403, rs_data = PDict [(''detail'', PStr ''no'')], rs_headers = []\<rparr> else None),
      str_of = (\<lambda>v. ''?'')\<rparr>"

lemma demo_framework_laws: "rest_framework_laws demo_framework"
  unfolding rest_framework_laws_def demo_framework_def
proof (intro conjI allI)
  show "(exception_handler \<lparr>exception_handler = \<lambda>err.
        case err of
          APIException d c st fs \<Rightarrow> Some \<lparr>rs_status = st, rs_data = PDict [(''detail'', PStr d)], rs_headers = []\<rparr>
        | InvalidData v \<Rightarrow> Some \<lparr>rs_status = 400, rs_data = v, rs_headers = []\<rparr>
        | _ \<Rightarrow> if handled_by_framework err then Some \<lparr>rs_status = 403, rs_data = PDict [(''detail'', PStr ''no'')], rs_headers = []\<rparr> else None,
      str_of = (\<lambda>v. ''?'')\<rparr> err \<noteq> None) = handled_by_framework err" for err
    by (cases err) simp_all
qed auto

theorem errors_have_one_shape_witness:
  "run_view demo_framework (Some ''r1'') (throw (ValueError ''secret text'')) demo_db =
     (\<lparr>rs_status = 500, rs_data = error_body ''INTERNAL_ERROR'' ''An unexpected error occurred.'' (PDict []) (Some ''r1''), rs_headers = []\<rparr>, demo_db)"
proof -
  have "\<exists>r. run_view demo_framework (Some ''r1'') (throw (ValueError ''secret text'')) demo_db = (r, demo_db) \<and>
      rs_status r = 500 \<and> rs_data r = error_body ''INTERNAL_ERROR'' ''An unexpected error occurred.'' (PDict []) (Some ''r1'')"
    using errors_have_one_shape [OF demo_framework_laws, of "throw (ValueError ''secret text'')" demo_db _ _ "Some ''r1''"]
    by (auto simp: op_simps)
  then show ?thesis by (simp add: run_view_def op_simps api_exception_handler_def demo_framework_def)
qed

lemma valid_request_id_safe:
  assumes "valid_request_id t"
  shows "0 < length t \<and> length t \<le> 64 \<and> list_all (\<lambda>c. 32 < char_code c \<and> char_code c < 127) t"
  using assms by (auto simp: valid_request_id_def id_char_def Let_def char_code_def list_all_iff split: list.splits)

text \<open>
  The request id. Whatever the client sends and whatever the application does, the id that
  the rest of the request sees and that the response carries is at most 64 characters of the safe
  alphabet (no line break, hence no forged header or log line), it is the client's when that is valid, and
  the context variable has its former value afterwards, also when the application raises.
\<close>

theorem request_id_is_safe:
  assumes "valid_request_id fresh" and "request_id_middleware incoming fresh app rq c = (result, c')"
  shows "request_id_context c' = request_id_context c \<and>
     (\<exists>i. valid_request_id i \<and> length i \<le> 64 \<and> list_all (\<lambda>ch. 32 < char_code ch \<and> char_code ch < 127) i \<and>
        (valid_request_id (text_or_empty incoming) \<longrightarrow> i = text_or_empty incoming) \<and>
        (case app (rq\<lparr>rq_request_id := Some i\<rparr>) (c\<lparr>request_id_context := i\<rparr>) of
           (Inl err, _) \<Rightarrow> result = Inl err
         | (Inr r, _) \<Rightarrow> result = Inr (set_header ''X-Request-ID'' i r)))"
proof -
  let ?i = "if valid_request_id (text_or_empty incoming) then text_or_empty incoming else fresh"
  have i: "valid_request_id ?i" using assms(1) by simp
  have "request_id_context c' = request_id_context c \<and>
      (case app (rq\<lparr>rq_request_id := Some ?i\<rparr>) (c\<lparr>request_id_context := ?i\<rparr>) of
           (Inl err, _) \<Rightarrow> result = Inl err | (Inr r, _) \<Rightarrow> result = Inr (set_header ''X-Request-ID'' ?i r))"
    using assms(2) unfolding request_id_middleware_def Let_def by (auto split: prod.splits sum.splits)
  then show ?thesis using i valid_request_id_safe [OF i] by (intro conjI exI [of _ ?i]) simp_all
qed

definition demo_context :: request_context where
  "demo_context = \<lparr>request_id_context = ''-'', user_id_context = ''-'', request_log = []\<rparr>"

definition demo_request :: request where
  "demo_request = \<lparr>rq_remote_addr = None, rq_forwarded_for = None, rq_user_agent = None, rq_request_id = None, rq_session_key = None\<rparr>"

theorem request_id_is_safe_witness:
  "request_id_context (snd (request_id_middleware (Some [CHR 0x0A]) ''a1'' (\<lambda>rq. ret (success_response PNone)) demo_request demo_context)) = ''-''"
proof -
  have "valid_request_id ''a1''" by code_simp
  from request_id_is_safe [OF this, of "Some [CHR 0x0A]" "\<lambda>rq. ret (success_response PNone)" demo_request demo_context]
  show ?thesis
    by (cases "request_id_middleware (Some [CHR 0x0A]) ''a1'' (\<lambda>rq. ret (success_response PNone)) demo_request demo_context")
      (simp add: demo_context_def)
qed

text \<open>
  Publishing an event is isolated. The handlers of a name are those subscribed to it, each
  once, in the order in which they came; publishing runs all of them in that order and never fails,
  whatever any of them raises.
\<close>

lemma handlers_of_subscribe:
  "handlers_of n (bus_subscribe name h b) =
     (if n = name then (if h \<in> set (handlers_of n b) then handlers_of n b else handlers_of n b @ [h]) else handlers_of n b)"
  by (cases "n = name"; cases "map_of b name") (simp_all add: handlers_of_def bus_subscribe_def pair_get_def AList.update_conv Let_def)

lemma handlers_of_subscriptions:
  "handlers_of n (fold (\<lambda>(m, h). bus_subscribe m h) (rev subs) []) =
     rev (remdups (map snd (filter (\<lambda>x. fst x = n) subs)))"
proof (induction subs)
  case (Cons x subs)
  have "snd x \<in> snd ` {y \<in> set subs. fst y = fst x}" if "x \<in> set subs" using that by force
  then show ?case using Cons.IH by (cases x) (auto simp: handlers_of_subscribe)
qed (simp add: handlers_of_def pair_get_def)

lemma publish_run:
  "for_each (\<lambda>h. catch_op (call h event) (\<lambda>_. ret ())) hs s = (Inr (), fold (\<lambda>h t. snd (call h event t)) hs s)"
proof (induction hs arbitrary: s)
  case (Cons h hs)
  then show ?case by (cases "call h event s"; cases "fst (call h event s)") (auto simp: op_simps)
qed (simp add: op_simps)

theorem publish_isolated:
  "publish call event (fold (\<lambda>(m, h). bus_subscribe m h) subs []) s =
     (Inr (), fold (\<lambda>h t. snd (call h event t)) (rev (remdups (rev (map snd (filter (\<lambda>x. fst x = ev_name event) subs))))) s)"
  using handlers_of_subscriptions [of "ev_name event" "rev subs"]
  by (simp add: publish_def publish_run rev_map rev_filter)

end
