(* ===== verification/Access.thy ===== *)
theory Access
  imports Http Authorization ApiKeys
begin

text \<open>
  What REST framework hands to a view of the API and how it is let through: the request with its principal,
  the default permission classes of \<^verbatim>\<open>config/settings/base.py\<close> and those that the administrative views name.
\<close>

section \<open>Requests to the API\<close>

record api_request =
  ar_request :: request
  ar_method :: string
  ar_path :: string
  ar_body :: string
  ar_idempotency_key :: "string option"
  ar_user :: "user option"
  ar_key :: "api_key option"

definition ar_actor :: "api_request \<Rightarrow> actor option" where
  \<comment> \<open>\<^verbatim>\<open>actor=request.user\<close>\<close>
  "ar_actor q = Some (case ar_user q of None \<Rightarrow> AnonymousActor | Some u \<Rightarrow> UserActor (u_id u))"

section \<open>Permissions\<close>

definition permission_denied :: "api_request \<Rightarrow> error" where
  \<comment> \<open>the library's \<^verbatim>\<open>permission_denied\<close>: without a successful authenticator it asks for one\<close>
  "permission_denied q = (if ar_user q = None then NotAuthenticated else PermissionDenied ''You do not have the required permission.'')"

fun check_permissions :: "api_request \<Rightarrow> (db \<Rightarrow> error + bool) list \<Rightarrow> unit action" where
  \<comment> \<open>every class in turn, the first refusal ends it\<close>
  "check_permissions q [] = ret ()"
| "check_permissions q (p # ps) =
     bind_op (reads p) (\<lambda>answer. bind_op (of_sum answer) (\<lambda>granted.
     then_op (raise_if (\<not> granted) (permission_denied q)) (check_permissions q ps)))"

definition is_authenticated :: "api_request \<Rightarrow> db \<Rightarrow> error + bool" where
  "is_authenticated q s = Inr (ar_user q \<noteq> None)"

definition has_scope :: "api_request \<Rightarrow> view_scopes \<Rightarrow> db \<Rightarrow> error + bool" where
  "has_scope q view s = Inr (has_api_key_scope (ar_key q) view (ar_method q))"

definition has_code :: "api_request \<Rightarrow> string \<Rightarrow> db \<Rightarrow> error + bool" where
  "has_code q code s = rbac_has_permission s (ar_user q) (Some code)"

definition no_scopes :: view_scopes where
  \<comment> \<open>a view that declares no scopes\<close>
  "no_scopes = \<lparr>required_api_key_scopes = None, required_api_key_scopes_by_method = None\<rparr>"

definition default_permissions :: "api_request \<Rightarrow> view_scopes \<Rightarrow> (db \<Rightarrow> error + bool) list" where
  \<comment> \<open>\<^verbatim>\<open>DEFAULT_PERMISSION_CLASSES\<close>\<close>
  "default_permissions q view = [is_authenticated q, has_scope q view]"

definition admin_permissions :: "api_request \<Rightarrow> string \<Rightarrow> (db \<Rightarrow> error + bool) list" where
  \<comment> \<open>\<^verbatim>\<open>[HasPermission, HasAPIKeyScope]\<close> on a view that declares no scopes\<close>
  "admin_permissions q code = [has_code q code, has_scope q no_scopes]"

definition guarded :: "api_request \<Rightarrow> (db \<Rightarrow> error + bool) list \<Rightarrow> 'a action \<Rightarrow> 'a action" where
  "guarded q ps view = then_op (check_permissions q ps) view"

lemma check_permissions_pure: "snd (check_permissions q ps s) = s"
  by (induction ps) (auto simp: op_simps split: sum.splits)

lemma check_permissions_Inr_iff: "check_permissions q ps s = (Inr (), s) \<longleftrightarrow> (\<forall>p\<in>set ps. p s = Inr True)"
proof (induction ps)
  case (Cons p ps)
  then show ?case by (cases "p s") (auto simp: op_simps)
qed (simp add: op_simps)

lemma guarded_cases:
  obtains (refused) err where "guarded q ps view s = (Inl err, s)" "\<exists>p\<in>set ps. p s \<noteq> Inr True"
    | (granted) "guarded q ps view s = view s" "\<forall>p\<in>set ps. p s = Inr True"
proof (cases "fst (check_permissions q ps s)")
  case (Inl err)
  then have "check_permissions q ps s = (Inl err, s)" using check_permissions_pure [of q ps s] by (metis prod.collapse)
  then show thesis using refused [of err] check_permissions_Inr_iff [of q ps s] by (auto simp: guarded_def op_simps)
next
  case (Inr u)
  then have "check_permissions q ps s = (Inr (), s)" using check_permissions_pure [of q ps s] by (metis (full_types) old.unit.exhaust prod.collapse)
  then show thesis using granted check_permissions_Inr_iff [of q ps s] by (auto simp: guarded_def op_simps)
qed

lemma guarded_result:
  assumes "guarded q ps view s = (r, t)"
  shows "t = s \<or> (\<forall>p\<in>set ps. p s = Inr True) \<and> view s = (r, t)"
  using assms by (cases rule: guarded_cases [of q ps view s]) auto

lemma guarded_changed: "snd (guarded q ps view s) \<noteq> s \<Longrightarrow> \<forall>p\<in>set ps. p s = Inr True"
  using guarded_result [OF prod.collapse [symmetric], of q ps view s] by blast

text \<open>An administrative view is reached with the permission and without an API key, and in no other way.\<close>

lemma admin_granted_iff:
  assumes "code \<noteq> []"
  shows "(\<forall>p\<in>set (admin_permissions q code). p s = Inr True) \<longleftrightarrow> has_permission s (ar_user q) code \<and> ar_key q = None"
  using assms by (auto simp: admin_permissions_def has_code_def has_scope_def rbac_has_permission_def no_scopes_def has_api_key_scope_def
      split: option.splits)

end
