(* ===== verification/RuntimeSettings.thy ===== *)
theory RuntimeSettings
  imports Access Cache
begin

text \<open>
  Runtime settings and feature flags: the model's \<^verbatim>\<open>clean\<close>, \<^verbatim>\<open>RuntimeSettingService\<close> with its cache,
  \<^verbatim>\<open>FeatureFlagService\<close>, and the two view sets of \<^verbatim>\<open>apps/api/views/core.py\<close> with their serializers. The
  attributes that a serializer has validated are a list of \<open>setting_attr\<close> or \<open>flag_attr\<close>, in field order.
\<close>

section \<open>Setting.clean\<close>

definition secret_words :: "string list" where
  "secret_words = [''password'', ''secret'', ''credential'', ''private_key'', ''access_key'', ''token'', ''dsn'']"

definition name_separator :: "char \<Rightarrow> bool" where
  "name_separator c \<longleftrightarrow> c \<in> set ''._-''"

definition ends_here :: "string \<Rightarrow> bool" where
  \<comment> \<open>\<^verbatim>\<open>($|[._-])\<close>; the end also matches before a final newline\<close>
  "ends_here r \<longleftrightarrow> (case r of [] \<Rightarrow> True | c # r' \<Rightarrow> name_separator c \<or> (r' = [] \<and> char_code c = 10))"

definition secret_like :: "string \<Rightarrow> bool" where
  "secret_like key \<longleftrightarrow>
     (let t = py_lower key in
      list_ex (\<lambda>i. (i = 0 \<or> name_separator (t ! (i - 1))) \<and>
        list_ex (\<lambda>w. startswith w (drop i t) \<and> ends_here (drop (i + length w) t)) secret_words) [0..<length t])"

fun type_accepts :: "setting_value_type \<Rightarrow> pyval \<Rightarrow> bool" where
  "type_accepts STRING v = (case v of PStr _ \<Rightarrow> True | _ \<Rightarrow> False)"
| "type_accepts INTEGER v = (case v of PInt _ \<Rightarrow> True | _ \<Rightarrow> False)"
| "type_accepts BOOLEAN v = (case v of PBool _ \<Rightarrow> True | _ \<Rightarrow> False)"
| "type_accepts JSON v = True"

definition setting_clean :: "setting \<Rightarrow> error option" where
  "setting_clean row =
     (if secret_like (sg_key row) then Some (ValidationError ''Secret-like values must be stored outside the database.'')
      else if \<not> type_accepts (sg_value_type row) (sg_value row) then Some (ValidationError ''Value does not match type.'')
      else None)"

definition setting_fields_valid :: "setting \<Rightarrow> bool" where
  \<comment> \<open>Django's \<^verbatim>\<open>clean_fields\<close>: the lengths of the columns, and no empty value where a blank is not allowed\<close>
  "setting_fields_valid row \<longleftrightarrow>
     sg_key row \<noteq> [] \<and> length (sg_key row) \<le> 150 \<and> sg_group row \<noteq> [] \<and> length (sg_group row) \<le> 64 \<and>
     sg_value row \<notin> {PNone, PStr [], PList [], PTuple [], PDict []}"

definition setting_key_taken :: "db \<Rightarrow> setting \<Rightarrow> bool" where
  "setting_key_taken s row = exists_where (\<lambda>r. sg_key r = sg_key row \<and> sg_id r \<noteq> sg_id row) (runtime_settings s)"

definition setting_full_clean :: "bool \<Rightarrow> setting \<Rightarrow> db \<Rightarrow> error option" where
  \<comment> \<open>\<^verbatim>\<open>full_clean(validate_unique=...)\<close>\<close>
  "setting_full_clean unique row s =
     (if \<not> setting_fields_valid row then Some (ValidationError ''fields'')
      else case setting_clean row of
        Some err \<Rightarrow> Some err
      | None \<Rightarrow> if unique \<and> setting_key_taken s row then Some (ValidationError ''Setting with this Key already exists.'') else None)"

section \<open>RuntimeSettingService\<close>

definition setting_cache_timeout :: int where
  "setting_cache_timeout = 300"

definition setting_cache_key :: "string \<Rightarrow> bool \<Rightarrow> string" where
  "setting_cache_key key public_only = ''runtime-setting:'' @ key @ '':'' @ (if public_only then ''1'' else ''0'')"

definition setting_lookup :: "db \<Rightarrow> string \<Rightarrow> bool \<Rightarrow> setting option" where
  "setting_lookup s key public_only =
     first_where (\<lambda>r. sg_key r = key \<and> (public_only \<longrightarrow> sg_is_public r)) (runtime_settings s)"

definition setting_get :: "string \<Rightarrow> pyval \<Rightarrow> bool \<Rightarrow> pyval action" where
  "setting_get key fallback public_only =
     (let k = setting_cache_key key public_only in
      bind_op now_op (\<lambda>now.
      bind_op (reads (\<lambda>s. cache_get now k (cache s))) (\<lambda>cached.
      if cached \<noteq> None \<and> cached \<noteq> Some PNone then ret (the cached)
      else
        bind_op (reads (\<lambda>s. setting_lookup s key public_only)) (\<lambda>row.
        let v = (case row of None \<Rightarrow> fallback | Some r \<Rightarrow> sg_value r) in
        then_op (modify (\<lambda>s. s\<lparr>cache := cache_set now k v setting_cache_timeout (cache s)\<rparr>)) (ret v)))))"

record setting_defaults =
  sd_group :: "string option"
  sd_is_public :: "bool option"
  sd_description :: "string option"

definition with_default :: "'a option \<Rightarrow> 'a \<Rightarrow> 'a" where
  "with_default x v = (case x of None \<Rightarrow> v | Some w \<Rightarrow> w)"

definition setting_target :: "env \<Rightarrow> setting \<Rightarrow> audit_target" where
  "setting_target e row = \<lparr>at_label = ''core.setting'', at_pk = uuid_str (plat e) (sg_id row), at_repr = sg_key row\<rparr>"

definition setting_save :: "setting \<Rightarrow> unit action" where
  \<comment> \<open>\<^verbatim>\<open>save()\<close>: an update of the row with the same key, else an insertion\<close>
  "setting_save row =
     bind_op (reads (\<lambda>s. setting_key_taken s row)) (\<lambda>taken.
     then_op (raise_if taken (IntegrityError ''core_setting_key''))
     (modify (\<lambda>s. s\<lparr>runtime_settings :=
        if exists_where (\<lambda>r. sg_id r = sg_id row) (runtime_settings s)
        then update_where (\<lambda>r. sg_id r = sg_id row) (\<lambda>_. row) (runtime_settings s)
        else runtime_settings s @ [row]\<rparr>)))"

definition setting_forget :: "string \<Rightarrow> unit action" where
  "setting_forget key =
     then_op (modify (\<lambda>s. s\<lparr>cache := cache_delete_many [setting_cache_key key False] (cache s)\<rparr>))
     (modify (\<lambda>s. s\<lparr>cache := cache_delete_many [setting_cache_key key True] (cache s)\<rparr>))"

definition setting_set ::
    "env \<Rightarrow> string \<Rightarrow> pyval \<Rightarrow> setting_value_type \<Rightarrow> uuid option \<Rightarrow> setting_defaults \<Rightarrow> setting action" where
  "setting_set e key v value_type actor defaults = atomic
     (bind_op (reads (\<lambda>s. first_where (\<lambda>r. sg_key r = key) (runtime_settings s))) (\<lambda>found.
      bind_op (case found of None \<Rightarrow> fresh_id | Some r \<Rightarrow> ret (sg_id r)) (\<lambda>i.
      bind_op now_op (\<lambda>now.
      let created = (found = None);
          base = (case found of Some r \<Rightarrow> r
                  | None \<Rightarrow> \<lparr>sg_id = i, sg_key = key, sg_value = PNone, sg_value_type = STRING, sg_group = ''general'',
                            sg_is_public = False, sg_description = [], sg_created_at = now, sg_updated_at = now\<rparr>);
          row = base\<lparr>sg_value := v, sg_value_type := value_type, sg_group := with_default (sd_group defaults) (sg_group base),
                     sg_is_public := with_default (sd_is_public defaults) (sg_is_public base),
                     sg_description := with_default (sd_description defaults) (sg_description base), sg_updated_at := now\<rparr> in
      bind_op (reads (setting_full_clean True row)) (\<lambda>invalid.
      then_op (case invalid of None \<Rightarrow> ret () | Some err \<Rightarrow> throw err)
      (then_op (setting_save row)
      (then_op (setting_forget key)
      (then_op (audit_record e ((audit_call (if created then ''setting.created'' else ''setting.updated''))
         \<lparr>aa_target := Some (setting_target e row), aa_actor := map_option UserActor actor\<rparr>))
      (ret row)))))))))"

definition flag_is_enabled :: "db \<Rightarrow> string \<Rightarrow> bool \<Rightarrow> bool" where
  \<comment> \<open>\<^verbatim>\<open>FeatureFlagService.is_enabled\<close>\<close>
  "flag_is_enabled s key fallback =
     (case first_where (\<lambda>f. ff_key f = key) (feature_flags s) of None \<Rightarrow> fallback | Some f \<Rightarrow> ff_enabled f)"

section \<open>SettingViewSet\<close>

datatype setting_attr =
    AttrKey string
  | AttrValue pyval
  | AttrType setting_value_type
  | AttrGroup string
  | AttrPublic bool
  | AttrDescription string

fun type_text :: "setting_value_type \<Rightarrow> string" where
  "type_text STRING = ''string''"
| "type_text INTEGER = ''integer''"
| "type_text BOOLEAN = ''boolean''"
| "type_text JSON = ''json''"

fun set_attr :: "setting_attr \<Rightarrow> setting \<Rightarrow> setting" where
  \<comment> \<open>\<^verbatim>\<open>setattr(instance, field, value)\<close>\<close>
  "set_attr (AttrKey t) row = row\<lparr>sg_key := t\<rparr>"
| "set_attr (AttrValue v) row = row\<lparr>sg_value := v\<rparr>"
| "set_attr (AttrType t) row = row\<lparr>sg_value_type := t\<rparr>"
| "set_attr (AttrGroup t) row = row\<lparr>sg_group := t\<rparr>"
| "set_attr (AttrPublic b) row = row\<lparr>sg_is_public := b\<rparr>"
| "set_attr (AttrDescription t) row = row\<lparr>sg_description := t\<rparr>"

fun get_attr :: "setting \<Rightarrow> setting_attr \<Rightarrow> string \<times> pyval" where
  \<comment> \<open>the name of the attribute with its value in the row\<close>
  "get_attr row (AttrKey t) = (''key'', PStr (sg_key row))"
| "get_attr row (AttrValue v) = (''value'', sg_value row)"
| "get_attr row (AttrType t) = (''value_type'', PStr (type_text (sg_value_type row)))"
| "get_attr row (AttrGroup t) = (''group'', PStr (sg_group row))"
| "get_attr row (AttrPublic b) = (''is_public'', PBool (sg_is_public row))"
| "get_attr row (AttrDescription t) = (''description'', PStr (sg_description row))"

fun attr_item :: "setting_attr \<Rightarrow> string \<times> pyval" where
  \<comment> \<open>an item of \<^verbatim>\<open>validated_data\<close>\<close>
  "attr_item (AttrKey t) = (''key'', PStr t)"
| "attr_item (AttrValue v) = (''value'', v)"
| "attr_item (AttrType t) = (''value_type'', PStr (type_text t))"
| "attr_item (AttrGroup t) = (''group'', PStr t)"
| "attr_item (AttrPublic b) = (''is_public'', PBool b)"
| "attr_item (AttrDescription t) = (''description'', PStr t)"

definition set_attrs :: "setting_attr list \<Rightarrow> setting \<Rightarrow> setting" where
  "set_attrs attrs row = fold set_attr attrs row"

definition blank_setting :: "uuid \<Rightarrow> datetime \<Rightarrow> setting" where
  \<comment> \<open>\<^verbatim>\<open>Setting()\<close>\<close>
  "blank_setting i now = \<lparr>sg_id = i, sg_key = [], sg_value = PNone, sg_value_type = STRING, sg_group = ''general'',
     sg_is_public = False, sg_description = [], sg_created_at = now, sg_updated_at = now\<rparr>"

definition setting_data :: "env \<Rightarrow> setting \<Rightarrow> pyval" where
  \<comment> \<open>\<^verbatim>\<open>SettingSerializer(row).data\<close>\<close>
  "setting_data e row = PDict [(''id'', PStr (uuid_str (plat e) (sg_id row))), (''key'', PStr (sg_key row)), (''value'', sg_value row),
     (''value_type'', PStr (type_text (sg_value_type row))), (''group'', PStr (sg_group row)), (''is_public'', PBool (sg_is_public row)),
     (''description'', PStr (sg_description row)), (''created_at'', PStr (isoformat (plat e) (sg_created_at row))),
     (''updated_at'', PStr (isoformat (plat e) (sg_updated_at row)))]"

definition plain_response :: "int \<Rightarrow> pyval \<Rightarrow> response" where
  \<comment> \<open>the library's answer to a write: the serializer's data without the envelope\<close>
  "plain_response status v = \<lparr>rs_status = status, rs_data = v, rs_headers = []\<rparr>"

definition setting_required_permission :: "string \<Rightarrow> string" where
  "setting_required_permission action = (if action \<in> {''list'', ''retrieve''} then ''settings.view'' else ''settings.update'')"

definition setting_validate :: "setting \<Rightarrow> setting_attr list \<Rightarrow> setting action" where
  \<comment> \<open>\<^verbatim>\<open>is_valid\<close>: the unique validator of the key field, then \<open>validate\<close>, which sets the attributes on the instance
     itself; the result is that instance\<close>
  "setting_validate instance attrs =
     (let checked = set_attrs attrs instance in
      bind_op (reads (\<lambda>s. setting_key_taken s checked)) (\<lambda>taken.
      then_op (raise_if taken (InvalidData (PStr ''key'')))
      (bind_op (reads (setting_full_clean False checked)) (\<lambda>invalid.
       then_op (raise_if (invalid \<noteq> None) (InvalidData (PStr ''setting''))) (ret checked)))))"

definition setting_of :: "uuid \<Rightarrow> setting action" where
  \<comment> \<open>\<^verbatim>\<open>get_object()\<close>\<close>
  "setting_of i = bind_op (reads (\<lambda>s. first_where (\<lambda>r. sg_id r = i) (runtime_settings s)))
     (\<lambda>found. case found of None \<Rightarrow> throw NotFound | Some r \<Rightarrow> ret r)"

definition setting_recheck :: "setting \<Rightarrow> unit action" where
  \<comment> \<open>\<^verbatim>\<open>row.full_clean()\<close>\<close>
  "setting_recheck row = bind_op (reads (setting_full_clean True row))
     (\<lambda>invalid. case invalid of None \<Rightarrow> ret () | Some err \<Rightarrow> throw err)"

definition setting_view_update :: "env \<Rightarrow> api_request \<Rightarrow> uuid \<Rightarrow> setting_attr list \<Rightarrow> response action" where
  "setting_view_update e q i attrs = guarded q (admin_permissions q (setting_required_permission ''update''))
     (bind_op (setting_of i) (\<lambda>row.
      bind_op (setting_validate row attrs) (\<lambda>instance.
      bind_op now_op (\<lambda>now.
      let before = map (get_attr instance) attrs;
          saved = (set_attrs attrs instance)\<lparr>sg_updated_at := now\<rparr> in
      then_op (setting_save saved)
      (then_op (setting_recheck saved)
      (then_op (audit_record e ((audit_call ''setting.updated'')
         \<lparr>aa_target := Some (setting_target e saved), aa_actor := ar_actor q, aa_request := Some (ar_request q),
          aa_before := before, aa_after := map attr_item attrs\<rparr>))
      (ret (plain_response 200 (setting_data e saved)))))))))"

definition setting_view_create :: "env \<Rightarrow> api_request \<Rightarrow> setting_attr list \<Rightarrow> response action" where
  "setting_view_create e q attrs = guarded q (admin_permissions q (setting_required_permission ''create''))
     (bind_op fresh_id (\<lambda>i. bind_op now_op (\<lambda>now.
      bind_op (setting_validate (blank_setting i now) attrs) (\<lambda>_.
      let row = set_attrs attrs (blank_setting i now) in
      then_op (setting_save row)
      (then_op (setting_recheck row)
      (then_op (audit_record e ((audit_call ''setting.created'')
         \<lparr>aa_target := Some (setting_target e row), aa_actor := ar_actor q, aa_request := Some (ar_request q),
          aa_after := map attr_item attrs\<rparr>))
      (ret (plain_response 201 (setting_data e row)))))))))"

definition setting_view_destroy :: "env \<Rightarrow> api_request \<Rightarrow> uuid \<Rightarrow> response action" where
  \<comment> \<open>inherited as it is: no audit row, no change to the cache\<close>
  "setting_view_destroy e q i = guarded q (admin_permissions q (setting_required_permission ''destroy''))
     (bind_op (setting_of i) (\<lambda>row.
      then_op (modify (\<lambda>s. s\<lparr>runtime_settings := delete_where (\<lambda>r. sg_id r = sg_id row) (runtime_settings s)\<rparr>))
      (ret (plain_response 204 PNone))))"

section \<open>FeatureFlagViewSet\<close>

datatype flag_attr = FlagKey string | FlagEnabled bool | FlagDescription string

fun set_flag_attr :: "flag_attr \<Rightarrow> feature_flag \<Rightarrow> feature_flag" where
  "set_flag_attr (FlagKey t) f = f\<lparr>ff_key := t\<rparr>"
| "set_flag_attr (FlagEnabled b) f = f\<lparr>ff_enabled := b\<rparr>"
| "set_flag_attr (FlagDescription t) f = f\<lparr>ff_description := t\<rparr>"

fun get_flag_attr :: "feature_flag \<Rightarrow> flag_attr \<Rightarrow> string \<times> pyval" where
  "get_flag_attr f (FlagKey t) = (''key'', PStr (ff_key f))"
| "get_flag_attr f (FlagEnabled b) = (''enabled'', PBool (ff_enabled f))"
| "get_flag_attr f (FlagDescription t) = (''description'', PStr (ff_description f))"

fun flag_attr_item :: "flag_attr \<Rightarrow> string \<times> pyval" where
  "flag_attr_item (FlagKey t) = (''key'', PStr t)"
| "flag_attr_item (FlagEnabled b) = (''enabled'', PBool b)"
| "flag_attr_item (FlagDescription t) = (''description'', PStr t)"

definition flag_target :: "env \<Rightarrow> feature_flag \<Rightarrow> audit_target" where
  "flag_target e f = \<lparr>at_label = ''core.featureflag'', at_pk = uuid_str (plat e) (ff_id f), at_repr = ff_key f\<rparr>"

definition flag_data :: "env \<Rightarrow> feature_flag \<Rightarrow> pyval" where
  "flag_data e f = PDict [(''id'', PStr (uuid_str (plat e) (ff_id f))), (''key'', PStr (ff_key f)), (''enabled'', PBool (ff_enabled f)),
     (''description'', PStr (ff_description f)), (''created_at'', PStr (isoformat (plat e) (ff_created_at f))),
     (''updated_at'', PStr (isoformat (plat e) (ff_updated_at f)))]"

definition flag_required_permission :: "string \<Rightarrow> string" where
  "flag_required_permission action = (if action \<in> {''list'', ''retrieve''} then ''feature_flags.view'' else ''feature_flags.update'')"

definition flag_validate :: "feature_flag \<Rightarrow> unit action" where
  \<comment> \<open>the unique validator of the key field\<close>
  "flag_validate f = bind_op (reads (\<lambda>s. exists_where (\<lambda>g. ff_key g = ff_key f \<and> ff_id g \<noteq> ff_id f) (feature_flags s)))
     (\<lambda>taken. raise_if taken (InvalidData (PStr ''key'')))"

definition flag_of :: "uuid \<Rightarrow> feature_flag action" where
  "flag_of i = bind_op (reads (\<lambda>s. first_where (\<lambda>f. ff_id f = i) (feature_flags s)))
     (\<lambda>found. case found of None \<Rightarrow> throw NotFound | Some f \<Rightarrow> ret f)"

definition flag_view_update :: "env \<Rightarrow> api_request \<Rightarrow> uuid \<Rightarrow> flag_attr list \<Rightarrow> response action" where
  "flag_view_update e q i attrs = guarded q (admin_permissions q (flag_required_permission ''update''))
     (bind_op (flag_of i) (\<lambda>f.
      then_op (flag_validate (fold set_flag_attr attrs f))
      (bind_op now_op (\<lambda>now.
      let before = map (get_flag_attr f) attrs;
          saved = (fold set_flag_attr attrs f)\<lparr>ff_updated_at := now\<rparr> in
      then_op (modify (\<lambda>s. s\<lparr>feature_flags := update_where (\<lambda>g. ff_id g = ff_id f) (\<lambda>_. saved) (feature_flags s)\<rparr>))
      (then_op (audit_record e ((audit_call ''feature_flag.updated'')
         \<lparr>aa_target := Some (flag_target e saved), aa_actor := ar_actor q, aa_request := Some (ar_request q),
          aa_before := before, aa_after := map flag_attr_item attrs\<rparr>))
      (ret (plain_response 200 (flag_data e saved))))))))"

definition flag_view_create :: "env \<Rightarrow> api_request \<Rightarrow> flag_attr list \<Rightarrow> response action" where
  "flag_view_create e q attrs = guarded q (admin_permissions q (flag_required_permission ''create''))
     (bind_op fresh_id (\<lambda>i. bind_op now_op (\<lambda>now.
      let f = fold set_flag_attr attrs \<lparr>ff_id = i, ff_key = [], ff_enabled = False, ff_description = [],
                ff_created_at = now, ff_updated_at = now\<rparr> in
      then_op (flag_validate f)
      (then_op (modify (\<lambda>s. s\<lparr>feature_flags := feature_flags s @ [f]\<rparr>))
      (then_op (audit_record e ((audit_call ''feature_flag.created'')
         \<lparr>aa_target := Some (flag_target e f), aa_actor := ar_actor q, aa_request := Some (ar_request q),
          aa_after := map flag_attr_item attrs\<rparr>))
      (ret (plain_response 201 (flag_data e f))))))))"

section \<open>Health\<close>

definition ready :: "env \<Rightarrow> bool \<Rightarrow> bool option \<Rightarrow> response" where
  \<comment> \<open>the probes' outcomes are arguments: the database answered, and what comparing the marker gave unless it raised\<close>
  "ready e database_up marker_read =
     (let redis = (if REDIS_ENABLED (cfg e)
                   then (case marker_read of None \<Rightarrow> PBool False | Some same \<Rightarrow> PBool same) else PStr ''disabled'');
          is_ready = (database_up \<and> redis \<in> {PBool True, PStr ''disabled''})
      in plain_response (if is_ready then 200 else 503)
           (PDict [(''status'', PStr (if is_ready then ''ok'' else ''unavailable'')),
                   (''checks'', PDict [(''database'', PBool database_up), (''redis'', redis)])]))"

definition live :: response where
  "live = plain_response 200 (PDict [(''status'', PStr ''ok'')])"

section \<open>What the operations do\<close>

definition setting_table_ok :: "setting list \<Rightarrow> bool" where
  "setting_table_ok t \<longleftrightarrow> distinct (map sg_key t) \<and> distinct (map sg_id t)"

interpretation setting_by_key: keyed_table sg_key setting_table_ok
  by unfold_locales (simp add: setting_table_ok_def)

interpretation setting_by_id: keyed_table sg_id setting_table_ok
  by unfold_locales (simp add: setting_table_ok_def)

lemma first_where_key:
  assumes "setting_table_ok t" and "row \<in> set t" and "sg_key row = key"
  shows "first_where (\<lambda>r. sg_key r = key \<and> (po \<longrightarrow> sg_is_public r)) t = (if po \<longrightarrow> sg_is_public row then Some row else None)"
proof (cases "first_where (\<lambda>r. sg_key r = key \<and> (po \<longrightarrow> sg_is_public r)) t")
  case None
  then show ?thesis using assms(2,3) by auto
next
  case (Some r)
  then have "r \<in> set t" "sg_key r = key" "po \<longrightarrow> sg_is_public r" using first_where_SomeD [OF Some] by auto
  moreover from this have "r = row" using setting_by_key.key_determines [OF assms(1) _ assms(2)] assms(3) by simp
  ultimately show ?thesis using Some by simp
qed

lemma setting_save_stores:
  assumes "setting_save row s = (Inr (), t)" and "setting_table_ok (runtime_settings s)"
  shows "row \<in> set (runtime_settings t)" and "setting_table_ok (runtime_settings t)" and "cache t = cache s" and "clock t = clock s"
proof -
  from assms(1) have free: "\<not> setting_key_taken s row" and t: "t = s\<lparr>runtime_settings :=
      if exists_where (\<lambda>r. sg_id r = sg_id row) (runtime_settings s)
      then update_where (\<lambda>r. sg_id r = sg_id row) (\<lambda>_. row) (runtime_settings s) else runtime_settings s @ [row]\<rparr>"
    by (auto simp: setting_save_def op_simps split: if_splits)
  show "cache t = cache s" "clock t = clock s" using t by simp_all
  show "row \<in> set (runtime_settings t)" using t by (auto intro: update_where_changed)
  show "setting_table_ok (runtime_settings t)"
  proof (cases "exists_where (\<lambda>r. sg_id r = sg_id row) (runtime_settings s)")
    case True
    then obtain r where r: "r \<in> set (runtime_settings s)" "sg_id r = sg_id row" by auto
    have rows: "runtime_settings t = update_where (\<lambda>q. sg_id q = sg_id r) (\<lambda>_. row) (runtime_settings s)" using t r by auto
    have "sg_key p \<noteq> sg_key row" if "p \<in> set (runtime_settings s)" "sg_id p \<noteq> sg_id r" for p
      using free that r(2) by (auto simp: setting_key_taken_def)
    then have "distinct (map sg_key (runtime_settings t))" unfolding rows
      using assms(2) by (intro setting_by_id.distinct_update_by_key [OF assms(2) r(1)]) (simp_all add: setting_table_ok_def)
    moreover have "distinct (map sg_id (runtime_settings t))" unfolding rows
      using assms(2) r(2) by (intro setting_by_id.distinct_update_by_key [OF assms(2) r(1)]) (simp_all add: setting_table_ok_def)
    ultimately show ?thesis by (simp add: setting_table_ok_def)
  next
    case False
    then show ?thesis using t free assms(2) by (auto simp: setting_table_ok_def setting_key_taken_def)
  qed
qed

lemma setting_get_uncached:
  assumes "cache_get (clock s) (setting_cache_key key po) (cache s) = None"
  shows "fst (setting_get key d po s) = Inr (case setting_lookup s key po of None \<Rightarrow> d | Some r \<Rightarrow> sg_value r)"
  using assms by (simp add: setting_get_def op_simps Let_def)

lemma setting_get_cached:
  assumes "cache_get (clock s) (setting_cache_key key po) (cache s) = Some v" and "v \<noteq> PNone"
  shows "setting_get key d po s = (Inr v, s)"
  using assms by (simp add: setting_get_def op_simps Let_def)

lemma setting_setE:
  assumes "setting_set e key v ty actor defaults s = (Inr row, t)"
  obtains s1 s2 where "sg_key row = key" and "sg_value row = v" and "setting_save row s1 = (Inr (), s2)"
    and "runtime_settings s1 = runtime_settings s" and "runtime_settings t = runtime_settings s2"
    and "cache t = cache_delete_many [setting_cache_key key True] (cache_delete_many [setting_cache_key key False] (cache s2))"
proof -
  have key: "sg_key r = key" if "first_where (\<lambda>r. sg_key r = key) (runtime_settings s) = Some r" for r
    using first_where_SomeD [OF that] by simp
  have "\<exists>s1 s2. sg_key row = key \<and> sg_value row = v \<and> setting_save row s1 = (Inr (), s2) \<and>
      runtime_settings s1 = runtime_settings s \<and> runtime_settings t = runtime_settings s2 \<and>
      cache t = cache_delete_many [setting_cache_key key True] (cache_delete_many [setting_cache_key key False] (cache s2))"
    using assms key
    by (cases "first_where (\<lambda>r. sg_key r = key) (runtime_settings s)")
      (auto simp: setting_set_def op_simps Let_def setting_forget_def audit_record_def split: prod.splits sum.splits option.splits,
        (intro exI conjI, assumption, simp_all)+)
  with that show thesis by blast
qed


definition no_defaults :: setting_defaults where
  "no_defaults = \<lparr>sd_group = None, sd_is_public = None, sd_description = None\<rparr>"


lemma setting_view_updateE:
  assumes "setting_view_update e q i attrs s = (Inr r, t)"
  obtains row saved s2 where "row \<in> set (runtime_settings s)" and "sg_id row = i"
    and "saved = (set_attrs attrs (set_attrs attrs row))\<lparr>sg_updated_at := clock s\<rparr>"
    and "setting_save saved s = (Inr (), s2)"
    and "t = s2\<lparr>audit_logs := audit_row e (clock s2) ((audit_call ''setting.updated'')
         \<lparr>aa_target := Some (setting_target e saved), aa_actor := ar_actor q, aa_request := Some (ar_request q),
          aa_before := map (get_attr (set_attrs attrs row)) attrs, aa_after := map attr_item attrs\<rparr>) # audit_logs s2\<rparr>"
proof -
  let ?view = "bind_op (setting_of i) (\<lambda>row.
      bind_op (setting_validate row attrs) (\<lambda>instance.
      bind_op now_op (\<lambda>now.
      let before = map (get_attr instance) attrs;
          saved = (set_attrs attrs instance)\<lparr>sg_updated_at := now\<rparr> in
      then_op (setting_save saved)
      (then_op (setting_recheck saved)
      (then_op (audit_record e ((audit_call ''setting.updated'')
         \<lparr>aa_target := Some (setting_target e saved), aa_actor := ar_actor q, aa_request := Some (ar_request q),
          aa_before := before, aa_after := map attr_item attrs\<rparr>))
      (ret (plain_response 200 (setting_data e saved))))))))"
  have "?view s = (Inr r, t)"
    using assms unfolding setting_view_update_def
    by (cases rule: guarded_cases [of q "admin_permissions q (setting_required_permission ''update'')" ?view s]) simp_all
  moreover obtain row where row: "first_where (\<lambda>r. sg_id r = i) (runtime_settings s) = Some row"
    using calculation by (cases "first_where (\<lambda>r. sg_id r = i) (runtime_settings s)") (simp_all add: setting_of_def op_simps)
  ultimately have "\<exists>s2. setting_save ((set_attrs attrs (set_attrs attrs row))\<lparr>sg_updated_at := clock s\<rparr>) s = (Inr (), s2) \<and>
      t = s2\<lparr>audit_logs := audit_row e (clock s2) ((audit_call ''setting.updated'')
         \<lparr>aa_target := Some (setting_target e ((set_attrs attrs (set_attrs attrs row))\<lparr>sg_updated_at := clock s\<rparr>)),
          aa_actor := ar_actor q, aa_request := Some (ar_request q),
          aa_before := map (get_attr (set_attrs attrs row)) attrs, aa_after := map attr_item attrs\<rparr>) # audit_logs s2\<rparr>"
    by (auto simp: setting_of_def setting_validate_def setting_recheck_def op_simps Let_def audit_record_def
        split: prod.splits sum.splits option.splits if_splits)
  with first_where_SomeD [OF row] that show thesis by blast
qed

lemma setting_save_frame:
  assumes "setting_save row s = (Inr (), t)"
  shows "audit_logs t = audit_logs s" and "cache t = cache s"
  using assms by (auto simp: setting_save_def op_simps split: if_splits)

lemma get_attr_other:
  assumes "fst (attr_item b) \<noteq> fst (attr_item a)"
  shows "get_attr (set_attr b row) a = get_attr row a"
  using assms by (cases a; cases b) simp_all

lemma get_attr_set: "get_attr (set_attr a row) a = attr_item a"
  by (cases a) simp_all

lemma get_attr_name: "fst (get_attr row a) = fst (attr_item a)"
  by (cases a) simp_all

lemma get_attr_fold_other:
  assumes "fst (attr_item a) \<notin> (fst \<circ> attr_item) ` set bs"
  shows "get_attr (fold set_attr bs row) a = get_attr row a"
  using assms by (induction bs arbitrary: row) (auto simp: get_attr_other)

lemma get_attrs_set_attrs:
  assumes "distinct (map (fst \<circ> attr_item) attrs)"
  shows "map (get_attr (set_attrs attrs row)) attrs = map attr_item attrs"
  using assms unfolding set_attrs_def
proof (induction attrs arbitrary: row)
  case (Cons a bs)
  have "get_attr (fold set_attr bs (set_attr a row)) a = attr_item a"
    using Cons.prems by (simp add: get_attr_fold_other get_attr_set)
  then show ?case using Cons by simp
qed simp

text \<open>
  The audit trail of the settings API does not show what a setting was. A request that
  changes a setting is recorded with a \<open>before\<close> that is word for word its \<open>after\<close>: the serializer writes the
  new values into the instance while it validates, and the view reads the old values from that instance.
\<close>

theorem setting_audit_before_is_after:
  assumes "distinct (map (fst \<circ> attr_item) attrs)" and "setting_view_update e q i attrs s = (Inr r, t)"
  shows "\<exists>row. audit_logs t = row # audit_logs s \<and> al_action row = ''setting.updated'' \<and> al_before row = al_after row"
proof -
  from assms(2) obtain row saved s2 where save: "setting_save saved s = (Inr (), s2)"
    and t: "t = s2\<lparr>audit_logs := audit_row e (clock s2) ((audit_call ''setting.updated'')
         \<lparr>aa_target := Some (setting_target e saved), aa_actor := ar_actor q, aa_request := Some (ar_request q),
          aa_before := map (get_attr (set_attrs attrs row)) attrs, aa_after := map attr_item attrs\<rparr>) # audit_logs s2\<rparr>"
    by (rule setting_view_updateE)
  show ?thesis using setting_save_frame(1) [OF save]
    by (simp add: t get_attrs_set_attrs [OF assms(1)] audit_row_def audit_call_def)
qed

definition demo_admin :: api_request where
  "demo_admin = \<lparr>ar_request = demo_request, ar_method = ''PATCH'', ar_path = ''/api/v1/settings/'', ar_body = [],
     ar_idempotency_key = None, ar_user = Some (demo_user\<lparr>u_is_superuser := True\<rparr>), ar_key = None\<rparr>"

definition demo_settings :: db where
  "demo_settings = demo_db\<lparr>runtime_settings := [(blank_setting 1 0)\<lparr>sg_key := ''a'', sg_value := PBool True, sg_value_type := BOOLEAN\<rparr>],
     cache := cache_set 0 (setting_cache_key ''a'' False) (PBool True) setting_cache_timeout []\<rparr>"

lemma demo_update: "\<exists>r t. setting_view_update demo_env demo_admin 1 [AttrValue (PBool False)] demo_settings = (Inr r, t)"
proof -
  have secret: "\<not> secret_like ''a''" by code_simp
  have perm: "has_permission demo_settings (ar_user demo_admin) ''settings.update''"
    by (simp add: has_permission_def demo_admin_def demo_settings_def demo_db_def empty_db_def demo_user_def can_authenticate_now_def
        has_active_ban_iff override_effect_of_def first_where_def)
  have key: "ar_key demo_admin = None" by (simp add: demo_admin_def)
  let ?ps = "admin_permissions demo_admin (setting_required_permission ''update'')"
  have granted: "\<forall>p\<in>set ?ps. p demo_settings = Inr True"
    using admin_granted_iff [of "''settings.update''" demo_admin demo_settings] perm key by (simp add: setting_required_permission_def)
  have "guarded demo_admin ?ps view demo_settings = view demo_settings" for view :: "response action"
    using granted by (cases rule: guarded_cases [of demo_admin ?ps view demo_settings]) auto
  with secret show ?thesis
    by (simp add: setting_view_update_def setting_of_def setting_validate_def setting_recheck_def setting_save_def op_simps Let_def
        audit_record_def demo_settings_def first_where_def blank_setting_def set_attrs_def setting_full_clean_def
        setting_fields_valid_def setting_clean_def setting_key_taken_def update_where_def)
qed

theorem setting_audit_before_is_after_witness:
  "\<exists>r t row. setting_view_update demo_env demo_admin 1 [AttrValue (PBool False)] demo_settings = (Inr r, t) \<and>
     audit_logs t = [row] \<and> al_before row = al_after row"
proof -
  obtain r t where r: "setting_view_update demo_env demo_admin 1 [AttrValue (PBool False)] demo_settings = (Inr r, t)"
    using demo_update by blast
  have "audit_logs demo_settings = []" by (simp add: demo_settings_def demo_db_def empty_db_def)
  with setting_audit_before_is_after [OF _ r] r show ?thesis by auto
qed

text \<open>
  The settings API leaves the cache as it is. After a value was read and cached, changing the
  setting through the API has no effect on what \<open>get\<close> returns until the entry's five minutes have passed.
\<close>

theorem setting_api_update_unseen:
  assumes "cache_get now (setting_cache_key key po) (cache s) = Some old" and "old \<noteq> PNone"
    and "setting_view_update e q i attrs s = (Inr r, t)"
  shows "fst (setting_get key d po (t\<lparr>clock := now\<rparr>)) = Inr old"
proof -
  from assms(3) obtain row saved s2 a where save: "setting_save saved s = (Inr (), s2)" and t: "t = s2\<lparr>audit_logs := a\<rparr>"
    by (rule setting_view_updateE)
  have "cache t = cache s" using setting_save_frame(2) [OF save] t by simp
  then show ?thesis using setting_get_cached [of "t\<lparr>clock := now\<rparr>" key po old d] assms(1,2) by simp
qed

theorem setting_api_update_unseen_witness:
  "\<exists>r t. setting_view_update demo_env demo_admin 1 [AttrValue (PBool False)] demo_settings = (Inr r, t) \<and>
     fst (setting_get ''a'' PNone False (t\<lparr>clock := seconds 299\<rparr>)) = Inr (PBool True)"
proof -
  obtain r t where r: "setting_view_update demo_env demo_admin 1 [AttrValue (PBool False)] demo_settings = (Inr r, t)"
    using demo_update by blast
  have "cache_get (seconds 299) (setting_cache_key ''a'' False) (cache demo_settings) = Some (PBool True)"
    by (simp add: demo_settings_def cached.lookup_store setting_cache_timeout_def)
  from setting_api_update_unseen [OF this _ r] r show ?thesis by blast
qed

text \<open>
  Runtime settings and feature flags change through the API only for a signed-in user who
  holds the update permission for them and who does not use an API key; a refused request changes nothing.
\<close>

theorem settings_api_guarded:
  assumes "(setting_view_update e q i attrs s = (r, t) \<or> setting_view_create e q attrs s = (r, t) \<or> setting_view_destroy e q i s = (r, t)) \<and>
             code = ''settings.update'' \<or>
           (flag_view_update e q i flags s = (r, t) \<or> flag_view_create e q flags s = (r, t)) \<and> code = ''feature_flags.update''"
    and "t \<noteq> s"
  shows "ar_key q = None \<and> has_permission s (ar_user q) code"
proof -
  have code: "code \<noteq> []" using assms(1) by auto
  obtain view where "guarded q (admin_permissions q code) view s = (r, t)"
    using assms(1)
    by (auto simp: setting_view_update_def setting_view_create_def setting_view_destroy_def flag_view_update_def flag_view_create_def
        setting_required_permission_def flag_required_permission_def)
  then show ?thesis
  proof (cases rule: guarded_cases [of q "admin_permissions q code" view s])
    case granted
    then show ?thesis using admin_granted_iff [OF code] by simp
  qed (use assms(2) in auto)
qed

theorem settings_api_guarded_witness:
  "ar_key demo_admin = None \<and> has_permission demo_settings (ar_user demo_admin) ''settings.update''"
proof -
  obtain r t where r: "setting_view_update demo_env demo_admin 1 [AttrValue (PBool False)] demo_settings = (Inr r, t)"
    using demo_update by blast
  have "\<exists>row. audit_logs t = row # audit_logs demo_settings"
    using r by (rule setting_view_updateE) (simp add: setting_save_frame)
  then have "t \<noteq> demo_settings" by (auto simp: demo_settings_def demo_db_def empty_db_def)
  then show ?thesis using settings_api_guarded [of demo_env demo_admin 1 "[AttrValue (PBool False)]" demo_settings _ t] r by blast
qed

text \<open>The rows that the model's own check accepts, and the ways the application reaches the table.\<close>

definition well_typed :: "setting \<Rightarrow> bool" where
  "well_typed row \<longleftrightarrow> setting_fields_valid row \<and> setting_clean row = None"

definition settings_typed :: "db \<Rightarrow> bool" where
  "settings_typed s \<longleftrightarrow> (\<forall>row\<in>set (runtime_settings s). well_typed row)"

inductive setting_step :: "env \<Rightarrow> db \<Rightarrow> db \<Rightarrow> bool" for e :: env where
  set_value: "setting_set e key v ty actor defaults s = (r, t) \<Longrightarrow> setting_step e s t"
| api_update: "setting_view_update e q i attrs s = (r', t) \<Longrightarrow> setting_step e s t"
| api_create: "setting_view_create e q attrs s = (r', t) \<Longrightarrow> setting_step e s t"
| api_destroy: "setting_view_destroy e q i s = (r', t) \<Longrightarrow> setting_step e s t"

lemma well_typed_updated [simp]: "well_typed (row\<lparr>sg_updated_at := now\<rparr>) = well_typed row"
  by (simp add: well_typed_def setting_fields_valid_def setting_clean_def)

lemma full_clean_typed: "setting_full_clean unique row s = None \<Longrightarrow> well_typed row"
  by (auto simp: setting_full_clean_def well_typed_def split: if_splits option.splits)

lemma settings_typed_frame [simp]:
  "settings_typed (s\<lparr>cache := c\<rparr>) = settings_typed s" "settings_typed (s\<lparr>audit_logs := a\<rparr>) = settings_typed s"
  "settings_typed (s\<lparr>next_id := n\<rparr>) = settings_typed s"
  by (simp_all add: settings_typed_def)

lemma set_attr_same: "set_attr a (set_attr a row) = set_attr a row"
  by (cases a) simp_all

lemma set_attr_later:
  "set_attrs as (set_attr a row) = (if fst (attr_item a) \<in> (fst \<circ> attr_item) ` set as then set_attrs as row else set_attr a (set_attrs as row))"
proof (induction as arbitrary: row)
  case (Cons b as)
  have swap: "fst (attr_item a) = fst (attr_item b) \<Longrightarrow> set_attr b (set_attr a r) = set_attr b r"
    "fst (attr_item a) \<noteq> fst (attr_item b) \<Longrightarrow> set_attr b (set_attr a r) = set_attr a (set_attr b r)" for r
    by (cases a; cases b; simp)+
  show ?case
  proof (cases "fst (attr_item a) = fst (attr_item b)")
    case True
    then show ?thesis by (simp add: set_attrs_def swap)
  next
    case False
    then show ?thesis using Cons.IH [of "set_attr b row"] by (simp add: set_attrs_def swap)
  qed
qed (simp add: set_attrs_def)

lemma set_attrs_twice: "set_attrs as (set_attrs as row) = set_attrs as row"
proof (induction as arbitrary: row)
  case (Cons a as)
  have step: "set_attrs (a # as) r = set_attrs as (set_attr a r)" for r by (simp add: set_attrs_def)
  show ?case
    unfolding step using Cons.IH by (simp add: set_attr_later set_attr_same)
qed (simp add: set_attrs_def)

lemma setting_save_typed: "well_typed row \<Longrightarrow> preserves settings_typed (setting_save row)"
  by (rule preservesI) (auto simp: setting_save_def op_simps settings_typed_def elim!: update_whereE)

lemma checked_typed:
  assumes "\<And>s. g s = None \<Longrightarrow> preserves P m"
  shows "preserves P (bind_op (reads g) (\<lambda>invalid. then_op (case invalid of None \<Rightarrow> ret () | Some err \<Rightarrow> throw err) m))"
proof (rule preservesI)
  fix s assume "P s"
  then show "P (snd (bind_op (reads g) (\<lambda>invalid. then_op (case invalid of None \<Rightarrow> ret () | Some err \<Rightarrow> throw err) m) s))"
    using preservesD [OF assms] by (cases "g s") (simp_all add: op_simps)
qed

lemma validated_typed:
  assumes "well_typed (set_attrs attrs row) \<Longrightarrow> preserves settings_typed (f (set_attrs attrs row))"
  shows "preserves settings_typed (bind_op (setting_validate row attrs) f)"
proof (rule preservesI)
  fix s assume s: "settings_typed s"
  show "settings_typed (snd (bind_op (setting_validate row attrs) f s))"
  proof (cases "setting_full_clean False (set_attrs attrs row) s")
    case None
    then show ?thesis using s preservesD [OF assms [OF full_clean_typed [OF None]]]
      by (simp add: setting_validate_def op_simps Let_def)
  next
    case (Some err)
    then show ?thesis using s by (simp add: setting_validate_def op_simps Let_def)
  qed
qed

lemma setting_recheck_typed: "preserves settings_typed (setting_recheck row)"
  unfolding setting_recheck_def by (intro preserves_intros)

lemma guarded_typed: "preserves settings_typed view \<Longrightarrow> preserves settings_typed (guarded q ps view)"
proof (rule preservesI)
  fix s assume "preserves settings_typed view" and "settings_typed s"
  then show "settings_typed (snd (guarded q ps view s))"
    using preservesD by (cases rule: guarded_cases [of q ps view s]) auto
qed

lemma stored_typed:
  "well_typed row \<Longrightarrow> preserves settings_typed (then_op (setting_save row) (then_op (setting_recheck row) (then_op (audit_record e a) (ret x))))"
  by (intro preserves_then_op preserves_audit_record preserves_ret setting_save_typed setting_recheck_typed) simp_all

lemma setting_of_typed: "preserves settings_typed (setting_of i)"
  unfolding setting_of_def by (intro preserves_intros)

lemma setting_view_update_typed: "preserves settings_typed (setting_view_update e q i attrs)"
  unfolding setting_view_update_def Let_def
proof (rule guarded_typed, rule preserves_bind_op [OF setting_of_typed], rule validated_typed, rule preserves_bind_op [OF preserves_now_op])
  fix row now assume "well_typed (set_attrs attrs row)"
  then have "well_typed ((set_attrs attrs (set_attrs attrs row))\<lparr>sg_updated_at := now\<rparr>)" by (simp add: set_attrs_twice)
  then show "preserves settings_typed (then_op (setting_save ((set_attrs attrs (set_attrs attrs row))\<lparr>sg_updated_at := now\<rparr>))
      (then_op (setting_recheck ((set_attrs attrs (set_attrs attrs row))\<lparr>sg_updated_at := now\<rparr>))
      (then_op (audit_record e ((audit_call ''setting.updated'')
         \<lparr>aa_target := Some (setting_target e ((set_attrs attrs (set_attrs attrs row))\<lparr>sg_updated_at := now\<rparr>)),
          aa_actor := ar_actor q, aa_request := Some (ar_request q),
          aa_before := map (get_attr (set_attrs attrs row)) attrs, aa_after := map attr_item attrs\<rparr>))
      (ret (plain_response 200 (setting_data e ((set_attrs attrs (set_attrs attrs row))\<lparr>sg_updated_at := now\<rparr>)))))))"
    by (rule stored_typed)
qed

lemma setting_view_create_typed: "preserves settings_typed (setting_view_create e q attrs)"
  unfolding setting_view_create_def Let_def
  by (rule guarded_typed, rule preserves_bind_op [OF preserves_fresh_id], simp, rule preserves_bind_op [OF preserves_now_op],
      rule validated_typed, erule stored_typed)

lemma setting_forget_typed: "preserves settings_typed (setting_forget key)"
  unfolding setting_forget_def by (intro preserves_then_op preserves_modify) simp_all

lemma setting_set_typed: "preserves settings_typed (setting_set e key v ty actor defaults)"
proof -
  have id: "preserves settings_typed (case found of None \<Rightarrow> fresh_id | Some r \<Rightarrow> ret (sg_id r))" for found
    by (cases found) (simp_all add: preserves_fresh_id preserves_ret)
  show ?thesis
    unfolding setting_set_def Let_def
    by (rule preserves_atomic, rule preserves_bind_op [OF preserves_reads], rule preserves_bind_op [OF id],
        rule preserves_bind_op [OF preserves_now_op], rule checked_typed,
        rule preserves_then_op [OF setting_save_typed [OF full_clean_typed]], assumption,
        intro preserves_then_op preserves_audit_record preserves_ret setting_forget_typed) simp
qed

lemma setting_view_destroy_typed: "preserves settings_typed (setting_view_destroy e q i)"
  unfolding setting_view_destroy_def
  by (rule guarded_typed, rule preserves_bind_op [OF setting_of_typed], rule preserves_then_op [OF preserves_modify preserves_ret])
    (simp add: settings_typed_def)

lemma setting_step_typed:
  assumes "setting_step e s t" and "settings_typed s"
  shows "settings_typed t"
  using assms
proof cases
  case (set_value key v ty actor defaults r)
  then show ?thesis using preserves_run [OF setting_set_typed assms(2)] by blast
next
  case (api_update q i attrs r)
  then show ?thesis using preserves_run [OF setting_view_update_typed assms(2)] by blast
next
  case (api_create q attrs r)
  then show ?thesis using preserves_run [OF setting_view_create_typed assms(2)] by blast
next
  case (api_destroy q i r)
  then show ?thesis using preserves_run [OF setting_view_destroy_typed assms(2)] by blast
qed

text \<open>
  Property C39: every stored setting stays well typed. Whatever sequence of calls of the service and of the
  API reaches the table, failing ones included, each row's value has the type that the row declares, its columns fit, and its key does
  not look like the name of a secret: the checks come before every write, and the two writes of the API store what they checked.
\<close>

theorem settings_stay_typed:
  assumes "(setting_step e)\<^sup>*\<^sup>* s t" and "\<forall>row\<in>set (runtime_settings s). setting_fields_valid row \<and> setting_clean row = None"
  shows "\<forall>row\<in>set (runtime_settings t). type_accepts (sg_value_type row) (sg_value row) \<and> \<not> secret_like (sg_key row) \<and>
    length (sg_key row) \<le> 150"
proof -
  have "settings_typed s" using assms(2) by (simp add: settings_typed_def well_typed_def)
  with assms(1) have "settings_typed t"
    by (induction rule: rtranclp_induct) (auto intro: setting_step_typed)
  then show ?thesis by (auto simp: settings_typed_def well_typed_def setting_fields_valid_def setting_clean_def split: if_splits)
qed

theorem settings_stay_typed_witness:
  "list_all (\<lambda>row. type_accepts (sg_value_type row) (sg_value row))
     (runtime_settings (snd (setting_set demo_env ''b'' (PStr ''x'') INTEGER None no_defaults demo_settings)))"
proof -
  have "\<not> secret_like ''a''" by code_simp
  then have "\<forall>row\<in>set (runtime_settings demo_settings). setting_fields_valid row \<and> setting_clean row = None"
    by (simp add: demo_settings_def blank_setting_def setting_fields_valid_def setting_clean_def)
  moreover have "setting_step demo_env demo_settings (snd (setting_set demo_env ''b'' (PStr ''x'') INTEGER None no_defaults demo_settings))"
    by (rule set_value) (rule surjective_pairing)
  ultimately show ?thesis unfolding list_all_iff using settings_stay_typed [OF r_into_rtranclp] by blast
qed

end
