(* ===== verification/AuthApi.thy ===== *)
theory AuthApi
  imports Accounts TwoFactor RuntimeSettings
begin

text \<open>
  The views of \<^verbatim>\<open>apps/api/views/auth.py\<close> with the serializers of \<^verbatim>\<open>apps/api/serializers/auth.py\<close>: each view is
  an operation from the request and its data to a response, and composes the services modelled before it.

  REST framework's validation of the declared fields is the parameter \<open>clean_fields\<close>, which maps the data of
  a request to the validated fields or to an error; the \<open>validate_\<close> methods of the serializers are modelled
  and run on what it returns. The token texts of the JWT library are arguments too.
\<close>

section \<open>Serializers\<close>

datatype form_field =
    CharField "nat option" bool bool
  | EmailField
  | RegexField string nat
  | BooleanField bool

text \<open>\<open>CharField\<close> has the maximal length, whether the field is required, and whether blanks are trimmed.\<close>

type_synonym form = "(string \<times> form_field) list"
type_synonym validated = "(string \<times> pyval) list"

record forms =
  clean_fields :: "form \<Rightarrow> pyval \<Rightarrow> error + validated"

definition username_pattern :: string where
  "username_pattern = ''^['' @ [CHR 0x5C] @ ''w.@+-]+$''"

definition secret_field :: form_field where
  \<comment> \<open>\<^verbatim>\<open>CharField(write_only=True, trim_whitespace=False)\<close>\<close>
  "secret_field = CharField None True False"

definition RegistrationSerializer :: form where
  "RegistrationSerializer = [(''email'', EmailField), (''username'', RegexField username_pattern 150), (''password'', secret_field),
     (''first_name'', CharField (Some 150) False True), (''last_name'', CharField (Some 150) False True)]"

definition LoginSerializer :: form where
  "LoginSerializer = [(''identifier'', CharField (Some 254) True True), (''password'', secret_field),
     (''code'', CharField (Some 32) False True), (''remember_me'', BooleanField False)]"

definition TokenSerializer :: form where
  "TokenSerializer = [(''token'', CharField None True True)]"

definition EmailSerializer :: form where
  "EmailSerializer = [(''email'', EmailField)]"

definition PasswordResetConfirmSerializer :: form where
  "PasswordResetConfirmSerializer = TokenSerializer @ [(''new_password'', secret_field)]"

definition ChangePasswordSerializer :: form where
  "ChangePasswordSerializer = [(''old_password'', secret_field), (''new_password'', secret_field)]"

definition ChangeEmailSerializer :: form where
  "ChangeEmailSerializer = [(''password'', secret_field), (''new_email'', EmailField)]"

definition ChangeUsernameSerializer :: form where
  "ChangeUsernameSerializer = [(''username'', RegexField username_pattern 150)]"

definition PasswordConfirmationSerializer :: form where
  "PasswordConfirmationSerializer = [(''password'', secret_field)]"

definition LogoutSerializer :: form where
  "LogoutSerializer = [(''refresh'', CharField None False True)]"

definition TwoFactorCodeSerializer :: form where
  "TwoFactorCodeSerializer = [(''code'', CharField (Some 32) True True)]"

definition TwoFactorSetupSerializer :: form where
  "TwoFactorSetupSerializer = [(''password'', secret_field)]"

definition TwoFactorDisableSerializer :: form where
  "TwoFactorDisableSerializer = TwoFactorCodeSerializer @ [(''password'', secret_field)]"

definition is_valid :: "forms \<Rightarrow> form \<Rightarrow> pyval \<Rightarrow> validated action" where
  \<comment> \<open>\<^verbatim>\<open>is_valid(raise_exception=True)\<close> up to the \<open>validate_\<close> methods\<close>
  "is_valid fm form v = of_sum (clean_fields fm form v)"

definition field_text :: "string \<Rightarrow> validated \<Rightarrow> string action" where
  \<comment> \<open>\<^verbatim>\<open>validated_data[name]\<close>\<close>
  "field_text name v = of_sum (case pair_get name v of Some (PStr t) \<Rightarrow> Inr t | _ \<Rightarrow> Inl (KeyError name))"

definition field_or_empty :: "string \<Rightarrow> validated \<Rightarrow> string" where
  "field_or_empty name v = (case pair_get name v of Some (PStr t) \<Rightarrow> t | _ \<Rightarrow> [])"

definition field_true :: "string \<Rightarrow> validated \<Rightarrow> bool" where
  "field_true name v = (case pair_get name v of Some w \<Rightarrow> truthy w | None \<Rightarrow> False)"

definition details_exist :: error where
  "details_exist = InvalidData (PStr ''An account with those details already exists.'')"

definition validate_email :: "env \<Rightarrow> string \<Rightarrow> string action" where
  "validate_email e t =
     (let normalized = normalize_email_address e t in
      bind_op (reads (\<lambda>s. exists_where (\<lambda>u. iexact (u_email u) normalized) (users s))) (\<lambda>taken.
      then_op (raise_if taken details_exist) (ret normalized)))"

definition validate_username :: "string \<Rightarrow> string action" where
  "validate_username t =
     (let name = py_strip t in
      bind_op (reads (\<lambda>s. exists_where (\<lambda>u. iexact (u_username u) name) (users s))) (\<lambda>taken.
      then_op (raise_if taken details_exist) (ret name)))"

definition validate_form_password :: "env \<Rightarrow> string \<Rightarrow> string action" where
  \<comment> \<open>\<^verbatim>\<open>validate_password\<close> without a user, whose error the serializer turns into one of the field\<close>
  "validate_form_password e t =
     then_op (raise_if (\<not> password_valid (plat e) t None) (InvalidData (PStr ''password''))) (ret t)"

definition validate_new_username :: "user \<Rightarrow> string \<Rightarrow> string action" where
  \<comment> \<open>\<^verbatim>\<open>ChangeUsernameSerializer.validate_username\<close>\<close>
  "validate_new_username user t =
     (let name = py_strip t in
      bind_op (reads (\<lambda>s. exists_where (\<lambda>u. iexact (u_username u) name \<and> u_id u \<noteq> u_id user) (users s))) (\<lambda>taken.
      then_op (raise_if taken (InvalidData (PStr ''That username is unavailable.''))) (ret name)))"

section \<open>The user in an answer\<close>

definition code_value :: "string option \<Rightarrow> pyval" where
  "code_value x = (case x of None \<Rightarrow> PNone | Some t \<Rightarrow> PStr t)"

definition date_value :: "env \<Rightarrow> datetime option \<Rightarrow> pyval" where
  "date_value e x = (case x of None \<Rightarrow> PNone | Some t \<Rightarrow> PStr (isoformat (plat e) t))"

definition user_data :: "env \<Rightarrow> user option \<Rightarrow> user \<Rightarrow> db \<Rightarrow> error + pyval" where
  \<comment> \<open>\<^verbatim>\<open>UserSerializer(user, context={"request": request}).data\<close>; the second argument is \<^verbatim>\<open>request.user\<close>\<close>
  "user_data e who u s =
     (case get_permissions s who u of
        Inl err \<Rightarrow> Inl err
      | Inr codes \<Rightarrow> Inr (PDict
          [(''id'', PStr (uuid_str (plat e) (u_id u))), (''email'', PStr (u_email u)), (''username'', PStr (u_username u)),
           (''first_name'', PStr (u_first_name u)), (''last_name'', PStr (u_last_name u)), (''display_name'', PStr (display_name u)),
           (''avatar'', if u_avatar u = [] then PNone else PStr (u_avatar u)), (''status'', PStr (status_text (u_status u))),
           (''is_email_verified'', PBool (is_email_verified u)), (''is_phone_verified'', PBool (is_phone_verified u)),
           (''date_joined'', date_value e (Some (u_date_joined u))), (''last_login'', date_value e (u_last_login u)),
           (''created_at'', date_value e (Some (u_created_at u))), (''updated_at'', date_value e (Some (u_updated_at u))),
           (''permissions'', PList (map code_value codes))]))"

definition user_answer :: "env \<Rightarrow> user option \<Rightarrow> user \<Rightarrow> pyval action" where
  "user_answer e who u = bind_op (reads (user_data e who u)) of_sum"

definition flag_answer :: "string \<Rightarrow> response" where
  \<comment> \<open>\<^verbatim>\<open>success_response({name: True})\<close>\<close>
  "flag_answer name = success_response (PDict [(name, PBool True)])"

definition message_answer :: "string \<Rightarrow> response" where
  "message_answer t = success_response (PDict [(''message'', PStr t)])"

section \<open>Views for everybody\<close>

definition register_view :: "env \<Rightarrow> forms \<Rightarrow> api_request \<Rightarrow> pyval \<Rightarrow> string \<Rightarrow> string \<Rightarrow> response action" where
  "register_view e fm q form salt raw =
     bind_op (setting_get ''site.registration_enabled'' (PBool True) False) (\<lambda>enabled.
     then_op (raise_if (\<not> truthy enabled) (api_error ''Registration is disabled.'' ''REGISTRATION_DISABLED'' 403))
     (bind_op (is_valid fm RegistrationSerializer form) (\<lambda>v.
      bind_op (bind_op (field_text ''email'' v) (validate_email e)) (\<lambda>email.
      bind_op (bind_op (field_text ''username'' v) validate_username) (\<lambda>username.
      bind_op (bind_op (field_text ''password'' v) (validate_form_password e)) (\<lambda>password.
      bind_op (register_user e email username password (field_or_empty ''first_name'' v) (field_or_empty ''last_name'' v)
        (Some (ar_request q)) salt raw) (\<lambda>user.
      bind_op (user_answer e (ar_user q) user) (\<lambda>answer.
      ret (success_response_with answer PNone 201 [])))))))))"

definition refresh_for_user :: "user \<Rightarrow> int \<Rightarrow> unit action" where
  \<comment> \<open>\<^verbatim>\<open>RefreshToken.for_user\<close>: the library records the token it issues; the lifetime is its setting\<close>
  "refresh_for_user user lifetime =
     bind_op fresh_id (\<lambda>i. bind_op now_op (\<lambda>now.
     modify (\<lambda>s. s\<lparr>outstanding := outstanding s @ [\<lparr>jt_id = i, jt_user = u_id user, jt_expires_at = now + lifetime\<rparr>]\<rparr>)))"

definition login_view ::
    "env \<Rightarrow> forms \<Rightarrow> api_request \<Rightarrow> pyval \<Rightarrow> string \<Rightarrow> string \<Rightarrow> string \<Rightarrow> string \<times> string \<Rightarrow> response action" where
  "login_view e fm q form fresh_key ident iv tokens =
     bind_op (is_valid fm LoginSerializer form) (\<lambda>v.
     bind_op (field_text ''identifier'' v) (\<lambda>identifier.
     bind_op (field_text ''password'' v) (\<lambda>password.
     bind_op (login e (ar_request q) identifier password (field_or_empty ''code'' v) (field_true ''remember_me'' v) fresh_key ident iv)
       (\<lambda>(user, session).
     then_op (refresh_for_user user (days 7))
     (bind_op (user_answer e (Some user) user) (\<lambda>answer.
      ret (success_response (PDict [(''user'', answer), (''access'', PStr (fst tokens)), (''refresh'', PStr (snd tokens)),
        (''session_id'', PStr (us_identifier session))]))))))))"

definition refresh_view :: "('attrs \<Rightarrow> pyval action) \<Rightarrow> (pyval \<Rightarrow> uuid) \<Rightarrow> 'attrs \<Rightarrow> response action" where
  \<comment> \<open>the library's view validates with the serializer of the class, whose own library part are the first two arguments,
     and answers with its data\<close>
  "refresh_view super_validate access_user attrs =
     bind_op (refresh_validate super_validate access_user attrs) (\<lambda>data. ret (success_response data))"

definition verify_email_view :: "env \<Rightarrow> forms \<Rightarrow> api_request \<Rightarrow> pyval \<Rightarrow> response action" where
  "verify_email_view e fm q form =
     bind_op (is_valid fm TokenSerializer form) (\<lambda>v.
     bind_op (field_text ''token'' v) (\<lambda>token.
     then_op (verify_email e token (Some (ar_request q))) (ret (flag_answer ''verified''))))"

definition resend_verification_view :: "env \<Rightarrow> forms \<Rightarrow> pyval \<Rightarrow> string \<Rightarrow> response action" where
  "resend_verification_view e fm form raw =
     bind_op (is_valid fm EmailSerializer form) (\<lambda>v.
     bind_op (field_text ''email'' v) (\<lambda>email.
     then_op (resend_verification e email raw) (ret (message_answer ''If eligible, a verification email will be sent.''))))"

definition password_reset_request_view :: "env \<Rightarrow> forms \<Rightarrow> pyval \<Rightarrow> string \<Rightarrow> response action" where
  "password_reset_request_view e fm form raw =
     bind_op (is_valid fm EmailSerializer form) (\<lambda>v.
     bind_op (field_text ''email'' v) (\<lambda>email.
     then_op (request_password_reset e email raw) (ret (message_answer ''If eligible, a password reset email will be sent.''))))"

definition password_reset_confirm_view :: "env \<Rightarrow> forms \<Rightarrow> api_request \<Rightarrow> pyval \<Rightarrow> string \<Rightarrow> response action" where
  "password_reset_confirm_view e fm q form salt =
     bind_op (is_valid fm PasswordResetConfirmSerializer form) (\<lambda>v.
     bind_op (bind_op (field_text ''new_password'' v) (validate_form_password e)) (\<lambda>password.
     bind_op (field_text ''token'' v) (\<lambda>token.
     then_op (reset_password e token password (Some (ar_request q)) salt) (ret (flag_answer ''password_reset'')))))"

definition confirm_email_change_view :: "env \<Rightarrow> forms \<Rightarrow> api_request \<Rightarrow> pyval \<Rightarrow> response action" where
  "confirm_email_change_view e fm q form =
     bind_op (is_valid fm TokenSerializer form) (\<lambda>v.
     bind_op (field_text ''token'' v) (\<lambda>token.
     then_op (confirm_email_change e token (Some (ar_request q))) (ret (flag_answer ''email_changed''))))"

definition delete_account_confirm_view :: "env \<Rightarrow> forms \<Rightarrow> api_request \<Rightarrow> pyval \<Rightarrow> string \<Rightarrow> response action" where
  "delete_account_confirm_view e fm q form salt =
     bind_op (is_valid fm TokenSerializer form) (\<lambda>v.
     bind_op (field_text ''token'' v) (\<lambda>token.
     then_op (confirm_deletion e token (Some (ar_request q)) salt) (ret (flag_answer ''deleted''))))"

section \<open>Views for the signed-in user\<close>

text \<open>
  They run under the default permission classes and declare no scopes. The user is the request's, which the
  permission check has found to be there.
\<close>

definition account_view :: "api_request \<Rightarrow> (user \<Rightarrow> response action) \<Rightarrow> response action" where
  "account_view q view = guarded q (default_permissions q no_scopes)
     (case ar_user q of None \<Rightarrow> throw NotAuthenticated | Some user \<Rightarrow> view user)"

definition django_logout :: "api_request \<Rightarrow> unit action" where
  \<comment> \<open>Django's \<^verbatim>\<open>logout()\<close>: the session is flushed\<close>
  "django_logout q = bind_op (session_flush (ar_request q)) (\<lambda>_. ret ())"

definition update_session_auth_hash :: "api_request \<Rightarrow> string \<Rightarrow> unit action" where
  \<comment> \<open>Django's function of this name: \<^verbatim>\<open>cycle_key()\<close> keeps the session's data under a new key and drops the old row\<close>
  "update_session_auth_hash q cycled_key =
     modify (\<lambda>s.
       let old = (case rq_session_key (ar_request q) of None \<Rightarrow> None
                  | Some k \<Rightarrow> first_where (\<lambda>d. ds_session_key d = k) (django_sessions s));
           row = (case old of None \<Rightarrow> \<lparr>ds_session_key = cycled_key, ds_user = None, ds_expiry = None\<rparr>
                  | Some d \<Rightarrow> d\<lparr>ds_session_key := cycled_key\<rparr>)
       in s\<lparr>django_sessions := row # delete_where (\<lambda>d. Some (ds_session_key d) = rq_session_key (ar_request q)) (django_sessions s)\<rparr>)"

definition blacklist_refresh :: "outstanding_token \<Rightarrow> unit action" where
  "blacklist_refresh t = modify (\<lambda>s. if jt_id t \<in> set (blacklisted s) then s else s\<lparr>blacklisted := jt_id t # blacklisted s\<rparr>)"

definition logout_view :: "env \<Rightarrow> forms \<Rightarrow> api_request \<Rightarrow> pyval \<Rightarrow> (string \<Rightarrow> outstanding_token option) \<Rightarrow> response action" where
  \<comment> \<open>\<open>token_of\<close> is the library's decoding of a refresh token, \<open>None\<close> where it raises \<^verbatim>\<open>TokenError\<close>\<close>
  "logout_view e fm q form token_of = account_view q (\<lambda>user.
     bind_op (is_valid fm LogoutSerializer form) (\<lambda>v.
     then_op (let raw_refresh = field_or_empty ''refresh'' v in
        if raw_refresh = [] then ret ()
        else case token_of raw_refresh of
            None \<Rightarrow> throw (api_error ''Invalid refresh token.'' ''INVALID_TOKEN'' 400)
          | Some t \<Rightarrow> blacklist_refresh t)
     (bind_op (current e (ar_request q)) (\<lambda>cur.
      then_op (case cur of None \<Rightarrow> ret () | Some session \<Rightarrow> revoke e session (Some (UserActor (u_id user))) (Some (ar_request q)))
      (then_op (django_logout q) (ret (flag_answer ''logged_out'')))))))"

definition change_password_view :: "env \<Rightarrow> forms \<Rightarrow> api_request \<Rightarrow> pyval \<Rightarrow> string \<Rightarrow> string \<Rightarrow> response action" where
  \<comment> \<open>the last two arguments are the salt of the new password and the key that the session is cycled to\<close>
  "change_password_view e fm q form salt cycled_key = account_view q (\<lambda>user.
     bind_op (is_valid fm ChangePasswordSerializer form) (\<lambda>v.
     bind_op (field_text ''old_password'' v) (\<lambda>old_password.
     bind_op (field_text ''new_password'' v) (\<lambda>new_password.
     then_op (change_password e (u_id user) old_password new_password (Some (ar_request q)) salt)
     (then_op (update_session_auth_hash q cycled_key)
     (ret (flag_answer ''password_changed'')))))))"

definition change_email_view :: "env \<Rightarrow> forms \<Rightarrow> api_request \<Rightarrow> pyval \<Rightarrow> string \<Rightarrow> response action" where
  "change_email_view e fm q form raw = account_view q (\<lambda>user.
     bind_op (is_valid fm ChangeEmailSerializer form) (\<lambda>v.
     bind_op (field_text ''password'' v) (\<lambda>password.
     bind_op (field_text ''new_email'' v) (\<lambda>new_email.
     then_op (request_email_change e user new_email password raw)
     (ret (message_answer ''A confirmation email will be sent to the new address.''))))))"

definition change_username_view :: "env \<Rightarrow> forms \<Rightarrow> api_request \<Rightarrow> pyval \<Rightarrow> response action" where
  "change_username_view e fm q form = account_view q (\<lambda>user.
     bind_op (is_valid fm ChangeUsernameSerializer form) (\<lambda>v.
     bind_op (bind_op (field_text ''username'' v) (validate_new_username user)) (\<lambda>username.
     bind_op (change_username e (u_id user) username (Some (ar_request q))) (\<lambda>changed.
     bind_op (user_answer e (Some user) changed) (\<lambda>answer. ret (success_response answer))))))"

definition deactivate_account_view :: "env \<Rightarrow> forms \<Rightarrow> api_request \<Rightarrow> pyval \<Rightarrow> response action" where
  "deactivate_account_view e fm q form = account_view q (\<lambda>user.
     bind_op (is_valid fm PasswordConfirmationSerializer form) (\<lambda>v.
     bind_op (field_text ''password'' v) (\<lambda>password.
     then_op (deactivate e (u_id user) password (Some (ar_request q)))
     (then_op (django_logout q) (ret (flag_answer ''deactivated''))))))"

definition delete_account_request_view :: "env \<Rightarrow> forms \<Rightarrow> api_request \<Rightarrow> pyval \<Rightarrow> string \<Rightarrow> response action" where
  "delete_account_request_view e fm q form raw = account_view q (\<lambda>user.
     bind_op (is_valid fm PasswordConfirmationSerializer form) (\<lambda>v.
     bind_op (field_text ''password'' v) (\<lambda>password.
     then_op (request_deletion e user password raw)
     (ret (message_answer ''A deletion confirmation email will be sent.'')))))"

definition two_factor_setup_view :: "env \<Rightarrow> forms \<Rightarrow> api_request \<Rightarrow> pyval \<Rightarrow> string \<Rightarrow> string \<Rightarrow> response action" where
  "two_factor_setup_view e fm q form secret iv = account_view q (\<lambda>user.
     then_op (raise_if (\<not> ENABLE_TWO_FACTOR (cfg e)) (api_error ''Two-factor authentication is disabled.'' ''FEATURE_DISABLED'' 404))
     (bind_op (is_valid fm TwoFactorSetupSerializer form) (\<lambda>v.
      bind_op (field_text ''password'' v) (\<lambda>password.
      bind_op (begin_setup e user password secret iv) (\<lambda>(shown, uri).
      ret (success_response (PDict [(''secret'', PStr shown), (''provisioning_uri'', PStr uri)])))))))"

definition two_factor_confirm_view :: "env \<Rightarrow> forms \<Rightarrow> api_request \<Rightarrow> pyval \<Rightarrow> (nat \<Rightarrow> string) \<Rightarrow> response action" where
  "two_factor_confirm_view e fm q form draw = account_view q (\<lambda>user.
     bind_op (is_valid fm TwoFactorCodeSerializer form) (\<lambda>v.
     bind_op (field_text ''code'' v) (\<lambda>code.
     bind_op (confirm_setup e user code (Some (ar_request q)) draw) (\<lambda>codes.
     ret (success_response (PDict [(''enabled'', PBool True), (''recovery_codes'', PList (map PStr codes))]))))))"

definition two_factor_disable_view :: "env \<Rightarrow> forms \<Rightarrow> api_request \<Rightarrow> pyval \<Rightarrow> response action" where
  "two_factor_disable_view e fm q form = account_view q (\<lambda>user.
     bind_op (is_valid fm TwoFactorDisableSerializer form) (\<lambda>v.
     bind_op (field_text ''password'' v) (\<lambda>password.
     bind_op (field_text ''code'' v) (\<lambda>code.
     then_op (disable e user password code (Some (ar_request q))) (ret (flag_answer ''disabled''))))))"

definition recovery_code_regenerate_view :: "env \<Rightarrow> forms \<Rightarrow> api_request \<Rightarrow> pyval \<Rightarrow> (nat \<Rightarrow> string) \<Rightarrow> response action" where
  "recovery_code_regenerate_view e fm q form draw = account_view q (\<lambda>user.
     bind_op (is_valid fm TwoFactorCodeSerializer form) (\<lambda>v.
     bind_op (field_text ''code'' v) (\<lambda>code.
     bind_op (regenerate_codes e user code (Some (ar_request q)) draw) (\<lambda>codes.
     ret (success_response (PDict [(''recovery_codes'', PList (map PStr codes))]))))))"

section \<open>What the views do\<close>

lemma account_view_granted:
  assumes "ar_user q = Some u" and "ar_key q = None"
  shows "account_view q view s = view u s"
proof -
  have "\<forall>p\<in>set (default_permissions q no_scopes). p s = Inr True"
    using assms by (simp add: default_permissions_def is_authenticated_def has_scope_def has_api_key_scope_def)
  then show ?thesis
    unfolding account_view_def using assms(1) by (cases rule: guarded_cases [of q "default_permissions q no_scopes" _ s]) auto
qed

lemma account_view_refused:
  assumes "ar_user q = None \<or> ar_key q \<noteq> None"
  shows "\<exists>err. account_view q view s = (Inl err, s) \<and> handled_by_framework err"
  using assms
  by (auto simp: account_view_def guarded_def default_permissions_def is_authenticated_def has_scope_def has_api_key_scope_def
      no_scopes_def permission_denied_def op_simps split: option.splits)

text \<open>A password change spares the session of the request, in the table of sessions and in the session store.\<close>

lemma change_password_run:
  assumes ready: "sign_out_ready e s" and st: "settings_table_ok (security_settings s)"
    and uok: "user_table_ok (users s)" and u: "u \<in> set (users s)"
    and old: "check_password (plat e) old (u_password u)" and new: "password_valid (plat e) new (Some u)"
  obtains t where "change_password e (u_id u) old new rq salt s = (Inr (), t)"
    and "users t = update_where (\<lambda>v. u_id v = u_id u) (with_password e new salt (clock s)) (users s)"
    and "user_sessions t = update_where (\<lambda>r. us_id r \<in> us_id ` set (sign_out_rows e (u_id u) rq True s))
           (session_mark_revoked (clock s)) (user_sessions s)"
    and "django_sessions t = delete_where (\<lambda>d. Some (ds_session_key d) \<in> session_key_of e ` set (sign_out_rows e (u_id u) rq True s))
           (django_sessions s)"
    and "signed_out (spared e rq True s) (u_id u) t"
proof -
  obtain n ss where sp: "store_password e u new salt s =
      (Inr (with_password e new salt (clock s) u), s\<lparr>users :=
         update_where (\<lambda>v. u_id v = u_id u) (with_password e new salt (clock s)) (users s),
         next_id := n, security_settings := ss\<rparr>)" (is "_ = (_, ?s1)")
    using store_password_run [OF st] by metis
  let ?a = "Some (UserActor (u_id u))"
  let ?s2 = "sign_out_state e (u_id u) ?a rq True ?s1"
  have ready1: "sign_out_ready e ?s1" using ready by (simp add: sign_out_ready_def)
  have spared1: "spared e rq True ?s1 = spared e rq True s" by (rule spared_frame) simp
  then have rows: "sign_out_rows e (u_id u) rq True ?s1 = sign_out_rows e (u_id u) rq True s"
    by (simp add: sign_out_rows_def)
  have g: "get_where ''User'' (\<lambda>v. u_id v = u_id u) (users s) = Inr u" using user_by_id.get_by_key [OF uok u] .
  obtain n' m s2 where so: "revoke_all e (u_id u) ?a rq True ?s1 = (Inr n', s2)" "revoke_all_jwt (u_id u) s2 = (Inr m, ?s2)"
    using sign_out_runs [OF ready1] .
  have out: "signed_out (spared e rq True s) (u_id u) ?s2"
    using sign_out.closed [OF ready1, of rq True "u_id u"] by (simp add: spared1)
  obtain ev al ob where run: "change_password e (u_id u) old new rq salt s =
      (Inr (), ?s2\<lparr>security_events := ev, audit_logs := al, outbox := ob\<rparr>)"
    by (simp add: change_password_def op_simps g old new validate_password_def sp so audit_user_def password_changed_mail_def)
  have tables: "user_sessions ?s2 = update_where (\<lambda>r. us_id r \<in> us_id ` set (sign_out_rows e (u_id u) rq True s))
      (session_mark_revoked (clock s)) (user_sessions s)"
    "django_sessions ?s2 = delete_where (\<lambda>d. Some (ds_session_key d) \<in> session_key_of e ` set (sign_out_rows e (u_id u) rq True s))
      (django_sessions s)"
    by (simp_all add: rows sign_out_state_def revoked_state_def Let_def)
  have "signed_out (spared e rq True s) (u_id u) (?s2\<lparr>security_events := ev, audit_logs := al, outbox := ob\<rparr>)"
    by (rule signed_out_frame [OF _ _ _ out]) simp_all
  from that [OF run _ _ _ this] tables show thesis by simp
qed

text \<open>Form data reduced to its two passwords.\<close>

definition password_form :: "forms \<Rightarrow> pyval \<Rightarrow> string \<Rightarrow> string \<Rightarrow> bool" where
  "password_form fm form old new \<longleftrightarrow> (\<exists>v. clean_fields fm ChangePasswordSerializer form = Inr v \<and>
     pair_get ''old_password'' v = Some (PStr old) \<and> pair_get ''new_password'' v = Some (PStr new))"

lemma change_password_view_run:
  assumes "ar_user q = Some u" and "ar_key q = None" and "password_form fm form old new"
  shows "change_password_view e fm q form salt cycled_key s =
    then_op (change_password e (u_id u) old new (Some (ar_request q)) salt)
      (then_op (update_session_auth_hash q cycled_key) (ret (flag_answer ''password_changed''))) s"
  using assms(3)
  by (auto simp: change_password_view_def account_view_granted [OF assms(1,2)] password_form_def is_valid_def field_text_def op_simps)

section \<open>Properties\<close>

text \<open>
  Property C31: no operation on an account can be reached with an API key or without signing in. The views that
  change the password, the address, the name or the second factor, that close the account or log out,
  answer a request without a user, or with an API key of any scopes, with an error of the client and leave
  the whole state as it was.
\<close>

theorem account_views_closed:
  assumes "ar_user q = None \<or> ar_key q \<noteq> None"
    and "view \<in> {logout_view e fm q form token_of, change_password_view e fm q form salt cycled_key,
      change_email_view e fm q form raw, change_username_view e fm q form, deactivate_account_view e fm q form,
      delete_account_request_view e fm q form raw, two_factor_setup_view e fm q form secret iv,
      two_factor_confirm_view e fm q form draw, two_factor_disable_view e fm q form,
      recovery_code_regenerate_view e fm q form draw}"
  shows "\<exists>err. view s = (Inl err, s) \<and> handled_by_framework err"
proof -
  from assms(2) obtain body where "view = account_view q body"
    by (auto simp: logout_view_def change_password_view_def change_email_view_def change_username_view_def
        deactivate_account_view_def delete_account_request_view_def two_factor_setup_view_def two_factor_confirm_view_def
        two_factor_disable_view_def recovery_code_regenerate_view_def)
  with account_view_refused [OF assms(1), of body s] show ?thesis by simp
qed

definition demo_form_forms :: "(string \<times> pyval) list \<Rightarrow> forms" where
  "demo_form_forms v = \<lparr>clean_fields = (\<lambda>_ _. Inr v)\<rparr>"

text \<open>The demonstration account, with a key or without a user.\<close>

definition demo_caller :: "user option \<Rightarrow> api_key option \<Rightarrow> api_request" where
  "demo_caller who key = \<lparr>ar_request = demo_request, ar_method = ''POST'', ar_path = ''/api/v1/auth/password/change/'', ar_body = [],
     ar_idempotency_key = None, ar_user = who, ar_key = key\<rparr>"

theorem account_views_closed_witness:
  "\<exists>err. change_password_view demo_env (demo_form_forms []) (demo_caller None None) PNone [] ''new'' demo_db = (Inl err, demo_db)"
proof -
  have "ar_user (demo_caller None None) = None \<or> ar_key (demo_caller None None) \<noteq> None" by (simp add: demo_caller_def)
  from account_views_closed [OF this, of "change_password_view demo_env (demo_form_forms []) (demo_caller None None) PNone [] ''new''"
      demo_env "demo_form_forms []" PNone "\<lambda>_. None" "[]" "''new''" "[]" "[]" "[]" "\<lambda>_. []" demo_db]
  show ?thesis by auto
qed

text \<open>
  A password that the validators refuse makes the password change end in an internal error. The
  serializer of the change does not run the validators, so Django's \<^verbatim>\<open>ValidationError\<close> leaves the service,
  REST framework has no answer for it, and a user who gave the right password and a weak new one
  is told that an unexpected error occurred (500) and nothing is changed; at a reset the same password is
  answered as a validation error (400).
\<close>

theorem weak_password_internal_error:
  assumes laws: "rest_framework_laws rf" and who: "ar_user q = Some u" "ar_key q = None"
    and form: "password_form fm form old new"
    and row: "user_table_ok (users s)" "u \<in> set (users s)"
    and right: "check_password (plat e) old (u_password u)"
    and weak: "\<not> password_valid (plat e) new (Some u)" "\<not> password_valid (plat e) new None"
    and reset: "clean_fields fm PasswordResetConfirmSerializer reset_form = Inr v" "pair_get ''new_password'' v = Some (PStr new)"
  shows "run_view rf rid (change_password_view e fm q form salt cycled_key) s =
      (\<lparr>rs_status = 500, rs_data = error_body ''INTERNAL_ERROR'' ''An unexpected error occurred.'' (PDict []) rid, rs_headers = []\<rparr>, s) \<and>
    rs_status (fst (run_view rf rid (password_reset_confirm_view e fm q reset_form salt) s)) = 400"
proof
  have g: "get_where ''User'' (\<lambda>v. u_id v = u_id u) (users s) = Inr u" using user_by_id.get_by_key [OF row] .
  have "change_password_view e fm q form salt cycled_key s = (Inl (ValidationError ''password''), s)"
    by (simp add: change_password_view_run [OF who form] change_password_def op_simps g right weak(1) validate_password_def)
  moreover have "\<not> handled_by_framework (ValidationError ''password'')" by simp
  ultimately show "run_view rf rid (change_password_view e fm q form salt cycled_key) s =
      (\<lparr>rs_status = 500, rs_data = error_body ''INTERNAL_ERROR'' ''An unexpected error occurred.'' (PDict []) rid, rs_headers = []\<rparr>, s)"
    using api_exception_handler_unknown [OF laws] by (simp add: run_view_def)
  have "password_reset_confirm_view e fm q reset_form salt s = (Inl (InvalidData (PStr ''password'')), s)"
    by (simp add: password_reset_confirm_view_def is_valid_def reset field_text_def op_simps validate_form_password_def weak(2))
  moreover obtain r where "exception_handler rf (InvalidData (PStr ''password'')) = Some r" "rs_status r = 400"
    using laws by (fastforce simp: rest_framework_laws_def)
  ultimately show "rs_status (fst (run_view rf rid (password_reset_confirm_view e fm q reset_form salt) s)) = 400"
    by (simp add: run_view_def api_exception_handler_def split: prod.splits)
qed

definition demo_passwords :: "(string \<times> pyval) list" where
  "demo_passwords = [(''old_password'', PStr ''secret-password''), (''new_password'', PStr ''short'')]"

theorem weak_password_internal_error_witness:
  "rs_status (fst (run_view demo_framework None (change_password_view demo_env (demo_form_forms demo_passwords)
      (demo_caller (Some demo_user) None) PNone [] ''new'') demo_db)) = 500"
proof -
  let ?fm = "demo_form_forms demo_passwords" and ?q = "demo_caller (Some demo_user) None"
  have who: "ar_user ?q = Some demo_user" "ar_key ?q = None" by (simp_all add: demo_caller_def)
  have form: "password_form ?fm PNone ''secret-password'' ''short''"
    by (simp add: password_form_def demo_form_forms_def demo_passwords_def pair_get_def)
  have row: "user_table_ok (users demo_db)" "demo_user \<in> set (users demo_db)" by (simp_all add: demo_db_def user_table_ok_def)
  have right: "check_password (plat demo_env) ''secret-password'' (u_password demo_user)"
    by (simp add: demo_env_def demo_platform_def demo_user_def)
  have weak: "\<not> password_valid (plat demo_env) ''short'' x" for x by (simp add: demo_env_def demo_platform_def)
  have reset: "clean_fields ?fm PasswordResetConfirmSerializer PNone = Inr demo_passwords"
    "pair_get ''new_password'' demo_passwords = Some (PStr ''short'')"
    by (simp_all add: demo_form_forms_def demo_passwords_def pair_get_def)
  from weak_password_internal_error [OF demo_framework_laws who form row right weak weak reset, of None "[]" "''new''"]
  show ?thesis by simp
qed

text \<open>
  Property C32: a password change cuts the session of the request off from the list of sessions. The view keeps
  the user signed in under a new session key, but the row of \<^verbatim>\<open>UserSession\<close> still names the old one. From
  then on the session is no one's current session, so that the middleware never ends it, its row stays in the
  list as a live session with no session behind it, and signing the user out everywhere leaves it open.
\<close>

theorem password_change_unlinks_session:
  assumes ready: "sign_out_ready e s" "settings_table_ok (security_settings s)" "user_table_ok (users s)" "u \<in> set (users s)"
    and who: "ar_user q = Some u" "ar_key q = None"
    and form: "password_form fm form old new"
    and right: "check_password (plat e) old (u_password u)" and strong: "password_valid (plat e) new (Some u)"
    and key: "current_key (ar_request q) = Some k"
    and session: "d \<in> set (django_sessions s)" "ds_session_key d = k" "distinct (map ds_session_key (django_sessions s))"
    and row: "c \<in> set (user_sessions s)" "us_session_key_hash c = session_hash e k"
      "us_user c = u_id u" "us_revoked_at c = None"
    and mine: "\<forall>r\<in>set (user_sessions s). us_id r \<noteq> us_id c \<longrightarrow> session_key_of e r \<noteq> Some k"
    and fresh: "\<forall>r\<in>set (user_sessions s). session_key_of e r \<noteq> Some nk \<and> us_session_key_hash r \<noteq> session_hash e nk"
  shows "\<exists>t. change_password_view e fm q form salt nk s = (Inr (flag_answer ''password_changed''), t) \<and>
     d\<lparr>ds_session_key := nk\<rparr> \<in> set (django_sessions t) \<and> k \<notin> ds_session_key ` set (django_sessions t) \<and>
     c \<in> set (user_sessions t) \<and> (\<forall>rq. rq_session_key rq = Some nk \<longrightarrow> current e rq t = (Inr None, t)) \<and>
     (\<exists>n t'. revoke_all e (u_id u) actor None False t = (Inr n, t') \<and> d\<lparr>ds_session_key := nk\<rparr> \<in> set (django_sessions t'))"
proof -
  let ?rq = "ar_request q" and ?d = "d\<lparr>ds_session_key := nk\<rparr>"
  let ?rows = "sign_out_rows e (u_id u) (Some ?rq) True s"
  have ok: "session_table_ok (user_sessions s)" using ready(1) by (simp add: sign_out_ready_def)
  have k: "rq_session_key ?rq = Some k" using key by (auto simp: current_key_def split: option.splits list.splits)
  obtain t1 where run: "change_password e (u_id u) old new (Some ?rq) salt s = (Inr (), t1)"
    and us: "user_sessions t1 = update_where (\<lambda>r. us_id r \<in> us_id ` set ?rows) (session_mark_revoked (clock s)) (user_sessions s)"
    and ds: "django_sessions t1 = delete_where (\<lambda>d. Some (ds_session_key d) \<in> session_key_of e ` set ?rows) (django_sessions s)"
    by (rule change_password_run [OF ready right strong])
  have cur: "fst (current e ?rq s) = Inr (Some c)"
    using session_by_hash.first_by_key [OF ok row(1)] key row(2) by (simp add: op_simps)
  have spared: "r \<noteq> c" "us_id r \<noteq> us_id c" if "r \<in> set ?rows" for r
    using that cur by (auto simp: sign_out_rows_def spared_def)
  then have c: "c \<in> set (user_sessions t1)" unfolding us using row(1) spared(2) by (intro update_where_same) fastforce+
  have d: "d \<in> set (django_sessions t1)"
    using session(1,2) mine spared unfolding ds by (fastforce simp: sign_out_rows_def)
  have unique: "distinct (map ds_session_key (django_sessions t1))" unfolding ds by (rule delete_where_distinct [OF session(3)])
  have first: "first_where (\<lambda>x. ds_session_key x = k) (django_sessions t1) = Some d"
    using unique session(2) d by (intro first_where_unique [OF d]) (auto simp: distinct_map inj_on_def)
  let ?t = "t1\<lparr>django_sessions := ?d # delete_where (\<lambda>x. ds_session_key x = k) (django_sessions t1)\<rparr>"
  have "nk \<noteq> k" using fresh row(1,2) by auto
  then have gone: "k \<notin> ds_session_key ` set (django_sessions ?t)" by auto
  have view: "change_password_view e fm q form salt nk s = (Inr (flag_answer ''password_changed''), ?t)"
    by (simp add: change_password_view_run [OF who form] op_simps run update_session_auth_hash_def k first Let_def)
  have stale: "\<forall>r\<in>set (user_sessions ?t). session_key_of e r \<noteq> Some nk \<and> us_session_key_hash r \<noteq> session_hash e nk"
    using fresh by (auto simp: us session_key_of_def elim!: update_whereE)
  have ok1: "session_table_ok (user_sessions ?t)" using ok by (simp add: us session_table_ok_mark)
  have none: "current e rq ?t = (Inr None, ?t)" if "rq_session_key rq = Some nk" for rq
    using that stale by (auto simp: op_simps current_key_def split: list.splits)
  have conf: "encryption_configured e" using ready(1) by (simp add: sign_out_ready_def)
  have keeps: "\<exists>n t'. revoke_all e (u_id u) actor None False ?t = (Inr n, t') \<and> ?d \<in> set (django_sessions t')"
    using stale revoke_all_run [OF conf ok1, of "u_id u" actor None False]
    by (fastforce simp: Let_def revoked_state_def)
  show ?thesis
    by (rule exI [of _ ?t]) (use view c none keeps gone in auto)
qed

definition demo_signed_in :: db where
  "demo_signed_in = demo_sessions\<lparr>users := [demo_user]\<rparr>"

definition demo_strong :: "(string \<times> pyval) list" where
  "demo_strong = [(''old_password'', PStr ''secret-password''), (''new_password'', PStr ''another-password'')]"

theorem password_change_unlinks_session_witness:
  "\<exists>t n t'. change_password_view demo_env (demo_form_forms demo_strong)
       (demo_caller (Some demo_user) None\<lparr>ar_request := Sessions.demo_request\<rparr>) PNone [] ''k9'' demo_signed_in =
         (Inr (flag_answer ''password_changed''), t) \<and>
     revoke_all demo_env 7 None None False t = (Inr n, t') \<and> ''k9'' \<in> ds_session_key ` set (django_sessions t')"
proof -
  let ?q = "demo_caller (Some demo_user) None\<lparr>ar_request := Sessions.demo_request\<rparr>" and ?fm = "demo_form_forms demo_strong"
  let ?d = "\<lparr>ds_session_key = ''k1'', ds_user = Some 7, ds_expiry = None\<rparr>"
  let ?c = "hd (user_sessions demo_signed_in)"
  have id: "u_id demo_user = 7" by (simp add: demo_user_def)
  have "sign_out_ready demo_env demo_signed_in" "settings_table_ok (security_settings demo_signed_in)"
    "user_table_ok (users demo_signed_in)" "demo_user \<in> set (users demo_signed_in)" by code_simp+
  note ready = this
  have who: "ar_user ?q = Some demo_user" "ar_key ?q = None" by (simp_all add: demo_caller_def)
  have form: "password_form ?fm PNone ''secret-password'' ''another-password''"
    by (simp add: password_form_def demo_form_forms_def demo_strong_def pair_get_def)
  have right: "check_password (plat demo_env) ''secret-password'' (u_password demo_user)"
    and strong: "password_valid (plat demo_env) ''another-password'' (Some demo_user)" by code_simp+
  have key: "current_key (ar_request ?q) = Some ''k1''" by (simp add: current_key_def Sessions.demo_request_def)
  have session: "?d \<in> set (django_sessions demo_signed_in)" "ds_session_key ?d = ''k1''"
    "distinct (map ds_session_key (django_sessions demo_signed_in))" by code_simp+
  have row: "?c \<in> set (user_sessions demo_signed_in)" "us_session_key_hash ?c = session_hash demo_env ''k1''"
    "us_user ?c = u_id demo_user" "us_revoked_at ?c = None" by code_simp+
  have mine: "\<forall>r\<in>set (user_sessions demo_signed_in). us_id r \<noteq> us_id ?c \<longrightarrow> session_key_of demo_env r \<noteq> Some ''k1''"
    by code_simp
  have fresh: "\<forall>r\<in>set (user_sessions demo_signed_in).
      session_key_of demo_env r \<noteq> Some ''k9'' \<and> us_session_key_hash r \<noteq> session_hash demo_env ''k9''" by code_simp
  from password_change_unlinks_session [OF ready who form right strong key session row mine fresh, of "[]" None] id
  show ?thesis by force
qed

end
