(* ===== verification/Json.thy ===== *)
theory Json
  imports Environment
begin

text \<open>
  The text that \<^verbatim>\<open>json.dumps\<close> makes of a Python value, with the compact separators and sorted keys of the
  webhook signature. A value that JSON has no form for raises \<^verbatim>\<open>TypeError\<close>, which is the part that the
  idempotency decorator relies on.
\<close>

section \<open>JSON text\<close>

fun str_nat :: "nat \<Rightarrow> string" where
  \<comment> \<open>\<^verbatim>\<open>str(n)\<close>\<close>
  "str_nat n = (if n < 10 then [''0123456789'' ! n] else str_nat (n div 10) @ [''0123456789'' ! (n mod 10)])"

declare str_nat.simps [simp del]

definition str_int :: "int \<Rightarrow> string" where
  "str_int i = (if i < 0 then ''-'' @ str_nat (nat (- i)) else str_nat (nat i))"

definition json_char :: "char \<Rightarrow> string" where
  "json_char c =
     (let n = char_code c in
      if n = 34 then [CHR 0x5C, CHR 0x22] else if n = 92 then [CHR 0x5C, CHR 0x5C]
      else if n = 10 then CHR 0x5C # ''n'' else if n = 13 then CHR 0x5C # ''r'' else if n = 9 then CHR 0x5C # ''t''
      else if n = 8 then CHR 0x5C # ''b'' else if n = 12 then CHR 0x5C # ''f''
      else if n < 32 \<or> 126 < n then CHR 0x5C # ''u'' @ hex_digits 4 n else [c])"

definition json_string :: "string \<Rightarrow> string" where
  "json_string t = [CHR 0x22] @ concat (map json_char t) @ [CHR 0x22]"

fun join_with :: "string \<Rightarrow> string list \<Rightarrow> string" where
  "join_with sep [] = []"
| "join_with sep [t] = t"
| "join_with sep (t # u # r) = t @ sep @ join_with sep (u # r)"

fun json_dumps :: "pyval \<Rightarrow> error + string" and json_dumps_list :: "pyval list \<Rightarrow> error + string list"
  and json_dumps_dict :: "(string \<times> pyval) list \<Rightarrow> error + (string \<times> string) list" where
  \<comment> \<open>\<^verbatim>\<open>json.dumps(v, separators=(",", ":"), sort_keys=True)\<close>\<close>
  "json_dumps PNone = Inr ''null''"
| "json_dumps (PBool b) = Inr (if b then ''true'' else ''false'')"
| "json_dumps (PInt i) = Inr (str_int i)"
| "json_dumps (PFloat f) = Inr f"
| "json_dumps (PStr t) = Inr (json_string t)"
| "json_dumps (PList vs) = (case json_dumps_list vs of Inl e \<Rightarrow> Inl e | Inr ts \<Rightarrow> Inr (''['' @ join_with '','' ts @ '']''))"
| "json_dumps (PTuple vs) = (case json_dumps_list vs of Inl e \<Rightarrow> Inl e | Inr ts \<Rightarrow> Inr (''['' @ join_with '','' ts @ '']''))"
| "json_dumps (PDict kvs) =
     (case json_dumps_dict kvs of Inl e \<Rightarrow> Inl e
      | Inr ps \<Rightarrow> Inr (CHR 0x7B # join_with '','' (map (\<lambda>(k, t). json_string k @ '':'' @ t) (sort_key fst ps)) @ [CHR 0x7D]))"
| "json_dumps (PDatetime d) = Inl (TypeError ''not JSON serializable'')"
| "json_dumps (PUUID u) = Inl (TypeError ''not JSON serializable'')"
| "json_dumps (PDecimal t) = Inl (TypeError ''not JSON serializable'')"
| "json_dumps (PObject t) = Inl (TypeError ''not JSON serializable'')"
| "json_dumps_list [] = Inr []"
| "json_dumps_list (v # vs) =
     (case json_dumps v of Inl e \<Rightarrow> Inl e
      | Inr t \<Rightarrow> (case json_dumps_list vs of Inl e \<Rightarrow> Inl e | Inr ts \<Rightarrow> Inr (t # ts)))"
| "json_dumps_dict [] = Inr []"
| "json_dumps_dict ((k, v) # kvs) =
     (case json_dumps v of Inl e \<Rightarrow> Inl e
      | Inr t \<Rightarrow> (case json_dumps_dict kvs of Inl e \<Rightarrow> Inl e | Inr ps \<Rightarrow> Inr ((k, t) # ps)))"

definition json_serializable :: "pyval \<Rightarrow> bool" where
  "json_serializable v \<longleftrightarrow> (case json_dumps v of Inl err \<Rightarrow> False | Inr t \<Rightarrow> True)"

end
