(* ===== verification/Idempotency.thy ===== *)
theory Idempotency
  imports Access Json
begin

text \<open>
  \<^verbatim>\<open>common/idempotency.py\<close>: the decorator that makes a state-changing view answer a repeated request from
  the stored response. The decorated method is an argument; everything runs in one transaction, so that a
  method that raises leaves no record behind.
\<close>

definition in_progress :: error where
  "in_progress = api_error ''A request with this Idempotency-Key is in progress.'' ''CONFLICT'' 409"

definition idempotency_key_hash :: "env \<Rightarrow> string \<Rightarrow> string" where
  "idempotency_key_hash e raw = keyed_hash e ''idempotency'' raw"

definition idempotency_request_hash :: "env \<Rightarrow> api_request \<Rightarrow> string" where
  "idempotency_request_hash e q = sha256_hex (plat e) (ar_method q @ ar_path q @ ar_body q)"

definition idempotency_find :: "db \<Rightarrow> uuid \<Rightarrow> string \<Rightarrow> idempotency_record option" where
  "idempotency_find s user key_hash =
     first_where (\<lambda>r. ir_user r = user \<and> ir_key_hash r = key_hash) (idempotency_records s)"

definition idempotency_create :: "idempotency_record \<Rightarrow> unit action" where
  \<comment> \<open>\<^verbatim>\<open>objects.create\<close> under the constraint \<^verbatim>\<open>core_idempotency_user_key_unique\<close>\<close>
  "idempotency_create row =
     bind_op (reads (\<lambda>s. idempotency_find s (ir_user row) (ir_key_hash row) \<noteq> None)) (\<lambda>dup.
     then_op (raise_if dup (IntegrityError ''core_idempotency_user_key_unique''))
     (modify (\<lambda>s. s\<lparr>idempotency_records := idempotency_records s @ [row]\<rparr>)))"

definition replayed :: "idempotency_record \<Rightarrow> response" where
  "replayed row =
     \<lparr>rs_status = (case ir_response_status row of None \<Rightarrow> 0 | Some n \<Rightarrow> n),
      rs_data = (case ir_response_body row of None \<Rightarrow> PNone | Some v \<Rightarrow> v),
      rs_headers = [(''Idempotent-Replayed'', ''true'')]\<rparr>"

definition record_response :: "uuid \<Rightarrow> response \<Rightarrow> unit action" where
  "record_response i r = modify (\<lambda>s. s\<lparr>idempotency_records := update_where (\<lambda>x. ir_id x = i)
     (\<lambda>x. x\<lparr>ir_response_status := Some (rs_status r), ir_response_body := Some (rs_data r)\<rparr>) (idempotency_records s)\<rparr>)"

definition run_once :: "env \<Rightarrow> int \<Rightarrow> api_request \<Rightarrow> user \<Rightarrow> string \<Rightarrow> response action \<Rightarrow> response action" where
  \<comment> \<open>the body of the transaction\<close>
  "run_once e ttl q user raw_key view =
     (let key_hash = idempotency_key_hash e raw_key; request_hash = idempotency_request_hash e q in
      bind_op (reads (\<lambda>s. idempotency_find s (u_id user) key_hash)) (\<lambda>found.
      case found of
        Some record \<Rightarrow>
          then_op (raise_if (ir_request_hash record \<noteq> request_hash)
             (api_error ''This Idempotency-Key was used for a different request.'' ''CONFLICT'' 409))
          (then_op (raise_if (ir_response_status record = None) in_progress)
          (ret (replayed record)))
      | None \<Rightarrow>
          bind_op fresh_id (\<lambda>i. bind_op now_op (\<lambda>now.
          then_op (catch_op (idempotency_create
             \<lparr>ir_id = i, ir_user = u_id user, ir_key_hash = key_hash, ir_request_method = ar_method q,
              ir_request_path = ar_path q, ir_request_hash = request_hash, ir_response_status = None,
              ir_response_body = None, ir_created_at = now, ir_expires_at = now + ttl\<rparr>)
             (\<lambda>err. case err of IntegrityError _ \<Rightarrow> throw in_progress | _ \<Rightarrow> throw err))
          (bind_op view (\<lambda>response.
           then_op (raise_if (\<not> json_serializable (rs_data response))
              (RuntimeError ''Idempotent responses must be JSON serializable''))
           (then_op (record_response i response) (ret response))))))))"

definition idempotent :: "env \<Rightarrow> int \<Rightarrow> api_request \<Rightarrow> response action \<Rightarrow> response action" where
  "idempotent e ttl q view =
     (let raw_key = text_or_empty (ar_idempotency_key q) in
      if raw_key = [] then view
      else case ar_user q of
        None \<Rightarrow> throw (api_error ''Authentication is required for idempotency.'' ''AUTHENTICATION_REQUIRED'' 401)
      | Some user \<Rightarrow>
          if length raw_key > 255 then throw (api_error ''Invalid Idempotency-Key.'' ''VALIDATION_ERROR'' 400)
          else atomic (run_once e ttl q user raw_key view))"

definition default_ttl :: int where
  "default_ttl = hours 24"

section \<open>What a run leaves behind\<close>

definition records_ok :: "db \<Rightarrow> bool" where
  \<comment> \<open>keys are unique and their numbers were drawn from the supply\<close>
  "records_ok s \<longleftrightarrow> distinct (map ir_id (idempotency_records s)) \<and> (\<forall>r\<in>set (idempotency_records s). ir_id r < next_id s)"

definition leaves_records :: "response action \<Rightarrow> bool" where
  \<comment> \<open>the decorated method does not touch the table, and draws its keys from the supply\<close>
  "leaves_records view \<longleftrightarrow> (\<forall>s r t. view s = (r, t) \<longrightarrow> idempotency_records t = idempotency_records s \<and> next_id s \<le> next_id t)"

definition keyed_request :: "api_request \<Rightarrow> user \<Rightarrow> string \<Rightarrow> bool" where
  "keyed_request q user raw \<longleftrightarrow> ar_idempotency_key q = Some raw \<and> raw \<noteq> [] \<and> length raw \<le> 255 \<and> ar_user q = Some user"

lemma idempotent_keyed:
  assumes "keyed_request q user raw"
  shows "idempotent e ttl q view s = atomic (run_once e ttl q user raw view) s"
  using assms by (simp add: idempotent_def keyed_request_def text_or_empty_def)

lemma run_once_first:
  assumes "idempotency_find s (u_id user) (idempotency_key_hash e raw) = None" and "leaves_records view" and "records_ok s"
    and "run_once e ttl q user raw view s = (Inr r, t)"
  obtains s1 s2 row where "view s1 = (Inr r, s2)" and "s1 = s\<lparr>next_id := Suc (next_id s), idempotency_records := idempotency_records s1\<rparr>"
    and "t = s2\<lparr>idempotency_records := idempotency_records s @ [row]\<rparr>"
    and "ir_user row = u_id user" and "ir_key_hash row = idempotency_key_hash e raw"
    and "ir_request_hash row = idempotency_request_hash e q" and "ir_response_status row = Some (rs_status r)"
    and "ir_response_body row = Some (rs_data r)" and "ir_expires_at row = clock s + ttl"
proof -
  let ?row = "\<lparr>ir_id = next_id s, ir_user = u_id user, ir_key_hash = idempotency_key_hash e raw, ir_request_method = ar_method q,
      ir_request_path = ar_path q, ir_request_hash = idempotency_request_hash e q, ir_response_status = None,
      ir_response_body = None, ir_created_at = clock s, ir_expires_at = clock s + ttl\<rparr>"
  let ?s1 = "s\<lparr>next_id := Suc (next_id s), idempotency_records := idempotency_records s @ [?row]\<rparr>"
  have "idempotency_find (s\<lparr>next_id := Suc (next_id s)\<rparr>) (u_id user) (idempotency_key_hash e raw) = None"
    using assms(1) by (simp add: idempotency_find_def)
  then obtain s2 where v: "view ?s1 = (Inr r, s2)" and t: "t = s2\<lparr>idempotency_records := update_where (\<lambda>x. ir_id x = next_id s)
      (\<lambda>x. x\<lparr>ir_response_status := Some (rs_status r), ir_response_body := Some (rs_data r)\<rparr>) (idempotency_records s2)\<rparr>"
    using assms(1,4)
    by (auto simp: run_once_def Let_def op_simps idempotency_create_def record_response_def split: prod.splits sum.splits if_splits)
  have "idempotency_records s2 = idempotency_records s @ [?row]" using assms(2) v unfolding leaves_records_def by fastforce
  moreover have "update_where (\<lambda>x. ir_id x = next_id s) f (idempotency_records s) = idempotency_records s" for f
    using assms(3) unfolding update_where_def records_ok_def by (intro map_idI) auto
  ultimately have t': "t = s2\<lparr>idempotency_records := idempotency_records s @
      [?row\<lparr>ir_response_status := Some (rs_status r), ir_response_body := Some (rs_data r)\<rparr>]\<rparr>"
    using t by (simp add: update_where_def)
  show thesis by (rule that [OF v _ t']) simp_all
qed

lemma first_where_append: "\<forall>r\<in>set t. \<not> P r \<Longrightarrow> first_where P (t @ u) = first_where P u"
  by (induction t) (simp_all add: first_where_def)

lemma find_appended:
  assumes "idempotency_find s u h = None" and "ir_user row = u" and "ir_key_hash row = h"
  shows "first_where (\<lambda>r. ir_user r = u \<and> ir_key_hash r = h) (idempotency_records s @ [row]) = Some row"
proof -
  have "\<forall>r\<in>set (idempotency_records s). \<not> (ir_user r = u \<and> ir_key_hash r = h)" using assms(1) by (simp add: idempotency_find_def)
  from first_where_append [OF this] show ?thesis using assms(2,3) by (simp add: first_where_def)
qed

section \<open>Properties\<close>

text \<open>
  Property C23: a repeated request is executed once. When a keyed request has succeeded, the same request
  under the same key, at any later time and whatever else has happened to the other tables, is answered
  with the stored status and data, marked as replayed, and changes nothing; another request under that
  key is refused as a conflict and changes nothing either. Nothing in this depends on the record's expiry:
  a key is never free again.
\<close>

theorem idempotent_replay:
  assumes "keyed_request q user raw" and "leaves_records view" and "records_ok s"
    and "idempotency_find s (u_id user) (idempotency_key_hash e raw) = None" and "idempotent e ttl q view s = (Inr r, t)"
    and "idempotency_records t' = idempotency_records t" and "keyed_request q' user raw"
  shows "idempotent e ttl q' view' t' =
     (if idempotency_request_hash e q' = idempotency_request_hash e q
      then (Inr \<lparr>rs_status = rs_status r, rs_data = rs_data r, rs_headers = [(''Idempotent-Replayed'', ''true'')]\<rparr>, t')
      else (Inl (api_error ''This Idempotency-Key was used for a different request.'' ''CONFLICT'' 409), t'))"
proof -
  have "run_once e ttl q user raw view s = (Inr r, t)" using assms(5) idempotent_keyed [OF assms(1)] by (simp add: atomic_Inr_iff)
  from run_once_first [OF assms(4,2,3) this] obtain s2 row where row: "t = s2\<lparr>idempotency_records := idempotency_records s @ [row]\<rparr>"
    "ir_user row = u_id user" "ir_key_hash row = idempotency_key_hash e raw" "ir_request_hash row = idempotency_request_hash e q"
    "ir_response_status row = Some (rs_status r)" "ir_response_body row = Some (rs_data r)" by metis
  have "idempotency_find t' (u_id user) (idempotency_key_hash e raw) = Some row"
    using find_appended [OF assms(4) row(2,3)] assms(6) row(1) by (simp add: idempotency_find_def)
  then show ?thesis using row(4-6)
    by (simp add: idempotent_keyed [OF assms(7)] run_once_def Let_def op_simps replayed_def)
qed

definition demo_call :: api_request where
  "demo_call = \<lparr>ar_request = demo_request, ar_method = ''POST'', ar_path = ''/k'', ar_body = ''{}'',
     ar_idempotency_key = Some ''once'', ar_user = Some demo_user, ar_key = None\<rparr>"

definition demo_view :: "response action" where
  \<comment> \<open>a method with a visible effect\<close>
  "demo_view = then_op (modify (\<lambda>s. s\<lparr>queued := (''ran'', []) # queued s\<rparr>)) (ret (success_response_with PNone PNone 201 []))"

lemma demo_call_keyed: "keyed_request demo_call demo_user ''once''"
  by (simp add: keyed_request_def demo_call_def)

lemma demo_call_runs: "\<exists>r t. idempotent demo_env default_ttl demo_call demo_view demo_db = (Inr r, t) \<and> rs_status r = 201 \<and> queued t = [(''ran'', [])]"
proof -
  have "json_serializable (rs_data (success_response_with PNone PNone 201 []))" by code_simp
  then show ?thesis unfolding idempotent_keyed [OF demo_call_keyed]
    by (simp add: run_once_def Let_def op_simps idempotency_find_def first_where_def idempotency_create_def demo_view_def record_response_def
        demo_db_def empty_db_def success_response_with_def)
qed

theorem idempotent_replay_witness:
  "\<exists>r t. idempotent demo_env default_ttl demo_call demo_view demo_db = (Inr r, t) \<and> queued t = [(''ran'', [])] \<and>
     snd (idempotent demo_env default_ttl demo_call demo_view (t\<lparr>clock := days 400\<rparr>)) = t\<lparr>clock := days 400\<rparr>"
proof -
  obtain r t where r: "idempotent demo_env default_ttl demo_call demo_view demo_db = (Inr r, t)" "queued t = [(''ran'', [])]"
    using demo_call_runs by blast
  have "leaves_records demo_view" by (auto simp: leaves_records_def demo_view_def op_simps)
  moreover have "records_ok demo_db"
    and "idempotency_find demo_db (u_id demo_user) (idempotency_key_hash demo_env ''once'') = None"
    by (simp_all add: records_ok_def idempotency_find_def demo_db_def empty_db_def)
  ultimately have "idempotent demo_env default_ttl demo_call demo_view (t\<lparr>clock := days 400\<rparr>) =
     (Inr \<lparr>rs_status = rs_status r, rs_data = rs_data r, rs_headers = [(''Idempotent-Replayed'', ''true'')]\<rparr>, t\<lparr>clock := days 400\<rparr>)"
    using idempotent_replay [OF demo_call_keyed _ _ _ r(1) _ demo_call_keyed, of "t\<lparr>clock := days 400\<rparr>" demo_view] by simp
  with r show ?thesis by (intro exI [of _ r] exI [of _ t]) simp
qed

text \<open>
  A request that fails leaves no trace. When the decorated method raises, the transaction is
  rolled back together with the record, so that the key can be used again.
\<close>

theorem idempotent_failure_frees_key:
  assumes "keyed_request q user raw" and "idempotent e ttl q view s = (Inl err, t)"
  shows "t = s"
  using assms(2) unfolding idempotent_keyed [OF assms(1)] by (simp add: atomic_Inl_iff)

theorem idempotent_failure_frees_key_witness:
  "snd (idempotent demo_env default_ttl demo_call (then_op demo_view (throw NotFound)) demo_db) = demo_db"
proof -
  have "\<exists>err t. idempotent demo_env default_ttl demo_call (then_op demo_view (throw NotFound)) demo_db = (Inl err, t)"
    unfolding idempotent_keyed [OF demo_call_keyed]
    by (simp add: run_once_def Let_def op_simps idempotency_find_def first_where_def idempotency_create_def demo_view_def
        demo_db_def empty_db_def)
  then obtain err t where "idempotent demo_env default_ttl demo_call (then_op demo_view (throw NotFound)) demo_db = (Inl err, t)" by blast
  with idempotent_failure_frees_key [OF demo_call_keyed this] show ?thesis by simp
qed

end
