(* ===== verification/AccountApi.thy ===== *)
theory AccountApi
  imports AuthApi Idempotency
begin

text \<open>
  The views of an account about itself and of its administration: \<^verbatim>\<open>apps/api/views/accounts.py\<close>,
  \<^verbatim>\<open>sessions.py\<close> and \<^verbatim>\<open>api_keys.py\<close> with their serializers. The validated data of a serializer is a list
  of attributes: REST framework has checked the declared fields, the \<open>validate_\<close> methods are modelled. The
  generic listing (filter, order, page) is the library's; the query set it starts from is modelled.
\<close>

section \<open>Validation of the fields\<close>

fun validate_fields :: "('a \<Rightarrow> 'a action) \<Rightarrow> ('a \<Rightarrow> string) \<Rightarrow> 'a list \<Rightarrow> ('a list \<times> (string \<times> pyval) list) action" where
  \<comment> \<open>the library runs the \<open>validate_\<close> method of every field, in the order of the declaration, and collects the
     validation errors; any other exception escapes\<close>
  "validate_fields test name [] = ret ([], [])"
| "validate_fields test name (a # as) =
     bind_op (catch_op (bind_op (test a) (\<lambda>v. ret (Inl v)))
       (\<lambda>err. case err of InvalidData v \<Rightarrow> ret (Inr (name a, v)) | _ \<Rightarrow> throw err)) (\<lambda>this.
     bind_op (validate_fields test name as) (\<lambda>(vs, errs).
     ret (case this of Inl v \<Rightarrow> (v # vs, errs) | Inr err \<Rightarrow> (vs, err # errs))))"

definition to_internal_value :: "('a \<Rightarrow> 'a action) \<Rightarrow> ('a \<Rightarrow> string) \<Rightarrow> 'a list \<Rightarrow> 'a list action" where
  "to_internal_value test name attrs =
     bind_op (validate_fields test name attrs) (\<lambda>(validated, errs).
     then_op (raise_if (errs \<noteq> []) (InvalidData (PDict errs))) (ret validated))"

section \<open>CurrentUserView and CurrentUserProfileView\<close>

definition profile_read_scopes :: view_scopes where
  "profile_read_scopes = \<lparr>required_api_key_scopes = Some [''profile.read''], required_api_key_scopes_by_method = None\<rparr>"

definition profile_scopes :: view_scopes where
  "profile_scopes = \<lparr>required_api_key_scopes = None, required_api_key_scopes_by_method =
     Some [(''GET'', [''profile.read'']), (''PUT'', [''profile.write'']), (''PATCH'', [''profile.write''])]\<rparr>"

definition current_user_view :: "env \<Rightarrow> api_request \<Rightarrow> response action" where
  "current_user_view e q = guarded q (default_permissions q profile_read_scopes)
     (case ar_user q of
        None \<Rightarrow> throw NotAuthenticated
      | Some u \<Rightarrow> bind_op (user_answer e (Some u) u) (\<lambda>answer. ret (success_response answer)))"

definition profile_of :: "uuid \<Rightarrow> user_profile action" where
  \<comment> \<open>\<^verbatim>\<open>UserProfile.objects.get_or_create(user=...)\<close>\<close>
  "profile_of uid =
     bind_op (reads (\<lambda>s. get_where ''UserProfile'' (\<lambda>p. pf_user p = uid) (profiles s))) (\<lambda>found.
     case found of
       Inr p \<Rightarrow> ret p
     | Inl err \<Rightarrow>
         if err = DoesNotExist ''UserProfile''
         then bind_op fresh_id (\<lambda>i. bind_op now_op (\<lambda>now.
           let p = \<lparr>pf_id = i, pf_user = uid, pf_bio = [], pf_website = [], pf_location = [],
                    pf_created_at = now, pf_updated_at = now\<rparr> in
           then_op (modify (\<lambda>s. s\<lparr>profiles := p # profiles s\<rparr>)) (ret p)))
         else throw err)"

definition profile_data :: "env \<Rightarrow> user_profile \<Rightarrow> pyval" where
  "profile_data e p = PDict [(''id'', PStr (uuid_str (plat e) (pf_id p))), (''bio'', PStr (pf_bio p)), (''website'', PStr (pf_website p)),
     (''location'', PStr (pf_location p)), (''created_at'', PStr (isoformat (plat e) (pf_created_at p))),
     (''updated_at'', PStr (isoformat (plat e) (pf_updated_at p)))]"

datatype profile_attr = ProfileBio string | ProfileWebsite string | ProfileLocation string

fun set_profile_attr :: "profile_attr \<Rightarrow> user_profile \<Rightarrow> user_profile" where
  "set_profile_attr (ProfileBio t) p = p\<lparr>pf_bio := t\<rparr>"
| "set_profile_attr (ProfileWebsite t) p = p\<lparr>pf_website := t\<rparr>"
| "set_profile_attr (ProfileLocation t) p = p\<lparr>pf_location := t\<rparr>"

definition own_row :: "api_request \<Rightarrow> (uuid \<Rightarrow> response action) \<Rightarrow> response action" where
  \<comment> \<open>the guard of the two views, and \<^verbatim>\<open>request.user\<close>\<close>
  "own_row q view = guarded q (default_permissions q profile_scopes)
     (case ar_user q of None \<Rightarrow> throw NotAuthenticated | Some u \<Rightarrow> view (u_id u))"

definition profile_retrieve :: "env \<Rightarrow> api_request \<Rightarrow> response action" where
  "profile_retrieve e q = own_row q (\<lambda>uid. bind_op (profile_of uid) (\<lambda>p. ret (success_response (profile_data e p))))"

definition profile_update :: "env \<Rightarrow> api_request \<Rightarrow> profile_attr list \<Rightarrow> response action" where
  "profile_update e q attrs = own_row q (\<lambda>uid.
     bind_op (profile_of uid) (\<lambda>p. bind_op now_op (\<lambda>now.
     let row = (fold set_profile_attr attrs p)\<lparr>pf_updated_at := now\<rparr> in
     then_op (modify (\<lambda>s. s\<lparr>profiles := update_where (\<lambda>x. pf_id x = pf_id p) (\<lambda>_. row) (profiles s)\<rparr>))
     (ret (success_response (profile_data e row))))))"

section \<open>CurrentUserPreferencesView\<close>

fun key_components :: "string \<Rightarrow> string list" where
  \<comment> \<open>\<^verbatim>\<open>key.split("/")\<close>\<close>
  "key_components [] = [[]]"
| "key_components (c # t) = (if c = CHR ''/'' then [] # key_components t
     else case key_components t of p # ps \<Rightarrow> (c # p) # ps | [] \<Rightarrow> [[c]])"

definition zone_key_ok :: "string \<Rightarrow> bool" where
  \<comment> \<open>a normalised relative path: no empty component and no dots for a component\<close>
  "zone_key_ok key \<longleftrightarrow> key = ''.'' \<or> (\<forall>p\<in>set (key_components key). p \<notin> {[], ''.'', ''..''})"

definition zone_info :: "(string \<Rightarrow> bool) \<Rightarrow> string \<Rightarrow> error option" where
  \<comment> \<open>Python's \<^verbatim>\<open>ZoneInfo(key)\<close>: a key that is no normalised relative path is a \<^verbatim>\<open>ValueError\<close>, one that the
     database (the first argument) does not have a \<^verbatim>\<open>ZoneInfoNotFoundError\<close>, which is a \<^verbatim>\<open>KeyError\<close>\<close>
  "zone_info known key =
     (if \<not> zone_key_ok key then Some (ValueError ''ZoneInfo keys must be normalized relative paths'')
      else if known key then None else Some (KeyError key))"

definition validate_language :: "env \<Rightarrow> string \<Rightarrow> string action" where
  "validate_language e value =
     then_op (raise_if (value \<notin> set (LANGUAGES (cfg e))) (InvalidData (PStr ''Unsupported language.''))) (ret value)"

definition validate_timezone :: "(string \<Rightarrow> bool) \<Rightarrow> string \<Rightarrow> string action" where
  "validate_timezone known value =
     (case zone_info known value of
        None \<Rightarrow> ret value
      | Some (KeyError _) \<Rightarrow> throw (InvalidData (PStr ''Unknown timezone.''))
      | Some err \<Rightarrow> throw err)"

datatype preference_attr =
    PrefLanguage string
  | PrefTimezone string
  | PrefEmailNotifications bool
  | PrefSecurityEmails bool

fun set_preference_attr :: "preference_attr \<Rightarrow> user_preferences \<Rightarrow> user_preferences" where
  "set_preference_attr (PrefLanguage t) p = p\<lparr>pr_language := t\<rparr>"
| "set_preference_attr (PrefTimezone t) p = p\<lparr>pr_timezone := t\<rparr>"
| "set_preference_attr (PrefEmailNotifications b) p = p\<lparr>pr_email_notifications := b\<rparr>"
| "set_preference_attr (PrefSecurityEmails b) p = p\<lparr>pr_security_emails := b\<rparr>"

fun validate_preference :: "env \<Rightarrow> (string \<Rightarrow> bool) \<Rightarrow> preference_attr \<Rightarrow> preference_attr action" where
  "validate_preference e known (PrefLanguage t) = bind_op (validate_language e t) (\<lambda>v. ret (PrefLanguage v))"
| "validate_preference e known (PrefTimezone t) = bind_op (validate_timezone known t) (\<lambda>v. ret (PrefTimezone v))"
| "validate_preference e known other = ret other"

fun preference_name :: "preference_attr \<Rightarrow> string" where
  "preference_name (PrefLanguage t) = ''language''"
| "preference_name (PrefTimezone t) = ''timezone''"
| "preference_name (PrefEmailNotifications b) = ''email_notifications''"
| "preference_name (PrefSecurityEmails b) = ''security_emails''"

definition preferences_data :: "env \<Rightarrow> user_preferences \<Rightarrow> pyval" where
  "preferences_data e p = PDict [(''id'', PStr (uuid_str (plat e) (pr_id p))), (''language'', PStr (pr_language p)),
     (''timezone'', PStr (pr_timezone p)), (''email_notifications'', PBool (pr_email_notifications p)),
     (''security_emails'', PBool (pr_security_emails p)), (''created_at'', PStr (isoformat (plat e) (pr_created_at p))),
     (''updated_at'', PStr (isoformat (plat e) (pr_updated_at p)))]"

definition preferences_retrieve :: "env \<Rightarrow> api_request \<Rightarrow> response action" where
  "preferences_retrieve e q = own_row q (\<lambda>uid. bind_op (preferences_of uid) (\<lambda>p. ret (success_response (preferences_data e p))))"

definition preferences_update :: "env \<Rightarrow> (string \<Rightarrow> bool) \<Rightarrow> api_request \<Rightarrow> preference_attr list \<Rightarrow> response action" where
  "preferences_update e known q attrs = own_row q (\<lambda>uid.
     bind_op (preferences_of uid) (\<lambda>p.
     bind_op (to_internal_value (validate_preference e known) preference_name attrs) (\<lambda>validated.
     (bind_op now_op (\<lambda>now.
      let row = (fold set_preference_attr validated p)\<lparr>pr_updated_at := now\<rparr> in
      then_op (modify (\<lambda>s. s\<lparr>preferences := update_where (\<lambda>x. pr_id x = pr_id p) (\<lambda>_. row) (preferences s)\<rparr>))
      (ret (success_response (preferences_data e row))))))))"

section \<open>Security events\<close>

definition own_security_events :: "api_request \<Rightarrow> db \<Rightarrow> security_event list" where
  \<comment> \<open>the query set of \<^verbatim>\<open>SecurityEventListView\<close>\<close>
  "own_security_events q s =
     filter (\<lambda>ev. se_user ev \<noteq> None \<and> se_user ev = map_option u_id (ar_user q)) (security_events s)"

section \<open>UserAdminViewSet\<close>

datatype user_attr =
    UserEmail string
  | UserUsername string
  | UserFirstName string
  | UserLastName string
  | UserStatus account_status
  | UserEmailVerified "datetime option"
  | UserPhoneVerified "datetime option"
  | UserIsActive bool
  | UserIsStaff bool

fun set_user_attr :: "user_attr \<Rightarrow> user \<Rightarrow> user" where
  "set_user_attr (UserEmail t) u = u\<lparr>u_email := t\<rparr>"
| "set_user_attr (UserUsername t) u = u\<lparr>u_username := t\<rparr>"
| "set_user_attr (UserFirstName t) u = u\<lparr>u_first_name := t\<rparr>"
| "set_user_attr (UserLastName t) u = u\<lparr>u_last_name := t\<rparr>"
| "set_user_attr (UserStatus x) u = u\<lparr>u_status := x\<rparr>"
| "set_user_attr (UserEmailVerified x) u = u\<lparr>u_email_verified_at := x\<rparr>"
| "set_user_attr (UserPhoneVerified x) u = u\<lparr>u_phone_verified_at := x\<rparr>"
| "set_user_attr (UserIsActive b) u = u\<lparr>u_is_active := b\<rparr>"
| "set_user_attr (UserIsStaff b) u = u\<lparr>u_is_staff := b\<rparr>"

definition time_or_none :: "datetime option \<Rightarrow> pyval" where
  "time_or_none x = (case x of None \<Rightarrow> PNone | Some t \<Rightarrow> PDatetime t)"

fun user_attr_item :: "user_attr \<Rightarrow> string \<times> pyval" where
  \<comment> \<open>an item of \<^verbatim>\<open>validated_data\<close>\<close>
  "user_attr_item (UserEmail t) = (''email'', PStr t)"
| "user_attr_item (UserUsername t) = (''username'', PStr t)"
| "user_attr_item (UserFirstName t) = (''first_name'', PStr t)"
| "user_attr_item (UserLastName t) = (''last_name'', PStr t)"
| "user_attr_item (UserStatus x) = (''status'', PStr (status_text x))"
| "user_attr_item (UserEmailVerified x) = (''email_verified_at'', time_or_none x)"
| "user_attr_item (UserPhoneVerified x) = (''phone_verified_at'', time_or_none x)"
| "user_attr_item (UserIsActive b) = (''is_active'', PBool b)"
| "user_attr_item (UserIsStaff b) = (''is_staff'', PBool b)"

fun get_user_attr :: "user \<Rightarrow> user_attr \<Rightarrow> string \<times> pyval" where
  \<comment> \<open>the name of the attribute with its value in the row\<close>
  "get_user_attr u (UserEmail t) = user_attr_item (UserEmail (u_email u))"
| "get_user_attr u (UserUsername t) = user_attr_item (UserUsername (u_username u))"
| "get_user_attr u (UserFirstName t) = user_attr_item (UserFirstName (u_first_name u))"
| "get_user_attr u (UserLastName t) = user_attr_item (UserLastName (u_last_name u))"
| "get_user_attr u (UserStatus x) = user_attr_item (UserStatus (u_status u))"
| "get_user_attr u (UserEmailVerified x) = user_attr_item (UserEmailVerified (u_email_verified_at u))"
| "get_user_attr u (UserPhoneVerified x) = user_attr_item (UserPhoneVerified (u_phone_verified_at u))"
| "get_user_attr u (UserIsActive b) = user_attr_item (UserIsActive (u_is_active u))"
| "get_user_attr u (UserIsStaff b) = user_attr_item (UserIsStaff (u_is_staff u))"

definition validate_admin_email :: "env \<Rightarrow> user \<Rightarrow> string \<Rightarrow> string action" where
  "validate_admin_email e instance value =
     (let normalized = normalize_email_address e value in
      bind_op (reads (\<lambda>s. exists_where (\<lambda>u. iexact (u_email u) normalized \<and> u_id u \<noteq> u_id instance) (users s))) (\<lambda>taken.
      then_op (raise_if taken (InvalidData (PStr ''That email address is unavailable.''))) (ret normalized)))"

definition validate_admin_username :: "user \<Rightarrow> string \<Rightarrow> string action" where
  "validate_admin_username instance value =
     (let name = py_strip value in
      bind_op (reads (\<lambda>s. exists_where (\<lambda>u. iexact (u_username u) name \<and> u_id u \<noteq> u_id instance) (users s))) (\<lambda>taken.
      then_op (raise_if taken (InvalidData (PStr ''That username is unavailable.''))) (ret name)))"

definition validate_status :: "account_status \<Rightarrow> account_status action" where
  "validate_status value =
     then_op (raise_if (value \<in> {BANNED, DELETED})
       (InvalidData (PStr ''Use the dedicated ban or account-deletion lifecycle service.''))) (ret value)"

fun validate_user_attr :: "env \<Rightarrow> user \<Rightarrow> user_attr \<Rightarrow> user_attr action" where
  "validate_user_attr e u (UserEmail t) = bind_op (validate_admin_email e u t) (\<lambda>v. ret (UserEmail v))"
| "validate_user_attr e u (UserUsername t) = bind_op (validate_admin_username u t) (\<lambda>v. ret (UserUsername v))"
| "validate_user_attr e u (UserStatus x) = bind_op (validate_status x) (\<lambda>v. ret (UserStatus v))"
| "validate_user_attr e u other = ret other"

fun ends_sessions :: "user_attr \<Rightarrow> bool" where
  \<comment> \<open>the field is one of \<^verbatim>\<open>{"email", "status", "is_active"}\<close>\<close>
  "ends_sessions (UserEmail t) = True"
| "ends_sessions (UserStatus x) = True"
| "ends_sessions (UserIsActive b) = True"
| "ends_sessions _ = False"

definition user_required_permission :: "string \<Rightarrow> string" where
  "user_required_permission action =
     (case pair_get action [(''list'', ''users.view''), (''retrieve'', ''users.view''), (''create'', ''users.create''),
        (''update'', ''users.update''), (''partial_update'', ''users.update''), (''destroy'', ''users.delete'')] of
        None \<Rightarrow> ''users.view'' | Some code \<Rightarrow> code)"

definition user_admin_data :: "env \<Rightarrow> user \<Rightarrow> pyval" where
  \<comment> \<open>\<^verbatim>\<open>UserAdminSerializer(user).data\<close>\<close>
  "user_admin_data e u = PDict [(''id'', PStr (uuid_str (plat e) (u_id u))), (''email'', PStr (u_email u)), (''username'', PStr (u_username u)),
     (''first_name'', PStr (u_first_name u)), (''last_name'', PStr (u_last_name u)), (''status'', PStr (status_text (u_status u))),
     (''email_verified_at'', date_value e (u_email_verified_at u)), (''phone_verified_at'', date_value e (u_phone_verified_at u)),
     (''is_active'', PBool (u_is_active u)), (''is_staff'', PBool (u_is_staff u)), (''date_joined'', date_value e (Some (u_date_joined u))),
     (''last_login'', date_value e (u_last_login u)), (''last_login_ip'', text_or_none (u_last_login_ip u)),
     (''created_at'', date_value e (Some (u_created_at u))), (''updated_at'', date_value e (Some (u_updated_at u)))]"

definition user_admin_perform_update :: "env \<Rightarrow> api_request \<Rightarrow> user \<Rightarrow> user_attr list \<Rightarrow> user action" where
  "user_admin_perform_update e q instance validated = atomic
     (let before = map (get_user_attr instance) validated in
      bind_op (user_save_all e (fold set_user_attr validated instance)) (\<lambda>user.
      then_op (when_op (list_ex ends_sessions validated)
        (bind_op (revoke_all e (u_id user) (ar_actor q) (Some (ar_request q)) False) (\<lambda>_.
         bind_op (revoke_all_jwt (u_id user)) (\<lambda>_. ret ()))))
      (then_op (audit_record e ((audit_call ''user.updated'')
         \<lparr>aa_target := Some (user_target e user), aa_actor := ar_actor q, aa_request := Some (ar_request q),
          aa_before := before, aa_after := map user_attr_item validated\<rparr>))
      (ret user))))"

definition user_of :: "uuid \<Rightarrow> user action" where
  \<comment> \<open>\<^verbatim>\<open>get_object()\<close>: every account\<close>
  "user_of i = bind_op (reads (\<lambda>s. first_where (\<lambda>u. u_id u = i) (users s)))
     (\<lambda>found. case found of None \<Rightarrow> throw NotFound | Some u \<Rightarrow> ret u)"

definition user_admin_update :: "env \<Rightarrow> api_request \<Rightarrow> string \<Rightarrow> uuid \<Rightarrow> user_attr list \<Rightarrow> response action" where
  \<comment> \<open>the third argument is the action, \<^verbatim>\<open>update\<close> or \<^verbatim>\<open>partial_update\<close>\<close>
  "user_admin_update e q action i attrs = guarded q (admin_permissions q (user_required_permission action))
     (bind_op (user_of i) (\<lambda>instance.
      bind_op (to_internal_value (validate_user_attr e instance) (fst \<circ> user_attr_item) attrs) (\<lambda>validated.
      bind_op (user_admin_perform_update e q instance validated) (\<lambda>user.
      ret (plain_response 200 (user_admin_data e user))))))"

definition user_admin_create :: "api_request \<Rightarrow> response action" where
  "user_admin_create q = guarded q (admin_permissions q (user_required_permission ''create''))
     (throw (api_error ''Use the registration or administrative account service.'' ''METHOD_NOT_ALLOWED'' 405))"

definition user_admin_destroy :: "api_request \<Rightarrow> response action" where
  "user_admin_destroy q = guarded q (admin_permissions q (user_required_permission ''destroy''))
     (throw (api_error ''Use the account deletion service.'' ''METHOD_NOT_ALLOWED'' 405))"

section \<open>UserSessionViewSet\<close>

definition own_session :: "api_request \<Rightarrow> string \<Rightarrow> user_session action" where
  \<comment> \<open>\<^verbatim>\<open>get_object()\<close> in the sessions of the user, by identifier\<close>
  "own_session q identifier = bind_op (reads (\<lambda>s. first_where (\<lambda>r. us_identifier r = identifier \<and>
       map_option u_id (ar_user q) = Some (us_user r)) (user_sessions s)))
     (\<lambda>found. case found of None \<Rightarrow> throw NotFound | Some r \<Rightarrow> ret r)"

definition get_is_current :: "env \<Rightarrow> api_request \<Rightarrow> user_session \<Rightarrow> bool action" where
  "get_is_current e q row = bind_op (current e (ar_request q)) (\<lambda>cur.
     ret (case cur of None \<Rightarrow> False | Some c \<Rightarrow> us_id c = us_id row))"

definition session_data :: "env \<Rightarrow> bool \<Rightarrow> user_session \<Rightarrow> pyval" where
  \<comment> \<open>\<^verbatim>\<open>UserSessionSerializer(row).data\<close>\<close>
  "session_data e is_current row = PDict [(''id'', PStr (uuid_str (plat e) (us_id row))), (''identifier'', PStr (us_identifier row)),
     (''ip_address'', text_or_none (us_ip_address row)), (''browser'', PStr (us_browser row)),
     (''operating_system'', PStr (us_operating_system row)), (''device'', PStr (us_device row)), (''location'', PStr (us_location row)),
     (''created_at'', date_value e (Some (us_created_at row))), (''last_activity_at'', date_value e (Some (us_last_activity_at row))),
     (''is_current'', PBool is_current), (''is_revoked'', PBool (is_revoked row)), (''revoked_at'', date_value e (us_revoked_at row))]"

definition session_retrieve :: "env \<Rightarrow> api_request \<Rightarrow> string \<Rightarrow> response action" where
  "session_retrieve e q identifier = account_view q (\<lambda>user.
     bind_op (own_session q identifier) (\<lambda>row.
     bind_op (get_is_current e q row) (\<lambda>cur. ret (success_response (session_data e cur row)))))"

definition session_revoke :: "env \<Rightarrow> api_request \<Rightarrow> string \<Rightarrow> response action" where
  "session_revoke e q identifier = account_view q (\<lambda>user.
     bind_op (own_session q identifier) (\<lambda>row.
     then_op (revoke e row (ar_actor q) (Some (ar_request q))) (ret (flag_answer ''revoked''))))"

definition count_answer :: "nat \<Rightarrow> response" where
  "count_answer n = success_response (PDict [(''revoked_count'', PInt (int n))])"

definition session_revoke_others :: "env \<Rightarrow> api_request \<Rightarrow> response action" where
  "session_revoke_others e q = account_view q (\<lambda>user.
     bind_op (revoke_all e (u_id user) (ar_actor q) (Some (ar_request q)) True) (\<lambda>n. ret (count_answer n)))"

definition session_revoke_all :: "env \<Rightarrow> api_request \<Rightarrow> response action" where
  "session_revoke_all e q = account_view q (\<lambda>user.
     bind_op (revoke_all e (u_id user) (ar_actor q) (Some (ar_request q)) False) (\<lambda>n. ret (count_answer n)))"

section \<open>APIKeyViewSet\<close>

definition own_key :: "api_request \<Rightarrow> uuid \<Rightarrow> api_key action" where
  \<comment> \<open>\<^verbatim>\<open>get_object()\<close> in the keys of the user\<close>
  "own_key q i = bind_op (reads (\<lambda>s. first_where (\<lambda>k. ak_id k = i \<and> map_option u_id (ar_user q) = Some (ak_owner k)) (api_keys s)))
     (\<lambda>found. case found of None \<Rightarrow> throw NotFound | Some k \<Rightarrow> ret k)"

definition api_key_data :: "env \<Rightarrow> datetime \<Rightarrow> api_key \<Rightarrow> (string \<times> pyval) list" where
  \<comment> \<open>\<^verbatim>\<open>APIKeySerializer(k).data\<close>\<close>
  "api_key_data e now k = [(''id'', PStr (uuid_str (plat e) (ak_id k))), (''name'', PStr (ak_name k)), (''prefix'', PStr (ak_prefix k)),
     (''scopes'', PList (map PStr (ak_scopes k))), (''created_at'', date_value e (Some (ak_created_at k))),
     (''last_used_at'', date_value e (ak_last_used_at k)), (''last_used_ip'', text_or_none (ak_last_used_ip k)),
     (''expires_at'', date_value e (ak_expires_at k)), (''revoked_at'', date_value e (ak_revoked_at k)),
     (''is_active'', PBool (api_key_is_active now k))]"

record key_form =
  kf_name :: string
  kf_scopes :: "string list"
  kf_expires_at :: "datetime option"

definition api_key_create_body :: "env \<Rightarrow> api_request \<Rightarrow> user \<Rightarrow> key_form \<Rightarrow> string \<Rightarrow> string \<Rightarrow> response action" where
  \<comment> \<open>the undecorated method; the last two arguments are the random parts of the key\<close>
  "api_key_create_body e q user form prefix secret =
     then_op (raise_if (\<not> ENABLE_API_KEYS (cfg e)) (api_error ''API keys are disabled.'' ''FEATURE_DISABLED'' 404))
     (bind_op (of_sum (validate_scopes e (kf_scopes form))) (\<lambda>scopes.
      bind_op now_op (\<lambda>now.
      bind_op (of_sum (validate_expires_at now (kf_expires_at form))) (\<lambda>expires.
      bind_op (api_key_create e (u_id user) (kf_name form) scopes expires (Some (u_id user)) (Some (ar_request q)) prefix secret)
        (\<lambda>(k, raw).
      ret (success_response_with (PDict (api_key_data e now k @ [(''key'', PStr raw)])) PNone 201 []))))))"

definition api_key_create_view :: "env \<Rightarrow> api_request \<Rightarrow> key_form \<Rightarrow> string \<Rightarrow> string \<Rightarrow> response action" where
  "api_key_create_view e q form prefix secret = account_view q (\<lambda>user.
     idempotent e default_ttl q (api_key_create_body e q user form prefix secret))"

definition api_key_retrieve :: "env \<Rightarrow> api_request \<Rightarrow> uuid \<Rightarrow> response action" where
  "api_key_retrieve e q i = account_view q (\<lambda>user.
     bind_op (own_key q i) (\<lambda>k. bind_op now_op (\<lambda>now. ret (success_response (PDict (api_key_data e now k))))))"

definition api_key_revoke_view :: "env \<Rightarrow> api_request \<Rightarrow> uuid \<Rightarrow> response action" where
  "api_key_revoke_view e q i = account_view q (\<lambda>user.
     bind_op (own_key q i) (\<lambda>k.
     then_op (api_key_revoke e k (Some (u_id user)) (Some (ar_request q))) (ret (flag_answer ''revoked''))))"

section \<open>What validation and the views do\<close>

lemma validate_fields_result:
  assumes "\<And>a. snd (test a s) = s" and "validate_fields test name as s = (r, t)"
  shows "t = s \<and> (\<forall>vs errs. r = Inr (vs, errs) \<longrightarrow> (\<forall>v\<in>set vs. \<exists>a\<in>set as. test a s = (Inr v, s)))"
  using assms(2)
proof (induction as arbitrary: r t)
  case (Cons a as)
  obtain r1 where a: "test a s = (r1, s)" using assms(1) [of a] by (metis prod.collapse)
  obtain r2 t2 where rest: "validate_fields test name as s = (r2, t2)" by fastforce
  from Cons.IH [OF this] have t2: "t2 = s" and vs: "\<And>vs errs. r2 = Inr (vs, errs) \<Longrightarrow> \<forall>v\<in>set vs. \<exists>a\<in>set as. test a s = (Inr v, s)"
    by blast+
  show ?case using Cons.prems a rest t2 vs
    by (cases r1; cases r2) (fastforce simp: op_simps split: error.splits sum.splits prod.splits)+
qed (simp add: op_simps)

lemma to_internal_value_result:
  assumes "\<And>a. snd (test a s) = s" and "to_internal_value test name as s = (r, t)"
  shows "t = s" and "r = Inr vs \<Longrightarrow> \<forall>v\<in>set vs. \<exists>a\<in>set as. test a s = (Inr v, s)"
proof -
  obtain r1 t1 where v: "validate_fields test name as s = (r1, t1)" by fastforce
  note res = validate_fields_result [OF assms(1) this]
  show "t = s" and "r = Inr vs \<Longrightarrow> \<forall>v\<in>set vs. \<exists>a\<in>set as. test a s = (Inr v, s)"
    using assms(2) v res by (auto simp: to_internal_value_def op_simps split: sum.splits if_splits)
qed

lemma to_internal_value_single:
  "to_internal_value test name [a] s =
     (case test a s of
        (Inr v, t) \<Rightarrow> (Inr [v], t)
      | (Inl (InvalidData v), t) \<Rightarrow> (Inl (InvalidData (PDict [(name a, v)])), t)
      | (Inl err, t) \<Rightarrow> (Inl err, t))"
  by (auto simp: to_internal_value_def op_simps split: prod.splits sum.splits error.splits)

lemma validate_user_attr_pure: "snd (validate_user_attr e u a s) = s"
  by (cases a) (auto simp: op_simps validate_admin_email_def validate_admin_username_def validate_status_def Let_def)

lemma validate_user_attr_status:
  "validate_user_attr e u a s = (Inr (UserStatus x), t) \<Longrightarrow> x \<noteq> BANNED \<and> x \<noteq> DELETED"
  by (cases a) (auto simp: op_simps validate_admin_email_def validate_admin_username_def validate_status_def Let_def split: if_splits)

lemma set_user_attrs_keep [simp]:
  "u_id (fold set_user_attr as u) = u_id u"
  "u_password (fold set_user_attr as u) = u_password u"
  "u_is_superuser (fold set_user_attr as u) = u_is_superuser u"
proof -
  have "u_id (set_user_attr a v) = u_id v" "u_password (set_user_attr a v) = u_password v"
    "u_is_superuser (set_user_attr a v) = u_is_superuser v" for a v by (cases a; simp)+
  then show "u_id (fold set_user_attr as u) = u_id u" "u_password (fold set_user_attr as u) = u_password u"
    "u_is_superuser (fold set_user_attr as u) = u_is_superuser u" by (induction as arbitrary: u) simp_all
qed

lemma set_user_attrs_status:
  "u_status (fold set_user_attr as u) = u_status u \<or> (\<exists>x. UserStatus x \<in> set as \<and> u_status (fold set_user_attr as u) = x)"
proof (induction as arbitrary: u)
  case (Cons a as)
  show ?case using Cons.IH [of "set_user_attr a u"] by (cases a) auto
qed simp

definition updated_user :: "env \<Rightarrow> datetime \<Rightarrow> user_attr list \<Rightarrow> user \<Rightarrow> user" where
  "updated_user e now as u = (let v = fold set_user_attr as u in
     v\<lparr>u_email := normalize_email_address e (u_email v), u_username := py_strip (u_username v), u_updated_at := now\<rparr>)"

lemma updated_user_simps [simp]:
  "u_id (updated_user e now as u) = u_id u" "u_password (updated_user e now as u) = u_password u"
  "u_is_superuser (updated_user e now as u) = u_is_superuser u"
  "u_status (updated_user e now as u) = u_status (fold set_user_attr as u)"
  by (simp_all add: updated_user_def Let_def)

lemma user_save_all_run:
  "user_save_all e (fold set_user_attr as u) s =
     (if user_clash s (updated_user e (clock s) as u) then (Inl (IntegrityError ''accounts_user''), s)
      else (Inr (updated_user e (clock s) as u),
        s\<lparr>users := update_where (\<lambda>v. u_id v = u_id u) (\<lambda>_. updated_user e (clock s) as u) (users s)\<rparr>))"
  by (simp add: user_save_all_def updated_user_def op_simps Let_def)

definition update_audit :: "api_request \<Rightarrow> env \<Rightarrow> user_attr list \<Rightarrow> user \<Rightarrow> user \<Rightarrow> audit_args" where
  "update_audit q e as before after = (audit_call ''user.updated'')
     \<lparr>aa_target := Some (user_target e after), aa_actor := ar_actor q, aa_request := Some (ar_request q),
      aa_before := map (get_user_attr before) as, aa_after := map user_attr_item as\<rparr>"

lemma user_admin_perform_update_run:
  assumes ready: "sign_out_ready e s" and free: "\<not> user_clash s (updated_user e (clock s) as u)" and ends: "list_ex ends_sessions as"
  obtains t where "user_admin_perform_update e q u as s = (Inr (updated_user e (clock s) as u), t)"
    and "users t = update_where (\<lambda>v. u_id v = u_id u) (\<lambda>_. updated_user e (clock s) as u) (users s)"
    and "signed_out (\<lambda>_. False) (u_id u) t" and "sign_out_ready e t"
    and "hd (audit_logs t) = audit_row e (clock s) (update_audit q e as u (updated_user e (clock s) as u))"
    and "clock t = clock s" "security_settings t = security_settings s" "one_time_tokens t = one_time_tokens s"
      "outbox t = outbox s" "bans t = bans s"
proof -
  let ?row = "updated_user e (clock s) as u"
  let ?s1 = "s\<lparr>users := update_where (\<lambda>v. u_id v = u_id u) (\<lambda>_. ?row) (users s)\<rparr>"
  let ?s2 = "sign_out_state e (u_id u) (ar_actor q) (Some (ar_request q)) False ?s1"
  let ?t = "?s2\<lparr>audit_logs := audit_row e (clock s) (update_audit q e as u ?row) # audit_logs ?s2\<rparr>"
  have ready1: "sign_out_ready e ?s1" using ready by (simp add: sign_out_ready_def)
  obtain n m s' where so: "revoke_all e (u_id u) (ar_actor q) (Some (ar_request q)) False ?s1 = (Inr n, s')"
    "revoke_all_jwt (u_id u) s' = (Inr m, ?s2)"
    by (rule sign_out_runs [OF ready1])
  have run: "user_admin_perform_update e q u as s = (Inr ?row, ?t)"
    by (simp add: user_admin_perform_update_def op_simps user_save_all_run free ends so Let_def update_audit_def)
  have out: "signed_out (\<lambda>_. False) (u_id u) ?s2"
    using sign_out.closed [OF ready1, of "Some (ar_request q)" False "u_id u"] by (simp add: signed_out_def)
  have "sign_out_ready e ?t"
    using sign_out_ready_after [OF ready1, of "u_id u" "ar_actor q" "Some (ar_request q)" False] by (simp add: sign_out_ready_def)
  from that [OF run _ signed_out_frame [OF _ _ _ out] this] show thesis by simp
qed

lemma user_admin_perform_update_users:
  assumes "user_admin_perform_update e q u as s = (Inr row, t)"
  shows "users t = update_where (\<lambda>v. u_id v = u_id u) (\<lambda>_. updated_user e (clock s) as u) (users s)"
proof -
  let ?us = "update_where (\<lambda>v. u_id v = u_id u) (\<lambda>_. updated_user e (clock s) as u) (users s)"
  let ?out = "when_op (list_ex ends_sessions as) (bind_op (revoke_all e (u_id u) (ar_actor q) (Some (ar_request q)) False)
     (\<lambda>_. bind_op (revoke_all_jwt (u_id u)) (\<lambda>_. ret ())))"
  have keep: "preserves (\<lambda>x. users x = ?us) ?out" by (intro preserves_intros) simp_all
  obtain s2 where "?out (s\<lparr>users := ?us\<rparr>) = (Inr (), s2)" "users t = users s2"
    using assms by (auto simp: user_admin_perform_update_def Let_def user_save_all_run op_runs audit_record_run bind_op_run then_op_run
        atomic_run split: if_splits prod.splits sum.splits)
  with preserves_run [OF keep, of "s\<lparr>users := ?us\<rparr>"] show ?thesis by simp
qed

lemma user_of_run:
  assumes "user_table_ok (users s)" and "u \<in> set (users s)"
  shows "user_of (u_id u) s = (Inr u, s)"
  using user_by_id.first_by_key [OF assms] by (simp add: user_of_def op_simps)

lemma user_update_code [simp]:
  "action \<in> {''update'', ''partial_update''} \<Longrightarrow> user_required_permission action = ''users.update''"
  by (auto simp: user_required_permission_def pair_get_def)

lemma user_admin_update_granted:
  assumes "action \<in> {''update'', ''partial_update''}" and "has_permission s (ar_user q) ''users.update''" and "ar_key q = None"
    and "user_table_ok (users s)" and "u \<in> set (users s)"
  shows "user_admin_update e q action (u_id u) attrs s =
     bind_op (to_internal_value (validate_user_attr e u) (fst \<circ> user_attr_item) attrs) (\<lambda>validated.
     bind_op (user_admin_perform_update e q u validated) (\<lambda>user. ret (plain_response 200 (user_admin_data e user)))) s"
proof -
  have "\<forall>p\<in>set (admin_permissions q ''users.update''). p s = Inr True" using admin_granted_iff [of "''users.update''"] assms(2,3) by simp
  then have "guarded q (admin_permissions q ''users.update'') view s = view s" for view :: "response action"
    by (cases rule: guarded_cases [of q "admin_permissions q ''users.update''" view s]) auto
  then show ?thesis by (simp add: user_admin_update_def user_update_code [OF assms(1)] bind_op_run user_of_run [OF assms(4,5)])
qed

section \<open>Properties\<close>

text \<open>
  The user administration stays inside its limits. Whatever a request changes through it, the caller
  held \<^verbatim>\<open>users.update\<close> and used no API key; only the row of the addressed account is touched, its password and
  its superuser flag are not, and no status becomes \<^verbatim>\<open>BANNED\<close> or \<^verbatim>\<open>DELETED\<close>, which belong to their own services.
\<close>

theorem user_admin_limits:
  assumes "user_admin_update e q action i attrs s = (r, t)" and "action \<in> {''update'', ''partial_update''}" and "t \<noteq> s"
    and "user_table_ok (users s)"
  shows "has_permission s (ar_user q) ''users.update'' \<and> ar_key q = None \<and>
    (\<forall>v\<in>set (users t). \<exists>w\<in>set (users s). u_id v = u_id w \<and> u_password v = u_password w \<and> u_is_superuser v = u_is_superuser w \<and>
       (u_id v \<noteq> i \<longrightarrow> v = w) \<and> (u_status v \<in> {BANNED, DELETED} \<longrightarrow> u_status v = u_status w))"
proof -
  let ?view = "bind_op (user_of i) (\<lambda>instance.
      bind_op (to_internal_value (validate_user_attr e instance) (fst \<circ> user_attr_item) attrs) (\<lambda>validated.
      bind_op (user_admin_perform_update e q instance validated) (\<lambda>user. ret (plain_response 200 (user_admin_data e user)))))"
  have g: "guarded q (admin_permissions q ''users.update'') ?view s = (r, t)"
    using assms(1) user_update_code [OF assms(2)] by (simp add: user_admin_update_def)
  with assms(3) have allowed: "\<forall>p\<in>set (admin_permissions q ''users.update''). p s = Inr True" and run: "?view s = (r, t)"
    using guarded_result [OF g] by blast+
  obtain u where u: "first_where (\<lambda>u. u_id u = i) (users s) = Some u"
    using run assms(3) by (auto simp: user_of_def op_simps split: option.splits)
  obtain rv tv where v: "to_internal_value (validate_user_attr e u) (fst \<circ> user_attr_item) attrs s = (rv, tv)" by fastforce
  note valid = to_internal_value_result [OF validate_user_attr_pure v]
  obtain vs where vs: "rv = Inr vs" using run assms(3) v valid(1) by (cases rv) (auto simp: user_of_def op_simps u)
  have fin: "bind_op (user_admin_perform_update e q u vs) (\<lambda>user. ret (plain_response 200 (user_admin_data e user))) s = (r, t)"
    using run v valid(1) vs by (simp add: user_of_def op_simps u)
  obtain rp where perf: "user_admin_perform_update e q u vs s = (Inr rp, t)"
    using fin assms(3) by (auto simp: op_simps user_admin_perform_update_def split: prod.splits sum.splits)
  have users: "users t = update_where (\<lambda>v. u_id v = u_id u) (\<lambda>_. updated_user e (clock s) vs u) (users s)"
    by (rule user_admin_perform_update_users [OF perf])
  have u': "u \<in> set (users s)" "u_id u = i" using first_where_SomeD [OF u] by simp_all
  have status: "x \<noteq> BANNED \<and> x \<noteq> DELETED" if "UserStatus x \<in> set vs" for x
    using valid(2) [OF vs] that validate_user_attr_status by blast
  have "\<exists>w\<in>set (users s). u_id v = u_id w \<and> u_password v = u_password w \<and> u_is_superuser v = u_is_superuser w \<and>
       (u_id v \<noteq> i \<longrightarrow> v = w) \<and> (u_status v \<in> {BANNED, DELETED} \<longrightarrow> u_status v = u_status w)" if "v \<in> set (users t)" for v
    using that unfolding users
  proof (cases rule: update_whereE)
    case (changed w)
    then show ?thesis using u' set_user_attrs_status [of vs u] status by (intro bexI [of _ u]) auto
  qed auto
  then show ?thesis using admin_granted_iff [of "''users.update''" q s] allowed by blast
qed

definition demo_moderator :: user where
  "demo_moderator = demo_user\<lparr>u_id := 8, u_email := ''eve@example.com'', u_username := ''eve''\<rparr>"

definition demo_superuser :: user where
  "demo_superuser = demo_user\<lparr>u_is_superuser := True\<rparr>"

definition demo_staffed :: db where
  \<comment> \<open>a superuser, and a moderator whose only permission is \<^verbatim>\<open>users.update\<close>\<close>
  "demo_staffed = demo_login\<lparr>users := [demo_moderator, demo_superuser],
     permissions := [\<lparr>pm_id = 1, pm_codename = ''users.update'', pm_description = [], pm_is_system = True\<rparr>],
     role_permissions := [\<lparr>rp_id = 5, rp_role = 2, rp_permission = 1\<rparr>],
     user_roles := [\<lparr>ur_id = 3, ur_user = 8, ur_role = 2, ur_granted_by = None, ur_valid_from = 0, ur_valid_until = None\<rparr>]\<rparr>"

definition demo_update_call :: api_request where
  "demo_update_call = demo_caller (Some demo_moderator) None"

lemma demo_moderator_may: "has_permission demo_staffed (ar_user demo_update_call) ''users.update''" "ar_key demo_update_call = None"
  by code_simp+

lemma demo_suspended:
  "\<exists>r t. user_admin_update demo_env demo_update_call ''partial_update'' 7 [UserStatus SUSPENDED] demo_staffed = (Inr r, t) \<and>
     map u_status (users t) = [ACTIVE, SUSPENDED]"
proof -
  let ?u = "demo_superuser" and ?as = "[UserStatus SUSPENDED]"
  have m: "demo_superuser \<in> set (users demo_staffed)" "u_id demo_superuser = 7" by code_simp+
  have ok: "user_table_ok (users demo_staffed)" "sign_out_ready demo_env demo_staffed" by code_simp+
  have free: "\<not> user_clash demo_staffed (updated_user demo_env (clock demo_staffed) ?as ?u)" by code_simp
  have valid: "to_internal_value (validate_user_attr demo_env ?u) (fst \<circ> user_attr_item) ?as demo_staffed = (Inr ?as, demo_staffed)"
    by (simp add: to_internal_value_single validate_status_def op_simps)
  obtain t where run: "user_admin_perform_update demo_env demo_update_call ?u ?as demo_staffed =
      (Inr (updated_user demo_env (clock demo_staffed) ?as ?u), t)"
    and t: "users t = update_where (\<lambda>v. u_id v = u_id ?u) (\<lambda>_. updated_user demo_env (clock demo_staffed) ?as ?u) (users demo_staffed)"
    by (rule user_admin_perform_update_run [OF ok(2) free]) simp_all
  have "map u_status (users t) = [ACTIVE, SUSPENDED]"
    unfolding t by (simp add: demo_staffed_def demo_superuser_def demo_moderator_def demo_user_def update_where_def)
  then show ?thesis using user_admin_update_granted [OF _ demo_moderator_may ok(1) m(1), of "''partial_update''" demo_env ?as] m(2)
    by (simp add: bind_op_run valid run op_runs)
qed

theorem user_admin_limits_witness:
  "\<exists>r t. user_admin_update demo_env demo_update_call ''partial_update'' 7 [UserStatus SUSPENDED] demo_staffed = (Inr r, t) \<and>
     (\<forall>v\<in>set (users t). u_id v = 8 \<longrightarrow> v = demo_moderator)"
proof -
  obtain r t where run: "user_admin_update demo_env demo_update_call ''partial_update'' 7 [UserStatus SUSPENDED] demo_staffed = (Inr r, t)"
    and t: "map u_status (users t) = [ACTIVE, SUSPENDED]" using demo_suspended by (elim exE conjE)
  have old: "map u_status (users demo_staffed) = [ACTIVE, ACTIVE]"
    by (simp add: demo_staffed_def demo_superuser_def demo_moderator_def demo_user_def)
  have n: "t \<noteq> demo_staffed" using t old by auto
  have ok: "user_table_ok (users demo_staffed)" by code_simp
  have a: "''partial_update'' \<in> {''update'', ''partial_update''}" by simp
  have eight: "w = demo_moderator" if "w \<in> set (users demo_staffed)" "u_id w = 8" for w
    using that by (auto simp: demo_staffed_def demo_superuser_def demo_user_def)
  have "v = demo_moderator" if v: "v \<in> set (users t)" "u_id v = 8" for v
  proof -
    from v user_admin_limits [OF run a n ok] obtain w where "w \<in> set (users demo_staffed)" "v = w" by fastforce
    with v(2) eight show ?thesis by simp
  qed
  with run show ?thesis by blast
qed

lemma reset_by_mail:
  assumes ready: "sign_out_ready e t" "settings_table_ok (security_settings t)" "user_table_ok (users t)"
    and row: "row \<in> set (users t)" "u_email row = m"
    and found: "first_where (\<lambda>v. iexact (u_email v) (py_strip m) \<and> u_is_active v) (users t) = Some row"
    and fresh: "token_hash e PASSWORD_RESET raw \<notin> ot_token_hash ` set (one_time_tokens t)" "0 < PASSWORD_RESET_TIMEOUT (cfg e)"
    and strong: "\<forall>w. password_valid (plat e) pw w"
  obtains t2 mail w t3 where "request_password_reset e m raw t = (Inr (), t2)" and "outbox t2 = mail # outbox t" and "em_recipient mail = m"
    and "reset_password e raw pw rq salt t2 = (Inr w, t3)"
    and "users t3 = update_where (\<lambda>v. u_id v = u_id row) (with_password e pw salt (clock t)) (users t)"
proof -
  obtain n ts where iss: "issue e (u_id row) PASSWORD_RESET (seconds (PASSWORD_RESET_TIMEOUT (cfg e))) [] raw t =
      (Inr raw, t\<lparr>next_id := n, one_time_tokens := ts\<rparr>)"
    using fresh(1) by (simp add: issue_run)
  then obtain mail where run2: "request_password_reset e m raw t =
      (Inr (), t\<lparr>next_id := n, one_time_tokens := ts, outbox := mail # outbox t\<rparr>)" (is "_ = (_, ?t2)") and mail: "em_recipient mail = m"
    using found by (simp add: request_password_reset_def op_simps row(2))
  have "\<exists>tok t. consume e raw PASSWORD_RESET ?t2 = (Inr tok, t) \<and> ot_user tok = u_id row"
    using issued_found [OF iss] fresh(2) by (simp add: consume_ok_iff is_usable_def)
  then obtain tok t' where c: "consume e raw PASSWORD_RESET ?t2 = (Inr tok, t')" "ot_user tok = u_id row" by blast
  have r2: "sign_out_ready e ?t2" using ready(1) by (simp add: sign_out_ready_def)
  obtain t3 where "reset_password e raw pw rq salt ?t2 = (Inr (with_password e pw salt (clock ?t2) row), t3)"
    and "users t3 = update_where (\<lambda>v. u_id v = u_id row) (with_password e pw salt (clock ?t2)) (users ?t2)"
    by (rule reset_password_run [OF r2 _ _ c(1), of row pw rq salt]) (use ready row c(2) strong in auto)
  then show thesis using that [OF run2 _ mail] by simp
qed

lemma user_admin_update_email:
  assumes ready: "sign_out_ready e s" "account_inv s" and caller: "has_permission s (ar_user q) ''users.update''" "ar_key q = None"
    and victim: "u \<in> set (users s)" "py_strip (u_username u) = u_username u"
    and address: "normalize_email_address e m = m" "\<forall>v\<in>set (users s). \<not> iexact (u_email v) m"
  obtains r t where "user_admin_update e q ''partial_update'' (u_id u) [UserEmail m] s = (Inr r, t)"
    and "users t = update_where (\<lambda>v. u_id v = u_id u) (\<lambda>_. updated_user e (clock s) [UserEmail m] u) (users s)"
    and "signed_out (\<lambda>_. False) (u_id u) t" and "sign_out_ready e t"
    and "clock t = clock s" "security_settings t = security_settings s" "one_time_tokens t = one_time_tokens s" "outbox t = outbox s"
proof -
  let ?row = "updated_user e (clock s) [UserEmail m] u"
  have uok: "user_table_ok (users s)" using ready(2) by (simp add: account_inv_def user_table_ok_def)
  have row: "u_email ?row = m" "u_username ?row = u_username u" using victim address by (simp_all add: updated_user_def)
  have free: "\<not> user_clash s ?row"
    using address(2) account_inv_other [OF ready(2) _ victim(1)] victim(1) row
    by (fastforce simp: user_clash_def iexact_def)
  obtain t where run: "user_admin_perform_update e q u [UserEmail m] s = (Inr ?row, t)"
    and t: "users t = update_where (\<lambda>v. u_id v = u_id u) (\<lambda>_. ?row) (users s)" "signed_out (\<lambda>_. False) (u_id u) t" "sign_out_ready e t"
      "clock t = clock s" "security_settings t = security_settings s" "one_time_tokens t = one_time_tokens s" "outbox t = outbox s"
    by (rule user_admin_perform_update_run [OF ready(1) free]) simp_all
  have email: "validate_user_attr e u (UserEmail m) s = (Inr (UserEmail m), s)"
    using address by (auto simp: validate_admin_email_def op_simps)
  have valid: "to_internal_value (validate_user_attr e u) (fst \<circ> user_attr_item) [UserEmail m] s = (Inr [UserEmail m], s)"
    by (simp only: to_internal_value_single email prod.case sum.case)
  have "user_admin_update e q ''partial_update'' (u_id u) [UserEmail m] s = (Inr (plain_response 200 (user_admin_data e ?row)), t)"
    by (simp add: user_admin_update_granted [OF _ caller uok victim(1)] bind_op_run valid run op_runs)
  from that [OF this t] show thesis .
qed



section \<open>Preferences\<close>

lemma own_row_granted:
  assumes "ar_user q = Some u" and "ar_key q = None"
  shows "own_row q view s = view (u_id u) s"
proof -
  have "\<forall>p\<in>set (default_permissions q profile_scopes). p s = Inr True"
    using assms by (simp add: default_permissions_def is_authenticated_def has_scope_def has_api_key_scope_def)
  then show ?thesis unfolding own_row_def using assms(1)
    by (cases rule: guarded_cases [of q "default_permissions q profile_scopes" _ s]) auto
qed

text \<open>
  The answer to a new time zone. A user who sets the zone of his preferences is answered 200 when the zone
  database has it and a validation error (400) when it has not, but a key that is no normalised relative path, such as one with a
  leading slash, ends in an internal error (500): Python's \<^verbatim>\<open>ZoneInfo\<close> raises \<^verbatim>\<open>ValueError\<close> for it, and the serializer
  handles only \<^verbatim>\<open>ZoneInfoNotFoundError\<close>.
\<close>

theorem timezone_answers:
  assumes "rest_framework_laws rf" and "ar_user q = Some u" and "ar_key q = None" and "preferences_table_ok (preferences s)"
  shows "rs_status (fst (run_view rf rid (preferences_update e known q [PrefTimezone zone]) s)) =
     (if \<not> zone_key_ok zone then 500 else if known zone then 200 else 400)"
proof -
  obtain p s1 where p: "preferences_of (u_id u) s = (Inr p, s1)"
    using preferences_of_run [OF assms(4), of "u_id u"] by metis
  have bad: "rs_status (api_exception_handler rf (ValueError t) rid) = 500" for t
    using api_exception_handler_unknown [OF assms(1), of "ValueError t"] by simp
  have invalid: "rs_status (api_exception_handler rf (InvalidData v) rid) = 400" for v
  proof -
    obtain r where "exception_handler rf (InvalidData v) = Some r" "rs_status r = 400"
      using assms(1) by (fastforce simp: rest_framework_laws_def)
    then show ?thesis by (simp add: api_exception_handler_def split: prod.splits)
  qed
  note run = run_view_def preferences_update_def own_row_granted [OF assms(2,3)] bind_op_run p to_internal_value_single
    validate_timezone_def zone_info_def
  consider "\<not> zone_key_ok zone" | "zone_key_ok zone" "known zone" | "zone_key_ok zone" "\<not> known zone" by blast
  then show ?thesis
  proof cases
    case 1
    then show ?thesis by (simp add: run bad op_runs)
  next
    case 2
    then show ?thesis by (simp add: run op_simps Let_def success_response_def success_response_with_def)
  next
    case 3
    then show ?thesis by (simp add: run invalid op_runs)
  qed
qed

theorem timezone_answers_witness:
  "rs_status (fst (run_view demo_framework None (preferences_update demo_env (\<lambda>_. True) (demo_caller (Some demo_user) None)
     [PrefTimezone ''/etc/localtime'']) demo_login)) = 500"
proof -
  have "ar_user (demo_caller (Some demo_user) None) = Some demo_user" "ar_key (demo_caller (Some demo_user) None) = None"
    by (simp_all add: demo_caller_def)
  moreover have "preferences_table_ok (preferences demo_login)" "\<not> zone_key_ok ''/etc/localtime''" by code_simp+
  ultimately show ?thesis using timezone_answers [OF demo_framework_laws] by simp
qed

section \<open>Rows of other users\<close>

lemma delete_django_session_keeps: "preserves (\<lambda>s. user_sessions s = us) (delete_django_session e row)"
  unfolding delete_django_session_def by (intro preserves_intros) (auto split: error.splits intro: preserves_intros)

lemma revoke_sessions:
  assumes "revoke e row actor rq s = (r, t)"
  shows "user_sessions t = user_sessions s \<or>
    (\<exists>now. user_sessions t = update_where (\<lambda>x. us_id x = us_id row) (session_mark_revoked now) (user_sessions s))"
proof (cases r)
  case (Inl err)
  then show ?thesis using assms by (simp add: revoke_def atomic_Inl_iff)
next
  case (Inr u)
  then obtain locked where l: "get_where ''UserSession'' (\<lambda>x. us_id x = us_id row) (user_sessions s) = Inr locked"
    using assms by (cases "get_where ''UserSession'' (\<lambda>x. us_id x = us_id row) (user_sessions s)")
      (auto simp: revoke_def atomic_Inr_iff op_simps)
  then have id: "us_id locked = us_id row" using get_where_InrD by fastforce
  let ?us = "update_where (\<lambda>x. us_id x = us_id row) (session_mark_revoked (clock s)) (user_sessions s)"
  let ?log = "then_op (delete_django_session e locked)
      (then_op (security_record e SESSION_REVOKED (Some (us_user locked)) rq [(''session_identifier'', PStr (us_identifier locked))])
      (audit_record e ((audit_call ''session.revoked'')
         \<lparr>aa_target := Some (session_target e locked), aa_actor := actor, aa_request := rq,
          aa_after := [(''revoked_at'', PStr (isoformat (plat e) (clock s)))]\<rparr>)))"
  have log: "preserves (\<lambda>x. user_sessions x = ?us) ?log" by (intro preserves_intros delete_django_session_keeps) simp_all
  have "(if is_revoked locked then (Inr (), s) else ?log (s\<lparr>user_sessions := ?us\<rparr>)) = (r, t)"
    using assms unfolding revoke_def Inr atomic_Inr_iff
    by (simp add: bind_op_run [of "bind_op a b" for a b] bind_op_run [of "reads f" for f] bind_op_run [of now_op] then_op_run [of "modify f" for f]
        op_runs now_op_run l id split: if_splits)
  then show ?thesis using preserves_run [OF log, of "s\<lparr>user_sessions := ?us\<rparr>"] by (auto split: if_splits)
qed

text \<open>Revoking sessions of a user keeps any set of rows that has none of their keys.\<close>

definition others_kept :: "user_session set \<Rightarrow> db \<Rightarrow> bool" where
  "others_kept F s \<longleftrightarrow> F \<subseteq> set (user_sessions s)"

lemma revoke_keeps_others: "us_id row \<notin> us_id ` F \<Longrightarrow> preserves (others_kept F) (revoke e row actor rq)"
proof (rule preservesI)
  fix s assume row: "us_id row \<notin> us_id ` F" and kept: "others_kept F s"
  have marked: "F \<subseteq> set (update_where (\<lambda>x. us_id x = us_id row) (session_mark_revoked now) (user_sessions s))" for now
    using row kept unfolding others_kept_def by (auto intro!: update_where_same) (metis image_eqI)
  have "user_sessions (snd (revoke e row actor rq s)) = user_sessions s \<or> (\<exists>now. user_sessions (snd (revoke e row actor rq s)) =
      update_where (\<lambda>x. us_id x = us_id row) (session_mark_revoked now) (user_sessions s))"
    by (rule revoke_sessions) (rule prod.collapse [symmetric])
  then show "others_kept F (snd (revoke e row actor rq s))"
    using kept marked unfolding others_kept_def by (elim disjE exE) simp_all
qed

lemma revoke_each_keeps_others:
  "\<forall>row\<in>set rows. us_id row \<notin> us_id ` F \<Longrightarrow> preserves (others_kept F) (for_each (\<lambda>r. revoke e r actor rq) rows)"
  by (induction rows) (auto intro: preserves_intros revoke_keeps_others)

definition foreign_sessions :: "uuid \<Rightarrow> db \<Rightarrow> user_session set" where
  "foreign_sessions u s = {x \<in> set (user_sessions s). us_user x \<noteq> u}"

lemma own_not_foreign:
  assumes "session_table_ok (user_sessions s)" and "x \<in> set (user_sessions s)" and "us_user x = u"
  shows "us_id x \<notin> us_id ` foreign_sessions u s"
  using session_by_id.key_determines [OF assms(1,2)] assms(3) by (auto simp: foreign_sessions_def)

lemma revoke_all_keeps_others:
  assumes "session_table_ok (user_sessions s)"
  shows "others_kept (foreign_sessions u s) (snd (revoke_all e u actor rq ex s))"
proof -
  let ?F = "foreign_sessions u s"
  obtain cur where cur: "(case rq of None \<Rightarrow> ret None | Some r \<Rightarrow> current e r) s = (Inr cur, s)"
    by (cases rq) (simp_all add: op_simps)
  let ?rows = "filter (\<lambda>r. us_user r = u \<and> us_revoked_at r = None \<and>
      (case cur of None \<Rightarrow> True | Some c \<Rightarrow> \<not> ex \<or> us_id r \<noteq> us_id c)) (user_sessions s)"
  have "preserves (others_kept ?F) (for_each (\<lambda>r. revoke e r actor rq) ?rows)"
    using own_not_foreign [OF assms] by (intro revoke_each_keeps_others) auto
  then have "preserves (others_kept ?F) (then_op (for_each (\<lambda>r. revoke e r actor rq) ?rows) (ret (length ?rows)))"
    by (rule preserves_then_op [OF _ preserves_ret])
  moreover have "others_kept ?F s" by (auto simp: others_kept_def foreign_sessions_def)
  ultimately show ?thesis unfolding revoke_all_def bind_op_run cur by (simp add: op_runs preservesD)
qed

lemma revoke_keys: "preserves (\<lambda>s. api_keys s = ks) (revoke e row actor rq)"
proof -
  have "preserves (\<lambda>s. api_keys s = ks) (delete_django_session e r)" for r
    unfolding delete_django_session_def by (intro preserves_intros) (auto split: error.splits intro: preserves_intros)
  then show ?thesis unfolding revoke_def by (intro preserves_intros) simp_all
qed

lemma api_key_revoke_sessions: "preserves (\<lambda>s. user_sessions s = us) (api_key_revoke e k actor rq)"
  unfolding api_key_revoke_def by (intro preserves_intros) simp_all

definition foreign_kept :: "uuid \<Rightarrow> db \<Rightarrow> db \<Rightarrow> bool" where
  "foreign_kept u s t \<longleftrightarrow> (\<forall>x\<in>set (user_sessions s). us_user x \<noteq> u \<longrightarrow> x \<in> set (user_sessions t)) \<and>
     (\<forall>k\<in>set (api_keys s). ak_owner k \<noteq> u \<longrightarrow> k \<in> set (api_keys t))"

lemma foreign_keptI:
  "others_kept (foreign_sessions u s) t \<Longrightarrow> api_keys t = api_keys s \<Longrightarrow> foreign_kept u s t"
  by (auto simp: foreign_kept_def others_kept_def foreign_sessions_def)

lemma revoke_own_session:
  assumes "session_table_ok (user_sessions s)" and "ar_user q = Some u"
  shows "foreign_kept (u_id u) s (snd (bind_op (own_session q identifier) (\<lambda>row. then_op (revoke e row actor rq) (ret a)) s))"
proof (cases "first_where (\<lambda>r. us_identifier r = identifier \<and> map_option u_id (ar_user q) = Some (us_user r)) (user_sessions s)")
  case None
  then have "own_session q identifier s = (Inl NotFound, s)"
    by (simp only: own_session_def bind_op_run op_runs prod.case sum.case option.case)
  then show ?thesis by (simp add: bind_op_run foreign_kept_def)
next
  case (Some row)
  then have row: "row \<in> set (user_sessions s)" "us_user row = u_id u" using first_where_SomeD [OF Some] assms(2) by auto
  let ?m = "then_op (revoke e row actor rq) (ret a)"
  have own: "us_id row \<notin> us_id ` foreign_sessions (u_id u) s" by (rule own_not_foreign [OF assms(1) row])
  have "preserves (others_kept (foreign_sessions (u_id u) s)) ?m"
    by (rule preserves_then_op [OF revoke_keeps_others [OF own] preserves_ret])
  moreover have "others_kept (foreign_sessions (u_id u) s) s" by (auto simp: others_kept_def foreign_sessions_def)
  moreover have "preserves (\<lambda>x. api_keys x = api_keys s) ?m" by (rule preserves_then_op [OF revoke_keys preserves_ret])
  ultimately have "foreign_kept (u_id u) s (snd (?m s))" by (intro foreign_keptI) (auto simp: preserves_def)
  moreover have "own_session q identifier s = (Inr row, s)"
    using Some by (simp only: own_session_def bind_op_run op_runs prod.case sum.case option.case)
  ultimately show ?thesis by (simp add: bind_op_run)
qed

lemma revoke_own_sessions:
  assumes "session_table_ok (user_sessions s)"
  shows "foreign_kept u s (snd (bind_op (revoke_all e u actor rq ex) (\<lambda>n. ret (f n)) s))"
proof -
  have "preserves (\<lambda>x. api_keys x = api_keys s) (revoke_all e u actor rq ex)" by (intro preserves_intros) simp_all
  then have "api_keys (snd (revoke_all e u actor rq ex s)) = api_keys s" by (auto simp: preserves_def)
  from foreign_keptI [OF revoke_all_keeps_others [OF assms] this] show ?thesis
    by (cases "revoke_all e u actor rq ex s"; cases "fst (revoke_all e u actor rq ex s)") (auto simp: bind_op_run op_runs)
qed

lemma revoke_own_key:
  assumes "key_table_ok (api_keys s)" and "ar_user q = Some u"
  shows "foreign_kept (u_id u) s (snd (bind_op (own_key q i) (\<lambda>k. then_op (api_key_revoke e k actor rq) (ret a)) s))"
proof (cases "first_where (\<lambda>k. ak_id k = i \<and> map_option u_id (ar_user q) = Some (ak_owner k)) (api_keys s)")
  case None
  then have "own_key q i s = (Inl NotFound, s)"
    by (simp only: own_key_def bind_op_run op_runs prod.case sum.case option.case)
  then show ?thesis by (simp add: bind_op_run foreign_kept_def)
next
  case (Some k)
  then have k: "k \<in> set (api_keys s)" "ak_owner k = u_id u" using first_where_SomeD [OF Some] assms(2) by auto
  have other: "ak_id x \<noteq> ak_id k" if "x \<in> set (api_keys s)" "ak_owner x \<noteq> u_id u" for x
    using key_by_id.key_determines [OF assms(1) that(1) k(1)] that(2) k(2) by auto
  have "x \<in> set (api_keys (snd (api_key_revoke e k actor rq s)))" if "x \<in> set (api_keys s)" "ak_owner x \<noteq> u_id u" for x
    using that other [OF that] by (cases rule: api_key_revoke_cases [of e k actor rq s]) (auto intro!: update_where_same)
  moreover have "user_sessions (snd (api_key_revoke e k actor rq s)) = user_sessions s"
    using api_key_revoke_sessions by (auto simp: preserves_def)
  ultimately have "foreign_kept (u_id u) s (snd (api_key_revoke e k actor rq s))" by (simp add: foreign_kept_def)
  moreover have "own_key q i s = (Inr k, s)"
    using Some by (simp only: own_key_def bind_op_run op_runs prod.case sum.case option.case)
  ultimately show ?thesis
    by (cases "api_key_revoke e k actor rq s"; cases "fst (api_key_revoke e k actor rq s)") (auto simp: bind_op_run then_op_run op_runs)
qed

text \<open>
  Property C34: a user's views touch his own rows only. Ending a session, the other sessions or all of them, and
  revoking an API key, leave every session and every key of any other account as it was, whatever identifier the
  request names and whether or not the view succeeds.
\<close>

theorem own_rows_only:
  assumes "view \<in> {session_revoke e q identifier, session_revoke_others e q, session_revoke_all e q, api_key_revoke_view e q i}"
    and "session_table_ok (user_sessions s)" and "key_table_ok (api_keys s)"
  shows "(\<forall>x\<in>set (user_sessions s). map_option u_id (ar_user q) \<noteq> Some (us_user x) \<longrightarrow> x \<in> set (user_sessions (snd (view s)))) \<and>
    (\<forall>k\<in>set (api_keys s). map_option u_id (ar_user q) \<noteq> Some (ak_owner k) \<longrightarrow> k \<in> set (api_keys (snd (view s))))"
proof (cases "ar_user q = None \<or> ar_key q \<noteq> None")
  case True
  obtain body where "view = account_view q body"
    using assms(1) by (auto simp: session_revoke_def session_revoke_others_def session_revoke_all_def api_key_revoke_view_def)
  with account_view_refused [OF True, of body s] show ?thesis by auto
next
  case False
  then obtain u where u: "ar_user q = Some u" "ar_key q = None" by auto
  have "foreign_kept (u_id u) s (snd (view s))"
    using assms(1) revoke_own_session [OF assms(2) u(1)] revoke_own_sessions [OF assms(2)] revoke_own_key [OF assms(3) u(1)]
    by (auto simp: session_revoke_def session_revoke_others_def session_revoke_all_def api_key_revoke_view_def account_view_granted [OF u])
  then show ?thesis using u(1) by (auto simp: foreign_kept_def)
qed

definition demo_two_sessions :: db where
  \<comment> \<open>the session of the demonstration account beside one of another account\<close>
  "demo_two_sessions = demo_signed_in\<lparr>user_sessions := map (\<lambda>r. r\<lparr>us_id := 50, us_user := 8, us_identifier := ''theirs'',
     us_session_key_hash := ''other''\<rparr>) (user_sessions demo_signed_in) @ user_sessions demo_signed_in\<rparr>"

theorem own_rows_only_witness:
  "hd (user_sessions demo_two_sessions) \<in>
     set (user_sessions (snd (session_revoke demo_env (demo_caller (Some demo_user) None) ''theirs'' demo_two_sessions)))"
proof -
  have ok: "session_table_ok (user_sessions demo_two_sessions)" "key_table_ok (api_keys demo_two_sessions)" by code_simp+
  have "hd (user_sessions demo_two_sessions) \<in> set (user_sessions demo_two_sessions)"
    "map_option u_id (ar_user (demo_caller (Some demo_user) None)) \<noteq> Some (us_user (hd (user_sessions demo_two_sessions)))" by code_simp+
  with own_rows_only [OF _ ok, of "session_revoke demo_env (demo_caller (Some demo_user) None) ''theirs''" demo_env
      "demo_caller (Some demo_user) None" "''theirs''" 0] show ?thesis by auto
qed

section \<open>Idempotent creation of an API key\<close>

lemma api_key_create_body_cases:
  obtains (failed) err where "api_key_create_body e q u form prefix secret s = (Inl err, s)"
    | (created) k fields ev al where "api_key_create_body e q u form prefix secret s =
        (Inr (success_response_with (PDict (fields @ [(''key'', PStr (raw_api_key prefix secret))])) PNone 201 []),
         s\<lparr>next_id := Suc (next_id s), api_keys := k # api_keys s, security_events := ev, audit_logs := al\<rparr>)"
      "''key'' \<notin> fst ` set fields" "ak_owner k = u_id u" "ak_key_hash k = api_key_hash e (raw_api_key prefix secret)"
proof (cases "ENABLE_API_KEYS (cfg e) \<and> (\<exists>sc ex. validate_scopes e (kf_scopes form) = Inr sc \<and>
    validate_expires_at (clock s) (kf_expires_at form) = Inr ex)")
  case False
  then have "\<exists>err. api_key_create_body e q u form prefix secret s = (Inl err, s)"
    by (cases "validate_scopes e (kf_scopes form)"; cases "validate_expires_at (clock s) (kf_expires_at form)")
      (auto simp: api_key_create_body_def op_simps)
  then show thesis using failed by blast
next
  case True
  then obtain sc ex where v: "ENABLE_API_KEYS (cfg e)" "validate_scopes e (kf_scopes form) = Inr sc"
    "validate_expires_at (clock s) (kf_expires_at form) = Inr ex" by blast
  show thesis
  proof (cases rule: api_key_create_run [of prefix s e "u_id u" "kf_name form" sc ex "Some (u_id u)" "Some (ar_request q)" secret])
    case taken
    then show thesis by (intro failed) (simp add: api_key_create_body_def op_simps v)
  next
    case (created ev al)
    let ?k = "new_key e (u_id u) (kf_name form) sc ex prefix secret s"
    have new: "''key'' \<notin> fst ` set (api_key_data e (clock s) ?k)" by (simp add: api_key_data_def)
    have run: "api_key_create_body e q u form prefix secret s =
        (Inr (success_response_with (PDict (api_key_data e (clock s) ?k @ [(''key'', PStr (raw_api_key prefix secret))])) PNone 201 []),
         s\<lparr>next_id := Suc (next_id s), api_keys := ?k # api_keys s, security_events := ev, audit_logs := al\<rparr>)"
      by (simp add: api_key_create_body_def op_simps v created)
    show thesis by (rule that(2) [OF run new]) (rule new_key_simps)+
  qed
qed

lemma api_key_create_body_leaves: "leaves_records (api_key_create_body e q u form prefix secret)"
  unfolding leaves_records_def
proof (intro allI impI)
  fix s r t assume "api_key_create_body e q u form prefix secret s = (r, t)"
  then show "idempotency_records t = idempotency_records s \<and> next_id s \<le> next_id t"
    by (cases rule: api_key_create_body_cases [of e q u form prefix secret s]) auto
qed

text \<open>
  An API key created under an \<^verbatim>\<open>Idempotency-Key\<close> is stored in the clear. The table of keys holds a
  keyed hash of the text only, but the record of the request keeps the whole response, so that the table of
  idempotency records holds the text itself, next to the row whose hash it opens.
\<close>

theorem idempotent_key_in_clear:
  assumes "keyed_request q u raw_key" and "ar_key q = None" and "records_ok s"
    and "idempotency_find s (u_id u) (idempotency_key_hash e raw_key) = None"
    and "api_key_create_view e q form prefix secret s = (Inr r, t)"
  shows "\<exists>row k fields. row \<in> set (idempotency_records t) \<and> k \<in> set (api_keys t) \<and> ak_owner k = u_id u \<and> ir_user row = u_id u \<and>
     ir_response_body row = Some (PDict [(''success'', PBool True), (''data'', PDict fields), (''meta'', PDict []), (''error'', PNone)]) \<and>
     pair_get ''key'' fields = Some (PStr (raw_api_key prefix secret)) \<and> ak_key_hash k = api_key_hash e (raw_api_key prefix secret)"
proof -
  let ?view = "api_key_create_body e q u form prefix secret"
  have u: "ar_user q = Some u" using assms(1) by (simp add: keyed_request_def)
  have "run_once e default_ttl q u raw_key ?view s = (Inr r, t)"
    using assms(5) by (simp add: api_key_create_view_def account_view_granted [OF u assms(2)] idempotent_keyed [OF assms(1)] atomic_Inr_iff)
  then obtain s1 s2 row where run: "?view s1 = (Inr r, s2)" and t: "t = s2\<lparr>idempotency_records := idempotency_records s @ [row]\<rparr>"
    and row: "ir_user row = u_id u" "ir_response_body row = Some (rs_data r)"
    by (rule run_once_first [OF assms(4) api_key_create_body_leaves assms(3)])
  show ?thesis
  proof (cases rule: api_key_create_body_cases [of e q u form prefix secret s1])
    case (created k fields ev al)
    let ?fields = "fields @ [(''key'', PStr (raw_api_key prefix secret))]"
    have "rs_data r = PDict [(''success'', PBool True), (''data'', PDict ?fields), (''meta'', PDict []), (''error'', PNone)]"
      and k: "k \<in> set (api_keys t)" using run created(1) t by (auto simp: success_response_with_def)
    moreover have "pair_get ''key'' ?fields = Some (PStr (raw_api_key prefix secret))"
      using created(2) by (simp add: pair_get_def map_add_def dom_map_of_conv_image_fst map_of_eq_None_iff [symmetric])
    ultimately show ?thesis using row created(3,4) t by (intro exI [of _ row] exI [of _ k] exI [of _ ?fields]) simp
  qed (use run in simp)
qed

definition demo_key_form :: key_form where
  "demo_key_form = \<lparr>kf_name = ''ci'', kf_scopes = [''profile.read''], kf_expires_at = None\<rparr>"

lemma json_dumps_texts: "json_dumps_list (map PStr ts) = Inr (map json_string ts)"
  by (induction ts) simp_all

lemma api_key_answer_json:
  "json_serializable (rs_data (success_response_with (PDict (api_key_data e now k @ [(''key'', PStr raw)])) PNone 201 []))"
  by (simp add: json_serializable_def success_response_with_def api_key_data_def date_value_def text_or_none_def json_dumps_texts
      split: option.splits)

lemma demo_key_created: "\<not> isl (fst (api_key_create_view demo_env demo_call demo_key_form ''abc'' ''xyz'' demo_db))"
proof -
  let ?body = "api_key_create_body demo_env demo_call demo_user demo_key_form ''abc'' ''xyz''"
  have who: "ar_user demo_call = Some demo_user" "ar_key demo_call = None" by (simp_all add: demo_call_def)
  have v: "ENABLE_API_KEYS (cfg demo_env)" "\<exists>sc. validate_scopes demo_env (kf_scopes demo_key_form) = Inr sc"
    "validate_expires_at now (kf_expires_at demo_key_form) = Inr None" for now
    by (simp_all add: demo_env_def default_settings_def validate_scopes_def demo_key_form_def validate_expires_at_def)
  have body: "\<exists>r t. ?body s = (Inr r, t) \<and> json_serializable (rs_data r)" if "api_keys s = []" for s
  proof -
    obtain sc where sc: "validate_scopes demo_env (kf_scopes demo_key_form) = Inr sc" using v(2) by blast
    show ?thesis
    proof (cases rule: api_key_create_run [of "''abc''" s demo_env "u_id demo_user" "kf_name demo_key_form" sc None "Some (u_id demo_user)"
          "Some (ar_request demo_call)" "''xyz''"])
      case (created ev al)
      show ?thesis using api_key_answer_json by (simp add: api_key_create_body_def op_simps v(1,3) sc created(2))
    qed (use that in simp)
  qed
  have empty: "api_keys demo_db = []" "idempotency_records demo_db = []" by (simp_all add: demo_db_def empty_db_def)
  have answer: "json_serializable (rs_data r)" if "?body (demo_db\<lparr>next_id := n, idempotency_records := rs\<rparr>) = (Inr r, t)" for n rs r t
    using body [of "demo_db\<lparr>next_id := n, idempotency_records := rs\<rparr>"] empty(1) that by auto
  have runs: "?body (demo_db\<lparr>next_id := n, idempotency_records := rs\<rparr>) \<noteq> (Inl err, t)" for n rs err t
    using body [of "demo_db\<lparr>next_id := n, idempotency_records := rs\<rparr>"] empty(1) by auto
  show ?thesis
    unfolding api_key_create_view_def account_view_granted [OF who] idempotent_keyed [OF demo_call_keyed]
    by (auto simp: run_once_def Let_def op_simps idempotency_find_def first_where_def idempotency_create_def record_response_def empty
        runs dest: answer split: prod.splits sum.splits)
qed

theorem idempotent_key_in_clear_witness:
  "\<exists>r t row fields. api_key_create_view demo_env demo_call demo_key_form ''abc'' ''xyz'' demo_db = (Inr r, t) \<and>
     row \<in> set (idempotency_records t) \<and> pair_get ''key'' fields = Some (PStr (raw_api_key ''abc'' ''xyz''))"
proof -
  have "\<not> isl (fst (api_key_create_view demo_env demo_call demo_key_form ''abc'' ''xyz'' demo_db))" by (rule demo_key_created)
  then obtain r t where run: "api_key_create_view demo_env demo_call demo_key_form ''abc'' ''xyz'' demo_db = (Inr r, t)" by (rule run_succeeds)
  have "ar_key demo_call = None" by (simp add: demo_call_def)
  moreover have "records_ok demo_db" "idempotency_find demo_db (u_id demo_user) (idempotency_key_hash demo_env ''once'') = None"
    by (simp_all add: records_ok_def idempotency_find_def demo_db_def empty_db_def)
  ultimately show ?thesis using idempotent_key_in_clear [OF demo_call_keyed _ _ _ run] run by blast
qed

end
