(* ===== verification/AuthorizationApi.thy ===== *)
theory AuthorizationApi
  imports AccountApi
begin

text \<open>
  The administration of roles and permissions: \<^verbatim>\<open>apps/api/views/authorization.py\<close> with the serializers of
  \<^verbatim>\<open>apps/api/serializers/authorization.py\<close>. The five view sets inherit their operations from
  \<^verbatim>\<open>AuthorizationViewSet\<close>; the record \<open>authz_view\<close> holds what a subclass and its serializer contribute, and the
  operations are defined once over it. The validated data of a serializer is a list of attributes, where a related
  object has been looked up by the library, and what an operation returns is the row that the library then renders.
\<close>

section \<open>AuthorizationViewSet\<close>

record ('r, 'a) authz_view =
  audit_name :: string
  av_rows :: "db \<Rightarrow> 'r list"
  av_store :: "'r list \<Rightarrow> db \<Rightarrow> db"
  av_id :: "'r \<Rightarrow> uuid"
  av_default :: "api_request \<Rightarrow> uuid \<Rightarrow> datetime \<Rightarrow> 'r"
  av_set :: "'a \<Rightarrow> 'r \<Rightarrow> 'r"
  av_item :: "'a \<Rightarrow> string \<times> pyval"
  av_get :: "db \<Rightarrow> 'r \<Rightarrow> 'a \<Rightarrow> string \<times> pyval"
  av_clash :: "'r \<Rightarrow> 'r \<Rightarrow> bool"
  av_system :: "'r \<Rightarrow> bool"
  av_target :: "env \<Rightarrow> 'r \<Rightarrow> audit_target"
  av_delete :: "'r \<Rightarrow> unit action"

text \<open>
  \<open>av_default\<close> is the new row before the given fields, with \<^verbatim>\<open>granted_by\<close> where the serializer has that field;
  \<open>av_clash\<close> is the unique constraint, which the library's validators check; \<open>av_get\<close> reads the attribute of an instance.
\<close>

definition not_unique :: error where
  "not_unique = InvalidData (PStr ''unique'')"

definition authz_audit :: "('r, 'a) authz_view \<Rightarrow> env \<Rightarrow> api_request \<Rightarrow> string \<Rightarrow> 'r \<Rightarrow> audit_args" where
  "authz_audit v e q verb row = (audit_call (audit_name v @ ''.'' @ verb))
     \<lparr>aa_target := Some (av_target v e row), aa_actor := ar_actor q, aa_request := Some (ar_request q)\<rparr>"

definition perform_create :: "('r, 'a) authz_view \<Rightarrow> env \<Rightarrow> api_request \<Rightarrow> 'a list \<Rightarrow> 'r action" where
  "perform_create v e q attrs =
     bind_op fresh_id (\<lambda>i. bind_op now_op (\<lambda>now.
     let row = fold (av_set v) attrs (av_default v q i now) in
     then_op (modify (\<lambda>s. av_store v (row # av_rows v s) s))
     (then_op (audit_record e ((authz_audit v e q ''created'' row)\<lparr>aa_after := map (av_item v) attrs\<rparr>))
     (ret row))))"

definition perform_update :: "('r, 'a) authz_view \<Rightarrow> env \<Rightarrow> api_request \<Rightarrow> 'r \<Rightarrow> 'a list \<Rightarrow> 'r action" where
  "perform_update v e q instance attrs =
     bind_op (reads (\<lambda>s. map (av_get v s instance) attrs)) (\<lambda>before.
     let row = fold (av_set v) attrs instance in
     then_op (modify (\<lambda>s. av_store v (update_where (\<lambda>r. av_id v r = av_id v instance) (\<lambda>_. row) (av_rows v s)) s))
     (then_op (audit_record e ((authz_audit v e q ''updated'' row)\<lparr>aa_before := before, aa_after := map (av_item v) attrs\<rparr>))
     (ret row)))"

definition perform_destroy :: "('r, 'a) authz_view \<Rightarrow> env \<Rightarrow> api_request \<Rightarrow> 'r \<Rightarrow> unit action" where
  "perform_destroy v e q instance =
     then_op (raise_if (av_system v instance) (api_error ''System authorization records cannot be deleted.'' ''CONFLICT'' 409))
     (then_op (audit_record e (authz_audit v e q ''deleted'' instance))
     (av_delete v instance))"

definition authz_object :: "('r, 'a) authz_view \<Rightarrow> uuid \<Rightarrow> 'r action" where
  \<comment> \<open>\<^verbatim>\<open>get_object()\<close>\<close>
  "authz_object v i = bind_op (reads (\<lambda>s. first_where (\<lambda>r. av_id v r = i) (av_rows v s)))
     (\<lambda>found. case found of None \<Rightarrow> throw NotFound | Some r \<Rightarrow> ret r)"

definition authz_unique :: "('r, 'a) authz_view \<Rightarrow> 'r \<Rightarrow> uuid option \<Rightarrow> unit action" where
  \<comment> \<open>the unique validators, which leave the instance out\<close>
  "authz_unique v row instance = bind_op (reads (\<lambda>s. exists_where (\<lambda>r. Some (av_id v r) \<noteq> instance \<and> av_clash v row r) (av_rows v s)))
     (\<lambda>taken. raise_if taken not_unique)"

definition required_permission :: string where
  "required_permission = ''roles.manage''"

definition authz_create :: "('r, 'a) authz_view \<Rightarrow> env \<Rightarrow> api_request \<Rightarrow> 'a list \<Rightarrow> 'r action" where
  "authz_create v e q attrs = guarded q (admin_permissions q required_permission)
     (bind_op now_op (\<lambda>now.
      then_op (authz_unique v (fold (av_set v) attrs (av_default v q 0 now)) None)
      (perform_create v e q attrs)))"

definition authz_update :: "('r, 'a) authz_view \<Rightarrow> env \<Rightarrow> api_request \<Rightarrow> uuid \<Rightarrow> 'a list \<Rightarrow> 'r action" where
  "authz_update v e q i attrs = guarded q (admin_permissions q required_permission)
     (bind_op (authz_object v i) (\<lambda>instance.
      then_op (authz_unique v (fold (av_set v) attrs instance) (Some (av_id v instance)))
      (perform_update v e q instance attrs)))"

definition authz_destroy :: "('r, 'a) authz_view \<Rightarrow> env \<Rightarrow> api_request \<Rightarrow> uuid \<Rightarrow> unit action" where
  "authz_destroy v e q i = guarded q (admin_permissions q required_permission)
     (bind_op (authz_object v i) (perform_destroy v e q))"

section \<open>Permissions and roles\<close>

datatype permission_attr = PermissionCodename string | PermissionDescription string

fun set_permission_attr :: "permission_attr \<Rightarrow> permission \<Rightarrow> permission" where
  "set_permission_attr (PermissionCodename t) p = p\<lparr>pm_codename := t\<rparr>"
| "set_permission_attr (PermissionDescription t) p = p\<lparr>pm_description := t\<rparr>"

fun permission_attr_item :: "permission_attr \<Rightarrow> string \<times> pyval" where
  "permission_attr_item (PermissionCodename t) = (''codename'', PStr t)"
| "permission_attr_item (PermissionDescription t) = (''description'', PStr t)"

fun get_permission_attr :: "permission \<Rightarrow> permission_attr \<Rightarrow> string \<times> pyval" where
  "get_permission_attr p (PermissionCodename t) = (''codename'', PStr (pm_codename p))"
| "get_permission_attr p (PermissionDescription t) = (''description'', PStr (pm_description p))"

definition PermissionViewSet :: "(permission, permission_attr) authz_view" where
  "PermissionViewSet =
     \<lparr>audit_name = ''permission'', av_rows = permissions, av_store = (\<lambda>rs s. s\<lparr>permissions := rs\<rparr>), av_id = pm_id,
      av_default = (\<lambda>q i now. \<lparr>pm_id = i, pm_codename = [], pm_description = [], pm_is_system = False\<rparr>),
      av_set = set_permission_attr, av_item = permission_attr_item, av_get = (\<lambda>s. get_permission_attr),
      av_clash = (\<lambda>a b. pm_codename a = pm_codename b), av_system = pm_is_system,
      av_target = (\<lambda>e p. \<lparr>at_label = ''authorization.permission'', at_pk = uuid_str (plat e) (pm_id p), at_repr = pm_codename p\<rparr>),
      av_delete = permission_delete\<rparr>"

datatype role_attr = RoleName string | RoleSlug string | RoleDescription string | RolePriority nat

fun set_role_attr :: "role_attr \<Rightarrow> role \<Rightarrow> role" where
  "set_role_attr (RoleName t) r = r\<lparr>ro_name := t\<rparr>"
| "set_role_attr (RoleSlug t) r = r\<lparr>ro_slug := t\<rparr>"
| "set_role_attr (RoleDescription t) r = r\<lparr>ro_description := t\<rparr>"
| "set_role_attr (RolePriority n) r = r\<lparr>ro_priority := n\<rparr>"

fun role_attr_item :: "role_attr \<Rightarrow> string \<times> pyval" where
  "role_attr_item (RoleName t) = (''name'', PStr t)"
| "role_attr_item (RoleSlug t) = (''slug'', PStr t)"
| "role_attr_item (RoleDescription t) = (''description'', PStr t)"
| "role_attr_item (RolePriority n) = (''priority'', PInt (int n))"

fun get_role_attr :: "role \<Rightarrow> role_attr \<Rightarrow> string \<times> pyval" where
  "get_role_attr r (RoleName t) = role_attr_item (RoleName (ro_name r))"
| "get_role_attr r (RoleSlug t) = role_attr_item (RoleSlug (ro_slug r))"
| "get_role_attr r (RoleDescription t) = role_attr_item (RoleDescription (ro_description r))"
| "get_role_attr r (RolePriority n) = role_attr_item (RolePriority (ro_priority r))"

definition RoleViewSet :: "(role, role_attr) authz_view" where
  "RoleViewSet =
     \<lparr>audit_name = ''role'', av_rows = roles, av_store = (\<lambda>rs s. s\<lparr>roles := rs\<rparr>), av_id = ro_id,
      av_default = (\<lambda>q i now. \<lparr>ro_id = i, ro_name = [], ro_slug = [], ro_description = [], ro_priority = 0, ro_is_system = False\<rparr>),
      av_set = set_role_attr, av_item = role_attr_item, av_get = (\<lambda>s. get_role_attr),
      av_clash = (\<lambda>a b. ro_slug a = ro_slug b), av_system = ro_is_system,
      av_target = (\<lambda>e r. \<lparr>at_label = ''authorization.role'', at_pk = uuid_str (plat e) (ro_id r), at_repr = ro_name r\<rparr>),
      av_delete = role_delete\<rparr>"

section \<open>Links, assignments and overrides\<close>

text \<open>An instance of a related model is its text; a link row has the default text of a Django model.\<close>

definition role_object :: "db \<Rightarrow> uuid \<Rightarrow> pyval" where
  "role_object s i = (case first_where (\<lambda>r. ro_id r = i) (roles s) of None \<Rightarrow> PNone | Some r \<Rightarrow> PObject (ro_name r))"

definition permission_object :: "db \<Rightarrow> uuid \<Rightarrow> pyval" where
  "permission_object s i = (case first_where (\<lambda>p. pm_id p = i) (permissions s) of None \<Rightarrow> PNone | Some p \<Rightarrow> PObject (pm_codename p))"

definition user_object :: "db \<Rightarrow> uuid \<Rightarrow> pyval" where
  "user_object s i = (case first_where (\<lambda>u. u_id u = i) (users s) of None \<Rightarrow> PNone | Some u \<Rightarrow> PObject (u_email u))"

definition link_target :: "string \<Rightarrow> string \<Rightarrow> env \<Rightarrow> uuid \<Rightarrow> audit_target" where
  "link_target label cls e i = \<lparr>at_label = label, at_pk = uuid_str (plat e) i, at_repr = cls @ '' object ('' @ uuid_str (plat e) i @ '')''\<rparr>"

datatype link_attr = LinkRole role | LinkPermission permission

fun set_link_attr :: "link_attr \<Rightarrow> role_permission \<Rightarrow> role_permission" where
  "set_link_attr (LinkRole r) l = l\<lparr>rp_role := ro_id r\<rparr>"
| "set_link_attr (LinkPermission p) l = l\<lparr>rp_permission := pm_id p\<rparr>"

fun link_attr_item :: "link_attr \<Rightarrow> string \<times> pyval" where
  "link_attr_item (LinkRole r) = (''role'', PObject (ro_name r))"
| "link_attr_item (LinkPermission p) = (''permission'', PObject (pm_codename p))"

fun get_link_attr :: "db \<Rightarrow> role_permission \<Rightarrow> link_attr \<Rightarrow> string \<times> pyval" where
  "get_link_attr s l (LinkRole r) = (''role'', role_object s (rp_role l))"
| "get_link_attr s l (LinkPermission p) = (''permission'', permission_object s (rp_permission l))"

definition RolePermissionViewSet :: "(role_permission, link_attr) authz_view" where
  "RolePermissionViewSet =
     \<lparr>audit_name = ''role_permission'', av_rows = role_permissions, av_store = (\<lambda>rs s. s\<lparr>role_permissions := rs\<rparr>), av_id = rp_id,
      av_default = (\<lambda>q i now. \<lparr>rp_id = i, rp_role = 0, rp_permission = 0\<rparr>),
      av_set = set_link_attr, av_item = link_attr_item, av_get = get_link_attr,
      av_clash = (\<lambda>a b. rp_role a = rp_role b \<and> rp_permission a = rp_permission b), av_system = (\<lambda>l. False),
      av_target = (\<lambda>e l. link_target ''authorization.rolepermission'' ''RolePermission'' e (rp_id l)),
      av_delete = (\<lambda>l. modify (\<lambda>s. s\<lparr>role_permissions := delete_where (\<lambda>x. rp_id x = rp_id l) (role_permissions s)\<rparr>))\<rparr>"

datatype assignment_attr = AssignUser user | AssignRole role | AssignFrom datetime | AssignUntil "datetime option"

fun set_assignment_attr :: "assignment_attr \<Rightarrow> user_role \<Rightarrow> user_role" where
  "set_assignment_attr (AssignUser u) a = a\<lparr>ur_user := u_id u\<rparr>"
| "set_assignment_attr (AssignRole r) a = a\<lparr>ur_role := ro_id r\<rparr>"
| "set_assignment_attr (AssignFrom t) a = a\<lparr>ur_valid_from := t\<rparr>"
| "set_assignment_attr (AssignUntil t) a = a\<lparr>ur_valid_until := t\<rparr>"

fun assignment_attr_item :: "assignment_attr \<Rightarrow> string \<times> pyval" where
  "assignment_attr_item (AssignUser u) = (''user'', PObject (u_email u))"
| "assignment_attr_item (AssignRole r) = (''role'', PObject (ro_name r))"
| "assignment_attr_item (AssignFrom t) = (''valid_from'', PDatetime t)"
| "assignment_attr_item (AssignUntil t) = (''valid_until'', case t of None \<Rightarrow> PNone | Some x \<Rightarrow> PDatetime x)"

fun get_assignment_attr :: "db \<Rightarrow> user_role \<Rightarrow> assignment_attr \<Rightarrow> string \<times> pyval" where
  "get_assignment_attr s a (AssignUser u) = (''user'', user_object s (ur_user a))"
| "get_assignment_attr s a (AssignRole r) = (''role'', role_object s (ur_role a))"
| "get_assignment_attr s a (AssignFrom t) = assignment_attr_item (AssignFrom (ur_valid_from a))"
| "get_assignment_attr s a (AssignUntil t) = assignment_attr_item (AssignUntil (ur_valid_until a))"

definition UserRoleViewSet :: "(user_role, assignment_attr) authz_view" where
  "UserRoleViewSet =
     \<lparr>audit_name = ''user_role'', av_rows = user_roles, av_store = (\<lambda>rs s. s\<lparr>user_roles := rs\<rparr>), av_id = ur_id,
      av_default = (\<lambda>q i now. \<lparr>ur_id = i, ur_user = 0, ur_role = 0, ur_granted_by = map_option u_id (ar_user q),
        ur_valid_from = now, ur_valid_until = None\<rparr>),
      av_set = set_assignment_attr, av_item = assignment_attr_item, av_get = get_assignment_attr,
      av_clash = (\<lambda>a b. ur_user a = ur_user b \<and> ur_role a = ur_role b), av_system = (\<lambda>a. False),
      av_target = (\<lambda>e a. link_target ''authorization.userrole'' ''UserRole'' e (ur_id a)),
      av_delete = (\<lambda>a. modify (\<lambda>s. s\<lparr>user_roles := delete_where (\<lambda>x. ur_id x = ur_id a) (user_roles s)\<rparr>))\<rparr>"

datatype override_attr = OverrideUser user | OverridePermission permission | OverrideEffect override_effect | OverrideReason string

fun effect_text :: "override_effect \<Rightarrow> string" where
  "effect_text ALLOW = ''allow''"
| "effect_text DENY = ''deny''"

fun set_override_attr :: "override_attr \<Rightarrow> user_permission_override \<Rightarrow> user_permission_override" where
  "set_override_attr (OverrideUser u) x = x\<lparr>po_user := u_id u\<rparr>"
| "set_override_attr (OverridePermission p) x = x\<lparr>po_permission := pm_id p\<rparr>"
| "set_override_attr (OverrideEffect f) x = x\<lparr>po_effect := f\<rparr>"
| "set_override_attr (OverrideReason t) x = x\<lparr>po_reason := t\<rparr>"

fun override_attr_item :: "override_attr \<Rightarrow> string \<times> pyval" where
  "override_attr_item (OverrideUser u) = (''user'', PObject (u_email u))"
| "override_attr_item (OverridePermission p) = (''permission'', PObject (pm_codename p))"
| "override_attr_item (OverrideEffect f) = (''effect'', PStr (effect_text f))"
| "override_attr_item (OverrideReason t) = (''reason'', PStr t)"

fun get_override_attr :: "db \<Rightarrow> user_permission_override \<Rightarrow> override_attr \<Rightarrow> string \<times> pyval" where
  "get_override_attr s x (OverrideUser u) = (''user'', user_object s (po_user x))"
| "get_override_attr s x (OverridePermission p) = (''permission'', permission_object s (po_permission x))"
| "get_override_attr s x (OverrideEffect f) = override_attr_item (OverrideEffect (po_effect x))"
| "get_override_attr s x (OverrideReason t) = override_attr_item (OverrideReason (po_reason x))"

definition UserPermissionOverrideViewSet :: "(user_permission_override, override_attr) authz_view" where
  \<comment> \<open>the effect is a required field, so the one of the default row is never kept\<close>
  "UserPermissionOverrideViewSet =
     \<lparr>audit_name = ''user_permission_override'', av_rows = overrides, av_store = (\<lambda>rs s. s\<lparr>overrides := rs\<rparr>), av_id = po_id,
      av_default = (\<lambda>q i now. \<lparr>po_id = i, po_user = 0, po_permission = 0, po_effect = DENY, po_reason = [],
        po_granted_by = map_option u_id (ar_user q)\<rparr>),
      av_set = set_override_attr, av_item = override_attr_item, av_get = get_override_attr,
      av_clash = (\<lambda>a b. po_user a = po_user b \<and> po_permission a = po_permission b), av_system = (\<lambda>x. False),
      av_target = (\<lambda>e x. link_target ''authorization.userpermissionoverride'' ''UserPermissionOverride'' e (po_id x)),
      av_delete = (\<lambda>x. modify (\<lambda>s. s\<lparr>overrides := delete_where (\<lambda>y. po_id y = po_id x) (overrides s)\<rparr>))\<rparr>"

section \<open>What the operations do\<close>

lemma authz_granted:
  assumes "has_permission s (ar_user q) ''roles.manage''" and "ar_key q = None"
  shows "guarded q (admin_permissions q required_permission) view s = view s"
proof -
  have "\<forall>p\<in>set (admin_permissions q required_permission). p s = Inr True"
    using admin_granted_iff [of "''roles.manage''"] assms by (simp add: required_permission_def)
  then show ?thesis by (cases rule: guarded_cases [of q "admin_permissions q required_permission" view s]) auto
qed

lemma perform_create_run:
  "\<exists>row. perform_create v e q attrs s = (Inr row, snd (perform_create v e q attrs s)) \<and> row = fold (av_set v) attrs (av_default v q (next_id s) (clock s))"
  by (simp add: perform_create_def op_simps Let_def)

lemma authz_create_run:
  assumes "has_permission s (ar_user q) ''roles.manage''" and "ar_key q = None"
    and "\<forall>r\<in>set (av_rows v s). \<not> av_clash v (fold (av_set v) attrs (av_default v q 0 (clock s))) r"
  shows "authz_create v e q attrs s = perform_create v e q attrs s"
  using assms(3) by (simp add: authz_create_def authz_granted [OF assms(1,2)] op_simps authz_unique_def)

lemma authz_object_run:
  assumes "distinct (map (av_id v) (av_rows v s))" and "r \<in> set (av_rows v s)"
  shows "authz_object v (av_id v r) s = (Inr r, s)"
proof -
  have "first_where (\<lambda>x. av_id v x = av_id v r) (av_rows v s) = Some r"
    using assms by (intro first_where_unique) (auto simp: distinct_map inj_on_def)
  then show ?thesis by (simp add: authz_object_def op_simps)
qed

definition role_logged :: "env \<Rightarrow> api_request \<Rightarrow> role \<Rightarrow> db \<Rightarrow> db" where
  "role_logged e q r s = s\<lparr>audit_logs := audit_row e (clock s) (authz_audit RoleViewSet e q ''deleted'' r) # audit_logs s\<rparr>"

lemma role_destroy_run:
  assumes "has_permission s (ar_user q) ''roles.manage''" and "ar_key q = None"
    and "distinct (map ro_id (roles s))" and "r \<in> set (roles s)"
  shows "authz_destroy RoleViewSet e q (ro_id r) s =
    (if ro_is_system r then (Inl (api_error ''System authorization records cannot be deleted.'' ''CONFLICT'' 409), s)
     else if \<exists>a\<in>set (user_roles s). ur_role a = ro_id r then (Inl (ProtectedError ''user_assignments''), role_logged e q r s)
     else (Inr (), (role_logged e q r s)\<lparr>roles := delete_where (\<lambda>x. ro_id x = ro_id r) (roles s),
         role_permissions := delete_where (\<lambda>l. rp_role l = ro_id r) (role_permissions s)\<rparr>))"
proof -
  have "authz_object RoleViewSet (ro_id r) s = (Inr r, s)"
    using authz_object_run [of RoleViewSet s r] assms(3,4) by (simp add: RoleViewSet_def)
  then have "authz_destroy RoleViewSet e q (ro_id r) s = perform_destroy RoleViewSet e q r s"
    by (simp add: authz_destroy_def authz_granted [OF assms(1,2)] bind_op_run)
  then show ?thesis by (simp add: perform_destroy_def RoleViewSet_def role_delete_def op_simps role_logged_def)
qed

section \<open>Properties\<close>

text \<open>
  Property C35: roles and permissions change through the API only for those who manage them. A request that
  changes anything through one of the view sets, by creating, updating or deleting a row, comes from a user who
  holds \<^verbatim>\<open>roles.manage\<close> and who does not use an API key.
\<close>

theorem authz_api_guarded:
  assumes "snd (authz_create v e q attrs s) \<noteq> s \<or> snd (authz_update v e q i attrs s) \<noteq> s \<or> snd (authz_destroy v e q i s) \<noteq> s"
  shows "has_permission s (ar_user q) ''roles.manage'' \<and> ar_key q = None"
proof -
  have "\<forall>p\<in>set (admin_permissions q required_permission). p s = Inr True"
    using assms by (auto simp: authz_create_def authz_update_def authz_destroy_def dest: guarded_changed)
  then show ?thesis using admin_granted_iff [of "''roles.manage''"] by (simp add: required_permission_def)
qed

text \<open>
  Property C36: what deleting a role does. A system role is refused as a conflict and nothing changes. A role that
  somebody holds is protected: the error is Django's, so that the client is told of an internal error, the role and
  its assignments stay, yet the audit trail has a row saying that it was deleted, because the view writes that row first and
  no transaction takes it back. Any other role goes with its links.
\<close>

theorem role_destroy_outcomes:
  assumes laws: "rest_framework_laws rf" and caller: "has_permission s (ar_user q) ''roles.manage''" "ar_key q = None"
    and row: "distinct (map ro_id (roles s))" "r \<in> set (roles s)"
  shows "\<exists>result t log. authz_destroy RoleViewSet e q (ro_id r) s = (result, t) \<and> al_action log = ''role.deleted'' \<and>
     (if ro_is_system r then result = Inl (api_error ''System authorization records cannot be deleted.'' ''CONFLICT'' 409) \<and> t = s
      else if \<exists>a\<in>set (user_roles s). ur_role a = ro_id r
        then (\<exists>err. result = Inl err \<and> rs_status (api_exception_handler rf err rid) = 500) \<and> t = s\<lparr>audit_logs := log # audit_logs s\<rparr>
      else result = Inr () \<and> t = s\<lparr>audit_logs := log # audit_logs s, roles := delete_where (\<lambda>x. ro_id x = ro_id r) (roles s),
          role_permissions := delete_where (\<lambda>l. rp_role l = ro_id r) (role_permissions s)\<rparr>)"
proof -
  have "rs_status (api_exception_handler rf (ProtectedError ''user_assignments'') rid) = 500"
    using api_exception_handler_unknown [OF laws, of "ProtectedError ''user_assignments''"] by simp
  moreover have "al_action (audit_row e (clock s) (authz_audit RoleViewSet e q ''deleted'' r)) = ''role.deleted''"
    by (simp add: audit_row_def authz_audit_def audit_call_def RoleViewSet_def)
  ultimately show ?thesis
    by (intro exI [of _ "fst (authz_destroy RoleViewSet e q (ro_id r) s)"] exI [of _ "snd (authz_destroy RoleViewSet e q (ro_id r) s)"]
        exI [of _ "audit_row e (clock s) (authz_audit RoleViewSet e q ''deleted'' r)"])
      (simp add: role_destroy_run [OF caller row] role_logged_def)
qed

definition demo_manager :: api_request where
  "demo_manager = demo_caller (Some (demo_user\<lparr>u_is_superuser := True\<rparr>)) None"

lemma demo_manager_may:
  "has_permission (demo_authz\<lparr>roles := rs\<rparr>) (ar_user demo_manager) ''roles.manage''" "ar_key demo_manager = None"
  by (simp_all add: demo_manager_def demo_caller_def has_permission_def can_authenticate_now_def has_active_ban_iff demo_authz_def
      demo_db_def empty_db_def demo_user_def override_effect_of_def first_where_def names_permission_def)

definition demo_role :: role where
  "demo_role = \<lparr>ro_id = 2, ro_name = ''Helpers'', ro_slug = ''helpers'', ro_description = [], ro_priority = 10, ro_is_system = False\<rparr>"

lemma demo_role_rows:
  "distinct (map ro_id (roles (demo_authz\<lparr>roles := [demo_role]\<rparr>)))" "demo_role \<in> set (roles (demo_authz\<lparr>roles := [demo_role]\<rparr>))"
  "ro_id demo_role = 2" "\<not> ro_is_system demo_role" "\<exists>a\<in>set (user_roles (demo_authz\<lparr>roles := [demo_role]\<rparr>)). ur_role a = ro_id demo_role"
  by (simp_all add: demo_role_def demo_authz_def)

theorem authz_api_guarded_witness:
  "snd (authz_destroy RoleViewSet demo_env demo_manager 2 (demo_authz\<lparr>roles := [demo_role]\<rparr>)) \<noteq> demo_authz\<lparr>roles := [demo_role]\<rparr> \<and>
   ar_key demo_manager = None"
proof -
  let ?s = "demo_authz\<lparr>roles := [demo_role]\<rparr>"
  have "audit_logs (snd (authz_destroy RoleViewSet demo_env demo_manager 2 ?s)) \<noteq> audit_logs ?s"
    using role_destroy_run [OF demo_manager_may demo_role_rows(1,2), of demo_env] demo_role_rows(3-5) by (simp add: role_logged_def)
  then have "snd (authz_destroy RoleViewSet demo_env demo_manager 2 ?s) \<noteq> ?s" by auto
  then show ?thesis using authz_api_guarded [of RoleViewSet demo_env demo_manager "[]" ?s 2] by blast
qed

theorem role_destroy_outcomes_witness:
  "\<exists>err row. authz_destroy RoleViewSet demo_env demo_manager 2 (demo_authz\<lparr>roles := [demo_role]\<rparr>) =
     (Inl err, demo_authz\<lparr>roles := [demo_role], audit_logs := [row]\<rparr>) \<and> al_action row = ''role.deleted''"
proof -
  have "audit_logs demo_authz = []" by (simp add: demo_authz_def demo_db_def empty_db_def)
  then show ?thesis
    using role_destroy_outcomes [OF demo_framework_laws demo_manager_may demo_role_rows(1,2), of demo_env None] demo_role_rows(3-5) by auto
qed

text \<open>
  A system permission can be renamed away. Deleting one is refused, but an update is not: the code
  name of a system permission can be changed to any free text, and from then on nobody but a superuser holds the
  permission that the views ask for, whatever his roles and overrides say.
\<close>

theorem system_permission_renamed:
  assumes caller: "has_permission s (ar_user q) ''roles.manage''" "ar_key q = None"
    and row: "permission_table_ok (permissions s)" "p \<in> set (permissions s)" "pm_is_system p"
    and name: "code \<notin> pm_codename ` set (permissions s)"
  shows "\<exists>t. authz_update PermissionViewSet e q (pm_id p) [PermissionCodename code] s = (Inr (p\<lparr>pm_codename := code\<rparr>), t) \<and>
     (\<forall>u. \<not> u_is_superuser u \<longrightarrow> \<not> has_permission t (Some u) (pm_codename p)) \<and>
     authz_destroy PermissionViewSet e q (pm_id p) s =
       (Inl (api_error ''System authorization records cannot be deleted.'' ''CONFLICT'' 409), s)"
proof -
  have obj: "authz_object PermissionViewSet (pm_id p) s = (Inr p, s)"
    using authz_object_run [of PermissionViewSet s p] row(1,2) by (simp add: PermissionViewSet_def permission_table_ok_def)
  have free: "\<not> (\<exists>r\<in>set (permissions s). pm_id r \<noteq> pm_id p \<and> code = pm_codename r)" using name by auto
  let ?ps = "update_where (\<lambda>r. pm_id r = pm_id p) (\<lambda>_. p\<lparr>pm_codename := code\<rparr>) (permissions s)"
  obtain al where run: "authz_update PermissionViewSet e q (pm_id p) [PermissionCodename code] s =
      (Inr (p\<lparr>pm_codename := code\<rparr>), s\<lparr>permissions := ?ps, audit_logs := al\<rparr>)"
    using free by (simp add: authz_update_def authz_granted [OF caller] bind_op_run obj)
      (simp add: authz_unique_def perform_update_def PermissionViewSet_def op_simps Let_def)
  have "pm_codename r \<noteq> pm_codename p" if "r \<in> set ?ps" for r
    using that
  proof (cases rule: update_whereE)
    case (changed x)
    then show ?thesis using name row(2) by auto
  next
    case same
    then show ?thesis using permission_by_code.key_determines [OF row(1) _ row(2)] by auto
  qed
  then have unnamed: "\<not> names_permission (s\<lparr>permissions := ?ps, audit_logs := al\<rparr>) (pm_codename p) i" for i
    by (auto simp: names_permission_def)
  have "override_effect_of (s\<lparr>permissions := ?ps, audit_logs := al\<rparr>) u (pm_codename p) = None" for u
    by (simp add: override_effect_of_def unnamed)
  with unnamed have "\<not> has_permission (s\<lparr>permissions := ?ps, audit_logs := al\<rparr>) (Some u) (pm_codename p)" if "\<not> u_is_superuser u" for u
    using that by (simp add: has_permission_def role_grants_def)
  moreover have "authz_destroy PermissionViewSet e q (pm_id p) s =
       (Inl (api_error ''System authorization records cannot be deleted.'' ''CONFLICT'' 409), s)"
    using row(3) by (simp add: authz_destroy_def authz_granted [OF caller] bind_op_run obj)
      (simp add: perform_destroy_def PermissionViewSet_def op_simps)
  ultimately show ?thesis using run by blast
qed

theorem system_permission_renamed_witness:
  "\<exists>p t. authz_update PermissionViewSet demo_env demo_manager 1 [PermissionCodename ''x''] (demo_authz\<lparr>roles := []\<rparr>) = (Inr p, t) \<and>
     has_permission (demo_authz\<lparr>roles := []\<rparr>) (Some demo_user) ''users.view'' \<and> \<not> has_permission t (Some demo_user) ''users.view''"
proof -
  let ?p = "\<lparr>pm_id = 1, pm_codename = ''users.view'', pm_description = [], pm_is_system = True\<rparr>" and ?s = "demo_authz\<lparr>roles := []\<rparr>"
  have row: "permission_table_ok (permissions ?s)" "?p \<in> set (permissions ?s)" "pm_is_system ?p" "''x'' \<notin> pm_codename ` set (permissions ?s)"
    by (simp_all add: demo_authz_def permission_table_ok_def)
  have "has_permission ?s (Some demo_user) ''users.view''" "\<not> u_is_superuser demo_user" by code_simp+
  then show ?thesis using system_permission_renamed [OF demo_manager_may row, of demo_env] by auto
qed

text \<open>
  The API takes any text for a code name. The model's \<^verbatim>\<open>clean\<close> demands the form \<^verbatim>\<open>resource.action\<close>,
  but the serializer does not run it: a name that \<^verbatim>\<open>clean\<close> refuses is stored all the same.
\<close>

theorem codename_format_unchecked:
  assumes "has_permission s (ar_user q) ''roles.manage''" and "ar_key q = None" and "code \<notin> pm_codename ` set (permissions s)"
    and "permission_clean p = Some err" and "pm_codename p = code"
  shows "\<exists>row t. authz_create PermissionViewSet e q [PermissionCodename code] s = (Inr row, t) \<and>
     permissions t = row # permissions s \<and> pm_codename row = code \<and> permission_clean row = Some (ValidationError ''codename'')"
proof -
  have clean: "permission_clean r = Some (ValidationError ''codename'')" if "pm_codename r = code" for r
    using assms(4,5) that by (simp add: permission_clean_def Let_def split: if_splits)
  have free: "\<not> (\<exists>r\<in>set (permissions s). code = pm_codename r)" using assms(3) by auto
  then have "authz_create PermissionViewSet e q [PermissionCodename code] s = perform_create PermissionViewSet e q [PermissionCodename code] s"
    by (intro authz_create_run [OF assms(1,2)]) (auto simp: PermissionViewSet_def)
  then show ?thesis using clean by (simp add: perform_create_def PermissionViewSet_def op_simps Let_def)
qed

theorem codename_format_unchecked_witness:
  "\<exists>row t. authz_create PermissionViewSet demo_env demo_manager [PermissionCodename ''everything''] (demo_authz\<lparr>roles := []\<rparr>) = (Inr row, t) \<and>
     permission_clean row = Some (ValidationError ''codename'')"
proof -
  let ?p = "\<lparr>pm_id = 0, pm_codename = ''everything'', pm_description = [], pm_is_system = False\<rparr>"
  have "''everything'' \<notin> pm_codename ` set (permissions (demo_authz\<lparr>roles := []\<rparr>))" by (simp add: demo_authz_def)
  moreover have "permission_clean ?p = Some (ValidationError ''codename'')" by code_simp
  ultimately show ?thesis using codename_format_unchecked [OF demo_manager_may, of "''everything''" "[]" ?p _ demo_env] by auto
qed

section \<open>Granting a role\<close>

text \<open>More links and assignments never take a permission away.\<close>

lemma has_permission_grows:
  assumes "has_permission s w c" and "permissions t = permissions s" "overrides t = overrides s" "bans t = bans s" "clock t = clock s"
    and "set (role_permissions s) \<subseteq> set (role_permissions t)" "set (user_roles s) \<subseteq> set (user_roles t)"
  shows "has_permission t w c"
proof -
  have "names_permission t = names_permission s" by (rule ext)+ (simp add: names_permission_def assms(2))
  then have "override_effect_of t = override_effect_of s" "role_grants s c r \<Longrightarrow> role_grants t c r" for r
    using assms(3,6) by (auto simp: fun_eq_iff override_effect_of_def role_grants_def)
  moreover have "can_authenticate_now t = can_authenticate_now s"
    by (rule ext) (simp add: can_authenticate_now_def has_active_ban_iff assms(4,5))
  moreover have "set (active_assignments s u) \<subseteq> set (active_assignments t u)" for u
    using assms(5,7) by (auto simp: active_assignments_def split: option.splits)
  ultimately show ?thesis using assms(1) by (auto simp: has_permission_def Let_def split: option.splits if_splits)
qed

lemma has_permission_frame:
  assumes "permissions t = permissions s" "overrides t = overrides s" "bans t = bans s" "clock t = clock s"
    and "role_permissions t = role_permissions s" "user_roles t = user_roles s"
  shows "has_permission t w c = has_permission s w c"
  using has_permission_grows [of s w c t] has_permission_grows [of t w c s] assms by auto

lemma link_created:
  assumes "has_permission s (ar_user q) ''roles.manage''" and "ar_key q = None"
    and "\<not> (\<exists>l\<in>set (role_permissions s). rp_role l = ro_id r \<and> rp_permission l = pm_id p)"
  obtains al where "authz_create RolePermissionViewSet e q [LinkRole r, LinkPermission p] s =
    (Inr \<lparr>rp_id = next_id s, rp_role = ro_id r, rp_permission = pm_id p\<rparr>, s\<lparr>next_id := Suc (next_id s),
       role_permissions := \<lparr>rp_id = next_id s, rp_role = ro_id r, rp_permission = pm_id p\<rparr> # role_permissions s, audit_logs := al\<rparr>)"
proof -
  have "authz_create RolePermissionViewSet e q [LinkRole r, LinkPermission p] s = perform_create RolePermissionViewSet e q [LinkRole r, LinkPermission p] s"
    by (rule authz_create_run [OF assms(1,2)]) (use assms(3) in \<open>auto simp: RolePermissionViewSet_def\<close>)
  then show thesis by (intro that) (simp add: perform_create_def RolePermissionViewSet_def op_simps Let_def)
qed

lemma assignment_created:
  assumes "has_permission s (ar_user q) ''roles.manage''" and "ar_key q = None"
    and "\<not> (\<exists>a\<in>set (user_roles s). ur_user a = u_id u \<and> ur_role a = ro_id r)"
  obtains al where "authz_create UserRoleViewSet e q [AssignUser u, AssignRole r] s =
    (Inr \<lparr>ur_id = next_id s, ur_user = u_id u, ur_role = ro_id r, ur_granted_by = map_option u_id (ar_user q),
       ur_valid_from = clock s, ur_valid_until = None\<rparr>,
     s\<lparr>next_id := Suc (next_id s), user_roles := \<lparr>ur_id = next_id s, ur_user = u_id u, ur_role = ro_id r,
       ur_granted_by = map_option u_id (ar_user q), ur_valid_from = clock s, ur_valid_until = None\<rparr> # user_roles s, audit_logs := al\<rparr>)"
proof -
  have "authz_create UserRoleViewSet e q [AssignUser u, AssignRole r] s = perform_create UserRoleViewSet e q [AssignUser u, AssignRole r] s"
    by (rule authz_create_run [OF assms(1,2)]) (use assms(3) in \<open>auto simp: UserRoleViewSet_def\<close>)
  then show thesis by (intro that) (simp add: perform_create_def UserRoleViewSet_def op_simps Let_def)
qed

lemma assignment_destroyed:
  assumes "has_permission s (ar_user q) ''roles.manage''" and "ar_key q = None"
    and "distinct (map ur_id (user_roles s))" and "a \<in> set (user_roles s)"
  obtains al where "authz_destroy UserRoleViewSet e q (ur_id a) s =
    (Inr (), s\<lparr>user_roles := delete_where (\<lambda>x. ur_id x = ur_id a) (user_roles s), audit_logs := al\<rparr>)"
proof -
  have "authz_object UserRoleViewSet (ur_id a) s = (Inr a, s)"
    using authz_object_run [of UserRoleViewSet s a] assms(3,4) by (simp add: UserRoleViewSet_def)
  then have "authz_destroy UserRoleViewSet e q (ur_id a) s = perform_destroy UserRoleViewSet e q a s"
    by (simp add: authz_destroy_def authz_granted [OF assms(1,2)] bind_op_run)
  then show thesis by (intro that [of "audit_row e (clock s) (authz_audit UserRoleViewSet e q ''deleted'' a) # audit_logs s"])
      (simp add: perform_destroy_def UserRoleViewSet_def op_simps)
qed

text \<open>
  A role granted through the API works at once, and its removal takes it back. A permission linked to a role
  and the role assigned to an account in good standing, with no denial, give the account the permission; the
  assignment records who granted it; deleting it leaves everybody with what he had before.
\<close>

theorem role_grant_takes_effect:
  assumes caller: "has_permission s (ar_user q) ''roles.manage''" "ar_key q = None"
    and rows: "p \<in> set (permissions s)" "\<not> (\<exists>l\<in>set (role_permissions s). rp_role l = ro_id r \<and> rp_permission l = pm_id p)"
      "\<not> (\<exists>a\<in>set (user_roles s). ur_user a = u_id u \<and> ur_role a = ro_id r)" "\<forall>a\<in>set (user_roles s). ur_id a < next_id s"
      "distinct (map ur_id (user_roles s))"
    and holder: "can_authenticate_now s u" "override_effect_of s u (pm_codename p) \<noteq> Some DENY"
  shows "\<exists>l t1 a t2 t3. authz_create RolePermissionViewSet e q [LinkRole r, LinkPermission p] s = (Inr l, t1) \<and>
     authz_create UserRoleViewSet e q [AssignUser u, AssignRole r] t1 = (Inr a, t2) \<and>
     has_permission t2 (Some u) (pm_codename p) \<and> ur_granted_by a = map_option u_id (ar_user q) \<and>
     authz_destroy UserRoleViewSet e q (ur_id a) t2 = (Inr (), t3) \<and> (\<forall>w c. has_permission t3 w c = has_permission t1 w c)"
proof -
  let ?l = "\<lparr>rp_id = next_id s, rp_role = ro_id r, rp_permission = pm_id p\<rparr>"
  obtain al1 where t1: "authz_create RolePermissionViewSet e q [LinkRole r, LinkPermission p] s =
      (Inr ?l, s\<lparr>next_id := Suc (next_id s), role_permissions := ?l # role_permissions s, audit_logs := al1\<rparr>)" (is "_ = (_, ?t1)")
    by (rule link_created [OF caller rows(2)])
  have caller1: "has_permission ?t1 (ar_user q) ''roles.manage''" by (rule has_permission_grows [OF caller(1)]) auto
  let ?a = "\<lparr>ur_id = Suc (next_id s), ur_user = u_id u, ur_role = ro_id r, ur_granted_by = map_option u_id (ar_user q),
    ur_valid_from = clock s, ur_valid_until = None\<rparr>"
  have none: "\<not> (\<exists>a\<in>set (user_roles ?t1). ur_user a = u_id u \<and> ur_role a = ro_id r)" using rows(3) by simp
  obtain al2 where t2: "authz_create UserRoleViewSet e q [AssignUser u, AssignRole r] ?t1 =
      (Inr ?a, ?t1\<lparr>next_id := Suc (Suc (next_id s)), user_roles := ?a # user_roles s, audit_logs := al2\<rparr>)" (is "_ = (_, ?t2)")
    by (rule assignment_created [OF caller1 caller(2) none, of e]) simp
  have caller2: "has_permission ?t2 (ar_user q) ''roles.manage''" by (rule has_permission_grows [OF caller1]) auto
  have "override_effect_of ?t2 u = override_effect_of s u" by (rule ext) (simp add: override_effect_of_def names_permission_def)
  moreover have "can_authenticate_now ?t2 u" using holder(1) by (simp add: can_authenticate_now_def has_active_ban_iff)
  moreover have "role_grants ?t2 (pm_codename p) (ro_id r)" using rows(1) by (auto simp: role_grants_def names_permission_def)
  ultimately have has: "has_permission ?t2 (Some u) (pm_codename p)"
    using holder(2) by (auto simp: has_permission_def Let_def active_assignments_def)
  have row: "distinct (map ur_id (user_roles ?t2))" "?a \<in> set (user_roles ?t2)" using rows(4,5) by fastforce+
  have "delete_where (\<lambda>x. ur_id x = Suc (next_id s)) (user_roles s) = user_roles s"
    using rows(4) by (auto simp: delete_where_def filter_id_conv)
  then have same: "delete_where (\<lambda>x. ur_id x = ur_id ?a) (user_roles ?t2) = user_roles s" by (simp add: delete_where_def)
  obtain al3 where t3: "authz_destroy UserRoleViewSet e q (ur_id ?a) ?t2 = (Inr (), ?t2\<lparr>user_roles := user_roles s, audit_logs := al3\<rparr>)"
    (is "_ = (_, ?t3)")
    by (rule assignment_destroyed [OF caller2 caller(2) row, of e]) (simp only: same)
  have "has_permission ?t3 w c = has_permission ?t1 w c" for w c by (rule has_permission_frame) simp_all
  with t1 t2 t3 has show ?thesis by fastforce
qed

theorem role_grant_takes_effect_witness:
  "\<exists>l t1 a t2. authz_create RolePermissionViewSet demo_env demo_manager [LinkRole demo_role, LinkPermission (hd (permissions demo_authz))]
       (demo_authz\<lparr>roles := [demo_role]\<rparr>) = (Inr l, t1) \<and>
     authz_create UserRoleViewSet demo_env demo_manager [AssignUser demo_moderator, AssignRole demo_role] t1 = (Inr a, t2) \<and>
     has_permission t2 (Some demo_moderator) ''users.view''"
proof -
  let ?s = "demo_authz\<lparr>roles := [demo_role]\<rparr>" and ?p = "hd (permissions demo_authz)"
  have rows: "?p \<in> set (permissions ?s)" "\<not> (\<exists>l\<in>set (role_permissions ?s). rp_role l = ro_id demo_role \<and> rp_permission l = pm_id ?p)"
    "\<not> (\<exists>a\<in>set (user_roles ?s). ur_user a = u_id demo_moderator \<and> ur_role a = ro_id demo_role)"
    "\<forall>a\<in>set (user_roles ?s). ur_id a < next_id ?s" "distinct (map ur_id (user_roles ?s))" "pm_codename ?p = ''users.view''"
    by (simp_all add: demo_authz_def demo_db_def empty_db_def demo_moderator_def)
  have holder: "can_authenticate_now ?s demo_moderator" "override_effect_of ?s demo_moderator (pm_codename ?p) \<noteq> Some DENY" by code_simp+
  show ?thesis using role_grant_takes_effect [OF demo_manager_may rows(1-5) holder, of demo_env] rows(6) by auto
qed

end
