(* ===== verification/Webhooks.thy ===== *)
theory Webhooks
  imports Events Json
begin

text \<open>
  Webhooks: \<^verbatim>\<open>WebhookService\<close> and the two tasks of \<^verbatim>\<open>apps/webhooks/tasks.py\<close>. A delivery is a
  small state machine over its row, worked on by any number of task workers: \<open>reserve_delivery\<close> is the first
  transaction of \<^verbatim>\<open>deliver_webhook\<close>, \<open>complete_delivery\<close> the attempt and the save that follow it, and
  the relation \<open>delivery_step\<close> interleaves them with new events and the passing of time.

  URL parsing, name resolution, the classification of addresses and the HTTP client are the fields of
  \<open>web_platform\<close>; the answer of the remote side is an argument.
\<close>

section \<open>Outside code\<close>

record parsed_url =
  up_scheme :: string
  up_hostname :: "string option"
  up_username :: "string option"
  up_password :: "string option"
  up_port :: "error + int option"

record web_platform =
  urlparse :: "string \<Rightarrow> parsed_url"
  getaddrinfo :: "string \<Rightarrow> int \<Rightarrow> string list option"
  is_global :: "string \<Rightarrow> bool"

text \<open>What \<^verbatim>\<open>client.post\<close> ends in: a response, an \<^verbatim>\<open>httpx.HTTPError\<close>, or another exception.\<close>

datatype http_outcome = Response int string | HTTPError | OtherError error

section \<open>WebhookService\<close>

definition truthy_text :: "string option \<Rightarrow> bool" where
  "truthy_text x = (case x of None \<Rightarrow> False | Some t \<Rightarrow> t \<noteq> [])"

definition validate_url :: "env \<Rightarrow> web_platform \<Rightarrow> string \<Rightarrow> error option" where
  "validate_url e w url =
     (let parsed = urlparse w url in
      if up_scheme parsed \<notin> (if APP_ENV (cfg e) = ''production'' then {''https''} else {''http'', ''https''})
      then Some (ValidationError ''Webhook URLs must use an allowed HTTP scheme.'')
      else if \<not> truthy_text (up_hostname parsed) \<or> truthy_text (up_username parsed) \<or> truthy_text (up_password parsed)
      then Some (ValidationError ''Webhook URL is invalid.'')
      else case up_port parsed of
        Inl err \<Rightarrow> Some err
      | Inr port \<Rightarrow>
          (case getaddrinfo w (text_or_empty (up_hostname parsed))
                  (case port of None \<Rightarrow> 443 | Some p \<Rightarrow> if p = 0 then 443 else p) of
             None \<Rightarrow> Some (ValidationError ''Webhook hostname could not be resolved.'')
           | Some addresses \<Rightarrow>
               if list_ex (\<lambda>a. \<not> is_global w a) addresses
               then Some (ValidationError ''Webhook URLs cannot resolve to private or reserved addresses.'')
               else None))"

definition of_option :: "error option \<Rightarrow> unit action" where
  "of_option x = (case x of None \<Rightarrow> ret () | Some err \<Rightarrow> throw err)"

definition create_endpoint ::
    "env \<Rightarrow> web_platform \<Rightarrow> uuid option \<Rightarrow> string \<Rightarrow> string \<Rightarrow> string list \<Rightarrow> string \<Rightarrow> string \<Rightarrow> (webhook_endpoint \<times> string) action" where
  \<comment> \<open>the last two arguments are the generated secret and Fernet's initialisation vector\<close>
  "create_endpoint e w owner name url event_types secret iv = atomic
     (then_op (of_option (validate_url e w url))
     (bind_op fresh_id (\<lambda>i. bind_op now_op (\<lambda>now.
      bind_op (of_sum (encrypt_value e ''webhook-secret'' iv secret)) (\<lambda>encrypted.
      let endpoint = \<lparr>we_id = i, we_owner = owner, we_name = name, we_url = url, we_event_types = py_sorted_set event_types,
            we_secret_hash = keyed_hash e ''webhook-secret'' secret, we_encrypted_secret = encrypted,
            we_is_active = True, we_created_at = now\<rparr> in
      then_op (modify (\<lambda>s. s\<lparr>webhook_endpoints := webhook_endpoints s @ [endpoint]\<rparr>))
      (ret (endpoint, secret)))))))"

definition subscribed :: "db \<Rightarrow> string \<Rightarrow> webhook_endpoint list" where
  "subscribed s event_type = filter (\<lambda>p. we_is_active p \<and> event_type \<in> set (we_event_types p)) (webhook_endpoints s)"

definition new_delivery :: "uuid \<Rightarrow> uuid \<Rightarrow> uuid \<Rightarrow> datetime \<Rightarrow> webhook_delivery" where
  "new_delivery i endpoint event now =
     \<lparr>wd_id = i, wd_endpoint = endpoint, wd_event = event, wd_status = DELIVERY_PENDING, wd_attempt_count = 0,
      wd_response_code = None, wd_response_body = [], wd_last_attempt_at = None, wd_next_retry_at = None,
      wd_created_at = now\<rparr>"

fun create_deliveries :: "uuid \<Rightarrow> webhook_endpoint list \<Rightarrow> unit action" where
  "create_deliveries event [] = ret ()"
| "create_deliveries event (p # ps) =
     bind_op fresh_id (\<lambda>i. bind_op now_op (\<lambda>now.
     then_op (modify (\<lambda>s. s\<lparr>webhook_deliveries := webhook_deliveries s @ [new_delivery i (we_id p) event now]\<rparr>))
     (create_deliveries event ps)))"

definition emit :: "env \<Rightarrow> string \<Rightarrow> pyval \<Rightarrow> webhook_event action" where
  "emit e event_type payload = atomic
     (bind_op fresh_id (\<lambda>i. bind_op now_op (\<lambda>now.
      let event = \<lparr>wv_id = i, wv_event_type = event_type, wv_payload = payload, wv_created_at = now\<rparr> in
      then_op (modify (\<lambda>s. s\<lparr>webhook_events := event # webhook_events s\<rparr>))
      (bind_op (reads (\<lambda>s. subscribed s event_type)) (\<lambda>endpoints.
       then_op (create_deliveries i endpoints)
       (then_op (when_op (ENABLE_WEBHOOKS (cfg e) \<and> endpoints \<noteq> [])
          (modify (\<lambda>s. s\<lparr>queued := queued s @ [(''dispatch_pending_webhooks'', [])]\<rparr>)))
       (ret event)))))))"

definition signature_headers ::
    "env \<Rightarrow> webhook_endpoint \<Rightarrow> webhook_event \<Rightarrow> string \<Rightarrow> datetime \<Rightarrow> error + (string \<times> string) list" where
  "signature_headers e endpoint event body now =
     (case decrypt_value e ''webhook-secret'' (we_encrypted_secret endpoint) of
        Inl err \<Rightarrow> Inl err
      | Inr secret \<Rightarrow>
          let timestamp = str_int (whole_seconds now);
              signature = hmac_sha256_hex (plat e) secret (timestamp @ ''.'' @ body)
          in Inr [(''Content-Type'', ''application/json''), (''User-Agent'', APP_NAME (cfg e) @ ''-Webhooks/1.0''),
                  (''X-Webhook-ID'', uuid_str (plat e) (wv_id event)), (''X-Webhook-Timestamp'', timestamp),
                  (''X-Webhook-Signature'', ''v1='' @ signature)])"

definition serialize_event :: "env \<Rightarrow> webhook_event \<Rightarrow> error + string" where
  "serialize_event e event = json_dumps (PDict
     [(''id'', PStr (uuid_str (plat e) (wv_id event))), (''type'', PStr (wv_event_type event)),
      (''created_at'', PStr (isoformat (plat e) (wv_created_at event))), (''data'', wv_payload event)])"

section \<open>Tasks\<close>

definition endpoint_active :: "db \<Rightarrow> webhook_delivery \<Rightarrow> bool" where
  "endpoint_active s d = exists_where (\<lambda>p. we_id p = wd_endpoint d \<and> we_is_active p) (webhook_endpoints s)"

definition lease :: int where
  "lease = minutes 15"

definition dispatch_ids :: "db \<Rightarrow> uuid list" where
  "dispatch_ids s =
     (let now = clock s;
          pending = take 100 (map wd_id (filter (\<lambda>d. wd_status d = DELIVERY_PENDING \<and> endpoint_active s d \<and>
             wd_next_retry_at d = None) (webhook_deliveries s)));
          failed = take (100 - length pending) (map wd_id (filter (\<lambda>d. wd_status d = FAILED \<and>
             (case wd_next_retry_at d of None \<Rightarrow> False | Some t \<Rightarrow> t \<le> now) \<and> endpoint_active s d) (webhook_deliveries s)));
          stale = take (100 - length (pending @ failed)) (map wd_id (filter (\<lambda>d. wd_status d = PROCESSING \<and>
             (case wd_last_attempt_at d of None \<Rightarrow> False | Some t \<Rightarrow> t < now - lease) \<and> endpoint_active s d) (webhook_deliveries s)))
      in pending @ failed @ stale)"

definition dispatch_pending_webhooks :: "env \<Rightarrow> nat action" where
  "dispatch_pending_webhooks e =
     (if \<not> ENABLE_WEBHOOKS (cfg e) then ret 0
      else bind_op (reads dispatch_ids) (\<lambda>ids.
        then_op (for_each (\<lambda>i. modify (\<lambda>s. s\<lparr>queued := queued s @ [(''deliver_webhook'', uuid_str (plat e) i)]\<rparr>)) ids)
        (ret (length ids))))"

definition start_attempt :: "datetime \<Rightarrow> webhook_delivery \<Rightarrow> webhook_delivery" where
  "start_attempt now d = d\<lparr>wd_attempt_count := wd_attempt_count d + 1, wd_last_attempt_at := Some now, wd_status := PROCESSING\<rparr>"

type_synonym reserved = "webhook_delivery \<times> webhook_endpoint \<times> webhook_event"

definition reserve_delivery :: "uuid \<Rightarrow> reserved option action" where
  \<comment> \<open>the first transaction of \<^verbatim>\<open>deliver_webhook\<close>: the locked row with its endpoint and event;
     \<open>None\<close> where it returns early\<close>
  "reserve_delivery delivery_id = atomic
     (bind_op (reads (\<lambda>s. get_where ''WebhookDelivery'' (\<lambda>d. wd_id d = delivery_id) (webhook_deliveries s))) (\<lambda>found.
      bind_op (of_sum found) (\<lambda>delivery.
      bind_op (reads (\<lambda>s. get_where ''WebhookEndpoint'' (\<lambda>p. we_id p = wd_endpoint delivery) (webhook_endpoints s))) (\<lambda>ep.
      bind_op (of_sum ep) (\<lambda>endpoint.
      bind_op (reads (\<lambda>s. get_where ''WebhookEvent'' (\<lambda>v. wv_id v = wd_event delivery) (webhook_events s))) (\<lambda>ev.
      bind_op (of_sum ev) (\<lambda>event.
      bind_op now_op (\<lambda>now.
      if wd_status delivery \<in> {SUCCEEDED, ABANDONED} then ret None
      else if wd_status delivery = PROCESSING \<and>
              (case wd_last_attempt_at delivery of None \<Rightarrow> False | Some t \<Rightarrow> t > now - lease) then ret None
      else then_op (modify (\<lambda>s. s\<lparr>webhook_deliveries :=
             update_where (\<lambda>d. wd_id d = wd_id delivery) (start_attempt now) (webhook_deliveries s)\<rparr>))
           (ret (Some (start_attempt now delivery, endpoint, event)))))))))))"

datatype attempt_result = Answered int string | Refused | Crashed error

definition attempt_delivery :: "env \<Rightarrow> web_platform \<Rightarrow> webhook_endpoint \<Rightarrow> webhook_event \<Rightarrow> http_outcome \<Rightarrow> datetime \<Rightarrow> attempt_result" where
  \<comment> \<open>the body of the \<^verbatim>\<open>try\<close>: what the \<^verbatim>\<open>except\<close> clause catches is \<open>Refused\<close>, the rest crashes\<close>
  "attempt_delivery e w endpoint event outcome now =
     (case validate_url e w (we_url endpoint) of
        Some (ValidationError _) \<Rightarrow> Refused
      | Some err \<Rightarrow> Crashed err
      | None \<Rightarrow>
          (case serialize_event e event of
             Inl err \<Rightarrow> Crashed err
           | Inr body \<Rightarrow>
               (case signature_headers e endpoint event body now of
                  Inl err \<Rightarrow> Crashed err
                | Inr headers \<Rightarrow>
                    (case outcome of Response code text \<Rightarrow> Answered code text | HTTPError \<Rightarrow> Refused | OtherError err \<Rightarrow> Crashed err))))"

definition retry_seconds :: "nat \<Rightarrow> int" where
  "retry_seconds attempts = min 3600 (30 * 2 ^ (attempts - 1))"

definition failed_attempt :: "datetime \<Rightarrow> webhook_delivery \<Rightarrow> webhook_delivery" where
  "failed_attempt now d =
     (if wd_attempt_count d \<ge> 8 then d\<lparr>wd_status := ABANDONED, wd_next_retry_at := None\<rparr>
      else d\<lparr>wd_status := FAILED, wd_next_retry_at := Some (now + seconds (retry_seconds (wd_attempt_count d)))\<rparr>)"

definition finish_attempt :: "datetime \<Rightarrow> attempt_result \<Rightarrow> webhook_delivery \<Rightarrow> webhook_delivery" where
  "finish_attempt now result d =
     (case result of
        Answered code text \<Rightarrow>
          let d' = d\<lparr>wd_response_code := Some code, wd_response_body := take 4096 text\<rparr> in
          if 200 \<le> code \<and> code < 300 then d'\<lparr>wd_status := SUCCEEDED, wd_next_retry_at := None\<rparr>
          else failed_attempt now d'
      | _ \<Rightarrow> failed_attempt now d)"

definition save_outcome :: "webhook_delivery \<Rightarrow> webhook_delivery \<Rightarrow> webhook_delivery" where
  \<comment> \<open>the columns of the last \<^verbatim>\<open>save\<close>\<close>
  "save_outcome d row = row\<lparr>wd_response_code := wd_response_code d, wd_response_body := wd_response_body d,
     wd_status := wd_status d, wd_next_retry_at := wd_next_retry_at d\<rparr>"

definition complete_delivery :: "env \<Rightarrow> web_platform \<Rightarrow> http_outcome \<Rightarrow> reserved \<Rightarrow> unit action" where
  "complete_delivery e w outcome r =
     (case r of (delivery, endpoint, event) \<Rightarrow>
        bind_op now_op (\<lambda>now.
        case attempt_delivery e w endpoint event outcome now of
          Crashed err \<Rightarrow> throw err
        | result \<Rightarrow>
            modify (\<lambda>s. s\<lparr>webhook_deliveries := update_where (\<lambda>d. wd_id d = wd_id delivery)
              (save_outcome (finish_attempt now result delivery)) (webhook_deliveries s)\<rparr>)))"

definition deliver_webhook :: "env \<Rightarrow> web_platform \<Rightarrow> http_outcome \<Rightarrow> uuid \<Rightarrow> unit action" where
  "deliver_webhook e w outcome delivery_id =
     bind_op (reserve_delivery delivery_id) (\<lambda>reserved.
     case reserved of None \<Rightarrow> ret () | Some r \<Rightarrow> complete_delivery e w outcome r)"

section \<open>Workers\<close>

definition delivery_table_ok :: "webhook_delivery list \<Rightarrow> bool" where
  "delivery_table_ok ds \<longleftrightarrow> distinct (map wd_id ds)"

interpretation delivery_by_id: keyed_table wd_id delivery_table_ok
  by unfold_locales (simp add: delivery_table_ok_def)

definition last_attempt :: "reserved \<Rightarrow> datetime" where
  "last_attempt r = (case wd_last_attempt_at (fst r) of None \<Rightarrow> 0 | Some t \<Rightarrow> t)"

text \<open>
  A configuration is the state together with the deliveries that workers have reserved and not yet
  finished. Time does not pass a reservation by more than the lease of fifteen minutes: an attempt is
  bounded by the client's timeout of ten seconds.
\<close>

inductive delivery_step :: "env \<Rightarrow> web_platform \<Rightarrow> db \<times> reserved list \<Rightarrow> db \<times> reserved list \<Rightarrow> bool"
  for e :: env and w :: web_platform where
  endpoint: "create_endpoint e w owner name url types secret iv s = (r, t) \<Longrightarrow> delivery_step e w (s, fl) (t, fl)"
| event: "emit e type payload s = (r', t) \<Longrightarrow> delivery_step e w (s, fl) (t, fl)"
| dispatch: "dispatch_pending_webhooks e s = (r'', t) \<Longrightarrow> delivery_step e w (s, fl) (t, fl)"
| reserve: "reserve_delivery i s = (Inr (Some d), t) \<Longrightarrow> delivery_step e w (s, fl) (t, d # fl)"
| complete: "d \<in> set fl \<Longrightarrow> complete_delivery e w outcome d s = (Inr (), t) \<Longrightarrow> delivery_step e w (s, fl) (t, remove1 d fl)"
| tick: "clock s \<le> now \<Longrightarrow> \<forall>d\<in>set fl. now < last_attempt d + lease \<Longrightarrow> delivery_step e w (s, fl) (s\<lparr>clock := now\<rparr>, fl)"

text \<open>
  The invariant: a reserved delivery is in flight once, its row is the reserved copy and the only kind
  of row that is \<open>PROCESSING\<close>; the number of attempts goes with the status.
\<close>

definition attempts_ok :: "webhook_delivery \<Rightarrow> bool" where
  "attempts_ok d =
     (case wd_status d of
        DELIVERY_PENDING \<Rightarrow> wd_attempt_count d = 0
      | PROCESSING \<Rightarrow> 1 \<le> wd_attempt_count d \<and> wd_attempt_count d \<le> 8
      | FAILED \<Rightarrow> 1 \<le> wd_attempt_count d \<and> wd_attempt_count d \<le> 7 \<and> wd_next_retry_at d \<noteq> None
      | SUCCEEDED \<Rightarrow> 1 \<le> wd_attempt_count d \<and> wd_attempt_count d \<le> 8
      | ABANDONED \<Rightarrow> wd_attempt_count d = 8)"

definition delivery_inv :: "db \<times> reserved list \<Rightarrow> bool" where
  "delivery_inv c \<longleftrightarrow>
     (case c of (s, fl) \<Rightarrow>
        delivery_table_ok (webhook_deliveries s) \<and> (\<forall>d\<in>set (webhook_deliveries s). wd_id d < next_id s \<and> attempts_ok d) \<and>
        distinct (map (wd_id \<circ> fst) fl) \<and>
        (\<forall>r\<in>set fl. fst r \<in> set (webhook_deliveries s) \<and> wd_status (fst r) = PROCESSING \<and>
           (\<exists>t. wd_last_attempt_at (fst r) = Some t \<and> t \<le> clock s \<and> clock s < t + lease)) \<and>
        (\<forall>d\<in>set (webhook_deliveries s). wd_status d = PROCESSING \<longrightarrow> d \<in> fst ` set fl))"

section \<open>What the steps do\<close>

fun fresh_deliveries :: "nat \<Rightarrow> uuid \<Rightarrow> datetime \<Rightarrow> webhook_endpoint list \<Rightarrow> webhook_delivery list" where
  "fresh_deliveries n event now [] = []"
| "fresh_deliveries n event now (p # ps) = new_delivery n (we_id p) event now # fresh_deliveries (Suc n) event now ps"

lemma create_deliveries_run:
  "create_deliveries event ps s =
     (Inr (), s\<lparr>next_id := next_id s + length ps,
        webhook_deliveries := webhook_deliveries s @ fresh_deliveries (next_id s) event (clock s) ps\<rparr>)"
  by (induction ps arbitrary: s) (simp_all add: op_simps)

lemma fresh_deliveries_ids: "map wd_id (fresh_deliveries n event now ps) = [n..<n + length ps]"
proof (induction ps arbitrary: n)
  case (Cons p ps)
  have "[n..<n + length (p # ps)] = n # [Suc n..<Suc n + length ps]" by (subst upt_rec) simp
  then show ?case using Cons.IH [of "Suc n"] by (simp add: new_delivery_def)
qed simp

lemma fresh_deliveries_endpoints: "map wd_endpoint (fresh_deliveries n event now ps) = map we_id ps"
  by (induction ps arbitrary: n) (simp_all add: new_delivery_def)

lemma fresh_deliveries_row:
  "d \<in> set (fresh_deliveries n event now ps) \<Longrightarrow>
   wd_status d = DELIVERY_PENDING \<and> wd_attempt_count d = 0 \<and> wd_event d = event \<and> wd_next_retry_at d = None"
  by (induction ps arbitrary: n) (auto simp: new_delivery_def)

lemma emit_run:
  obtains ev qs where "emit e type payload s = (Inr ev, s\<lparr>next_id := Suc (next_id s) + length (subscribed s type),
       webhook_events := ev # webhook_events s,
       webhook_deliveries := webhook_deliveries s @ fresh_deliveries (Suc (next_id s)) (next_id s) (clock s) (subscribed s type),
       queued := qs\<rparr>)"
    and "ev = \<lparr>wv_id = next_id s, wv_event_type = type, wv_payload = payload, wv_created_at = clock s\<rparr>"
    and "qs = (if ENABLE_WEBHOOKS (cfg e) \<and> subscribed s type \<noteq> [] then queued s @ [(''dispatch_pending_webhooks'', [])] else queued s)"
proof -
  have "subscribed (s\<lparr>next_id := n, webhook_events := evs\<rparr>) type = subscribed s type" for n evs by (simp add: subscribed_def)
  then show thesis by (intro that) (simp_all add: emit_def op_simps create_deliveries_run Let_def)
qed

lemma create_endpoint_deliveries:
  assumes "create_endpoint e w owner name url types secret iv s = (r, t)"
  shows "webhook_deliveries t = webhook_deliveries s" and "clock t = clock s" and "next_id s \<le> next_id t"
proof -
  have "preserves (\<lambda>t. webhook_deliveries t = webhook_deliveries s \<and> clock t = clock s \<and> next_id s \<le> next_id t)
      (create_endpoint e w owner name url types secret iv)"
    unfolding create_endpoint_def of_option_def Let_def by (intro preserves_intros) auto
  from preserves_run [OF this _ assms] show "webhook_deliveries t = webhook_deliveries s" "clock t = clock s" "next_id s \<le> next_id t"
    by auto
qed

lemma dispatch_deliveries:
  assumes "dispatch_pending_webhooks e s = (r, t)"
  shows "webhook_deliveries t = webhook_deliveries s" and "clock t = clock s" and "next_id t = next_id s"
proof -
  have "preserves (\<lambda>t. webhook_deliveries t = webhook_deliveries s \<and> clock t = clock s \<and> next_id t = next_id s)
      (dispatch_pending_webhooks e)"
    unfolding dispatch_pending_webhooks_def by (intro preserves_intros) auto
  from preserves_run [OF this _ assms] show "webhook_deliveries t = webhook_deliveries s" "clock t = clock s" "next_id t = next_id s"
    by auto
qed

lemma reserve_deliveryE:
  assumes "reserve_delivery i s = (Inr (Some r), t)"
  obtains d where "d \<in> set (webhook_deliveries s)" and "wd_id d = i" and "wd_status d \<notin> {SUCCEEDED, ABANDONED}"
    and "wd_status d = PROCESSING \<longrightarrow> (case wd_last_attempt_at d of None \<Rightarrow> True | Some u \<Rightarrow> u \<le> clock s - lease)"
    and "fst r = start_attempt (clock s) d"
    and "t = s\<lparr>webhook_deliveries := update_where (\<lambda>d. wd_id d = i) (start_attempt (clock s)) (webhook_deliveries s)\<rparr>"
proof -
  from assms obtain d where g: "get_where ''WebhookDelivery'' (\<lambda>d. wd_id d = i) (webhook_deliveries s) = Inr d"
    by (cases "get_where ''WebhookDelivery'' (\<lambda>d. wd_id d = i) (webhook_deliveries s)") (simp_all add: reserve_delivery_def op_simps)
  then have d: "d \<in> set (webhook_deliveries s)" "wd_id d = i" using get_where_InrD [OF g] by blast+
  from assms have "wd_status d \<notin> {SUCCEEDED, ABANDONED}"
    and "wd_status d = PROCESSING \<longrightarrow> (case wd_last_attempt_at d of None \<Rightarrow> True | Some u \<Rightarrow> u \<le> clock s - lease)"
    and "fst r = start_attempt (clock s) d"
    and "t = s\<lparr>webhook_deliveries := update_where (\<lambda>d. wd_id d = i) (start_attempt (clock s)) (webhook_deliveries s)\<rparr>"
    using d(2) by (auto simp: reserve_delivery_def op_simps g split: sum.splits if_splits option.splits)
  with d that show thesis by blast
qed

lemma complete_deliveryE:
  assumes "complete_delivery e w outcome r s = (Inr (), t)"
  obtains result where "\<forall>err. result \<noteq> Crashed err"
    and "t = s\<lparr>webhook_deliveries := update_where (\<lambda>d. wd_id d = wd_id (fst r))
            (save_outcome (finish_attempt (clock s) result (fst r))) (webhook_deliveries s)\<rparr>"
proof -
  obtain d p v where r: "r = (d, p, v)" by (cases r) auto
  let ?res = "attempt_delivery e w p v outcome (clock s)"
  have "\<And>err. ?res \<noteq> Crashed err" using assms r by (auto simp: complete_delivery_def op_simps)
  then show thesis using assms r
    by (intro that [of ?res]) (auto simp: complete_delivery_def op_simps split: attempt_result.splits)
qed

lemma attempt_rows [simp]:
  "wd_id (start_attempt now d) = wd_id d" "wd_status (start_attempt now d) = PROCESSING"
  "wd_attempt_count (start_attempt now d) = Suc (wd_attempt_count d)" "wd_last_attempt_at (start_attempt now d) = Some now"
  "wd_id (save_outcome d' d) = wd_id d" "wd_status (save_outcome d' d) = wd_status d'"
  "wd_attempt_count (save_outcome d' d) = wd_attempt_count d" "wd_next_retry_at (save_outcome d' d) = wd_next_retry_at d'"
  by (simp_all add: start_attempt_def save_outcome_def)

lemma finish_attempt_status:
  assumes "\<forall>err. result \<noteq> Crashed err"
  shows "wd_status (finish_attempt now result d) \<in> {SUCCEEDED, FAILED, ABANDONED}"
    and "wd_status (finish_attempt now result d) = FAILED \<Longrightarrow>
           wd_attempt_count d < 8 \<and> wd_next_retry_at (finish_attempt now result d) = Some (now + seconds (retry_seconds (wd_attempt_count d)))"
    and "wd_status (finish_attempt now result d) = ABANDONED \<Longrightarrow> 8 \<le> wd_attempt_count d"
  using assms by (cases result; auto simp: finish_attempt_def failed_attempt_def Let_def split: if_splits)+

section \<open>The invariant is kept\<close>

lemma delivery_invD:
  assumes "delivery_inv (s, fl)"
  shows "delivery_table_ok (webhook_deliveries s)" and "d \<in> set (webhook_deliveries s) \<Longrightarrow> wd_id d < next_id s"
    and "d \<in> set (webhook_deliveries s) \<Longrightarrow> attempts_ok d" and "distinct (map (wd_id \<circ> fst) fl)"
    and "r \<in> set fl \<Longrightarrow> fst r \<in> set (webhook_deliveries s)" and "r \<in> set fl \<Longrightarrow> wd_status (fst r) = PROCESSING"
    and "r \<in> set fl \<Longrightarrow> \<exists>t. wd_last_attempt_at (fst r) = Some t \<and> t \<le> clock s \<and> clock s < t + lease"
    and "d \<in> set (webhook_deliveries s) \<Longrightarrow> wd_status d = PROCESSING \<Longrightarrow> d \<in> fst ` set fl"
  using assms by (auto simp: delivery_inv_def)

lemma delivery_invI:
  assumes "delivery_table_ok (webhook_deliveries s)" and "\<And>d. d \<in> set (webhook_deliveries s) \<Longrightarrow> wd_id d < next_id s \<and> attempts_ok d"
    and "distinct (map (wd_id \<circ> fst) fl)"
    and "\<And>r. r \<in> set fl \<Longrightarrow> fst r \<in> set (webhook_deliveries s) \<and> wd_status (fst r) = PROCESSING \<and>
           (\<exists>t. wd_last_attempt_at (fst r) = Some t \<and> t \<le> clock s \<and> clock s < t + lease)"
    and "\<And>d. d \<in> set (webhook_deliveries s) \<Longrightarrow> wd_status d = PROCESSING \<Longrightarrow> d \<in> fst ` set fl"
  shows "delivery_inv (s, fl)"
  using assms by (simp add: delivery_inv_def)

lemma delivery_inv_frame:
  assumes "delivery_inv (s, fl)" and "webhook_deliveries t = webhook_deliveries s" and "clock t = clock s" and "next_id s \<le> next_id t"
  shows "delivery_inv (t, fl)"
  using assms by (fastforce simp: delivery_inv_def)

lemma emit_deliveries:
  assumes "emit e type payload s = (r, t)"
  shows "webhook_deliveries t = webhook_deliveries s @ fresh_deliveries (Suc (next_id s)) (next_id s) (clock s) (subscribed s type)"
    and "clock t = clock s" and "next_id t = Suc (next_id s) + length (subscribed s type)"
  by (rule emit_run [of e type payload s], use assms in force)+

lemma delivery_inv_emit:
  assumes "delivery_inv (s, fl)" and "emit e type payload s = (r, t)"
  shows "delivery_inv (t, fl)"
proof -
  let ?new = "fresh_deliveries (Suc (next_id s)) (next_id s) (clock s) (subscribed s type)"
  have t: "webhook_deliveries t = webhook_deliveries s @ ?new" "clock t = clock s" "next_id t = Suc (next_id s) + length (subscribed s type)"
    using emit_deliveries [OF assms(2)] by simp_all
  have ids: "Suc (next_id s) \<le> wd_id d \<and> wd_id d < next_id t" if "d \<in> set ?new" for d
  proof -
    have "wd_id d \<in> set (map wd_id ?new)" using that by simp
    then show ?thesis unfolding fresh_deliveries_ids t(3) by auto
  qed
  have old: "wd_id d < next_id s" if "d \<in> set (webhook_deliveries s)" for d using delivery_invD(2) [OF assms(1) that] .
  have "distinct (map wd_id ?new)" unfolding fresh_deliveries_ids by simp
  moreover have "wd_id ` set (webhook_deliveries s) \<inter> wd_id ` set ?new = {}" using ids old by fastforce
  ultimately have "delivery_table_ok (webhook_deliveries t)"
    using delivery_invD(1) [OF assms(1)] by (simp add: delivery_table_ok_def t(1))
  moreover have "wd_id d < next_id t \<and> attempts_ok d" if "d \<in> set (webhook_deliveries t)" for d
  proof (cases "d \<in> set ?new")
    case True
    then show ?thesis using ids fresh_deliveries_row [OF True] by (simp add: attempts_ok_def)
  next
    case False
    then have "d \<in> set (webhook_deliveries s)" using that t(1) by simp
    then show ?thesis using old [of d] delivery_invD(3) [OF assms(1)] t(3) by simp
  qed
  moreover have "d \<in> fst ` set fl" if "d \<in> set (webhook_deliveries t)" "wd_status d = PROCESSING" for d
    using that t(1) fresh_deliveries_row [of d] delivery_invD(8) [OF assms(1)] by fastforce
  ultimately show ?thesis using assms(1) t unfolding delivery_inv_def by fastforce
qed

lemma delivery_inv_reserve:
  assumes inv: "delivery_inv (s, fl)" and "reserve_delivery i s = (Inr (Some r), t)"
  shows "delivery_inv (t, r # fl)"
proof -
  from assms(2) obtain d where d: "d \<in> set (webhook_deliveries s)" "wd_id d = i" "wd_status d \<notin> {SUCCEEDED, ABANDONED}"
    "wd_status d = PROCESSING \<longrightarrow> (case wd_last_attempt_at d of None \<Rightarrow> True | Some u \<Rightarrow> u \<le> clock s - lease)"
    "fst r = start_attempt (clock s) d"
    "t = s\<lparr>webhook_deliveries := update_where (\<lambda>d. wd_id d = i) (start_attempt (clock s)) (webhook_deliveries s)\<rparr>"
    by (rule reserve_deliveryE)
  note ok = delivery_invD(1) [OF inv]
  have set: "set (webhook_deliveries t) = insert (fst r) (set (webhook_deliveries s) - {d})"
    using delivery_by_id.set_update_by_key [OF ok d(1), of "start_attempt (clock s)"] d(2,5,6) by simp
  have idle: "wd_status d \<noteq> PROCESSING"
  proof
    assume p: "wd_status d = PROCESSING"
    then obtain q where "q \<in> set fl" "fst q = d" using delivery_invD(8) [OF inv d(1)] by auto
    then show False using delivery_invD(7) [OF inv] d(4) p by fastforce
  qed
  have not_in: "fst q \<noteq> d" "wd_id (fst q) \<noteq> i" if "q \<in> set fl" for q
  proof -
    show "fst q \<noteq> d" using delivery_invD(6) [OF inv that] idle by auto
    then show "wd_id (fst q) \<noteq> i" using delivery_by_id.key_determines [OF ok delivery_invD(5) [OF inv that] d(1)] d(2) by auto
  qed
  have "attempts_ok (fst r)" using delivery_invD(3) [OF inv d(1)] d(3,5) idle by (auto simp: attempts_ok_def split: delivery_status.splits)
  moreover have "delivery_table_ok (webhook_deliveries t)" using ok d(6) by (simp add: delivery_table_ok_def update_where_map)
  moreover have "distinct (map (wd_id \<circ> fst) (r # fl))" using delivery_invD(4) [OF inv] not_in(2) d(2,5) by force
  moreover have "wd_id (fst r) < next_id t" using delivery_invD(2) [OF inv d(1)] d(5,6) by simp
  moreover have "0 < lease" by (simp add: lease_def minutes_def)
  ultimately show ?thesis
    using inv not_in set d(5,6) unfolding delivery_inv_def by fastforce
qed

lemma attempts_ok_finish:
  assumes "attempts_ok d" and "wd_status d = PROCESSING" and "\<forall>err. result \<noteq> Crashed err"
  shows "attempts_ok (save_outcome (finish_attempt now result d) d)"
proof -
  have n: "1 \<le> wd_attempt_count d" "wd_attempt_count d \<le> 8" using assms(1,2) by (simp_all add: attempts_ok_def)
  note st = finish_attempt_status [of result now d, OF assms(3)]
  from st(1) consider "wd_status (finish_attempt now result d) = SUCCEEDED" | "wd_status (finish_attempt now result d) = FAILED"
    | "wd_status (finish_attempt now result d) = ABANDONED" by blast
  then show ?thesis by cases (use n st(2,3) in \<open>auto simp: attempts_ok_def\<close>)
qed

lemma delivery_inv_complete:
  assumes inv: "delivery_inv (s, fl)" and r: "r \<in> set fl" and "complete_delivery e w outcome r s = (Inr (), t)"
  shows "delivery_inv (t, remove1 r fl)"
proof -
  from assms(3) obtain result where res: "\<forall>err. result \<noteq> Crashed err"
    and t: "t = s\<lparr>webhook_deliveries := update_where (\<lambda>d. wd_id d = wd_id (fst r))
            (save_outcome (finish_attempt (clock s) result (fst r))) (webhook_deliveries s)\<rparr>"
    by (rule complete_deliveryE)
  let ?n = "save_outcome (finish_attempt (clock s) result (fst r)) (fst r)"
  note ok = delivery_invD(1) [OF inv] and row = delivery_invD(5) [OF inv r]
  have set: "set (webhook_deliveries t) = insert ?n (set (webhook_deliveries s) - {fst r})"
    using delivery_by_id.set_update_by_key [OF ok row] t by simp
  have n: "wd_status ?n \<noteq> PROCESSING" using finish_attempt_status(1) [of result "clock s" "fst r", OF res] by auto
  have dist: "distinct fl" using delivery_invD(4) [OF inv] by (simp add: distinct_map)
  have fl: "set (remove1 r fl) = set fl - {r}" using dist by (simp add: set_remove1_eq)
  have inj: "fst q \<noteq> fst r" if "q \<in> set fl" "q \<noteq> r" for q
    using delivery_invD(4) [OF inv] that r by (auto simp: distinct_map inj_on_def)
  have "delivery_table_ok (webhook_deliveries t)" using ok t by (simp add: delivery_table_ok_def update_where_map)
  moreover have "attempts_ok ?n" using attempts_ok_finish [OF delivery_invD(3) [OF inv row] delivery_invD(6) [OF inv r] res] .
  moreover have "wd_id ?n < next_id t" using delivery_invD(2) [OF inv row] t by simp
  moreover have "distinct (map (wd_id \<circ> fst) (remove1 r fl))" using delivery_invD(4) [OF inv]
    by (metis distinct_map distinct_remove1 inj_on_subset set_remove1_subset)
  ultimately show ?thesis
  proof (intro delivery_invI)
    show "wd_id d < next_id t \<and> attempts_ok d" if "d \<in> set (webhook_deliveries t)" for d
      using that set delivery_invD(2,3) [OF inv] \<open>attempts_ok ?n\<close> \<open>wd_id ?n < next_id t\<close> t by auto
    show "fst q \<in> set (webhook_deliveries t) \<and> wd_status (fst q) = PROCESSING \<and>
        (\<exists>u. wd_last_attempt_at (fst q) = Some u \<and> u \<le> clock t \<and> clock t < u + lease)" if "q \<in> set (remove1 r fl)" for q
      using that fl inj set t delivery_invD(5,6,7) [OF inv, of q] by simp
    show "d \<in> fst ` set (remove1 r fl)" if "d \<in> set (webhook_deliveries t)" "wd_status d = PROCESSING" for d
      using that set n fl delivery_invD(8) [OF inv, of d] by auto
  qed
qed

lemma delivery_inv_tick:
  assumes "delivery_inv (s, fl)" and "clock s \<le> now" and "\<forall>d\<in>set fl. now < last_attempt d + lease"
  shows "delivery_inv (s\<lparr>clock := now\<rparr>, fl)"
proof -
  have "\<exists>t. wd_last_attempt_at (fst r) = Some t \<and> t \<le> now \<and> now < t + lease" if "r \<in> set fl" for r
    using delivery_invD(7) [OF assms(1) that] assms(2,3) that by (force simp: last_attempt_def)
  then show ?thesis using assms(1) by (simp add: delivery_inv_def)
qed

lemma delivery_inv_step: "delivery_step e w c c' \<Longrightarrow> delivery_inv c \<Longrightarrow> delivery_inv c'"
proof (induction rule: delivery_step.induct)
  case (endpoint owner name url types secret iv s r t fl)
  show ?case by (rule delivery_inv_frame [OF endpoint(2)]) (use create_endpoint_deliveries [OF endpoint(1)] in simp_all)
next
  case (event type payload s r' t fl)
  show ?case by (rule delivery_inv_emit [OF event(2,1)])
next
  case (dispatch s r'' t fl)
  show ?case by (rule delivery_inv_frame [OF dispatch(2)]) (use dispatch_deliveries [OF dispatch(1)] in simp_all)
qed (rule delivery_inv_reserve delivery_inv_complete delivery_inv_tick; assumption)+

lemma delivery_inv_steps: "(delivery_step e w)\<^sup>*\<^sup>* c c' \<Longrightarrow> delivery_inv c \<Longrightarrow> delivery_inv c'"
  by (induction rule: rtranclp_induct) (auto intro: delivery_inv_step)

text \<open>A finished delivery is not touched again.\<close>

definition finished :: "webhook_delivery \<Rightarrow> bool" where
  "finished d \<longleftrightarrow> wd_status d \<in> {SUCCEEDED, ABANDONED}"

lemma finished_step:
  assumes "delivery_step e w c c'" and "delivery_inv c" and "d \<in> set (webhook_deliveries (fst c))" and "finished d"
  shows "d \<in> set (webhook_deliveries (fst c'))"
  using assms
proof (induction rule: delivery_step.induct)
  case (endpoint owner name url types secret iv s r t fl)
  then show ?case using create_endpoint_deliveries(1) [OF endpoint(1)] by simp
next
  case (event type payload s r' t fl)
  then show ?case using emit_deliveries(1) [OF event(1)] by simp
next
  case (dispatch s r'' t fl)
  then show ?case using dispatch_deliveries(1) [OF dispatch(1)] by simp
next
  case (reserve i s r t fl)
  from reserve(1) obtain q where q: "q \<in> set (webhook_deliveries s)" "wd_id q = i" "wd_status q \<notin> {SUCCEEDED, ABANDONED}"
    and t: "t = s\<lparr>webhook_deliveries := update_where (\<lambda>d. wd_id d = i) (start_attempt (clock s)) (webhook_deliveries s)\<rparr>"
    by (rule reserve_deliveryE)
  have "d \<noteq> q" using q(3) reserve(4) by (auto simp: finished_def)
  then have "wd_id d \<noteq> i" using delivery_by_id.key_determines [OF delivery_invD(1) [OF reserve(2)] _ q(1)] q(2) reserve(3) by auto
  then show ?case using t reserve(3) by (simp add: update_where_same)
next
  case (complete r fl outcome s t)
  from complete(2) obtain result where t: "t = s\<lparr>webhook_deliveries := update_where (\<lambda>d. wd_id d = wd_id (fst r))
            (save_outcome (finish_attempt (clock s) result (fst r))) (webhook_deliveries s)\<rparr>"
    by (rule complete_deliveryE)
  have "d \<noteq> fst r" using delivery_invD(6) [OF complete(3,1)] complete(5) by (auto simp: finished_def)
  then have "wd_id d \<noteq> wd_id (fst r)"
    using delivery_by_id.key_determines [OF delivery_invD(1) [OF complete(3)] _ delivery_invD(5) [OF complete(3,1)]] complete(4) by auto
  then show ?case using t complete(4) by (simp add: update_where_same)
qed simp

lemma finished_steps:
  assumes "(delivery_step e w)\<^sup>*\<^sup>* c c'" and "delivery_inv c" and "d \<in> set (webhook_deliveries (fst c))" and "finished d"
  shows "d \<in> set (webhook_deliveries (fst c'))"
  using assms
proof (induction rule: rtranclp_induct)
  case (step c' c'')
  have "delivery_inv c'" using delivery_inv_steps [OF step(1) step.prems(1)] .
  then show ?case using finished_step [OF step(2)] step.IH step.prems by blast
qed

lemma retry_seconds_uncapped:
  assumes "1 \<le> n" and "n < 8"
  shows "retry_seconds n = 30 * 2 ^ (n - 1)" and "30 \<le> retry_seconds n" and "retry_seconds n \<le> 1920"
proof -
  have "(2::int) ^ (n - 1) \<le> 2 ^ 6" using assms by (intro power_increasing) auto
  moreover have "(1::int) \<le> 2 ^ (n - 1)" by simp
  ultimately show "retry_seconds n = 30 * 2 ^ (n - 1)" "30 \<le> retry_seconds n" "retry_seconds n \<le> 1920"
    by (simp_all add: retry_seconds_def)
qed

section \<open>Properties\<close>


definition demo_web :: web_platform where
  "demo_web = \<lparr>urlparse = (\<lambda>u. \<lparr>up_scheme = ''https'', up_hostname = Some u, up_username = None, up_password = None, up_port = Inr None\<rparr>),
     getaddrinfo = (\<lambda>h p. Some [h]), is_global = (\<lambda>a. a \<noteq> ''10.0.0.1'')\<rparr>"

definition demo_hooks :: db where
  "demo_hooks = demo_db\<lparr>webhook_endpoints := [\<lparr>we_id = 1, we_owner = None, we_name = ''ci'', we_url = ''93.184.216.34'',
       we_event_types = [''user.created''], we_secret_hash = [], we_encrypted_secret = ''broken'', we_is_active = True, we_created_at = 0\<rparr>],
     webhook_events := [\<lparr>wv_id = 2, wv_event_type = ''user.created'', wv_payload = PDict [], wv_created_at = 0\<rparr>],
     webhook_deliveries := [new_delivery 3 1 2 0]\<rparr>"

lemma demo_hooks_inv: "delivery_inv (demo_hooks, [])"
  by (simp add: delivery_inv_def delivery_table_ok_def attempts_ok_def demo_hooks_def demo_db_def new_delivery_def)


text \<open>
  The back-off of a failed attempt. When an attempt ends in failure and the delivery is to be
  retried, the retry is set to 30 seconds after the first attempt and twice as long after each further
  one; with at most seven failed attempts before the last it stays between 30 seconds and 32 minutes,
  and the cap of one hour is never reached.
\<close>

theorem retry_backoff:
  assumes "delivery_table_ok (webhook_deliveries s)" and "fst r \<in> set (webhook_deliveries s)" and "1 \<le> wd_attempt_count (fst r)"
    and "complete_delivery e w outcome r s = (Inr (), t)"
    and "d \<in> set (webhook_deliveries t)" and "wd_id d = wd_id (fst r)" and "wd_status d = FAILED"
  shows "\<exists>delay. wd_next_retry_at d = Some (clock s + seconds delay) \<and> delay = 30 * 2 ^ (wd_attempt_count d - 1) \<and>
           30 \<le> delay \<and> delay \<le> 1920"
proof -
  from assms(4) obtain result where res: "\<forall>err. result \<noteq> Crashed err"
    and t: "t = s\<lparr>webhook_deliveries := update_where (\<lambda>d. wd_id d = wd_id (fst r))
            (save_outcome (finish_attempt (clock s) result (fst r))) (webhook_deliveries s)\<rparr>"
    by (rule complete_deliveryE)
  let ?n = "save_outcome (finish_attempt (clock s) result (fst r)) (fst r)"
  have "set (webhook_deliveries t) = insert ?n (set (webhook_deliveries s) - {fst r})"
    using delivery_by_id.set_update_by_key [OF assms(1,2)] t by simp
  then have "d = ?n" using assms(5,6) delivery_by_id.key_determines [OF assms(1) _ assms(2)] by auto
  then show ?thesis
    using finish_attempt_status(2) [OF res, of "clock s" "fst r"] assms(3,7) retry_seconds_uncapped [of "wd_attempt_count (fst r)"] by simp
qed

theorem retry_backoff_witness:
  "map wd_next_retry_at (webhook_deliveries (snd (deliver_webhook demo_env demo_web HTTPError 3 (demo_hooks\<lparr>webhook_endpoints :=
       map (\<lambda>p. p\<lparr>we_url := ''10.0.0.1''\<rparr>) (webhook_endpoints demo_hooks)\<rparr>)))) = [Some (clock demo_hooks + seconds 30)]"
proof -
  define s where "s = demo_hooks\<lparr>webhook_endpoints := map (\<lambda>p. p\<lparr>we_url := ''10.0.0.1''\<rparr>) (webhook_endpoints demo_hooks)\<rparr>"
  note defs = s_def reserve_delivery_def op_simps demo_hooks_def get_where_def new_delivery_def start_attempt_def update_where_def
  have ex: "\<exists>r u. reserve_delivery 3 s = (Inr (Some r), u) \<and> webhook_deliveries u = [fst r] \<and> wd_attempt_count (fst r) = 1 \<and>
      wd_id (fst r) = 3 \<and> we_url (fst (snd r)) = ''10.0.0.1'' \<and> clock u = clock demo_hooks"
    by (simp add: defs)
  then obtain r u where r: "reserve_delivery 3 s = (Inr (Some r), u)" "webhook_deliveries u = [fst r]" "wd_attempt_count (fst r) = 1"
    "wd_id (fst r) = 3" "we_url (fst (snd r)) = ''10.0.0.1''" "clock u = clock demo_hooks"
    by (elim exE conjE) (rule that)
  have url: "validate_url demo_env demo_web ''10.0.0.1'' =
      Some (ValidationError ''Webhook URLs cannot resolve to private or reserved addresses.'')"
    by (simp add: validate_url_def demo_web_def truthy_text_def text_or_empty_def)
  have c: "\<exists>d t. complete_delivery demo_env demo_web HTTPError r u = (Inr (), t) \<and> webhook_deliveries t = [d] \<and> wd_status d = FAILED \<and>
      wd_attempt_count d = 1 \<and> wd_id d = 3"
    using r by (cases r) (simp add: complete_delivery_def op_simps attempt_delivery_def url finish_attempt_def failed_attempt_def
        update_where_def save_outcome_def)
  then obtain d t where t: "complete_delivery demo_env demo_web HTTPError r u = (Inr (), t)" "webhook_deliveries t = [d]"
    "wd_status d = FAILED" "wd_attempt_count d = 1" "wd_id d = 3"
    by (elim exE conjE) (rule that)
  have ok: "delivery_table_ok (webhook_deliveries u)" by (simp add: r(2) delivery_table_ok_def)
  have "wd_next_retry_at d = Some (clock demo_hooks + seconds 30)"
    using retry_backoff [OF ok _ _ t(1), of d] r t by simp
  then show ?thesis using r t by (simp add: deliver_webhook_def op_simps s_def [symmetric])
qed

definition retry_after_lease :: "env \<Rightarrow> web_platform \<Rightarrow> http_outcome \<Rightarrow> uuid \<Rightarrow> db \<Rightarrow> db" where
  "retry_after_lease e w outcome i s = (let t = snd (deliver_webhook e w outcome i s) in t\<lparr>clock := clock t + lease\<rparr>)"

definition crashing :: "env \<Rightarrow> web_platform \<Rightarrow> http_outcome \<Rightarrow> webhook_endpoint \<Rightarrow> webhook_event \<Rightarrow> bool" where
  "crashing e w outcome p v \<longleftrightarrow> (\<forall>now. \<exists>err. attempt_delivery e w p v outcome now = Crashed err)"

definition takes_up :: "uuid \<Rightarrow> webhook_delivery \<Rightarrow> webhook_endpoint \<Rightarrow> webhook_event \<Rightarrow> db \<Rightarrow> bool" where
  "takes_up i d p v s \<longleftrightarrow>
     get_where ''WebhookDelivery'' (\<lambda>d. wd_id d = i) (webhook_deliveries s) = Inr d \<and>
     get_where ''WebhookEndpoint'' (\<lambda>p. we_id p = wd_endpoint d) (webhook_endpoints s) = Inr p \<and>
     get_where ''WebhookEvent'' (\<lambda>v. wv_id v = wd_event d) (webhook_events s) = Inr v \<and>
     \<not> finished d \<and> (case wd_last_attempt_at d of None \<Rightarrow> True | Some t \<Rightarrow> t \<le> clock s - lease)"

lemma crash_round:
  assumes up: "takes_up i d p v s" and crash: "crashing e w outcome p v"
  shows "takes_up i (start_attempt (clock s) d) p v (retry_after_lease e w outcome i s)"
proof -
  note g = up [unfolded takes_up_def]
  obtain err where err: "attempt_delivery e w p v outcome (clock s) = Crashed err" using crash by (auto simp: crashing_def)
  have i: "wd_id d = i" using get_where_InrD [OF conjunct1 [OF g]] by blast
  let ?u = "s\<lparr>webhook_deliveries := update_where (\<lambda>d. wd_id d = i) (start_attempt (clock s)) (webhook_deliveries s)\<rparr>"
  have "reserve_delivery i s = (Inr (Some (start_attempt (clock s) d, p, v)), ?u)"
    using g i by (auto simp: reserve_delivery_def op_simps finished_def split: option.splits)
  then have t: "retry_after_lease e w outcome i s = ?u\<lparr>clock := clock s + lease\<rparr>"
    using err by (simp add: retry_after_lease_def deliver_webhook_def op_simps complete_delivery_def)
  have "get_where ''WebhookDelivery'' (\<lambda>d. wd_id d = i) (webhook_deliveries ?u) = Inr (start_attempt (clock s) d)"
    using get_where_update [OF conjunct1 [OF g], of "start_attempt (clock s)"] by simp
  then show ?thesis using g unfolding takes_up_def t by (simp add: finished_def start_attempt_def)
qed

lemma crash_rounds:
  assumes "takes_up i d p v s" and crash: "crashing e w outcome p v"
  shows "\<exists>d'. takes_up i d' p v ((retry_after_lease e w outcome i ^^ n) s) \<and> wd_attempt_count d' = wd_attempt_count d + n"
proof (induction n)
  case 0
  then show ?case using assms(1) by auto
next
  case (Suc n)
  then obtain d' where d': "takes_up i d' p v ((retry_after_lease e w outcome i ^^ n) s)" "wd_attempt_count d' = wd_attempt_count d + n"
    by blast
  show ?case using crash_round [OF d'(1) crash] d'(2)
    by (intro exI [of _ "start_attempt (clock ((retry_after_lease e w outcome i ^^ n) s)) d'"]) simp
qed



fun delivery_runs :: "env \<Rightarrow> web_platform \<Rightarrow> uuid \<Rightarrow> (datetime \<times> http_outcome) list \<Rightarrow> db \<Rightarrow> db" where
  \<comment> \<open>the task runs for the delivery at each of the instants, with that outcome of the request\<close>
  "delivery_runs e w i [] s = s"
| "delivery_runs e w i ((now, outcome) # runs) s = delivery_runs e w i runs (snd (deliver_webhook e w outcome i (s\<lparr>clock := now\<rparr>)))"

definition at_rest :: "uuid \<Rightarrow> webhook_delivery \<Rightarrow> webhook_endpoint \<Rightarrow> webhook_event \<Rightarrow> db \<Rightarrow> bool" where
  "at_rest i d p v s \<longleftrightarrow>
     get_where ''WebhookDelivery'' (\<lambda>d. wd_id d = i) (webhook_deliveries s) = Inr d \<and>
     get_where ''WebhookEndpoint'' (\<lambda>p. we_id p = wd_endpoint d) (webhook_endpoints s) = Inr p \<and>
     get_where ''WebhookEvent'' (\<lambda>v. wv_id v = wd_event d) (webhook_events s) = Inr v \<and>
     attempts_ok d \<and> wd_status d \<noteq> PROCESSING"

lemma attempt_relations [simp]:
  "wd_endpoint (start_attempt now d) = wd_endpoint d" "wd_event (start_attempt now d) = wd_event d"
  "wd_endpoint (save_outcome d' d) = wd_endpoint d" "wd_event (save_outcome d' d) = wd_event d"
  by (simp_all add: start_attempt_def save_outcome_def)

lemma delivery_round:
  assumes rest: "at_rest i d p v s" and handled: "\<And>err. attempt_delivery e w p v outcome (clock s) \<noteq> Crashed err"
  shows "\<exists>d'. at_rest i d' p v (snd (deliver_webhook e w outcome i s)) \<and>
    (if finished d then d' = d else wd_attempt_count d' = Suc (wd_attempt_count d))"
proof (cases "finished d")
  case True
  then have "reserve_delivery i s = (Inr None, s)" using rest by (auto simp: at_rest_def reserve_delivery_def op_simps finished_def)
  then have "snd (deliver_webhook e w outcome i s) = s" by (simp add: deliver_webhook_def op_simps)
  then show ?thesis using rest True by auto
next
  case False
  note g = rest [unfolded at_rest_def]
  have i: "wd_id d = i" using get_where_InrD [OF conjunct1 [OF g]] by blast
  let ?res = "attempt_delivery e w p v outcome (clock s)"
  let ?d = "start_attempt (clock s) d"
  let ?f = "save_outcome (finish_attempt (clock s) ?res ?d)"
  let ?s1 = "s\<lparr>webhook_deliveries := update_where (\<lambda>d. wd_id d = i) (start_attempt (clock s)) (webhook_deliveries s)\<rparr>"
  let ?s2 = "s\<lparr>webhook_deliveries := update_where (\<lambda>d. wd_id d = i) ?f (webhook_deliveries ?s1)\<rparr>"
  have "reserve_delivery i s = (Inr (Some (?d, p, v)), ?s1)"
    using g i False by (auto simp: reserve_delivery_def op_simps finished_def)
  then have run: "snd (deliver_webhook e w outcome i s) = ?s2"
    using handled i by (auto simp: deliver_webhook_def op_simps complete_delivery_def split: attempt_result.splits)
  have "get_where ''WebhookDelivery'' (\<lambda>d. wd_id d = i) (webhook_deliveries ?s1) = Inr ?d"
    using get_where_update [OF conjunct1 [OF g], of "start_attempt (clock s)"] by simp
  from get_where_update [OF this, of ?f]
  have g2: "get_where ''WebhookDelivery'' (\<lambda>d. wd_id d = i) (webhook_deliveries ?s2) = Inr (?f ?d)" by simp
  have count: "wd_attempt_count d \<le> 7" using g False by (auto simp: attempts_ok_def finished_def split: delivery_status.splits)
  have "attempts_ok (?f ?d)" "wd_status (?f ?d) \<noteq> PROCESSING"
    using finish_attempt_status [of ?res "clock s" ?d] handled count by (auto simp: attempts_ok_def split: delivery_status.splits)
  then have "at_rest i (?f ?d) p v ?s2" using g g2 by (simp add: at_rest_def)
  then show ?thesis using False run by (intro exI [of _ "?f ?d"]) simp
qed

lemma at_rest_clock [simp]: "at_rest i d p v (s\<lparr>clock := now\<rparr>) = at_rest i d p v s"
  by (simp add: at_rest_def)

lemma delivery_rounds:
  assumes "at_rest i d p v s" and "\<forall>run\<in>set runs. \<forall>err. attempt_delivery e w p v (snd run) (fst run) \<noteq> Crashed err"
  shows "\<exists>d'. at_rest i d' p v (delivery_runs e w i runs s) \<and>
    (if finished d then d' = d else finished d' \<or> wd_attempt_count d + length runs \<le> wd_attempt_count d')"
  using assms
proof (induction runs arbitrary: s d)
  case (Cons run runs)
  obtain now outcome where run: "run = (now, outcome)" by fastforce
  have "at_rest i d p v (s\<lparr>clock := now\<rparr>)" "\<And>err. attempt_delivery e w p v outcome (clock (s\<lparr>clock := now\<rparr>)) \<noteq> Crashed err"
    using Cons.prems run by simp_all
  from delivery_round [OF this] obtain d1 where d1: "at_rest i d1 p v (snd (deliver_webhook e w outcome i (s\<lparr>clock := now\<rparr>)))"
    "if finished d then d1 = d else wd_attempt_count d1 = Suc (wd_attempt_count d)" by blast
  from Cons.IH [OF d1(1)] Cons.prems(2) obtain d' where d': "at_rest i d' p v (delivery_runs e w i (run # runs) s)"
    "if finished d1 then d' = d1 else finished d' \<or> wd_attempt_count d1 + length runs \<le> wd_attempt_count d'" by (auto simp: run)
  show ?case using d' d1(2) by (intro exI [of _ d']) (auto split: if_splits)
qed auto

text \<open>
  Property C40: sending a delivery ends. However the endpoint answers, if no attempt raises an exception that the task does not
  handle, then after at most eight runs of the task for the delivery, at whatever instants, it has succeeded or is abandoned, and
  it was attempted eight times at most.
\<close>

theorem delivery_terminates:
  assumes "at_rest i d p v s" and "8 \<le> length runs"
    and "\<forall>run\<in>set runs. \<forall>err. attempt_delivery e w p v (snd run) (fst run) \<noteq> Crashed err"
  shows "\<exists>d'. get_where ''WebhookDelivery'' (\<lambda>d. wd_id d = i) (webhook_deliveries (delivery_runs e w i runs s)) = Inr d' \<and>
    wd_status d' \<in> {SUCCEEDED, ABANDONED} \<and> wd_attempt_count d' \<le> 8"
proof -
  obtain d' where d': "at_rest i d' p v (delivery_runs e w i runs s)" "finished d' \<or> wd_attempt_count d + length runs \<le> wd_attempt_count d'"
    using delivery_rounds [OF assms(1,3)] by (auto split: if_splits)
  have "finished d' \<and> wd_attempt_count d' \<le> 8 \<or> wd_attempt_count d' \<le> 7"
    using d'(1) by (auto simp: at_rest_def attempts_ok_def finished_def split: delivery_status.splits)
  then show ?thesis using d' assms(2) by (auto simp: at_rest_def finished_def)
qed

definition demo_refusing :: db where
  "demo_refusing = demo_hooks\<lparr>webhook_endpoints := map (\<lambda>p. p\<lparr>we_url := ''10.0.0.1''\<rparr>) (webhook_endpoints demo_hooks)\<rparr>"

theorem delivery_terminates_witness:
  "\<exists>d'. get_where ''WebhookDelivery'' (\<lambda>d. wd_id d = 3) (webhook_deliveries
      (delivery_runs demo_env demo_web 3 (map (\<lambda>n. (seconds (4000 * int n), HTTPError)) [0..<8]) demo_refusing)) = Inr d' \<and>
    wd_status d' \<in> {SUCCEEDED, ABANDONED}"
proof -
  let ?p = "hd (webhook_endpoints demo_refusing)"
  have "at_rest 3 (new_delivery 3 1 2 0) ?p (hd (webhook_events demo_refusing)) demo_refusing"
    by (simp add: at_rest_def demo_refusing_def demo_hooks_def get_where_def new_delivery_def attempts_ok_def)
  note rest = this
  have "attempt_delivery demo_env demo_web ?p v outcome now = Refused" for v outcome now
    by (simp add: attempt_delivery_def demo_refusing_def demo_hooks_def validate_url_def demo_web_def truthy_text_def text_or_empty_def)
  then have handled: "\<forall>run\<in>set (map (\<lambda>n. (seconds (4000 * int n), HTTPError)) [0..<8]). \<forall>err.
      attempt_delivery demo_env demo_web ?p (hd (webhook_events demo_refusing)) (snd run) (fst run) \<noteq> Crashed err" by simp
  have "8 \<le> length (map (\<lambda>n. (seconds (4000 * int n), HTTPError)) [0..<8])" by simp
  from delivery_terminates [OF rest this handled] show ?thesis by blast
qed

text \<open>
  Emitting an event. It stores the event and one pending delivery for each active endpoint
  that subscribes to the event's type and for no other, leaves the deliveries that exist alone, and queues
  the dispatching task when webhooks are enabled and somebody subscribes.
\<close>

theorem emit_reaches_subscribers:
  "\<exists>ev t new. emit e type payload s = (Inr ev, t) \<and> webhook_events t = ev # webhook_events s \<and>
     wv_event_type ev = type \<and> wv_payload ev = payload \<and>
     webhook_deliveries t = webhook_deliveries s @ new \<and>
     map wd_endpoint new = map we_id (filter (\<lambda>p. we_is_active p \<and> type \<in> set (we_event_types p)) (webhook_endpoints s)) \<and>
     list_all (\<lambda>d. wd_event d = wv_id ev \<and> wd_status d = DELIVERY_PENDING \<and> wd_attempt_count d = 0) new \<and>
     (queued t \<noteq> queued s) = (ENABLE_WEBHOOKS (cfg e) \<and> new \<noteq> [])"
proof -
  let ?new = "fresh_deliveries (Suc (next_id s)) (next_id s) (clock s) (subscribed s type)"
  obtain ev qs where run: "emit e type payload s = (Inr ev, s\<lparr>next_id := Suc (next_id s) + length (subscribed s type),
       webhook_events := ev # webhook_events s, webhook_deliveries := webhook_deliveries s @ ?new, queued := qs\<rparr>)"
    and ev: "ev = \<lparr>wv_id = next_id s, wv_event_type = type, wv_payload = payload, wv_created_at = clock s\<rparr>"
    and qs: "qs = (if ENABLE_WEBHOOKS (cfg e) \<and> subscribed s type \<noteq> [] then queued s @ [(''dispatch_pending_webhooks'', [])] else queued s)"
    by (rule emit_run)
  have "map wd_endpoint ?new = map we_id (subscribed s type)" by (rule fresh_deliveries_endpoints)
  moreover have "(?new = []) = (subscribed s type = [])" by (cases "subscribed s type") simp_all
  moreover have "list_all (\<lambda>d. wd_event d = wv_id ev \<and> wd_status d = DELIVERY_PENDING \<and> wd_attempt_count d = 0) ?new"
    using fresh_deliveries_row ev by (simp add: list_all_iff)
  ultimately show ?thesis
    by (intro exI [of _ ev] exI [of _ "snd (emit e type payload s)"] exI [of _ ?new])
      (simp add: run qs subscribed_def [symmetric], simp add: ev)
qed

text \<open>
  One run of the dispatching task hands out at most a hundred deliveries, no delivery
  twice, and only ones that are due: still to be sent to an active endpoint, and not being attempted at
  this moment by another worker.
\<close>

theorem dispatch_bounded:
  assumes "delivery_table_ok (webhook_deliveries s)"
  shows "length (dispatch_ids s) \<le> 100 \<and> distinct (dispatch_ids s) \<and>
     (\<forall>i\<in>set (dispatch_ids s). \<exists>d\<in>set (webhook_deliveries s). wd_id d = i \<and> endpoint_active s d \<and> \<not> finished d \<and>
        (wd_status d = PROCESSING \<longrightarrow> (\<exists>t. wd_last_attempt_at d = Some t \<and> t < clock s - lease)))"
proof -
  note ids = assms [unfolded delivery_table_ok_def]
  have "length (dispatch_ids s) \<le> 100" unfolding dispatch_ids_def Let_def length_append length_take by linarith
  moreover have "distinct (dispatch_ids s)"
    unfolding dispatch_ids_def Let_def distinct_append set_append Int_Un_distrib Un_empty
    by (intro conjI distinct_page pages_disjoint ids) auto
  moreover have "\<exists>d\<in>set (webhook_deliveries s). wd_id d = i \<and> endpoint_active s d \<and> \<not> finished d \<and>
        (wd_status d = PROCESSING \<longrightarrow> (\<exists>t. wd_last_attempt_at d = Some t \<and> t < clock s - lease))" if "i \<in> set (dispatch_ids s)" for i
  proof -
    from that obtain d where "d \<in> set (webhook_deliveries s)" "i = wd_id d" "endpoint_active s d"
      "wd_status d \<in> {DELIVERY_PENDING, FAILED} \<or> wd_status d = PROCESSING \<and> (\<exists>t. wd_last_attempt_at d = Some t \<and> t < clock s - lease)"
      by (auto simp: dispatch_ids_def Let_def dest!: in_set_takeD split: option.splits)
    then show ?thesis by (intro bexI [of _ d]) (auto simp: finished_def)
  qed
  ultimately show ?thesis by blast
qed

theorem dispatch_bounded_witness: "length (dispatch_ids demo_hooks) \<le> 100 \<and> distinct (dispatch_ids demo_hooks) \<and> dispatch_ids demo_hooks = [3]"
proof -
  have "delivery_table_ok (webhook_deliveries demo_hooks)" by (simp add: delivery_table_ok_def demo_hooks_def)
  moreover have "dispatch_ids demo_hooks = [3]"
    by (simp add: dispatch_ids_def demo_hooks_def new_delivery_def endpoint_active_def)
  ultimately show ?thesis using dispatch_bounded [of demo_hooks] by blast
qed

end
