(* ===== verification/Notifications.thy ===== *)
theory Notifications
  imports Access Mail
begin

text \<open>
  In-app and e-mail notifications: \<^verbatim>\<open>NotificationService.notify\<close>, the retention task, and the view set
  \<^verbatim>\<open>NotificationViewSet\<close>, whose query set is that of the signed-in user.
\<close>

section \<open>NotificationService\<close>

record notification_message =
  nm_type :: string
  nm_title :: string
  nm_message :: string
  nm_data :: pyval
  nm_expires_at :: "datetime option"

definition message_value :: "notification_message \<Rightarrow> pyval" where
  \<comment> \<open>\<^verbatim>\<open>asdict(message)\<close>\<close>
  "message_value m = PDict [(''type'', PStr (nm_type m)), (''title'', PStr (nm_title m)), (''message'', PStr (nm_message m)),
     (''data'', nm_data m), (''expires_at'', case nm_expires_at m of None \<Rightarrow> PNone | Some t \<Rightarrow> PDatetime t)]"

definition notification_create :: "uuid \<Rightarrow> notification_message \<Rightarrow> notification action" where
  "notification_create user m =
     bind_op fresh_id (\<lambda>i. bind_op now_op (\<lambda>now.
     let row = \<lparr>nt_id = i, nt_user = user, nt_type = nm_type m, nt_title = nm_title m, nt_message = nm_message m,
                nt_data = nm_data m, nt_read_at = None, nt_created_at = now, nt_expires_at = nm_expires_at m\<rparr> in
     then_op (modify (\<lambda>s. s\<lparr>notifications := row # notifications s\<rparr>)) (ret row)))"

definition notify :: "env \<Rightarrow> user \<Rightarrow> notification_message \<Rightarrow> string list \<Rightarrow> notification option action" where
  "notify e user m channels =
     bind_op (if ENABLE_NOTIFICATIONS (cfg e) \<and> ''in_app'' \<in> set channels
              then bind_op (notification_create (u_id user) m) (\<lambda>row. ret (Some row)) else ret None) (\<lambda>notification.
     bind_op (preferences_of (u_id user)) (\<lambda>prefs.
     then_op (when_op (''email'' \<in> set channels \<and> pr_email_notifications prefs)
        (enqueue_email e ''notification'' (u_email user) (nm_title m)
           [(''user'', UserObject user), (''notification'', Plain (message_value m))]))
     (ret notification)))"

definition notification_outdated :: "datetime \<Rightarrow> datetime \<Rightarrow> notification \<Rightarrow> bool" where
  "notification_outdated now cutoff n \<longleftrightarrow>
     (case nt_expires_at n of None \<Rightarrow> False | Some t \<Rightarrow> t < now) \<or> (nt_created_at n < cutoff \<and> nt_read_at n \<noteq> None)"

definition cleanup_notifications :: "env \<Rightarrow> nat action" where
  "cleanup_notifications e =
     bind_op now_op (\<lambda>now.
     let old = notification_outdated now (now - days (NOTIFICATION_RETENTION_DAYS (cfg e))) in
     bind_op (reads (\<lambda>s. count_where old (notifications s))) (\<lambda>deleted.
     then_op (modify (\<lambda>s. s\<lparr>notifications := delete_where old (notifications s)\<rparr>)) (ret deleted)))"

section \<open>NotificationViewSet\<close>

definition notification_scopes :: view_scopes where
  "notification_scopes = \<lparr>required_api_key_scopes = Some [''notifications.read''], required_api_key_scopes_by_method = None\<rparr>"

definition visible_to :: "db \<Rightarrow> user option \<Rightarrow> notification \<Rightarrow> bool" where
  \<comment> \<open>\<^verbatim>\<open>get_queryset\<close>\<close>
  "visible_to s who n \<longleftrightarrow> map_option u_id who = Some (nt_user n) \<and>
     (case nt_expires_at n of None \<Rightarrow> True | Some t \<Rightarrow> t > clock s)"

definition notification_of :: "api_request \<Rightarrow> uuid \<Rightarrow> notification action" where
  \<comment> \<open>\<^verbatim>\<open>get_object()\<close>\<close>
  "notification_of q i = bind_op (reads (\<lambda>s. first_where (\<lambda>n. nt_id n = i \<and> visible_to s (ar_user q) n) (notifications s)))
     (\<lambda>found. case found of None \<Rightarrow> throw NotFound | Some n \<Rightarrow> ret n)"

definition is_read :: "notification \<Rightarrow> bool" where
  "is_read n \<longleftrightarrow> nt_read_at n \<noteq> None"

definition time_value :: "env \<Rightarrow> datetime option \<Rightarrow> pyval" where
  "time_value e x = (case x of None \<Rightarrow> PNone | Some t \<Rightarrow> PStr (isoformat (plat e) t))"

definition notification_data :: "env \<Rightarrow> notification \<Rightarrow> pyval" where
  \<comment> \<open>\<^verbatim>\<open>NotificationSerializer(n).data\<close>\<close>
  "notification_data e n = PDict [(''id'', PStr (uuid_str (plat e) (nt_id n))), (''type'', PStr (nt_type n)), (''title'', PStr (nt_title n)),
     (''message'', PStr (nt_message n)), (''data'', nt_data n), (''is_read'', PBool (is_read n)),
     (''read_at'', time_value e (nt_read_at n)), (''created_at'', PStr (isoformat (plat e) (nt_created_at n))),
     (''expires_at'', time_value e (nt_expires_at n))]"

definition notification_guard :: "api_request \<Rightarrow> response action \<Rightarrow> response action" where
  "notification_guard q view = guarded q (default_permissions q notification_scopes) view"

definition notification_retrieve :: "env \<Rightarrow> api_request \<Rightarrow> uuid \<Rightarrow> response action" where
  "notification_retrieve e q i = notification_guard q
     (bind_op (notification_of q i) (\<lambda>n. ret (success_response (notification_data e n))))"

definition notification_mark_read :: "env \<Rightarrow> api_request \<Rightarrow> uuid \<Rightarrow> response action" where
  "notification_mark_read e q i = notification_guard q
     (bind_op (notification_of q i) (\<lambda>n.
      if nt_read_at n \<noteq> None then ret (success_response (notification_data e n))
      else bind_op now_op (\<lambda>now.
        then_op (modify (\<lambda>s. s\<lparr>notifications := update_where (\<lambda>m. nt_id m = nt_id n) (\<lambda>m. m\<lparr>nt_read_at := Some now\<rparr>) (notifications s)\<rparr>))
        (ret (success_response (notification_data e (n\<lparr>nt_read_at := Some now\<rparr>)))))))"

definition notification_mark_all_read :: "api_request \<Rightarrow> response action" where
  "notification_mark_all_read q = notification_guard q
     (bind_op now_op (\<lambda>now.
      bind_op (reads (\<lambda>s. \<lambda>n. visible_to s (ar_user q) n \<and> nt_read_at n = None)) (\<lambda>unread.
      bind_op (reads (\<lambda>s. count_where unread (notifications s))) (\<lambda>count.
      then_op (modify (\<lambda>s. s\<lparr>notifications := update_where unread (\<lambda>n. n\<lparr>nt_read_at := Some now\<rparr>) (notifications s)\<rparr>))
      (ret (success_response (PDict [(''updated_count'', PInt (int count))])))))))"

definition notification_destroy :: "api_request \<Rightarrow> uuid \<Rightarrow> response action" where
  "notification_destroy q i = notification_guard q
     (bind_op (notification_of q i) (\<lambda>n.
      then_op (modify (\<lambda>s. s\<lparr>notifications := delete_where (\<lambda>m. nt_id m = nt_id n) (notifications s)\<rparr>))
      (ret (success_response (PDict [(''deleted'', PBool True)])))))"

section \<open>Properties\<close>

definition notification_table_ok :: "notification list \<Rightarrow> bool" where
  "notification_table_ok t \<longleftrightarrow> distinct (map nt_id t)"

interpretation notification_by_id: keyed_table nt_id notification_table_ok
  by unfold_locales (simp add: notification_table_ok_def)

lemma notification_ofD:
  assumes "notification_of q i s = (Inr n, t)"
  shows "t = s" and "n \<in> set (notifications s)" and "nt_id n = i" and "visible_to s (ar_user q) n"
proof -
  from assms have f: "first_where (\<lambda>n. nt_id n = i \<and> visible_to s (ar_user q) n) (notifications s) = Some n" and "t = s"
    by (auto simp: notification_of_def op_simps split: option.splits)
  then show "t = s" "n \<in> set (notifications s)" "nt_id n = i" "visible_to s (ar_user q) n" using first_where_SomeD [OF f] by auto
qed

lemma notification_of_pure: "snd (notification_of q i s) = s"
  by (simp add: notification_of_def op_simps split: option.splits)

lemma filter_update_other:
  assumes "\<And>n. n \<in> set t \<Longrightarrow> P n \<Longrightarrow> \<not> Q n" and "\<And>n. Q (f n) = Q n"
  shows "filter Q (update_where P f t) = filter Q t"
  using assms by (induction t) (auto simp: update_where_def)

lemma filter_delete_other:
  assumes "\<And>n. n \<in> set t \<Longrightarrow> P n \<Longrightarrow> \<not> Q n"
  shows "filter Q (delete_where P t) = filter Q t"
  using assms by (induction t) (auto simp: delete_where_def)

lemma notification_change:
  assumes "notification_table_ok (notifications s)"
    and "notification_mark_read e q i s = (r, t) \<or> notification_mark_all_read q s = (r, t) \<or> notification_destroy q i s = (r, t)"
  obtains (none) "t = s"
    | (update) P now where "\<forall>p\<in>set (default_permissions q notification_scopes). p s = Inr True"
        and "\<forall>n\<in>set (notifications s). P n \<longrightarrow> visible_to s (ar_user q) n"
        and "t = s\<lparr>notifications := update_where P (\<lambda>n. n\<lparr>nt_read_at := Some now\<rparr>) (notifications s)\<rparr>"
    | (delete) P where "\<forall>p\<in>set (default_permissions q notification_scopes). p s = Inr True"
        and "\<forall>n\<in>set (notifications s). P n \<longrightarrow> visible_to s (ar_user q) n"
        and "t = s\<lparr>notifications := delete_where P (notifications s)\<rparr>"
proof -
  let ?granted = "\<forall>p\<in>set (default_permissions q notification_scopes). p s = Inr True"
  have one: "thesis" if g: ?granted and n: "notification_of q i s = (Inr n, u)"
    and t: "t = s\<lparr>notifications := update_where (\<lambda>m. nt_id m = nt_id n) (\<lambda>m. m\<lparr>nt_read_at := Some now\<rparr>) (notifications s)\<rparr> \<or>
            t = s\<lparr>notifications := delete_where (\<lambda>m. nt_id m = nt_id n) (notifications s)\<rparr>" for n u now
  proof -
    have "\<forall>m\<in>set (notifications s). nt_id m = nt_id n \<longrightarrow> visible_to s (ar_user q) m"
      using notification_ofD(2,4) [OF n] notification_by_id.key_determines [OF assms(1) _ notification_ofD(2) [OF n]] by blast
    then have vis: "\<forall>m\<in>set (notifications s). nt_id m = nt_id n \<longrightarrow> visible_to s (ar_user q) m" .
    from t show thesis
    proof
      assume "t = s\<lparr>notifications := update_where (\<lambda>m. nt_id m = nt_id n) (\<lambda>m. m\<lparr>nt_read_at := Some now\<rparr>) (notifications s)\<rparr>"
      then show thesis by (rule update [OF g vis])
    next
      assume "t = s\<lparr>notifications := delete_where (\<lambda>m. nt_id m = nt_id n) (notifications s)\<rparr>"
      then show thesis by (rule delete [OF g vis])
    qed
  qed
  consider (read) "notification_mark_read e q i s = (r, t)" | (all) "notification_mark_all_read q s = (r, t)"
    | (gone) "notification_destroy q i s = (r, t)" using assms(2) by blast
  then show thesis
  proof cases
    case read
    from guarded_result [OF this [unfolded notification_mark_read_def notification_guard_def]]
    have "t = s \<or> ?granted \<and> (\<exists>n u now. notification_of q i s = (Inr n, u) \<and>
        t = s\<lparr>notifications := update_where (\<lambda>m. nt_id m = nt_id n) (\<lambda>m. m\<lparr>nt_read_at := Some now\<rparr>) (notifications s)\<rparr>)"
      using notification_of_pure [of q i s]
      by (cases "notification_of q i s") (auto simp: op_simps split: sum.splits if_splits)
    then show thesis by (elim disjE conjE exE) (erule none, rule one, assumption, assumption, erule disjI1)
  next
    case all
    from guarded_result [OF this [unfolded notification_mark_all_read_def notification_guard_def]]
    have "t = s \<or> ?granted \<and> t = s\<lparr>notifications := update_where (\<lambda>n. visible_to s (ar_user q) n \<and> nt_read_at n = None)
        (\<lambda>n. n\<lparr>nt_read_at := Some (clock s)\<rparr>) (notifications s)\<rparr>" by (auto simp: op_simps)
    then show thesis
    proof (elim disjE conjE)
      assume g: ?granted and t: "t = s\<lparr>notifications := update_where (\<lambda>n. visible_to s (ar_user q) n \<and> nt_read_at n = None)
        (\<lambda>n. n\<lparr>nt_read_at := Some (clock s)\<rparr>) (notifications s)\<rparr>"
      show thesis by (rule update [OF g _ t]) simp
    qed (rule none)
  next
    case gone
    from guarded_result [OF this [unfolded notification_destroy_def notification_guard_def]]
    have "t = s \<or> ?granted \<and> (\<exists>n u. notification_of q i s = (Inr n, u) \<and>
        t = s\<lparr>notifications := delete_where (\<lambda>m. nt_id m = nt_id n) (notifications s)\<rparr>)"
      using notification_of_pure [of q i s]
      by (cases "notification_of q i s") (auto simp: op_simps split: sum.splits)
    then show thesis by (elim disjE conjE exE) (erule none, rule one, assumption, assumption, erule disjI2)
  qed
qed

lemma notification_retrieve_own:
  assumes "notification_retrieve e q i s = (Inr answer, t)"
  shows "\<exists>n\<in>set (notifications s). nt_id n = i \<and> map_option u_id (ar_user q) = Some (nt_user n) \<and>
    answer = success_response (notification_data e n)"
proof -
  from guarded_result [OF assms [unfolded notification_retrieve_def notification_guard_def]] assms
  have "bind_op (notification_of q i) (\<lambda>n. ret (success_response (notification_data e n))) s = (Inr answer, t)"
    by (cases rule: guarded_cases [of q "default_permissions q notification_scopes"
          "bind_op (notification_of q i) (\<lambda>n. ret (success_response (notification_data e n)))" s])
      (auto simp: notification_retrieve_def notification_guard_def)
  then obtain n u where n: "notification_of q i s = (Inr n, u)" and a: "answer = success_response (notification_data e n)"
    by (cases "notification_of q i s") (auto simp: op_simps split: sum.splits)
  from notification_ofD [OF n] a show ?thesis by (auto simp: visible_to_def)
qed

text \<open>
  The notification API is scoped to its caller. What it shows is a notification of the user who
  asks; whatever it changes, the notifications of everybody else and the expired ones stay exactly as they
  are, in order; an anonymous request, or one whose API key lacks the scope, changes nothing at all.
\<close>

theorem notifications_owner_scoped:
  assumes "notification_table_ok (notifications s)"
    and "notification_mark_read e q i s = (r, t) \<or> notification_mark_all_read q s = (r, t) \<or> notification_destroy q i s = (r, t)"
  defines "foreign \<equiv> \<lambda>n. map_option u_id (ar_user q) \<noteq> Some (nt_user n)"
    and "expired \<equiv> \<lambda>n. \<exists>x. nt_expires_at n = Some x \<and> x \<le> clock s"
  shows "filter foreign (notifications t) = filter foreign (notifications s) \<and>
     filter expired (notifications t) = filter expired (notifications s) \<and>
     (ar_user q = None \<or> \<not> has_api_key_scope (ar_key q) notification_scopes (ar_method q) \<longrightarrow> t = s) \<and>
     (\<forall>answer u. notification_retrieve e q i s = (Inr answer, u) \<longrightarrow>
        (\<exists>n\<in>set (notifications s). nt_id n = i \<and> \<not> foreign n \<and> answer = success_response (notification_data e n)))"
proof (intro conjI)
  have off: "\<not> foreign n \<and> \<not> expired n" if "visible_to s (ar_user q) n" for n
    using that by (auto simp: visible_to_def foreign_def expired_def split: option.splits)
  have keep: "foreign (n\<lparr>nt_read_at := x\<rparr>) = foreign n" "expired (n\<lparr>nt_read_at := x\<rparr>) = expired n" for n x
    by (simp_all add: foreign_def expired_def)
  from assms(1,2) have "filter foreign (notifications t) = filter foreign (notifications s) \<and>
      filter expired (notifications t) = filter expired (notifications s) \<and>
      (ar_user q = None \<or> \<not> has_api_key_scope (ar_key q) notification_scopes (ar_method q) \<longrightarrow> t = s)"
  proof (cases rule: notification_change)
    case (update P now)
    then show ?thesis using off
      by (auto simp: default_permissions_def is_authenticated_def has_scope_def keep intro!: filter_update_other)
  next
    case (delete P)
    then show ?thesis using off
      by (auto simp: default_permissions_def is_authenticated_def has_scope_def intro!: filter_delete_other)
  qed simp
  then show "filter foreign (notifications t) = filter foreign (notifications s)"
    "filter expired (notifications t) = filter expired (notifications s)"
    "ar_user q = None \<or> \<not> has_api_key_scope (ar_key q) notification_scopes (ar_method q) \<longrightarrow> t = s" by blast+
qed (use notification_retrieve_own in \<open>auto simp: foreign_def\<close>)

definition demo_notification :: "uuid \<Rightarrow> uuid \<Rightarrow> notification" where
  "demo_notification i user = \<lparr>nt_id = i, nt_user = user, nt_type = ''info'', nt_title = ''t'', nt_message = ''m'', nt_data = PDict [],
     nt_read_at = None, nt_created_at = 0, nt_expires_at = None\<rparr>"

definition demo_reader :: api_request where
  "demo_reader = \<lparr>ar_request = demo_request, ar_method = ''POST'', ar_path = ''/api/v1/notifications/read-all/'', ar_body = [],
     ar_idempotency_key = None, ar_user = Some demo_user, ar_key = None\<rparr>"

definition demo_inbox :: db where
  "demo_inbox = demo_db\<lparr>notifications := [demo_notification 1 7, demo_notification 2 8]\<rparr>"

theorem notifications_owner_scoped_witness:
  "\<exists>r t. notification_mark_all_read demo_reader demo_inbox = (r, t) \<and> map nt_read_at (notifications t) = [Some 0, None] \<and>
     filter (\<lambda>n. Some (u_id demo_user) \<noteq> Some (nt_user n)) (notifications t) = [demo_notification 2 8]"
proof -
  have ok: "notification_table_ok (notifications demo_inbox)"
    by (simp add: notification_table_ok_def demo_inbox_def demo_notification_def)
  have user: "ar_user demo_reader = Some demo_user" "ar_key demo_reader = None" by (simp_all add: demo_reader_def)
  obtain r t where r: "notification_mark_all_read demo_reader demo_inbox = (r, t)" by fastforce
  have "map nt_read_at (notifications t) = [Some 0, None]" using r user
    by (auto simp: notification_mark_all_read_def notification_guard_def guarded_def default_permissions_def is_authenticated_def
        has_scope_def has_api_key_scope_def op_simps visible_to_def demo_inbox_def demo_notification_def demo_user_def
        update_where_def demo_db_def empty_db_def)
  moreover have "filter (\<lambda>n. Some (u_id demo_user) \<noteq> Some (nt_user n)) (notifications demo_inbox) = [demo_notification 2 8]"
    by (simp add: demo_inbox_def demo_notification_def demo_user_def)
  ultimately show ?thesis using notifications_owner_scoped [OF ok, of demo_env demo_reader 1 r t] r user by auto
qed

end
