(* ===== verification/Files.thy ===== *)
theory Files
  imports Environment
begin

text \<open>
  File uploads: \<^verbatim>\<open>SecureFileValidator\<close>, \<^verbatim>\<open>FileService.store\<close>, the upload path and the clean-up task. The
  detection of the content type, the image library and the malware scanner are arguments; an upload is its
  name, its declared size and its content, and since the validator rewinds the file after each use, the
  read position is not kept. The storage back end is outside: a row keeps the name that the field asks for.
\<close>

section \<open>Outside code\<close>

datatype verify_outcome = Verified | VerifyCaught | VerifyRaises error

datatype image_outcome = ImageOpened int int verify_outcome | OpenCaught | OpenRaises error

text \<open>
  \<open>VerifyCaught\<close> and \<open>OpenCaught\<close> stand for the three classes of exceptions that the validator handles.
\<close>

record file_tools =
  guess_mime :: "string \<Rightarrow> string option"
  image_open :: "string \<Rightarrow> image_outcome"

record uploaded_file =
  uf_name :: string
  uf_size :: int
  uf_content :: string

section \<open>validators.py\<close>

record secure_file_validator =
  allowed_extensions :: "string list"
  allowed_mime_types :: "string list"
  max_size :: int
  malware_scanner :: "(uploaded_file \<Rightarrow> error option) option"

definition py_lstrip_dots :: "string \<Rightarrow> string" where
  "py_lstrip_dots t = dropWhile (\<lambda>c. c = CHR ''.'') t"

definition make_validator ::
    "env \<Rightarrow> string list \<Rightarrow> string list \<Rightarrow> int option \<Rightarrow> (uploaded_file \<Rightarrow> error option) option \<Rightarrow> secure_file_validator" where
  \<comment> \<open>\<^verbatim>\<open>SecureFileValidator(...)\<close>; a maximum of zero counts as none\<close>
  "make_validator e extensions mimes limit scanner =
     \<lparr>allowed_extensions = map (py_lstrip_dots \<circ> py_lower) extensions, allowed_mime_types = mimes,
      max_size = (case limit of None \<Rightarrow> MAX_UPLOAD_SIZE (cfg e) | Some n \<Rightarrow> if n = 0 then MAX_UPLOAD_SIZE (cfg e) else n),
      malware_scanner = scanner\<rparr>"

definition after_last_dot :: "string \<Rightarrow> string" where
  \<comment> \<open>\<^verbatim>\<open>t.rsplit(".", 1)[-1]\<close>\<close>
  "after_last_dot t = rev (takeWhile (\<lambda>c. c \<noteq> CHR ''.'') (rev t))"

definition path_parts :: "string \<Rightarrow> string list" where
  \<comment> \<open>the components of a POSIX path, without empty ones and without \<^verbatim>\<open>.\<close>\<close>
  "path_parts t = filter (\<lambda>p. p \<noteq> [] \<and> p \<noteq> ''.'') (rev (foldl (\<lambda>acc c.
      if c = CHR ''/'' then [] # acc else case acc of [] \<Rightarrow> [[c]] | p # ps \<Rightarrow> (p @ [c]) # ps) [[]] t))"

definition path_suffix :: "string \<Rightarrow> string" where
  \<comment> \<open>\<^verbatim>\<open>Path(t).suffix\<close>: from the last dot of the last component, unless it begins or ends it\<close>
  "path_suffix t =
     (let name = (case path_parts t of [] \<Rightarrow> [] | ps \<Rightarrow> last ps);
          ext = after_last_dot name;
          before = length name - Suc (length ext)
      in if CHR ''.'' \<in> set name \<and> ext \<noteq> [] \<and> 0 < before then CHR ''.'' # ext else [])"

definition file_extension :: "string \<Rightarrow> string" where
  "file_extension name = py_lstrip_dots (py_lower (path_suffix name))"

definition detected_mime :: "file_tools \<Rightarrow> uploaded_file \<Rightarrow> string" where
  "detected_mime ft f =
     (case guess_mime ft (take (nat (min (uf_size f) 262144)) (uf_content f)) of
        None \<Rightarrow> ''application/octet-stream'' | Some m \<Rightarrow> m)"

definition check_image :: "env \<Rightarrow> file_tools \<Rightarrow> uploaded_file \<Rightarrow> error option" where
  \<comment> \<open>the \<^verbatim>\<open>try\<close> block; its \<^verbatim>\<open>ValidationError\<close> is not one of the exceptions it handles\<close>
  "check_image e ft f =
     (case image_open ft (uf_content f) of
        OpenCaught \<Rightarrow> Some (ValidationError ''invalid_image'')
      | OpenRaises err \<Rightarrow> Some err
      | ImageOpened w h check \<Rightarrow>
          if w * h > MAX_IMAGE_PIXELS (cfg e) then Some (ValidationError ''image_too_large'')
          else (case check of
                  Verified \<Rightarrow> None
                | VerifyCaught \<Rightarrow> Some (ValidationError ''invalid_image'')
                | VerifyRaises err \<Rightarrow> Some err))"

record file_metadata =
  fm_content_type :: string
  fm_size :: int
  fm_checksum :: string

definition validate_file :: "env \<Rightarrow> file_tools \<Rightarrow> secure_file_validator \<Rightarrow> uploaded_file \<Rightarrow> error + file_metadata" where
  \<comment> \<open>\<^verbatim>\<open>SecureFileValidator.__call__\<close>\<close>
  "validate_file e ft v f =
     (if file_extension (uf_name f) \<notin> set (allowed_extensions v) then Inl (ValidationError ''invalid_extension'')
      else if uf_size f > max_size v then Inl (ValidationError ''file_too_large'')
      else
        let mime = detected_mime ft f in
        if mime \<notin> set (allowed_mime_types v) then Inl (ValidationError ''invalid_content_type'')
        else case (if startswith ''image/'' mime then check_image e ft f else None) of
            Some err \<Rightarrow> Inl err
          | None \<Rightarrow>
              (case (case malware_scanner v of None \<Rightarrow> None | Some scan \<Rightarrow> scan f) of
                 Some err \<Rightarrow> Inl err
               | None \<Rightarrow> Inr \<lparr>fm_content_type = mime, fm_size = uf_size f,
                              fm_checksum = sha256_hex (plat e) (uf_content f)\<rparr>))"

section \<open>models.py and services.py\<close>

definition secure_upload_path :: "env \<Rightarrow> uuid option \<Rightarrow> uuid \<Rightarrow> string \<Rightarrow> string" where
  \<comment> \<open>the third argument is the random identifier of the file name\<close>
  "secure_upload_path e owner unique filename =
     (let extension = (if CHR ''.'' \<in> set filename then py_lower (after_last_dot filename) else ''bin'');
          directory = (case owner of None \<Rightarrow> ''system'' | Some u \<Rightarrow> uuid_str (plat e) u)
      in ''uploads/'' @ directory @ ''/'' @ uuid_hex (plat e) unique @ ''.'' @ extension)"

definition store_file ::
    "env \<Rightarrow> file_tools \<Rightarrow> uuid option \<Rightarrow> uploaded_file \<Rightarrow> secure_file_validator \<Rightarrow> stored_file action" where
  "store_file e ft owner f v = atomic
     (bind_op (of_sum (validate_file e ft v f)) (\<lambda>metadata.
      bind_op fresh_id (\<lambda>i. bind_op fresh_id (\<lambda>unique. bind_op now_op (\<lambda>now.
      let row = \<lparr>sf_id = i, sf_owner = owner, sf_file = secure_upload_path e owner unique (uf_name f),
                 sf_original_name = take 255 (uf_name f), sf_content_type = fm_content_type metadata,
                 sf_size = nat (fm_size metadata), sf_checksum_sha256 = fm_checksum metadata, sf_status = READY,
                 sf_created_at = now, sf_deleted_at = None\<rparr> in
      then_op (modify (\<lambda>s. s\<lparr>stored_files := row # stored_files s\<rparr>)) (ret row))))))"

section \<open>tasks.py\<close>

definition unused_file :: "datetime \<Rightarrow> stored_file \<Rightarrow> bool" where
  "unused_file cutoff r \<longleftrightarrow> sf_status r = FILE_PENDING \<and> sf_created_at r < cutoff \<and> sf_deleted_at r = None"

definition remove_file :: "stored_file \<Rightarrow> unit action" where
  \<comment> \<open>one round of the loop\<close>
  "remove_file r =
     then_op (modify (\<lambda>s. s\<lparr>deleted_files := sf_file r # deleted_files s\<rparr>))
     (bind_op now_op (\<lambda>now. modify (\<lambda>s. s\<lparr>stored_files :=
        update_where (\<lambda>q. sf_id q = sf_id r) (\<lambda>q. q\<lparr>sf_deleted_at := Some now\<rparr>) (stored_files s)\<rparr>)))"

definition cleanup_unused_files :: "env \<Rightarrow> nat action" where
  "cleanup_unused_files e =
     bind_op now_op (\<lambda>now.
     bind_op (reads (\<lambda>s. filter (unused_file (now - days (FILE_RETENTION_DAYS (cfg e)))) (stored_files s))) (\<lambda>rows.
     then_op (for_each remove_file rows) (ret (length rows))))"

section \<open>Properties\<close>

lemma takeWhile_rev_suffix:
  assumes "c \<in> set t"
  shows "rev t = takeWhile (\<lambda>d. d \<noteq> c) (rev t) @ c # tl (dropWhile (\<lambda>d. d \<noteq> c) (rev t))"
proof -
  have "\<exists>d\<in>set (rev t). \<not> (d \<noteq> c)" using assms by simp
  then have ne: "dropWhile (\<lambda>d. d \<noteq> c) (rev t) \<noteq> []" by (simp add: dropWhile_eq_Nil_conv)
  then have "hd (dropWhile (\<lambda>d. d \<noteq> c) (rev t)) = c" using hd_dropWhile [OF ne] by simp
  with ne show ?thesis by (metis list.collapse takeWhile_dropWhile_id)
qed

lemma no_dot_after_last: "CHR ''.'' \<notin> set (after_last_dot t)"
  using set_takeWhileD [of "CHR ''.''" "\<lambda>c. c \<noteq> CHR ''.''" "rev t"] by (auto simp: after_last_dot_def)

lemma validate_fileD:
  assumes "validate_file e ft v f = Inr m"
  shows "file_extension (uf_name f) \<in> set (allowed_extensions v)" and "uf_size f \<le> max_size v"
    and "fm_content_type m = detected_mime ft f" and "detected_mime ft f \<in> set (allowed_mime_types v)"
    and "fm_size m = uf_size f" and "fm_checksum m = sha256_hex (plat e) (uf_content f)"
    and "startswith ''image/'' (detected_mime ft f) \<Longrightarrow>
           \<exists>w h. image_open ft (uf_content f) = ImageOpened w h Verified \<and> w * h \<le> MAX_IMAGE_PIXELS (cfg e)"
    and "malware_scanner v = Some scan \<Longrightarrow> scan f = None"
  using assms
  by (auto simp: validate_file_def Let_def check_image_def split: if_splits option.splits image_outcome.splits verify_outcome.splits)

lemma lower_char_dot: "lower_char c = CHR ''.'' \<longleftrightarrow> c = CHR ''.''"
proof -
  have dot: "x = CHR ''.'' \<longleftrightarrow> char_code x = 46" for x
    using char_code_inj [of x "CHR ''.''"] by (simp add: char_code_def)
  show ?thesis unfolding dot char_code_lower by auto
qed

lemma lower_no_dot: "CHR ''.'' \<notin> set t \<Longrightarrow> CHR ''.'' \<notin> set (py_lower t)"
  unfolding py_lower_def by (auto simp del: One_nat_def) (metis lower_char_dot)

lemma lstrip_no_dot: "CHR ''.'' \<notin> set t \<Longrightarrow> py_lstrip_dots t = t"
  by (cases t) (auto simp: py_lstrip_dots_def)

lemma file_extension_plain:
  assumes "path_parts name = [name]" and "file_extension name \<noteq> []"
  shows "CHR ''.'' \<in> set name" and "file_extension name = py_lower (after_last_dot name)"
proof -
  have suffix: "path_suffix name = (if CHR ''.'' \<in> set name \<and> after_last_dot name \<noteq> [] \<and> 0 < length name - Suc (length (after_last_dot name))
      then CHR ''.'' # after_last_dot name else [])"
    by (simp add: path_suffix_def assms(1) Let_def)
  have nonempty: "path_suffix name \<noteq> []" using assms(2) by (auto simp: file_extension_def py_lstrip_dots_def py_lower_def)
  then show "CHR ''.'' \<in> set name" using suffix by (auto split: if_splits)
  have "path_suffix name = CHR ''.'' # after_last_dot name" using nonempty suffix by (auto split: if_splits)
  moreover have "lower_char (CHR ''.'') = CHR ''.''" using lower_char_dot by blast
  ultimately have "file_extension name = py_lstrip_dots (CHR ''.'' # py_lower (after_last_dot name))"
    by (simp add: file_extension_def py_lower_def)
  also have "\<dots> = py_lower (after_last_dot name)"
    using lstrip_no_dot [OF lower_no_dot [OF no_dot_after_last [of name]]] by (simp add: py_lstrip_dots_def)
  finally show "file_extension name = py_lower (after_last_dot name)" .
qed

text \<open>
  Property C24: what is stored was checked. When an upload with a plain name is stored, its extension, size
  and content type were allowed, an image was opened, verified and within the pixel limit, the scanner had
  no objection, the checksum is that of the content, and the file is kept under a name made of the owner
  and a random identifier, with the extension that was checked: nothing else of the client's name is used.
\<close>

theorem stored_file_was_checked:
  assumes "store_file e ft owner f v s = (Inr row, t)" and "path_parts (uf_name f) = [uf_name f]" and "[] \<notin> set (allowed_extensions v)"
  shows "stored_files t = row # stored_files s \<and> sf_status row = READY \<and> uf_size f \<le> max_size v \<and>
     sf_content_type row = detected_mime ft f \<and> sf_content_type row \<in> set (allowed_mime_types v) \<and>
     sf_checksum_sha256 row = sha256_hex (plat e) (uf_content f) \<and>
     (startswith ''image/'' (sf_content_type row) \<longrightarrow>
        (\<exists>w h. image_open ft (uf_content f) = ImageOpened w h Verified \<and> w * h \<le> MAX_IMAGE_PIXELS (cfg e))) \<and>
     (\<forall>scan. malware_scanner v = Some scan \<longrightarrow> scan f = None) \<and>
     (\<exists>extension\<in>set (allowed_extensions v). \<exists>unique. sf_file row =
        ''uploads/'' @ (case owner of None \<Rightarrow> ''system'' | Some u \<Rightarrow> uuid_str (plat e) u) @ ''/'' @ uuid_hex (plat e) unique @ ''.'' @ extension)"
proof -
  from assms(1) obtain m where m: "validate_file e ft v f = Inr m" by (cases "validate_file e ft v f") (simp_all add: store_file_def op_simps)
  with assms(1) have row: "row = \<lparr>sf_id = next_id s, sf_owner = owner, sf_file = secure_upload_path e owner (Suc (next_id s)) (uf_name f),
      sf_original_name = take 255 (uf_name f), sf_content_type = fm_content_type m, sf_size = nat (fm_size m),
      sf_checksum_sha256 = fm_checksum m, sf_status = READY, sf_created_at = clock s, sf_deleted_at = None\<rparr>"
    and t: "stored_files t = row # stored_files s"
    by (auto simp: store_file_def op_simps Let_def)
  note v = validate_fileD [OF m]
  have ext: "file_extension (uf_name f) \<noteq> []" using v(1) assms(3) by metis
  have "\<exists>extension\<in>set (allowed_extensions v). \<exists>unique. sf_file row =
        ''uploads/'' @ (case owner of None \<Rightarrow> ''system'' | Some u \<Rightarrow> uuid_str (plat e) u) @ ''/'' @ uuid_hex (plat e) unique @ ''.'' @ extension"
    using file_extension_plain [OF assms(2) ext] v(1)
    by (intro bexI [of _ "file_extension (uf_name f)"] exI [of _ "Suc (next_id s)"]) (simp_all add: row secure_upload_path_def Let_def)
  then show ?thesis using row t v by simp
qed

definition demo_tools :: file_tools where
  "demo_tools = \<lparr>guess_mime = (\<lambda>t. if startswith ''PNG'' t then Some ''image/png'' else None),
     image_open = (\<lambda>t. ImageOpened 10 10 Verified)\<rparr>"

definition demo_upload :: uploaded_file where
  "demo_upload = \<lparr>uf_name = ''me.PNG'', uf_size = 4, uf_content = ''PNG!''\<rparr>"

theorem stored_file_was_checked_witness:
  "\<exists>row t. store_file demo_env demo_tools (Some 7) demo_upload (make_validator demo_env [''.png''] [''image/png''] None None) demo_db = (Inr row, t) \<and>
     sf_status row = READY \<and> sf_content_type row = ''image/png''"
proof -
  let ?v = "make_validator demo_env [''.png''] [''image/png''] None None"
  have "validate_file demo_env demo_tools ?v demo_upload =
      Inr \<lparr>fm_content_type = ''image/png'', fm_size = 4, fm_checksum = ''H(PNG!)''\<rparr>" by code_simp
  then obtain row t where r: "store_file demo_env demo_tools (Some 7) demo_upload ?v demo_db = (Inr row, t)"
    by (simp add: store_file_def op_simps Let_def)
  have "path_parts (uf_name demo_upload) = [uf_name demo_upload]" "[] \<notin> set (allowed_extensions ?v)"
    "detected_mime demo_tools demo_upload = ''image/png''" by code_simp+
  with stored_file_was_checked [OF r] r show ?thesis by metis
qed

end
