(* ===== verification/Routing.thy ===== *)
theory Routing
  imports Environment
begin

text \<open>
  The URL tables of \<^verbatim>\<open>config/urls.py\<close> and \<^verbatim>\<open>apps/api/urls.py\<close>, and Django's resolution of a path in them: the patterns are
  tried in order, \<^verbatim>\<open>include\<close> takes its prefix off and falls through when nothing below it matches. A view is its name. The patterns
  that REST framework's router makes of the registrations are a parameter, as are those of the administration site and of
  \<^verbatim>\<open>static\<close>; \<open>router_law\<close> states what the documentation of the router says.
\<close>

section \<open>Resolution\<close>

datatype route =
    Path string string
  | Matching "string \<Rightarrow> bool" string
  | Include string "route list"

fun resolve :: "route list \<Rightarrow> string \<Rightarrow> string option" where
  "resolve [] p = None"
| "resolve (Path text view # rs) p = (if p = text then Some view else resolve rs p)"
| "resolve (Matching m view # rs) p = (if m p then Some view else resolve rs p)"
| "resolve (Include prefix sub # rs) p =
     (case (if startswith prefix p then resolve sub (drop (length prefix) p) else None) of
        None \<Rightarrow> resolve rs p | Some view \<Rightarrow> Some view)"

section \<open>The tables\<close>

definition auth_patterns :: "(string \<times> string) list" where
  "auth_patterns =
     [(''register/'', ''RegisterView''), (''login/'', ''LoginView''), (''logout/'', ''LogoutView''),
      (''token/refresh/'', ''RefreshView''), (''verify-email/'', ''VerifyEmailView''),
      (''resend-verification/'', ''ResendVerificationView''), (''password-reset/'', ''PasswordResetRequestView''),
      (''password-reset/confirm/'', ''PasswordResetConfirmView''), (''password/change/'', ''ChangePasswordView''),
      (''email/change/'', ''ChangeEmailView''), (''email/change/confirm/'', ''ConfirmEmailChangeView''),
      (''username/change/'', ''ChangeUsernameView''), (''account/deactivate/'', ''DeactivateAccountView''),
      (''account/delete/'', ''DeleteAccountRequestView''), (''account/delete/confirm/'', ''DeleteAccountConfirmView''),
      (''2fa/setup/'', ''TwoFactorSetupView''), (''2fa/confirm/'', ''TwoFactorConfirmView''),
      (''2fa/disable/'', ''TwoFactorDisableView''), (''2fa/recovery-codes/regenerate/'', ''RecoveryCodeRegenerateView'')]"

definition account_patterns :: "(string \<times> string) list" where
  "account_patterns =
     [(''users/me/'', ''CurrentUserView''), (''users/me/profile/'', ''CurrentUserProfileView''),
      (''users/me/preferences/'', ''CurrentUserPreferencesView''), (''users/me/security-events/'', ''SecurityEventListView'')]"

definition registrations :: "env \<Rightarrow> (string \<times> string) list" where
  "registrations e =
     [(''users'', ''UserAdminViewSet''), (''users/me/sessions'', ''UserSessionViewSet'')] @
     (if ENABLE_NOTIFICATIONS (cfg e) then [(''notifications'', ''NotificationViewSet'')] else []) @
     (if ENABLE_API_KEYS (cfg e) then [(''api-keys'', ''APIKeyViewSet'')] else []) @
     [(''roles'', ''RoleViewSet''), (''permissions'', ''PermissionViewSet''), (''role-permissions'', ''RolePermissionViewSet''),
      (''user-roles'', ''UserRoleViewSet''), (''permission-overrides'', ''UserPermissionOverrideViewSet''),
      (''audit-logs'', ''AuditLogViewSet''), (''security-events'', ''SecurityEventAdminViewSet''), (''settings'', ''SettingViewSet''),
      (''feature-flags'', ''FeatureFlagViewSet'')]"

definition paths :: "(string \<times> string) list \<Rightarrow> route list" where
  "paths = map (\<lambda>(text, view). Path text view)"

definition api_urlpatterns :: "((string \<times> string) list \<Rightarrow> route list) \<Rightarrow> env \<Rightarrow> route list" where
  "api_urlpatterns router_urls e =
     Include ''auth/'' (paths auth_patterns) # paths account_patterns @ [Include [] (router_urls (registrations e))]"

record site =
  admin_urls :: "route list"
  router_urls :: "(string \<times> string) list \<Rightarrow> route list"
  static_urls :: "route list"
  ENABLE_OPENAPI :: bool

definition urlpatterns :: "site \<Rightarrow> env \<Rightarrow> route list" where
  "urlpatterns w e =
     [Include ''admin/'' (admin_urls w), Path ''health/'' ''health'', Path ''health/live/'' ''live'', Path ''health/ready/'' ''ready'',
      Include ''api/v1/'' (api_urlpatterns (router_urls w) e)] @
     (if ENABLE_OPENAPI w
      then [Path ''api/schema/'' ''SpectacularAPIView'', Path ''api/docs/'' ''SpectacularSwaggerView'', Path ''api/redoc/'' ''SpectacularRedocView'']
      else []) @
     (if DEBUG (cfg e) then static_urls w else [])"

section \<open>The router\<close>

definition below :: "string \<Rightarrow> string \<Rightarrow> bool" where
  \<comment> \<open>the path is the prefix followed by a slash or by a format suffix\<close>
  "below prefix p \<longleftrightarrow> startswith prefix p \<and> (case drop (length prefix) p of [] \<Rightarrow> False | c # _ \<Rightarrow> c = CHR ''/'' \<or> c = CHR ''.'')"

definition router_law :: "((string \<times> string) list \<Rightarrow> route list) \<Rightarrow> bool" where
  \<comment> \<open>a pattern leads to a registered view set and matches only below its prefix, or to the root view, whose path is empty
     or a format suffix\<close>
  "router_law urls \<longleftrightarrow> (\<forall>regs. \<forall>r\<in>set (urls regs). \<exists>m view. r = Matching m view \<and>
     ((view = ''APIRootView'' \<and> (\<forall>p. m p \<longrightarrow> p = [] \<or> hd p = CHR ''.'')) \<or>
      (\<exists>prefix. (prefix, view) \<in> set regs \<and> (\<forall>p. m p \<longrightarrow> below prefix p))))"

section \<open>Lemmas\<close>

lemma resolve_append: "resolve (rs @ qs) p = (case resolve rs p of None \<Rightarrow> resolve qs p | Some view \<Rightarrow> Some view)"
  by (induction rs p rule: resolve.induct) (auto split: option.splits)

lemma resolve_paths: "resolve (paths ps) p = map_of ps p"
  by (induction ps) (auto simp: paths_def)

lemma router_resolveD:
  assumes law: "\<forall>r\<in>set rs. \<exists>m view. r = Matching m view \<and>
     ((view = ''APIRootView'' \<and> (\<forall>p. m p \<longrightarrow> p = [] \<or> hd p = CHR ''.'')) \<or>
      (\<exists>prefix. (prefix, view) \<in> set regs \<and> (\<forall>p. m p \<longrightarrow> below prefix p)))"
    and "resolve rs p = Some view"
  shows "p = [] \<or> hd p = CHR ''.'' \<or> (\<exists>prefix. (prefix, view) \<in> set regs \<and> below prefix p)"
  using assms
proof (induction rs)
  case (Cons r rs)
  then obtain m v where r: "r = Matching m v" by auto
  show ?case
  proof (cases "m p")
    case True
    then have "view = v" using Cons.prems(2) r by simp
    then show ?thesis using Cons.prems(1) r True by fastforce
  next
    case False
    then show ?thesis using Cons r by simp
  qed
qed simp

section \<open>Properties\<close>

text \<open>
  Every path that the tables spell out leads to its own view: neither the administration site, the health paths nor the
  router's patterns, which match any last segment as a key, can take it, and no path hides another.
\<close>

theorem own_paths_reachable:
  "list_all (\<lambda>(text, view). resolve (urlpatterns w e) (''api/v1/auth/'' @ text) = Some view) auth_patterns \<and>
   list_all (\<lambda>(text, view). resolve (urlpatterns w e) (''api/v1/'' @ text) = Some view) account_patterns"
proof -
  have api: "resolve (urlpatterns w e) (''api/v1/'' @ p) = Some view" if "resolve (api_urlpatterns (router_urls w) e) p = Some view" for p view
    using that by (simp add: urlpatterns_def startswith_def)
  have auth: "resolve (api_urlpatterns r e) (''auth/'' @ p) = Some view" if "map_of auth_patterns p = Some view" for r p view
    using that by (simp add: api_urlpatterns_def startswith_def resolve_paths)
  have own: "resolve (api_urlpatterns r e) p = Some view" if "map_of account_patterns p = Some view" "\<not> startswith ''auth/'' p" for r p view
    using that by (simp add: api_urlpatterns_def resolve_append resolve_paths)
  have "list_all (\<lambda>(text, view). map_of auth_patterns text = Some view) auth_patterns" by code_simp
  moreover have "list_all (\<lambda>(text, view). map_of account_patterns text = Some view \<and> \<not> startswith ''auth/'' text) account_patterns" by code_simp
  ultimately show ?thesis using api auth own by (auto simp: list_all_iff)
qed

text \<open>
  A feature that is switched off has no address: with API keys disabled no path below \<^verbatim>\<open>api-keys\<close> resolves, and with
  notifications disabled none below \<^verbatim>\<open>notifications\<close>, whatever else the router makes of the other registrations.
\<close>

theorem disabled_feature_unroutable:
  assumes "router_law (router_urls w)" and "\<not> DEBUG (cfg e)"
    and "feature = ''api-keys'' \<and> \<not> ENABLE_API_KEYS (cfg e) \<or> feature = ''notifications'' \<and> \<not> ENABLE_NOTIFICATIONS (cfg e)"
  shows "resolve (urlpatterns w e) (''api/v1/'' @ feature @ ''/'' @ rest) = None"
proof -
  let ?p = "feature @ ''/'' @ rest"
  have none: "resolve (router_urls w (registrations e)) ?p = None"
  proof (rule ccontr)
    assume "resolve (router_urls w (registrations e)) ?p \<noteq> None"
    then obtain view where v: "resolve (router_urls w (registrations e)) ?p = Some view" by blast
    from router_resolveD [OF _ v] assms(1) have "?p = [] \<or> hd ?p = CHR ''.'' \<or> (\<exists>prefix. (prefix, view) \<in> set (registrations e) \<and> below prefix ?p)"
      unfolding router_law_def by blast
    then show False using assms(3) by (auto simp: registrations_def below_def startswith_def split: if_splits)
  qed
  have "map_of account_patterns ?p = None" using assms(3) by (auto simp: account_patterns_def)
  then have "resolve (api_urlpatterns (router_urls w) e) ?p = None"
    using assms(3) none by (auto simp: api_urlpatterns_def resolve_append resolve_paths startswith_def)
  then show ?thesis using assms(2,3) by (auto simp: urlpatterns_def startswith_def)
qed

definition demo_site :: site where
  "demo_site = \<lparr>admin_urls = [], router_urls = map (\<lambda>(prefix, view). Matching (below prefix) view), static_urls = [], ENABLE_OPENAPI = True\<rparr>"

theorem disabled_feature_unroutable_witness:
  "resolve (urlpatterns demo_site (demo_env\<lparr>cfg := (cfg demo_env)\<lparr>ENABLE_API_KEYS := False\<rparr>\<rparr>)) ''api/v1/api-keys/'' = None \<and>
   resolve (urlpatterns demo_site demo_env) ''api/v1/api-keys/'' = Some ''APIKeyViewSet''"
proof -
  let ?e = "demo_env\<lparr>cfg := (cfg demo_env)\<lparr>ENABLE_API_KEYS := False\<rparr>\<rparr>"
  have law: "router_law (router_urls demo_site)" by (auto simp: router_law_def demo_site_def)
  have debug: "\<not> DEBUG (cfg ?e)" by (simp add: demo_env_def default_settings_def)
  have "resolve (urlpatterns demo_site demo_env) ''api/v1/api-keys/'' = Some ''APIKeyViewSet''" by code_simp
  then show ?thesis using disabled_feature_unroutable [OF law debug, of "''api-keys''" "[]"] by simp
qed

end
