(* ===== verification/Throttling.thy ===== *)
theory Throttling
  imports Operations
begin

text \<open>
  The throttle classes of \<^verbatim>\<open>apps/api/throttles.py\<close>, the views of \<^verbatim>\<open>apps/api/views\<close> that name them, and the defaults of
  \<^verbatim>\<open>REST_FRAMEWORK\<close>. How REST framework counts requests is the argument \<open>limiter\<close>; \<open>scoped_law\<close> states what its documentation
  says of \<^verbatim>\<open>ScopedRateThrottle\<close>: it takes the scope from the attribute \<^verbatim>\<open>throttle_scope\<close> of the view, not from the throttle's class, and
  applies only to views that have one.
\<close>

section \<open>Classes and views\<close>

datatype throttle =
    ScopedRateThrottle string  \<comment> \<open>a subclass with this attribute \<^verbatim>\<open>scope\<close>\<close>
  | AnonRateThrottle
  | UserRateThrottle

definition LoginThrottle :: throttle where
  "LoginThrottle = ScopedRateThrottle ''login''"

definition RegisterThrottle :: throttle where
  "RegisterThrottle = ScopedRateThrottle ''register''"

definition PasswordResetThrottle :: throttle where
  "PasswordResetThrottle = ScopedRateThrottle ''password_reset''"

definition EmailVerificationThrottle :: throttle where
  "EmailVerificationThrottle = ScopedRateThrottle ''email_verification''"

definition APIKeyThrottle :: throttle where
  "APIKeyThrottle = ScopedRateThrottle ''api_key''"

record throttled_view =
  throttle_classes :: "throttle list"
  throttle_scope :: "string option"

definition throttled_by :: "throttle \<Rightarrow> throttled_view" where
  \<comment> \<open>\<^verbatim>\<open>throttle_classes = [...]\<close> in the class body, and nothing else\<close>
  "throttled_by t = \<lparr>throttle_classes = [t], throttle_scope = None\<rparr>"

definition default_throttles :: throttled_view where
  \<comment> \<open>\<^verbatim>\<open>DEFAULT_THROTTLE_CLASSES\<close>\<close>
  "default_throttles = \<lparr>throttle_classes = [AnonRateThrottle, UserRateThrottle], throttle_scope = None\<rparr>"

definition own_throttles :: "(string \<times> throttled_view) list" where
  "own_throttles =
     [(''RegisterView'', throttled_by RegisterThrottle), (''LoginView'', throttled_by LoginThrottle),
      (''VerifyEmailView'', throttled_by EmailVerificationThrottle), (''ResendVerificationView'', throttled_by EmailVerificationThrottle),
      (''PasswordResetRequestView'', throttled_by PasswordResetThrottle), (''PasswordResetConfirmView'', throttled_by PasswordResetThrottle),
      (''APIKeyViewSet'', throttled_by APIKeyThrottle)]"

definition view_throttles :: "string \<Rightarrow> throttled_view" where
  "view_throttles name = (case map_of own_throttles name of None \<Rightarrow> default_throttles | Some v \<Rightarrow> v)"

section \<open>Checking a request\<close>

type_synonym 'q limiter = "throttle \<Rightarrow> string option \<Rightarrow> 'q \<Rightarrow> bool"

definition check_throttles :: "'q limiter \<Rightarrow> string \<Rightarrow> 'q \<Rightarrow> error option" where
  \<comment> \<open>each of the view's throttles is asked; the second argument is the view's class\<close>
  "check_throttles allow_request name q =
     (if list_all (\<lambda>t. allow_request t (throttle_scope (view_throttles name)) q) (throttle_classes (view_throttles name))
      then None else Some Throttled)"

definition scoped_law :: "'q limiter \<Rightarrow> bool" where
  "scoped_law allow_request \<longleftrightarrow> (\<forall>scope q. allow_request (ScopedRateThrottle scope) None q)"

text \<open>
  The throttles that a view names never limit it. Whatever the configured rates and however many requests came before, a request to
  register, log in, verify an address, reset a password or handle API keys passes: no view has a scope, and naming a throttle puts the
  default ones out of force, which a limiter that refuses every default throttle shows.
\<close>

theorem named_throttles_never_limit:
  assumes "scoped_law allow_request" and "name \<in> fst ` set own_throttles"
  shows "check_throttles allow_request name q = None"
proof -
  obtain v where v: "map_of own_throttles name = Some v"
    using assms(2) by (metis map_of_eq_None_iff option.exhaust)
  have "list_all (\<lambda>(_, v). throttle_scope v = None \<and> list_all (\<lambda>t. \<exists>scope. t = ScopedRateThrottle scope) (throttle_classes v)) own_throttles"
    by (simp add: own_throttles_def throttled_by_def LoginThrottle_def RegisterThrottle_def PasswordResetThrottle_def
        EmailVerificationThrottle_def APIKeyThrottle_def)
  with map_of_SomeD [OF v] have "throttle_scope v = None" "\<forall>t\<in>set (throttle_classes v). \<exists>scope. t = ScopedRateThrottle scope"
    by (auto simp: list_all_iff)
  then show ?thesis using assms(1) v by (auto simp: check_throttles_def view_throttles_def scoped_law_def list_all_iff)
qed

definition strict_limiter :: "nat limiter" where
  \<comment> \<open>a scoped view and every default one are refused after ten requests\<close>
  "strict_limiter t scope n = (case t of ScopedRateThrottle _ \<Rightarrow> scope = None \<or> n < 10 | _ \<Rightarrow> n < 10)"

theorem named_throttles_never_limit_witness:
  "check_throttles strict_limiter ''LoginView'' 1000 = None \<and> check_throttles strict_limiter ''LogoutView'' 1000 = Some Throttled"
proof -
  have "scoped_law strict_limiter" by (simp add: scoped_law_def strict_limiter_def)
  moreover have "''LoginView'' \<in> fst ` set own_throttles" by (simp add: own_throttles_def)
  moreover have "check_throttles strict_limiter ''LogoutView'' 1000 = Some Throttled" by code_simp
  ultimately show ?thesis using named_throttles_never_limit [of strict_limiter "''LoginView''" 1000] by simp
qed

end
