(* ===== verification/Configuration.thy ===== *)
theory Configuration
  imports Environment
begin

text \<open>
  The checks that the settings modules make while they are loaded: the database configuration of
  \<^verbatim>\<open>config/settings/database.py\<close>, the optional services of \<^verbatim>\<open>base.py\<close>, and the requirements of
  \<^verbatim>\<open>production.py\<close>. The process environment is a partial map; the parsers of \<^verbatim>\<open>django-environ\<close> (a floating-point
  number is named by its text), the module finder, the success of an import and the two path operations are the record \<open>host\<close>.
\<close>

record database_url =
  du_engine :: string
  du_name :: string
  du_user :: string
  du_password :: string
  du_host :: string
  du_port :: string

record host =
  environ :: "string \<Rightarrow> string option"
  parse_int :: "string \<Rightarrow> error + int"
  parse_bool :: "string \<Rightarrow> bool"
  parse_list :: "string \<Rightarrow> string list"
  parse_float :: "string \<Rightarrow> error + string"
  parse_db_url :: "string \<Rightarrow> error + database_url"
  has_module :: "string \<Rightarrow> bool"
  can_import :: "string \<Rightarrow> bool"
  expanduser :: "string \<Rightarrow> string"
  join_path :: "string \<Rightarrow> string \<Rightarrow> string"

definition env_text :: "host \<Rightarrow> string \<Rightarrow> string \<Rightarrow> string" where
  \<comment> \<open>\<^verbatim>\<open>env(name, default=...)\<close>\<close>
  "env_text h name fallback = (case environ h name of None \<Rightarrow> fallback | Some t \<Rightarrow> t)"

definition env_int :: "host \<Rightarrow> string \<Rightarrow> int \<Rightarrow> error + int" where
  "env_int h name fallback = (case environ h name of None \<Rightarrow> Inr fallback | Some t \<Rightarrow> parse_int h t)"

definition env_bool :: "host \<Rightarrow> string \<Rightarrow> bool \<Rightarrow> bool" where
  "env_bool h name fallback = (case environ h name of None \<Rightarrow> fallback | Some t \<Rightarrow> parse_bool h t)"

definition env_list :: "host \<Rightarrow> string \<Rightarrow> string list \<Rightarrow> string list" where
  "env_list h name fallback = (case environ h name of None \<Rightarrow> fallback | Some t \<Rightarrow> parse_list h t)"

definition env_float :: "host \<Rightarrow> string \<Rightarrow> string \<Rightarrow> error + string" where
  "env_float h name fallback = (case environ h name of None \<Rightarrow> Inr fallback | Some t \<Rightarrow> parse_float h t)"

section \<open>database.py\<close>

datatype database_config =
    SqliteConfig string int
  | PostgresConfig database_url int bool

definition postgres_engine :: string where
  "postgres_engine = ''django.db.backends.postgresql''"

definition sqlite_database_name :: "host \<Rightarrow> string \<Rightarrow> string \<Rightarrow> string" where
  "sqlite_database_name h base_dir configured =
     (if configured = '':memory:'' then configured
      else let path = expanduser h configured in if startswith ''/'' path then path else join_path h base_dir path)"

definition postgres_database :: "host \<Rightarrow> string \<Rightarrow> error + database_url" where
  "postgres_database h url =
     (if url \<noteq> []
      then case parse_db_url h (env_text h ''DATABASE_URL'' []) of
             Inl err \<Rightarrow> Inl err
           | Inr database \<Rightarrow>
               if du_engine database \<noteq> postgres_engine
               then Inl (ImproperlyConfigured ''DATABASE_URL must be a PostgreSQL URL when DATABASE_ENGINE=postgresql'')
               else Inr database
      else
        let name = py_strip (env_text h ''DB_NAME'' []); user = py_strip (env_text h ''DB_USER'' []) in
        if name = [] \<or> user = []
        then Inl (ImproperlyConfigured ''DB_NAME and DB_USER are required when PostgreSQL is selected without DATABASE_URL'')
        else Inr \<lparr>du_engine = postgres_engine, du_name = name, du_user = user, du_password = env_text h ''DB_PASSWORD'' [],
                  du_host = env_text h ''DB_HOST'' ''localhost'', du_port = env_text h ''DB_PORT'' ''5432''\<rparr>)"

definition selected_engine :: "host \<Rightarrow> string" where
  "selected_engine h =
     (let url = py_strip (env_text h ''DATABASE_URL'' []);
          default_engine = (if url \<noteq> [] then ''postgresql'' else ''sqlite'')
      in py_lower (py_strip (env_text h ''DATABASE_ENGINE'' default_engine)))"

definition build_database_config :: "host \<Rightarrow> string \<Rightarrow> error + database_config" where
  "build_database_config h base_dir =
     (let url = py_strip (env_text h ''DATABASE_URL'' []); engine = selected_engine h in
      if engine \<in> {''sqlite'', ''sqlite3''}
      then let configured = py_strip (env_text h ''SQLITE_PATH'' ''db.sqlite3'') in
           if configured = [] then Inl (ImproperlyConfigured ''SQLITE_PATH cannot be empty when SQLite is selected'')
           else (case env_int h ''SQLITE_TIMEOUT_SECONDS'' 20 of
                   Inl err \<Rightarrow> Inl err
                 | Inr timeout \<Rightarrow> Inr (SqliteConfig (sqlite_database_name h base_dir configured) timeout))
      else if engine \<in> {''postgres'', ''postgresql'', ''postgresql_psycopg''}
      then if \<not> has_module h ''psycopg''
           then Inl (ImproperlyConfigured ''PostgreSQL is selected but its driver is not installed. Install .[postgres].'')
           else (case postgres_database h url of
                   Inl err \<Rightarrow> Inl err
                 | Inr database \<Rightarrow>
                     (case env_int h ''DATABASE_CONN_MAX_AGE'' 60 of
                        Inl err \<Rightarrow> Inl err
                      | Inr age \<Rightarrow> Inr (PostgresConfig database age (env_bool h ''DATABASE_CONN_HEALTH_CHECKS'' True))))
      else Inl (ImproperlyConfigured ''Unsupported DATABASE_ENGINE''))"

section \<open>base.py\<close>

datatype cache_backend = RedisCache string string | LocMemCache

definition redis_caches :: "host \<Rightarrow> string \<Rightarrow> error + cache_backend" where
  \<comment> \<open>the second argument is \<^verbatim>\<open>APP_NAME\<close>\<close>
  "redis_caches h app_name =
     (let url = py_strip (env_text h ''REDIS_URL'' ''redis://localhost:6379/0'') in
      if env_bool h ''REDIS_ENABLED'' False
      then if url = [] then Inl (ImproperlyConfigured ''REDIS_URL is required when REDIS_ENABLED=true'')
           else if \<not> has_module h ''django_redis''
           then Inl (ImproperlyConfigured ''REDIS_ENABLED=true requires the optional .[redis] dependency.'')
           else Inr (RedisCache url (map (\<lambda>c. if c = CHR '' '' then CHR ''_'' else c) (py_lower app_name)))
      else Inr LocMemCache)"

definition redis_url_scheme :: "string \<Rightarrow> bool" where
  "redis_url_scheme t \<longleftrightarrow> startswith ''redis://'' t \<or> startswith ''rediss://'' t"

record celery_config =
  CELERY_BROKER_URL :: string
  CELERY_RESULT_BACKEND :: string

definition celery_settings :: "host \<Rightarrow> error + celery_config" where
  "celery_settings h =
     (let enabled = env_bool h ''CELERY_ENABLED'' False;
          broker = py_strip (env_text h ''CELERY_BROKER_URL'' []);
          backend = py_strip (env_text h ''CELERY_RESULT_BACKEND'' []);
          redis = env_bool h ''REDIS_ENABLED'' False
      in if enabled
         then if \<not> has_module h ''celery''
              then Inl (ImproperlyConfigured ''CELERY_ENABLED=true requires the optional .[celery] dependency.'')
              else if broker = [] then Inl (ImproperlyConfigured ''CELERY_BROKER_URL is required when CELERY_ENABLED=true'')
              else if redis_url_scheme broker \<and> \<not> redis
              then Inl (ImproperlyConfigured ''Enable Redis when CELERY_BROKER_URL uses Redis, or configure another broker'')
              else if redis_url_scheme backend \<and> \<not> redis
              then Inl (ImproperlyConfigured ''Enable Redis when CELERY_RESULT_BACKEND uses Redis, or configure another backend'')
              else Inr \<lparr>CELERY_BROKER_URL = broker, CELERY_RESULT_BACKEND = backend\<rparr>
         else Inr \<lparr>CELERY_BROKER_URL = (if broker \<noteq> [] then broker else ''memory://''),
                   CELERY_RESULT_BACKEND = (if backend \<noteq> [] then backend else ''cache+memory://'')\<rparr>)"

definition storage_backend :: "host \<Rightarrow> error + string" where
  \<comment> \<open>\<^verbatim>\<open>STORAGES["default"]["BACKEND"]\<close>\<close>
  "storage_backend h =
     (if py_lower (env_text h ''STORAGE_BACKEND'' ''local'') = ''s3''
      then if \<not> has_module h ''storages''
           then Inl (ImproperlyConfigured ''STORAGE_BACKEND=s3 requires the optional .[s3] dependency.'')
           else Inr ''storages.backends.s3.S3Storage''
      else Inr ''django.core.files.storage.FileSystemStorage'')"

definition beat_schedule :: "(string \<times> int) list" where
  \<comment> \<open>\<^verbatim>\<open>CELERY_BEAT_SCHEDULE\<close>: the task and its period in seconds\<close>
  "beat_schedule =
     [(''apps.authentication.tasks.cleanup_sessions'', 86400), (''apps.authentication.tasks.cleanup_tokens'', 86400),
      (''apps.notifications.tasks.cleanup_notifications'', 86400), (''apps.accounts.tasks.expire_temporary_bans'', 3600),
      (''apps.files.tasks.cleanup_unused_files'', 86400), (''apps.audit.tasks.cleanup_audit_logs'', 86400),
      (''apps.security.tasks.cleanup_login_attempts'', 86400), (''apps.webhooks.tasks.dispatch_pending_webhooks'', 60)]"

section \<open>production.py\<close>

record mail_settings =
  EMAIL_BACKEND :: string
  AWS_STORAGE_BUCKET_NAME :: string
  ENABLE_OPENAPI :: bool
  ENABLE_OPENAPI_IN_PRODUCTION :: bool

record production_flags =
  SESSION_COOKIE_SECURE :: bool
  CSRF_COOKIE_SECURE :: bool
  SECURE_SSL_REDIRECT :: bool
  SECURE_HSTS_SECONDS :: int
  SECURE_HSTS_INCLUDE_SUBDOMAINS :: bool
  SECURE_HSTS_PRELOAD :: bool
  trusts_forwarded_proto :: bool
  serves_openapi :: bool

fun first_problem :: "(bool \<times> string) list \<Rightarrow> error option" where
  \<comment> \<open>consecutive \<^verbatim>\<open>if ...: raise ImproperlyConfigured(...)\<close>\<close>
  "first_problem [] = None"
| "first_problem ((bad, t) # r) = (if bad then Some (ImproperlyConfigured t) else first_problem r)"

definition production_problem :: "host \<Rightarrow> settings \<Rightarrow> mail_settings \<Rightarrow> error option" where
  "production_problem h st ms = first_problem
     [(SECRET_KEY st = ''unsafe-development-only-key'' \<or> SECRET_KEY st = [], ''SECRET_KEY must be configured in production''),
      (env_text h ''ALLOWED_HOSTS'' [] = [], ''ALLOWED_HOSTS must be configured in production''),
      (TOTP_ENCRYPTION_KEY st = [], ''TOTP_ENCRYPTION_KEY must be configured in production''),
      (ENABLE_API_KEYS st \<and> API_KEY_PEPPER st = [], ''API_KEY_PEPPER must be configured in production''),
      (env_text h ''DEFAULT_FROM_EMAIL'' [] = [], ''DEFAULT_FROM_EMAIL must be configured in production''),
      (env_text h ''EMAIL_BACKEND'' [] = [], ''EMAIL_BACKEND must be configured in production''),
      (length (SECRET_KEY st) < 50, ''Production SECRET_KEY must contain at least 50 characters''),
      (length (TOTP_ENCRYPTION_KEY st) < 32, ''Production TOTP_ENCRYPTION_KEY must contain at least 32 characters''),
      (ENABLE_API_KEYS st \<and> length (API_KEY_PEPPER st) < 32, ''Production API_KEY_PEPPER must contain at least 32 characters''),
      (EMAIL_BACKEND ms \<in> {''django.core.mail.backends.console.EmailBackend'', ''django.core.mail.backends.locmem.EmailBackend'',
         ''django.core.mail.backends.dummy.EmailBackend''}, ''Production requires a delivery-capable email backend''),
      (\<not> startswith ''https://'' (SITE_URL st), ''Production SITE_URL must use HTTPS''),
      (CELERY_ENABLED st \<and> CELERY_TASK_ALWAYS_EAGER st, ''CELERY_TASK_ALWAYS_EAGER must be false in production''),
      (TRUST_PROXY_HEADERS st \<and> TRUSTED_PROXY_IPS st = [], ''TRUSTED_PROXY_IPS is required when proxy headers are trusted''),
      (py_lower (env_text h ''STORAGE_BACKEND'' ''local'') = ''s3'' \<and> AWS_STORAGE_BUCKET_NAME ms = [],
       ''AWS_STORAGE_BUCKET_NAME must be configured in production'')]"

definition production_settings :: "host \<Rightarrow> settings \<Rightarrow> mail_settings \<Rightarrow> error + settings \<times> production_flags" where
  \<comment> \<open>the module on top of what \<^verbatim>\<open>base.py\<close> has set\<close>
  "production_settings h st ms =
     (case production_problem h (st\<lparr>DEBUG := False\<rparr>) ms of
        Some err \<Rightarrow> Inl err
      | None \<Rightarrow>
          (case env_int h ''SECURE_HSTS_SECONDS'' 31536000 of
             Inl err \<Rightarrow> Inl err
           | Inr hsts \<Rightarrow> Inr (st\<lparr>DEBUG := False\<rparr>,
               \<lparr>SESSION_COOKIE_SECURE = True, CSRF_COOKIE_SECURE = True,
                SECURE_SSL_REDIRECT = env_bool h ''SECURE_SSL_REDIRECT'' True, SECURE_HSTS_SECONDS = hsts,
                SECURE_HSTS_INCLUDE_SUBDOMAINS = env_bool h ''SECURE_HSTS_INCLUDE_SUBDOMAINS'' True,
                SECURE_HSTS_PRELOAD = env_bool h ''SECURE_HSTS_PRELOAD'' True,
                trusts_forwarded_proto = env_bool h ''TRUST_PROXY_HEADERS'' False,
                serves_openapi = ENABLE_OPENAPI ms \<and> ENABLE_OPENAPI_IN_PRODUCTION ms\<rparr>)))"

section \<open>Properties\<close>

lemma first_problem_None: "first_problem checks = None \<longleftrightarrow> (\<forall>c\<in>set checks. \<not> fst c)"
  by (induction checks rule: first_problem.induct) auto

lemma first_problem_error: "first_problem checks = Some err \<Longrightarrow> \<exists>t. err = ImproperlyConfigured t"
  by (induction checks rule: first_problem.induct) (auto split: if_splits)

text \<open>
  A deployment that starts with the production settings is configured safely. The secret key
  is not the development key and has 50 characters, the encryption key has 32, API keys have a pepper of
  their own of 32 characters, so that neither encryption nor the hashing of API keys can fall back to the
  secret key; mail does not go to the console, links use HTTPS, tasks are not run in the request, and forwarded headers
  are believed only from named proxies.
\<close>

theorem production_is_safe:
  assumes "production_settings h st ms = Inr (st', flags)"
  shows "\<not> DEBUG st' \<and> SECRET_KEY st' \<noteq> ''unsafe-development-only-key'' \<and> 50 \<le> length (SECRET_KEY st') \<and>
     (\<forall>p purpose. key_material \<lparr>cfg = st', plat = p\<rparr> purpose = Inr (sha256 p (purpose @ '':'' @ TOTP_ENCRYPTION_KEY st'))) \<and>
     32 \<le> length (TOTP_ENCRYPTION_KEY st') \<and>
     (ENABLE_API_KEYS st' \<longrightarrow> 32 \<le> length (API_KEY_PEPPER st')) \<and>
     startswith ''https://'' (SITE_URL st') \<and> \<not> (CELERY_ENABLED st' \<and> CELERY_TASK_ALWAYS_EAGER st') \<and>
     EMAIL_BACKEND ms \<noteq> ''django.core.mail.backends.console.EmailBackend'' \<and>
     (TRUST_PROXY_HEADERS st' \<longrightarrow> TRUSTED_PROXY_IPS st' \<noteq> []) \<and> SESSION_COOKIE_SECURE flags \<and> CSRF_COOKIE_SECURE flags"
proof -
  from assms have none: "production_problem h (st\<lparr>DEBUG := False\<rparr>) ms = None" and st': "st' = st\<lparr>DEBUG := False\<rparr>"
    and flags: "SESSION_COOKIE_SECURE flags" "CSRF_COOKIE_SECURE flags"
    by (auto simp: production_settings_def split: option.splits sum.splits)
  note ok = none [unfolded production_problem_def first_problem_None, simplified]
  show ?thesis using ok flags st' by (auto simp: key_material_def Let_def)
qed

definition demo_host :: host where
  "demo_host = \<lparr>environ = (\<lambda>name. if name = ''ALLOWED_HOSTS'' then Some ''example.com'' else if name = ''DEFAULT_FROM_EMAIL'' then Some ''a@example.com''
        else if name = ''EMAIL_BACKEND'' then Some ''smtp'' else None),
     parse_int = (\<lambda>t. Inr 0), parse_bool = (\<lambda>t. t = ''true''), parse_list = (\<lambda>t. [t]), parse_float = (\<lambda>t. Inr t), parse_db_url = (\<lambda>t. Inl (ValueError t)), has_module = (\<lambda>m. False), can_import = (\<lambda>m. False),
     expanduser = (\<lambda>t. t), join_path = (\<lambda>a b. a @ ''/'' @ b)\<rparr>"

definition demo_production :: settings where
  "demo_production = default_settings\<lparr>SECRET_KEY := replicate 50 (CHR ''s''), TOTP_ENCRYPTION_KEY := replicate 32 (CHR ''t''),
     API_KEY_PEPPER := replicate 32 (CHR ''p''), SITE_URL := ''https://example.com''\<rparr>"

definition demo_mail_settings :: mail_settings where
  "demo_mail_settings = \<lparr>EMAIL_BACKEND = ''smtp'', AWS_STORAGE_BUCKET_NAME = [], ENABLE_OPENAPI = True, ENABLE_OPENAPI_IN_PRODUCTION = False\<rparr>"

lemma demo_production_starts: "\<exists>flags. production_settings demo_host demo_production demo_mail_settings = Inr (demo_production, flags)"
proof -
  have "production_problem demo_host demo_production demo_mail_settings = None" by code_simp
  moreover have "demo_production\<lparr>DEBUG := False\<rparr> = demo_production" by (simp add: demo_production_def default_settings_def)
  moreover have "env_int demo_host ''SECURE_HSTS_SECONDS'' 31536000 = Inr 31536000" by (simp add: env_int_def demo_host_def)
  ultimately show ?thesis by (simp add: production_settings_def)
qed

theorem production_is_safe_witness: "50 \<le> length (SECRET_KEY demo_production) \<and> \<not> DEBUG demo_production"
proof -
  obtain flags where "production_settings demo_host demo_production demo_mail_settings = Inr (demo_production, flags)"
    using demo_production_starts by blast
  from production_is_safe [OF this] show ?thesis by blast
qed

text \<open>With nothing in the environment the database is the SQLite file beside the code.\<close>

lemma build_database_default:
  assumes "\<And>name. environ h name = None" and "startswith ''/'' (expanduser h ''db.sqlite3'') = False"
  shows "build_database_config h base_dir = Inr (SqliteConfig (join_path h base_dir (expanduser h ''db.sqlite3'')) 20)"
proof -
  have "selected_engine h = ''sqlite''" using assms(1)
    by (simp add: selected_engine_def env_text_def) code_simp
  moreover have "py_strip ''db.sqlite3'' = ''db.sqlite3''" by code_simp
  ultimately show ?thesis using assms by (simp add: build_database_config_def env_text_def env_int_def sqlite_database_name_def)
qed

text \<open>
  No task queue without its server. When the settings load with Celery enabled, the package is
  there, a broker is named, and a broker or result store on Redis is used only with Redis enabled, in which
  case the cache is on Redis too; with Celery disabled the queue is in memory unless another is named.
\<close>

theorem celery_needs_its_services:
  assumes "celery_settings h = Inr c" and "redis_caches h name = Inr caches"
  shows "CELERY_BROKER_URL c \<noteq> [] \<and>
     (env_bool h ''CELERY_ENABLED'' False \<longrightarrow> has_module h ''celery'' \<and>
        (redis_url_scheme (CELERY_BROKER_URL c) \<or> redis_url_scheme (CELERY_RESULT_BACKEND c) \<longrightarrow>
           has_module h ''django_redis'' \<and> (\<exists>url prefix. caches = RedisCache url prefix \<and> url \<noteq> []))) \<and>
     (\<not> env_bool h ''CELERY_ENABLED'' False \<and> environ h ''CELERY_BROKER_URL'' = None \<longrightarrow> CELERY_BROKER_URL c = ''memory://'')"
proof -
  have "py_strip [] = []" by code_simp
  then show ?thesis using assms
    by (auto simp: celery_settings_def redis_caches_def Let_def env_text_def split: if_splits)
qed

theorem celery_needs_its_services_witness:
  "celery_settings demo_host = Inr \<lparr>CELERY_BROKER_URL = ''memory://'', CELERY_RESULT_BACKEND = ''cache+memory://''\<rparr> \<and>
   redis_caches demo_host ''App'' = Inr LocMemCache \<and> (''memory://'' :: string) \<noteq> []"
proof -
  have c: "celery_settings demo_host = Inr \<lparr>CELERY_BROKER_URL = ''memory://'', CELERY_RESULT_BACKEND = ''cache+memory://''\<rparr>"
    and r: "redis_caches demo_host ''App'' = Inr LocMemCache" by code_simp+
  show ?thesis using celery_needs_its_services [OF c r] c r by simp
qed

end
