(* ===== verification/SettingsModules.thy ===== *)
theory SettingsModules
  imports Configuration Bootstrap
begin

text \<open>
  What a settings module leaves: \<^verbatim>\<open>config/settings/base.py\<close> read from the environment of a process in the order of its
  lines, and \<^verbatim>\<open>development.py\<close>, \<^verbatim>\<open>test.py\<close> and \<^verbatim>\<open>production.py\<close> on top of it. The record \<open>base_values\<close> holds the module's
  names that the rest of the code or Django's documented machinery reads; \<open>bv_settings\<close> are those the modelled services read.
  A module either raises while it is loaded, which is the error, or leaves such a record. The \<^verbatim>\<open>.env\<close> file is part of the
  environment; templates, paths of static files and the dictionary \<^verbatim>\<open>LOGGING\<close> but for its formatter and level are left out.
\<close>

section \<open>base.py\<close>

record jwt_config =
  ACCESS_TOKEN_LIFETIME :: int
  REFRESH_TOKEN_LIFETIME :: int
  ROTATE_REFRESH_TOKENS :: bool
  BLACKLIST_AFTER_ROTATION :: bool
  UPDATE_LAST_LOGIN :: bool
  SIGNING_KEY :: string

record email_config =
  EMAIL_HOST :: string
  EMAIL_PORT :: int
  EMAIL_HOST_USER :: string
  EMAIL_HOST_PASSWORD :: string
  EMAIL_USE_TLS :: bool
  EMAIL_USE_SSL :: bool
  EMAIL_TIMEOUT :: int

record s3_config =
  AWS_ACCESS_KEY_ID :: string
  AWS_SECRET_ACCESS_KEY :: string
  AWS_BUCKET :: string
  AWS_S3_ENDPOINT_URL :: "string option"
  AWS_S3_REGION_NAME :: "string option"
  AWS_S3_CUSTOM_DOMAIN :: "string option"
  AWS_QUERYSTRING_AUTH :: bool

record sentry_config =
  dsn :: string
  integrations :: "string list"
  send_default_pii :: bool
  traces_sample_rate :: string
  environment :: string

record base_values =
  bv_settings :: settings
  bv_services :: mail_settings
  DEFAULT_FROM_EMAIL :: string
  ALLOWED_HOSTS :: "string list"
  INSTALLED_APPS :: "string list"
  MIDDLEWARE :: "string list"
  DATABASES :: database_config
  CACHES :: cache_backend
  PASSWORD_HASHERS :: "string list"
  LANGUAGE_CODE :: string
  TIME_ZONE :: string
  STORAGES :: "string \<times> string"
  S3 :: "s3_config option"
  DEFAULT_THROTTLE_RATES :: "(string \<times> string) list"
  SIMPLE_JWT :: jwt_config
  CORS_ALLOWED_ORIGINS :: "string list"
  CSRF_TRUSTED_ORIGINS :: "string list"
  EMAIL :: email_config
  CELERY :: celery_config
  WEBHOOK_RETENTION_DAYS :: int
  LOG_LEVEL :: string
  LOG_FORMATTER :: string
  SENTRY :: "sentry_config option"

definition DJANGO_APPS :: "string list" where
  "DJANGO_APPS =
     [''django.contrib.admin'', ''django.contrib.auth'', ''django.contrib.contenttypes'', ''django.contrib.sessions'',
      ''django.contrib.messages'', ''django.contrib.staticfiles'']"

definition THIRD_PARTY_APPS :: "string list" where
  "THIRD_PARTY_APPS =
     [''corsheaders'', ''django_filters'', ''drf_spectacular'', ''rest_framework'', ''rest_framework_simplejwt.token_blacklist'']"

definition LOCAL_APPS :: "string list" where
  "LOCAL_APPS =
     [''apps.core'', ''apps.accounts'', ''apps.authentication'', ''apps.authorization'', ''apps.security'', ''apps.audit'',
      ''apps.notifications'', ''apps.files'', ''apps.api_keys'', ''apps.webhooks'', ''apps.api'']"

definition whitenoise :: string where
  "whitenoise = ''whitenoise.middleware.WhiteNoiseMiddleware''"

definition base_middleware :: "string list" where
  "base_middleware =
     [''django.middleware.security.SecurityMiddleware'', whitenoise,
      ''common.middleware.request_id.RequestIDMiddleware'', ''corsheaders.middleware.CorsMiddleware'',
      ''django.contrib.sessions.middleware.SessionMiddleware'', ''django.middleware.locale.LocaleMiddleware'',
      ''django.middleware.common.CommonMiddleware'', ''django.middleware.csrf.CsrfViewMiddleware'',
      ''django.contrib.auth.middleware.AuthenticationMiddleware'', ''apps.authentication.middleware.UserSessionMiddleware'',
      ''django.contrib.messages.middleware.MessageMiddleware'', ''django.middleware.clickjacking.XFrameOptionsMiddleware'',
      ''common.middleware.security_headers.ContentSecurityPolicyMiddleware'',
      ''common.middleware.request_logging.RequestLoggingMiddleware'']"

definition base_hashers :: "string list" where
  "base_hashers =
     [''django.contrib.auth.hashers.Argon2PasswordHasher'', ''django.contrib.auth.hashers.PBKDF2PasswordHasher'',
      ''django.contrib.auth.hashers.PBKDF2SHA1PasswordHasher'']"

definition py_rstrip_char :: "char \<Rightarrow> string \<Rightarrow> string" where
  \<comment> \<open>\<^verbatim>\<open>t.rstrip(c)\<close> for one character\<close>
  "py_rstrip_char c t = rev (dropWhile (\<lambda>d. d = c) (rev t))"

definition app_name :: "host \<Rightarrow> string" where
  "app_name h = env_text h ''APP_NAME'' ''Django Foundation''"

definition site_name :: "host \<Rightarrow> string" where
  "site_name h = env_text h ''SITE_NAME'' (app_name h)"

definition default_from_email :: "host \<Rightarrow> string" where
  "default_from_email h = env_text h ''DEFAULT_FROM_EMAIL'' (site_name h @ '' <noreply@localhost>'')"

text \<open>The names that cannot make the module fail; the whole numbers have their defaults until they are read.\<close>

definition text_settings :: "host \<Rightarrow> settings" where
  "text_settings h = default_settings
     \<lparr>APP_ENV := env_text h ''APP_ENV'' ''development'',
      DEBUG := env_bool h ''DEBUG'' False,
      SECRET_KEY := env_text h ''SECRET_KEY'' ''unsafe-development-only-key'',
      APP_NAME := app_name h,
      SITE_NAME := site_name h,
      SITE_URL := py_rstrip_char (CHR ''/'') (env_text h ''SITE_URL'' ''http://localhost:8000''),
      SUPPORT_EMAIL := env_text h ''SUPPORT_EMAIL'' ''support@localhost'',
      LANGUAGES := [''en'', ''tr''],
      CONTENT_SECURITY_POLICY := env_text h ''CONTENT_SECURITY_POLICY'' default_policy,
      TRUST_PROXY_HEADERS := env_bool h ''TRUST_PROXY_HEADERS'' False,
      TRUSTED_PROXY_IPS := env_list h ''TRUSTED_PROXY_IPS'' [],
      REDIS_ENABLED := env_bool h ''REDIS_ENABLED'' False,
      CELERY_ENABLED := env_bool h ''CELERY_ENABLED'' False,
      CELERY_TASK_ALWAYS_EAGER := env_bool h ''CELERY_TASK_ALWAYS_EAGER'' False,
      ENABLE_NOTIFICATIONS := env_bool h ''ENABLE_NOTIFICATIONS'' True,
      ENABLE_API_KEYS := env_bool h ''ENABLE_API_KEYS'' True,
      ENABLE_TWO_FACTOR := env_bool h ''ENABLE_TWO_FACTOR'' True,
      ENABLE_WEBHOOKS := env_bool h ''ENABLE_WEBHOOKS'' False,
      TOTP_ENCRYPTION_KEY := env_text h ''TOTP_ENCRYPTION_KEY'' [],
      API_KEY_PEPPER := env_text h ''API_KEY_PEPPER'' [],
      API_KEY_AVAILABLE_SCOPES := env_list h ''API_KEY_AVAILABLE_SCOPES''
        [''profile.read'', ''profile.write'', ''notifications.read'', ''notifications.write'']\<rparr>"

type_synonym int_setting = "string \<times> int \<times> (int \<Rightarrow> settings \<Rightarrow> settings)"

fun read_ints :: "host \<Rightarrow> int_setting list \<Rightarrow> settings \<Rightarrow> error + settings" where
  \<comment> \<open>consecutive \<^verbatim>\<open>NAME = env.int(variable, default=...)\<close>\<close>
  "read_ints h [] st = Inr st"
| "read_ints h ((name, fallback, store) # r) st =
     (case env_int h name fallback of Inl err \<Rightarrow> Inl err | Inr n \<Rightarrow> read_ints h r (store n st))"

definition reset_timeout :: "int_setting list" where
  "reset_timeout = [(''PASSWORD_RESET_TIMEOUT_SECONDS'', 3600, \<lambda>n. PASSWORD_RESET_TIMEOUT_update (\<lambda>_. n))]"

definition limits :: "int_setting list" where
  "limits =
     [(''LOGIN_MAX_ATTEMPTS'', 5, \<lambda>n. LOGIN_MAX_ATTEMPTS_update (\<lambda>_. n)),
      (''LOGIN_LOCKOUT_SECONDS'', 300, \<lambda>n. LOGIN_LOCKOUT_SECONDS_update (\<lambda>_. n)),
      (''LOGIN_MAX_BACKOFF_SECONDS'', 3600, \<lambda>n. LOGIN_MAX_BACKOFF_SECONDS_update (\<lambda>_. n)),
      (''MAX_UPLOAD_SIZE'', 10 * 1024 * 1024, \<lambda>n. MAX_UPLOAD_SIZE_update (\<lambda>_. n)),
      (''MAX_IMAGE_PIXELS'', 25000000, \<lambda>n. MAX_IMAGE_PIXELS_update (\<lambda>_. n)),
      (''SESSION_RETENTION_DAYS'', 30, \<lambda>n. SESSION_RETENTION_DAYS_update (\<lambda>_. n)),
      (''TOKEN_RETENTION_DAYS'', 7, \<lambda>n. TOKEN_RETENTION_DAYS_update (\<lambda>_. n)),
      (''NOTIFICATION_RETENTION_DAYS'', 90, \<lambda>n. NOTIFICATION_RETENTION_DAYS_update (\<lambda>_. n)),
      (''AUDIT_RETENTION_DAYS'', 0, \<lambda>n. AUDIT_RETENTION_DAYS_update (\<lambda>_. n)),
      (''FILE_RETENTION_DAYS'', 7, \<lambda>n. FILE_RETENTION_DAYS_update (\<lambda>_. n))]"

definition throttle_rates :: "host \<Rightarrow> (string \<times> string) list" where
  "throttle_rates h =
     [(''anon'', env_text h ''THROTTLE_ANON'' ''100/hour''), (''user'', env_text h ''THROTTLE_USER'' ''1000/hour''),
      (''login'', env_text h ''THROTTLE_LOGIN'' ''10/minute''), (''register'', env_text h ''THROTTLE_REGISTER'' ''5/hour''),
      (''password_reset'', env_text h ''THROTTLE_PASSWORD_RESET'' ''5/hour''),
      (''email_verification'', env_text h ''THROTTLE_EMAIL_VERIFICATION'' ''5/hour''),
      (''api_key'', env_text h ''THROTTLE_API_KEY'' ''600/hour'')]"

definition timedelta :: "int \<Rightarrow> error + int" where
  \<comment> \<open>\<^verbatim>\<open>timedelta\<close> refuses a span of a billion days or more\<close>
  "timedelta span =
     (if \<bar>span div days 1\<bar> \<le> 999999999 then Inr span else Inl (OverflowError ''date value out of range''))"

definition simple_jwt :: "host \<Rightarrow> string \<Rightarrow> error + jwt_config" where
  "simple_jwt h key =
     (case env_int h ''ACCESS_TOKEN_MINUTES'' 10 of Inl err \<Rightarrow> Inl err | Inr m \<Rightarrow>
     (case timedelta (minutes m) of Inl err \<Rightarrow> Inl err | Inr access \<Rightarrow>
     (case env_int h ''REFRESH_TOKEN_DAYS'' 7 of Inl err \<Rightarrow> Inl err | Inr d \<Rightarrow>
     (case timedelta (days d) of Inl err \<Rightarrow> Inl err | Inr refresh \<Rightarrow>
        Inr \<lparr>ACCESS_TOKEN_LIFETIME = access, REFRESH_TOKEN_LIFETIME = refresh, ROTATE_REFRESH_TOKENS = True,
             BLACKLIST_AFTER_ROTATION = True, UPDATE_LAST_LOGIN = False, SIGNING_KEY = key\<rparr>))))"

definition email_settings :: "host \<Rightarrow> error + email_config" where
  "email_settings h =
     (case env_int h ''EMAIL_PORT'' 1025 of Inl err \<Rightarrow> Inl err | Inr port \<Rightarrow>
        Inr \<lparr>EMAIL_HOST = env_text h ''EMAIL_HOST'' ''localhost'', EMAIL_PORT = port,
             EMAIL_HOST_USER = env_text h ''EMAIL_HOST_USER'' [], EMAIL_HOST_PASSWORD = env_text h ''EMAIL_HOST_PASSWORD'' [],
             EMAIL_USE_TLS = env_bool h ''EMAIL_USE_TLS'' False, EMAIL_USE_SSL = env_bool h ''EMAIL_USE_SSL'' False,
             EMAIL_TIMEOUT = 10\<rparr>)"

definition s3_storage :: "string" where
  "s3_storage = ''storages.backends.s3.S3Storage''"

definition s3_settings :: "host \<Rightarrow> string \<Rightarrow> s3_config option" where
  \<comment> \<open>set only when the storage backend is S3\<close>
  "s3_settings h backend =
     (if backend = s3_storage
      then Some \<lparr>AWS_ACCESS_KEY_ID = env_text h ''AWS_ACCESS_KEY_ID'' [],
                 AWS_SECRET_ACCESS_KEY = env_text h ''AWS_SECRET_ACCESS_KEY'' [],
                 AWS_BUCKET = env_text h ''AWS_STORAGE_BUCKET_NAME'' [],
                 AWS_S3_ENDPOINT_URL = environ h ''AWS_S3_ENDPOINT_URL'', AWS_S3_REGION_NAME = environ h ''AWS_S3_REGION_NAME'',
                 AWS_S3_CUSTOM_DOMAIN = environ h ''AWS_S3_CUSTOM_DOMAIN'',
                 AWS_QUERYSTRING_AUTH = env_bool h ''AWS_QUERYSTRING_AUTH'' True\<rparr>
      else None)"

definition services :: "host \<Rightarrow> s3_config option \<Rightarrow> mail_settings" where
  "services h s3 =
     \<lparr>EMAIL_BACKEND = env_text h ''EMAIL_BACKEND'' ''django.core.mail.backends.console.EmailBackend'',
      AWS_STORAGE_BUCKET_NAME = (case s3 of None \<Rightarrow> [] | Some c \<Rightarrow> AWS_BUCKET c),
      ENABLE_OPENAPI = env_bool h ''ENABLE_OPENAPI'' True,
      ENABLE_OPENAPI_IN_PRODUCTION = env_bool h ''ENABLE_OPENAPI_IN_PRODUCTION'' False\<rparr>"

definition sentry_init :: "host \<Rightarrow> settings \<Rightarrow> error + sentry_config option" where
  \<comment> \<open>what \<^verbatim>\<open>sentry_sdk.init\<close> is called with, if it is\<close>
  "sentry_init h st =
     (let d = env_text h ''SENTRY_DSN'' [] in
      if env_bool h ''ENABLE_SENTRY'' False \<and> d \<noteq> []
      then if \<not> (can_import h ''sentry_sdk'' \<and> can_import h ''sentry_sdk.integrations.django'')
           then Inl (ImproperlyConfigured ''Install the production extra to enable Sentry'')
           else if CELERY_ENABLED st \<and> \<not> can_import h ''sentry_sdk.integrations.celery''
           then Inl (ImproperlyConfigured ''The Sentry Celery integration requires the celery optional dependency'')
           else (case env_float h ''SENTRY_TRACES_SAMPLE_RATE'' ''0.0'' of Inl err \<Rightarrow> Inl err | Inr rate \<Rightarrow>
             Inr (Some \<lparr>dsn = d, integrations = ''DjangoIntegration'' # (if CELERY_ENABLED st then [''CeleryIntegration''] else []),
                        send_default_pii = False, traces_sample_rate = rate, environment = APP_ENV st\<rparr>))
      else Inr None)"

definition base_settings :: "host \<Rightarrow> string \<Rightarrow> error + base_values" where
  \<comment> \<open>the second argument is \<^verbatim>\<open>BASE_DIR\<close>\<close>
  "base_settings h base_dir =
     (case build_database_config h base_dir of Inl err \<Rightarrow> Inl err | Inr database \<Rightarrow>
     (case redis_caches h (app_name h) of Inl err \<Rightarrow> Inl err | Inr caches \<Rightarrow>
     (case read_ints h reset_timeout (text_settings h) of Inl err \<Rightarrow> Inl err | Inr st \<Rightarrow>
     (case storage_backend h of Inl err \<Rightarrow> Inl err | Inr storage \<Rightarrow>
     (case simple_jwt h (SECRET_KEY st) of Inl err \<Rightarrow> Inl err | Inr jwt \<Rightarrow>
     (case email_settings h of Inl err \<Rightarrow> Inl err | Inr email \<Rightarrow>
     (case celery_settings h of Inl err \<Rightarrow> Inl err | Inr celery \<Rightarrow>
     (case read_ints h limits st of Inl err \<Rightarrow> Inl err | Inr st' \<Rightarrow>
     (case env_int h ''WEBHOOK_RETENTION_DAYS'' 30 of Inl err \<Rightarrow> Inl err | Inr webhook_days \<Rightarrow>
     (case sentry_init h st' of Inl err \<Rightarrow> Inl err | Inr sentry \<Rightarrow>
        Inr \<lparr>bv_settings = st', bv_services = services h (s3_settings h storage),
             DEFAULT_FROM_EMAIL = default_from_email h,
             ALLOWED_HOSTS = env_list h ''ALLOWED_HOSTS'' [''localhost'', ''127.0.0.1''],
             INSTALLED_APPS = DJANGO_APPS @ THIRD_PARTY_APPS @ LOCAL_APPS, MIDDLEWARE = base_middleware,
             DATABASES = database, CACHES = caches, PASSWORD_HASHERS = base_hashers,
             LANGUAGE_CODE = env_text h ''DEFAULT_LANGUAGE'' ''en'', TIME_ZONE = env_text h ''TIME_ZONE'' ''UTC'',
             STORAGES = (storage, ''whitenoise.storage.CompressedManifestStaticFilesStorage''), S3 = s3_settings h storage,
             DEFAULT_THROTTLE_RATES = throttle_rates h, SIMPLE_JWT = jwt,
             CORS_ALLOWED_ORIGINS = env_list h ''CORS_ALLOWED_ORIGINS'' [],
             CSRF_TRUSTED_ORIGINS = env_list h ''CSRF_TRUSTED_ORIGINS'' [], EMAIL = email, CELERY = celery,
             WEBHOOK_RETENTION_DAYS = webhook_days, LOG_LEVEL = env_text h ''LOG_LEVEL'' ''INFO'',
             LOG_FORMATTER = (if DEBUG st' then ''readable'' else ''json''), SENTRY = sentry\<rparr>))))))))))"

section \<open>development.py, test.py and production.py\<close>

record cookie_flags =
  secure_session_cookie :: bool
  secure_csrf_cookie :: bool
  ssl_redirect :: bool

definition development_settings :: "host \<Rightarrow> base_values \<Rightarrow> base_values \<times> cookie_flags" where
  "development_settings h b =
     (b\<lparr>bv_settings := (bv_settings b)\<lparr>DEBUG := env_bool h ''DEBUG'' True,
          CELERY_TASK_ALWAYS_EAGER := env_bool h ''CELERY_TASK_ALWAYS_EAGER'' False\<rparr>,
        bv_services := (bv_services b)\<lparr>EMAIL_BACKEND := env_text h ''EMAIL_BACKEND'' ''django.core.mail.backends.console.EmailBackend''\<rparr>\<rparr>,
      \<lparr>secure_session_cookie = False, secure_csrf_cookie = False, ssl_redirect = False\<rparr>)"

definition test_key :: string where
  "test_key = ''test-only-secret-key-not-for-production-and-long-enough-for-jwt-hmac''"

definition test_settings :: "base_values \<Rightarrow> base_values" where
  \<comment> \<open>the database has no \<^verbatim>\<open>OPTIONS\<close>, so the timeout is the five seconds of the driver\<close>
  "test_settings b =
     b\<lparr>bv_settings := (bv_settings b)\<lparr>DEBUG := False, SECRET_KEY := test_key, REDIS_ENABLED := False, CELERY_ENABLED := False,
         CELERY_TASK_ALWAYS_EAGER := True, TOTP_ENCRYPTION_KEY := ''test-totp-encryption-key'',
         API_KEY_PEPPER := ''test-api-key-pepper''\<rparr>,
       SIMPLE_JWT := (SIMPLE_JWT b)\<lparr>SIGNING_KEY := test_key\<rparr>,
       DATABASES := SqliteConfig '':memory:'' 5, PASSWORD_HASHERS := [''django.contrib.auth.hashers.MD5PasswordHasher''],
       bv_services := (bv_services b)\<lparr>EMAIL_BACKEND := ''django.core.mail.backends.locmem.EmailBackend''\<rparr>,
       CACHES := LocMemCache,
       STORAGES := (''django.core.files.storage.InMemoryStorage'', ''django.contrib.staticfiles.storage.StaticFilesStorage''),
       MIDDLEWARE := filter (\<lambda>m. m \<noteq> whitenoise) (MIDDLEWARE b)\<rparr>"

definition development_module :: "host \<Rightarrow> string \<Rightarrow> error + base_values \<times> cookie_flags" where
  "development_module h base_dir =
     (case base_settings h base_dir of Inl err \<Rightarrow> Inl err | Inr b \<Rightarrow> Inr (development_settings h b))"

definition test_module :: "host \<Rightarrow> string \<Rightarrow> error + base_values" where
  "test_module h base_dir = (case base_settings h base_dir of Inl err \<Rightarrow> Inl err | Inr b \<Rightarrow> Inr (test_settings b))"

definition production_module :: "host \<Rightarrow> string \<Rightarrow> error + base_values \<times> production_flags" where
  "production_module h base_dir =
     (case base_settings h base_dir of Inl err \<Rightarrow> Inl err | Inr b \<Rightarrow>
     (case production_settings h (bv_settings b) (bv_services b) of Inl err \<Rightarrow> Inl err | Inr (st, flags) \<Rightarrow>
        Inr (b\<lparr>bv_settings := st, bv_services := (bv_services b)\<lparr>ENABLE_OPENAPI := serves_openapi flags\<rparr>\<rparr>, flags)))"

section \<open>Properties\<close>

lemma base_settings_cases:
  assumes "base_settings h dir = Inr b"
  obtains st st' storage where
    "build_database_config h dir = Inr (DATABASES b)" "redis_caches h (app_name h) = Inr (CACHES b)"
    "read_ints h reset_timeout (text_settings h) = Inr st" "storage_backend h = Inr storage"
    "simple_jwt h (SECRET_KEY st) = Inr (SIMPLE_JWT b)" "email_settings h = Inr (EMAIL b)" "celery_settings h = Inr (CELERY b)"
    "read_ints h limits st = Inr st'" "env_int h ''WEBHOOK_RETENTION_DAYS'' 30 = Inr (WEBHOOK_RETENTION_DAYS b)"
    "sentry_init h st' = Inr (SENTRY b)" "bv_settings b = st'" "bv_services b = services h (s3_settings h storage)"
    "LOG_FORMATTER b = (if DEBUG st' then ''readable'' else ''json'')" "MIDDLEWARE b = base_middleware"
    "DEFAULT_THROTTLE_RATES b = throttle_rates h" "DEFAULT_FROM_EMAIL b = default_from_email h"
    "ALLOWED_HOSTS b = env_list h ''ALLOWED_HOSTS'' [''localhost'', ''127.0.0.1'']"
  using assms unfolding base_settings_def by (auto split: sum.splits)

lemma limits_frame:
  assumes "read_ints h reset_timeout (text_settings h) = Inr st" and "read_ints h limits st = Inr st'"
  shows "SECRET_KEY st = SECRET_KEY (text_settings h)"
    and "SECRET_KEY st' = SECRET_KEY (text_settings h)" "DEBUG st' = DEBUG (text_settings h)" "SITE_URL st' = SITE_URL (text_settings h)"
    and "TOTP_ENCRYPTION_KEY st' = TOTP_ENCRYPTION_KEY (text_settings h)" "API_KEY_PEPPER st' = API_KEY_PEPPER (text_settings h)"
    and "ENABLE_API_KEYS st' = ENABLE_API_KEYS (text_settings h)" "CELERY_ENABLED st' = CELERY_ENABLED (text_settings h)"
    and "APP_ENV st' = APP_ENV (text_settings h)" "TRUST_PROXY_HEADERS st' = TRUST_PROXY_HEADERS (text_settings h)"
  using assms by (auto simp: reset_timeout_def limits_def split: sum.splits)

lemma limits_read:
  assumes "read_ints h reset_timeout (text_settings h) = Inr st'" and "read_ints h limits st' = Inr st"
  shows "env_int h ''PASSWORD_RESET_TIMEOUT_SECONDS'' 3600 = Inr (PASSWORD_RESET_TIMEOUT st) \<and>
     env_int h ''LOGIN_MAX_ATTEMPTS'' 5 = Inr (LOGIN_MAX_ATTEMPTS st) \<and>
     env_int h ''LOGIN_LOCKOUT_SECONDS'' 300 = Inr (LOGIN_LOCKOUT_SECONDS st) \<and>
     env_int h ''LOGIN_MAX_BACKOFF_SECONDS'' 3600 = Inr (LOGIN_MAX_BACKOFF_SECONDS st) \<and>
     env_int h ''MAX_UPLOAD_SIZE'' 10485760 = Inr (MAX_UPLOAD_SIZE st) \<and>
     env_int h ''MAX_IMAGE_PIXELS'' 25000000 = Inr (MAX_IMAGE_PIXELS st) \<and>
     env_int h ''SESSION_RETENTION_DAYS'' 30 = Inr (SESSION_RETENTION_DAYS st) \<and>
     env_int h ''TOKEN_RETENTION_DAYS'' 7 = Inr (TOKEN_RETENTION_DAYS st) \<and>
     env_int h ''NOTIFICATION_RETENTION_DAYS'' 90 = Inr (NOTIFICATION_RETENTION_DAYS st) \<and>
     env_int h ''AUDIT_RETENTION_DAYS'' 0 = Inr (AUDIT_RETENTION_DAYS st) \<and>
     env_int h ''FILE_RETENTION_DAYS'' 7 = Inr (FILE_RETENTION_DAYS st)"
  using assms by (auto simp: reset_timeout_def limits_def split: sum.splits)

text \<open>
  Nothing is read past its variable: when the module loads, each limit is the whole number in its variable, or the
  default when there is none, and a variable that is not a whole number stops the start.
\<close>

theorem limits_come_from_environment:
  assumes "base_settings h dir = Inr b"
  defines "st \<equiv> bv_settings b"
  shows "env_int h ''PASSWORD_RESET_TIMEOUT_SECONDS'' 3600 = Inr (PASSWORD_RESET_TIMEOUT st) \<and>
     env_int h ''LOGIN_MAX_ATTEMPTS'' 5 = Inr (LOGIN_MAX_ATTEMPTS st) \<and>
     env_int h ''LOGIN_LOCKOUT_SECONDS'' 300 = Inr (LOGIN_LOCKOUT_SECONDS st) \<and>
     env_int h ''LOGIN_MAX_BACKOFF_SECONDS'' 3600 = Inr (LOGIN_MAX_BACKOFF_SECONDS st) \<and>
     env_int h ''MAX_UPLOAD_SIZE'' 10485760 = Inr (MAX_UPLOAD_SIZE st) \<and>
     env_int h ''MAX_IMAGE_PIXELS'' 25000000 = Inr (MAX_IMAGE_PIXELS st) \<and>
     env_int h ''SESSION_RETENTION_DAYS'' 30 = Inr (SESSION_RETENTION_DAYS st) \<and>
     env_int h ''TOKEN_RETENTION_DAYS'' 7 = Inr (TOKEN_RETENTION_DAYS st) \<and>
     env_int h ''NOTIFICATION_RETENTION_DAYS'' 90 = Inr (NOTIFICATION_RETENTION_DAYS st) \<and>
     env_int h ''AUDIT_RETENTION_DAYS'' 0 = Inr (AUDIT_RETENTION_DAYS st) \<and>
     env_int h ''FILE_RETENTION_DAYS'' 7 = Inr (FILE_RETENTION_DAYS st)"
  using assms(1) unfolding st_def by (elim base_settings_cases) (simp add: limits_read)

definition bare_host :: host where
  \<comment> \<open>an environment without variables\<close>
  "bare_host = demo_host\<lparr>environ := (\<lambda>_. None)\<rparr>"

text \<open>
  Without any variable the module loads, and what it leaves is \<open>default_settings\<close>: the settings under which the
  properties of the services are exercised are those of the code. Access tokens live ten minutes and refresh tokens seven days.
\<close>

theorem empty_environment_defaults:
  assumes "\<And>name. environ h name = None" and "\<not> startswith ''/'' (expanduser h ''db.sqlite3'')"
  shows "\<exists>b. base_settings h dir = Inr b \<and> bv_settings b = default_settings \<and>
     DATABASES b = SqliteConfig (join_path h dir (expanduser h ''db.sqlite3'')) 20 \<and> CACHES b = LocMemCache \<and>
     ACCESS_TOKEN_LIFETIME (SIMPLE_JWT b) = minutes 10 \<and> REFRESH_TOKEN_LIFETIME (SIMPLE_JWT b) = days 7 \<and>
     SIGNING_KEY (SIMPLE_JWT b) = SECRET_KEY default_settings \<and>
     DEFAULT_FROM_EMAIL b = ''Django Foundation <noreply@localhost>'' \<and> SENTRY b = None"
proof -
  have t: "env_text h n d = d" "env_bool h n x = x" "env_int h n i = Inr i" "env_list h n l = l" for n d x i l
    using assms(1) by (simp_all add: env_text_def env_bool_def env_int_def env_list_def)
  have strip: "py_strip [] = []" "py_lower ''local'' \<noteq> ''s3''" by code_simp+
  have url: "py_rstrip_char (CHR ''/'') ''http://localhost:8000'' = ''http://localhost:8000''" by code_simp
  have texts: "text_settings h = default_settings"
    by (simp add: text_settings_def t app_name_def site_name_def url) (simp add: default_settings_def)
  have ints: "read_ints h reset_timeout default_settings = Inr default_settings" "read_ints h limits default_settings = Inr default_settings"
    by (simp_all add: reset_timeout_def limits_def t default_settings_def)
  have jwt: "simple_jwt h k = Inr \<lparr>ACCESS_TOKEN_LIFETIME = minutes 10, REFRESH_TOKEN_LIFETIME = days 7, ROTATE_REFRESH_TOKENS = True,
      BLACKLIST_AFTER_ROTATION = True, UPDATE_LAST_LOGIN = False, SIGNING_KEY = k\<rparr>" for k
    by (simp add: simple_jwt_def t timedelta_def time_defs)
  have mail: "email_settings h = Inr \<lparr>EMAIL_HOST = ''localhost'', EMAIL_PORT = 1025, EMAIL_HOST_USER = [], EMAIL_HOST_PASSWORD = [],
      EMAIL_USE_TLS = False, EMAIL_USE_SSL = False, EMAIL_TIMEOUT = 10\<rparr>"
    by (simp add: email_settings_def t)
  have caches: "redis_caches h n = Inr LocMemCache" for n by (simp add: redis_caches_def t Let_def)
  have storage: "storage_backend h = Inr ''django.core.files.storage.FileSystemStorage''"
    using strip by (simp add: storage_backend_def t)
  have celery: "\<exists>c. celery_settings h = Inr c" by (simp add: celery_settings_def t Let_def)
  have sentry: "sentry_init h st = Inr None" for st by (simp add: sentry_init_def t Let_def)
  obtain c where c: "celery_settings h = Inr c" using celery by blast
  note database = build_database_default [where h = h and base_dir = dir, OF assms(1)]
  show ?thesis using assms(2)
    by (simp add: base_settings_def database caches texts ints jwt mail storage c sentry t default_from_email_def site_name_def app_name_def)
qed

lemma empty_environment_loads: "\<exists>b. base_settings bare_host ''/srv'' = Inr b"
proof -
  have "\<not> isl (base_settings bare_host ''/srv'')" by code_simp
  then show ?thesis by (cases "base_settings bare_host ''/srv''") auto
qed

theorem empty_environment_defaults_witness:
  "\<exists>b. base_settings bare_host ''/srv'' = Inr b \<and> bv_settings b = default_settings"
proof -
  have "\<not> startswith ''/'' (expanduser bare_host ''db.sqlite3'')" by code_simp
  moreover have "environ bare_host name = None" for name by (simp add: bare_host_def)
  ultimately show ?thesis using empty_environment_defaults [of bare_host "''/srv''"] by blast
qed

lemma production_module_cases:
  assumes "production_module h dir = Inr (b, flags)"
  obtains c st where "base_settings h dir = Inr c" "production_settings h (bv_settings c) (bv_services c) = Inr (st, flags)"
    "b = c\<lparr>bv_settings := st, bv_services := (bv_services c)\<lparr>ENABLE_OPENAPI := serves_openapi flags\<rparr>\<rparr>"
    "st = (bv_settings c)\<lparr>DEBUG := False\<rparr>" "production_problem h st (bv_services c) = None"
  using assms unfolding production_module_def production_settings_def
  by (auto split: sum.splits option.splits)

lemma env_text_set: "env_text h name fallback = t \<Longrightarrow> t \<noteq> fallback \<Longrightarrow> environ h name = Some t"
  by (auto simp: env_text_def split: option.splits)

lemma env_text_long: "env_text h name [] = t \<Longrightarrow> 32 \<le> length t \<Longrightarrow> environ h name = Some t"
  by (rule env_text_set) auto

lemma simple_jwt_key: "simple_jwt h key = Inr jwt \<Longrightarrow> SIGNING_KEY jwt = key"
  by (auto simp: simple_jwt_def split: sum.splits)

lemma base_texts:
  assumes "base_settings h dir = Inr c"
  defines "st \<equiv> bv_settings c"
  shows "SECRET_KEY st = env_text h ''SECRET_KEY'' ''unsafe-development-only-key''" "SIGNING_KEY (SIMPLE_JWT c) = SECRET_KEY st"
    "TOTP_ENCRYPTION_KEY st = env_text h ''TOTP_ENCRYPTION_KEY'' []" "API_KEY_PEPPER st = env_text h ''API_KEY_PEPPER'' []"
    "EMAIL_BACKEND (bv_services c) = env_text h ''EMAIL_BACKEND'' ''django.core.mail.backends.console.EmailBackend''"
    "DEFAULT_FROM_EMAIL c = default_from_email h" "DEBUG st = env_bool h ''DEBUG'' False"
    "LOG_FORMATTER c = (if env_bool h ''DEBUG'' False then ''readable'' else ''json'')"
proof -
  obtain st0 storage where r: "read_ints h reset_timeout (text_settings h) = Inr st0" "read_ints h limits st0 = Inr (bv_settings c)"
    "simple_jwt h (SECRET_KEY st0) = Inr (SIMPLE_JWT c)" "bv_services c = services h (s3_settings h storage)"
    "LOG_FORMATTER c = (if DEBUG (bv_settings c) then ''readable'' else ''json'')" "DEFAULT_FROM_EMAIL c = default_from_email h"
    using assms(1) by (elim base_settings_cases) auto
  note frame = limits_frame [OF r(1,2)]
  have "SIGNING_KEY (SIMPLE_JWT c) = SECRET_KEY st0" using r(3) by (rule simple_jwt_key)
  then show "SIGNING_KEY (SIMPLE_JWT c) = SECRET_KEY st" using frame(1,2) by (simp add: st_def)
  show "SECRET_KEY st = env_text h ''SECRET_KEY'' ''unsafe-development-only-key''"
    and "TOTP_ENCRYPTION_KEY st = env_text h ''TOTP_ENCRYPTION_KEY'' []" and "API_KEY_PEPPER st = env_text h ''API_KEY_PEPPER'' []"
    and debug: "DEBUG st = env_bool h ''DEBUG'' False"
    using frame by (simp_all add: st_def text_settings_def)
  show "LOG_FORMATTER c = (if env_bool h ''DEBUG'' False then ''readable'' else ''json'')" using r(5) debug by (simp add: st_def)
  show "EMAIL_BACKEND (bv_services c) = env_text h ''EMAIL_BACKEND'' ''django.core.mail.backends.console.EmailBackend''"
    using r(4) by (simp add: services_def)
  show "DEFAULT_FROM_EMAIL c = default_from_email h" by (fact r(6))
qed

text \<open>
  Property C25: a production process never runs on a default secret. If the production module loads, the secret key, the
  encryption key and (with API keys enabled) the pepper, the sender's address and the mail backend are what the environment says,
  long enough, and bearer tokens are signed with that secret key; links use HTTPS and debugging is off; stored secrets are encrypted
  under the encryption key of the environment alone; and the demonstration administrator can never be seeded.
\<close>

theorem production_starts_configured:
  assumes "production_module h dir = Inr (b, flags)"
  defines "st \<equiv> bv_settings b"
  shows "environ h ''SECRET_KEY'' = Some (SECRET_KEY st) \<and> 50 \<le> length (SECRET_KEY st) \<and> SIGNING_KEY (SIMPLE_JWT b) = SECRET_KEY st \<and>
     environ h ''TOTP_ENCRYPTION_KEY'' = Some (TOTP_ENCRYPTION_KEY st) \<and> 32 \<le> length (TOTP_ENCRYPTION_KEY st) \<and>
     (\<forall>p purpose. key_material \<lparr>cfg = st, plat = p\<rparr> purpose = Inr (sha256 p (purpose @ '':'' @ TOTP_ENCRYPTION_KEY st))) \<and>
     (ENABLE_API_KEYS st \<longrightarrow> environ h ''API_KEY_PEPPER'' = Some (API_KEY_PEPPER st) \<and> 32 \<le> length (API_KEY_PEPPER st)) \<and>
     environ h ''DEFAULT_FROM_EMAIL'' = Some (DEFAULT_FROM_EMAIL b) \<and> environ h ''ALLOWED_HOSTS'' \<noteq> None \<and>
     environ h ''EMAIL_BACKEND'' = Some (EMAIL_BACKEND (bv_services b)) \<and>
     startswith ''https://'' (SITE_URL st) \<and> \<not> DEBUG st \<and>
     (\<forall>p reg password salt s. fst (seed \<lparr>cfg = st, plat = p\<rparr> reg True password salt s) \<noteq> Inr ())"
proof -
  obtain c where c: "base_settings h dir = Inr c" "production_settings h (bv_settings c) (bv_services c) = Inr (st, flags)"
    "SIMPLE_JWT b = SIMPLE_JWT c" "DEFAULT_FROM_EMAIL b = DEFAULT_FROM_EMAIL c" "EMAIL_BACKEND (bv_services b) = EMAIL_BACKEND (bv_services c)"
    and st: "st = (bv_settings c)\<lparr>DEBUG := False\<rparr>" and ok: "production_problem h st (bv_services c) = None"
    using assms by (elim production_module_cases) (simp add: st_def)
  note texts = base_texts [OF c(1)]
  note safe = production_is_safe [OF c(2)]
  note fine = ok [unfolded production_problem_def first_problem_None, simplified]
  have seed: "fst (seed \<lparr>cfg = st, plat = p\<rparr> reg True password salt s) \<noteq> Inr ()" for p reg password salt s
    using safe by (auto simp: seed_def op_simps split: prod.splits sum.splits)
  have secret: "environ h ''SECRET_KEY'' = Some (SECRET_KEY st)"
    using env_text_set [of h "''SECRET_KEY''" "''unsafe-development-only-key''" "SECRET_KEY st"] texts(1) st safe by simp
  have totp: "environ h ''TOTP_ENCRYPTION_KEY'' = Some (TOTP_ENCRYPTION_KEY st)"
    using env_text_long [of h "''TOTP_ENCRYPTION_KEY''" "TOTP_ENCRYPTION_KEY st"] texts(3) st safe by simp
  have pepper: "environ h ''API_KEY_PEPPER'' = Some (API_KEY_PEPPER st)" if "ENABLE_API_KEYS st"
    using env_text_long [of h "''API_KEY_PEPPER''" "API_KEY_PEPPER st"] texts(4) st safe that by simp
  have sender: "environ h ''DEFAULT_FROM_EMAIL'' = Some (DEFAULT_FROM_EMAIL b)"
    using fine texts(6) c(4) by (auto simp: env_text_def default_from_email_def split: option.splits)
  have hosts: "environ h ''ALLOWED_HOSTS'' \<noteq> None" using fine by (auto simp: env_text_def split: option.splits)
  have backend: "environ h ''EMAIL_BACKEND'' = Some (EMAIL_BACKEND (bv_services b))"
    using fine texts(5) c(5) by (auto simp: env_text_def split: option.splits)
  show ?thesis using safe seed secret totp pepper sender hosts backend texts(2) c(3) st by simp
qed

definition production_host :: host where
  "production_host = demo_host\<lparr>environ := map_of
     [(''SECRET_KEY'', replicate 50 (CHR ''s'')), (''TOTP_ENCRYPTION_KEY'', replicate 32 (CHR ''t'')),
      (''API_KEY_PEPPER'', replicate 32 (CHR ''p'')), (''ALLOWED_HOSTS'', ''example.com''), (''DEFAULT_FROM_EMAIL'', ''a@example.com''),
      (''EMAIL_BACKEND'', ''django.core.mail.backends.smtp.EmailBackend''), (''SITE_URL'', ''https://example.com/''),
      (''DEBUG'', ''true'')]\<rparr>"

lemma production_host_starts:
  "case production_module production_host ''/srv'' of Inl _ \<Rightarrow> False | Inr (b, _) \<Rightarrow> ENABLE_API_KEYS (bv_settings b) \<and> LOG_FORMATTER b = ''readable''"
  by code_simp

theorem production_starts_configured_witness:
  "\<exists>b flags. production_module production_host ''/srv'' = Inr (b, flags) \<and>
     environ production_host ''SECRET_KEY'' = Some (SECRET_KEY (bv_settings b)) \<and> \<not> DEBUG (bv_settings b)"
proof -
  obtain b flags where "production_module production_host ''/srv'' = Inr (b, flags)"
    using production_host_starts by (auto split: sum.splits prod.splits)
  from production_starts_configured [OF this] this show ?thesis by blast
qed

text \<open>
  The format of the log is chosen in \<^verbatim>\<open>base.py\<close> by the variable \<^verbatim>\<open>DEBUG\<close>, not by the \<^verbatim>\<open>DEBUG\<close> of the module that is loaded: with
  \<^verbatim>\<open>DEBUG=true\<close> in its environment a production process, which runs with debugging off, writes the readable format, and
  so never uses the formatter that redacts secrets; a development process without the variable writes the other one.
\<close>

theorem log_format_ignores_module:
  assumes "base_settings h dir = Inr c"
  shows "LOG_FORMATTER (fst (development_settings h c)) = (if env_bool h ''DEBUG'' False then ''readable'' else ''json'') \<and>
     DEBUG (bv_settings (fst (development_settings h c))) = env_bool h ''DEBUG'' True \<and>
     (\<forall>b flags. production_module h dir = Inr (b, flags) \<longrightarrow>
        LOG_FORMATTER b = (if env_bool h ''DEBUG'' False then ''readable'' else ''json'') \<and> \<not> DEBUG (bv_settings b))"
proof -
  note texts = base_texts [OF assms]
  have "LOG_FORMATTER b = LOG_FORMATTER c \<and> \<not> DEBUG (bv_settings b)" if "production_module h dir = Inr (b, flags)" for b flags
    using that assms by (elim production_module_cases) simp
  then show ?thesis using texts(8) by (simp add: development_settings_def)
qed

theorem log_format_ignores_module_witness:
  "\<exists>b flags. production_module production_host ''/srv'' = Inr (b, flags) \<and> LOG_FORMATTER b = ''readable'' \<and> \<not> DEBUG (bv_settings b)"
proof -
  obtain b flags where p: "production_module production_host ''/srv'' = Inr (b, flags)"
    using production_host_starts by (auto split: sum.splits prod.splits)
  then obtain c where c: "base_settings production_host ''/srv'' = Inr c" by (elim production_module_cases) blast
  have "env_bool production_host ''DEBUG'' False" by code_simp
  with log_format_ignores_module [OF c] p show ?thesis by auto
qed

text \<open>
  The test module reaches nothing outside its process: whatever the environment says, the database is in memory, mail and
  stored files stay in memory, the cache is local, tasks run in the caller and no key of a deployment is used. Only an error
  tracker that the environment enables is still initialised.
\<close>

theorem test_module_isolated:
  assumes "test_module h dir = Inr b"
  shows "DATABASES b = SqliteConfig '':memory:'' 5 \<and> CACHES b = LocMemCache \<and> \<not> REDIS_ENABLED (bv_settings b) \<and>
     EMAIL_BACKEND (bv_services b) = ''django.core.mail.backends.locmem.EmailBackend'' \<and>
     fst (STORAGES b) = ''django.core.files.storage.InMemoryStorage'' \<and>
     \<not> CELERY_ENABLED (bv_settings b) \<and> CELERY_TASK_ALWAYS_EAGER (bv_settings b) \<and> \<not> DEBUG (bv_settings b) \<and>
     SIGNING_KEY (SIMPLE_JWT b) = SECRET_KEY (bv_settings b) \<and> whitenoise \<notin> set (MIDDLEWARE b) \<and>
     (SENTRY b \<noteq> None \<longleftrightarrow> env_bool h ''ENABLE_SENTRY'' False \<and> env_text h ''SENTRY_DSN'' [] \<noteq> [])"
proof -
  obtain c where c: "base_settings h dir = Inr c" and b: "b = test_settings c"
    using assms by (auto simp: test_module_def split: sum.splits)
  from c obtain st where "sentry_init h st = Inr (SENTRY c)" by (elim base_settings_cases) blast
  then have "SENTRY c \<noteq> None \<longleftrightarrow> env_bool h ''ENABLE_SENTRY'' False \<and> env_text h ''SENTRY_DSN'' [] \<noteq> []"
    by (auto simp: sentry_init_def Let_def split: if_splits sum.splits) (metis option.discI)+
  then show ?thesis by (simp add: b test_settings_def)
qed

theorem test_module_isolated_witness:
  "\<exists>b. test_module bare_host ''/srv'' = Inr b \<and> DATABASES b = SqliteConfig '':memory:'' 5"
proof -
  obtain b where "base_settings bare_host ''/srv'' = Inr b" using empty_environment_loads by blast
  then have "test_module bare_host ''/srv'' = Inr (test_settings b)" by (simp add: test_module_def)
  with test_module_isolated [OF this] show ?thesis by blast
qed

text \<open>
  The order of the middleware, the outermost first: a request has its identifier before anything is logged, its session before
  its user, its user before the session row is checked, and a forged form is refused before it.
\<close>

fun precedes :: "'a \<Rightarrow> 'a \<Rightarrow> 'a list \<Rightarrow> bool" where
  "precedes x y [] = False"
| "precedes x y (z # zs) = (if z = x then y \<in> set zs else precedes x y zs)"

theorem middleware_order:
  assumes "base_settings h dir = Inr b" and "middleware = MIDDLEWARE b \<or> middleware = MIDDLEWARE (test_settings b)"
  shows "precedes ''common.middleware.request_id.RequestIDMiddleware'' ''common.middleware.request_logging.RequestLoggingMiddleware'' middleware \<and>
     precedes ''django.contrib.sessions.middleware.SessionMiddleware'' ''django.contrib.auth.middleware.AuthenticationMiddleware'' middleware \<and>
     precedes ''django.contrib.auth.middleware.AuthenticationMiddleware'' ''apps.authentication.middleware.UserSessionMiddleware'' middleware \<and>
     precedes ''django.middleware.csrf.CsrfViewMiddleware'' ''apps.authentication.middleware.UserSessionMiddleware'' middleware"
proof -
  have "MIDDLEWARE b = base_middleware" using assms(1) by (elim base_settings_cases)
  then show ?thesis using assms(2) by (auto simp: test_settings_def base_middleware_def whitenoise_def)
qed

theorem middleware_order_witness:
  "\<exists>b. base_settings bare_host ''/srv'' = Inr b \<and> precedes ''django.contrib.auth.middleware.AuthenticationMiddleware''
     ''apps.authentication.middleware.UserSessionMiddleware'' (MIDDLEWARE b)"
proof -
  obtain b where "base_settings bare_host ''/srv'' = Inr b" using empty_environment_loads by blast
  with middleware_order [OF this] show ?thesis by blast
qed

end
