(* ===== verification/Schema.thy ===== *)
theory Schema
  imports Prelude
begin

text \<open>
  The language of model classes and migrations, as the repository's \<^verbatim>\<open>models.py\<close> and \<^verbatim>\<open>migrations\<close> use it: columns with their
  options, indexes and constraints; the documented effect of the five migration operations on the models of an application;
  migrations with their dependencies; and what a table refuses because of its unique keys and check constraints. An operation that
  the documentation forbids (a model that is there already, a column, an index column or a target that is not) has no result.
  Labels in forms, help texts, validators and managers are left out.
\<close>

section \<open>Columns and models\<close>

type_synonym model_ref = "string \<times> string"

datatype on_delete = CASCADE | SET_NULL | PROTECT

datatype column_type =
    UUIDField | CharField nat | EmailField nat | SlugField nat | URLField nat | TextField "nat option"
  | BooleanField | DateTimeField | GenericIPAddressField | JSONField
  | PositiveSmallIntegerField | PositiveIntegerField | PositiveBigIntegerField
  | FileField nat string | ImageField nat string
  | ForeignKey model_ref on_delete string
  | OneToOneField model_ref on_delete string
  | ManyToManyField model_ref "model_ref option" string

datatype column_default =
    NoDefault | DefaultText string | DefaultInt int | DefaultBool bool | DefaultCall string | AutoNow | AutoNowAdd

record column =
  c_type :: column_type
  c_null :: bool
  c_blank :: bool
  c_unique :: bool
  c_db_index :: bool
  c_primary_key :: bool
  c_editable :: bool
  c_default :: column_default
  c_choices :: "(string \<times> string) list"

definition column :: "column_type \<Rightarrow> column" where
  \<comment> \<open>a field without options\<close>
  "column t = \<lparr>c_type = t, c_null = False, c_blank = False, c_unique = False, c_db_index = False, c_primary_key = False,
     c_editable = True, c_default = NoDefault, c_choices = []\<rparr>"

datatype key_part = Col string | Lower string

datatype check_condition = IsNull string | Greater string string | Or check_condition check_condition

datatype constraint = UniqueConstraint "key_part list" string | CheckConstraint check_condition string

record model_index =
  ix_fields :: "string list"
  ix_name :: string

record model =
  md_name :: string
  md_columns :: "(string \<times> column) list"
  md_ordering :: "string list"
  md_indexes :: "model_index list"
  md_constraints :: "constraint list"

fun part_column :: "key_part \<Rightarrow> string" where
  "part_column (Col c) = c"
| "part_column (Lower c) = c"

fun condition_columns :: "check_condition \<Rightarrow> string list" where
  "condition_columns (IsNull c) = [c]"
| "condition_columns (Greater a b) = [a, b]"
| "condition_columns (Or p q) = condition_columns p @ condition_columns q"

fun constraint_columns :: "constraint \<Rightarrow> string list" where
  "constraint_columns (UniqueConstraint parts _) = map part_column parts"
| "constraint_columns (CheckConstraint p _) = condition_columns p"

fun references :: "column_type \<Rightarrow> model_ref list" where
  "references (ForeignKey r _ _) = [r]"
| "references (OneToOneField r _ _) = [r]"
| "references (ManyToManyField r through _) = r # (case through of None \<Rightarrow> [] | Some t \<Rightarrow> [t])"
| "references _ = []"

definition model_ok :: "model \<Rightarrow> bool" where
  "model_ok m \<longleftrightarrow> (let names = map fst (md_columns m) in distinct names \<and>
     list_all (\<lambda>i. list_all (\<lambda>c. c \<in> set names) (ix_fields i)) (md_indexes m) \<and>
     list_all (\<lambda>k. list_all (\<lambda>c. c \<in> set names) (constraint_columns k)) (md_constraints m))"

section \<open>Migrations\<close>

datatype operation =
    CreateModel model
  | AddField string string column
  | AlterField string string column
  | AddIndex string model_index
  | AddConstraint string constraint

record migration =
  mg_app :: string
  mg_name :: string
  mg_dependencies :: "(string \<times> string) list"
  mg_operations :: "operation list"

definition find_model :: "string \<Rightarrow> model list \<Rightarrow> model option" where
  "find_model name ms = find (\<lambda>m. py_lower (md_name m) = name) ms"

fun change_model :: "string \<Rightarrow> (model \<Rightarrow> model option) \<Rightarrow> model list \<Rightarrow> model list option" where
  "change_model name f [] = None"
| "change_model name f (m # ms) =
     (if py_lower (md_name m) = name
      then (case f m of None \<Rightarrow> None | Some n \<Rightarrow> if model_ok n then Some (n # ms) else None)
      else map_option ((#) m) (change_model name f ms))"

fun apply_operation :: "operation \<Rightarrow> model list \<Rightarrow> model list option" where
  "apply_operation (CreateModel m) ms =
     (if find_model (py_lower (md_name m)) ms \<noteq> None \<or> \<not> model_ok m then None else Some (ms @ [m]))"
| "apply_operation (AddField name c col) ms = change_model name (\<lambda>m. Some (m\<lparr>md_columns := md_columns m @ [(c, col)]\<rparr>)) ms"
| "apply_operation (AlterField name c col) ms = change_model name
     (\<lambda>m. if c \<in> set (map fst (md_columns m))
          then Some (m\<lparr>md_columns := map (\<lambda>(d, old). (d, if d = c then col else old)) (md_columns m)\<rparr>) else None) ms"
| "apply_operation (AddIndex name i) ms = change_model name (\<lambda>m. Some (m\<lparr>md_indexes := md_indexes m @ [i]\<rparr>)) ms"
| "apply_operation (AddConstraint name k) ms = change_model name (\<lambda>m. Some (m\<lparr>md_constraints := md_constraints m @ [k]\<rparr>)) ms"

fun operation_references :: "operation \<Rightarrow> model_ref list" where
  "operation_references (CreateModel m) = concat (map (\<lambda>(_, c). references (c_type c)) (md_columns m))"
| "operation_references (AddField _ _ c) = references (c_type c)"
| "operation_references (AlterField _ _ c) = references (c_type c)"
| "operation_references _ = []"

type_synonym schema = "string \<Rightarrow> model list"

definition model_exists :: "schema \<Rightarrow> model_ref \<Rightarrow> bool" where
  "model_exists S r \<longleftrightarrow> find_model (snd r) (S (fst r)) \<noteq> None"

fun run_operations :: "string \<Rightarrow> operation list \<Rightarrow> schema \<Rightarrow> schema option" where
  "run_operations app [] S = Some S"
| "run_operations app (x # xs) S =
     (case apply_operation x (S app) of
        None \<Rightarrow> None
      | Some ms \<Rightarrow> if list_all (model_exists (S(app := ms))) (operation_references x) then run_operations app xs (S(app := ms)) else None)"

definition migration_id :: "migration \<Rightarrow> string \<times> string" where
  "migration_id m = (mg_app m, mg_name m)"

fun migrate :: "migration list \<Rightarrow> (string \<times> string) set \<Rightarrow> schema \<Rightarrow> schema option" where
  \<comment> \<open>the second argument are the migrations that were applied before\<close>
  "migrate [] applied S = Some S"
| "migrate (m # ms) applied S =
     (if migration_id m \<in> applied \<or> \<not> set (mg_dependencies m) \<subseteq> applied then None
      else case run_operations (mg_app m) (mg_operations m) S of
             None \<Rightarrow> None
           | Some T \<Rightarrow> migrate ms (insert (migration_id m) applied) T)"

section \<open>One application at a time\<close>

text \<open>
  The operations of a migration change the models of its own application and look at others only to see that they are there, so they
  can be run on those models alone, collecting the references that lead elsewhere.
\<close>

fun local_run :: "string \<Rightarrow> operation list \<Rightarrow> model list \<Rightarrow> (model list \<times> model_ref list) option" where
  "local_run app [] ms = Some (ms, [])"
| "local_run app (x # xs) ms =
     (case apply_operation x ms of
        None \<Rightarrow> None
      | Some ns \<Rightarrow>
          if list_all (\<lambda>r. fst r = app \<longrightarrow> find_model (snd r) ns \<noteq> None) (operation_references x)
          then map_option (\<lambda>(os, rs). (os, filter (\<lambda>r. fst r \<noteq> app) (operation_references x) @ rs)) (local_run app xs ns)
          else None)"

lemma model_exists_update: "model_exists (S(app := ms)) r \<longleftrightarrow> (if fst r = app then find_model (snd r) ms \<noteq> None else model_exists S r)"
  by (simp add: model_exists_def)

lemma run_operations_local:
  assumes "local_run app xs (S app) = Some (ms, rs)" and "list_all (model_exists S) rs"
  shows "run_operations app xs S = Some (S(app := ms))"
  using assms
proof (induction xs arbitrary: S rs)
  case (Cons x xs)
  then obtain ns rest where step: "apply_operation x (S app) = Some ns"
    "list_all (\<lambda>r. fst r = app \<longrightarrow> find_model (snd r) ns \<noteq> None) (operation_references x)"
    "local_run app xs ns = Some (ms, rest)" "rs = filter (\<lambda>r. fst r \<noteq> app) (operation_references x) @ rest"
    by (auto split: option.splits if_splits)
  have outside: "fst r \<noteq> app" if "r \<in> set rs'" "local_run app ys ks = Some (js, rs')" for ys ks js rs' r
    using that
  proof (induction ys arbitrary: ks rs')
    case (Cons y ys)
    then show ?case by (auto split: option.splits if_splits)
  qed simp
  have "list_all (model_exists (S(app := ns))) (operation_references x)"
    using step(2,4) Cons.prems(2) by (auto simp: list_all_iff model_exists_update)
  moreover have "list_all (model_exists (S(app := ns))) rest"
    using Cons.prems(2) step(4) outside [OF _ step(3)] by (auto simp: list_all_iff model_exists_update)
  ultimately have "run_operations app xs (S(app := ns)) = Some ((S(app := ns))(app := ms))"
    using step(3) by (intro Cons.IH [of _ rest]) (simp, assumption)
  with \<open>list_all (model_exists (S(app := ns))) (operation_references x)\<close> show ?case
    by (simp only: run_operations.simps step(1) option.case if_True fun_upd_upd)
qed auto

section \<open>What a table refuses\<close>

datatype cell = Null | Key uuid | Text string | Instant int

type_synonym row = "string \<Rightarrow> cell"

fun key_value :: "key_part \<Rightarrow> row \<Rightarrow> cell" where
  "key_value (Col c) r = r c"
| "key_value (Lower c) r = (case r c of Text t \<Rightarrow> Text (py_lower t) | v \<Rightarrow> v)"

definition conflicts :: "key_part list \<Rightarrow> row \<Rightarrow> row \<Rightarrow> bool" where
  \<comment> \<open>no two rows may agree on a unique key without nulls\<close>
  "conflicts parts q r \<longleftrightarrow> list_all (\<lambda>p. key_value p r \<noteq> Null \<and> key_value p q = key_value p r) parts"

fun is_one_to_one :: "column_type \<Rightarrow> bool" where
  "is_one_to_one (OneToOneField _ _ _) = True"
| "is_one_to_one _ = False"

definition unique_keys :: "model \<Rightarrow> key_part list list" where
  "unique_keys m =
     map (\<lambda>(name, _). [Col name]) (filter (\<lambda>(_, c). c_unique c \<or> c_primary_key c \<or> is_one_to_one (c_type c)) (md_columns m)) @
     concat (map (\<lambda>k. case k of UniqueConstraint parts _ \<Rightarrow> [parts] | _ \<Rightarrow> []) (md_constraints m))"

fun condition_value :: "check_condition \<Rightarrow> row \<Rightarrow> bool option" where
  \<comment> \<open>a comparison with null has no truth value\<close>
  "condition_value (IsNull c) r = Some (r c = Null)"
| "condition_value (Greater a b) r = (case (r a, r b) of (Instant x, Instant y) \<Rightarrow> Some (y < x) | _ \<Rightarrow> None)"
| "condition_value (Or p q) r =
     (case (condition_value p r, condition_value q r) of
        (Some True, _) \<Rightarrow> Some True | (_, Some True) \<Rightarrow> Some True | (Some False, Some False) \<Rightarrow> Some False | _ \<Rightarrow> None)"

definition checks_hold :: "model \<Rightarrow> row \<Rightarrow> bool" where
  \<comment> \<open>a check refuses a row only when its condition is false\<close>
  "checks_hold m r \<longleftrightarrow> list_all (\<lambda>k. case k of CheckConstraint p _ \<Rightarrow> condition_value p r \<noteq> Some False | _ \<Rightarrow> True) (md_constraints m)"

definition accepts :: "model \<Rightarrow> row list \<Rightarrow> row \<Rightarrow> bool" where
  \<comment> \<open>the table with these other rows takes the row\<close>
  "accepts m rows r \<longleftrightarrow> checks_hold m r \<and> \<not> list_ex (\<lambda>parts. list_ex (\<lambda>q. conflicts parts q r) rows) (unique_keys m)"

end
