(* ===== verification/Declarations.thy ===== *)
theory Declarations
  imports Schema
begin

text \<open>
  The model classes of \<^verbatim>\<open>apps/*/models.py\<close> as they declare their tables: the mixins of \<^verbatim>\<open>common/models.py\<close>, the columns in the
  order of the class body, and the options of \<^verbatim>\<open>Meta\<close>. \<^verbatim>\<open>User\<close> also inherits columns from two classes of Django, which are an argument.
\<close>

section \<open>common\<close>

definition UUIDModel :: "(string \<times> column) list" where
  "UUIDModel = [(''id'', column UUIDField\<lparr>c_primary_key := True, c_editable := False, c_default := DefaultCall ''uuid4''\<rparr>)]"

definition TimeStampedModel :: "(string \<times> column) list" where
  "TimeStampedModel =
     [(''created_at'', column DateTimeField\<lparr>c_default := AutoNowAdd\<rparr>), (''updated_at'', column DateTimeField\<lparr>c_default := AutoNow\<rparr>)]"

definition AUTH_USER_MODEL :: model_ref where
  \<comment> \<open>models are referred to by the lower-case name of their class\<close>
  "AUTH_USER_MODEL = (''accounts'', ''user'')"

section \<open>accounts\<close>

definition AccountStatus_choices :: "(string \<times> string) list" where
  "AccountStatus_choices =
     [(''active'', ''Active''), (''pending'', ''Pending''), (''suspended'', ''Suspended''), (''banned'', ''Banned''),
      (''deactivated'', ''Deactivated''), (''deleted'', ''Deleted'')]"

definition User_class :: "(string \<times> column) list \<Rightarrow> model" where
  "User_class inherited =
     \<lparr>md_name = ''User'',
      md_columns = UUIDModel @ inherited @
       [(''email'', column (EmailField 254)\<lparr>c_unique := True\<rparr>),
         (''username'', column (CharField 150)\<lparr>c_unique := True\<rparr>),
         (''first_name'', column (CharField 150)\<lparr>c_blank := True\<rparr>),
         (''last_name'', column (CharField 150)\<lparr>c_blank := True\<rparr>),
         (''avatar'', column (ImageField 100 ''avatar_upload_to'')\<lparr>c_blank := True\<rparr>),
         (''phone'', column (CharField 32)\<lparr>c_blank := True\<rparr>),
         (''status'', column (CharField 24)\<lparr>c_db_index := True, c_default := DefaultText ''pending'', c_choices := AccountStatus_choices\<rparr>),
         (''email_verified_at'', column DateTimeField\<lparr>c_null := True, c_blank := True\<rparr>),
         (''phone_verified_at'', column DateTimeField\<lparr>c_null := True, c_blank := True\<rparr>),
         (''is_active'', column BooleanField\<lparr>c_default := DefaultBool True\<rparr>),
         (''is_staff'', column BooleanField\<lparr>c_default := DefaultBool False\<rparr>),
         (''date_joined'', column DateTimeField\<lparr>c_default := DefaultCall ''now''\<rparr>),
         (''last_login_ip'', column GenericIPAddressField\<lparr>c_null := True, c_blank := True\<rparr>),
         (''created_at'', column DateTimeField\<lparr>c_default := AutoNowAdd\<rparr>),
         (''updated_at'', column DateTimeField\<lparr>c_default := AutoNow\<rparr>)],
      md_ordering = [''-created_at''],
      md_indexes = [\<lparr>ix_fields = [''status'', ''created_at''], ix_name = ''acct_user_status_created_idx''\<rparr>],
      md_constraints = [UniqueConstraint [Lower ''email''] ''accounts_user_email_ci_unique'',
        UniqueConstraint [Lower ''username''] ''accounts_user_username_ci_unique'']\<rparr>"

definition UserProfile_class :: "model" where
  "UserProfile_class =
     \<lparr>md_name = ''UserProfile'',
      md_columns = UUIDModel @ TimeStampedModel @
       [(''user'', column (OneToOneField (''accounts'', ''user'') CASCADE ''profile'')),
         (''bio'', column (TextField (Some 2000))\<lparr>c_blank := True\<rparr>),
         (''website'', column (URLField 200)\<lparr>c_blank := True\<rparr>),
         (''location'', column (CharField 255)\<lparr>c_blank := True\<rparr>)],
      md_ordering = [],
      md_indexes = [],
      md_constraints = []\<rparr>"

definition UserPreferences_class :: "model" where
  "UserPreferences_class =
     \<lparr>md_name = ''UserPreferences'',
      md_columns = UUIDModel @ TimeStampedModel @
       [(''user'', column (OneToOneField (''accounts'', ''user'') CASCADE ''preferences'')),
         (''language'', column (CharField 10)\<lparr>c_default := DefaultText ''en''\<rparr>),
         (''timezone'', column (CharField 64)\<lparr>c_default := DefaultText ''UTC''\<rparr>),
         (''email_notifications'', column BooleanField\<lparr>c_default := DefaultBool True\<rparr>),
         (''security_emails'', column BooleanField\<lparr>c_default := DefaultBool True\<rparr>)],
      md_ordering = [],
      md_indexes = [],
      md_constraints = []\<rparr>"

definition UserSecuritySettings_class :: "model" where
  "UserSecuritySettings_class =
     \<lparr>md_name = ''UserSecuritySettings'',
      md_columns = UUIDModel @ TimeStampedModel @
       [(''user'', column (OneToOneField (''accounts'', ''user'') CASCADE ''security_settings'')),
         (''password_changed_at'', column DateTimeField\<lparr>c_null := True, c_blank := True\<rparr>),
         (''locked_until'', column DateTimeField\<lparr>c_null := True, c_blank := True, c_db_index := True\<rparr>),
         (''notify_new_device'', column BooleanField\<lparr>c_default := DefaultBool True\<rparr>)],
      md_ordering = [],
      md_indexes = [],
      md_constraints = []\<rparr>"

definition UserBan_class :: "model" where
  "UserBan_class =
     \<lparr>md_name = ''UserBan'',
      md_columns = UUIDModel @
       [(''user'', column (ForeignKey (''accounts'', ''user'') CASCADE ''bans'')), (''reason'', column (TextField None)),
         (''banned_by'', column (ForeignKey (''accounts'', ''user'') SET_NULL ''issued_bans'')\<lparr>c_null := True, c_blank := True\<rparr>),
         (''starts_at'', column DateTimeField\<lparr>c_default := DefaultCall ''now''\<rparr>),
         (''expires_at'', column DateTimeField\<lparr>c_null := True, c_blank := True, c_db_index := True\<rparr>),
         (''created_at'', column DateTimeField\<lparr>c_default := AutoNowAdd\<rparr>),
         (''revoked_at'', column DateTimeField\<lparr>c_null := True, c_blank := True\<rparr>)],
      md_ordering = [''-created_at''],
      md_indexes = [\<lparr>ix_fields = [''user'', ''revoked_at'', ''expires_at''], ix_name = ''acct_ban_active_idx''\<rparr>],
      md_constraints = [CheckConstraint (Or (IsNull ''expires_at'') (Greater ''expires_at'' ''starts_at'')) ''acct_ban_expiry_after_start'']\<rparr>"

section \<open>authentication\<close>

definition TokenPurpose_choices :: "(string \<times> string) list" where
  "TokenPurpose_choices =
     [(''email_verification'', ''Email verification''), (''password_reset'', ''Password reset''),
      (''email_change'', ''Email change''), (''account_deletion'', ''Account deletion'')]"

definition OneTimeToken_class :: "model" where
  "OneTimeToken_class =
     \<lparr>md_name = ''OneTimeToken'',
      md_columns = UUIDModel @
       [(''user'', column (ForeignKey AUTH_USER_MODEL CASCADE ''one_time_tokens'')),
         (''purpose'', column (CharField 32)\<lparr>c_choices := TokenPurpose_choices\<rparr>),
         (''token_hash'', column (CharField 64)\<lparr>c_unique := True\<rparr>),
         (''metadata'', column JSONField\<lparr>c_blank := True, c_default := DefaultCall ''dict''\<rparr>),
         (''created_at'', column DateTimeField\<lparr>c_default := AutoNowAdd\<rparr>),
         (''expires_at'', column DateTimeField\<lparr>c_db_index := True\<rparr>),
         (''used_at'', column DateTimeField\<lparr>c_null := True, c_blank := True\<rparr>)],
      md_ordering = [],
      md_indexes = [\<lparr>ix_fields = [''user'', ''purpose'', ''used_at''], ix_name = ''auth_token_user_purpose_idx''\<rparr>],
      md_constraints = []\<rparr>"

definition UserSession_class :: "model" where
  "UserSession_class =
     \<lparr>md_name = ''UserSession'',
      md_columns = UUIDModel @
       [(''user'', column (ForeignKey AUTH_USER_MODEL CASCADE ''user_sessions'')),
         (''identifier'', column (CharField 32)\<lparr>c_unique := True, c_editable := False\<rparr>),
         (''session_key_hash'', column (CharField 64)\<lparr>c_unique := True, c_editable := False\<rparr>),
         (''encrypted_session_key'', column (TextField None)\<lparr>c_editable := False\<rparr>),
         (''ip_address'', column GenericIPAddressField\<lparr>c_null := True, c_blank := True\<rparr>),
         (''user_agent'', column (TextField None)\<lparr>c_blank := True\<rparr>),
         (''browser'', column (CharField 100)\<lparr>c_blank := True\<rparr>),
         (''operating_system'', column (CharField 100)\<lparr>c_blank := True\<rparr>),
         (''device'', column (CharField 100)\<lparr>c_blank := True\<rparr>),
         (''location'', column (CharField 255)\<lparr>c_blank := True\<rparr>),
         (''created_at'', column DateTimeField\<lparr>c_default := AutoNowAdd\<rparr>),
         (''last_activity_at'', column DateTimeField\<lparr>c_db_index := True, c_default := AutoNow\<rparr>),
         (''revoked_at'', column DateTimeField\<lparr>c_null := True, c_blank := True, c_db_index := True\<rparr>)],
      md_ordering = [''-last_activity_at''],
      md_indexes = [\<lparr>ix_fields = [''user'', ''revoked_at'', ''last_activity_at''], ix_name = ''auth_session_active_idx''\<rparr>],
      md_constraints = []\<rparr>"

definition TwoFactorCredential_class :: "model" where
  "TwoFactorCredential_class =
     \<lparr>md_name = ''TwoFactorCredential'',
      md_columns = UUIDModel @
       [(''user'', column (OneToOneField AUTH_USER_MODEL CASCADE ''two_factor'')),
         (''encrypted_secret'', column (TextField None)\<lparr>c_editable := False\<rparr>),
         (''created_at'', column DateTimeField\<lparr>c_default := AutoNowAdd\<rparr>),
         (''confirmed_at'', column DateTimeField\<lparr>c_null := True, c_blank := True\<rparr>),
         (''disabled_at'', column DateTimeField\<lparr>c_null := True, c_blank := True\<rparr>)],
      md_ordering = [],
      md_indexes = [],
      md_constraints = []\<rparr>"

definition RecoveryCode_class :: "model" where
  "RecoveryCode_class =
     \<lparr>md_name = ''RecoveryCode'',
      md_columns = UUIDModel @
       [(''credential'', column (ForeignKey (''authentication'', ''twofactorcredential'') CASCADE ''recovery_codes'')),
         (''code_hash'', column (CharField 64)\<lparr>c_editable := False\<rparr>),
         (''created_at'', column DateTimeField\<lparr>c_default := AutoNowAdd\<rparr>),
         (''used_at'', column DateTimeField\<lparr>c_null := True, c_blank := True\<rparr>)],
      md_ordering = [],
      md_indexes = [],
      md_constraints = [UniqueConstraint [Col ''credential'', Col ''code_hash''] ''auth_recovery_code_unique'']\<rparr>"

section \<open>authorization\<close>

definition Permission_class :: "model" where
  "Permission_class =
     \<lparr>md_name = ''Permission'',
      md_columns = UUIDModel @ TimeStampedModel @
       [(''codename'', column (CharField 150)\<lparr>c_unique := True\<rparr>),
         (''description'', column (CharField 255)\<lparr>c_blank := True\<rparr>),
         (''is_system'', column BooleanField\<lparr>c_default := DefaultBool False\<rparr>)],
      md_ordering = [''codename''],
      md_indexes = [],
      md_constraints = []\<rparr>"

definition Role_class :: "model" where
  "Role_class =
     \<lparr>md_name = ''Role'',
      md_columns = UUIDModel @ TimeStampedModel @
       [(''name'', column (CharField 100)), (''slug'', column (SlugField 100)\<lparr>c_unique := True\<rparr>),
         (''description'', column (TextField None)\<lparr>c_blank := True\<rparr>),
         (''priority'', column PositiveSmallIntegerField\<lparr>c_db_index := True, c_default := DefaultInt 0\<rparr>),
         (''is_system'', column BooleanField\<lparr>c_default := DefaultBool False\<rparr>),
         (''permissions'', column (ManyToManyField (''authorization'', ''permission'') (Some (''authorization'', ''rolepermission'')) ''roles''))],
      md_ordering = [''-priority'', ''name''],
      md_indexes = [],
      md_constraints = []\<rparr>"

definition RolePermission_class :: "model" where
  "RolePermission_class =
     \<lparr>md_name = ''RolePermission'',
      md_columns = UUIDModel @
       [(''role'', column (ForeignKey (''authorization'', ''role'') CASCADE ''permission_links'')),
         (''permission'', column (ForeignKey (''authorization'', ''permission'') CASCADE ''role_links'')),
         (''created_at'', column DateTimeField\<lparr>c_default := AutoNowAdd\<rparr>)],
      md_ordering = [],
      md_indexes = [],
      md_constraints = [UniqueConstraint [Col ''role'', Col ''permission''] ''authz_role_permission_unique'']\<rparr>"

definition UserRole_class :: "model" where
  "UserRole_class =
     \<lparr>md_name = ''UserRole'',
      md_columns = UUIDModel @
       [(''user'', column (ForeignKey AUTH_USER_MODEL CASCADE ''role_assignments'')),
         (''role'', column (ForeignKey (''authorization'', ''role'') PROTECT ''user_assignments'')),
         (''granted_by'', column (ForeignKey AUTH_USER_MODEL SET_NULL ''granted_role_assignments'')\<lparr>c_null := True, c_blank := True\<rparr>),
         (''valid_from'', column DateTimeField\<lparr>c_default := DefaultCall ''now''\<rparr>),
         (''valid_until'', column DateTimeField\<lparr>c_null := True, c_blank := True, c_db_index := True\<rparr>),
         (''created_at'', column DateTimeField\<lparr>c_default := AutoNowAdd\<rparr>)],
      md_ordering = [],
      md_indexes = [\<lparr>ix_fields = [''user'', ''valid_from'', ''valid_until''], ix_name = ''authz_user_role_valid_idx''\<rparr>],
      md_constraints = [UniqueConstraint [Col ''user'', Col ''role''] ''authz_user_role_unique'']\<rparr>"

definition OverrideEffect_choices :: "(string \<times> string) list" where
  "OverrideEffect_choices =
     [(''allow'', ''Allow''), (''deny'', ''Deny'')]"

definition UserPermissionOverride_class :: "model" where
  "UserPermissionOverride_class =
     \<lparr>md_name = ''UserPermissionOverride'',
      md_columns = UUIDModel @ TimeStampedModel @
       [(''user'', column (ForeignKey AUTH_USER_MODEL CASCADE ''permission_overrides'')),
         (''permission'', column (ForeignKey (''authorization'', ''permission'') CASCADE ''user_overrides'')),
         (''effect'', column (CharField 8)\<lparr>c_choices := OverrideEffect_choices\<rparr>),
         (''reason'', column (CharField 255)\<lparr>c_blank := True\<rparr>),
         (''granted_by'', column (ForeignKey AUTH_USER_MODEL SET_NULL ''granted_permission_overrides'')\<lparr>c_null := True, c_blank := True\<rparr>)],
      md_ordering = [],
      md_indexes = [\<lparr>ix_fields = [''user'', ''effect''], ix_name = ''authz_user_override_idx''\<rparr>],
      md_constraints = [UniqueConstraint [Col ''user'', Col ''permission''] ''authz_user_permission_unique'']\<rparr>"

section \<open>security\<close>

definition SecurityEventType_choices :: "(string \<times> string) list" where
  "SecurityEventType_choices =
     [(''login_success'', ''Login successful''), (''login_failed'', ''Login failed''),
      (''new_device_login'', ''New device login''), (''password_changed'', ''Password changed''),
      (''password_reset'', ''Password reset''), (''email_changed'', ''Email changed''),
      (''two_factor_enabled'', ''Two-factor authentication enabled''),
      (''two_factor_disabled'', ''Two-factor authentication disabled''), (''recovery_code_used'', ''Recovery code used''),
      (''session_revoked'', ''Session revoked''), (''account_locked'', ''Account locked''),
      (''account_unlocked'', ''Account unlocked''), (''account_deactivated'', ''Account deactivated''),
      (''account_deleted'', ''Account deleted''), (''api_key_created'', ''API key created''),
      (''api_key_revoked'', ''API key revoked'')]"

definition SecurityEvent_class :: "model" where
  "SecurityEvent_class =
     \<lparr>md_name = ''SecurityEvent'',
      md_columns = UUIDModel @
       [(''user'', column (ForeignKey AUTH_USER_MODEL SET_NULL ''security_events'')\<lparr>c_null := True, c_blank := True\<rparr>),
         (''event_type'', column (CharField 40)\<lparr>c_db_index := True, c_choices := SecurityEventType_choices\<rparr>),
         (''ip_address'', column GenericIPAddressField\<lparr>c_null := True, c_blank := True\<rparr>),
         (''user_agent'', column (TextField None)\<lparr>c_blank := True\<rparr>),
         (''request_id'', column (CharField 64)\<lparr>c_blank := True, c_db_index := True\<rparr>),
         (''metadata'', column JSONField\<lparr>c_blank := True, c_default := DefaultCall ''dict''\<rparr>),
         (''created_at'', column DateTimeField\<lparr>c_db_index := True, c_default := AutoNowAdd\<rparr>)],
      md_ordering = [''-created_at''],
      md_indexes = [\<lparr>ix_fields = [''user'', ''created_at''], ix_name = ''security_event_user_time_idx''\<rparr>],
      md_constraints = []\<rparr>"

definition LoginThrottleState_class :: "model" where
  "LoginThrottleState_class =
     \<lparr>md_name = ''LoginThrottleState'',
      md_columns = UUIDModel @
       [(''dimension_hash'', column (CharField 64)\<lparr>c_unique := True\<rparr>),
         (''attempt_count'', column PositiveIntegerField\<lparr>c_default := DefaultInt 0\<rparr>),
         (''locked_until'', column DateTimeField\<lparr>c_null := True, c_blank := True, c_db_index := True\<rparr>),
         (''expires_at'', column DateTimeField\<lparr>c_db_index := True\<rparr>),
         (''updated_at'', column DateTimeField\<lparr>c_default := AutoNow\<rparr>)],
      md_ordering = [''-updated_at''],
      md_indexes = [],
      md_constraints = []\<rparr>"

section \<open>audit\<close>

definition AuditLog_class :: "model" where
  "AuditLog_class =
     \<lparr>md_name = ''AuditLog'',
      md_columns = UUIDModel @
       [(''actor'', column (ForeignKey AUTH_USER_MODEL SET_NULL ''audit_actions'')\<lparr>c_null := True, c_blank := True\<rparr>),
         (''action'', column (CharField 100)\<lparr>c_db_index := True\<rparr>),
         (''target_type'', column (CharField 100)\<lparr>c_db_index := True\<rparr>),
         (''target_id'', column (CharField 100)\<lparr>c_blank := True\<rparr>),
         (''target_repr'', column (CharField 255)\<lparr>c_blank := True\<rparr>),
         (''before'', column JSONField\<lparr>c_blank := True, c_default := DefaultCall ''dict''\<rparr>),
         (''after'', column JSONField\<lparr>c_blank := True, c_default := DefaultCall ''dict''\<rparr>),
         (''metadata'', column JSONField\<lparr>c_blank := True, c_default := DefaultCall ''dict''\<rparr>),
         (''request_id'', column (CharField 64)\<lparr>c_blank := True, c_db_index := True\<rparr>),
         (''ip_address'', column GenericIPAddressField\<lparr>c_null := True, c_blank := True\<rparr>),
         (''user_agent'', column (TextField None)\<lparr>c_blank := True\<rparr>),
         (''created_at'', column DateTimeField\<lparr>c_db_index := True, c_default := AutoNowAdd\<rparr>)],
      md_ordering = [''-created_at''],
      md_indexes = [\<lparr>ix_fields = [''target_type'', ''target_id''], ix_name = ''audit_target_idx''\<rparr>],
      md_constraints = []\<rparr>"

section \<open>notifications\<close>

definition Notification_class :: "model" where
  "Notification_class =
     \<lparr>md_name = ''Notification'',
      md_columns = UUIDModel @
       [(''user'', column (ForeignKey AUTH_USER_MODEL CASCADE ''notifications'')),
         (''type'', column (CharField 100)\<lparr>c_db_index := True\<rparr>), (''title'', column (CharField 255)),
         (''message'', column (TextField None)),
         (''data'', column JSONField\<lparr>c_blank := True, c_default := DefaultCall ''dict''\<rparr>),
         (''read_at'', column DateTimeField\<lparr>c_null := True, c_blank := True, c_db_index := True\<rparr>),
         (''created_at'', column DateTimeField\<lparr>c_db_index := True, c_default := AutoNowAdd\<rparr>),
         (''expires_at'', column DateTimeField\<lparr>c_null := True, c_blank := True, c_db_index := True\<rparr>)],
      md_ordering = [''-created_at''],
      md_indexes = [\<lparr>ix_fields = [''user'', ''read_at'', ''created_at''], ix_name = ''notification_user_unread_idx''\<rparr>],
      md_constraints = []\<rparr>"

section \<open>files\<close>

definition FileStatus_choices :: "(string \<times> string) list" where
  "FileStatus_choices =
     [(''pending'', ''Pending''), (''ready'', ''Ready''), (''quarantined'', ''Quarantined''), (''rejected'', ''Rejected'')]"

definition StoredFile_class :: "model" where
  "StoredFile_class =
     \<lparr>md_name = ''StoredFile'',
      md_columns = UUIDModel @
       [(''owner'', column (ForeignKey AUTH_USER_MODEL SET_NULL ''stored_files'')\<lparr>c_null := True, c_blank := True\<rparr>),
         (''file'', column (FileField 500 ''secure_upload_path'')), (''original_name'', column (CharField 255)),
         (''content_type'', column (CharField 150)), (''size'', column PositiveBigIntegerField),
         (''checksum_sha256'', column (CharField 64)\<lparr>c_db_index := True\<rparr>),
         (''status'', column (CharField 16)\<lparr>c_db_index := True, c_default := DefaultText ''pending'', c_choices := FileStatus_choices\<rparr>),
         (''metadata'', column JSONField\<lparr>c_blank := True, c_default := DefaultCall ''dict''\<rparr>),
         (''created_at'', column DateTimeField\<lparr>c_db_index := True, c_default := AutoNowAdd\<rparr>),
         (''last_accessed_at'', column DateTimeField\<lparr>c_null := True, c_blank := True\<rparr>),
         (''deleted_at'', column DateTimeField\<lparr>c_null := True, c_blank := True, c_db_index := True\<rparr>)],
      md_ordering = [],
      md_indexes = [\<lparr>ix_fields = [''owner'', ''status'', ''created_at''], ix_name = ''file_owner_status_idx''\<rparr>],
      md_constraints = []\<rparr>"

section \<open>api keys\<close>

definition APIKey_class :: "model" where
  "APIKey_class =
     \<lparr>md_name = ''APIKey'',
      md_columns = UUIDModel @
       [(''owner'', column (ForeignKey AUTH_USER_MODEL CASCADE ''api_keys'')), (''name'', column (CharField 100)),
         (''prefix'', column (CharField 16)\<lparr>c_unique := True, c_db_index := True\<rparr>),
         (''key_hash'', column (CharField 64)\<lparr>c_editable := False\<rparr>),
         (''scopes'', column JSONField\<lparr>c_default := DefaultCall ''list''\<rparr>),
         (''created_at'', column DateTimeField\<lparr>c_default := AutoNowAdd\<rparr>),
         (''last_used_at'', column DateTimeField\<lparr>c_null := True, c_blank := True\<rparr>),
         (''last_used_ip'', column GenericIPAddressField\<lparr>c_null := True, c_blank := True\<rparr>),
         (''expires_at'', column DateTimeField\<lparr>c_null := True, c_blank := True, c_db_index := True\<rparr>),
         (''revoked_at'', column DateTimeField\<lparr>c_null := True, c_blank := True, c_db_index := True\<rparr>)],
      md_ordering = [''-created_at''],
      md_indexes = [\<lparr>ix_fields = [''owner'', ''revoked_at'', ''expires_at''], ix_name = ''api_key_owner_active_idx''\<rparr>],
      md_constraints = []\<rparr>"

section \<open>webhooks\<close>

definition WebhookEndpoint_class :: "model" where
  "WebhookEndpoint_class =
     \<lparr>md_name = ''WebhookEndpoint'',
      md_columns = UUIDModel @ TimeStampedModel @
       [(''owner'', column (ForeignKey AUTH_USER_MODEL CASCADE ''webhook_endpoints'')\<lparr>c_null := True, c_blank := True\<rparr>),
         (''name'', column (CharField 100)), (''url'', column (URLField 500)),
         (''event_types'', column JSONField\<lparr>c_default := DefaultCall ''list''\<rparr>),
         (''secret_hash'', column (CharField 64)\<lparr>c_editable := False\<rparr>),
         (''encrypted_secret'', column (TextField None)\<lparr>c_editable := False\<rparr>),
         (''is_active'', column BooleanField\<lparr>c_db_index := True, c_default := DefaultBool True\<rparr>)],
      md_ordering = [],
      md_indexes = [],
      md_constraints = []\<rparr>"

definition WebhookEvent_class :: "model" where
  "WebhookEvent_class =
     \<lparr>md_name = ''WebhookEvent'',
      md_columns = UUIDModel @
       [(''event_type'', column (CharField 150)\<lparr>c_db_index := True\<rparr>), (''payload'', column JSONField),
         (''created_at'', column DateTimeField\<lparr>c_db_index := True, c_default := AutoNowAdd\<rparr>)],
      md_ordering = [],
      md_indexes = [],
      md_constraints = []\<rparr>"

definition DeliveryStatus_choices :: "(string \<times> string) list" where
  "DeliveryStatus_choices =
     [(''pending'', ''Pending''), (''processing'', ''Processing''), (''succeeded'', ''Succeeded''), (''failed'', ''Failed''),
      (''abandoned'', ''Abandoned'')]"

definition WebhookDelivery_class :: "model" where
  "WebhookDelivery_class =
     \<lparr>md_name = ''WebhookDelivery'',
      md_columns = UUIDModel @
       [(''endpoint'', column (ForeignKey (''webhooks'', ''webhookendpoint'') CASCADE ''deliveries'')),
         (''event'', column (ForeignKey (''webhooks'', ''webhookevent'') CASCADE ''deliveries'')),
         (''status'', column (CharField 16)\<lparr>c_db_index := True, c_default := DefaultText ''pending'', c_choices := DeliveryStatus_choices\<rparr>),
         (''attempt_count'', column PositiveSmallIntegerField\<lparr>c_default := DefaultInt 0\<rparr>),
         (''response_code'', column PositiveSmallIntegerField\<lparr>c_null := True, c_blank := True\<rparr>),
         (''response_body'', column (TextField None)\<lparr>c_blank := True\<rparr>),
         (''last_attempt_at'', column DateTimeField\<lparr>c_null := True, c_blank := True\<rparr>),
         (''next_retry_at'', column DateTimeField\<lparr>c_null := True, c_blank := True, c_db_index := True\<rparr>),
         (''created_at'', column DateTimeField\<lparr>c_default := AutoNowAdd\<rparr>)],
      md_ordering = [],
      md_indexes = [\<lparr>ix_fields = [''status'', ''next_retry_at''], ix_name = ''webhook_pending_retry_idx''\<rparr>],
      md_constraints = [UniqueConstraint [Col ''endpoint'', Col ''event''] ''webhook_endpoint_event_unique'']\<rparr>"

section \<open>core\<close>

definition SettingValueType_choices :: "(string \<times> string) list" where
  "SettingValueType_choices =
     [(''string'', ''String''), (''integer'', ''Integer''), (''boolean'', ''Boolean''), (''json'', ''JSON'')]"

definition Setting_class :: "model" where
  "Setting_class =
     \<lparr>md_name = ''Setting'',
      md_columns = UUIDModel @ TimeStampedModel @
       [(''key'', column (CharField 150)\<lparr>c_unique := True\<rparr>), (''value'', column JSONField),
         (''value_type'', column (CharField 16)\<lparr>c_default := DefaultText ''string'', c_choices := SettingValueType_choices\<rparr>),
         (''group'', column (CharField 64)\<lparr>c_db_index := True, c_default := DefaultText ''general''\<rparr>),
         (''is_public'', column BooleanField\<lparr>c_default := DefaultBool False\<rparr>),
         (''description'', column (TextField None)\<lparr>c_blank := True\<rparr>)],
      md_ordering = [],
      md_indexes = [],
      md_constraints = []\<rparr>"

definition FeatureFlag_class :: "model" where
  "FeatureFlag_class =
     \<lparr>md_name = ''FeatureFlag'',
      md_columns = UUIDModel @ TimeStampedModel @
       [(''key'', column (CharField 150)\<lparr>c_unique := True\<rparr>),
         (''enabled'', column BooleanField\<lparr>c_db_index := True, c_default := DefaultBool False\<rparr>),
         (''description'', column (TextField None)\<lparr>c_blank := True\<rparr>)],
      md_ordering = [],
      md_indexes = [],
      md_constraints = []\<rparr>"

definition IdempotencyRecord_class :: "model" where
  "IdempotencyRecord_class =
     \<lparr>md_name = ''IdempotencyRecord'',
      md_columns = UUIDModel @
       [(''user'', column (ForeignKey AUTH_USER_MODEL CASCADE ''idempotency_records'')\<lparr>c_null := True, c_blank := True\<rparr>),
         (''key_hash'', column (CharField 64)), (''request_method'', column (CharField 8)),
         (''request_path'', column (CharField 500)), (''request_hash'', column (CharField 64)),
         (''response_status'', column PositiveSmallIntegerField\<lparr>c_null := True, c_blank := True\<rparr>),
         (''response_body'', column JSONField\<lparr>c_null := True, c_blank := True\<rparr>),
         (''created_at'', column DateTimeField\<lparr>c_default := AutoNowAdd\<rparr>),
         (''expires_at'', column DateTimeField\<lparr>c_db_index := True\<rparr>)],
      md_ordering = [],
      md_indexes = [\<lparr>ix_fields = [''expires_at''], ix_name = ''core_idempotency_expiry_idx''\<rparr>],
      md_constraints = [UniqueConstraint [Col ''user'', Col ''key_hash''] ''core_idempotency_user_key_unique'']\<rparr>"

section \<open>The applications\<close>

definition declared :: "(string \<times> column) list \<Rightarrow> (string \<times> model list) list" where
  "declared inherited =
     [(''accounts'', [User_class inherited, UserProfile_class, UserPreferences_class, UserSecuritySettings_class, UserBan_class]),
      (''authentication'', [OneTimeToken_class, UserSession_class, TwoFactorCredential_class, RecoveryCode_class]),
      (''authorization'', [Permission_class, Role_class, RolePermission_class, UserRole_class, UserPermissionOverride_class]),
      (''security'', [SecurityEvent_class, LoginThrottleState_class]),
      (''audit'', [AuditLog_class]),
      (''notifications'', [Notification_class]),
      (''files'', [StoredFile_class]),
      (''api_keys'', [APIKey_class]),
      (''webhooks'', [WebhookEndpoint_class, WebhookEvent_class, WebhookDelivery_class]),
      (''core'', [Setting_class, FeatureFlag_class, IdempotencyRecord_class])]"

end
