(* ===== verification/Migrations.thy ===== *)
theory Migrations
  imports Declarations
begin

text \<open>
  The migrations of every application, \<^verbatim>\<open>apps/*/migrations\<close>, with their dependencies, and what they build: whatever order Django
  chooses among those the dependencies allow, the tables of the model classes.
\<close>

section \<open>The migrations\<close>

definition swappable_dependency :: "model_ref \<Rightarrow> string \<times> string" where
  \<comment> \<open>the first migration of the application of the user model\<close>
  "swappable_dependency r = (fst r, ''0001_initial'')"

definition accounts_0001 :: "migration" where
  "accounts_0001 =
     \<lparr>mg_app = ''accounts'', mg_name = ''0001_initial'', mg_dependencies = [(''auth'', ''0012_alter_user_first_name_max_length'')],
      mg_operations =
      [CreateModel \<lparr>md_name = ''User'', md_columns =
        [(''password'', column (CharField 128)),
          (''last_login'', column DateTimeField\<lparr>c_null := True, c_blank := True\<rparr>),
          (''is_superuser'', column BooleanField\<lparr>c_default := DefaultBool False\<rparr>),
          (''id'', column UUIDField\<lparr>c_primary_key := True, c_editable := False, c_default := DefaultCall ''uuid4''\<rparr>),
          (''email'', column (EmailField 254)\<lparr>c_unique := True\<rparr>),
          (''username'', column (CharField 150)\<lparr>c_unique := True\<rparr>),
          (''first_name'', column (CharField 150)\<lparr>c_blank := True\<rparr>),
          (''last_name'', column (CharField 150)\<lparr>c_blank := True\<rparr>),
          (''avatar'', column (ImageField 100 ''avatar_upload_to'')\<lparr>c_blank := True\<rparr>),
          (''phone'', column (CharField 32)\<lparr>c_blank := True\<rparr>),
          (''status'', column (CharField 24)\<lparr>c_db_index := True, c_default := DefaultText ''pending'', c_choices := 
            [(''active'', ''Active''), (''pending'', ''Pending''), (''suspended'', ''Suspended''), (''banned'', ''Banned''),
              (''deactivated'', ''Deactivated''), (''deleted'', ''Deleted'')]\<rparr>),
          (''email_verified_at'', column DateTimeField\<lparr>c_null := True, c_blank := True\<rparr>),
          (''phone_verified_at'', column DateTimeField\<lparr>c_null := True, c_blank := True\<rparr>),
          (''is_active'', column BooleanField\<lparr>c_default := DefaultBool True\<rparr>),
          (''is_staff'', column BooleanField\<lparr>c_default := DefaultBool False\<rparr>),
          (''date_joined'', column DateTimeField\<lparr>c_default := DefaultCall ''now''\<rparr>),
          (''last_login_ip'', column GenericIPAddressField\<lparr>c_null := True, c_blank := True\<rparr>),
          (''created_at'', column DateTimeField\<lparr>c_default := AutoNowAdd\<rparr>),
          (''updated_at'', column DateTimeField\<lparr>c_default := AutoNow\<rparr>),
          (''groups'', column (ManyToManyField (''auth'', ''group'') None ''user_set'')\<lparr>c_blank := True\<rparr>),
          (''user_permissions'', column (ManyToManyField (''auth'', ''permission'') None ''user_set'')\<lparr>c_blank := True\<rparr>)],
        md_ordering = [''-created_at''],
        md_indexes = [],
        md_constraints = []\<rparr>,
       CreateModel \<lparr>md_name = ''UserBan'', md_columns =
        [(''id'', column UUIDField\<lparr>c_primary_key := True, c_editable := False, c_default := DefaultCall ''uuid4''\<rparr>),
          (''reason'', column (TextField None)),
          (''starts_at'', column DateTimeField\<lparr>c_default := DefaultCall ''now''\<rparr>),
          (''expires_at'', column DateTimeField\<lparr>c_null := True, c_blank := True, c_db_index := True\<rparr>),
          (''created_at'', column DateTimeField\<lparr>c_default := AutoNowAdd\<rparr>),
          (''revoked_at'', column DateTimeField\<lparr>c_null := True, c_blank := True\<rparr>),
          (''banned_by'', column (ForeignKey AUTH_USER_MODEL SET_NULL ''issued_bans'')\<lparr>c_null := True, c_blank := True\<rparr>),
          (''user'', column (ForeignKey AUTH_USER_MODEL CASCADE ''bans''))],
        md_ordering = [''-created_at''],
        md_indexes = [],
        md_constraints = []\<rparr>,
       CreateModel \<lparr>md_name = ''UserPreferences'', md_columns =
        [(''id'', column UUIDField\<lparr>c_primary_key := True, c_editable := False, c_default := DefaultCall ''uuid4''\<rparr>),
          (''created_at'', column DateTimeField\<lparr>c_default := AutoNowAdd\<rparr>),
          (''updated_at'', column DateTimeField\<lparr>c_default := AutoNow\<rparr>),
          (''language'', column (CharField 10)\<lparr>c_default := DefaultText ''en''\<rparr>),
          (''timezone'', column (CharField 64)\<lparr>c_default := DefaultText ''UTC''\<rparr>),
          (''email_notifications'', column BooleanField\<lparr>c_default := DefaultBool True\<rparr>),
          (''security_emails'', column BooleanField\<lparr>c_default := DefaultBool True\<rparr>),
          (''user'', column (OneToOneField AUTH_USER_MODEL CASCADE ''preferences''))],
        md_ordering = [],
        md_indexes = [],
        md_constraints = []\<rparr>,
       CreateModel \<lparr>md_name = ''UserProfile'', md_columns =
        [(''id'', column UUIDField\<lparr>c_primary_key := True, c_editable := False, c_default := DefaultCall ''uuid4''\<rparr>),
          (''created_at'', column DateTimeField\<lparr>c_default := AutoNowAdd\<rparr>),
          (''updated_at'', column DateTimeField\<lparr>c_default := AutoNow\<rparr>),
          (''bio'', column (TextField (Some 2000))\<lparr>c_blank := True\<rparr>),
          (''website'', column (URLField 200)\<lparr>c_blank := True\<rparr>),
          (''location'', column (CharField 255)\<lparr>c_blank := True\<rparr>),
          (''user'', column (OneToOneField AUTH_USER_MODEL CASCADE ''profile''))],
        md_ordering = [],
        md_indexes = [],
        md_constraints = []\<rparr>,
       CreateModel \<lparr>md_name = ''UserSecuritySettings'', md_columns =
        [(''id'', column UUIDField\<lparr>c_primary_key := True, c_editable := False, c_default := DefaultCall ''uuid4''\<rparr>),
          (''created_at'', column DateTimeField\<lparr>c_default := AutoNowAdd\<rparr>),
          (''updated_at'', column DateTimeField\<lparr>c_default := AutoNow\<rparr>),
          (''password_changed_at'', column DateTimeField\<lparr>c_null := True, c_blank := True\<rparr>),
          (''locked_until'', column DateTimeField\<lparr>c_null := True, c_blank := True, c_db_index := True\<rparr>),
          (''notify_new_device'', column BooleanField\<lparr>c_default := DefaultBool True\<rparr>),
          (''user'', column (OneToOneField AUTH_USER_MODEL CASCADE ''security_settings''))],
        md_ordering = [],
        md_indexes = [],
        md_constraints = []\<rparr>,
       AddIndex ''user'' \<lparr>ix_fields = [''status'', ''created_at''], ix_name = ''acct_user_status_created_idx''\<rparr>,
       AddConstraint ''user'' (UniqueConstraint [Lower ''email''] ''accounts_user_email_ci_unique''),
       AddConstraint ''user'' (UniqueConstraint [Lower ''username''] ''accounts_user_username_ci_unique''),
       AddIndex ''userban'' \<lparr>ix_fields = [''user'', ''revoked_at'', ''expires_at''], ix_name = ''acct_ban_active_idx''\<rparr>,
       AddConstraint ''userban'' (CheckConstraint (Or (IsNull ''expires_at'') (Greater ''expires_at'' ''starts_at'')) ''acct_ban_expiry_after_start'')]\<rparr>"

definition authentication_0001 :: "migration" where
  "authentication_0001 =
     \<lparr>mg_app = ''authentication'', mg_name = ''0001_initial'', mg_dependencies = [swappable_dependency AUTH_USER_MODEL],
      mg_operations =
      [CreateModel \<lparr>md_name = ''TwoFactorCredential'', md_columns =
        [(''id'', column UUIDField\<lparr>c_primary_key := True, c_editable := False, c_default := DefaultCall ''uuid4''\<rparr>),
          (''encrypted_secret'', column (TextField None)\<lparr>c_editable := False\<rparr>),
          (''created_at'', column DateTimeField\<lparr>c_default := AutoNowAdd\<rparr>),
          (''confirmed_at'', column DateTimeField\<lparr>c_null := True, c_blank := True\<rparr>),
          (''disabled_at'', column DateTimeField\<lparr>c_null := True, c_blank := True\<rparr>),
          (''user'', column (OneToOneField AUTH_USER_MODEL CASCADE ''two_factor''))],
        md_ordering = [],
        md_indexes = [],
        md_constraints = []\<rparr>,
       CreateModel \<lparr>md_name = ''OneTimeToken'', md_columns =
        [(''id'', column UUIDField\<lparr>c_primary_key := True, c_editable := False, c_default := DefaultCall ''uuid4''\<rparr>),
          (''purpose'', column (CharField 32)\<lparr>c_choices := 
            [(''email_verification'', ''Email verification''), (''password_reset'', ''Password reset''),
              (''email_change'', ''Email change''), (''account_deletion'', ''Account deletion'')]\<rparr>),
          (''token_hash'', column (CharField 64)\<lparr>c_unique := True\<rparr>),
          (''metadata'', column JSONField\<lparr>c_blank := True, c_default := DefaultCall ''dict''\<rparr>),
          (''created_at'', column DateTimeField\<lparr>c_default := AutoNowAdd\<rparr>),
          (''expires_at'', column DateTimeField\<lparr>c_db_index := True\<rparr>),
          (''used_at'', column DateTimeField\<lparr>c_null := True, c_blank := True\<rparr>),
          (''user'', column (ForeignKey AUTH_USER_MODEL CASCADE ''one_time_tokens''))],
        md_ordering = [],
        md_indexes = [\<lparr>ix_fields = [''user'', ''purpose'', ''used_at''], ix_name = ''auth_token_user_purpose_idx''\<rparr>],
        md_constraints = []\<rparr>,
       CreateModel \<lparr>md_name = ''RecoveryCode'', md_columns =
        [(''id'', column UUIDField\<lparr>c_primary_key := True, c_editable := False, c_default := DefaultCall ''uuid4''\<rparr>),
          (''code_hash'', column (CharField 64)\<lparr>c_editable := False\<rparr>),
          (''created_at'', column DateTimeField\<lparr>c_default := AutoNowAdd\<rparr>),
          (''used_at'', column DateTimeField\<lparr>c_null := True, c_blank := True\<rparr>),
          (''credential'', column (ForeignKey (''authentication'', ''twofactorcredential'') CASCADE ''recovery_codes''))],
        md_ordering = [],
        md_indexes = [],
        md_constraints = [UniqueConstraint [Col ''credential'', Col ''code_hash''] ''auth_recovery_code_unique'']\<rparr>,
       CreateModel \<lparr>md_name = ''UserSession'', md_columns =
        [(''id'', column UUIDField\<lparr>c_primary_key := True, c_editable := False, c_default := DefaultCall ''uuid4''\<rparr>),
          (''identifier'', column (CharField 32)\<lparr>c_unique := True, c_editable := False\<rparr>),
          (''session_key_hash'', column (CharField 64)\<lparr>c_unique := True, c_editable := False\<rparr>),
          (''encrypted_session_key'', column (TextField None)\<lparr>c_editable := False\<rparr>),
          (''ip_address'', column GenericIPAddressField\<lparr>c_null := True, c_blank := True\<rparr>),
          (''user_agent'', column (TextField None)\<lparr>c_blank := True\<rparr>),
          (''browser'', column (CharField 100)\<lparr>c_blank := True\<rparr>),
          (''operating_system'', column (CharField 100)\<lparr>c_blank := True\<rparr>),
          (''device'', column (CharField 100)\<lparr>c_blank := True\<rparr>),
          (''location'', column (CharField 255)\<lparr>c_blank := True\<rparr>),
          (''created_at'', column DateTimeField\<lparr>c_default := AutoNowAdd\<rparr>),
          (''last_activity_at'', column DateTimeField\<lparr>c_db_index := True, c_default := AutoNow\<rparr>),
          (''revoked_at'', column DateTimeField\<lparr>c_null := True, c_blank := True, c_db_index := True\<rparr>),
          (''user'', column (ForeignKey AUTH_USER_MODEL CASCADE ''user_sessions''))],
        md_ordering = [''-last_activity_at''],
        md_indexes = [\<lparr>ix_fields = [''user'', ''revoked_at'', ''last_activity_at''], ix_name = ''auth_session_active_idx''\<rparr>],
        md_constraints = []\<rparr>]\<rparr>"

definition authorization_0001 :: "migration" where
  "authorization_0001 =
     \<lparr>mg_app = ''authorization'', mg_name = ''0001_initial'', mg_dependencies = [swappable_dependency AUTH_USER_MODEL],
      mg_operations =
      [CreateModel \<lparr>md_name = ''Permission'', md_columns =
        [(''id'', column UUIDField\<lparr>c_primary_key := True, c_editable := False, c_default := DefaultCall ''uuid4''\<rparr>),
          (''created_at'', column DateTimeField\<lparr>c_default := AutoNowAdd\<rparr>),
          (''updated_at'', column DateTimeField\<lparr>c_default := AutoNow\<rparr>),
          (''codename'', column (CharField 150)\<lparr>c_unique := True\<rparr>),
          (''description'', column (CharField 255)\<lparr>c_blank := True\<rparr>),
          (''is_system'', column BooleanField\<lparr>c_default := DefaultBool False\<rparr>)],
        md_ordering = [''codename''],
        md_indexes = [],
        md_constraints = []\<rparr>,
       CreateModel \<lparr>md_name = ''Role'', md_columns =
        [(''id'', column UUIDField\<lparr>c_primary_key := True, c_editable := False, c_default := DefaultCall ''uuid4''\<rparr>),
          (''created_at'', column DateTimeField\<lparr>c_default := AutoNowAdd\<rparr>),
          (''updated_at'', column DateTimeField\<lparr>c_default := AutoNow\<rparr>), (''name'', column (CharField 100)),
          (''slug'', column (SlugField 100)\<lparr>c_unique := True\<rparr>),
          (''description'', column (TextField None)\<lparr>c_blank := True\<rparr>),
          (''priority'', column PositiveSmallIntegerField\<lparr>c_db_index := True, c_default := DefaultInt 0\<rparr>),
          (''is_system'', column BooleanField\<lparr>c_default := DefaultBool False\<rparr>)],
        md_ordering = [''-priority'', ''name''],
        md_indexes = [],
        md_constraints = []\<rparr>,
       CreateModel \<lparr>md_name = ''RolePermission'', md_columns =
        [(''id'', column UUIDField\<lparr>c_primary_key := True, c_editable := False, c_default := DefaultCall ''uuid4''\<rparr>),
          (''created_at'', column DateTimeField\<lparr>c_default := AutoNowAdd\<rparr>),
          (''permission'', column (ForeignKey (''authorization'', ''permission'') CASCADE ''role_links'')),
          (''role'', column (ForeignKey (''authorization'', ''role'') CASCADE ''permission_links''))],
        md_ordering = [],
        md_indexes = [],
        md_constraints = []\<rparr>,
       AddField ''role'' ''permissions''
        (column (ManyToManyField (''authorization'', ''permission'') (Some (''authorization'', ''rolepermission'')) ''roles'')),
       CreateModel \<lparr>md_name = ''UserPermissionOverride'', md_columns =
        [(''id'', column UUIDField\<lparr>c_primary_key := True, c_editable := False, c_default := DefaultCall ''uuid4''\<rparr>),
          (''created_at'', column DateTimeField\<lparr>c_default := AutoNowAdd\<rparr>),
          (''updated_at'', column DateTimeField\<lparr>c_default := AutoNow\<rparr>),
          (''effect'', column (CharField 8)\<lparr>c_choices := [(''allow'', ''Allow''), (''deny'', ''Deny'')]\<rparr>),
          (''reason'', column (CharField 255)\<lparr>c_blank := True\<rparr>),
          (''granted_by'', column (ForeignKey AUTH_USER_MODEL SET_NULL ''granted_permission_overrides'')\<lparr>c_null := True, c_blank := True\<rparr>),
          (''permission'', column (ForeignKey (''authorization'', ''permission'') CASCADE ''user_overrides'')),
          (''user'', column (ForeignKey AUTH_USER_MODEL CASCADE ''permission_overrides''))],
        md_ordering = [],
        md_indexes = [],
        md_constraints = []\<rparr>,
       CreateModel \<lparr>md_name = ''UserRole'', md_columns =
        [(''id'', column UUIDField\<lparr>c_primary_key := True, c_editable := False, c_default := DefaultCall ''uuid4''\<rparr>),
          (''valid_from'', column DateTimeField\<lparr>c_default := DefaultCall ''now''\<rparr>),
          (''valid_until'', column DateTimeField\<lparr>c_null := True, c_blank := True, c_db_index := True\<rparr>),
          (''created_at'', column DateTimeField\<lparr>c_default := AutoNowAdd\<rparr>),
          (''granted_by'', column (ForeignKey AUTH_USER_MODEL SET_NULL ''granted_role_assignments'')\<lparr>c_null := True, c_blank := True\<rparr>),
          (''role'', column (ForeignKey (''authorization'', ''role'') PROTECT ''user_assignments'')),
          (''user'', column (ForeignKey AUTH_USER_MODEL CASCADE ''role_assignments''))],
        md_ordering = [],
        md_indexes = [],
        md_constraints = []\<rparr>,
       AddConstraint ''rolepermission'' (UniqueConstraint [Col ''role'', Col ''permission''] ''authz_role_permission_unique''),
       AddIndex ''userpermissionoverride'' \<lparr>ix_fields = [''user'', ''effect''], ix_name = ''authz_user_override_idx''\<rparr>,
       AddConstraint ''userpermissionoverride'' (UniqueConstraint [Col ''user'', Col ''permission''] ''authz_user_permission_unique''),
       AddIndex ''userrole'' \<lparr>ix_fields = [''user'', ''valid_from'', ''valid_until''], ix_name = ''authz_user_role_valid_idx''\<rparr>,
       AddConstraint ''userrole'' (UniqueConstraint [Col ''user'', Col ''role''] ''authz_user_role_unique'')]\<rparr>"

definition security_0001 :: "migration" where
  "security_0001 =
     \<lparr>mg_app = ''security'', mg_name = ''0001_initial'', mg_dependencies = [swappable_dependency AUTH_USER_MODEL],
      mg_operations =
      [CreateModel \<lparr>md_name = ''SecurityEvent'', md_columns =
        [(''id'', column UUIDField\<lparr>c_primary_key := True, c_editable := False, c_default := DefaultCall ''uuid4''\<rparr>),
          (''event_type'', column (CharField 40)\<lparr>c_db_index := True, c_choices := 
            [(''login_success'', ''Login successful''), (''login_failed'', ''Login failed''),
              (''new_device_login'', ''New device login''), (''password_changed'', ''Password changed''),
              (''password_reset'', ''Password reset''), (''email_changed'', ''Email changed''),
              (''two_factor_enabled'', ''Two-factor authentication enabled''),
              (''two_factor_disabled'', ''Two-factor authentication disabled''),
              (''recovery_code_used'', ''Recovery code used''), (''session_revoked'', ''Session revoked''),
              (''account_locked'', ''Account locked''), (''account_unlocked'', ''Account unlocked''),
              (''account_deactivated'', ''Account deactivated''), (''account_deleted'', ''Account deleted''),
              (''api_key_created'', ''API key created''), (''api_key_revoked'', ''API key revoked'')]\<rparr>),
          (''ip_address'', column GenericIPAddressField\<lparr>c_null := True, c_blank := True\<rparr>),
          (''user_agent'', column (TextField None)\<lparr>c_blank := True\<rparr>),
          (''request_id'', column (CharField 64)\<lparr>c_blank := True, c_db_index := True\<rparr>),
          (''metadata'', column JSONField\<lparr>c_blank := True, c_default := DefaultCall ''dict''\<rparr>),
          (''created_at'', column DateTimeField\<lparr>c_db_index := True, c_default := AutoNowAdd\<rparr>),
          (''user'', column (ForeignKey AUTH_USER_MODEL SET_NULL ''security_events'')\<lparr>c_null := True, c_blank := True\<rparr>)],
        md_ordering = [''-created_at''],
        md_indexes = [\<lparr>ix_fields = [''user'', ''created_at''], ix_name = ''security_event_user_time_idx''\<rparr>],
        md_constraints = []\<rparr>]\<rparr>"

definition security_0002 :: "migration" where
  "security_0002 =
     \<lparr>mg_app = ''security'', mg_name = ''0002_loginthrottlestate'', mg_dependencies = [(''security'', ''0001_initial'')],
      mg_operations =
      [CreateModel \<lparr>md_name = ''LoginThrottleState'', md_columns =
        [(''id'', column UUIDField\<lparr>c_primary_key := True, c_editable := False, c_default := DefaultCall ''uuid4''\<rparr>),
          (''dimension_hash'', column (CharField 64)\<lparr>c_unique := True\<rparr>),
          (''attempt_count'', column PositiveIntegerField\<lparr>c_default := DefaultInt 0\<rparr>),
          (''locked_until'', column DateTimeField\<lparr>c_null := True, c_blank := True, c_db_index := True\<rparr>),
          (''expires_at'', column DateTimeField\<lparr>c_db_index := True\<rparr>),
          (''updated_at'', column DateTimeField\<lparr>c_default := AutoNow\<rparr>)],
        md_ordering = [''-updated_at''],
        md_indexes = [],
        md_constraints = []\<rparr>]\<rparr>"

definition audit_0001 :: "migration" where
  "audit_0001 =
     \<lparr>mg_app = ''audit'', mg_name = ''0001_initial'', mg_dependencies = [swappable_dependency AUTH_USER_MODEL],
      mg_operations =
      [CreateModel \<lparr>md_name = ''AuditLog'', md_columns =
        [(''id'', column UUIDField\<lparr>c_primary_key := True, c_editable := False, c_default := DefaultCall ''uuid4''\<rparr>),
          (''action'', column (CharField 100)\<lparr>c_db_index := True\<rparr>),
          (''target_type'', column (CharField 100)\<lparr>c_db_index := True\<rparr>),
          (''target_id'', column (CharField 100)\<lparr>c_blank := True\<rparr>),
          (''target_repr'', column (CharField 255)\<lparr>c_blank := True\<rparr>),
          (''before'', column JSONField\<lparr>c_blank := True, c_default := DefaultCall ''dict''\<rparr>),
          (''after'', column JSONField\<lparr>c_blank := True, c_default := DefaultCall ''dict''\<rparr>),
          (''metadata'', column JSONField\<lparr>c_blank := True, c_default := DefaultCall ''dict''\<rparr>),
          (''request_id'', column (CharField 64)\<lparr>c_blank := True, c_db_index := True\<rparr>),
          (''ip_address'', column GenericIPAddressField\<lparr>c_null := True, c_blank := True\<rparr>),
          (''user_agent'', column (TextField None)\<lparr>c_blank := True\<rparr>),
          (''created_at'', column DateTimeField\<lparr>c_db_index := True, c_default := AutoNowAdd\<rparr>),
          (''actor'', column (ForeignKey AUTH_USER_MODEL SET_NULL ''audit_actions'')\<lparr>c_null := True, c_blank := True\<rparr>)],
        md_ordering = [''-created_at''],
        md_indexes = [\<lparr>ix_fields = [''target_type'', ''target_id''], ix_name = ''audit_target_idx''\<rparr>],
        md_constraints = []\<rparr>]\<rparr>"

definition notifications_0001 :: "migration" where
  "notifications_0001 =
     \<lparr>mg_app = ''notifications'', mg_name = ''0001_initial'', mg_dependencies = [swappable_dependency AUTH_USER_MODEL],
      mg_operations =
      [CreateModel \<lparr>md_name = ''Notification'', md_columns =
        [(''id'', column UUIDField\<lparr>c_primary_key := True, c_editable := False, c_default := DefaultCall ''uuid4''\<rparr>),
          (''type'', column (CharField 100)\<lparr>c_db_index := True\<rparr>), (''title'', column (CharField 255)),
          (''message'', column (TextField None)),
          (''data'', column JSONField\<lparr>c_blank := True, c_default := DefaultCall ''dict''\<rparr>),
          (''read_at'', column DateTimeField\<lparr>c_null := True, c_blank := True, c_db_index := True\<rparr>),
          (''created_at'', column DateTimeField\<lparr>c_db_index := True, c_default := AutoNowAdd\<rparr>),
          (''expires_at'', column DateTimeField\<lparr>c_null := True, c_blank := True, c_db_index := True\<rparr>),
          (''user'', column (ForeignKey AUTH_USER_MODEL CASCADE ''notifications''))],
        md_ordering = [''-created_at''],
        md_indexes = [\<lparr>ix_fields = [''user'', ''read_at'', ''created_at''], ix_name = ''notification_user_unread_idx''\<rparr>],
        md_constraints = []\<rparr>]\<rparr>"

definition files_0001 :: "migration" where
  "files_0001 =
     \<lparr>mg_app = ''files'', mg_name = ''0001_initial'', mg_dependencies = [swappable_dependency AUTH_USER_MODEL],
      mg_operations =
      [CreateModel \<lparr>md_name = ''StoredFile'', md_columns =
        [(''id'', column UUIDField\<lparr>c_primary_key := True, c_editable := False, c_default := DefaultCall ''uuid4''\<rparr>),
          (''file'', column (FileField 500 ''secure_upload_path'')), (''original_name'', column (CharField 255)),
          (''content_type'', column (CharField 150)), (''size'', column PositiveBigIntegerField),
          (''checksum_sha256'', column (CharField 64)\<lparr>c_db_index := True\<rparr>),
          (''status'', column (CharField 16)\<lparr>c_db_index := True, c_default := DefaultText ''pending'', c_choices := 
            [(''pending'', ''Pending''), (''ready'', ''Ready''), (''quarantined'', ''Quarantined''),
              (''rejected'', ''Rejected'')]\<rparr>),
          (''metadata'', column JSONField\<lparr>c_blank := True, c_default := DefaultCall ''dict''\<rparr>),
          (''created_at'', column DateTimeField\<lparr>c_db_index := True, c_default := AutoNowAdd\<rparr>),
          (''last_accessed_at'', column DateTimeField\<lparr>c_null := True, c_blank := True\<rparr>),
          (''deleted_at'', column DateTimeField\<lparr>c_null := True, c_blank := True, c_db_index := True\<rparr>),
          (''owner'', column (ForeignKey AUTH_USER_MODEL SET_NULL ''stored_files'')\<lparr>c_null := True, c_blank := True\<rparr>)],
        md_ordering = [],
        md_indexes = [\<lparr>ix_fields = [''owner'', ''status'', ''created_at''], ix_name = ''file_owner_status_idx''\<rparr>],
        md_constraints = []\<rparr>]\<rparr>"

definition api_keys_0001 :: "migration" where
  "api_keys_0001 =
     \<lparr>mg_app = ''api_keys'', mg_name = ''0001_initial'', mg_dependencies = [swappable_dependency AUTH_USER_MODEL],
      mg_operations =
      [CreateModel \<lparr>md_name = ''APIKey'', md_columns =
        [(''id'', column UUIDField\<lparr>c_primary_key := True, c_editable := False, c_default := DefaultCall ''uuid4''\<rparr>),
          (''name'', column (CharField 100)),
          (''prefix'', column (CharField 16)\<lparr>c_unique := True, c_db_index := True\<rparr>),
          (''key_hash'', column (CharField 64)\<lparr>c_editable := False\<rparr>),
          (''scopes'', column JSONField\<lparr>c_default := DefaultCall ''list''\<rparr>),
          (''created_at'', column DateTimeField\<lparr>c_default := AutoNowAdd\<rparr>),
          (''last_used_at'', column DateTimeField\<lparr>c_null := True, c_blank := True\<rparr>),
          (''last_used_ip'', column GenericIPAddressField\<lparr>c_null := True, c_blank := True\<rparr>),
          (''expires_at'', column DateTimeField\<lparr>c_null := True, c_blank := True, c_db_index := True\<rparr>),
          (''revoked_at'', column DateTimeField\<lparr>c_null := True, c_blank := True, c_db_index := True\<rparr>),
          (''owner'', column (ForeignKey AUTH_USER_MODEL CASCADE ''api_keys''))],
        md_ordering = [''-created_at''],
        md_indexes = [\<lparr>ix_fields = [''owner'', ''revoked_at'', ''expires_at''], ix_name = ''api_key_owner_active_idx''\<rparr>],
        md_constraints = []\<rparr>]\<rparr>"

definition webhooks_0001 :: "migration" where
  "webhooks_0001 =
     \<lparr>mg_app = ''webhooks'', mg_name = ''0001_initial'', mg_dependencies = [swappable_dependency AUTH_USER_MODEL],
      mg_operations =
      [CreateModel \<lparr>md_name = ''WebhookEvent'', md_columns =
        [(''id'', column UUIDField\<lparr>c_primary_key := True, c_editable := False, c_default := DefaultCall ''uuid4''\<rparr>),
          (''event_type'', column (CharField 150)\<lparr>c_db_index := True\<rparr>), (''payload'', column JSONField),
          (''created_at'', column DateTimeField\<lparr>c_db_index := True, c_default := AutoNowAdd\<rparr>)],
        md_ordering = [],
        md_indexes = [],
        md_constraints = []\<rparr>,
       CreateModel \<lparr>md_name = ''WebhookEndpoint'', md_columns =
        [(''id'', column UUIDField\<lparr>c_primary_key := True, c_editable := False, c_default := DefaultCall ''uuid4''\<rparr>),
          (''created_at'', column DateTimeField\<lparr>c_default := AutoNowAdd\<rparr>),
          (''updated_at'', column DateTimeField\<lparr>c_default := AutoNow\<rparr>), (''name'', column (CharField 100)),
          (''url'', column (URLField 500)), (''event_types'', column JSONField\<lparr>c_default := DefaultCall ''list''\<rparr>),
          (''secret_hash'', column (CharField 64)\<lparr>c_editable := False\<rparr>),
          (''encrypted_secret'', column (TextField None)\<lparr>c_editable := False\<rparr>),
          (''is_active'', column BooleanField\<lparr>c_db_index := True, c_default := DefaultBool True\<rparr>),
          (''owner'', column (ForeignKey AUTH_USER_MODEL CASCADE ''webhook_endpoints'')\<lparr>c_null := True, c_blank := True\<rparr>)],
        md_ordering = [],
        md_indexes = [],
        md_constraints = []\<rparr>,
       CreateModel \<lparr>md_name = ''WebhookDelivery'', md_columns =
        [(''id'', column UUIDField\<lparr>c_primary_key := True, c_editable := False, c_default := DefaultCall ''uuid4''\<rparr>),
          (''status'', column (CharField 16)\<lparr>c_db_index := True, c_default := DefaultText ''pending'', c_choices := 
            [(''pending'', ''Pending''), (''succeeded'', ''Succeeded''), (''failed'', ''Failed''),
              (''abandoned'', ''Abandoned'')]\<rparr>),
          (''attempt_count'', column PositiveSmallIntegerField\<lparr>c_default := DefaultInt 0\<rparr>),
          (''response_code'', column PositiveSmallIntegerField\<lparr>c_null := True, c_blank := True\<rparr>),
          (''response_body'', column (TextField None)\<lparr>c_blank := True\<rparr>),
          (''last_attempt_at'', column DateTimeField\<lparr>c_null := True, c_blank := True\<rparr>),
          (''next_retry_at'', column DateTimeField\<lparr>c_null := True, c_blank := True, c_db_index := True\<rparr>),
          (''created_at'', column DateTimeField\<lparr>c_default := AutoNowAdd\<rparr>),
          (''endpoint'', column (ForeignKey (''webhooks'', ''webhookendpoint'') CASCADE ''deliveries'')),
          (''event'', column (ForeignKey (''webhooks'', ''webhookevent'') CASCADE ''deliveries''))],
        md_ordering = [],
        md_indexes = [\<lparr>ix_fields = [''status'', ''next_retry_at''], ix_name = ''webhook_pending_retry_idx''\<rparr>],
        md_constraints = [UniqueConstraint [Col ''endpoint'', Col ''event''] ''webhook_endpoint_event_unique'']\<rparr>]\<rparr>"

definition webhooks_0002 :: "migration" where
  "webhooks_0002 =
     \<lparr>mg_app = ''webhooks'', mg_name = ''0002_alter_webhookdelivery_status'', mg_dependencies = [(''webhooks'', ''0001_initial'')],
      mg_operations =
      [AlterField ''webhookdelivery'' ''status''
        (column (CharField 16)\<lparr>c_db_index := True, c_default := DefaultText ''pending'', c_choices := 
            [(''pending'', ''Pending''), (''processing'', ''Processing''), (''succeeded'', ''Succeeded''),
              (''failed'', ''Failed''), (''abandoned'', ''Abandoned'')]\<rparr>)]\<rparr>"

definition core_0001 :: "migration" where
  "core_0001 =
     \<lparr>mg_app = ''core'', mg_name = ''0001_initial'', mg_dependencies = [swappable_dependency AUTH_USER_MODEL],
      mg_operations =
      [CreateModel \<lparr>md_name = ''FeatureFlag'', md_columns =
        [(''id'', column UUIDField\<lparr>c_primary_key := True, c_editable := False, c_default := DefaultCall ''uuid4''\<rparr>),
          (''created_at'', column DateTimeField\<lparr>c_default := AutoNowAdd\<rparr>),
          (''updated_at'', column DateTimeField\<lparr>c_default := AutoNow\<rparr>),
          (''key'', column (CharField 150)\<lparr>c_unique := True\<rparr>),
          (''enabled'', column BooleanField\<lparr>c_db_index := True, c_default := DefaultBool False\<rparr>),
          (''description'', column (TextField None)\<lparr>c_blank := True\<rparr>)],
        md_ordering = [],
        md_indexes = [],
        md_constraints = []\<rparr>,
       CreateModel \<lparr>md_name = ''Setting'', md_columns =
        [(''id'', column UUIDField\<lparr>c_primary_key := True, c_editable := False, c_default := DefaultCall ''uuid4''\<rparr>),
          (''created_at'', column DateTimeField\<lparr>c_default := AutoNowAdd\<rparr>),
          (''updated_at'', column DateTimeField\<lparr>c_default := AutoNow\<rparr>),
          (''key'', column (CharField 150)\<lparr>c_unique := True\<rparr>), (''value'', column JSONField),
          (''value_type'', column (CharField 16)\<lparr>c_default := DefaultText ''string'', c_choices := 
            [(''string'', ''String''), (''integer'', ''Integer''), (''boolean'', ''Boolean''), (''json'', ''JSON'')]\<rparr>),
          (''group'', column (CharField 64)\<lparr>c_db_index := True, c_default := DefaultText ''general''\<rparr>),
          (''is_public'', column BooleanField\<lparr>c_default := DefaultBool False\<rparr>),
          (''description'', column (TextField None)\<lparr>c_blank := True\<rparr>)],
        md_ordering = [],
        md_indexes = [],
        md_constraints = []\<rparr>,
       CreateModel \<lparr>md_name = ''IdempotencyRecord'', md_columns =
        [(''id'', column UUIDField\<lparr>c_primary_key := True, c_editable := False, c_default := DefaultCall ''uuid4''\<rparr>),
          (''key_hash'', column (CharField 64)), (''request_method'', column (CharField 8)),
          (''request_path'', column (CharField 500)), (''request_hash'', column (CharField 64)),
          (''response_status'', column PositiveSmallIntegerField\<lparr>c_null := True, c_blank := True\<rparr>),
          (''response_body'', column JSONField\<lparr>c_null := True, c_blank := True\<rparr>),
          (''created_at'', column DateTimeField\<lparr>c_default := AutoNowAdd\<rparr>),
          (''expires_at'', column DateTimeField\<lparr>c_db_index := True\<rparr>),
          (''user'', column (ForeignKey AUTH_USER_MODEL CASCADE ''idempotency_records'')\<lparr>c_null := True, c_blank := True\<rparr>)],
        md_ordering = [],
        md_indexes = [\<lparr>ix_fields = [''expires_at''], ix_name = ''core_idempotency_expiry_idx''\<rparr>],
        md_constraints = [UniqueConstraint [Col ''user'', Col ''key_hash''] ''core_idempotency_user_key_unique'']\<rparr>]\<rparr>"

definition all_migrations :: "migration list" where
  "all_migrations =
     [accounts_0001, authentication_0001, authorization_0001, security_0001, security_0002, audit_0001,
      notifications_0001, files_0001, api_keys_0001, webhooks_0001, webhooks_0002, core_0001]"

section \<open>Their names and dependencies\<close>

lemma migration_heads:
  shows "mg_app accounts_0001 = ''accounts''"
    "mg_app authentication_0001 = ''authentication''"
    "mg_app authorization_0001 = ''authorization''"
    "mg_app security_0001 = ''security''"
    "mg_app security_0002 = ''security''"
    "mg_app audit_0001 = ''audit''"
    "mg_app notifications_0001 = ''notifications''"
    "mg_app files_0001 = ''files''"
    "mg_app api_keys_0001 = ''api_keys''"
    "mg_app webhooks_0001 = ''webhooks''"
    "mg_app webhooks_0002 = ''webhooks''"
    "mg_app core_0001 = ''core''"
  and "migration_id accounts_0001 = (''accounts'', ''0001_initial'')"
    "migration_id authentication_0001 = (''authentication'', ''0001_initial'')"
    "migration_id authorization_0001 = (''authorization'', ''0001_initial'')"
    "migration_id security_0001 = (''security'', ''0001_initial'')"
    "migration_id security_0002 = (''security'', ''0002_loginthrottlestate'')"
    "migration_id audit_0001 = (''audit'', ''0001_initial'')"
    "migration_id notifications_0001 = (''notifications'', ''0001_initial'')"
    "migration_id files_0001 = (''files'', ''0001_initial'')"
    "migration_id api_keys_0001 = (''api_keys'', ''0001_initial'')"
    "migration_id webhooks_0001 = (''webhooks'', ''0001_initial'')"
    "migration_id webhooks_0002 = (''webhooks'', ''0002_alter_webhookdelivery_status'')"
    "migration_id core_0001 = (''core'', ''0001_initial'')"
  and "mg_dependencies accounts_0001 = [(''auth'', ''0012_alter_user_first_name_max_length'')]"
    "mg_dependencies authentication_0001 = [(''accounts'', ''0001_initial'')]"
    "mg_dependencies authorization_0001 = [(''accounts'', ''0001_initial'')]"
    "mg_dependencies security_0001 = [(''accounts'', ''0001_initial'')]"
    "mg_dependencies security_0002 = [(''security'', ''0001_initial'')]"
    "mg_dependencies audit_0001 = [(''accounts'', ''0001_initial'')]"
    "mg_dependencies notifications_0001 = [(''accounts'', ''0001_initial'')]"
    "mg_dependencies files_0001 = [(''accounts'', ''0001_initial'')]"
    "mg_dependencies api_keys_0001 = [(''accounts'', ''0001_initial'')]"
    "mg_dependencies webhooks_0001 = [(''accounts'', ''0001_initial'')]"
    "mg_dependencies webhooks_0002 = [(''webhooks'', ''0001_initial'')]"
    "mg_dependencies core_0001 = [(''accounts'', ''0001_initial'')]"
  by (simp_all add: migration_id_def swappable_dependency_def AUTH_USER_MODEL_def accounts_0001_def authentication_0001_def authorization_0001_def security_0001_def security_0002_def audit_0001_def notifications_0001_def files_0001_def api_keys_0001_def webhooks_0001_def webhooks_0002_def core_0001_def)

section \<open>What each of them builds\<close>

definition local_models :: "migration \<Rightarrow> model list \<Rightarrow> model list" where
  "local_models m ms = (case local_run (mg_app m) (mg_operations m) ms of None \<Rightarrow> [] | Some (ns, _) \<Rightarrow> ns)"

definition outside_models :: "string \<Rightarrow> model_ref list" where
  \<comment> \<open>what an application may refer to beside its own models: the accounts refer to two models of Django, the others to the accounts\<close>
  "outside_models app = (if app = ''accounts'' then [(''auth'', ''group''), (''auth'', ''permission'')] else [AUTH_USER_MODEL])"

definition runs_on :: "migration \<Rightarrow> model list \<Rightarrow> bool" where
  "runs_on m ms = (case local_run (mg_app m) (mg_operations m) ms of
     None \<Rightarrow> False | Some (_, rs) \<Rightarrow> list_all (\<lambda>r. r \<in> set (outside_models (mg_app m))) rs)"

lemma accounts_runs: "runs_on accounts_0001 []"
  by code_simp

lemma authentication_runs: "runs_on authentication_0001 []"
  by code_simp

lemma authorization_runs: "runs_on authorization_0001 []"
  by code_simp

lemma other_runs:
  "runs_on security_0001 []" "runs_on security_0002 (local_models security_0001 [])" "runs_on audit_0001 []"
  "runs_on notifications_0001 []" "runs_on files_0001 []" "runs_on api_keys_0001 []"
  by code_simp+

lemma webhooks_runs: "runs_on webhooks_0001 []" "runs_on webhooks_0002 (local_models webhooks_0001 [])" "runs_on core_0001 []"
  by code_simp+

definition same_elements :: "'a list \<Rightarrow> 'a list \<Rightarrow> bool" where
  "same_elements xs ys \<longleftrightarrow> length xs = length ys \<and> list_all (\<lambda>x. x \<in> set ys) xs \<and> list_all (\<lambda>y. y \<in> set xs) ys"

definition same_model :: "model \<Rightarrow> model \<Rightarrow> bool" where
  \<comment> \<open>equal but for the order of columns, indexes and constraints\<close>
  "same_model x y \<longleftrightarrow> md_name x = md_name y \<and> md_ordering x = md_ordering y \<and> same_elements (md_columns x) (md_columns y) \<and>
     same_elements (md_indexes x) (md_indexes y) \<and> same_elements (md_constraints x) (md_constraints y)"

definition same_models :: "model list \<Rightarrow> model list \<Rightarrow> bool" where
  "same_models xs ys \<longleftrightarrow> length xs = length ys \<and> list_all (\<lambda>y. list_ex (\<lambda>x. same_model x y) xs) ys"

definition inherited_columns :: "(string \<times> column) list" where
  \<comment> \<open>the columns that the user model has from Django, as the first migration records them\<close>
  "inherited_columns = (case local_models accounts_0001 [] of [] \<Rightarrow> [] | m # _ \<Rightarrow>
     filter (\<lambda>(name, _). name \<in> {''password'', ''last_login'', ''is_superuser'', ''groups'', ''user_permissions''}) (md_columns m))"

lemma inherited_explicit [code]:
  "inherited_columns =
     [(''password'', column (CharField 128)), (''last_login'', column DateTimeField\<lparr>c_null := True, c_blank := True\<rparr>),
      (''is_superuser'', column BooleanField\<lparr>c_default := DefaultBool False\<rparr>),
      (''groups'', column (ManyToManyField (''auth'', ''group'') None ''user_set'')\<lparr>c_blank := True\<rparr>),
      (''user_permissions'', column (ManyToManyField (''auth'', ''permission'') None ''user_set'')\<lparr>c_blank := True\<rparr>)]"
  by code_simp

lemma accounts_same: "same_models (local_models accounts_0001 [])
   [User_class inherited_columns, UserProfile_class, UserPreferences_class, UserSecuritySettings_class, UserBan_class]"
  by code_simp

lemma authentication_same: "same_models (local_models authentication_0001 [])
   [OneTimeToken_class, UserSession_class, TwoFactorCredential_class, RecoveryCode_class]"
  by code_simp

lemma authorization_same: "same_models (local_models authorization_0001 [])
   [Permission_class, Role_class, RolePermission_class, UserRole_class, UserPermissionOverride_class]"
  by code_simp

lemma other_same:
  "same_models (local_models security_0002 (local_models security_0001 [])) [SecurityEvent_class, LoginThrottleState_class]"
  "same_models (local_models audit_0001 []) [AuditLog_class]" "same_models (local_models notifications_0001 []) [Notification_class]"
  "same_models (local_models files_0001 []) [StoredFile_class]" "same_models (local_models api_keys_0001 []) [APIKey_class]"
  by code_simp+

lemma webhooks_same:
  "same_models (local_models webhooks_0002 (local_models webhooks_0001 [])) [WebhookEndpoint_class, WebhookEvent_class, WebhookDelivery_class]"
  by code_simp

lemma core_same: "same_models (local_models core_0001 []) [Setting_class, FeatureFlag_class, IdempotencyRecord_class]"
  by code_simp

end
