(* ===== verification/MigrationOrder.thy ===== *)
theory MigrationOrder
  imports Migrations
begin

text \<open>
  Django applies the migrations in some order that their dependencies allow. The operations of a migration touch its own application
  only and the migrations of one application depend on each other in a line, so every such order succeeds and ends in the same
  tables, those the model classes declare. From the declarations follows what the deletion of a row takes with it.
\<close>

section \<open>Every order\<close>

definition applications :: "string list" where
  "applications = [''accounts'', ''authentication'', ''authorization'', ''security'', ''audit'', ''notifications'', ''files'', ''api_keys'',
     ''webhooks'', ''core'']"

definition built :: "(string \<times> string) set \<Rightarrow> string \<Rightarrow> model list" where
  \<comment> \<open>the models of an application after these migrations\<close>
  "built applied app = fold local_models (filter (\<lambda>m. mg_app m = app \<and> migration_id m \<in> applied) all_migrations) []"

fun in_order :: "migration list \<Rightarrow> (string \<times> string) set \<Rightarrow> bool" where
  \<comment> \<open>every migration comes after those it depends on, and none is applied twice\<close>
  "in_order [] applied = True"
| "in_order (m # ms) applied \<longleftrightarrow>
     migration_id m \<notin> applied \<and> set (mg_dependencies m) \<subseteq> applied \<and> in_order ms (insert (migration_id m) applied)"

definition closed :: "(string \<times> string) set \<Rightarrow> bool" where
  "closed applied \<longleftrightarrow> (\<forall>m\<in>set all_migrations. migration_id m \<in> applied \<longrightarrow> set (mg_dependencies m) \<subseteq> applied)"

lemma all_migrations_cases:
  assumes "m \<in> set all_migrations"
  obtains "m = accounts_0001" | "m = authentication_0001" | "m = authorization_0001" | "m = security_0001" | "m = security_0002" |
    "m = audit_0001" | "m = notifications_0001" | "m = files_0001" | "m = api_keys_0001" | "m = webhooks_0001" | "m = webhooks_0002" |
    "m = core_0001"
  using assms by (auto simp: all_migrations_def)

lemma next_runs:
  assumes m: "m \<in> set all_migrations" and "closed applied" and new: "migration_id m \<notin> applied" and deps: "set (mg_dependencies m) \<subseteq> applied"
  shows "runs_on m (built applied (mg_app m))"
    and "built (insert (migration_id m) applied) (mg_app m) = local_models m (built applied (mg_app m))"
proof -
  have late: "(''security'', ''0001_initial'') \<notin> applied \<Longrightarrow> (''security'', ''0002_loginthrottlestate'') \<notin> applied"
    "(''webhooks'', ''0001_initial'') \<notin> applied \<Longrightarrow> (''webhooks'', ''0002_alter_webhookdelivery_status'') \<notin> applied"
    using \<open>closed applied\<close> by (auto simp: closed_def all_migrations_def migration_heads)
  note runs = accounts_runs authentication_runs authorization_runs other_runs webhooks_runs
  from m show "runs_on m (built applied (mg_app m))"
    using new deps late by (cases rule: all_migrations_cases) (simp_all add: built_def all_migrations_def migration_heads runs)
  from m show "built (insert (migration_id m) applied) (mg_app m) = local_models m (built applied (mg_app m))"
    using new deps late by (cases rule: all_migrations_cases) (simp_all add: built_def all_migrations_def migration_heads)
qed

lemma built_elsewhere:
  assumes "app \<noteq> mg_app m"
  shows "built (insert (migration_id m) applied) app = built applied app"
proof -
  have "(mg_app x = app \<and> migration_id x \<in> insert (migration_id m) applied) = (mg_app x = app \<and> migration_id x \<in> applied)" for x
    using assms by (auto simp: migration_id_def)
  then show ?thesis by (simp add: built_def)
qed

lemma built_nothing: "\<forall>m\<in>set all_migrations. migration_id m \<notin> applied \<Longrightarrow> built applied app = []"
  by (simp add: built_def filter_empty_conv)

lemma closed_insert:
  assumes "m \<in> set all_migrations" and "closed applied" and "set (mg_dependencies m) \<subseteq> applied"
  shows "closed (insert (migration_id m) applied)"
proof -
  have "mg_dependencies x = mg_dependencies m" if "x \<in> set all_migrations" "migration_id x = migration_id m" for x
    using assms(1) that by (elim all_migrations_cases) (auto simp: migration_heads)
  then show ?thesis using assms(2,3) by (auto simp: closed_def)
qed

lemma accounts_first:
  assumes "m \<in> set all_migrations" and "closed applied" and "set (mg_dependencies m) \<subseteq> applied" and "mg_app m \<noteq> ''accounts''"
  shows "(''accounts'', ''0001_initial'') \<in> applied"
proof -
  have "(''security'', ''0001_initial'') \<in> applied \<Longrightarrow> (''accounts'', ''0001_initial'') \<in> applied"
    "(''webhooks'', ''0001_initial'') \<in> applied \<Longrightarrow> (''accounts'', ''0001_initial'') \<in> applied"
    using assms(2) by (auto simp: closed_def all_migrations_def migration_heads)
  with assms(1,3,4) show ?thesis by (elim all_migrations_cases) (auto simp: migration_heads)
qed

lemma accounts_has_user: "find_model ''user'' (local_models accounts_0001 []) \<noteq> None"
  by code_simp

definition after :: "schema \<Rightarrow> (string \<times> string) set \<Rightarrow> schema" where
  \<comment> \<open>the tables after these migrations, from a database that had the others\<close>
  "after S applied = (\<lambda>app. if app \<in> set applications then built applied app else S app)"

lemma applications_apps: "m \<in> set all_migrations \<Longrightarrow> mg_app m \<in> set applications"
  by (elim all_migrations_cases) (simp_all add: migration_heads applications_def)

lemma migration_runs:
  assumes m: "m \<in> set all_migrations" and closed: "closed applied" and new: "migration_id m \<notin> applied"
    and deps: "set (mg_dependencies m) \<subseteq> applied"
    and django: "model_exists S (''auth'', ''group'')" "model_exists S (''auth'', ''permission'')"
  shows "run_operations (mg_app m) (mg_operations m) (after S applied) = Some (after S (insert (migration_id m) applied))"
proof -
  let ?A = "after S applied"
  note steps = next_runs [OF m closed new deps]
  have own: "?A (mg_app m) = built applied (mg_app m)" using applications_apps [OF m] by (simp add: after_def)
  obtain rs where run: "local_run (mg_app m) (mg_operations m) (?A (mg_app m)) = Some (local_models m (built applied (mg_app m)), rs)"
    and rs: "list_all (\<lambda>r. r \<in> set (outside_models (mg_app m))) rs"
    using steps(1) unfolding runs_on_def local_models_def own by (auto split: option.splits)
  have "model_exists ?A r" if "r \<in> set (outside_models (mg_app m))" for r
  proof (cases "mg_app m = ''accounts''")
    case True
    then show ?thesis using that django by (auto simp: outside_models_def model_exists_def after_def applications_def)
  next
    case False
    with accounts_first [OF m closed deps] have "(''accounts'', ''0001_initial'') \<in> applied" by simp
    then have "built applied ''accounts'' = local_models accounts_0001 []" by (simp add: built_def all_migrations_def migration_heads)
    with False that accounts_has_user show ?thesis
      by (simp add: outside_models_def model_exists_def after_def applications_def AUTH_USER_MODEL_def)
  qed
  with rs have "list_all (model_exists ?A) rs" by (auto simp: list_all_iff)
  from run_operations_local [OF run this]
  have "run_operations (mg_app m) (mg_operations m) ?A = Some (?A(mg_app m := built (insert (migration_id m) applied) (mg_app m)))"
    by (simp only: steps(2))
  also have "?A(mg_app m := built (insert (migration_id m) applied) (mg_app m)) = after S (insert (migration_id m) applied)"
    using applications_apps [OF m] built_elsewhere [of _ m applied] by (auto simp: after_def)
  finally show ?thesis .
qed

lemma migrate_in_order:
  assumes "set ms \<subseteq> set all_migrations" and "in_order ms applied" and "closed applied"
    and "model_exists S (''auth'', ''group'')" "model_exists S (''auth'', ''permission'')"
  shows "migrate ms applied (after S applied) = Some (after S (applied \<union> migration_id ` set ms))"
  using assms(1-3)
proof (induction ms arbitrary: applied)
  case (Cons m ms)
  then have "run_operations (mg_app m) (mg_operations m) (after S applied) = Some (after S (insert (migration_id m) applied))"
    by (intro migration_runs assms(4,5)) auto
  moreover have "migrate ms (insert (migration_id m) applied) (after S (insert (migration_id m) applied)) =
      Some (after S (insert (migration_id m) applied \<union> migration_id ` set ms))"
    using Cons.prems closed_insert [of m applied] by (intro Cons.IH) auto
  ultimately show ?case using Cons.prems by simp
qed simp

lemma all_built:
  assumes "migration_id ` set all_migrations \<subseteq> applied"
  shows "list_all (\<lambda>(app, models). same_models (built applied app) models) (declared inherited_columns)"
  using assms by (simp add: declared_def built_def all_migrations_def migration_heads
    accounts_same authentication_same authorization_same other_same webhooks_same core_same)

definition django_applied :: "(string \<times> string) set" where
  \<comment> \<open>the migration of Django's that the first one of the accounts names\<close>
  "django_applied = {(''auth'', ''0012_alter_user_first_name_max_length'')}"

definition fresh_database :: "schema \<Rightarrow> bool" where
  \<comment> \<open>Django's groups and permissions and nothing of the applications\<close>
  "fresh_database S \<longleftrightarrow> list_all (\<lambda>app. S app = []) applications \<and>
     model_exists S (''auth'', ''group'') \<and> model_exists S (''auth'', ''permission'')"

lemma migrated_tables:
  assumes "set ms = set all_migrations" and "in_order ms django_applied" and "fresh_database S"
  shows "\<exists>T. migrate ms django_applied S = Some T \<and>
     list_all (\<lambda>(app, models). same_models (T app) models) (declared inherited_columns) \<and>
     (\<forall>app. app \<notin> set applications \<longrightarrow> T app = S app)"
proof -
  let ?T = "after S (django_applied \<union> migration_id ` set ms)"
  have none: "\<forall>m\<in>set all_migrations. migration_id m \<notin> django_applied"
    by (simp add: all_migrations_def migration_heads django_applied_def)
  then have "closed django_applied" by (auto simp: closed_def)
  moreover have "after S django_applied = S"
    using assms(3) by (auto simp: after_def built_nothing [OF none] list_all_iff fresh_database_def)
  ultimately have "migrate ms django_applied S = Some ?T"
    using migrate_in_order [of ms django_applied S] assms by (simp add: fresh_database_def)
  moreover have "list_all (\<lambda>(app, models). same_models (?T app) models) (declared inherited_columns)"
  proof -
    have "fst d \<in> set applications" if "d \<in> set (declared inherited_columns)" for d
      using that by (auto simp: declared_def applications_def)
    moreover have "migration_id ` set all_migrations \<subseteq> django_applied \<union> migration_id ` set ms" using assms(1) by auto
    note all_built [OF this]
    ultimately show ?thesis by (auto simp: list_all_iff after_def)
  qed
  ultimately show ?thesis by (auto simp: after_def)
qed

text \<open>
  Property C27: the migrations build the tables the code declares, and in whatever order. Take any order of all the migrations in which
  each comes after those it depends on: applied to a database that has Django's groups and permissions and nothing of these
  applications, none of them fails, and afterwards every application has the tables of its model classes, with the same columns,
  options, indexes and constraints, while the tables of Django are untouched.
\<close>

theorem migrations_build_declared:
  assumes "set ms = set all_migrations" and "in_order ms django_applied" and "fresh_database S"
  shows "\<exists>T. migrate ms django_applied S = Some T \<and>
     list_all (\<lambda>(app, models). same_models (T app) models) (declared inherited_columns) \<and>
     (\<forall>app. app \<notin> set applications \<longrightarrow> T app = S app)"
  using assms by (rule migrated_tables)

definition demo_schema :: schema where
  "demo_schema = (\<lambda>app. if app = ''auth'' then map (\<lambda>n. \<lparr>md_name = n, md_columns = [], md_ordering = [], md_indexes = [], md_constraints = []\<rparr>)
     [''Group'', ''Permission''] else [])"

lemma demo_schema_fresh: "fresh_database demo_schema"
proof -
  have "model_exists demo_schema (''auth'', ''group'')" "model_exists demo_schema (''auth'', ''permission'')" by code_simp+
  then show ?thesis by (simp add: fresh_database_def demo_schema_def applications_def)
qed

lemma listed_order: "in_order all_migrations django_applied"
  by (simp add: all_migrations_def migration_heads django_applied_def)

theorem migrations_build_declared_witness:
  "\<not> in_order (rev all_migrations) django_applied \<and> (\<exists>T. migrate all_migrations django_applied demo_schema = Some T \<and>
     list_all (\<lambda>(app, models). same_models (T app) models) (declared inherited_columns))"
proof -
  have "\<not> in_order (rev all_migrations) django_applied"
    by (simp add: all_migrations_def migration_heads django_applied_def)
  then show ?thesis using migrations_build_declared [OF refl listed_order demo_schema_fresh] by blast
qed

end
