(* ===== verification/Constraints.thy ===== *)
theory Constraints
  imports AuthorizationApi RuntimeSettings Idempotency ApiKeys MigrationOrder
begin

text \<open>
  The operations of the other theories refuse a row by looking for another one with the same address, hash or pair. Here this is
  derived from the schema: a row of the model is turned into the cells of its table, and an operation refuses it exactly when the
  table that the migrations have built does. \<open>schema_table\<close> is the contract between a table and the rows of a component.
\<close>

section \<open>The contract\<close>

locale schema_table =
  fixes m :: model and cells :: "'r \<Rightarrow> row" and ident :: "'r \<Rightarrow> uuid" and clash :: "'r \<Rightarrow> 'r \<Rightarrow> bool" and check :: "'r \<Rightarrow> bool"
  assumes keys: "list_ex (\<lambda>parts. conflicts parts (cells q) (cells r)) (unique_keys m) \<longleftrightarrow> ident q = ident r \<or> clash q r"
    and checks: "checks_hold m (cells r) \<longleftrightarrow> check r"
begin

lemma accepts_iff: "accepts m (map cells rows) (cells r) \<longleftrightarrow> check r \<and> (\<forall>q\<in>set rows. ident q \<noteq> ident r \<and> \<not> clash q r)"
proof -
  have "list_ex (\<lambda>parts. list_ex (\<lambda>q. conflicts parts q (cells r)) (map cells rows)) (unique_keys m) \<longleftrightarrow>
      (\<exists>q\<in>set rows. list_ex (\<lambda>parts. conflicts parts (cells q) (cells r)) (unique_keys m))"
    by (auto simp: list_ex_iff)
  then show ?thesis by (auto simp: accepts_def keys checks)
qed

lemma accepts_new:
  "ident r \<notin> ident ` set rows \<Longrightarrow> accepts m (map cells rows) (cells r) \<longleftrightarrow> check r \<and> \<not> exists_where (\<lambda>q. clash q r) rows"
  by (auto simp: accepts_iff exists_where_def list_ex_iff image_iff)

lemma accepts_saved:
  "accepts m (map cells (filter (\<lambda>q. ident q \<noteq> ident r) rows)) (cells r) \<longleftrightarrow>
     check r \<and> \<not> exists_where (\<lambda>q. ident q \<noteq> ident r \<and> clash q r) rows"
  by (auto simp: accepts_iff exists_where_def list_ex_iff)

end

section \<open>Rows as cells\<close>

text \<open>Of each row the columns that the unique keys and checks of its table mention.\<close>

definition cells_of :: "(string \<times> cell) list \<Rightarrow> row" where
  "cells_of cs = (\<lambda>c. case map_of cs c of None \<Rightarrow> Null | Some v \<Rightarrow> v)"

definition instant_cell :: "datetime option \<Rightarrow> cell" where
  "instant_cell t = (case t of None \<Rightarrow> Null | Some i \<Rightarrow> Instant i)"

definition user_cells :: "user \<Rightarrow> row" where
  "user_cells u = cells_of [(''id'', Key (u_id u)), (''email'', Text (u_email u)), (''username'', Text (u_username u))]"

definition ban_cells :: "user_ban \<Rightarrow> row" where
  "ban_cells b = cells_of [(''id'', Key (b_id b)), (''starts_at'', Instant (b_starts_at b)), (''expires_at'', instant_cell (b_expires_at b))]"

definition token_cells :: "one_time_token \<Rightarrow> row" where
  "token_cells t = cells_of [(''id'', Key (ot_id t)), (''token_hash'', Text (ot_token_hash t))]"

definition session_cells :: "user_session \<Rightarrow> row" where
  "session_cells r = cells_of [(''id'', Key (us_id r)), (''identifier'', Text (us_identifier r)), (''session_key_hash'', Text (us_session_key_hash r))]"

definition api_key_cells :: "api_key \<Rightarrow> row" where
  "api_key_cells k = cells_of [(''id'', Key (ak_id k)), (''prefix'', Text (ak_prefix k))]"

definition setting_cells :: "setting \<Rightarrow> row" where
  "setting_cells r = cells_of [(''id'', Key (sg_id r)), (''key'', Text (sg_key r))]"

definition idempotency_cells :: "idempotency_record \<Rightarrow> row" where
  "idempotency_cells r = cells_of [(''id'', Key (ir_id r)), (''user'', Key (ir_user r)), (''key_hash'', Text (ir_key_hash r))]"

definition permission_cells :: "permission \<Rightarrow> row" where
  "permission_cells p = cells_of [(''id'', Key (pm_id p)), (''codename'', Text (pm_codename p))]"

definition role_cells :: "role \<Rightarrow> row" where
  "role_cells r = cells_of [(''id'', Key (ro_id r)), (''slug'', Text (ro_slug r))]"

definition link_cells :: "role_permission \<Rightarrow> row" where
  "link_cells l = cells_of [(''id'', Key (rp_id l)), (''role'', Key (rp_role l)), (''permission'', Key (rp_permission l))]"

definition assignment_cells :: "user_role \<Rightarrow> row" where
  "assignment_cells a = cells_of [(''id'', Key (ur_id a)), (''user'', Key (ur_user a)), (''role'', Key (ur_role a))]"

definition override_cells :: "user_permission_override \<Rightarrow> row" where
  "override_cells x = cells_of [(''id'', Key (po_id x)), (''user'', Key (po_user x)), (''permission'', Key (po_permission x))]"

lemmas cells_defs = cells_of_def user_cells_def ban_cells_def token_cells_def session_cells_def api_key_cells_def setting_cells_def
  idempotency_cells_def permission_cells_def role_cells_def link_cells_def assignment_cells_def override_cells_def instant_cell_def

lemmas class_defs = UserBan_class_def OneTimeToken_class_def UserSession_class_def APIKey_class_def Setting_class_def
  IdempotencyRecord_class_def Permission_class_def Role_class_def RolePermission_class_def UserRole_class_def
  UserPermissionOverride_class_def UUIDModel_def TimeStampedModel_def

lemma inherited_keyless:
  "filter (\<lambda>(_, c). c_unique c \<or> c_primary_key c \<or> is_one_to_one (c_type c)) inherited_columns = []"
  by code_simp

lemma unique_keys_user: "unique_keys (User_class inherited_columns) =
   [[Col ''id''], [Col ''email''], [Col ''username''], [Lower ''email''], [Lower ''username'']]"
  by (simp add: unique_keys_def User_class_def UUIDModel_def column_def inherited_keyless)

lemma checks_user: "checks_hold (User_class inherited) r"
  by (simp add: checks_hold_def User_class_def)

lemmas table_simps = unique_keys_def checks_hold_def conflicts_def column_def

interpretation user_table: schema_table "User_class inherited_columns" user_cells u_id
    "\<lambda>v u. iexact (u_email v) (u_email u) \<or> iexact (u_username v) (u_username u)" "\<lambda>_. True"
  by unfold_locales
    (auto simp: unique_keys_user conflicts_def checks_user cells_defs iexact_def)

interpretation ban_table: schema_table UserBan_class ban_cells b_id "\<lambda>_ _. False" ban_constraint
  by unfold_locales (auto simp: table_simps class_defs cells_defs ban_constraint_def split: option.splits bool.splits)

interpretation token_table: schema_table OneTimeToken_class token_cells ot_id "\<lambda>t u. ot_token_hash t = ot_token_hash u" "\<lambda>_. True"
  by unfold_locales (auto simp: table_simps class_defs cells_defs)

interpretation session_table: schema_table UserSession_class session_cells us_id
    "\<lambda>r q. us_identifier r = us_identifier q \<or> us_session_key_hash r = us_session_key_hash q" "\<lambda>_. True"
  by unfold_locales (auto simp: table_simps class_defs cells_defs)

interpretation api_key_table: schema_table APIKey_class api_key_cells ak_id "\<lambda>q k. ak_prefix q = ak_prefix k" "\<lambda>_. True"
  by unfold_locales (auto simp: table_simps class_defs cells_defs)

interpretation setting_table: schema_table Setting_class setting_cells sg_id "\<lambda>q r. sg_key q = sg_key r" "\<lambda>_. True"
  by unfold_locales (auto simp: table_simps class_defs cells_defs)

interpretation idempotency_table: schema_table IdempotencyRecord_class idempotency_cells ir_id
    "\<lambda>q r. ir_user q = ir_user r \<and> ir_key_hash q = ir_key_hash r" "\<lambda>_. True"
  by unfold_locales (auto simp: table_simps class_defs cells_defs)

interpretation permission_table: schema_table Permission_class permission_cells pm_id "\<lambda>a b. pm_codename a = pm_codename b" "\<lambda>_. True"
  by unfold_locales (auto simp: table_simps class_defs cells_defs)

interpretation role_table: schema_table Role_class role_cells ro_id "\<lambda>a b. ro_slug a = ro_slug b" "\<lambda>_. True"
  by unfold_locales (auto simp: table_simps class_defs cells_defs)

interpretation link_table: schema_table RolePermission_class link_cells rp_id
    "\<lambda>a b. rp_role a = rp_role b \<and> rp_permission a = rp_permission b" "\<lambda>_. True"
  by unfold_locales (auto simp: table_simps class_defs cells_defs)

interpretation assignment_table: schema_table UserRole_class assignment_cells ur_id
    "\<lambda>a b. ur_user a = ur_user b \<and> ur_role a = ur_role b" "\<lambda>_. True"
  by unfold_locales (auto simp: table_simps class_defs cells_defs)

interpretation override_table: schema_table UserPermissionOverride_class override_cells po_id
    "\<lambda>a b. po_user a = po_user b \<and> po_permission a = po_permission b" "\<lambda>_. True"
  by unfold_locales (auto simp: table_simps class_defs cells_defs)

section \<open>The migrated tables\<close>

definition takes :: "schema \<Rightarrow> model_ref \<Rightarrow> row list \<Rightarrow> row \<Rightarrow> bool" where
  \<comment> \<open>the table exists and accepts the row beside these\<close>
  "takes T r rows new = (case find_model (snd r) (T (fst r)) of None \<Rightarrow> False | Some m \<Rightarrow> accepts m rows new)"

lemma same_elements_set: "same_elements xs ys \<Longrightarrow> set xs = set ys"
  by (auto simp: same_elements_def list_all_iff)

lemma same_model_accepts:
  assumes "same_model x y"
  shows "accepts x rows r = accepts y rows r"
proof -
  have c: "set (md_columns x) = set (md_columns y)" and k: "set (md_constraints x) = set (md_constraints y)"
    using assms by (auto simp: same_model_def dest: same_elements_set)
  have "set (unique_keys x) = set (unique_keys y)" by (simp add: unique_keys_def c k)
  then show ?thesis by (simp add: accepts_def checks_hold_def list_all_iff list_ex_iff k)
qed

lemma same_models_find:
  assumes same: "same_models xs ys" and names: "distinct (map (py_lower \<circ> md_name) ys)" and y: "y \<in> set ys"
  obtains x where "find_model (py_lower (md_name y)) xs = Some x" and "same_model x y"
proof -
  let ?name = "py_lower \<circ> md_name"
  have ex: "\<exists>x\<in>set xs. same_model x z" if "z \<in> set ys" for z
    using same that by (auto simp: same_models_def list_all_iff list_ex_iff)
  have "?name z \<in> ?name ` set xs" if z: "z \<in> set ys" for z
  proof -
    obtain x where "x \<in> set xs" "same_model x z" using ex [OF z] by blast
    then show ?thesis by (auto simp: same_model_def intro!: rev_image_eqI [of x])
  qed
  then have "set (map ?name ys) \<subseteq> set (map ?name xs)" by auto
  then have "card (set (map ?name ys)) \<le> card (set (map ?name xs))" by (rule card_mono [rotated]) simp
  then have "length ys \<le> card (set (map ?name xs))" unfolding distinct_card [OF names] length_map .
  then have "distinct (map ?name xs)"
    using same card_length [of "map ?name xs"] by (simp add: same_models_def card_distinct)
  then have inj: "inj_on ?name (set xs)" by (simp add: distinct_map)
  obtain x where x: "x \<in> set xs" "same_model x y" using ex [OF y] by blast
  then have "?name x = py_lower (md_name y)" by (simp add: same_model_def)
  with x(1) obtain x' where x': "find_model (py_lower (md_name y)) xs = Some x'"
    by (cases "find_model (py_lower (md_name y)) xs") (auto simp: find_model_def find_None_iff)
  then have "x' \<in> set xs" "?name x' = py_lower (md_name y)" by (auto simp: find_model_def find_Some_iff)
  with inj x \<open>?name x = py_lower (md_name y)\<close> have "x' = x" by (metis inj_onD)
  with that x' x(2) show thesis by blast
qed

lemma declared_names: "list_all (\<lambda>(_, models). distinct (map (py_lower \<circ> md_name) models)) (declared inherited_columns)"
  by code_simp

lemma takes_declared:
  assumes same: "list_all (\<lambda>(app, models). same_models (T app) models) (declared inherited_columns)"
    and app: "(app, models) \<in> set (declared inherited_columns)" and d: "d \<in> set models"
  shows "takes T (app, py_lower (md_name d)) rows r = accepts d rows r"
proof -
  have "same_models (T app) models" "distinct (map (py_lower \<circ> md_name) models)"
    using same app declared_names by (auto simp: list_all_iff)
  then obtain x where "find_model (py_lower (md_name d)) (T app) = Some x" "same_model x d"
    using d same_models_find by blast
  then show ?thesis by (simp add: takes_def same_model_accepts)
qed

lemma takes_class:
  assumes "list_all (\<lambda>(app, models). same_models (T app) models) (declared inherited_columns)"
    and "(app, models) \<in> set (declared inherited_columns)" and "d \<in> set models" and "py_lower (md_name d) = name"
  shows "takes T (app, name) rows r = accepts d rows r"
  using takes_declared [OF assms(1-3)] assms(4) by simp

lemma lower_names:
  "py_lower (md_name UserBan_class) = ''userban''" "py_lower (md_name OneTimeToken_class) = ''onetimetoken''"
  "py_lower (md_name UserSession_class) = ''usersession''" "py_lower (md_name APIKey_class) = ''apikey''"
  "py_lower (md_name Setting_class) = ''setting''" "py_lower (md_name IdempotencyRecord_class) = ''idempotencyrecord''"
  "py_lower (md_name Permission_class) = ''permission''" "py_lower (md_name Role_class) = ''role''"
  "py_lower (md_name RolePermission_class) = ''rolepermission''" "py_lower (md_name UserRole_class) = ''userrole''"
  "py_lower (md_name UserPermissionOverride_class) = ''userpermissionoverride''" "py_lower ''User'' = ''user''"
  by code_simp+

lemma lower_user: "py_lower (md_name (User_class inherited)) = ''user''"
  by (simp only: User_class_def model.simps lower_names)

lemma declared_applications:
  "(''accounts'', [User_class inherited, UserProfile_class, UserPreferences_class, UserSecuritySettings_class, UserBan_class])
     \<in> set (declared inherited)"
  "(''authentication'', [OneTimeToken_class, UserSession_class, TwoFactorCredential_class, RecoveryCode_class]) \<in> set (declared inherited)"
  "(''authorization'', [Permission_class, Role_class, RolePermission_class, UserRole_class, UserPermissionOverride_class])
     \<in> set (declared inherited)"
  "(''api_keys'', [APIKey_class]) \<in> set (declared inherited)"
  "(''core'', [Setting_class, FeatureFlag_class, IdempotencyRecord_class]) \<in> set (declared inherited)"
  by (simp_all add: declared_def)

lemma takes_tables:
  assumes same: "list_all (\<lambda>(app, models). same_models (T app) models) (declared inherited_columns)"
  shows "takes T AUTH_USER_MODEL rows r = accepts (User_class inherited_columns) rows r"
    and "takes T (''accounts'', ''userban'') rows r = accepts UserBan_class rows r"
    and "takes T (''authentication'', ''onetimetoken'') rows r = accepts OneTimeToken_class rows r"
    and "takes T (''authentication'', ''usersession'') rows r = accepts UserSession_class rows r"
    and "takes T (''api_keys'', ''apikey'') rows r = accepts APIKey_class rows r"
    and "takes T (''core'', ''setting'') rows r = accepts Setting_class rows r"
    and "takes T (''core'', ''idempotencyrecord'') rows r = accepts IdempotencyRecord_class rows r"
    and "takes T (''authorization'', ''permission'') rows r = accepts Permission_class rows r"
    and "takes T (''authorization'', ''role'') rows r = accepts Role_class rows r"
    and "takes T (''authorization'', ''rolepermission'') rows r = accepts RolePermission_class rows r"
    and "takes T (''authorization'', ''userrole'') rows r = accepts UserRole_class rows r"
    and "takes T (''authorization'', ''userpermissionoverride'') rows r = accepts UserPermissionOverride_class rows r"
  unfolding AUTH_USER_MODEL_def
  by (rule takes_class [OF same declared_applications(1)] takes_class [OF same declared_applications(2)]
      takes_class [OF same declared_applications(3)] takes_class [OF same declared_applications(4)]
      takes_class [OF same declared_applications(5)], simp, simp only: lower_names lower_user)+

section \<open>The operations\<close>

lemma user_unique_schema: "user_unique u s =
   (if accepts (User_class inherited_columns) (map user_cells (filter (\<lambda>v. u_id v \<noteq> u_id u) (users s))) (user_cells u)
    then (Inr (), s) else (Inl (IntegrityError ''accounts_user''), s))"
  unfolding user_table.accepts_saved by (auto simp: user_unique_def user_clash_def op_simps)

lemma session_save_schema: "session_save_unique row s =
   (if accepts UserSession_class (map session_cells (filter (\<lambda>r. us_id r \<noteq> us_id row) (user_sessions s))) (session_cells row)
    then (Inr (), s) else (Inl (IntegrityError ''usersession''), s))"
  unfolding session_table.accepts_saved by (auto simp: session_save_unique_def op_simps)

lemma setting_taken_schema: "setting_key_taken s st =
   (\<not> accepts Setting_class (map setting_cells (filter (\<lambda>r. sg_id r \<noteq> sg_id st) (runtime_settings s))) (setting_cells st))"
  unfolding setting_table.accepts_saved by (auto simp: setting_key_taken_def)

lemma ban_schema: "ban_constraint b = accepts UserBan_class (map ban_cells (filter (\<lambda>c. b_id c \<noteq> b_id b) bs)) (ban_cells b)"
  unfolding ban_table.accepts_saved by (auto simp: exists_where_def list_ex_iff)

lemma token_create_schema:
  assumes "ot_id tok \<notin> ot_id ` set (one_time_tokens s)"
  shows "token_create tok s = (if accepts OneTimeToken_class (map token_cells (one_time_tokens s)) (token_cells tok)
    then (Inr (), s\<lparr>one_time_tokens := tok # one_time_tokens s\<rparr>) else (Inl (IntegrityError ''token_hash''), s))"
  unfolding token_table.accepts_new [OF assms] by (auto simp: token_create_def op_simps)

lemma api_key_insert_schema:
  assumes "ak_id k \<notin> ak_id ` set (api_keys s)"
  shows "api_key_insert k s = (if accepts APIKey_class (map api_key_cells (api_keys s)) (api_key_cells k)
    then (Inr (), s\<lparr>api_keys := k # api_keys s\<rparr>) else (Inl (IntegrityError ''prefix''), s))"
  unfolding api_key_table.accepts_new [OF assms] by (auto simp: api_key_insert_def op_simps)

lemma idempotency_create_schema:
  assumes "ir_id rec \<notin> ir_id ` set (idempotency_records s)"
  shows "idempotency_create rec s = (if accepts IdempotencyRecord_class (map idempotency_cells (idempotency_records s)) (idempotency_cells rec)
    then (Inr (), s\<lparr>idempotency_records := idempotency_records s @ [rec]\<rparr>)
    else (Inl (IntegrityError ''core_idempotency_user_key_unique''), s))"
proof -
  have "idempotency_find s i h \<noteq> None \<longleftrightarrow> exists_where (\<lambda>q. ir_user q = i \<and> ir_key_hash q = h) (idempotency_records s)" for i h
    by (auto simp: idempotency_find_def first_where_def find_None_iff exists_where_def list_ex_iff)
  then show ?thesis unfolding idempotency_table.accepts_new [OF assms] by (auto simp: idempotency_create_def op_simps)
qed

lemmas service_schemas = user_unique_schema session_save_schema setting_taken_schema ban_schema token_create_schema api_key_insert_schema
  idempotency_create_schema

text \<open>
  Property C26: what a service refuses is what the database refuses. After the migrations, in any order, each insertion or save of the
  services goes through exactly when the migrated table takes the row beside the others, and is the integrity error that the code
  handles otherwise: accounts (unique ignoring case), sessions, tokens, API keys, settings and the records of idempotent requests, and a
  ban runs forward in time exactly when the check constraint of its table holds.
\<close>

theorem services_enforce_schema:
  assumes "set ms = set all_migrations" and "in_order ms django_applied" and "fresh_database S" and "migrate ms django_applied S = Some T"
  shows "user_unique u s =
       (if takes T AUTH_USER_MODEL (map user_cells (filter (\<lambda>v. u_id v \<noteq> u_id u) (users s))) (user_cells u)
        then (Inr (), s) else (Inl (IntegrityError ''accounts_user''), s)) \<and>
     session_save_unique row s =
       (if takes T (''authentication'', ''usersession'') (map session_cells (filter (\<lambda>r. us_id r \<noteq> us_id row) (user_sessions s))) (session_cells row)
        then (Inr (), s) else (Inl (IntegrityError ''usersession''), s)) \<and>
     setting_key_taken s st =
       (\<not> takes T (''core'', ''setting'') (map setting_cells (filter (\<lambda>r. sg_id r \<noteq> sg_id st) (runtime_settings s))) (setting_cells st)) \<and>
     ban_constraint b = takes T (''accounts'', ''userban'') (map ban_cells (filter (\<lambda>c. b_id c \<noteq> b_id b) (bans s))) (ban_cells b) \<and>
     (ot_id tok \<notin> ot_id ` set (one_time_tokens s) \<longrightarrow> token_create tok s =
       (if takes T (''authentication'', ''onetimetoken'') (map token_cells (one_time_tokens s)) (token_cells tok)
        then (Inr (), s\<lparr>one_time_tokens := tok # one_time_tokens s\<rparr>) else (Inl (IntegrityError ''token_hash''), s))) \<and>
     (ak_id k \<notin> ak_id ` set (api_keys s) \<longrightarrow> api_key_insert k s =
       (if takes T (''api_keys'', ''apikey'') (map api_key_cells (api_keys s)) (api_key_cells k)
        then (Inr (), s\<lparr>api_keys := k # api_keys s\<rparr>) else (Inl (IntegrityError ''prefix''), s))) \<and>
     (ir_id rec \<notin> ir_id ` set (idempotency_records s) \<longrightarrow> idempotency_create rec s =
       (if takes T (''core'', ''idempotencyrecord'') (map idempotency_cells (idempotency_records s)) (idempotency_cells rec)
        then (Inr (), s\<lparr>idempotency_records := idempotency_records s @ [rec]\<rparr>)
        else (Inl (IntegrityError ''core_idempotency_user_key_unique''), s)))"
proof -
  have "list_all (\<lambda>(app, models). same_models (T app) models) (declared inherited_columns)"
    using migrated_tables [OF assms(1-3)] assms(4) by auto
  note takes = takes_tables [OF this]
  show ?thesis unfolding takes
    by (intro conjI impI service_schemas)
qed

definition demo_account :: "uuid \<Rightarrow> string \<Rightarrow> user" where
  "demo_account i m = demo_user\<lparr>u_id := i, u_email := m, u_username := m\<rparr>"

theorem services_enforce_schema_witness:
  "\<exists>T. migrate all_migrations django_applied demo_schema = Some T \<and>
     \<not> takes T AUTH_USER_MODEL [user_cells (demo_account 1 ''ann@example.com'')] (user_cells (demo_account 2 ''ANN@example.com'')) \<and>
     takes T AUTH_USER_MODEL [user_cells (demo_account 1 ''ann@example.com'')] (user_cells (demo_account 2 ''bob@example.com''))"
proof -
  obtain T where T: "migrate all_migrations django_applied demo_schema = Some T"
    using migrated_tables [OF refl listed_order demo_schema_fresh] by blast
  let ?s = "demo_db\<lparr>users := [demo_account 1 ''ann@example.com'']\<rparr>"
  note enforced = services_enforce_schema [OF refl listed_order demo_schema_fresh T, where s = ?s, THEN conjunct1]
  have "fst (user_unique (demo_account 2 ''ANN@example.com'') ?s) = Inl (IntegrityError ''accounts_user'')"
    "fst (user_unique (demo_account 2 ''bob@example.com'') ?s) = Inr ()" by code_simp+
  moreover have "u_id (demo_account i m) = i" for i m by (simp add: demo_account_def)
  ultimately show ?thesis using T enforced [of "demo_account 2 ''ANN@example.com''"] enforced [of "demo_account 2 ''bob@example.com''"]
    by (auto split: if_splits)
qed

lemma authz_unique_schema:
  assumes "schema_table m cells (av_id v) (\<lambda>q r. av_clash v q r) (\<lambda>_. True)" and "\<And>q r. av_clash v q r = av_clash v r q"
  shows "authz_unique v row (Some (av_id v row)) s =
    (if accepts m (map cells (filter (\<lambda>q. av_id v q \<noteq> av_id v row) (av_rows v s))) (cells row) then (Inr (), s) else (Inl not_unique, s))"
  unfolding schema_table.accepts_saved [OF assms(1)] authz_unique_def by (auto simp: op_simps assms(2) [of row])

definition verdict :: "db \<Rightarrow> bool \<Rightarrow> (error + unit) \<times> db" where
  "verdict s ok = (if ok then (Inr (), s) else (Inl not_unique, s))"

lemmas view_sets = PermissionViewSet_def RoleViewSet_def RolePermissionViewSet_def UserRoleViewSet_def UserPermissionOverrideViewSet_def

text \<open>
  The validators of the authorization views are the unique constraints of the migrated tables. When a permission, a role, a
  link of a role, an assignment or an override is changed through the API, the change is refused as not unique exactly when the table
  would refuse the new row, so that no integrity error is left for the save.
\<close>

theorem validators_follow_schema:
  assumes "set ms = set all_migrations" and "in_order ms django_applied" and "fresh_database S" and "migrate ms django_applied S = Some T"
  shows "authz_unique PermissionViewSet p (Some (pm_id p)) s = verdict s (takes T (''authorization'', ''permission'')
       (map permission_cells (filter (\<lambda>q. pm_id q \<noteq> pm_id p) (permissions s))) (permission_cells p)) \<and>
     authz_unique RoleViewSet r (Some (ro_id r)) s = verdict s (takes T (''authorization'', ''role'')
       (map role_cells (filter (\<lambda>q. ro_id q \<noteq> ro_id r) (roles s))) (role_cells r)) \<and>
     authz_unique RolePermissionViewSet l (Some (rp_id l)) s = verdict s (takes T (''authorization'', ''rolepermission'')
       (map link_cells (filter (\<lambda>q. rp_id q \<noteq> rp_id l) (role_permissions s))) (link_cells l)) \<and>
     authz_unique UserRoleViewSet a (Some (ur_id a)) s = verdict s (takes T (''authorization'', ''userrole'')
       (map assignment_cells (filter (\<lambda>q. ur_id q \<noteq> ur_id a) (user_roles s))) (assignment_cells a)) \<and>
     authz_unique UserPermissionOverrideViewSet x (Some (po_id x)) s = verdict s (takes T (''authorization'', ''userpermissionoverride'')
       (map override_cells (filter (\<lambda>q. po_id q \<noteq> po_id x) (overrides s))) (override_cells x))"
proof -
  have "list_all (\<lambda>(app, models). same_models (T app) models) (declared inherited_columns)"
    using migrated_tables [OF assms(1-3)] assms(4) by auto
  note takes = takes_tables [OF this]
  have v: "av_id PermissionViewSet = pm_id" "av_id RoleViewSet = ro_id" "av_id RolePermissionViewSet = rp_id" "av_id UserRoleViewSet = ur_id"
    "av_id UserPermissionOverrideViewSet = po_id"
    "av_rows PermissionViewSet = permissions" "av_rows RoleViewSet = roles" "av_rows RolePermissionViewSet = role_permissions"
    "av_rows UserRoleViewSet = user_roles" "av_rows UserPermissionOverrideViewSet = overrides"
    "av_clash PermissionViewSet = (\<lambda>a b. pm_codename a = pm_codename b)" "av_clash RoleViewSet = (\<lambda>a b. ro_slug a = ro_slug b)"
    "av_clash RolePermissionViewSet = (\<lambda>a b. rp_role a = rp_role b \<and> rp_permission a = rp_permission b)"
    "av_clash UserRoleViewSet = (\<lambda>a b. ur_user a = ur_user b \<and> ur_role a = ur_role b)"
    "av_clash UserPermissionOverrideViewSet = (\<lambda>a b. po_user a = po_user b \<and> po_permission a = po_permission b)"
    by (simp_all add: view_sets)
  show ?thesis unfolding takes verdict_def
    using authz_unique_schema [of Permission_class permission_cells PermissionViewSet p s, unfolded v, OF permission_table.schema_table_axioms]
      authz_unique_schema [of Role_class role_cells RoleViewSet r s, unfolded v, OF role_table.schema_table_axioms]
      authz_unique_schema [of RolePermission_class link_cells RolePermissionViewSet l s, unfolded v, OF link_table.schema_table_axioms]
      authz_unique_schema [of UserRole_class assignment_cells UserRoleViewSet a s, unfolded v, OF assignment_table.schema_table_axioms]
      authz_unique_schema [of UserPermissionOverride_class override_cells UserPermissionOverrideViewSet x s, unfolded v, OF override_table.schema_table_axioms]
    by (auto simp: eq_commute)
qed

theorem validators_follow_schema_witness:
  "\<exists>T. migrate all_migrations django_applied demo_schema = Some T \<and>
     \<not> takes T (''authorization'', ''role'') [role_cells demo_role] (role_cells (demo_role\<lparr>ro_id := 99\<rparr>))"
proof -
  obtain T where T: "migrate all_migrations django_applied demo_schema = Some T"
    using migrated_tables [OF refl listed_order demo_schema_fresh] by blast
  let ?s = "demo_db\<lparr>roles := [demo_role]\<rparr>" and ?r = "demo_role\<lparr>ro_id := 99\<rparr>"
  have "fst (authz_unique RoleViewSet ?r (Some 99) ?s) = Inl not_unique" by code_simp
  moreover have "ro_id demo_role \<noteq> 99" by (simp add: demo_role_def)
  ultimately show ?thesis
    using T validators_follow_schema [OF refl listed_order demo_schema_fresh T, where s = ?s and r = ?r] by (auto simp: verdict_def split: if_splits)
qed

end
