(* ===== verification/ForeignKeys.thy ===== *)
theory ForeignKeys
  imports Migrations
begin

text \<open>
  What the deletion of a row takes with it, by the foreign keys that the model classes declare: rows that refer to it with
  \<^verbatim>\<open>CASCADE\<close> go too and so on, those with \<^verbatim>\<open>SET_NULL\<close> stay without the reference, and one with \<^verbatim>\<open>PROTECT\<close> refuses the deletion.
\<close>

section \<open>Foreign keys\<close>

record foreign_key =
  fk_from :: model_ref
  fk_column :: string
  fk_to :: model_ref
  fk_on_delete :: on_delete

fun deletion_rule :: "column_type \<Rightarrow> (model_ref \<times> on_delete) list" where
  "deletion_rule (ForeignKey r d _) = [(r, d)]"
| "deletion_rule (OneToOneField r d _) = [(r, d)]"
| "deletion_rule _ = []"

definition foreign_keys :: "(string \<times> model list) list \<Rightarrow> foreign_key list" where
  "foreign_keys apps = concat (map (\<lambda>(app, models). concat (map (\<lambda>m. concat (map (\<lambda>(name, c).
     map (\<lambda>(r, d). \<lparr>fk_from = (app, py_lower (md_name m)), fk_column = name, fk_to = r, fk_on_delete = d\<rparr>) (deletion_rule (c_type c)))
       (md_columns m))) models)) apps)"

inductive removed_with :: "foreign_key list \<Rightarrow> model_ref \<Rightarrow> model_ref \<Rightarrow> bool" for fks r where
  itself: "removed_with fks r r"
| cascade: "removed_with fks r (fk_to k) \<Longrightarrow> k \<in> set fks \<Longrightarrow> fk_on_delete k = CASCADE \<Longrightarrow> removed_with fks r (fk_from k)"

definition protecting :: "foreign_key list \<Rightarrow> model_ref \<Rightarrow> foreign_key list" where
  "protecting fks r = filter (\<lambda>k. fk_to k = r \<and> fk_on_delete k = PROTECT) fks"

definition cascading :: "foreign_key list \<Rightarrow> (model_ref \<times> model_ref) list" where
  \<comment> \<open>which table goes with which\<close>
  "cascading fks = map (\<lambda>k. (fk_from k, fk_to k)) (filter (\<lambda>k. fk_on_delete k = CASCADE) fks)"

definition detached :: "foreign_key list \<Rightarrow> model_ref \<Rightarrow> (model_ref \<times> string) list" where
  \<comment> \<open>the columns that lose their reference\<close>
  "detached fks r = map (\<lambda>k. (fk_from k, fk_column k)) (filter (\<lambda>k. fk_to k = r \<and> fk_on_delete k = SET_NULL) fks)"

definition own_foreign_keys :: "foreign_key list" where
  "own_foreign_keys = foreign_keys (declared inherited_columns)"

lemma cascading_own: "cascading own_foreign_keys =
   [((''accounts'', ''userprofile''), AUTH_USER_MODEL), ((''accounts'', ''userpreferences''), AUTH_USER_MODEL),
    ((''accounts'', ''usersecuritysettings''), AUTH_USER_MODEL), ((''accounts'', ''userban''), AUTH_USER_MODEL),
    ((''authentication'', ''onetimetoken''), AUTH_USER_MODEL), ((''authentication'', ''usersession''), AUTH_USER_MODEL),
    ((''authentication'', ''twofactorcredential''), AUTH_USER_MODEL),
    ((''authentication'', ''recoverycode''), (''authentication'', ''twofactorcredential'')),
    ((''authorization'', ''rolepermission''), (''authorization'', ''role'')),
    ((''authorization'', ''rolepermission''), (''authorization'', ''permission'')),
    ((''authorization'', ''userrole''), AUTH_USER_MODEL), ((''authorization'', ''userpermissionoverride''), AUTH_USER_MODEL),
    ((''authorization'', ''userpermissionoverride''), (''authorization'', ''permission'')),
    ((''notifications'', ''notification''), AUTH_USER_MODEL), ((''api_keys'', ''apikey''), AUTH_USER_MODEL),
    ((''webhooks'', ''webhookendpoint''), AUTH_USER_MODEL),
    ((''webhooks'', ''webhookdelivery''), (''webhooks'', ''webhookendpoint'')),
    ((''webhooks'', ''webhookdelivery''), (''webhooks'', ''webhookevent'')), ((''core'', ''idempotencyrecord''), AUTH_USER_MODEL)]"
  by code_simp

lemma protecting_own: "map (\<lambda>k. (fk_from k, fk_to k)) (filter (\<lambda>k. fk_on_delete k = PROTECT) own_foreign_keys) =
   [((''authorization'', ''userrole''), (''authorization'', ''role''))]"
  by code_simp

lemma detached_own: "detached own_foreign_keys AUTH_USER_MODEL =
   [((''accounts'', ''userban''), ''banned_by''), ((''authorization'', ''userrole''), ''granted_by''),
    ((''authorization'', ''userpermissionoverride''), ''granted_by''), ((''security'', ''securityevent''), ''user''),
    ((''audit'', ''auditlog''), ''actor''), ((''files'', ''storedfile''), ''owner'')]"
  by code_simp

lemma cascadingI: "k \<in> set fks \<Longrightarrow> fk_on_delete k = CASCADE \<Longrightarrow> (fk_from k, fk_to k) \<in> set (cascading fks)"
  by (auto simp: cascading_def)

lemma protecting_none:
  assumes "r \<noteq> (''authorization'', ''role'')"
  shows "protecting own_foreign_keys r = []"
proof -
  have "fk_to k = (''authorization'', ''role'')" if "k \<in> set own_foreign_keys" "fk_on_delete k = PROTECT" for k
  proof -
    have "(fk_from k, fk_to k) \<in> set (map (\<lambda>k. (fk_from k, fk_to k)) (filter (\<lambda>k. fk_on_delete k = PROTECT) own_foreign_keys))"
      using that by (auto intro!: image_eqI [where x = k])
    then show ?thesis unfolding protecting_own by simp
  qed
  then show ?thesis using assms by (auto simp: protecting_def filter_empty_conv)
qed

lemma removed_with_edge: "removed_with fks r t \<Longrightarrow> (s, t) \<in> set (cascading fks) \<Longrightarrow> removed_with fks r s"
  by (auto simp: cascading_def intro: removed_with.cascade)

text \<open>
  Property C29: deleting rows never deletes a history. Whatever row is deleted, no audit row, security event or stored file of another
  goes with it: for a deleted account these only lose the reference to it. An account can always be deleted, since nothing that is
  deleted with it is protected; only a role that is assigned refuses.
\<close>

theorem deletion_spares_history:
  assumes "removed_with own_foreign_keys r x"
  shows "(x \<in> {(''audit'', ''auditlog''), (''security'', ''securityevent''), (''files'', ''storedfile'')} \<longrightarrow> x = r) \<and>
     (r = AUTH_USER_MODEL \<longrightarrow> protecting own_foreign_keys x = []) \<and>
     (protecting own_foreign_keys x \<noteq> [] \<longrightarrow> x = (''authorization'', ''role'') \<and> x = r) \<and>
     {(''audit'', ''auditlog''), (''security'', ''securityevent''), (''files'', ''storedfile'')} \<subseteq> fst ` set (detached own_foreign_keys AUTH_USER_MODEL)"
proof -
  have "x = r \<or> x \<noteq> (''authorization'', ''role'') \<and>
      x \<notin> {(''audit'', ''auditlog''), (''security'', ''securityevent''), (''files'', ''storedfile'')}"
    using assms
  proof cases
    case (cascade k)
    have "list_all (\<lambda>y. y \<noteq> (''authorization'', ''role'') \<and>
        y \<notin> {(''audit'', ''auditlog''), (''security'', ''securityevent''), (''files'', ''storedfile'')}) (map fst (cascading own_foreign_keys))"
      by (simp add: cascading_own)
    moreover have "fk_from k \<in> set (map fst (cascading own_foreign_keys))" using cascadingI [OF cascade(3,4)] by force
    ultimately show ?thesis unfolding cascade(1) list_all_iff by blast
  qed simp
  moreover have "x = (''authorization'', ''role'') \<or> protecting own_foreign_keys x = []" using protecting_none by blast
  moreover have "AUTH_USER_MODEL \<noteq> (''authorization'', ''role'')" by (simp add: AUTH_USER_MODEL_def)
  ultimately show ?thesis by (auto simp: detached_own)
qed

theorem deletion_spares_history_witness:
  "removed_with own_foreign_keys AUTH_USER_MODEL (''authentication'', ''recoverycode'') \<and>
   protecting own_foreign_keys (''authentication'', ''recoverycode'') = []"
proof -
  have "removed_with own_foreign_keys AUTH_USER_MODEL (''authentication'', ''twofactorcredential'')"
    by (rule removed_with_edge [OF removed_with.itself]) (simp add: cascading_own)
  then have r: "removed_with own_foreign_keys AUTH_USER_MODEL (''authentication'', ''recoverycode'')"
    by (rule removed_with_edge) (simp add: cascading_own)
  show ?thesis using deletion_spares_history [OF r] r by simp
qed

end
