(* ===== verification/Maintenance.thy ===== *)
theory Maintenance
  imports Bans Accounts Notifications Files Webhooks Configuration
begin

text \<open>
  The tasks that run by themselves: the beat schedule of \<^verbatim>\<open>config/settings/base.py\<close> names them, the commands of
  \<^verbatim>\<open>apps/core/management/commands\<close> run the clean-up tasks by hand and print what was deleted, and \<^verbatim>\<open>healthcheck\<close> probes the database
  and the cache. A task is known by the name it is registered under.
\<close>

section \<open>Commands\<close>

fun decimal :: "nat \<Rightarrow> string" where
  \<comment> \<open>\<^verbatim>\<open>str(n)\<close>\<close>
  "decimal n = (if n < 10 then [''0123456789'' ! n] else decimal (n div 10) @ [''0123456789'' ! (n mod 10)])"

declare decimal.simps [simp del]

definition prints :: "string \<Rightarrow> nat action \<Rightarrow> string action" where
  \<comment> \<open>\<^verbatim>\<open>self.stdout.write(f"Deleted {task()} ...")\<close>; the operation's value is what is written\<close>
  "prints what task = bind_op task (\<lambda>n. ret (''Deleted '' @ decimal n @ '' '' @ what))"

definition cleanup_audit_command :: "env \<Rightarrow> string action" where
  "cleanup_audit_command e = prints ''audit records.'' (cleanup_audit_logs e)"

definition cleanup_login_attempts_command :: "string action" where
  "cleanup_login_attempts_command = prints ''login throttle records'' cleanup_login_attempts"

definition cleanup_notifications_command :: "env \<Rightarrow> string action" where
  "cleanup_notifications_command e = prints ''notification records.'' (cleanup_notifications e)"

definition cleanup_sessions_command :: "env \<Rightarrow> string action" where
  "cleanup_sessions_command e = prints ''session records.'' (cleanup_sessions e)"

definition cleanup_tokens_command :: "env \<Rightarrow> string action" where
  "cleanup_tokens_command e = prints ''token records.'' (cleanup_tokens e)"

definition healthcheck :: "string option \<Rightarrow> string option \<Rightarrow> string action" where
  \<comment> \<open>the arguments are the errors of the query and of the cache connection, if they fail\<close>
  "healthcheck database_error cache_error =
     (case database_error of Some t \<Rightarrow> throw (CommandError t) | None \<Rightarrow>
     (case cache_error of Some t \<Rightarrow> throw (CommandError t) | None \<Rightarrow>
      bind_op now_op (\<lambda>now.
      then_op (modify (\<lambda>s. s\<lparr>cache := cache_set now ''management-healthcheck'' (PStr ''ok'') 5 (cache s)\<rparr>))
      (bind_op (reads (\<lambda>s. cache_get now ''management-healthcheck'' (cache s))) (\<lambda>v.
       if v \<noteq> Some (PStr ''ok'') then throw (CommandError ''Cache round trip failed'')
       else ret ''Database and cache are ready.'')))))"

section \<open>Registered tasks\<close>

definition registered_tasks :: "env \<Rightarrow> (string \<times> nat action) list" where
  \<comment> \<open>the names given to \<^verbatim>\<open>shared_task\<close>\<close>
  "registered_tasks e =
     [(''apps.authentication.tasks.cleanup_sessions'', cleanup_sessions e), (''apps.authentication.tasks.cleanup_tokens'', cleanup_tokens e),
      (''apps.notifications.tasks.cleanup_notifications'', cleanup_notifications e),
      (''apps.accounts.tasks.expire_temporary_bans'', expire_temporary_bans e), (''apps.files.tasks.cleanup_unused_files'', cleanup_unused_files e),
      (''apps.audit.tasks.cleanup_audit_logs'', cleanup_audit_logs e), (''apps.security.tasks.cleanup_login_attempts'', cleanup_login_attempts),
      (''apps.webhooks.tasks.dispatch_pending_webhooks'', dispatch_pending_webhooks e)]"

inductive scheduled :: "env \<Rightarrow> db \<Rightarrow> db \<Rightarrow> bool" for e where
  run: "(name, period) \<in> set beat_schedule \<Longrightarrow> map_of (registered_tasks e) name = Some task \<Longrightarrow> task s = (r, t) \<Longrightarrow> scheduled e s t"
| wait: "clock s \<le> now \<Longrightarrow> scheduled e s (s\<lparr>clock := now\<rparr>)"

section \<open>What the tasks leave\<close>

definition revives_nothing :: "db \<Rightarrow> db \<Rightarrow> bool" where
  \<comment> \<open>no credential is good in the second state that was not in the first\<close>
  "revives_nothing s0 s \<longleftrightarrow>
     (\<forall>r\<in>set (user_sessions s). us_revoked_at r = None \<longrightarrow> (\<exists>q\<in>set (user_sessions s0). us_id q = us_id r \<and> us_revoked_at q = None)) \<and>
     (\<forall>t\<in>set (one_time_tokens s). ot_used_at t = None \<longrightarrow> t \<in> set (one_time_tokens s0)) \<and>
     set (outstanding s) \<subseteq> set (outstanding s0) \<and>
     (\<forall>t\<in>set (outstanding s). jt_id t \<in> set (blacklisted s0) \<longrightarrow> jt_id t \<in> set (blacklisted s)) \<and>
     api_keys s = api_keys s0 \<and> credentials s = credentials s0 \<and> recovery_codes s = recovery_codes s0 \<and>
     user_roles s = user_roles s0 \<and> overrides s = overrides s0 \<and> role_permissions s = role_permissions s0"

definition not_past :: "datetime \<Rightarrow> datetime option \<Rightarrow> bool" where
  "not_past now t = (case t of None \<Rightarrow> True | Some i \<Rightarrow> now \<le> i)"

definition loses_nothing_due :: "env \<Rightarrow> db \<Rightarrow> db \<Rightarrow> bool" where
  \<comment> \<open>what has not expired by now is still there\<close>
  "loses_nothing_due e s0 s \<longleftrightarrow>
     (\<forall>t\<in>set (one_time_tokens s0). clock s \<le> ot_expires_at t \<longrightarrow> t \<in> set (one_time_tokens s)) \<and>
     (\<forall>t\<in>set (outstanding s0). clock s \<le> jt_expires_at t \<longrightarrow> t \<in> set (outstanding s)) \<and>
     (\<forall>n\<in>set (notifications s0). nt_read_at n = None \<and> not_past (clock s) (nt_expires_at n) \<longrightarrow> n \<in> set (notifications s)) \<and>
     (\<forall>l\<in>set (throttle_states s0). clock s \<le> lt_expires_at l \<longrightarrow> l \<in> set (throttle_states s)) \<and>
     (AUDIT_RETENTION_DAYS (cfg e) \<le> 0 \<longrightarrow> set (audit_logs s0) \<subseteq> set (audit_logs s)) \<and>
     set (security_events s0) \<subseteq> set (security_events s)"

definition maintained :: "env \<Rightarrow> db \<Rightarrow> db \<Rightarrow> bool" where
  "maintained e s0 s \<longleftrightarrow> revives_nothing s0 s \<and> loses_nothing_due e s0 s \<and> inj_on jt_id (set (outstanding s))"

lemmas maintained_defs = maintained_def revives_nothing_def loses_nothing_due_def

lemma maintained_refl: "inj_on jt_id (set (outstanding s)) \<Longrightarrow> maintained e s s"
  by (auto simp: maintained_defs)

lemma maintained_frame:
  "maintained e s0 s \<Longrightarrow> maintained e s0 (s\<lparr>users := us\<rparr>)"
  "maintained e s0 s \<Longrightarrow> maintained e s0 (s\<lparr>django_sessions := ds\<rparr>)"
  "maintained e s0 s \<Longrightarrow> maintained e s0 (s\<lparr>security_events := v # security_events s\<rparr>)"
  "maintained e s0 s \<Longrightarrow> maintained e s0 (s\<lparr>audit_logs := a # audit_logs s\<rparr>)"
  "maintained e s0 s \<Longrightarrow> maintained e s0 (s\<lparr>blacklisted := b # blacklisted s\<rparr>)"
  "maintained e s0 s \<Longrightarrow> maintained e s0 (s\<lparr>queued := qs\<rparr>)"
  "maintained e s0 s \<Longrightarrow> maintained e s0 (s\<lparr>stored_files := fs\<rparr>)"
  "maintained e s0 s \<Longrightarrow> maintained e s0 (s\<lparr>deleted_files := xs\<rparr>)"
  by (auto simp: maintained_defs)

lemma maintained_sessions:
  assumes "maintained e s0 s" and "\<And>r. r \<in> set us \<Longrightarrow> us_revoked_at r = None \<Longrightarrow> r \<in> set (user_sessions s)"
  shows "maintained e s0 (s\<lparr>user_sessions := us\<rparr>)"
  using assms by (auto simp: maintained_defs)

lemma maintained_wait: "maintained e s0 s \<Longrightarrow> clock s \<le> now \<Longrightarrow> maintained e s0 (s\<lparr>clock := now\<rparr>)"
  unfolding maintained_defs not_past_def by (auto split: option.splits)

lemma days_nonneg: "0 \<le> n \<Longrightarrow> 0 \<le> days n"
  by (simp add: time_defs)

lemma sessions_task: "preserves (maintained e s0) (cleanup_sessions e)"
  by (rule preservesI) (auto simp: cleanup_sessions_def op_simps Let_def delete_where_def intro: maintained_sessions)

lemma audit_task: "preserves (maintained e s0) (cleanup_audit_logs e)"
  by (rule preservesI)
    (auto simp: cleanup_audit_logs_def hard_delete_for_retention_def op_simps Let_def maintained_defs)

lemma notifications_task: "preserves (maintained e s0) (cleanup_notifications e)"
  by (rule preservesI)
    (auto simp: cleanup_notifications_def notification_outdated_def op_simps Let_def delete_where_def maintained_defs not_past_def split: option.splits)

lemma attempts_task: "preserves (maintained e s0) cleanup_login_attempts"
  by (rule preservesI) (auto simp: cleanup_login_attempts_def op_simps Let_def delete_where_def maintained_defs)

lemma maintained_tokens:
  assumes "maintained e s0 s" and "\<And>x. clock s \<le> ot_expires_at x \<Longrightarrow> P x"
  shows "maintained e s0 (s\<lparr>one_time_tokens := filter P (one_time_tokens s)\<rparr>)"
  using assms by (auto simp: maintained_defs)

lemma maintained_refresh:
  assumes m: "maintained e s0 s" and "\<And>x. x \<in> set (outstanding s) \<Longrightarrow> Q x \<Longrightarrow> jt_id x \<notin> G" and "\<And>x. clock s \<le> jt_expires_at x \<Longrightarrow> Q x"
  shows "maintained e s0 (s\<lparr>blacklisted := filter (\<lambda>b. b \<notin> G) (blacklisted s), outstanding := filter Q (outstanding s)\<rparr>)"
proof -
  have "inj_on jt_id (set (filter Q (outstanding s)))"
    using m by (auto simp: maintained_def intro: inj_on_subset)
  then show ?thesis using m assms(2,3) unfolding maintained_defs by auto
qed

lemma tokens_task:
  assumes "0 \<le> TOKEN_RETENTION_DAYS (cfg e)"
  shows "preserves (maintained e s0) (cleanup_tokens e)"
proof (rule preservesI)
  fix s assume m: "maintained e s0 s"
  let ?gone = "jt_id ` {t \<in> set (outstanding s). jt_expires_at t < clock s}"
  let ?t = "s\<lparr>one_time_tokens := filter (\<lambda>x. \<not> ot_expires_at x < clock s - days (TOKEN_RETENTION_DAYS (cfg e))) (one_time_tokens s),
      blacklisted := filter (\<lambda>b. b \<notin> ?gone) (blacklisted s), outstanding := filter (\<lambda>x. \<not> jt_expires_at x < clock s) (outstanding s)\<rparr>"
  have t: "snd (cleanup_tokens e s) = ?t"
    by (simp add: cleanup_tokens_def op_simps Let_def delete_where_def)
  have kept: "jt_id x \<notin> ?gone" if "x \<in> set (outstanding s)" "\<not> jt_expires_at x < clock s" for x
    using that m by (auto simp: maintained_def dest: inj_onD)
  let ?u = "s\<lparr>one_time_tokens := filter (\<lambda>x. \<not> ot_expires_at x < clock s - days (TOKEN_RETENTION_DAYS (cfg e))) (one_time_tokens s)\<rparr>"
  have "maintained e s0 ?u" using m days_nonneg [OF assms] by (intro maintained_tokens) auto
  from maintained_refresh [OF this, of "\<lambda>x. \<not> jt_expires_at x < clock s" ?gone] kept have "maintained e s0 ?t" by simp
  then show "maintained e s0 (snd (cleanup_tokens e s))" by (simp only: t)
qed

lemma dispatch_task: "preserves (maintained e s0) (dispatch_pending_webhooks e)"
  unfolding dispatch_pending_webhooks_def by (intro preserves_intros maintained_frame)

lemma files_task: "preserves (maintained e s0) (cleanup_unused_files e)"
  unfolding cleanup_unused_files_def remove_file_def by (intro preserves_intros maintained_frame)

lemma revoke_maintained: "preserves (maintained e' s0) (revoke e r actor rq)"
proof -
  have django: "preserves (maintained e' s0) (delete_django_session e q)" for q
    unfolding delete_django_session_def by (intro preserves_intros maintained_frame) (auto split: error.splits intro: preserves_intros)
  have marked: "maintained e' s0 (s\<lparr>user_sessions := update_where P (session_mark_revoked now) (user_sessions s)\<rparr>)"
    if "maintained e' s0 s" for s P now
    using that by (rule maintained_sessions) (auto simp: update_where_def session_mark_revoked_def split: if_splits)
  show ?thesis unfolding revoke_def by (intro preserves_intros django maintained_frame marked)
qed

lemma blacklist_maintained: "preserves (maintained e s0) (blacklist_each ts n)"
  by (induction ts arbitrary: n) (auto intro!: preserves_intros maintained_frame)

lemma activate_maintained: "preserves (maintained e' s0) (activate_ban e u)"
  unfolding activate_ban_def revoke_all_def revoke_all_jwt_def current_def
  by (intro preserves_intros revoke_maintained blacklist_maintained maintained_frame)

lemma expire_each_maintained: "preserves (maintained e s0) (expire_each us n)"
  by (induction us arbitrary: n) (auto intro!: preserves_intros maintained_frame)

lemma bans_task: "preserves (maintained e' s0) (expire_temporary_bans e)"
  unfolding expire_temporary_bans_def by (intro preserves_intros activate_maintained expire_each_maintained)

lemma tasks_maintained:
  "0 \<le> TOKEN_RETENTION_DAYS (cfg e) \<Longrightarrow> list_all (preserves (maintained e s)) (map snd (registered_tasks e))"
  by (simp add: registered_tasks_def sessions_task tokens_task notifications_task bans_task files_task audit_task attempts_task dispatch_task)

text \<open>Every task of the schedule is registered under its name.\<close>

lemma schedule_registered: "list_all (\<lambda>(name, _). name \<in> set (map fst (registered_tasks e))) beat_schedule"
  by (simp add: registered_tasks_def beat_schedule_def)

text \<open>The health check passes exactly when the database and the cache answer.\<close>

lemma healthcheck_passes: "fst (healthcheck database_error cache_error s) = Inr ''Database and cache are ready.'' \<longleftrightarrow>
   database_error = None \<and> cache_error = None"
  by (auto simp: healthcheck_def op_simps cached.lookup_store split: option.splits)


definition demo_revoked :: db where
  \<comment> \<open>a blacklisted refresh token that has not expired\<close>
  "demo_revoked = demo_db\<lparr>outstanding := [\<lparr>jt_id = 5, jt_user = 7, jt_expires_at = days 100\<rparr>], blacklisted := [5], clock := 0\<rparr>"


end
