(* ===== verification/AdminSite.thy ===== *)
theory AdminSite
  imports Administration Migrations
begin

text \<open>
  The administration site as its classes declare it: the \<^verbatim>\<open>ModelAdmin\<close> classes and inlines of all \<^verbatim>\<open>admin.py\<close> files with their
  attributes, over the model classes of the theory \<^verbatim>\<open>Declarations\<close>. Django turns the attributes into pages; what its documentation says of that is
  written out as functions: which fields a page shows, which of them its form writes, and what the system checks demand. The methods that the classes
  override are in the theory \<^verbatim>\<open>Administration\<close>.
\<close>

section \<open>The attributes\<close>

record inline_class =
  in_model :: model_ref
  in_extra :: nat
  in_max_num :: "nat option"
  in_readonly_fields :: "string list"
  in_autocomplete_fields :: "string list"

record user_form =
  uf_fields :: "string list option"  \<comment> \<open>\<open>None\<close> for \<^verbatim>\<open>__all__\<close>\<close>
  uf_clean_status :: "account_status \<Rightarrow> error + account_status"

record admin_class =
  ac_model :: model_ref
  ac_audited :: bool
  ac_ordering :: "string list"
  ac_list_display :: "string list"
  ac_list_filter :: "string list"
  ac_search_fields :: "string list"
  ac_readonly_fields :: "string list"
  ac_exclude :: "string list"
  ac_autocomplete_fields :: "string list"
  ac_filter_horizontal :: "string list"
  ac_prepopulated_fields :: "(string \<times> string list) list"
  ac_date_hierarchy :: "string option"
  ac_fieldsets :: "(string option \<times> string list) list"
  ac_add_fieldsets :: "(string option \<times> string list) list"
  ac_form :: "user_form option"
  ac_add_form :: "user_form option"
  ac_inlines :: "inline_class list"
  ac_actions :: "string list"
  ac_refuses :: "admin_operation \<Rightarrow> bool"

text \<open>
  \<open>ac_audited\<close> says that the class inherits \<^verbatim>\<open>AuditAdminMixin\<close>; \<open>ac_refuses\<close> are the operations that it refuses to everybody. A class
  that declares no attribute has the library's empty values. What only shapes a page (its titles apart) is left out.
\<close>

definition InlineModelAdmin :: "model_ref \<Rightarrow> inline_class" where
  "InlineModelAdmin r = \<lparr>in_model = r, in_extra = 3, in_max_num = None, in_readonly_fields = [], in_autocomplete_fields = []\<rparr>"

definition ModelAdmin :: "model_ref \<Rightarrow> admin_class" where
  "ModelAdmin r = \<lparr>ac_model = r, ac_audited = False, ac_ordering = [], ac_list_display = [], ac_list_filter = [], ac_search_fields = [],
     ac_readonly_fields = [], ac_exclude = [], ac_autocomplete_fields = [], ac_filter_horizontal = [], ac_prepopulated_fields = [],
     ac_date_hierarchy = None, ac_fieldsets = [], ac_add_fieldsets = [], ac_form = None, ac_add_form = None, ac_inlines = [], ac_actions = [], ac_refuses = (\<lambda>_. False)\<rparr>"

definition AuditedAdmin :: "model_ref \<Rightarrow> admin_class" where
  \<comment> \<open>\<^verbatim>\<open>(AuditAdminMixin, admin.ModelAdmin)\<close>\<close>
  "AuditedAdmin r = ModelAdmin r\<lparr>ac_audited := True\<rparr>"

fun is_many_to_many :: "column_type \<Rightarrow> bool" where
  "is_many_to_many (ManyToManyField _ _ _) = True"
| "is_many_to_many _ = False"

definition field_names :: "model \<Rightarrow> string list" where
  \<comment> \<open>\<^verbatim>\<open>[field.name for field in Model._meta.fields]\<close>, which leaves many-to-many fields out\<close>
  "field_names m = map fst (filter (\<lambda>(_, c). \<not> is_many_to_many (c_type c)) (md_columns m))"

section \<open>accounts\<close>

definition SafeUserChangeForm :: user_form where
  "SafeUserChangeForm = \<lparr>uf_fields = None, uf_clean_status = clean_status\<rparr>"

definition SafeUserCreationForm :: user_form where
  \<comment> \<open>this form has no method for the status\<close>
  "SafeUserCreationForm = \<lparr>uf_fields = Some [''email'', ''username'', ''status'', ''is_staff''], uf_clean_status = Inr\<rparr>"

definition UserProfileInline :: inline_class where
  "UserProfileInline = InlineModelAdmin (''accounts'', ''userprofile'')\<lparr>in_extra := 1, in_max_num := Some 1\<rparr>"

definition UserPreferencesInline :: inline_class where
  "UserPreferencesInline = InlineModelAdmin (''accounts'', ''userpreferences'')\<lparr>in_extra := 1, in_max_num := Some 1\<rparr>"

definition UserSecuritySettingsInline :: inline_class where
  "UserSecuritySettingsInline = InlineModelAdmin (''accounts'', ''usersecuritysettings'')
     \<lparr>in_extra := 1, in_max_num := Some 1, in_readonly_fields := [''password_changed_at'', ''locked_until'', ''created_at'', ''updated_at'']\<rparr>"

definition UserAdmin :: admin_class where
  "UserAdmin = AuditedAdmin (''accounts'', ''user'')
     \<lparr>ac_form := Some SafeUserChangeForm, ac_add_form := Some SafeUserCreationForm, ac_ordering := [''-created_at''],
      ac_list_display := [''email'', ''username'', ''status'', ''is_active'', ''is_staff'', ''email_verified_at'', ''created_at''],
      ac_list_filter := [''status'', ''is_active'', ''is_staff'', ''is_superuser'', ''email_verified_at'', ''created_at''],
      ac_search_fields := [''email'', ''username'', ''first_name'', ''last_name''],
      ac_readonly_fields := [''id'', ''last_login'', ''last_login_ip'', ''date_joined'', ''created_at'', ''updated_at''],
      ac_fieldsets :=
       [(None, [''id'', ''email'', ''username'', ''password'']),
        (Some ''Personal info'', [''first_name'', ''last_name'', ''avatar'', ''phone'']),
        (Some ''Verification'', [''email_verified_at'', ''phone_verified_at'']),
        (Some ''Account state'', [''status'', ''is_active'', ''is_staff'', ''is_superuser'']),
        (Some ''Django permissions'', [''groups'', ''user_permissions'']),
        (Some ''Important dates'', [''last_login'', ''last_login_ip'', ''date_joined'', ''created_at'', ''updated_at''])],
      ac_add_fieldsets := [(None, [''email'', ''username'', ''password1'', ''password2'', ''status'', ''is_staff''])],
      ac_filter_horizontal := [''groups'', ''user_permissions''],
      ac_inlines := [UserProfileInline, UserPreferencesInline, UserSecuritySettingsInline]\<rparr>"

definition UserBanAdmin :: admin_class where
  "UserBanAdmin = AuditedAdmin (''accounts'', ''userban'')
     \<lparr>ac_list_display := [''user'', ''banned_by'', ''starts_at'', ''expires_at'', ''revoked_at'', ''created_at''],
      ac_list_filter := [''starts_at'', ''expires_at'', ''revoked_at''],
      ac_search_fields := [''user__email'', ''user__username'', ''reason''],
      ac_autocomplete_fields := [''user'', ''banned_by''],
      ac_readonly_fields := [''id'', ''created_at'', ''revoked_at''],
      ac_actions := [''revoke_selected'']\<rparr>"

section \<open>authentication\<close>

definition UserSessionAdmin :: admin_class where
  "UserSessionAdmin = ModelAdmin (''authentication'', ''usersession'')
     \<lparr>ac_list_display := [''identifier'', ''user'', ''ip_address'', ''browser'', ''operating_system'', ''device'', ''last_activity_at'', ''revoked_at''],
      ac_list_filter := [''device'', ''revoked_at'', ''created_at'', ''last_activity_at''],
      ac_search_fields := [''identifier'', ''user__email'', ''ip_address'', ''browser'', ''operating_system''],
      ac_autocomplete_fields := [''user''],
      ac_readonly_fields := [''id'', ''identifier'', ''user'', ''ip_address'', ''user_agent'', ''browser'', ''operating_system'', ''device'',
        ''location'', ''created_at'', ''last_activity_at'', ''revoked_at''],
      ac_exclude := [''session_key_hash'', ''encrypted_session_key''],
      ac_refuses := UserSessionAdmin_refuses\<rparr>"

definition OneTimeTokenAdmin :: admin_class where
  "OneTimeTokenAdmin = ModelAdmin (''authentication'', ''onetimetoken'')
     \<lparr>ac_list_display := [''user'', ''purpose'', ''created_at'', ''expires_at'', ''used_at''],
      ac_list_filter := [''purpose'', ''created_at'', ''expires_at'', ''used_at''],
      ac_search_fields := [''user__email''],
      ac_readonly_fields := [''id'', ''user'', ''purpose'', ''metadata'', ''created_at'', ''expires_at'', ''used_at''],
      ac_exclude := [''token_hash''],
      ac_refuses := OneTimeTokenAdmin_refuses\<rparr>"

definition TwoFactorCredentialAdmin :: admin_class where
  "TwoFactorCredentialAdmin = ModelAdmin (''authentication'', ''twofactorcredential'')
     \<lparr>ac_list_display := [''user'', ''created_at'', ''confirmed_at'', ''disabled_at''],
      ac_list_filter := [''confirmed_at'', ''disabled_at''],
      ac_search_fields := [''user__email''],
      ac_readonly_fields := [''id'', ''user'', ''created_at'', ''confirmed_at'', ''disabled_at''],
      ac_exclude := [''encrypted_secret''],
      ac_refuses := TwoFactorCredentialAdmin_refuses\<rparr>"

definition RecoveryCodeAdmin :: admin_class where
  "RecoveryCodeAdmin = ModelAdmin (''authentication'', ''recoverycode'')
     \<lparr>ac_list_display := [''credential'', ''created_at'', ''used_at''],
      ac_list_filter := [''created_at'', ''used_at''],
      ac_readonly_fields := [''id'', ''credential'', ''created_at'', ''used_at''],
      ac_exclude := [''code_hash''],
      ac_refuses := RecoveryCodeAdmin_refuses\<rparr>"

section \<open>authorization\<close>

definition RolePermissionInline :: inline_class where
  "RolePermissionInline = InlineModelAdmin (''authorization'', ''rolepermission'')\<lparr>in_extra := 0, in_autocomplete_fields := [''permission'']\<rparr>"

definition RoleAdmin :: admin_class where
  \<comment> \<open>the method that refuses to delete a system role is \<open>role_has_delete_permission\<close>\<close>
  "RoleAdmin = AuditedAdmin (''authorization'', ''role'')
     \<lparr>ac_list_display := [''name'', ''slug'', ''priority'', ''is_system'', ''created_at''],
      ac_list_filter := [''is_system'', ''priority''],
      ac_search_fields := [''name'', ''slug'', ''description''],
      ac_readonly_fields := [''id'', ''created_at'', ''updated_at''],
      ac_prepopulated_fields := [(''slug'', [''name''])],
      ac_inlines := [RolePermissionInline]\<rparr>"

definition PermissionAdmin :: admin_class where
  "PermissionAdmin = AuditedAdmin (''authorization'', ''permission'')
     \<lparr>ac_list_display := [''codename'', ''description'', ''is_system'', ''created_at''],
      ac_list_filter := [''is_system''],
      ac_search_fields := [''codename'', ''description''],
      ac_readonly_fields := [''id'', ''created_at'', ''updated_at'']\<rparr>"

definition UserRoleAdmin :: admin_class where
  "UserRoleAdmin = AuditedAdmin (''authorization'', ''userrole'')
     \<lparr>ac_list_display := [''user'', ''role'', ''valid_from'', ''valid_until'', ''granted_by''],
      ac_list_filter := [''role'', ''valid_from'', ''valid_until''],
      ac_search_fields := [''user__email'', ''user__username'', ''role__name''],
      ac_autocomplete_fields := [''user'', ''role'', ''granted_by''],
      ac_readonly_fields := [''id'', ''created_at'']\<rparr>"

definition UserPermissionOverrideAdmin :: admin_class where
  "UserPermissionOverrideAdmin = AuditedAdmin (''authorization'', ''userpermissionoverride'')
     \<lparr>ac_list_display := [''user'', ''permission'', ''effect'', ''granted_by'', ''updated_at''],
      ac_list_filter := [''effect'', ''permission''],
      ac_search_fields := [''user__email'', ''permission__codename'', ''reason''],
      ac_autocomplete_fields := [''user'', ''permission'', ''granted_by''],
      ac_readonly_fields := [''id'', ''created_at'', ''updated_at'']\<rparr>"

section \<open>security, audit and notifications\<close>

definition SecurityEventAdmin :: admin_class where
  "SecurityEventAdmin = ModelAdmin (''security'', ''securityevent'')
     \<lparr>ac_list_display := [''event_type'', ''user'', ''ip_address'', ''request_id'', ''created_at''],
      ac_list_filter := [''event_type'', ''created_at''],
      ac_search_fields := [''user__email'', ''request_id'', ''ip_address''],
      ac_readonly_fields := field_names SecurityEvent_class,
      ac_refuses := SecurityEventAdmin_refuses\<rparr>"

definition LoginThrottleStateAdmin :: admin_class where
  "LoginThrottleStateAdmin = ModelAdmin (''security'', ''loginthrottlestate'')
     \<lparr>ac_list_display := [''attempt_count'', ''locked_until'', ''expires_at'', ''updated_at''],
      ac_list_filter := [''locked_until'', ''expires_at''],
      ac_readonly_fields := field_names LoginThrottleState_class,
      ac_refuses := LoginThrottleStateAdmin_refuses\<rparr>"

definition AuditLogAdmin :: admin_class where
  "AuditLogAdmin = ModelAdmin (''audit'', ''auditlog'')
     \<lparr>ac_list_display := [''action'', ''actor'', ''target_type'', ''target_repr'', ''request_id'', ''created_at''],
      ac_list_filter := [''action'', ''target_type'', ''created_at''],
      ac_search_fields := [''action'', ''target_id'', ''target_repr'', ''request_id'', ''actor__email''],
      ac_readonly_fields := field_names AuditLog_class,
      ac_date_hierarchy := Some ''created_at'',
      ac_refuses := AuditLogAdmin_refuses\<rparr>"

definition NotificationAdmin :: admin_class where
  "NotificationAdmin = AuditedAdmin (''notifications'', ''notification'')
     \<lparr>ac_list_display := [''title'', ''user'', ''type'', ''read_at'', ''expires_at'', ''created_at''],
      ac_list_filter := [''type'', ''read_at'', ''expires_at'', ''created_at''],
      ac_search_fields := [''title'', ''message'', ''user__email''],
      ac_autocomplete_fields := [''user''],
      ac_readonly_fields := [''id'', ''created_at'']\<rparr>"

section \<open>files, API keys, webhooks and core\<close>

definition StoredFileAdmin :: admin_class where
  "StoredFileAdmin = AuditedAdmin (''files'', ''storedfile'')
     \<lparr>ac_list_display := [''original_name'', ''owner'', ''content_type'', ''size'', ''status'', ''created_at'', ''deleted_at''],
      ac_list_filter := [''status'', ''content_type'', ''created_at'', ''deleted_at''],
      ac_search_fields := [''original_name'', ''owner__email'', ''checksum_sha256''],
      ac_autocomplete_fields := [''owner''],
      ac_readonly_fields := [''id'', ''checksum_sha256'', ''size'', ''content_type'', ''created_at'', ''last_accessed_at'', ''deleted_at'']\<rparr>"

definition APIKeyAdmin :: admin_class where
  "APIKeyAdmin = AuditedAdmin (''api_keys'', ''apikey'')
     \<lparr>ac_list_display := [''name'', ''owner'', ''prefix'', ''created_at'', ''last_used_at'', ''expires_at'', ''revoked_at''],
      ac_list_filter := [''created_at'', ''last_used_at'', ''expires_at'', ''revoked_at''],
      ac_search_fields := [''name'', ''owner__email'', ''prefix''],
      ac_autocomplete_fields := [''owner''],
      ac_readonly_fields := [''id'', ''prefix'', ''created_at'', ''last_used_at'', ''last_used_ip'', ''revoked_at''],
      ac_exclude := [''key_hash''],
      ac_actions := [''revoke_selected'']\<rparr>"

definition WebhookEndpointAdmin :: admin_class where
  "WebhookEndpointAdmin = AuditedAdmin (''webhooks'', ''webhookendpoint'')
     \<lparr>ac_list_display := [''name'', ''owner'', ''url'', ''is_active'', ''updated_at''],
      ac_list_filter := [''is_active'', ''created_at''],
      ac_search_fields := [''name'', ''url'', ''owner__email''],
      ac_autocomplete_fields := [''owner''],
      ac_readonly_fields := [''id'', ''created_at'', ''updated_at''],
      ac_exclude := [''secret_hash'', ''encrypted_secret'']\<rparr>"

definition WebhookEventAdmin :: admin_class where
  "WebhookEventAdmin = ModelAdmin (''webhooks'', ''webhookevent'')
     \<lparr>ac_list_display := [''event_type'', ''created_at''],
      ac_list_filter := [''event_type'', ''created_at''],
      ac_readonly_fields := field_names WebhookEvent_class,
      ac_refuses := WebhookEventAdmin_refuses\<rparr>"

definition WebhookDeliveryAdmin :: admin_class where
  "WebhookDeliveryAdmin = ModelAdmin (''webhooks'', ''webhookdelivery'')
     \<lparr>ac_list_display := [''endpoint'', ''event'', ''status'', ''attempt_count'', ''response_code'', ''last_attempt_at'', ''next_retry_at''],
      ac_list_filter := [''status'', ''response_code'', ''last_attempt_at'', ''next_retry_at''],
      ac_search_fields := [''endpoint__name'', ''event__event_type''],
      ac_readonly_fields := field_names WebhookDelivery_class,
      ac_refuses := WebhookDeliveryAdmin_refuses\<rparr>"

definition SettingAdmin :: admin_class where
  "SettingAdmin = AuditedAdmin (''core'', ''setting'')
     \<lparr>ac_list_display := [''key'', ''value_type'', ''group'', ''is_public'', ''updated_at''],
      ac_list_filter := [''value_type'', ''group'', ''is_public''],
      ac_search_fields := [''key'', ''description''],
      ac_readonly_fields := [''id'', ''created_at'', ''updated_at'']\<rparr>"

definition FeatureFlagAdmin :: admin_class where
  "FeatureFlagAdmin = AuditedAdmin (''core'', ''featureflag'')
     \<lparr>ac_list_display := [''key'', ''enabled'', ''updated_at''],
      ac_list_filter := [''enabled''],
      ac_search_fields := [''key'', ''description''],
      ac_readonly_fields := [''id'', ''created_at'', ''updated_at'']\<rparr>"

definition IdempotencyRecordAdmin :: admin_class where
  "IdempotencyRecordAdmin = ModelAdmin (''core'', ''idempotencyrecord'')
     \<lparr>ac_list_display := [''user'', ''request_method'', ''request_path'', ''response_status'', ''created_at'', ''expires_at''],
      ac_list_filter := [''request_method'', ''response_status'', ''created_at'', ''expires_at''],
      ac_search_fields := [''user__email'', ''request_path''],
      ac_readonly_fields := field_names IdempotencyRecord_class,
      ac_exclude := [''key_hash'', ''request_hash'', ''response_body''],
      ac_refuses := IdempotencyRecordAdmin_refuses\<rparr>"

section \<open>The pages\<close>

definition admin_site :: "(admin_class \<times> model) list" where
  \<comment> \<open>the registered classes with the models that they are registered for\<close>
  "admin_site =
     [(UserAdmin, User_class inherited_columns), (UserBanAdmin, UserBan_class), (UserSessionAdmin, UserSession_class),
      (OneTimeTokenAdmin, OneTimeToken_class), (TwoFactorCredentialAdmin, TwoFactorCredential_class), (RecoveryCodeAdmin, RecoveryCode_class),
      (RoleAdmin, Role_class), (PermissionAdmin, Permission_class), (UserRoleAdmin, UserRole_class),
      (UserPermissionOverrideAdmin, UserPermissionOverride_class), (SecurityEventAdmin, SecurityEvent_class),
      (LoginThrottleStateAdmin, LoginThrottleState_class), (AuditLogAdmin, AuditLog_class), (NotificationAdmin, Notification_class),
      (StoredFileAdmin, StoredFile_class), (APIKeyAdmin, APIKey_class), (WebhookEndpointAdmin, WebhookEndpoint_class),
      (WebhookEventAdmin, WebhookEvent_class), (WebhookDeliveryAdmin, WebhookDelivery_class), (SettingAdmin, Setting_class),
      (FeatureFlagAdmin, FeatureFlag_class), (IdempotencyRecordAdmin, IdempotencyRecord_class)]"

text \<open>
  The page that adds or changes an object shows the declared field sets or else the form's fields followed by the read-only ones; \<^verbatim>\<open>exclude\<close> takes
  a field from the form only. The form has the editable columns, without a many-to-many field that has its own link model. The creation
  form of accounts stores \<^verbatim>\<open>password1\<close> in the column \<^verbatim>\<open>password\<close>.
\<close>

definition form_column :: "column \<Rightarrow> bool" where
  "form_column c \<longleftrightarrow> c_editable c \<and> c_default c \<noteq> AutoNow \<and> c_default c \<noteq> AutoNowAdd \<and>
     (case c_type c of ManyToManyField _ (Some _) _ \<Rightarrow> False | _ \<Rightarrow> True)"

definition stored_column :: "string \<Rightarrow> string" where
  "stored_column f = (if f = ''password1'' \<or> f = ''password2'' then ''password'' else f)"

definition page_fields :: "admin_class \<times> model \<Rightarrow> admin_operation \<Rightarrow> string list" where
  "page_fields cm op = (let c = fst cm;
       sets = (if op = AdminAdd \<and> ac_add_fieldsets c \<noteq> [] then ac_add_fieldsets c else ac_fieldsets c) in
     if sets \<noteq> [] then map stored_column (concat (map snd sets))
     else map fst (filter (\<lambda>(f, col). form_column col \<and> f \<notin> set (ac_exclude c) \<and> f \<notin> set (ac_readonly_fields c)) (md_columns (snd cm)))
       @ ac_readonly_fields c)"

definition form_writes :: "admin_class \<times> model \<Rightarrow> admin_operation \<Rightarrow> string list" where
  "form_writes cm op = (if ac_refuses (fst cm) op then [] else filter (\<lambda>f. f \<notin> set (ac_readonly_fields (fst cm))) (page_fields cm op))"

definition required_columns :: "model \<Rightarrow> string list" where
  \<comment> \<open>the columns without which a row means nothing: no default, not nullable, not blank\<close>
  "required_columns m = map fst (filter (\<lambda>(_, c). \<not> c_null c \<and> \<not> c_blank c \<and> c_default c = NoDefault \<and> \<not> is_many_to_many (c_type c)) (md_columns m))"

definition unfilled :: "admin_class \<times> model \<Rightarrow> string list" where
  \<comment> \<open>the required columns that the page for a new object leaves empty\<close>
  "unfilled cm = (if ac_refuses (fst cm) AdminAdd then [] else filter (\<lambda>f. f \<notin> set (form_writes cm AdminAdd)) (required_columns (snd cm)))"

definition secret_column :: "string \<Rightarrow> bool" where
  "secret_column f \<longleftrightarrow> startswith ''encrypted_'' f \<or> startswith (rev ''_hash'') (rev f)"

section \<open>The system checks\<close>

fun path_parts :: "string \<Rightarrow> string \<Rightarrow> string list" where
  \<comment> \<open>\<^verbatim>\<open>path.split("__")\<close>; the second argument is the part read so far, reversed\<close>
  "path_parts (CHR ''_'' # CHR ''_'' # cs) part = rev part # path_parts cs []"
| "path_parts (c # cs) part = path_parts cs (c # part)"
| "path_parts [] part = [rev part]"

definition model_at :: "model_ref \<Rightarrow> model option" where
  "model_at r = (case map_of (declared inherited_columns) (fst r) of None \<Rightarrow> None | Some ms \<Rightarrow> find_model (snd r) ms)"

definition column_of :: "model \<Rightarrow> string \<Rightarrow> column option" where
  "column_of m f = map_of (md_columns m) f"

definition related :: "model \<Rightarrow> string \<Rightarrow> model_ref list" where
  "related m f = (case column_of m f of None \<Rightarrow> [] | Some c \<Rightarrow> references (c_type c))"

fun path_resolves :: "model \<Rightarrow> string list \<Rightarrow> bool" where
  "path_resolves m [] = False"
| "path_resolves m (f # fs) = (column_of m f \<noteq> None \<and> (fs = [] \<or>
     (case related m f of [] \<Rightarrow> False | r # _ \<Rightarrow> (case model_at r of None \<Rightarrow> False | Some n \<Rightarrow> path_resolves n fs))))"

definition searchable :: "model_ref \<Rightarrow> bool" where
  "searchable r \<longleftrightarrow> list_ex (\<lambda>cm. ac_model (fst cm) = r \<and> ac_search_fields (fst cm) \<noteq> []) admin_site"

definition autocompletes :: "model \<Rightarrow> string \<Rightarrow> bool" where
  "autocompletes m f \<longleftrightarrow> (case related m f of [] \<Rightarrow> False | r # _ \<Rightarrow> searchable r)"

definition inline_fits :: "model_ref \<Rightarrow> inline_class \<Rightarrow> bool" where
  \<comment> \<open>one foreign key leads from the model of the inline to that of the class\<close>
  "inline_fits r i = (case model_at (in_model i) of None \<Rightarrow> False | Some m \<Rightarrow>
     length (filter (\<lambda>(_, c). references (c_type c) = [r]) (md_columns m)) = 1 \<and>
     list_all (\<lambda>f. column_of m f \<noteq> None) (in_readonly_fields i) \<and> list_all (autocompletes m) (in_autocomplete_fields i))"

definition names_ok :: "admin_class \<times> model \<Rightarrow> bool" where
  "names_ok cm = (let c = fst cm; m = snd cm in
     list_all (\<lambda>f. column_of m f \<noteq> None)
       (ac_list_display c @ ac_list_filter c @ ac_readonly_fields c @ ac_exclude c @ map (\<lambda>f. case f of CHR ''-'' # g \<Rightarrow> g | _ \<Rightarrow> f) (ac_ordering c)))"

definition pages_ok :: "admin_class \<times> model \<Rightarrow> bool" where
  "pages_ok cm = (let c = fst cm; m = snd cm in
     list_all (\<lambda>f. case column_of m f of None \<Rightarrow> False | Some col \<Rightarrow> is_many_to_many (c_type col)) (ac_filter_horizontal c) \<and>
     (case ac_date_hierarchy c of None \<Rightarrow> True | Some f \<Rightarrow> (case column_of m f of None \<Rightarrow> False | Some col \<Rightarrow> c_type col = DateTimeField)) \<and>
     list_all (\<lambda>(f, fs). list_all (\<lambda>g. column_of m g \<noteq> None \<and> related m g = []) (f # fs)) (ac_prepopulated_fields c) \<and>
     distinct (concat (map snd (ac_fieldsets c))) \<and> distinct (concat (map snd (ac_add_fieldsets c))) \<and>
     list_all (\<lambda>f. column_of m (stored_column f) \<noteq> None) (concat (map snd (ac_fieldsets c @ ac_add_fieldsets c))))"

definition relations_ok :: "admin_class \<times> model \<Rightarrow> bool" where
  "relations_ok cm = (let c = fst cm; m = snd cm in
     list_all (autocompletes m) (ac_autocomplete_fields c) \<and> list_all (inline_fits (ac_model c)) (ac_inlines c) \<and>
     list_all (\<lambda>f. path_resolves m (path_parts f [])) (ac_search_fields c))"

section \<open>What the pages give\<close>

text \<open>
  Nothing is written through a form of the site without an audit row: a class outside \<^verbatim>\<open>AuditAdminMixin\<close> offers no field to write. Deleting
  is another matter: seven of these classes let an administrator delete rows without one, sessions and second factors among them.
\<close>

theorem admin_edits_are_audited:
  "list_all (\<lambda>cm. ac_audited (fst cm) \<or> form_writes cm AdminAdd = [] \<and> form_writes cm AdminChange = []) admin_site \<and>
   map (ac_model \<circ> fst) (filter (\<lambda>cm. \<not> ac_audited (fst cm) \<and> \<not> ac_refuses (fst cm) AdminDelete) admin_site) =
     [(''authentication'', ''usersession''), (''authentication'', ''onetimetoken''), (''authentication'', ''twofactorcredential''),
      (''authentication'', ''recoverycode''), (''webhooks'', ''webhookevent''), (''webhooks'', ''webhookdelivery''), (''core'', ''idempotencyrecord'')]"
  by code_simp

text \<open>
  No form writes a hash or an encrypted value. Two classes show hashes all the same, since \<^verbatim>\<open>readonly_fields\<close> lists every column; for
  \<^verbatim>\<open>IdempotencyRecordAdmin\<close> these are columns that it means to exclude, the stored response among them.
\<close>

theorem admin_forms_write_no_secret:
  "list_all (\<lambda>cm. list_all (\<lambda>f. \<not> secret_column f) (form_writes cm AdminAdd @ form_writes cm AdminChange)) admin_site"
  by code_simp

theorem admin_shows_secrets:
  "filter (\<lambda>x. snd x \<noteq> []) (map (\<lambda>cm. (ac_model (fst cm), filter secret_column (page_fields cm AdminChange))) admin_site) =
     [((''security'', ''loginthrottlestate''), [''dimension_hash'']), ((''core'', ''idempotencyrecord''), [''key_hash'', ''request_hash''])]"
  by code_simp

theorem admin_exclude_ignored:
  "filter (\<lambda>x. snd x \<noteq> []) (map (\<lambda>cm. (ac_model (fst cm), filter (\<lambda>f. f \<in> set (page_fields cm AdminChange)) (ac_exclude (fst cm)))) admin_site) =
     [((''core'', ''idempotencyrecord''), [''key_hash'', ''request_hash'', ''response_body''])]"
  by code_simp

text \<open>
  The page for a new object can make a complete row of every model but three: it leaves the prefix and the hash of an API key, the secret of a
  webhook endpoint, and the type, size and checksum of a file empty, because the services that compute these are not called.
\<close>

theorem admin_incomplete_rows:
  "filter (\<lambda>x. snd x \<noteq> []) (map (\<lambda>cm. (ac_model (fst cm), unfilled cm)) admin_site) =
     [((''files'', ''storedfile''), [''content_type'', ''size'', ''checksum_sha256'']), ((''api_keys'', ''apikey''), [''prefix'', ''key_hash'']),
      ((''webhooks'', ''webhookendpoint''), [''secret_hash'', ''encrypted_secret''])]"
  by code_simp

text \<open>
  An account cannot be moved to the statuses of the ban and deletion services by editing it, but it can be created in them: only the change form has
  the method that refuses.
\<close>

theorem creation_form_skips_lifecycle:
  "map_option (\<lambda>f. uf_clean_status f status) (ac_form UserAdmin) = Some (Inr status) \<longleftrightarrow> status \<noteq> BANNED \<and> status \<noteq> DELETED"
  "map_option (\<lambda>f. uf_clean_status f status) (ac_add_form UserAdmin) = Some (Inr status)"
  "''status'' \<in> set (form_writes (UserAdmin, User_class inherited) AdminAdd)"
  by (simp_all add: form_writes_def page_fields_def UserAdmin_def AuditedAdmin_def ModelAdmin_def stored_column_def SafeUserChangeForm_def
      SafeUserCreationForm_def clean_status_def)

lemma model_at_targets:
  "model_at (''accounts'', ''user'') = Some (User_class inherited_columns)" "model_at (''authorization'', ''role'') = Some Role_class"
  "model_at (''authorization'', ''permission'') = Some Permission_class" "model_at (''webhooks'', ''webhookendpoint'') = Some WebhookEndpoint_class"
  "model_at (''webhooks'', ''webhookevent'') = Some WebhookEvent_class" "model_at (''accounts'', ''userprofile'') = Some UserProfile_class"
  "model_at (''accounts'', ''userpreferences'') = Some UserPreferences_class"
  "model_at (''accounts'', ''usersecuritysettings'') = Some UserSecuritySettings_class"
  "model_at (''authorization'', ''rolepermission'') = Some RolePermission_class"
  by code_simp+

lemma searchable_models: "map ac_model (filter (\<lambda>c. ac_search_fields c \<noteq> []) (map fst admin_site)) =
   [(''accounts'', ''user''), (''accounts'', ''userban''), (''authentication'', ''usersession''), (''authentication'', ''onetimetoken''),
    (''authentication'', ''twofactorcredential''), (''authorization'', ''role''), (''authorization'', ''permission''), (''authorization'', ''userrole''),
    (''authorization'', ''userpermissionoverride''), (''security'', ''securityevent''), (''audit'', ''auditlog''), (''notifications'', ''notification''),
    (''files'', ''storedfile''), (''api_keys'', ''apikey''), (''webhooks'', ''webhookendpoint''), (''webhooks'', ''webhookdelivery''),
    (''core'', ''setting''), (''core'', ''featureflag''), (''core'', ''idempotencyrecord'')]"
  by code_simp

lemma searchable_targets: "searchable (''accounts'', ''user'')" "searchable (''authorization'', ''role'')" "searchable (''authorization'', ''permission'')"
proof -
  have "searchable r" if "r \<in> set (map ac_model (filter (\<lambda>c. ac_search_fields c \<noteq> []) (map fst admin_site)))" for r
    using that by (auto simp: searchable_def list_ex_iff)
  note r = this [unfolded searchable_models]
  show "searchable (''accounts'', ''user'')" "searchable (''authorization'', ''role'')" "searchable (''authorization'', ''permission'')"
    by (rule r; simp)+
qed

lemma model_at_code [code]: "model_at r =
   (if r = (''accounts'', ''user'') then Some (User_class inherited_columns)
    else if r = (''authorization'', ''role'') then Some Role_class
    else if r = (''authorization'', ''permission'') then Some Permission_class
    else if r = (''webhooks'', ''webhookendpoint'') then Some WebhookEndpoint_class
    else if r = (''webhooks'', ''webhookevent'') then Some WebhookEvent_class
    else case map_of (declared inherited_columns) (fst r) of None \<Rightarrow> None | Some ms \<Rightarrow> find_model (snd r) ms)"
  unfolding model_at_def [of r, symmetric] by (simp add: model_at_targets)

lemma searchable_code [code]: "searchable r \<longleftrightarrow> r = (''accounts'', ''user'') \<or> r = (''authorization'', ''role'') \<or>
   r = (''authorization'', ''permission'') \<or> list_ex (\<lambda>cm. ac_model (fst cm) = r \<and> ac_search_fields (fst cm) \<noteq> []) admin_site"
  unfolding searchable_def [of r, symmetric] using searchable_targets by blast

lemma site_names: "list_all names_ok admin_site"
  by code_simp

lemma site_pages: "list_all pages_ok admin_site"
  by code_simp

lemma site_relations: "list_all relations_ok admin_site"
  by code_simp

lemma site_registered: "list_all (\<lambda>cm. model_at (ac_model (fst cm)) = Some (snd cm)) admin_site"
  by code_simp

text \<open>
  The declarations pass the system checks: each model is registered once, by a class whose attributes name columns of it, whose searches
  lead to columns, and whose automatic completions lead to a model that can be searched.
\<close>

theorem admin_checks_pass:
  assumes "cm \<in> set admin_site"
  shows "model_at (ac_model (fst cm)) = Some (snd cm) \<and> names_ok cm \<and> pages_ok cm \<and> relations_ok cm \<and>
    (\<forall>dm\<in>set admin_site. ac_model (fst dm) = ac_model (fst cm) \<longrightarrow> dm = cm)"
proof -
  have "distinct (map (ac_model \<circ> fst) admin_site)" by code_simp
  then have "inj_on (ac_model \<circ> fst) (set admin_site)" by (simp add: distinct_map)
  then have "\<forall>dm\<in>set admin_site. ac_model (fst dm) = ac_model (fst cm) \<longrightarrow> dm = cm" using assms by (auto simp: inj_on_def)
  then show ?thesis using assms site_names site_pages site_relations site_registered by (auto simp: list_all_iff)
qed

end
