(* ===== verification/Spec2Isabelle.thy ===== *)
theory Spec2Isabelle
  imports TokenSpec Administration AuthorizationApi Webhooks RuntimeSettings Notifications Files Routing Throttling
    SettingsModules Constraints ForeignKeys Maintenance AdminSite
begin

text \<open>
  A verification development for the Django application foundation in \<^verbatim>\<open>src/\<close>: accounts, sign-in, roles, API keys,
  webhooks, notifications, files and runtime settings behind a REST interface and an administration site.

  \<^bold>\<open>The program and how its parts interact.\<close> Views (\<^verbatim>\<open>apps/api/views\<close>) check who calls, validate the data with a
  serializer (\<^verbatim>\<open>apps/api/serializers\<close>) and call one service of an application (\<^verbatim>\<open>apps/*/services.py\<close>); background tasks
  (\<^verbatim>\<open>apps/*/tasks.py\<close>), management commands and the administration site (\<^verbatim>\<open>admin.py\<close>) call the same services. The services
  read and write the tables of the \<^verbatim>\<open>models.py\<close> files, the cache and Django's own session table, queue mail and tasks, and record
  what they did in two histories, security events and audit logs. Closing an account, a ban, a password change or an edit by an
  administrator all end in the same pair of calls, \<^verbatim>\<open>SessionService.revoke_all\<close> and \<^verbatim>\<open>TokenService.revoke_all_jwt\<close>.

  \<^bold>\<open>How the model is built.\<close> The state of a call is the record \<open>db\<close> of Models: the instant of the call, the supply of primary
  keys, one list per table, the cache, the mail and the tasks handed over. An operation maps a state to a result, an error or a value,
  and the state it leaves (Operations); \<open>atomic\<close> gives the state back when the body raises, and what is not atomic in the source keeps
  what it wrote before the error. Errors are the constructors of \<open>error\<close>, one for each exception class that the code raises or
  catches. Settings and outside code are the record \<open>env\<close> of Environment: hash functions, Fernet, password hashing and validation,
  the e-mail helpers, the TOTP library, user-agent and address parsers are its fields, and what is documented of them is the predicate
  \<open>platform_laws\<close>, which a concrete platform is shown to satisfy. Random values (raw tokens, secrets, salts, identifiers of sessions)
  are arguments. Instants are microseconds as unbounded integers, like Python's; counters are natural numbers.

  \<^bold>\<open>The theories, and the code they model.\<close>
  \<^item> Prelude, Operations, Stamps: strings, instants, the operations and their calculus (\<open>preserves\<close>, \<open>keeps\<close>), tables, and two
    contracts: \<open>keyed_table\<close> (a table with a unique column) and \<open>stamped\<close> (an instant that is set once). Nothing of one application.
  \<^item> Models: the tables and their properties (\<^verbatim>\<open>apps/*/models.py\<close>, \<^verbatim>\<open>common/models.py\<close>). Environment: settings, the request, outside
    code, \<^verbatim>\<open>common/crypto.py\<close>, \<^verbatim>\<open>common/utils/network.py\<close>. Logging: \<^verbatim>\<open>common/logging.py\<close>. Cache, Mail, Json: the cache,
    \<^verbatim>\<open>common/services/email.py\<close>, \<^verbatim>\<open>json.dumps\<close>.
  \<^item> Events: \<^verbatim>\<open>apps/security\<close> (the history) and \<^verbatim>\<open>apps/audit\<close>. Throttle: login protection (\<^verbatim>\<open>apps/security/services.py\<close>).
  \<^item> UserRows, Tokens, TokenSpec, Sessions, SignOut, TwoFactor, Login, Accounts: \<^verbatim>\<open>apps/authentication\<close> and \<^verbatim>\<open>apps/accounts/models.py\<close>;
    TokenSpec is the specification that Tokens implements. Bans: \<^verbatim>\<open>apps/accounts/services.py\<close> and \<^verbatim>\<open>tasks.py\<close>.
  \<^item> Authorization, Bootstrap: \<^verbatim>\<open>apps/authorization\<close>, \<^verbatim>\<open>common/permissions\<close> and the commands \<^verbatim>\<open>bootstrap\<close> and \<^verbatim>\<open>seed\<close>.
  \<^item> ApiKeys, Webhooks, Notifications, Files, RuntimeSettings: the applications of these names (\<^verbatim>\<open>apps/core\<close> for the last).
  \<^item> Http, Access, Idempotency: the envelope, the exception handler and the middlewares of \<^verbatim>\<open>common/\<close>, the guard of a view, and
    \<^verbatim>\<open>common/idempotency.py\<close>.
  \<^item> AuthApi, AccountApi, AuthorizationApi: the views \<^verbatim>\<open>auth.py\<close>, \<^verbatim>\<open>accounts.py\<close>, \<^verbatim>\<open>sessions.py\<close>, \<^verbatim>\<open>api_keys.py\<close> and
    \<^verbatim>\<open>authorization.py\<close> with their serializers; the views of settings, flags and notifications are in RuntimeSettings and Notifications.
  \<^item> Routing, Throttling: \<^verbatim>\<open>config/urls.py\<close>, \<^verbatim>\<open>apps/api/urls.py\<close> and \<^verbatim>\<open>apps/api/throttles.py\<close>.
  \<^item> Administration: \<^verbatim>\<open>common/admin.py\<close> and the overridden methods of every \<^verbatim>\<open>admin.py\<close>. AdminSite: the classes of
    these files as they are declared, with the pages that Django makes of them.
  \<^item> Maintenance: the beat schedule with the tasks it names, and the clean-up and health commands of \<^verbatim>\<open>apps/core/management\<close>.
  \<^item> Configuration, SettingsModules: \<^verbatim>\<open>config/settings\<close>. The first has the checks of \<^verbatim>\<open>database.py\<close>, \<^verbatim>\<open>base.py\<close> and
    \<^verbatim>\<open>production.py\<close>, the second loads each settings module from the environment of a process, in the order of its lines.
  \<^item> Schema, Declarations, Migrations: the language of tables and migrations, the model classes of \<^verbatim>\<open>apps/*/models.py\<close> as tables, and
    every migration of \<^verbatim>\<open>apps/*/migrations\<close>. MigrationOrder, ForeignKeys, Constraints: what the migrations build in any order, what a
    deletion takes with it, and that the operations of the other theories enforce the keys and checks of the migrated tables.

  \<^bold>\<open>Contracts between components.\<close> Each is a locale, interpreted where it is provided: \<open>keyed_table\<close> for every table that is looked
  up by a unique column; \<open>stamped\<close> for one-time tokens, recovery codes, sessions, API keys and bans, whose single use and lasting
  revocation rest on it; \<open>expiring_store\<close> for the cache under the settings service and the throttle; \<open>account_closing\<close> for the pair
  of calls that signs a user out, on which bans, account operations and the administration rest; \<open>account_gate\<close> for the ways of
  presenting a credential, each of which yields only accounts that may authenticate; \<open>schema_table\<close> between a table of the migrated
  schema and the rows of the component that fills it, interpreted for the twelve tables with keys or checks that operations look at.

  \<^bold>\<open>What the lemmas show.\<close> In each theory the \<open>_run\<close> lemmas give the result and the final state of an operation on every branch, the
  \<open>preserves\<close> lemmas what it leaves alone, and the properties follow:
  \<^item> credentials: a login passes every gate, tokens, recovery codes and keys are accepted once or until revoked, tokens of a suspended
    account are refused; the token table refines an abstract vault;
  \<^item> the life of an account: unique names and addresses under every sequence of operations, verification, reset, deletion, bans, and
    that closing operations leave no session and no refresh token;
  \<^item> rights: a denial wins, the administrative views change nothing without the permission or with an API key, a user's views reach
    his own rows only;
  \<^item> the histories: audit rows are redacted and only ever added; settings stay well typed and are read as they were set; a repeated
    request is answered from its record; the scheduled tasks revive no credential and lose nothing that is still due; deliveries of
    webhooks end, are never attempted twice at a time nor more than eight times; no form of the administration site writes without an
    audit row or writes a secret column;
  \<^item> the ground: a production process runs on secrets of its environment only; every order of the migrations builds the declared tables,
    services refuse exactly what these refuse, and no deletion reaches a history;
  \<^item> where the code does not do what it means to, the property says what it does: an account that keeps its ban for good, an assigned
    role that is logged as deleted, a setting whose audit row is empty of its old value, a crash that is retried for ever, and others.

  \<^bold>\<open>Bounds and fuel.\<close> No operation needs fuel: the loops of the code run over rows and end with them, so that every definition is
  total. The number of attempts of a delivery (eight), of rows handed out by one dispatch (a hundred), the lock durations and the delays
  of retries are the numbers of the source. What runs repeatedly, task workers, audit calls, account operations and settings calls, is a
  step relation whose runs are unbounded; so are the orders of the migrations.

  \<^bold>\<open>Simplifications.\<close> Letter case is that of ASCII. The time stamps of the authorization rows are not kept. A table is a list, read
  in the order of its class where the code reads it in order. Locks (\<^verbatim>\<open>select_for_update\<close>) are not modelled except for webhook deliveries,
  whose two transactions interleave; elsewhere a call runs alone.

  \<^bold>\<open>Not modelled.\<close> The OpenAPI extension, the WSGI, ASGI and Celery entry points, application configurations, and of the settings the
  templates, static paths and titles (declarations for the frameworks, without operations); labels, help texts and validators in the
  model classes; templates, rendering and SMTP; Django's forms and its deletion of users and other objects from the administration
  site; REST framework's validation of declared fields, its counting of requests and its filtering, ordering and paging of lists, of which
  only the page envelope is modelled.
\<close>

end
